(* ===== verification/Prelude.thy ===== *)
theory Prelude
  imports Main "HOL-Library.Multiset" "HOL-Library.Sublist"
begin

text \<open>
  Shared vocabulary of the development: Python strings and the \<open>str\<close> methods the
  source uses, Python's truthiness and \<open>or\<close>, timestamps with SQLite's loss of the
  time zone, and tables (lists of rows in insertion order) with their lookup and
  update operations. The lemmas that carry the component proofs are declared
  \<open>[simp]\<close> or collected in \<open>table_simps\<close>.

  Text is a list of 8-bit characters, read as the code points 0 to 255. On these the
  operations below agree with Python's \<open>str\<close> methods (white space includes
  0x1c to 0x1f, 0x85 and 0xa0, and \<open>lower\<close> maps the accented capitals too).
\<close>

named_theorems table_simps "lookup and update on tables"
named_theorems unit_defs "definitions unfolded when a concrete input is evaluated"

section \<open>Strings\<close>

type_synonym pystr = string

definition code_point :: "char \<Rightarrow> nat" where
  "code_point c = of_char c"

text \<open>\<open>str.isspace\<close> of one character.\<close>

definition is_space :: "char \<Rightarrow> bool" where
  "is_space c \<longleftrightarrow> c \<in> {CHR 0x09, CHR 0x0A, CHR 0x0B, CHR 0x0C, CHR 0x0D,
     CHR 0x1C, CHR 0x1D, CHR 0x1E, CHR 0x1F, CHR 0x20, CHR 0x85, CHR 0xA0}"

definition lower_char :: "char \<Rightarrow> char" where
  "lower_char c =
     (let n = code_point c in
      if (65 \<le> n \<and> n \<le> 90) \<or> (192 \<le> n \<and> n \<le> 214) \<or> (216 \<le> n \<and> n \<le> 222)
      then char_of (n + 32) else c)"

definition lower :: "pystr \<Rightarrow> pystr" where
  "lower s = map lower_char s"

definition is_ascii_digit :: "char \<Rightarrow> bool" where
  "is_ascii_digit c \<longleftrightarrow> 48 \<le> code_point c \<and> code_point c \<le> 57"

definition is_ascii_upper :: "char \<Rightarrow> bool" where
  "is_ascii_upper c \<longleftrightarrow> 65 \<le> code_point c \<and> code_point c \<le> 90"

definition is_ascii_lower :: "char \<Rightarrow> bool" where
  "is_ascii_lower c \<longleftrightarrow> 97 \<le> code_point c \<and> code_point c \<le> 122"

definition is_ascii_alpha :: "char \<Rightarrow> bool" where
  "is_ascii_alpha c \<longleftrightarrow> is_ascii_upper c \<or> is_ascii_lower c"

text \<open>\<open>str.upper\<close>, on ASCII letters only (the only characters the source applies it to).\<close>

definition upper_ascii :: "pystr \<Rightarrow> pystr" where
  "upper_ascii s =
     map (\<lambda>c. if is_ascii_lower c then char_of (code_point c - 32) else c) s"

definition lstrip_by :: "(char \<Rightarrow> bool) \<Rightarrow> pystr \<Rightarrow> pystr" where
  "lstrip_by p s = dropWhile p s"

definition rstrip_by :: "(char \<Rightarrow> bool) \<Rightarrow> pystr \<Rightarrow> pystr" where
  "rstrip_by p s = rev (dropWhile p (rev s))"

definition strip_by :: "(char \<Rightarrow> bool) \<Rightarrow> pystr \<Rightarrow> pystr" where
  "strip_by p s = rstrip_by p (lstrip_by p s)"

definition strip :: "pystr \<Rightarrow> pystr" where
  "strip s = strip_by is_space s"

definition lstrip :: "pystr \<Rightarrow> pystr" where
  "lstrip s = lstrip_by is_space s"

definition starts_with :: "pystr \<Rightarrow> pystr \<Rightarrow> bool" where
  "starts_with s p \<longleftrightarrow> take (length p) s = p"

definition ends_with :: "pystr \<Rightarrow> pystr \<Rightarrow> bool" where
  "ends_with s p \<longleftrightarrow> starts_with (rev s) (rev p)"

text \<open>\<open>p in s\<close> for strings.\<close>

fun contains :: "pystr \<Rightarrow> pystr \<Rightarrow> bool" where
  "contains [] p = (p = [])"
| "contains (c # s) p = (starts_with (c # s) p \<or> contains s p)"

text \<open>
  \<open>s.partition(c)\<close> and \<open>s.rpartition(c)\<close> for a one-character separator: the part
  before, whether the separator occurred, the part after.
\<close>

definition partition_at :: "char \<Rightarrow> pystr \<Rightarrow> pystr \<times> bool \<times> pystr" where
  "partition_at c s =
     (takeWhile (\<lambda>d. d \<noteq> c) s, c \<in> set s, drop 1 (dropWhile (\<lambda>d. d \<noteq> c) s))"

definition rpartition_at :: "char \<Rightarrow> pystr \<Rightarrow> pystr \<times> bool \<times> pystr" where
  "rpartition_at c s =
     (if c \<in> set s
      then (rev (drop 1 (dropWhile (\<lambda>d. d \<noteq> c) (rev s))), True,
            rev (takeWhile (\<lambda>d. d \<noteq> c) (rev s)))
      else ([], False, s))"

text \<open>\<open>s.split(c)\<close>: always at least one piece.\<close>

fun split_at_char :: "char \<Rightarrow> pystr \<Rightarrow> pystr list" where
  "split_at_char c [] = [[]]"
| "split_at_char c (d # s) =
     (if d = c then [] # split_at_char c s
      else (case split_at_char c s of
              [] \<Rightarrow> [[d]]
            | w # ws \<Rightarrow> (d # w) # ws))"

text \<open>\<open>s.split()\<close>: the maximal runs of non-space characters.\<close>

function words :: "pystr \<Rightarrow> pystr list" where
  "words s =
     (let t = dropWhile is_space s in
      if t = [] then []
      else takeWhile (\<lambda>c. \<not> is_space c) t # words (dropWhile (\<lambda>c. \<not> is_space c) t))"
  by pat_completeness auto
termination
proof (relation "measure length", simp, goal_cases)
  case (1 s t)
  have "length t \<le> length s"
    using 1 by (simp add: length_dropWhile_le)
  moreover obtain c r where t: "t = c # r"
    using 1 by (metis neq_Nil_conv)
  moreover have "\<not> is_space c"
    using 1 t hd_dropWhile [of is_space s] by (metis list.sel(1))
  ultimately show ?case
    using length_dropWhile_le [of "\<lambda>c. \<not> is_space c" r] by (simp add: less_Suc_eq_le)
qed

declare words.simps [simp del]

text \<open>\<open>sep.join(xs)\<close>.\<close>

fun join :: "pystr \<Rightarrow> pystr list \<Rightarrow> pystr" where
  "join sep [] = []"
| "join sep [x] = x"
| "join sep (x # y # xs) = x @ sep @ join sep (y # xs)"

definition is_line_break :: "char \<Rightarrow> bool" where
  "is_line_break c \<longleftrightarrow> c \<in> {CHR 0x0A, CHR 0x0B, CHR 0x0C, CHR 0x0D,
     CHR 0x1C, CHR 0x1D, CHR 0x1E, CHR 0x85}"

text \<open>
  \<open>s.splitlines(keepends=True)\<close>: the line breaks of \<open>str.splitlines\<close> below code
  point 256, with CR LF taken as one; no piece for an empty rest.
\<close>

fun split_keep :: "pystr \<Rightarrow> pystr \<Rightarrow> pystr list" where
  "split_keep acc [] = (if acc = [] then [] else [rev acc])"
| "split_keep acc (c # s) =
     (if c = CHR 0x0D \<and> s \<noteq> [] \<and> hd s = CHR 0x0A
      then rev (CHR 0x0A # c # acc) # split_keep [] (tl s)
      else if is_line_break c then rev (c # acc) # split_keep [] s
      else split_keep (c # acc) s)"

definition splitlines_keep :: "pystr \<Rightarrow> pystr list" where
  "splitlines_keep s = split_keep [] s"

definition splitlines :: "pystr \<Rightarrow> pystr list" where
  "splitlines s = map (takeWhile (\<lambda>c. \<not> is_line_break c)) (splitlines_keep s)"

lemma concat_split_keep: "concat (split_keep acc s) = rev acc @ s"
proof (induction acc s rule: split_keep.induct)
  case (1 acc)
  then show ?case by simp
next
  case (2 acc c s)
  then show ?case by (cases s) auto
qed

lemma concat_splitlines_keep [simp]: "concat (splitlines_keep s) = s"
  by (simp add: splitlines_keep_def concat_split_keep)

lemma starts_with_iff: "starts_with s p \<longleftrightarrow> (\<exists>t. s = p @ t)"
  unfolding starts_with_def by (metis append_eq_conv_conj append_take_drop_id)

lemma starts_with_refl [simp]: "starts_with (p @ t) p"
  by (auto simp: starts_with_iff)

lemma contains_iff: "contains s p \<longleftrightarrow> (\<exists>u v. s = u @ p @ v)"
proof (induction s)
  case Nil
  then show ?case by auto
next
  case (Cons c s)
  have "(\<exists>u v. c # s = u @ p @ v) \<longleftrightarrow>
    (\<exists>v. c # s = p @ v) \<or> (\<exists>u v. s = u @ p @ v)" (is "?L \<longleftrightarrow> ?R")
  proof
    assume ?L
    then obtain u v where "c # s = u @ p @ v" by blast
    then show ?R by (cases u) auto
  next
    assume ?R
    then show ?L by (metis append_Cons append_Nil)
  qed
  then show ?case using Cons.IH by (simp add: starts_with_iff)
qed

lemma partition_at_Some:
  "partition_at c s = (a, True, b) \<Longrightarrow> s = a @ c # b \<and> c \<notin> set a"
proof -
  assume "partition_at c s = (a, True, b)"
  then have c: "c \<in> set s" and a: "a = takeWhile (\<lambda>d. d \<noteq> c) s"
    and b: "b = drop 1 (dropWhile (\<lambda>d. d \<noteq> c) s)"
    by (auto simp: partition_at_def)
  have "dropWhile (\<lambda>d. d \<noteq> c) s = c # b"
    using c b hd_dropWhile [of "\<lambda>d. d \<noteq> c" s]
    by (cases "dropWhile (\<lambda>d. d \<noteq> c) s") auto
  then show ?thesis
    using a takeWhile_dropWhile_id [of "\<lambda>d. d \<noteq> c" s] by (auto dest: set_takeWhileD)
qed

lemma takeWhile_neq_append: "c \<notin> set a \<Longrightarrow> takeWhile (\<lambda>d. d \<noteq> c) (a @ c # b) = a"
  by (induction a) auto

lemma dropWhile_neq_append: "c \<notin> set a \<Longrightarrow> dropWhile (\<lambda>d. d \<noteq> c) (a @ c # b) = c # b"
  by (induction a) auto

lemma partition_at_append [simp]:
  "c \<notin> set a \<Longrightarrow> partition_at c (a @ c # b) = (a, True, b)"
  by (simp add: partition_at_def takeWhile_neq_append dropWhile_neq_append)

lemma rpartition_at_Some:
  "rpartition_at c s = (a, True, b) \<Longrightarrow> s = a @ c # b \<and> c \<notin> set b"
proof -
  assume r: "rpartition_at c s = (a, True, b)"
  then have "partition_at c (rev s) = (rev b, True, rev a)"
    by (auto simp: rpartition_at_def partition_at_def split: if_splits)
  then have "rev s = rev b @ c # rev a \<and> c \<notin> set (rev b)"
    by (rule partition_at_Some)
  then show ?thesis by (metis append.assoc append_Cons append_Nil rev.simps(2) rev_append rev_swap set_rev)
qed

lemma dropWhile_id: "s = [] \<or> \<not> p (hd s) \<Longrightarrow> dropWhile p s = s"
  by (cases s) auto

lemma strip_by_id:
  assumes "s = [] \<or> (\<not> p (hd s) \<and> \<not> p (last s))"
  shows "strip_by p s = s"
proof -
  have "dropWhile p s = s" using assms by (auto intro: dropWhile_id)
  moreover have "dropWhile p (rev s) = rev s"
    using assms by (intro dropWhile_id) (auto simp: hd_rev)
  ultimately show ?thesis by (simp add: strip_by_def rstrip_by_def lstrip_by_def)
qed

lemma strip_Nil [simp]: "strip [] = []"
  by (simp add: strip_def strip_by_def rstrip_by_def lstrip_by_def)

section \<open>Optional values and Python's \<open>or\<close>\<close>

text \<open>Truth of an optional string: \<open>None\<close> and the empty string are false.\<close>

fun truthy :: "pystr option \<Rightarrow> bool" where
  "truthy None = False"
| "truthy (Some s) = (s \<noteq> [])"

definition or_text :: "pystr option \<Rightarrow> pystr option \<Rightarrow> pystr option" where
  "or_text a b = (if truthy a then a else b)"

text \<open>\<open>a or b\<close> where \<open>a\<close> is \<open>None\<close> or a value that is always true (an enum member, an object).\<close>

fun or_value :: "'a option \<Rightarrow> 'a option \<Rightarrow> 'a option" where
  "or_value None b = b"
| "or_value (Some a) b = Some a"

lemma truthy_iff: "truthy a \<longleftrightarrow> (\<exists>s. a = Some s \<and> s \<noteq> [])"
  by (cases a) auto

lemma or_value_None_iff [simp]: "or_value a b = None \<longleftrightarrow> a = None \<and> b = None"
  by (cases a) auto

lemma or_value_None_right [simp]: "or_value a None = a"
  by (cases a) auto

section \<open>Time\<close>

text \<open>
  Instants are microseconds of UTC. A \<open>datetime\<close> is naive or aware (always UTC in
  this program); comparing one of each is a \<open>TypeError\<close>, here \<open>None\<close>. A column
  read back from SQLite is naive whatever was written.
\<close>

type_synonym instant = int

datatype datetime = Naive instant | Aware instant

fun instant_of :: "datetime \<Rightarrow> instant" where
  "instant_of (Naive t) = t"
| "instant_of (Aware t) = t"

fun is_naive :: "datetime \<Rightarrow> bool" where
  "is_naive (Naive t) = True"
| "is_naive (Aware t) = False"

definition sqlite_datetime :: "datetime \<Rightarrow> datetime" where
  "sqlite_datetime d = Naive (instant_of d)"

fun dt_less :: "datetime \<Rightarrow> datetime \<Rightarrow> bool option" where
  "dt_less (Naive a) (Naive b) = Some (a < b)"
| "dt_less (Aware a) (Aware b) = Some (a < b)"
| "dt_less (Naive a) (Aware b) = None"
| "dt_less (Aware a) (Naive b) = None"

definition minutes :: "int \<Rightarrow> instant" where
  "minutes n = n * 60000000"

definition days :: "int \<Rightarrow> instant" where
  "days n = n * 86400000000"

lemma instant_of_sqlite [simp]: "instant_of (sqlite_datetime d) = instant_of d"
  by (simp add: sqlite_datetime_def)

section \<open>Tables\<close>

text \<open>
  A table is the list of its rows in insertion order. \<open>get_row\<close> is the lookup by
  primary key (\<open>session.get\<close>), \<open>put_row\<close> an UPDATE of the row with a key,
  \<open>drop_rows\<close> a DELETE.
\<close>

definition get_row :: "('r \<Rightarrow> 'k) \<Rightarrow> 'r list \<Rightarrow> 'k \<Rightarrow> 'r option" where
  "get_row key t k = find (\<lambda>r. key r = k) t"

definition put_row :: "('r \<Rightarrow> 'k) \<Rightarrow> 'k \<Rightarrow> ('r \<Rightarrow> 'r) \<Rightarrow> 'r list \<Rightarrow> 'r list" where
  "put_row key k f t = map (\<lambda>r. if key r = k then f r else r) t"

definition drop_rows :: "('r \<Rightarrow> bool) \<Rightarrow> 'r list \<Rightarrow> 'r list" where
  "drop_rows p t = filter (\<lambda>r. \<not> p r) t"

lemma find_append: "find p (xs @ ys) = (case find p xs of None \<Rightarrow> find p ys | Some x \<Rightarrow> Some x)"
  by (induction xs) auto

lemma get_row_Nil [simp]: "get_row key [] k = None"
  by (simp add: get_row_def)

lemma get_row_append [simp]:
  "get_row key (t @ u) k = (case get_row key t k of None \<Rightarrow> get_row key u k | Some r \<Rightarrow> Some r)"
  by (simp only: get_row_def find_append)

lemma get_row_single [simp]: "get_row key [r] k = (if key r = k then Some r else None)"
  by (simp add: get_row_def)

lemma get_row_SomeD: "get_row key t k = Some r \<Longrightarrow> r \<in> set t \<and> key r = k"
  by (auto simp: get_row_def find_Some_iff)

lemma get_row_None_iff: "get_row key t k = None \<longleftrightarrow> k \<notin> key ` set t"
  by (auto simp: get_row_def find_None_iff)

lemma get_row_put_row [table_simps]:
  assumes "\<And>r. key (f r) = key r"
  shows "get_row key (put_row key k f t) j =
    (if j = k then map_option f (get_row key t j) else get_row key t j)"
  by (induction t) (auto simp: get_row_def put_row_def assms)

lemma put_row_keys [table_simps]:
  "(\<And>r. key (f r) = key r) \<Longrightarrow> map key (put_row key k f t) = map key t"
  by (simp add: put_row_def)

lemma set_put_row:
  "set (put_row key k f t) = (\<lambda>r. if key r = k then f r else r) ` set t"
  by (simp add: put_row_def)

lemma length_put_row [simp]: "length (put_row key k f t) = length t"
  by (simp add: put_row_def)

lemma put_row_Nil [simp]: "put_row key k f [] = []"
  by (simp add: put_row_def)

lemma put_row_absent: "k \<notin> key ` set t \<Longrightarrow> put_row key k f t = t"
  by (induction t) (auto simp: put_row_def)

lemma get_row_unique:
  assumes "distinct (map key t)" "r \<in> set t"
  shows "get_row key t (key r) = Some r"
  using assms by (induction t) (auto simp: get_row_def)

section \<open>Printing values\<close>

fun show_nat :: "nat \<Rightarrow> pystr" where
  "show_nat n =
     (if n < 10 then [char_of (48 + n)] else show_nat (n div 10) @ [char_of (48 + n mod 10)])"

declare show_nat.simps [simp del]

definition show_int :: "int \<Rightarrow> pystr" where
  "show_int i = (if i < 0 then CHR ''-'' # show_nat (nat (- i)) else show_nat (nat i))"

definition hex_digit :: "nat \<Rightarrow> char" where
  "hex_digit n = (if n < 10 then char_of (48 + n) else char_of (87 + n))"

text \<open>\<open>repr\<close> of a string: the quote it picks and the escapes it writes.\<close>

definition repr_char :: "char \<Rightarrow> char \<Rightarrow> pystr" where
  "repr_char q c =
     (let n = code_point c in
      if c = q \<or> n = 92 then [CHR 0x5C, c]
      else if n = 9 then [CHR 0x5C, CHR ''t'']
      else if n = 10 then [CHR 0x5C, CHR ''n'']
      else if n = 13 then [CHR 0x5C, CHR ''r'']
      else if n < 32 \<or> (127 \<le> n \<and> n \<le> 160) \<or> n = 173
        then [CHR 0x5C, CHR ''x'', hex_digit (n div 16), hex_digit (n mod 16)]
      else [c])"

definition py_repr :: "pystr \<Rightarrow> pystr" where
  "py_repr s =
     (let q = (if CHR 0x27 \<in> set s \<and> CHR 0x22 \<notin> set s then CHR 0x22 else CHR 0x27)
      in q # concat (map (repr_char q) s) @ [q])"

end
