(* ===== verification/Models.thy ===== *)
theory Models
  imports Complex_Main Prelude
begin

text \<open>
  The tables of \<open>src/src/registry_mcp/models\<close>: every \<open>StrEnum\<close> as a datatype with
  its \<open>value\<close>, every SQLModel class as a record with the columns of the class. Column
  defaults are the fields of the \<open>new_...\<close> definitions. A JSON column holds a
  \<open>json\<close> value; a finite float is the rational it denotes.
\<close>

section \<open>JSON values\<close>

datatype json =
    JNull
  | JBool bool
  | JInt int
  | JFloat rat
  | JStr pystr
  | JList "json list"
  | JObj "(pystr \<times> json) list"

text \<open>\<open>d.get(key)\<close> on a JSON object, first the key's own entry.\<close>

fun json_get :: "json \<Rightarrow> pystr \<Rightarrow> json option" where
  "json_get (JObj kvs) k = map_of kvs k"
| "json_get _ k = None"

section \<open>Services\<close>

datatype category =
  Category_infra | Category_app | Category_media | Category_monitoring
| Category_security | Category_other

fun category_value :: "category \<Rightarrow> pystr" where
  "category_value Category_infra = ''infra''"
| "category_value Category_app = ''app''"
| "category_value Category_media = ''media''"
| "category_value Category_monitoring = ''monitoring''"
| "category_value Category_security = ''security''"
| "category_value Category_other = ''other''"

datatype auth_mode =
  AuthMode_none | AuthMode_forward_auth | AuthMode_oauth2_proxy | AuthMode_oauth2_oidc
| AuthMode_basic | AuthMode_internal | AuthMode_unknown

fun auth_mode_value :: "auth_mode \<Rightarrow> pystr" where
  "auth_mode_value AuthMode_none = ''none''"
| "auth_mode_value AuthMode_forward_auth = ''forward_auth''"
| "auth_mode_value AuthMode_oauth2_proxy = ''oauth2_proxy''"
| "auth_mode_value AuthMode_oauth2_oidc = ''oauth2_oidc''"
| "auth_mode_value AuthMode_basic = ''basic''"
| "auth_mode_value AuthMode_internal = ''internal''"
| "auth_mode_value AuthMode_unknown = ''unknown''"

datatype source_type =
  Source_manual | Source_traefik | Source_docker | Source_authentik | Source_dockhand

fun source_type_value :: "source_type \<Rightarrow> pystr" where
  "source_type_value Source_manual = ''manual''"
| "source_type_value Source_traefik = ''traefik''"
| "source_type_value Source_docker = ''docker''"
| "source_type_value Source_authentik = ''authentik''"
| "source_type_value Source_dockhand = ''dockhand''"

record service =
  svc_id :: pystr
  svc_name :: pystr
  svc_display_name :: pystr
  svc_category :: category
  svc_host :: "pystr option"
  svc_urls :: "pystr list"
  svc_traefik_router :: "pystr option"
  svc_authentik_app_slug :: "pystr option"
  svc_auth_mode :: auth_mode
  svc_traefik_auth_mode :: "auth_mode option"
  svc_authentik_auth_mode :: "auth_mode option"
  svc_tags :: "pystr list"
  svc_notes :: pystr
  svc_auth_mode_conflict :: bool
  svc_hardware_node_id :: "pystr option"
  svc_manual_link :: bool
  svc_authentik_link_manual :: bool
  svc_manual :: bool
  svc_stale :: bool
  svc_created_at :: datetime
  svc_updated_at :: datetime
  svc_last_seen_at :: "datetime option"

text \<open>A service with only its name given: the column defaults.\<close>

definition new_service :: "pystr \<Rightarrow> pystr \<Rightarrow> pystr \<Rightarrow> instant \<Rightarrow> service" where
  "new_service i n display now =
     \<lparr>svc_id = i, svc_name = n, svc_display_name = display,
      svc_category = Category_other, svc_host = None, svc_urls = [],
      svc_traefik_router = None, svc_authentik_app_slug = None,
      svc_auth_mode = AuthMode_unknown, svc_traefik_auth_mode = None,
      svc_authentik_auth_mode = None, svc_tags = [], svc_notes = [],
      svc_auth_mode_conflict = False, svc_hardware_node_id = None,
      svc_manual_link = False, svc_authentik_link_manual = False,
      svc_manual = True, svc_stale = False, svc_created_at = Aware now,
      svc_updated_at = Aware now, svc_last_seen_at = None\<rparr>"

record service_source =
  src_id :: pystr
  src_service_id :: pystr
  src_source :: source_type
  src_external_id :: pystr
  src_raw :: json
  src_missed_passes :: int
  src_first_seen_at :: datetime
  src_last_seen_at :: datetime

section \<open>Event logs\<close>

definition FIELD_CREATED :: pystr where
  "FIELD_CREATED = ''__created__''"

definition FIELD_DELETED :: pystr where
  "FIELD_DELETED = ''__deleted__''"

datatype discovery_status = Discovery_ok | Discovery_partial | Discovery_failed

record change_event =
  ce_id :: pystr
  ce_service_id :: "pystr option"
  ce_field :: pystr
  ce_old :: "pystr option"
  ce_new :: "pystr option"
  ce_actor :: pystr
  ce_created_at :: datetime

record discovery_event =
  de_id :: pystr
  de_source :: source_type
  de_started_at :: datetime
  de_finished_at :: "datetime option"
  de_status :: discovery_status
  de_items_seen :: int
  de_items_new :: int
  de_items_changed :: int
  de_items_missing :: int
  de_error :: "pystr option"

section \<open>Confirmation challenges\<close>

datatype deletion_entity_type = Entity_service | Entity_hardware_node

datatype pending_deletion_status =
  Deletion_pending | Deletion_confirmed | Deletion_expired | Deletion_failed

record pending_deletion =
  pd_id :: pystr
  pd_entity_type :: deletion_entity_type
  pd_entity_id :: pystr
  pd_entity_label :: pystr
  pd_x :: int
  pd_y :: int
  pd_status :: pending_deletion_status
  pd_actor :: pystr
  pd_created_at :: datetime
  pd_expires_at :: datetime

datatype pending_inventory_status =
  Inventory_pending | Inventory_confirmed | Inventory_expired | Inventory_failed

record pending_inventory_write =
  pi_id :: pystr
  pi_node_id :: pystr
  pi_node_hostname :: pystr
  pi_x :: int
  pi_y :: int
  pi_status :: pending_inventory_status
  pi_actor :: pystr
  pi_created_at :: datetime
  pi_expires_at :: datetime

datatype pending_dockhand_status =
  Dockhand_pending | Dockhand_executing | Dockhand_executed | Dockhand_failed
| Dockhand_expired | Dockhand_wrong_answer

record pending_dockhand_action =
  pa_id :: pystr
  pa_kind :: pystr
  pa_environment_id :: pystr
  pa_target :: pystr
  pa_action :: pystr
  pa_pull :: bool
  pa_x :: int
  pa_y :: int
  pa_status :: pending_dockhand_status
  pa_actor :: pystr
  pa_created_at :: datetime
  pa_expires_at :: datetime
  pa_resolved_at :: "datetime option"
  pa_result :: "pystr option"

section \<open>Patch approvals\<close>

datatype patch_approval_status =
  Patch_pending | Patch_approved | Patch_cancelled | Patch_expired
| Patch_executed | Patch_failed | Patch_undelivered

record patch_approval =
  ap_id :: pystr
  ap_event :: pystr
  ap_target_host :: pystr
  ap_service :: "pystr option"
  ap_current_version :: "pystr option"
  ap_target_version :: "pystr option"
  ap_severity :: "pystr option"
  ap_patchmon_host_id :: "pystr option"
  ap_summary :: "pystr option"
  ap_approve_token_hash :: pystr
  ap_cancel_token_hash :: pystr
  ap_status :: patch_approval_status
  ap_created_at :: datetime
  ap_expires_at :: datetime
  ap_resolved_at :: "datetime option"
  ap_executed_via :: "pystr option"
  ap_detail :: "pystr option"

section \<open>Proposals\<close>

datatype finding_type =
  Finding_auth_mode_conflict | Finding_normalization | Finding_legacy_adoption
| Finding_image_update | Finding_vulnerability_scan

fun finding_type_value :: "finding_type \<Rightarrow> pystr" where
  "finding_type_value Finding_auth_mode_conflict = ''auth_mode_conflict''"
| "finding_type_value Finding_normalization = ''normalization''"
| "finding_type_value Finding_legacy_adoption = ''legacy_adoption''"
| "finding_type_value Finding_image_update = ''image_update''"
| "finding_type_value Finding_vulnerability_scan = ''vulnerability_scan''"

datatype proposal_status =
  Proposal_open | Proposal_merged | Proposal_cancelled | Proposal_snoozed
| Proposal_verified | Proposal_rejected

record proposal =
  pr_id :: pystr
  pr_service_id :: "pystr option"
  pr_finding_type :: finding_type
  pr_pr_url :: pystr
  pr_pr_number :: "int option"
  pr_branch :: pystr
  pr_file_path :: pystr
  pr_diff :: pystr
  pr_status :: proposal_status
  pr_rejection_reason :: "pystr option"
  pr_confidence :: "rat option"
  pr_actor :: pystr
  pr_last_comment_id :: "int option"
  pr_created_at :: datetime
  pr_resolved_at :: "datetime option"

text \<open>A proposal with only its finding given: the column defaults.\<close>

definition new_proposal :: "pystr \<Rightarrow> finding_type \<Rightarrow> instant \<Rightarrow> proposal" where
  "new_proposal i f now =
     \<lparr>pr_id = i, pr_service_id = None, pr_finding_type = f, pr_pr_url = [],
      pr_pr_number = None, pr_branch = [], pr_file_path = [], pr_diff = [],
      pr_status = Proposal_open, pr_rejection_reason = None, pr_confidence = None,
      pr_actor = ''discovery'', pr_last_comment_id = None, pr_created_at = Aware now,
      pr_resolved_at = None\<rparr>"

section \<open>Adoption drafts\<close>

datatype adoption_draft_status =
  Draft_pending | Draft_finalized | Draft_cancelled | Draft_expired

record detected_secret =
  ds_key :: pystr
  ds_live_value :: pystr

record adoption_draft =
  ad_id :: pystr
  ad_service_id :: pystr
  ad_host :: pystr
  ad_ssh_user :: pystr
  ad_container_name :: pystr
  ad_compose_path :: pystr
  ad_target_file_path :: pystr
  ad_sanitized_compose :: pystr
  ad_detected_secrets :: "detected_secret list"
  ad_confidence :: rat
  ad_reasoning :: pystr
  ad_status :: adoption_draft_status
  ad_created_at :: datetime
  ad_expires_at :: datetime

lemma category_value_inj [simp]: "category_value a = category_value b \<longleftrightarrow> a = b"
  by (cases a; cases b) auto

lemma auth_mode_value_inj [simp]: "auth_mode_value a = auth_mode_value b \<longleftrightarrow> a = b"
  by (cases a; cases b) auto

lemma source_type_value_inj [simp]: "source_type_value a = source_type_value b \<longleftrightarrow> a = b"
  by (cases a; cases b) auto

lemma finding_type_value_inj [simp]: "finding_type_value a = finding_type_value b \<longleftrightarrow> a = b"
  by (cases a; cases b) auto

lemma auth_mode_value_nonempty [simp]: "auth_mode_value a \<noteq> []"
  by (cases a) auto

lemma category_value_nonempty [simp]: "category_value a \<noteq> []"
  by (cases a) auto

end
