(* ===== verification/Gate.thy ===== *)
theory Gate
  imports Models
begin

text \<open>
  The contract every confirmation gate of the program keeps: a stored question is
  answered at most once. The locale \<open>one_shot\<close> states it for a store whose
  operations are atomic database statements; the deletion, inventory, Dockhand and
  patch-approval stores interpret it. A run is any sequence of operations, so any
  interleaving of concurrent callers is one.
\<close>

section \<open>Runs of a store\<close>

fun run_ops :: "('op \<Rightarrow> 's \<Rightarrow> 's \<times> 'out) \<Rightarrow> 'op list \<Rightarrow> 's \<Rightarrow> 's \<times> ('op \<times> 'out) list" where
  "run_ops step [] s = (s, [])"
| "run_ops step (x # xs) s =
     (let (s', out) = step x s; (s'', tr) = run_ops step xs s' in (s'', (x, out) # tr))"

lemma run_ops_Cons:
  "run_ops step (x # xs) s =
     (fst (run_ops step xs (fst (step x s))),
      (x, snd (step x s)) # snd (run_ops step xs (fst (step x s))))"
  by (simp add: Let_def split: prod.splits)

lemma run_ops_append:
  "run_ops step (xs @ ys) s =
     (fst (run_ops step ys (fst (run_ops step xs s))),
      snd (run_ops step xs s) @ snd (run_ops step ys (fst (run_ops step xs s))))"
  by (induction xs arbitrary: s) (simp_all add: run_ops_Cons del: run_ops.simps(2))

text \<open>How many operations of a trace succeeded on key \<open>k\<close>.\<close>

definition win_count :: "('op \<Rightarrow> 'out \<Rightarrow> 'k \<Rightarrow> bool) \<Rightarrow> 'k \<Rightarrow> ('op \<times> 'out) list \<Rightarrow> nat" where
  "win_count wins k tr = length (filter (\<lambda>(x, out). wins x out k) tr)"

lemma win_count_Nil [simp]: "win_count wins k [] = 0"
  by (simp add: win_count_def)

lemma win_count_Cons [simp]:
  "win_count wins k ((x, out) # tr) = (if wins x out k then 1 else 0) + win_count wins k tr"
  by (simp add: win_count_def)

section \<open>The contract\<close>

locale one_shot =
  fixes step :: "'op \<Rightarrow> 's \<Rightarrow> 's \<times> 'out"
    and legal :: "'op \<Rightarrow> bool"
    and wf :: "'s \<Rightarrow> bool"
    and known :: "'s \<Rightarrow> 'k \<Rightarrow> bool"
    and live :: "'s \<Rightarrow> 'k \<Rightarrow> bool"
    and wins :: "'op \<Rightarrow> 'out \<Rightarrow> 'k \<Rightarrow> bool"
  assumes wf_step: "legal x \<Longrightarrow> wf s \<Longrightarrow> wf (fst (step x s))"
    and live_known: "live s k \<Longrightarrow> known s k"
    and known_kept: "legal x \<Longrightarrow> known s k \<Longrightarrow> known (fst (step x s)) k"
    and no_revival: "legal x \<Longrightarrow> known s k \<Longrightarrow> \<not> live s k \<Longrightarrow> \<not> live (fst (step x s)) k"
    and win_live: "wf s \<Longrightarrow> wins x (snd (step x s)) k \<Longrightarrow> live s k"
    and win_consumes: "wf s \<Longrightarrow> wins x (snd (step x s)) k \<Longrightarrow> \<not> live (fst (step x s)) k"
begin

lemma wf_run: "list_all legal xs \<Longrightarrow> wf s \<Longrightarrow> wf (fst (run_ops step xs s))"
  by (induction xs arbitrary: s) (auto simp: run_ops_Cons wf_step simp del: run_ops.simps(2))

lemma dead_run:
  "list_all legal xs \<Longrightarrow> wf s \<Longrightarrow> known s k \<Longrightarrow> \<not> live s k \<Longrightarrow>
     \<not> live (fst (run_ops step xs s)) k \<and> win_count wins k (snd (run_ops step xs s)) = 0"
proof (induction xs arbitrary: s)
  case Nil
  then show ?case by simp
next
  case (Cons x xs)
  then have "known (fst (step x s)) k" "\<not> live (fst (step x s)) k" "wf (fst (step x s))"
    by (auto intro: known_kept wf_step dest: no_revival)
  moreover have "\<not> wins x (snd (step x s)) k"
    using Cons.prems win_live by blast
  ultimately show ?case
    using Cons by (simp add: run_ops_Cons del: run_ops.simps(2))
qed

lemma at_most_one_win:
  "list_all legal xs \<Longrightarrow> wf s \<Longrightarrow> win_count wins k (snd (run_ops step xs s)) \<le> 1"
proof (induction xs arbitrary: s)
  case Nil
  then show ?case by simp
next
  case (Cons x xs)
  have legal: "legal x" "list_all legal xs" using Cons.prems by simp_all
  have wf: "wf (fst (step x s))" using legal Cons.prems by (simp add: wf_step)
  show ?case
  proof (cases "wins x (snd (step x s)) k")
    case True
    then have "known (fst (step x s)) k" "\<not> live (fst (step x s)) k"
      using legal Cons.prems(2) by (auto intro: known_kept live_known win_live dest: win_consumes)
    then show ?thesis
      using dead_run [OF legal(2) wf] True by (simp add: run_ops_Cons del: run_ops.simps(2))
  next
    case False
    then show ?thesis
      using Cons.IH [OF legal(2) wf] by (simp add: run_ops_Cons del: run_ops.simps(2))
  qed
qed

end

section \<open>Tables of rows with a status\<close>

text \<open>
  The stores behind the contract are tables with a key and a status column. An
  operation that rewrites statuses and appends new keys keeps the contract when every
  row it changes was pending.
\<close>

definition row_known :: "('r \<Rightarrow> 'k) \<Rightarrow> 'r list \<Rightarrow> 'k \<Rightarrow> bool" where
  "row_known key t k \<longleftrightarrow> get_row key t k \<noteq> None"

definition row_live :: "('r \<Rightarrow> 'k) \<Rightarrow> ('r \<Rightarrow> bool) \<Rightarrow> 'r list \<Rightarrow> 'k \<Rightarrow> bool" where
  "row_live key pending t k \<longleftrightarrow> (\<exists>r. get_row key t k = Some r \<and> pending r)"

definition insert_row :: "('r \<Rightarrow> 'k) \<Rightarrow> 'r \<Rightarrow> 'r list \<Rightarrow> 'r list option" where
  "insert_row key r t = (if get_row key t (key r) = None then Some (t @ [r]) else None)"

text \<open>No row disappears, and no row that was not pending becomes pending.\<close>

definition evolves :: "('r \<Rightarrow> 'k) \<Rightarrow> ('r \<Rightarrow> bool) \<Rightarrow> 'r list \<Rightarrow> 'r list \<Rightarrow> bool" where
  "evolves key pending t t' \<longleftrightarrow>
     (\<forall>k r. get_row key t k = Some r \<longrightarrow>
        (\<exists>r'. get_row key t' k = Some r' \<and> (pending r' \<longrightarrow> pending r)))"

lemma row_live_known: "row_live key pending t k \<Longrightarrow> row_known key t k"
  by (auto simp: row_live_def row_known_def)

lemma get_row_map:
  assumes "\<And>r. key (f r) = key r"
  shows "get_row key (map f t) k = map_option f (get_row key t k)"
  by (induction t) (auto simp: get_row_def assms)

lemma insert_row_get:
  "insert_row key r t = Some t' \<Longrightarrow>
     get_row key t' k = (if k = key r then Some r else get_row key t k)"
  by (auto simp: insert_row_def split: if_splits option.splits)

lemma evolves_refl [simp]: "evolves key pending t t"
  by (simp add: evolves_def)

lemma evolves_trans:
  "evolves key pending t u \<Longrightarrow> evolves key pending u v \<Longrightarrow> evolves key pending t v"
  unfolding evolves_def by meson

lemma evolves_insert: "insert_row key r t = Some t' \<Longrightarrow> evolves key pending t t'"
  by (auto simp: evolves_def insert_row_def split: if_splits option.splits)

lemma evolves_map:
  "(\<And>r. key (f r) = key r) \<Longrightarrow> (\<And>r. pending (f r) \<Longrightarrow> pending r) \<Longrightarrow>
     evolves key pending t (map f t)"
  by (auto simp: evolves_def get_row_map)

lemma evolves_put:
  "(\<And>r. key (f r) = key r) \<Longrightarrow> (\<And>r. pending (f r) \<Longrightarrow> pending r) \<Longrightarrow>
     evolves key pending t (put_row key k f t)"
  unfolding put_row_def by (rule evolves_map) (auto split: if_splits)

lemma evolves_known: "evolves key pending t t' \<Longrightarrow> row_known key t k \<Longrightarrow> row_known key t' k"
  by (fastforce simp: evolves_def row_known_def)

lemma evolves_dead:
  "evolves key pending t t' \<Longrightarrow> row_known key t k \<Longrightarrow> \<not> row_live key pending t k \<Longrightarrow>
     \<not> row_live key pending t' k"
  by (fastforce simp: evolves_def row_known_def row_live_def)

text \<open>Ids are unique.\<close>

definition keyed :: "('r \<Rightarrow> 'k) \<Rightarrow> 'r list \<Rightarrow> bool" where
  "keyed key t \<longleftrightarrow> distinct (map key t)"

lemma keyed_Nil [simp]: "keyed key []"
  by (simp add: keyed_def)

lemma keyed_map: "(\<And>r. key (f r) = key r) \<Longrightarrow> keyed key (map f t) = keyed key t"
  by (simp add: keyed_def comp_def)

lemma keyed_put: "(\<And>r. key (f r) = key r) \<Longrightarrow> keyed key (put_row key k f t) = keyed key t"
  by (simp add: keyed_def put_row_keys)

lemma keyed_insert: "insert_row key r t = Some t' \<Longrightarrow> keyed key t \<Longrightarrow> keyed key t'"
  by (auto simp: keyed_def insert_row_def get_row_None_iff split: if_splits)

lemma keyed_get: "keyed key t \<Longrightarrow> r \<in> set t \<Longrightarrow> get_row key t (key r) = Some r"
  by (simp add: keyed_def get_row_unique)

text \<open>The contract in terms of rows; it gives \<open>one_shot\<close>.\<close>

locale gate_table =
  fixes step :: "'op \<Rightarrow> 'r list \<Rightarrow> 'r list \<times> 'out"
    and legal :: "'op \<Rightarrow> bool"
    and key :: "'r \<Rightarrow> 'k"
    and pending :: "'r \<Rightarrow> bool"
    and wins :: "'op \<Rightarrow> 'out \<Rightarrow> 'k \<Rightarrow> bool"
  assumes step_keyed: "legal x \<Longrightarrow> keyed key t \<Longrightarrow> keyed key (fst (step x t))"
    and step_evolves: "legal x \<Longrightarrow> evolves key pending t (fst (step x t))"
    and win_pending:
      "keyed key t \<Longrightarrow> wins x (snd (step x t)) k \<Longrightarrow> \<exists>r. get_row key t k = Some r \<and> pending r"
    and win_resolves:
      "keyed key t \<Longrightarrow> wins x (snd (step x t)) k \<Longrightarrow>
         \<exists>r. get_row key (fst (step x t)) k = Some r \<and> \<not> pending r"
begin

sublocale one_shot step legal "keyed key" "row_known key" "row_live key pending" wins
proof (unfold_locales, goal_cases)
  case (1 x t)
  then show ?case by (rule step_keyed)
next
  case (2 t k)
  then show ?case by (rule row_live_known)
next
  case (3 x t k)
  then show ?case by (blast intro: evolves_known step_evolves)
next
  case (4 x t k)
  then show ?case by (blast dest: evolves_dead [OF step_evolves])
next
  case (5 t x k)
  then show ?case by (simp add: row_live_def win_pending)
next
  case (6 t x k)
  then show ?case using win_resolves by (fastforce simp: row_live_def)
qed

lemma run_evolves: "list_all legal xs \<Longrightarrow> evolves key pending t (fst (run_ops step xs t))"
proof (induction xs arbitrary: t)
  case Nil
  then show ?case by simp
next
  case (Cons x xs)
  then have "evolves key pending t (fst (step x t))" by (simp add: step_evolves)
  with Cons show ?case
    by (auto simp: run_ops_Cons simp del: run_ops.simps(2) intro: evolves_trans)
qed

end

end
