(* ===== verification/DeletionGate.thy ===== *)
theory DeletionGate
  imports Gate
begin

text \<open>
  \<open>deletion/store.py\<close>: the arithmetic challenge in front of every hard delete. The
  table is the list of \<open>PendingDeletion\<close> rows. \<open>random.randint\<close> and the row's uuid
  are arguments; each operation takes one reading of the clock.
\<close>

section \<open>Operations\<close>

datatype deletion_error =
    Deletion_integrity_error
  | Deletion_not_found pystr
  | Deletion_wrong_tool pystr
  | Deletion_not_pending pending_deletion_status
  | Deletion_challenge_expired
  | Deletion_incorrect int int

type_synonym deletion_table = "pending_deletion list"

text \<open>\<open>_is_past\<close>: an aware \<open>now\<close> against an aware expiry, a naive one against a naive one.\<close>

definition deletion_now_like :: "instant \<Rightarrow> datetime \<Rightarrow> datetime" where
  "deletion_now_like now e = (if is_naive e then Naive now else Aware now)"

definition deletion_is_past :: "instant \<Rightarrow> datetime \<Rightarrow> bool" where
  "deletion_is_past now e \<longleftrightarrow> dt_less e (deletion_now_like now e) = Some True"

definition deletion_request ::
  "instant \<Rightarrow> pystr \<Rightarrow> int \<Rightarrow> int \<Rightarrow> deletion_entity_type \<Rightarrow> pystr \<Rightarrow> pystr \<Rightarrow> pystr \<Rightarrow> int
     \<Rightarrow> deletion_table \<Rightarrow> deletion_table \<times> (deletion_error + pending_deletion)" where
  "deletion_request now rid x y entity_type entity_id entity_label actor ttl_minutes t =
     (let challenge = \<lparr>pd_id = rid, pd_entity_type = entity_type, pd_entity_id = entity_id,
            pd_entity_label = entity_label, pd_x = x, pd_y = y, pd_status = Deletion_pending,
            pd_actor = actor, pd_created_at = Naive now,
            pd_expires_at = Naive (now + minutes ttl_minutes)\<rparr>
      in case insert_row pd_id challenge t of
           None \<Rightarrow> (t, Inl Deletion_integrity_error)
         | Some t' \<Rightarrow> (t', Inr challenge))"

definition deletion_get :: "pystr \<Rightarrow> deletion_table \<Rightarrow> pending_deletion option" where
  "deletion_get request_id t = get_row pd_id t request_id"

definition deletion_set_status ::
  "pystr \<Rightarrow> pending_deletion_status \<Rightarrow> deletion_table \<Rightarrow> deletion_table" where
  "deletion_set_status rid st t = put_row pd_id rid (\<lambda>c. c\<lparr>pd_status := st\<rparr>) t"

definition deletion_confirm ::
  "instant \<Rightarrow> pystr \<Rightarrow> deletion_entity_type \<Rightarrow> int
     \<Rightarrow> deletion_table \<Rightarrow> deletion_table \<times> (deletion_error + pending_deletion)" where
  "deletion_confirm now request_id entity_type answer t =
     (case get_row pd_id t request_id of
        None \<Rightarrow> (t, Inl (Deletion_not_found request_id))
      | Some challenge \<Rightarrow>
          if pd_entity_type challenge \<noteq> entity_type
            then (t, Inl (Deletion_wrong_tool request_id))
          else if pd_status challenge \<noteq> Deletion_pending
            then (t, Inl (Deletion_not_pending (pd_status challenge)))
          else if deletion_is_past now (pd_expires_at challenge)
            then (deletion_set_status request_id Deletion_expired t,
                  Inl Deletion_challenge_expired)
          else if answer \<noteq> pd_x challenge + pd_y challenge
            then (deletion_set_status request_id Deletion_failed t,
                  Inl (Deletion_incorrect (pd_x challenge) (pd_y challenge)))
          else (deletion_set_status request_id Deletion_confirmed t,
                Inr (challenge\<lparr>pd_status := Deletion_confirmed\<rparr>)))"

definition deletion_overdue :: "instant \<Rightarrow> pending_deletion \<Rightarrow> bool" where
  "deletion_overdue now c \<longleftrightarrow>
     pd_status c = Deletion_pending \<and> deletion_is_past now (pd_expires_at c)"

definition deletion_purge_expired :: "instant \<Rightarrow> deletion_table \<Rightarrow> deletion_table \<times> nat" where
  "deletion_purge_expired now t =
     (map (\<lambda>c. if deletion_overdue now c then c\<lparr>pd_status := Deletion_expired\<rparr> else c) t,
      length (filter (deletion_overdue now) t))"

section \<open>The store as a machine\<close>

datatype deletion_op =
    Deletion_Request instant pystr int int deletion_entity_type pystr pystr pystr int
  | Deletion_Confirm instant pystr deletion_entity_type int
  | Deletion_Purge instant

datatype deletion_out =
    Deletion_Challenge "deletion_error + pending_deletion"
  | Deletion_Answer "deletion_error + pending_deletion"
  | Deletion_Purged nat

fun deletion_step :: "deletion_op \<Rightarrow> deletion_table \<Rightarrow> deletion_table \<times> deletion_out" where
  "deletion_step (Deletion_Request now rid x y ty i l a ttl) t =
     (let (t', r) = deletion_request now rid x y ty i l a ttl t in (t', Deletion_Challenge r))"
| "deletion_step (Deletion_Confirm now rid ty ans) t =
     (let (t', r) = deletion_confirm now rid ty ans t in (t', Deletion_Answer r))"
| "deletion_step (Deletion_Purge now) t =
     (let (t', n) = deletion_purge_expired now t in (t', Deletion_Purged n))"

text \<open>An operation wins challenge \<open>k\<close> when it is a confirm that returned normally.\<close>

fun deletion_wins :: "deletion_op \<Rightarrow> deletion_out \<Rightarrow> pystr \<Rightarrow> bool" where
  "deletion_wins (Deletion_Confirm now rid ty ans) (Deletion_Answer (Inr c)) k = (rid = k)"
| "deletion_wins x out k = False"

definition deletion_is_pending :: "pending_deletion \<Rightarrow> bool" where
  "deletion_is_pending c \<longleftrightarrow> pd_status c = Deletion_pending"

section \<open>Lemmas\<close>

lemma deletion_is_past_iff [simp]: "deletion_is_past now e \<longleftrightarrow> instant_of e < now"
  by (cases e) (auto simp: deletion_is_past_def deletion_now_like_def)

lemma get_deletion_set_status [simp]:
  "get_row pd_id (deletion_set_status rid st t) k =
     (if k = rid then map_option (\<lambda>c. c\<lparr>pd_status := st\<rparr>) (get_row pd_id t k)
      else get_row pd_id t k)"
  by (simp add: deletion_set_status_def get_row_put_row)

lemma get_deletion_purge:
  "get_row pd_id (fst (deletion_purge_expired now t)) k =
     map_option (\<lambda>c. if deletion_overdue now c then c\<lparr>pd_status := Deletion_expired\<rparr> else c)
       (get_row pd_id t k)"
  by (simp add: deletion_purge_expired_def get_row_map)

lemma deletion_confirm_Inr:
  "deletion_confirm now rid ty ans t = (t', Inr c) \<longleftrightarrow>
     (\<exists>c0. get_row pd_id t rid = Some c0 \<and> pd_entity_type c0 = ty \<and>
        pd_status c0 = Deletion_pending \<and> now \<le> instant_of (pd_expires_at c0) \<and>
        ans = pd_x c0 + pd_y c0 \<and> c = c0\<lparr>pd_status := Deletion_confirmed\<rparr> \<and>
        t' = deletion_set_status rid Deletion_confirmed t)"
  by (auto simp: deletion_confirm_def split: option.splits if_splits)

lemma evolves_deletion_set_status:
  "st \<noteq> Deletion_pending \<Longrightarrow>
     evolves pd_id deletion_is_pending t (deletion_set_status rid st t)"
  unfolding deletion_set_status_def by (rule evolves_put) (auto simp: deletion_is_pending_def)

lemma deletion_step_evolves: "evolves pd_id deletion_is_pending t (fst (deletion_step x t))"
proof (cases x)
  case (Deletion_Request)
  then show ?thesis
    by (auto simp: deletion_request_def Let_def intro: evolves_insert split: option.splits)
next
  case (Deletion_Confirm)
  then show ?thesis
    by (auto simp: deletion_confirm_def intro: evolves_deletion_set_status split: option.splits)
next
  case (Deletion_Purge)
  then show ?thesis
    by (auto simp: deletion_purge_expired_def deletion_is_pending_def intro!: evolves_map split: if_splits)
qed

lemma deletion_step_keyed: "keyed pd_id t \<Longrightarrow> keyed pd_id (fst (deletion_step x t))"
  by (cases x)
     (auto simp: deletion_request_def deletion_confirm_def deletion_set_status_def
        deletion_purge_expired_def Let_def keyed_map keyed_put intro: keyed_insert
        split: option.splits)

lemma deletion_wins_iff:
  "deletion_wins x (snd (deletion_step x t)) k \<longleftrightarrow>
     (\<exists>now ty ans c t'. x = Deletion_Confirm now k ty ans \<and>
        deletion_confirm now k ty ans t = (t', Inr c) \<and> fst (deletion_step x t) = t')"
  by (cases x) (auto split: prod.splits sum.splits elim!: deletion_wins.elims)

interpretation deletion_gate:
  gate_table deletion_step "\<lambda>_. True" pd_id deletion_is_pending deletion_wins
  by unfold_locales
     (auto simp: deletion_step_keyed deletion_step_evolves deletion_wins_iff deletion_confirm_Inr
        deletion_is_pending_def)

section \<open>Properties\<close>

text \<open>
  A delete challenge is answered at most once: in any sequence of request, confirm
  and purge operations starting from an empty table, whatever the clocks, ids and
  answers, at most one confirm of a given request id returns normally. So one solved
  challenge authorises at most one hard delete.
\<close>
theorem deletion_answered_once:
  "win_count deletion_wins k (snd (run_ops deletion_step xs [])) \<le> 1"
  by (rule deletion_gate.at_most_one_win) (simp_all add: list_all_iff)

text \<open>
  What \<open>confirm\<close> does with a pending challenge issued for this tool: past its expiry
  it is marked expired whatever the answer, a wrong answer marks it failed (no retry),
  the right answer marks it confirmed; it returns normally exactly in the last case, and
  no other challenge changes.
\<close>
theorem deletion_confirm_outcome:
  assumes "get_row pd_id t rid = Some c" "pd_status c = Deletion_pending"
    "pd_entity_type c = ty"
  shows "get_row pd_id (fst (deletion_confirm now rid ty ans t)) k =
      (if k \<noteq> rid then get_row pd_id t k
       else Some (c\<lparr>pd_status :=
         (if instant_of (pd_expires_at c) < now then Deletion_expired
          else if ans = pd_x c + pd_y c then Deletion_confirmed else Deletion_failed)\<rparr>)) \<and>
    (isl (snd (deletion_confirm now rid ty ans t)) \<longleftrightarrow>
       instant_of (pd_expires_at c) < now \<or> ans \<noteq> pd_x c + pd_y c)"
  using assms by (simp add: deletion_confirm_def)

theorem deletion_confirm_outcome_witness:
  "let t = fst (deletion_request 0 ''r1'' 3 4 Entity_service ''s1'' ''plex'' ''me'' 5 []) in
     isl (snd (deletion_confirm 0 ''r1'' Entity_service 8 t)) \<and>
     get_row pd_id t ''r1'' \<noteq> None"
proof -
  let ?c = "\<lparr>pd_id = ''r1'', pd_entity_type = Entity_service, pd_entity_id = ''s1'',
    pd_entity_label = ''plex'', pd_x = 3, pd_y = 4, pd_status = Deletion_pending,
    pd_actor = ''me'', pd_created_at = Naive 0, pd_expires_at = Naive (minutes 5)\<rparr>"
  have t: "fst (deletion_request 0 ''r1'' 3 4 Entity_service ''s1'' ''plex'' ''me'' 5 []) = [?c]"
    by (simp add: deletion_request_def insert_row_def Let_def)
  show ?thesis
    using deletion_confirm_outcome [of "[?c]" "''r1''" ?c Entity_service 0 8 "''r1''"]
    by (simp add: t)
qed

end
