(* ===== verification/InventoryGate.thy ===== *)
theory InventoryGate
  imports Gate
begin

text \<open>
  \<open>inventory/store.py\<close>: the arithmetic challenge in front of the Ansible inventory
  write. Same discipline as the deletion gate, without an entity type.
\<close>

section \<open>Operations\<close>

datatype inventory_error =
    Inventory_integrity_error
  | Inventory_not_found pystr
  | Inventory_not_pending pending_inventory_status
  | Inventory_challenge_expired
  | Inventory_incorrect int int

type_synonym inventory_table = "pending_inventory_write list"

definition inventory_now_like :: "instant \<Rightarrow> datetime \<Rightarrow> datetime" where
  "inventory_now_like now e = (if is_naive e then Naive now else Aware now)"

definition inventory_is_past :: "instant \<Rightarrow> datetime \<Rightarrow> bool" where
  "inventory_is_past now e \<longleftrightarrow> dt_less e (inventory_now_like now e) = Some True"

definition inventory_request ::
  "instant \<Rightarrow> pystr \<Rightarrow> int \<Rightarrow> int \<Rightarrow> pystr \<Rightarrow> pystr \<Rightarrow> pystr \<Rightarrow> int
     \<Rightarrow> inventory_table \<Rightarrow> inventory_table \<times> (inventory_error + pending_inventory_write)" where
  "inventory_request now rid x y node_id node_hostname actor ttl_minutes t =
     (let challenge = \<lparr>pi_id = rid, pi_node_id = node_id, pi_node_hostname = node_hostname,
            pi_x = x, pi_y = y, pi_status = Inventory_pending, pi_actor = actor,
            pi_created_at = Naive now, pi_expires_at = Naive (now + minutes ttl_minutes)\<rparr>
      in case insert_row pi_id challenge t of
           None \<Rightarrow> (t, Inl Inventory_integrity_error)
         | Some t' \<Rightarrow> (t', Inr challenge))"

definition inventory_get :: "pystr \<Rightarrow> inventory_table \<Rightarrow> pending_inventory_write option" where
  "inventory_get request_id t = get_row pi_id t request_id"

definition inventory_set_status ::
  "pystr \<Rightarrow> pending_inventory_status \<Rightarrow> inventory_table \<Rightarrow> inventory_table" where
  "inventory_set_status rid st t = put_row pi_id rid (\<lambda>c. c\<lparr>pi_status := st\<rparr>) t"

definition inventory_confirm ::
  "instant \<Rightarrow> pystr \<Rightarrow> int
     \<Rightarrow> inventory_table \<Rightarrow> inventory_table \<times> (inventory_error + pending_inventory_write)" where
  "inventory_confirm now request_id answer t =
     (case get_row pi_id t request_id of
        None \<Rightarrow> (t, Inl (Inventory_not_found request_id))
      | Some challenge \<Rightarrow>
          if pi_status challenge \<noteq> Inventory_pending
            then (t, Inl (Inventory_not_pending (pi_status challenge)))
          else if inventory_is_past now (pi_expires_at challenge)
            then (inventory_set_status request_id Inventory_expired t,
                  Inl Inventory_challenge_expired)
          else if answer \<noteq> pi_x challenge + pi_y challenge
            then (inventory_set_status request_id Inventory_failed t,
                  Inl (Inventory_incorrect (pi_x challenge) (pi_y challenge)))
          else (inventory_set_status request_id Inventory_confirmed t,
                Inr (challenge\<lparr>pi_status := Inventory_confirmed\<rparr>)))"

definition inventory_overdue :: "instant \<Rightarrow> pending_inventory_write \<Rightarrow> bool" where
  "inventory_overdue now c \<longleftrightarrow>
     pi_status c = Inventory_pending \<and> inventory_is_past now (pi_expires_at c)"

definition inventory_purge_expired :: "instant \<Rightarrow> inventory_table \<Rightarrow> inventory_table \<times> nat" where
  "inventory_purge_expired now t =
     (map (\<lambda>c. if inventory_overdue now c then c\<lparr>pi_status := Inventory_expired\<rparr> else c) t,
      length (filter (inventory_overdue now) t))"

section \<open>The store as a machine\<close>

datatype inventory_op =
    Inventory_Request instant pystr int int pystr pystr pystr int
  | Inventory_Confirm instant pystr int
  | Inventory_Purge instant

datatype inventory_out =
    Inventory_Challenge "inventory_error + pending_inventory_write"
  | Inventory_Answer "inventory_error + pending_inventory_write"
  | Inventory_Purged nat

fun inventory_step :: "inventory_op \<Rightarrow> inventory_table \<Rightarrow> inventory_table \<times> inventory_out" where
  "inventory_step (Inventory_Request now rid x y n h a ttl) t =
     (let (t', r) = inventory_request now rid x y n h a ttl t in (t', Inventory_Challenge r))"
| "inventory_step (Inventory_Confirm now rid ans) t =
     (let (t', r) = inventory_confirm now rid ans t in (t', Inventory_Answer r))"
| "inventory_step (Inventory_Purge now) t =
     (let (t', n) = inventory_purge_expired now t in (t', Inventory_Purged n))"

fun inventory_wins :: "inventory_op \<Rightarrow> inventory_out \<Rightarrow> pystr \<Rightarrow> bool" where
  "inventory_wins (Inventory_Confirm now rid ans) (Inventory_Answer (Inr c)) k = (rid = k)"
| "inventory_wins x out k = False"

definition inventory_is_pending :: "pending_inventory_write \<Rightarrow> bool" where
  "inventory_is_pending c \<longleftrightarrow> pi_status c = Inventory_pending"

section \<open>Lemmas\<close>

lemma inventory_is_past_iff [simp]: "inventory_is_past now e \<longleftrightarrow> instant_of e < now"
  by (cases e) (auto simp: inventory_is_past_def inventory_now_like_def)

lemma get_inventory_set_status [simp]:
  "get_row pi_id (inventory_set_status rid st t) k =
     (if k = rid then map_option (\<lambda>c. c\<lparr>pi_status := st\<rparr>) (get_row pi_id t k)
      else get_row pi_id t k)"
  by (simp add: inventory_set_status_def get_row_put_row)

lemma inventory_confirm_Inr:
  "inventory_confirm now rid ans t = (t', Inr c) \<longleftrightarrow>
     (\<exists>c0. get_row pi_id t rid = Some c0 \<and>
        pi_status c0 = Inventory_pending \<and> now \<le> instant_of (pi_expires_at c0) \<and>
        ans = pi_x c0 + pi_y c0 \<and> c = c0\<lparr>pi_status := Inventory_confirmed\<rparr> \<and>
        t' = inventory_set_status rid Inventory_confirmed t)"
  by (auto simp: inventory_confirm_def split: option.splits if_splits)

lemma evolves_inventory_set_status:
  "st \<noteq> Inventory_pending \<Longrightarrow>
     evolves pi_id inventory_is_pending t (inventory_set_status rid st t)"
  unfolding inventory_set_status_def by (rule evolves_put) (auto simp: inventory_is_pending_def)

lemma inventory_step_evolves: "evolves pi_id inventory_is_pending t (fst (inventory_step x t))"
proof (cases x)
  case (Inventory_Request)
  then show ?thesis
    by (auto simp: inventory_request_def Let_def intro: evolves_insert split: option.splits)
next
  case (Inventory_Confirm)
  then show ?thesis
    by (auto simp: inventory_confirm_def intro: evolves_inventory_set_status split: option.splits)
next
  case (Inventory_Purge)
  then show ?thesis
    by (auto simp: inventory_purge_expired_def inventory_is_pending_def
        intro!: evolves_map split: if_splits)
qed

lemma inventory_step_keyed: "keyed pi_id t \<Longrightarrow> keyed pi_id (fst (inventory_step x t))"
  by (cases x)
     (auto simp: inventory_request_def inventory_confirm_def inventory_set_status_def
        inventory_purge_expired_def Let_def keyed_map keyed_put intro: keyed_insert
        split: option.splits)

lemma inventory_wins_iff:
  "inventory_wins x (snd (inventory_step x t)) k \<longleftrightarrow>
     (\<exists>now ans c t'. x = Inventory_Confirm now k ans \<and>
        inventory_confirm now k ans t = (t', Inr c) \<and> fst (inventory_step x t) = t')"
  by (cases x) (auto split: prod.splits sum.splits elim!: inventory_wins.elims)

interpretation inventory_gate:
  gate_table inventory_step "\<lambda>_. True" pi_id inventory_is_pending inventory_wins
  by unfold_locales
     (auto simp: inventory_step_keyed inventory_step_evolves inventory_wins_iff inventory_confirm_Inr
        inventory_is_pending_def)

section \<open>Properties\<close>

text \<open>
  An inventory-write challenge is answered at most once in any sequence of request,
  confirm and purge operations starting from an empty table, so one solved challenge
  authorises at most one write of the Ansible inventory.
\<close>
theorem inventory_answered_once:
  "win_count inventory_wins k (snd (run_ops inventory_step xs [])) \<le> 1"
  by (rule inventory_gate.at_most_one_win) (simp_all add: list_all_iff)

end
