(* ===== verification/DockhandGate.thy ===== *)
theory DockhandGate
  imports Gate
begin

text \<open>
  \<open>integrations/dockhand/gate.py\<close>: the challenge in front of a Dockhand action. A
  challenge is claimed by a conditional UPDATE whose row count decides the winner, so
  the statements of concurrent confirms may interleave; the machine below takes the
  single UPDATE statement as its step, and a confirm is a read followed by one.
\<close>

section \<open>Operations\<close>

datatype dockhand_error =
    Dockhand_integrity_error
  | Dockhand_not_found pystr
  | Dockhand_not_pending pending_dockhand_status
  | Dockhand_challenge_expired
  | Dockhand_incorrect int int
  | Dockhand_lost_race

type_synonym dockhand_table = "pending_dockhand_action list"

definition RESULT_MAX :: nat where
  "RESULT_MAX = 300"

definition naive_now :: "instant \<Rightarrow> datetime" where
  "naive_now now = Naive now"

definition dockhand_is_past :: "instant \<Rightarrow> datetime \<Rightarrow> bool" where
  "dockhand_is_past now e \<longleftrightarrow> dt_less (Naive (instant_of e)) (naive_now now) = Some True"

definition describe_action :: "pending_dockhand_action \<Rightarrow> pystr" where
  "describe_action row =
     (let wh = ''in environment '' @ pa_environment_id row in
      if pa_kind row = ''stack'' \<and> pa_action row = ''redeploy''
      then ''redeploy stack `'' @ pa_target row @ ''` '' @ wh
             @ '', recreating every container in it, ''
             @ (if pa_pull row then ''after pulling its images'' else ''without pulling images'')
      else pa_action row @ '' '' @ pa_kind row @ '' `'' @ pa_target row @ ''` '' @ wh)"

definition dockhand_one_line :: "pystr \<Rightarrow> pystr" where
  "dockhand_one_line s = take RESULT_MAX (join '' '' (words s))"

definition dockhand_request ::
  "instant \<Rightarrow> pystr \<Rightarrow> int \<Rightarrow> int \<Rightarrow> pystr \<Rightarrow> pystr \<Rightarrow> pystr \<Rightarrow> pystr \<Rightarrow> pystr \<Rightarrow> int \<Rightarrow> bool
     \<Rightarrow> dockhand_table \<Rightarrow> dockhand_table \<times> (dockhand_error + pending_dockhand_action)" where
  "dockhand_request now rid x y kind environment_id target action actor ttl_minutes pull t =
     (let pending = \<lparr>pa_id = rid, pa_kind = kind, pa_environment_id = environment_id,
            pa_target = target, pa_action = action, pa_pull = pull, pa_x = x, pa_y = y,
            pa_status = Dockhand_pending, pa_actor = actor, pa_created_at = Naive now,
            pa_expires_at = Naive (now + minutes ttl_minutes), pa_resolved_at = None,
            pa_result = None\<rparr>
      in case insert_row pa_id pending t of
           None \<Rightarrow> (t, Inl Dockhand_integrity_error)
         | Some t' \<Rightarrow> (t', Inr pending))"

definition dockhand_get :: "pystr \<Rightarrow> dockhand_table \<Rightarrow> pending_dockhand_action option" where
  "dockhand_get request_id t = get_row pa_id t request_id"

text \<open>\<open>_resolve\<close>: the WHERE clause and the UPDATE; true only if exactly one row moved.\<close>

definition resolve_hits :: "instant \<Rightarrow> pystr \<Rightarrow> bool \<Rightarrow> pending_dockhand_action \<Rightarrow> bool" where
  "resolve_hits now request_id only_if_unexpired r \<longleftrightarrow>
     pa_id r = request_id \<and> pa_status r = Dockhand_pending \<and>
     (only_if_unexpired \<longrightarrow> now < instant_of (pa_expires_at r))"

definition dockhand_resolve ::
  "instant \<Rightarrow> pystr \<Rightarrow> pending_dockhand_status \<Rightarrow> bool \<Rightarrow> pystr option
     \<Rightarrow> dockhand_table \<Rightarrow> dockhand_table \<times> bool" where
  "dockhand_resolve now request_id st only_if_unexpired res t =
     (map (\<lambda>r. if resolve_hits now request_id only_if_unexpired r
               then r\<lparr>pa_status := st, pa_resolved_at := Some (naive_now now), pa_result := res\<rparr>
               else r) t,
      length (filter (resolve_hits now request_id only_if_unexpired) t) = 1)"

text \<open>The answer may be any JSON value; only an \<open>int\<close> that is not a \<open>bool\<close> can be right.\<close>

fun dockhand_answer_ok :: "json \<Rightarrow> int \<Rightarrow> bool" where
  "dockhand_answer_ok (JInt i) n = (i = n)"
| "dockhand_answer_ok _ n = False"

text \<open>
  \<open>confirm\<close> first reads the row and decides; what follows is one \<open>_resolve\<close>, or none.
\<close>

datatype dockhand_decision =
    Decide_refuse dockhand_error
  | Decide_expire
  | Decide_wrong int int
  | Decide_claim

definition dockhand_decide ::
  "instant \<Rightarrow> pystr \<Rightarrow> json \<Rightarrow> pending_dockhand_action option \<Rightarrow> dockhand_decision" where
  "dockhand_decide now request_id answer row_opt =
     (case row_opt of
        None \<Rightarrow> Decide_refuse (Dockhand_not_found request_id)
      | Some row \<Rightarrow>
          if pa_status row \<noteq> Dockhand_pending
            then Decide_refuse (Dockhand_not_pending (pa_status row))
          else if dockhand_is_past now (pa_expires_at row) then Decide_expire
          else if \<not> dockhand_answer_ok answer (pa_x row + pa_y row)
            then Decide_wrong (pa_x row) (pa_y row)
          else Decide_claim)"

text \<open>\<open>now\<close> is read for the expiry test, \<open>now'\<close> later for the UPDATE.\<close>

definition dockhand_confirm ::
  "instant \<Rightarrow> instant \<Rightarrow> pystr \<Rightarrow> json
     \<Rightarrow> dockhand_table \<Rightarrow> dockhand_table \<times> (dockhand_error + pending_dockhand_action)" where
  "dockhand_confirm now now' request_id answer t =
     (case dockhand_decide now request_id answer (get_row pa_id t request_id) of
        Decide_refuse e \<Rightarrow> (t, Inl e)
      | Decide_expire \<Rightarrow>
          (fst (dockhand_resolve now' request_id Dockhand_expired False None t),
           Inl Dockhand_challenge_expired)
      | Decide_wrong x y \<Rightarrow>
          (fst (dockhand_resolve now' request_id Dockhand_wrong_answer False None t),
           Inl (Dockhand_incorrect x y))
      | Decide_claim \<Rightarrow>
          (let (t', claimed) = dockhand_resolve now' request_id Dockhand_executing True None t in
           if \<not> claimed then (t', Inl Dockhand_lost_race)
           else case get_row pa_id t' request_id of
                  None \<Rightarrow> (t', Inl Dockhand_lost_race)
                | Some row \<Rightarrow> (t', Inr row)))"

definition dockhand_finish ::
  "instant \<Rightarrow> pystr \<Rightarrow> bool \<Rightarrow> pystr \<Rightarrow> dockhand_table \<Rightarrow> dockhand_table" where
  "dockhand_finish now request_id ok summary t =
     (let st = (if ok then Dockhand_executed else Dockhand_failed) in
      map (\<lambda>r. if pa_id r = request_id \<and> pa_status r = Dockhand_executing
               then r\<lparr>pa_status := st, pa_resolved_at := Some (naive_now now),
                      pa_result := Some (dockhand_one_line summary)\<rparr>
               else r) t)"

fun dockhand_purge_rows ::
  "instant \<Rightarrow> pending_dockhand_action list \<Rightarrow> dockhand_table \<Rightarrow> dockhand_table \<times> nat" where
  "dockhand_purge_rows now [] t = (t, 0)"
| "dockhand_purge_rows now (r # rs) t =
     (if dockhand_is_past now (pa_expires_at r)
      then let (t', moved) = dockhand_resolve now (pa_id r) Dockhand_expired False None t;
               (t'', n) = dockhand_purge_rows now rs t'
           in (t'', n + (if moved then 1 else 0))
      else dockhand_purge_rows now rs t)"

definition dockhand_purge_expired :: "instant \<Rightarrow> dockhand_table \<Rightarrow> dockhand_table \<times> nat" where
  "dockhand_purge_expired now t =
     dockhand_purge_rows now (filter (\<lambda>r. pa_status r = Dockhand_pending) t) t"

section \<open>The store as a machine\<close>

datatype dockhand_op =
    Dockhand_Request instant pystr int int pystr pystr pystr pystr pystr int bool
  | Dockhand_Resolve instant pystr pending_dockhand_status bool
  | Dockhand_Finish instant pystr bool pystr
  | Dockhand_Purge instant

datatype dockhand_out =
    Dockhand_Challenge "dockhand_error + pending_dockhand_action"
  | Dockhand_Moved bool
  | Dockhand_Done
  | Dockhand_Purged nat

fun dockhand_step :: "dockhand_op \<Rightarrow> dockhand_table \<Rightarrow> dockhand_table \<times> dockhand_out" where
  "dockhand_step (Dockhand_Request now rid x y k e tg ac who ttl pull) t =
     (let (t', r) = dockhand_request now rid x y k e tg ac who ttl pull t
      in (t', Dockhand_Challenge r))"
| "dockhand_step (Dockhand_Resolve now rid st unexp) t =
     (let (t', b) = dockhand_resolve now rid st unexp None t in (t', Dockhand_Moved b))"
| "dockhand_step (Dockhand_Finish now rid ok s) t = (dockhand_finish now rid ok s t, Dockhand_Done)"
| "dockhand_step (Dockhand_Purge now) t =
     (let (t', n) = dockhand_purge_expired now t in (t', Dockhand_Purged n))"

text \<open>\<open>_resolve\<close> is only ever called with a resolved status.\<close>

fun dockhand_legal :: "dockhand_op \<Rightarrow> bool" where
  "dockhand_legal (Dockhand_Resolve now rid st unexp) = (st \<noteq> Dockhand_pending)"
| "dockhand_legal _ = True"

text \<open>The statement that gives a caller the right to run the action.\<close>

fun dockhand_wins :: "dockhand_op \<Rightarrow> dockhand_out \<Rightarrow> pystr \<Rightarrow> bool" where
  "dockhand_wins (Dockhand_Resolve now rid Dockhand_executing unexp) (Dockhand_Moved True) k =
     (rid = k)"
| "dockhand_wins x out k = False"

definition dockhand_is_pending :: "pending_dockhand_action \<Rightarrow> bool" where
  "dockhand_is_pending c \<longleftrightarrow> pa_status c = Dockhand_pending"

section \<open>Lemmas\<close>

lemma dockhand_is_past_iff [simp]: "dockhand_is_past now e \<longleftrightarrow> instant_of e < now"
  by (simp add: dockhand_is_past_def naive_now_def)

lemma dockhand_answer_ok_iff [simp]: "dockhand_answer_ok a n \<longleftrightarrow> a = JInt n"
  by (cases a) auto

lemma evolves_dockhand_resolve:
  "st \<noteq> Dockhand_pending \<Longrightarrow>
     evolves pa_id dockhand_is_pending t (fst (dockhand_resolve now rid st u res t))"
  by (auto simp: dockhand_resolve_def dockhand_is_pending_def intro!: evolves_map split: if_splits)

lemma evolves_dockhand_purge_rows:
  "evolves pa_id dockhand_is_pending t (fst (dockhand_purge_rows now rs t))"
proof (induction rs arbitrary: t)
  case Nil
  then show ?case by simp
next
  case (Cons r rs)
  have "evolves pa_id dockhand_is_pending t
      (fst (dockhand_resolve now (pa_id r) Dockhand_expired False None t))"
    by (rule evolves_dockhand_resolve) simp
  then show ?case
    using Cons.IH by (auto simp: split_beta Let_def intro: evolves_trans)
qed

lemma dockhand_step_evolves:
  assumes "dockhand_legal x"
  shows "evolves pa_id dockhand_is_pending t (fst (dockhand_step x t))"
proof (cases x)
  case (Dockhand_Request)
  then show ?thesis
    by (auto simp: dockhand_request_def Let_def intro: evolves_insert split: option.splits)
next
  case (Dockhand_Resolve now rid st unexp)
  with assms show ?thesis
    by (simp add: split_beta evolves_dockhand_resolve)
next
  case (Dockhand_Finish)
  then show ?thesis
    by (auto simp: dockhand_finish_def dockhand_is_pending_def Let_def
        intro!: evolves_map split: if_splits)
next
  case (Dockhand_Purge now)
  then show ?thesis
    by (simp add: split_beta dockhand_purge_expired_def evolves_dockhand_purge_rows)
qed

text \<open>Ids are unique in every reachable table, so a hit is the row the key names.\<close>

lemma resolve_moved:
  assumes "keyed pa_id t" "snd (dockhand_resolve now rid st u res t)"
  shows "\<exists>r. get_row pa_id t rid = Some r \<and> resolve_hits now rid u r"
proof -
  from assms(2) have "filter (resolve_hits now rid u) t \<noteq> []"
    by (auto simp: dockhand_resolve_def)
  then obtain r where "r \<in> set t" "resolve_hits now rid u r"
    by (auto simp: filter_empty_conv)
  moreover from this(2) have "pa_id r = rid" by (simp add: resolve_hits_def)
  ultimately show ?thesis using assms(1) by (auto dest: keyed_get)
qed

lemma get_resolve:
  "get_row pa_id (fst (dockhand_resolve now rid st u res t)) k =
     map_option (\<lambda>r. if resolve_hits now rid u r
       then r\<lparr>pa_status := st, pa_resolved_at := Some (naive_now now), pa_result := res\<rparr> else r)
       (get_row pa_id t k)"
  by (simp add: dockhand_resolve_def get_row_map)

lemma keyed_resolve [simp]:
  "keyed pa_id (fst (dockhand_resolve now rid st u res t)) = keyed pa_id t"
  by (simp add: dockhand_resolve_def keyed_map)

lemma keyed_purge_rows [simp]:
  "keyed pa_id (fst (dockhand_purge_rows now rs t)) = keyed pa_id t"
  by (induction rs arbitrary: t) (simp_all add: split_beta Let_def)

lemma keyed_finish [simp]: "keyed pa_id (dockhand_finish now rid ok s t) = keyed pa_id t"
  by (simp add: dockhand_finish_def Let_def keyed_map)

lemma dockhand_step_keyed: "keyed pa_id t \<Longrightarrow> keyed pa_id (fst (dockhand_step x t))"
  by (cases x)
     (auto simp: dockhand_request_def dockhand_purge_expired_def Let_def split_beta
        intro: keyed_insert split: option.splits)

lemma dockhand_wins_iff:
  "dockhand_wins x (snd (dockhand_step x t)) k \<longleftrightarrow>
     (\<exists>now u. x = Dockhand_Resolve now k Dockhand_executing u \<and>
        snd (dockhand_resolve now k Dockhand_executing u None t) \<and>
        fst (dockhand_step x t) = fst (dockhand_resolve now k Dockhand_executing u None t))"
  by (cases x) (auto simp: split_beta elim!: dockhand_wins.elims)

interpretation dockhand_gate:
  gate_table dockhand_step dockhand_legal pa_id dockhand_is_pending dockhand_wins
proof (unfold_locales, goal_cases)
  case (1 x t)
  then show ?case by (simp add: dockhand_step_keyed)
next
  case (2 x t)
  then show ?case by (rule dockhand_step_evolves)
next
  case (3 t x k)
  then show ?case
    by (auto simp: dockhand_wins_iff dockhand_is_pending_def resolve_hits_def dest!: resolve_moved)
next
  case (4 t x k)
  then show ?case
    by (auto simp: dockhand_wins_iff get_resolve dockhand_is_pending_def dest!: resolve_moved)
qed

text \<open>A confirm that returns the row has won its claim statement.\<close>

lemma dockhand_confirm_Inr:
  "dockhand_confirm now now' rid ans t = (t', Inr row) \<Longrightarrow>
     snd (dockhand_resolve now' rid Dockhand_executing True None t) \<and>
     t' = fst (dockhand_resolve now' rid Dockhand_executing True None t) \<and>
     get_row pa_id t' rid = Some row \<and>
     (\<exists>r0. get_row pa_id t rid = Some r0 \<and> ans = JInt (pa_x r0 + pa_y r0) \<and>
        pa_status r0 = Dockhand_pending \<and> now \<le> instant_of (pa_expires_at r0))"
  by (auto simp: dockhand_confirm_def dockhand_decide_def Let_def split_beta
      split: option.splits if_splits dockhand_decision.splits)

section \<open>Properties\<close>

text \<open>
  C25: Two concurrent confirms of one Dockhand challenge cannot both claim it. The
  statements of any number of concurrent requests, confirms, finishes and purges, in any
  interleaving, contain at most one claiming UPDATE of a given request id that reports a
  row moved; every confirm that returns the action has made such an UPDATE.
\<close>
theorem dockhand_claimed_once:
  assumes "list_all dockhand_legal xs"
  shows "win_count dockhand_wins k (snd (run_ops dockhand_step xs [])) \<le> 1 \<and>
    (dockhand_confirm now now' k ans t = (t', Inr row) \<longrightarrow>
       dockhand_wins (Dockhand_Resolve now' k Dockhand_executing True)
         (snd (dockhand_step (Dockhand_Resolve now' k Dockhand_executing True) t)) k)"
  using dockhand_gate.at_most_one_win [OF assms, of "[]" k]
  by (auto simp: dockhand_wins_iff split_beta dest!: dockhand_confirm_Inr)

theorem dockhand_claimed_once_witness:
  "win_count dockhand_wins ''r1''
     (snd (run_ops dockhand_step
        [Dockhand_Request 0 ''r1'' 3 4 ''stack'' ''1'' ''media'' ''restart'' ''me'' 5 False,
         Dockhand_Resolve 1 ''r1'' Dockhand_executing True,
         Dockhand_Resolve 1 ''r1'' Dockhand_executing True] [])) \<le> 1"
proof -
  have "list_all dockhand_legal
       [Dockhand_Request 0 ''r1'' 3 4 ''stack'' ''1'' ''media'' ''restart'' ''me'' 5 False,
        Dockhand_Resolve 1 ''r1'' Dockhand_executing True,
        Dockhand_Resolve 1 ''r1'' Dockhand_executing True]" by simp
  then show ?thesis using dockhand_claimed_once by blast
qed

end
