(* ===== verification/DockhandActions.thy ===== *)
theory DockhandActions
  imports DockhandGate
begin

text \<open>
  \<open>integrations/dockhand/client.py\<close> (the read retry loop, the envelope, the two gated
  actions) and \<open>integrations/dockhand/actions.py\<close> (the request and confirm tools). The
  HTTP transport is a parameter: for every POST, given the POSTs made before it, what
  came back. Error messages are constructors that carry what the message names.
\<close>

section \<open>The client\<close>

datatype dockhand_client_error =
    DC_status int pystr
  | DC_request_failed pystr
  | DC_unsupported_action pystr
  | DC_bad_environment
  | DC_bad_path_id pystr
  | DC_no_stack pystr
  | DC_ambiguous_stack pystr
  | DC_maybe_applied pystr
  | DC_reported_failure pystr
  | DC_unexpected

definition CONTAINER_ACTIONS :: "pystr list" where
  "CONTAINER_ACTIONS = [''start'', ''stop'', ''restart'']"

definition STACK_ACTIONS :: "pystr list" where
  "STACK_ACTIONS = [''start'', ''stop'', ''restart'', ''redeploy'']"

definition path_id_char :: "char \<Rightarrow> bool" where
  "path_id_char c \<longleftrightarrow>
     is_ascii_alpha c \<or> is_ascii_digit c \<or> c = CHR ''_'' \<or> c = CHR ''.'' \<or> c = CHR ''-''"

text \<open>\<open>_PATH_ID\<close> and \<open>_ENVIRONMENT_ID\<close> under \<open>fullmatch\<close>.\<close>

definition path_id_ok :: "pystr \<Rightarrow> bool" where
  "path_id_ok s \<longleftrightarrow>
     (case s of [] \<Rightarrow> False
      | c # r \<Rightarrow> (is_ascii_alpha c \<or> is_ascii_digit c) \<and> length r \<le> 127 \<and> list_all path_id_char r)"

definition environment_id_ok :: "pystr \<Rightarrow> bool" where
  "environment_id_ok s \<longleftrightarrow> 1 \<le> length s \<and> length s \<le> 9 \<and> list_all is_ascii_digit s"

definition check_environment :: "pystr \<Rightarrow> dockhand_client_error option" where
  "check_environment e = (if environment_id_ok e then None else Some DC_bad_environment)"

definition check_path_id :: "pystr \<Rightarrow> pystr \<Rightarrow> dockhand_client_error option" where
  "check_path_id v what = (if path_id_ok v then None else Some (DC_bad_path_id what))"

text \<open>\<open>_list\<close>: a bare array, or one under a known key of an object.\<close>

definition dockhand_list :: "json \<Rightarrow> json list" where
  "dockhand_list payload =
     (case payload of
        JObj kvs \<Rightarrow>
          (case json_get payload ''results'' of Some (JList xs) \<Rightarrow> xs
           | _ \<Rightarrow> (case json_get payload ''data'' of Some (JList xs) \<Rightarrow> xs
           | _ \<Rightarrow> (case json_get payload ''items'' of Some (JList xs) \<Rightarrow> xs | _ \<Rightarrow> [])))
      | JList xs \<Rightarrow> xs
      | _ \<Rightarrow> [])"

text \<open>
  The outcome of one GET attempt: a 2xx answer whose body is JSON or is not, another
  status, a transport error. \<open>dockhand_get_loop\<close> is the retry loop from attempt
  \<open>i\<close> on with \<open>left\<close> attempts to go; it returns the result, the number of attempts
  made and the exponents of the sleeps (\<open>backoff * 2 ** attempt\<close>).
\<close>

datatype get_outcome = Get_ok json | Get_bad_json | Get_status int | Get_transport pystr

fun dockhand_get_loop ::
  "(nat \<Rightarrow> get_outcome) \<Rightarrow> pystr \<Rightarrow> nat \<Rightarrow> nat
     \<Rightarrow> (dockhand_client_error + json) \<times> nat \<times> nat list" where
  "dockhand_get_loop http path i 0 = (Inl (DC_request_failed path), 0, [])"
| "dockhand_get_loop http path i (Suc left) =
     (let again = (let (r, n, sl) = dockhand_get_loop http path (Suc i) left
                   in (r, Suc n, if 0 < left then i # sl else sl)) in
      case http i of
        Get_ok j \<Rightarrow> (Inr j, 1, [])
      | Get_bad_json \<Rightarrow> (Inl DC_unexpected, 1, [])
      | Get_status st \<Rightarrow> if st < 500 then (Inl (DC_status st path), 1, []) else again
      | Get_transport e \<Rightarrow> again)"

definition dockhand_get_request ::
  "(nat \<Rightarrow> get_outcome) \<Rightarrow> pystr \<Rightarrow> int \<Rightarrow> (dockhand_client_error + json) \<times> nat \<times> nat list" where
  "dockhand_get_request http path retries =
     dockhand_get_loop http path 0 (nat (max 1 retries))"

definition compose_project :: "json \<Rightarrow> pystr option" where
  "compose_project container =
     (let falsy = (\<lambda>j. j \<in> {None, Some JNull, Some (JBool False), Some (JInt 0), Some (JFloat 0),
                           Some (JStr []), Some (JList []), Some (JObj [])});
          l1 = json_get container ''labels'';
          labels = (if falsy l1 then json_get container ''Labels'' else l1)
      in case labels of
           Some (JObj kvs) \<Rightarrow>
             (case map_of kvs ''com.docker.compose.project'' of Some (JStr p) \<Rightarrow> Some p | _ \<Rightarrow> None)
         | _ \<Rightarrow> None)"

section \<open>The two writes\<close>

datatype post_call = Post (post_path: pystr) (post_env: pystr) (post_body: "json option")

text \<open>What one POST brought: a status with the parsed body, an httpx error, another exception.\<close>

datatype post_outcome = Post_status int "json option" | Post_transport pystr | Post_unexpected

type_synonym post_http = "post_call list \<Rightarrow> post_call \<Rightarrow> post_outcome"

definition dockhand_post ::
  "post_http \<Rightarrow> pystr \<Rightarrow> pystr \<Rightarrow> json option \<Rightarrow> post_call list
     \<Rightarrow> post_call list \<times> (dockhand_client_error + (int \<times> json option))" where
  "dockhand_post http path environment_id body posts =
     (let call = Post path environment_id body; posts' = posts @ [call] in
      (posts',
       case http posts call of
         Post_transport e \<Rightarrow> Inl (DC_maybe_applied path)
       | Post_unexpected \<Rightarrow> Inl DC_unexpected
       | Post_status st parsed \<Rightarrow>
           if st < 200 \<or> 299 < st then Inl (DC_status st path)
           else if (case parsed of Some j \<Rightarrow> json_get j ''success'' = Some (JBool False) | None \<Rightarrow> False)
             then Inl (DC_reported_failure path)
           else Inr (st, parsed)))"

definition container_action ::
  "post_http \<Rightarrow> pystr \<Rightarrow> pystr \<Rightarrow> pystr \<Rightarrow> post_call list
     \<Rightarrow> post_call list \<times> (dockhand_client_error + (int \<times> json option))" where
  "container_action http environment_id container_id action posts =
     (if action \<notin> set CONTAINER_ACTIONS then (posts, Inl (DC_unsupported_action action))
      else case check_environment environment_id of
        Some e \<Rightarrow> (posts, Inl e)
      | None \<Rightarrow>
          case check_path_id container_id ''container id'' of
            Some e \<Rightarrow> (posts, Inl e)
          | None \<Rightarrow> dockhand_post http (''containers/'' @ container_id @ ''/'' @ action)
                      environment_id None posts)"

definition redeploy_body :: "bool \<Rightarrow> json" where
  "redeploy_body pull =
     JObj [(''pull'', JBool pull), (''build'', JBool False), (''forceRecreate'', JBool True)]"

definition stack_action ::
  "post_http \<Rightarrow> pystr \<Rightarrow> pystr \<Rightarrow> pystr \<Rightarrow> bool \<Rightarrow> post_call list
     \<Rightarrow> post_call list \<times> (dockhand_client_error + (int \<times> json option))" where
  "stack_action http environment_id stack_name action pull posts =
     (if action \<notin> set STACK_ACTIONS then (posts, Inl (DC_unsupported_action action))
      else case check_environment environment_id of
        Some e \<Rightarrow> (posts, Inl e)
      | None \<Rightarrow>
          case check_path_id stack_name ''stack name'' of
            Some e \<Rightarrow> (posts, Inl e)
          | None \<Rightarrow>
              if action = ''redeploy''
              then dockhand_post http (''stacks/'' @ stack_name @ ''/deploy'') environment_id
                     (Some (redeploy_body pull)) posts
              else dockhand_post http (''stacks/'' @ stack_name @ ''/'' @ action)
                     environment_id None posts)"

section \<open>The tools\<close>

record dockhand_world =
  dw_gate :: dockhand_table
  dw_posts :: "post_call list"

datatype dockhand_warning = Warn_redeploy bool | Warn_stop

datatype dockhand_reply =
    Reply_read_only
  | Reply_client_error dockhand_client_error
  | Reply_gate_error dockhand_error
  | Reply_challenge pending_dockhand_action pystr "dockhand_warning option"
  | Reply_action_failed dockhand_client_error pystr pystr
  | Reply_executed pystr pystr int "json option"
  | Reply_raised

definition RESPONSE_MAX_CHARS :: nat where
  "RESPONSE_MAX_CHARS = 4000"

text \<open>\<open>_bounded\<close>, with \<open>json.dumps\<close> as a parameter.\<close>

definition bounded :: "(json \<Rightarrow> pystr) \<Rightarrow> json \<Rightarrow> json" where
  "bounded dumps response =
     (let s = dumps response in
      if length s \<le> RESPONSE_MAX_CHARS then response
      else JObj [(''truncated'', JBool True), (''preview'', JStr (take RESPONSE_MAX_CHARS s))])"

text \<open>The identity and the two digits of a new challenge, and the TTL setting.\<close>

record dockhand_draw =
  dd_id :: pystr
  dd_x :: int
  dd_y :: int
  dd_ttl :: int

definition dockhand_challenge_reply ::
  "dockhand_warning option \<Rightarrow> dockhand_error + pending_dockhand_action \<Rightarrow> dockhand_reply" where
  "dockhand_challenge_reply w r =
     (case r of Inl e \<Rightarrow> Reply_raised
      | Inr row \<Rightarrow> Reply_challenge row (describe_action row) w)"

definition dockhand_container_action_request ::
  "bool \<Rightarrow> instant \<Rightarrow> dockhand_draw \<Rightarrow> pystr \<Rightarrow> pystr \<Rightarrow> pystr
     \<Rightarrow> dockhand_world \<Rightarrow> dockhand_world \<times> dockhand_reply" where
  "dockhand_container_action_request read_only now d environment_id container_id action w =
     (if read_only then (w, Reply_read_only)
      else if action \<notin> set CONTAINER_ACTIONS
        then (w, Reply_client_error (DC_unsupported_action action))
      else case check_environment environment_id of
        Some e \<Rightarrow> (w, Reply_client_error e)
      | None \<Rightarrow>
          case check_path_id container_id ''container id'' of
            Some e \<Rightarrow> (w, Reply_client_error e)
          | None \<Rightarrow>
              let (t, r) = dockhand_request now (dd_id d) (dd_x d) (dd_y d) ''container''
                    environment_id container_id action
                    ''manual:dockhand_container_action_request'' (dd_ttl d) False (dw_gate w)
              in (w\<lparr>dw_gate := t\<rparr>, dockhand_challenge_reply None r))"

definition stack_warning :: "pystr \<Rightarrow> bool \<Rightarrow> dockhand_warning option" where
  "stack_warning action pull =
     (if action = ''redeploy'' then Some (Warn_redeploy pull)
      else if action = ''stop'' then Some Warn_stop else None)"

definition dockhand_stack_action_request ::
  "bool \<Rightarrow> instant \<Rightarrow> dockhand_draw \<Rightarrow> pystr \<Rightarrow> pystr \<Rightarrow> pystr \<Rightarrow> bool
     \<Rightarrow> dockhand_world \<Rightarrow> dockhand_world \<times> dockhand_reply" where
  "dockhand_stack_action_request read_only now d environment_id stack_name action pull w =
     (if read_only then (w, Reply_read_only)
      else if action \<notin> set STACK_ACTIONS
        then (w, Reply_client_error (DC_unsupported_action action))
      else case check_environment environment_id of
        Some e \<Rightarrow> (w, Reply_client_error e)
      | None \<Rightarrow>
          case check_path_id stack_name ''stack name'' of
            Some e \<Rightarrow> (w, Reply_client_error e)
          | None \<Rightarrow>
              let pulled = (pull \<and> action = ''redeploy'');
                  (t, r) = dockhand_request now (dd_id d) (dd_x d) (dd_y d) ''stack''
                    environment_id stack_name action
                    ''manual:dockhand_stack_action_request'' (dd_ttl d) pulled (dw_gate w)
              in (w\<lparr>dw_gate := t\<rparr>, dockhand_challenge_reply (stack_warning action pulled) r))"

text \<open>The client call the confirm tool makes for a stored row.\<close>

definition run_stored_action ::
  "post_http \<Rightarrow> pending_dockhand_action \<Rightarrow> post_call list
     \<Rightarrow> post_call list \<times> (dockhand_client_error + (int \<times> json option))" where
  "run_stored_action http row posts =
     (if pa_kind row = ''stack''
      then stack_action http (pa_environment_id row) (pa_target row) (pa_action row) (pa_pull row) posts
      else container_action http (pa_environment_id row) (pa_target row) (pa_action row) posts)"

text \<open>How a failed call is recorded; \<open>show_error\<close> stands for \<open>str(exc)\<close>.\<close>

definition dockhand_action_confirm ::
  "bool \<Rightarrow> post_http \<Rightarrow> (json \<Rightarrow> pystr) \<Rightarrow> (dockhand_client_error \<Rightarrow> pystr)
     \<Rightarrow> instant \<Rightarrow> instant \<Rightarrow> instant \<Rightarrow> pystr \<Rightarrow> json
     \<Rightarrow> dockhand_world \<Rightarrow> dockhand_world \<times> dockhand_reply" where
  "dockhand_action_confirm read_only http dumps show_error now now' now'' request_id answer w =
     (if read_only then (w, Reply_read_only)
      else case dockhand_confirm now now' request_id answer (dw_gate w) of
        (t, Inl e) \<Rightarrow> (w\<lparr>dw_gate := t\<rparr>, Reply_gate_error e)
      | (t, Inr row) \<Rightarrow>
          let what = describe_action row;
              (posts, outcome) = run_stored_action http row (dw_posts w)
          in case outcome of
               Inl DC_unexpected \<Rightarrow>
                 (\<lparr>dw_gate = dockhand_finish now'' (pa_id row) False
                       ''unexpected error before a result'' t, dw_posts = posts\<rparr>, Reply_raised)
             | Inl e \<Rightarrow>
                 (\<lparr>dw_gate = dockhand_finish now'' (pa_id row) False (show_error e) t,
                   dw_posts = posts\<rparr>, Reply_action_failed e (pa_id row) what)
             | Inr (st, parsed) \<Rightarrow>
                 (\<lparr>dw_gate = dockhand_finish now'' (pa_id row) True (''HTTP '' @ show_int st) t,
                   dw_posts = posts\<rparr>,
                  Reply_executed (pa_id row) what st (map_option (bounded dumps) parsed)))"

section \<open>The tools as a machine\<close>

datatype dockhand_tool =
    Tool_container instant dockhand_draw pystr pystr pystr
  | Tool_stack instant dockhand_draw pystr pystr pystr bool
  | Tool_confirm instant instant instant pystr json
  | Tool_purge instant

fun dockhand_tool_step ::
  "bool \<Rightarrow> post_http \<Rightarrow> (json \<Rightarrow> pystr) \<Rightarrow> (dockhand_client_error \<Rightarrow> pystr)
     \<Rightarrow> dockhand_tool \<Rightarrow> dockhand_world \<Rightarrow> dockhand_world \<times> dockhand_reply" where
  "dockhand_tool_step ro http dumps sh (Tool_container now d e i a) w =
     dockhand_container_action_request ro now d e i a w"
| "dockhand_tool_step ro http dumps sh (Tool_stack now d e i a p) w =
     dockhand_stack_action_request ro now d e i a p w"
| "dockhand_tool_step ro http dumps sh (Tool_confirm now now' now'' rid ans) w =
     dockhand_action_confirm ro http dumps sh now now' now'' rid ans w"
| "dockhand_tool_step ro http dumps sh (Tool_purge now) w =
     (w\<lparr>dw_gate := fst (dockhand_purge_expired now (dw_gate w))\<rparr>, Reply_read_only)"

definition no_dockhand :: dockhand_world where
  "no_dockhand = \<lparr>dw_gate = [], dw_posts = []\<rparr>"

text \<open>A challenge whose action was claimed.\<close>

definition started :: "pending_dockhand_action \<Rightarrow> bool" where
  "started r \<longleftrightarrow> pa_status r \<in> {Dockhand_executing, Dockhand_executed, Dockhand_failed}"

definition post_allowed :: "post_call \<Rightarrow> bool" where
  "post_allowed c \<longleftrightarrow> environment_id_ok (post_env c) \<and>
     (\<exists>i a. path_id_ok i \<and>
        ((a \<in> set CONTAINER_ACTIONS \<and> post_path c = ''containers/'' @ i @ ''/'' @ a \<and> post_body c = None) \<or>
         (a \<in> {''start'', ''stop'', ''restart''} \<and> post_path c = ''stacks/'' @ i @ ''/'' @ a \<and>
            post_body c = None) \<or>
         (\<exists>p. post_path c = ''stacks/'' @ i @ ''/deploy'' \<and> post_body c = Some (redeploy_body p))))"

definition world_ok :: "dockhand_world \<Rightarrow> bool" where
  "world_ok w \<longleftrightarrow> keyed pa_id (dw_gate w) \<and>
     length (dw_posts w) \<le> length (filter started (dw_gate w)) \<and>
     list_all post_allowed (dw_posts w)"

section \<open>Lemmas\<close>

lemma count_marked:
  assumes "\<And>r. p (f r) \<longleftrightarrow> p r \<or> h r" "\<And>r. h r \<Longrightarrow> \<not> p r"
  shows "length (filter p (map f t)) = length (filter p t) + length (filter h t)"
  using assms by (induction t) auto

lemma count_kept:
  assumes "\<And>r. p (f r) \<longleftrightarrow> p r"
  shows "length (filter p (map f t)) = length (filter p t)"
  using assms by (induction t) auto

lemma started_resolve_claim:
  "snd (dockhand_resolve now rid Dockhand_executing u res t) \<Longrightarrow>
     length (filter started (fst (dockhand_resolve now rid Dockhand_executing u res t))) =
     Suc (length (filter started t))"
  unfolding dockhand_resolve_def fst_conv snd_conv
  by (subst count_marked [where h = "resolve_hits now rid u"])
     (auto simp: started_def resolve_hits_def)

lemma started_resolve_other:
  "st \<in> {Dockhand_expired, Dockhand_wrong_answer} \<Longrightarrow>
     length (filter started (fst (dockhand_resolve now rid st u res t))) = length (filter started t)"
  unfolding dockhand_resolve_def fst_conv
  by (rule count_kept) (auto simp: started_def resolve_hits_def)

lemma resolve_unmoved:
  assumes "keyed pa_id t" "\<not> snd (dockhand_resolve now rid st u res t)"
  shows "fst (dockhand_resolve now rid st u res t) = t"
proof -
  have "filter (resolve_hits now rid u) t = []"
  proof (rule ccontr)
    assume ne: "filter (resolve_hits now rid u) t \<noteq> []"
    have "length (filter (\<lambda>r. pa_id r = rid) t) \<le> 1"
      using assms(1) unfolding keyed_def
      by (induction t) (auto simp: filter_empty_conv rev_image_eqI)
    moreover have "length (filter (resolve_hits now rid u) t) \<le> length (filter (\<lambda>r. pa_id r = rid) t)"
      by (induction t) (auto simp: resolve_hits_def)
    ultimately have "length (filter (resolve_hits now rid u) t) = 1"
      using ne by (metis One_nat_def le_SucE le_trans le_zero_eq length_0_conv)
    with assms(2) show False by (simp add: dockhand_resolve_def)
  qed
  then show ?thesis
    by (auto simp: dockhand_resolve_def filter_empty_conv intro!: map_idI)
qed

lemma started_finish [simp]:
  "length (filter started (dockhand_finish now rid ok s t)) = length (filter started t)"
  unfolding dockhand_finish_def Let_def by (rule count_kept) (auto simp: started_def)

lemma started_purge [simp]:
  "length (filter started (fst (dockhand_purge_expired now t))) = length (filter started t)"
proof -
  have "length (filter started (fst (dockhand_purge_rows now rs u))) = length (filter started u)" for rs u
    by (induction rs arbitrary: u) (simp_all add: split_beta Let_def started_resolve_other)
  then show ?thesis by (simp add: dockhand_purge_expired_def)
qed

lemma dockhand_post_adds: "fst (dockhand_post http p e b posts) = posts @ [Post p e b]"
  by (simp add: dockhand_post_def Let_def)

lemma run_stored_action_posts:
  "fst (run_stored_action http row posts) = posts \<or>
   (\<exists>c. fst (run_stored_action http row posts) = posts @ [c] \<and> post_allowed c)"
  unfolding run_stored_action_def stack_action_def container_action_def check_environment_def
    check_path_id_def post_allowed_def
  by (auto simp: dockhand_post_adds CONTAINER_ACTIONS_def STACK_ACTIONS_def)

lemma world_ok_request:
  assumes "world_ok w"
    "dockhand_request now i x y k e tg ac who ttl pull (dw_gate w) = (t, r)"
  shows "world_ok (w\<lparr>dw_gate := t\<rparr>)"
  using assms
  by (auto simp: world_ok_def dockhand_request_def Let_def insert_row_def started_def
      keyed_def get_row_None_iff split: option.splits if_splits)

lemma dockhand_confirm_Inl:
  assumes "keyed pa_id t" "dockhand_confirm now now' rid ans t = (t', Inl e)"
  shows "keyed pa_id t' \<and> length (filter started t') = length (filter started t)"
  using assms resolve_moved [of t now' rid Dockhand_executing True None]
    resolve_unmoved [of t now' rid Dockhand_executing True None]
  by (auto simp: dockhand_confirm_def Let_def split_beta get_resolve started_resolve_other
      split: dockhand_decision.splits if_splits option.splits)

lemma dockhand_action_confirm_claimed:
  assumes "dockhand_confirm now now' rid ans (dw_gate w) = (t, Inr row)"
  shows "\<exists>ok s. fst (dockhand_action_confirm False http dumps sh now now' now'' rid ans w) =
    \<lparr>dw_gate = dockhand_finish now'' (pa_id row) ok s t,
     dw_posts = fst (run_stored_action http row (dw_posts w))\<rparr>"
proof (cases "run_stored_action http row (dw_posts w)")
  case (Pair posts outcome)
  show ?thesis
  proof (cases outcome)
    case (Inl e)
    with Pair assms show ?thesis
      by (cases e) (auto simp: dockhand_action_confirm_def Let_def)
  next
    case (Inr res)
    with Pair assms show ?thesis
      by (cases res) (auto simp: dockhand_action_confirm_def Let_def)
  qed
qed

lemma dockhand_action_confirm_refused:
  assumes "dockhand_confirm now now' rid ans (dw_gate w) = (t, Inl e)"
  shows "dockhand_action_confirm False http dumps sh now now' now'' rid ans w =
    (w\<lparr>dw_gate := t\<rparr>, Reply_gate_error e)"
  using assms by (simp add: dockhand_action_confirm_def)

lemma world_ok_claimed:
  assumes w: "world_ok w"
    and c: "dockhand_confirm now now' rid ans (dw_gate w) = (t, Inr row)"
  shows "world_ok \<lparr>dw_gate = dockhand_finish now'' (pa_id row) ok s t,
     dw_posts = fst (run_stored_action http row (dw_posts w))\<rparr>"
proof -
  have claim: "snd (dockhand_resolve now' rid Dockhand_executing True None (dw_gate w))"
    "t = fst (dockhand_resolve now' rid Dockhand_executing True None (dw_gate w))"
    using dockhand_confirm_Inr [OF c] by blast+
  then have "length (filter started t) = Suc (length (filter started (dw_gate w)))"
    and "keyed pa_id t"
    using w by (simp_all add: started_resolve_claim world_ok_def)
  then show ?thesis
    using w run_stored_action_posts [of http row "dw_posts w"]
    by (auto simp: world_ok_def)
qed

lemma world_ok_confirm:
  assumes w: "world_ok w"
  shows "world_ok (fst (dockhand_action_confirm ro http dumps sh now now' now'' rid ans w))"
proof (cases ro)
  case True
  with w show ?thesis by (simp add: dockhand_action_confirm_def)
next
  case ro: False
  obtain t r where c: "dockhand_confirm now now' rid ans (dw_gate w) = (t, r)" by fastforce
  show ?thesis
  proof (cases r)
    case (Inl e)
    with c have c': "dockhand_confirm now now' rid ans (dw_gate w) = (t, Inl e)" by simp
    then have "keyed pa_id t \<and> length (filter started t) = length (filter started (dw_gate w))"
      using w by (intro dockhand_confirm_Inl) (simp_all add: world_ok_def)
    with w ro show ?thesis
      by (simp add: dockhand_action_confirm_refused [OF c'] world_ok_def)
  next
    case (Inr row)
    with c have c': "dockhand_confirm now now' rid ans (dw_gate w) = (t, Inr row)" by simp
    obtain ok s where
      "fst (dockhand_action_confirm False http dumps sh now now' now'' rid ans w) =
        \<lparr>dw_gate = dockhand_finish now'' (pa_id row) ok s t,
         dw_posts = fst (run_stored_action http row (dw_posts w))\<rparr>"
      using dockhand_action_confirm_claimed [OF c'] by blast
    then show ?thesis using world_ok_claimed [OF w c'] ro by simp
  qed
qed

lemma world_ok_step: "world_ok w \<Longrightarrow> world_ok (fst (dockhand_tool_step ro http dumps sh x w))"
proof (cases x)
  case (Tool_confirm)
  assume "world_ok w"
  with Tool_confirm show ?thesis by (simp add: world_ok_confirm)
next
  case (Tool_purge now)
  assume "world_ok w"
  with Tool_purge show ?thesis by (simp add: world_ok_def) (simp add: dockhand_purge_expired_def)
qed (auto simp: dockhand_container_action_request_def dockhand_stack_action_request_def Let_def
      split_beta intro: world_ok_request [OF _ prod.collapse [symmetric]] split: option.splits)

lemma world_ok_run: "world_ok w \<Longrightarrow> world_ok (fst (run_ops (dockhand_tool_step ro http dumps sh) xs w))"
  by (induction xs arbitrary: w)
     (auto simp: run_ops_Cons world_ok_step simp del: run_ops.simps(2))

lemma world_ok_init: "world_ok no_dockhand"
  by (simp add: world_ok_def no_dockhand_def)

lemma dockhand_get_loop_spec:
  "0 < left \<Longrightarrow> (case dockhand_get_loop http path i left of (r, n, sl) \<Rightarrow>
      1 \<le> n \<and> n \<le> left \<and>
      (\<forall>j. i \<le> j \<longrightarrow> j < i + (n - 1) \<longrightarrow>
         (\<exists>s \<ge> 500. http j = Get_status s) \<or> (\<exists>e. http j = Get_transport e)) \<and>
      (\<forall>j. r = Inr j \<longrightarrow> http (i + (n - 1)) = Get_ok j) \<and>
      (\<forall>s. r = Inl (DC_status s path) \<longrightarrow> http (i + (n - 1)) = Get_status s \<and> s < 500))"
proof (induction left arbitrary: i)
  case 0
  then show ?case by simp
next
  case (Suc left)
  note IH0 = Suc.IH
  obtain r n sl where rec: "dockhand_get_loop http path (Suc i) left = (r, n, sl)"
    by (metis prod_cases3)
  have again: "(\<exists>s \<ge> 500. http i = Get_status s) \<or> (\<exists>e. http i = Get_transport e) \<Longrightarrow> ?case"
  proof (cases left)
    case 0
    assume "(\<exists>s \<ge> 500. http i = Get_status s) \<or> (\<exists>e. http i = Get_transport e)"
    with 0 show ?thesis by auto
  next
    case (Suc l)
    assume fail: "(\<exists>s \<ge> 500. http i = Get_status s) \<or> (\<exists>e. http i = Get_transport e)"
    have IH: "1 \<le> n" "n \<le> left"
      "\<And>j. Suc i \<le> j \<Longrightarrow> j < Suc i + (n - 1) \<Longrightarrow>
         (\<exists>s \<ge> 500. http j = Get_status s) \<or> (\<exists>e. http j = Get_transport e)"
      "\<And>j. r = Inr j \<Longrightarrow> http (Suc i + (n - 1)) = Get_ok j"
      "\<And>s. r = Inl (DC_status s path) \<Longrightarrow> http (Suc i + (n - 1)) = Get_status s \<and> s < 500"
      using IH0 [of "Suc i"] Suc rec by (auto simp del: dockhand_get_loop.simps)
    have run: "dockhand_get_loop http path i (Suc left) = (r, Suc n, if 0 < left then i # sl else sl)"
      using fail rec by (auto simp: Let_def)
    have "\<And>j. i \<le> j \<Longrightarrow> j < i + n \<Longrightarrow>
         (\<exists>s \<ge> 500. http j = Get_status s) \<or> (\<exists>e. http j = Get_transport e)"
      using IH(1,3) fail by (metis Suc_leI add_Suc add_Suc_right le_add_diff_inverse le_neq_implies_less plus_1_eq_Suc)
    moreover have "Suc i + (n - 1) = i + n" using IH(1) by simp
    ultimately show ?thesis
      using IH unfolding run by (auto simp del: dockhand_get_loop.simps)
  qed
  show ?case
  proof (cases "http i")
    case (Get_status st)
    show ?thesis
    proof (cases "st < 500")
      case True
      with Get_status show ?thesis by simp
    next
      case False
      with Get_status show ?thesis by (intro again) simp
    qed
  next
    case (Get_transport e)
    then show ?thesis by (intro again) simp
  qed auto
qed

section \<open>Properties\<close>

text \<open>
  C6: Whatever tool calls are made in whatever order, and whatever Dockhand answers, the
  server sends at most one write request per claimed challenge (a failed write is never
  repeated), and every write it sends is a start, stop or restart of one container or
  stack, or a redeploy of a stack with forced recreation, in a numeric environment, with
  an id that cannot escape its path segment.
\<close>
theorem dockhand_writes_gated:
  "let w = fst (run_ops (dockhand_tool_step ro http dumps sh) xs no_dockhand) in
     length (dw_posts w) \<le> length (filter started (dw_gate w)) \<and>
     list_all post_allowed (dw_posts w)"
  using world_ok_run [OF world_ok_init, of ro http dumps sh xs]
  by (simp add: world_ok_def Let_def)

text \<open>
  The read client makes at most \<open>max(1, retries)\<close> attempts, at least one; it returns a
  body only if some attempt succeeded and every earlier one failed with a 5xx status or a
  transport error, and an answer below 500 ends the attempts at once.
\<close>
theorem dockhand_get_attempts:
  "let (r, n, sl) = dockhand_get_request http path retries in
     1 \<le> n \<and> n \<le> nat (max 1 retries) \<and>
     (\<forall>i < n - 1. (\<exists>s \<ge> 500. http i = Get_status s) \<or> (\<exists>e. http i = Get_transport e)) \<and>
     (\<forall>j. r = Inr j \<longrightarrow> http (n - 1) = Get_ok j) \<and>
     (\<forall>s. r = Inl (DC_status s path) \<longrightarrow> http (n - 1) = Get_status s \<and> s < 500)"
proof -
  have "0 < left \<Longrightarrow> (case dockhand_get_loop http path i left of (r, n, sl) \<Rightarrow>
      1 \<le> n \<and> n \<le> left \<and>
      (\<forall>j. i \<le> j \<longrightarrow> j < i + (n - 1) \<longrightarrow>
         (\<exists>s \<ge> 500. http j = Get_status s) \<or> (\<exists>e. http j = Get_transport e)) \<and>
      (\<forall>j. r = Inr j \<longrightarrow> http (i + (n - 1)) = Get_ok j) \<and>
      (\<forall>s. r = Inl (DC_status s path) \<longrightarrow> http (i + (n - 1)) = Get_status s \<and> s < 500))"
    for i left
    by (rule dockhand_get_loop_spec)
  from this [of "nat (max 1 retries)" 0] show ?thesis
    by (simp add: dockhand_get_request_def)
qed

theorem dockhand_get_attempts_witness:
  "fst (snd (dockhand_get_request (\<lambda>i. if i < 2 then Get_status 503 else Get_ok JNull)
     ''/api/stacks'' 3)) \<le> 3"
  using dockhand_get_attempts
    [of "\<lambda>i. if i < 2 then Get_status 503 else Get_ok JNull" "''/api/stacks''" 3]
  by (simp add: Let_def split_beta)

end
