(* ===== verification/Patching.thy ===== *)
theory Patching
  imports Gate
begin

text \<open>
  \<open>patching/store.py\<close>: patch approvals and their two single-use links. \<open>hash\<close> stands
  for SHA-256 and the two tokens of a new approval are arguments. \<open>check\<close> only reads;
  \<open>consume\<close> reads and then resolves the approval by a conditional UPDATE.
\<close>

section \<open>Operations\<close>

datatype approval_action = Action_approve | Action_cancel

datatype token_state = Token_valid | Token_invalid | Token_expired | Token_used

record token_check =
  tc_state :: token_state
  tc_approval :: "patch_approval option"

record issued_approval =
  is_approval :: patch_approval
  is_approve_token :: pystr
  is_cancel_token :: pystr

type_synonym approval_table = "patch_approval list"

definition MAX_TOKEN_CHARS :: nat where
  "MAX_TOKEN_CHARS = 128"

definition patch_now_like :: "instant \<Rightarrow> datetime \<Rightarrow> datetime" where
  "patch_now_like now e = (if is_naive e then Naive now else Aware now)"

definition patch_is_past :: "instant \<Rightarrow> datetime \<Rightarrow> bool" where
  "patch_is_past now e \<longleftrightarrow> dt_less e (patch_now_like now e) = Some True"

text \<open>
  \<open>create\<close>: the two hash columns and the id are unique, so a collision is an
  \<open>IntegrityError\<close> (\<open>None\<close>).
\<close>

definition approval_create ::
  "(pystr \<Rightarrow> pystr) \<Rightarrow> instant \<Rightarrow> pystr \<Rightarrow> pystr \<Rightarrow> patch_approval \<Rightarrow> int
     \<Rightarrow> approval_table \<Rightarrow> (approval_table \<times> issued_approval) option" where
  "approval_create hash now approve_token cancel_token approval ttl_minutes t =
     (let a = approval\<lparr>ap_approve_token_hash := hash approve_token,
            ap_cancel_token_hash := hash cancel_token, ap_status := Patch_pending,
            ap_expires_at := Naive (now + minutes ttl_minutes)\<rparr>
      in if hash approve_token \<in> ap_approve_token_hash ` set t
            \<or> hash cancel_token \<in> ap_cancel_token_hash ` set t then None
         else case insert_row ap_id a t of
                None \<Rightarrow> None
              | Some t' \<Rightarrow> Some (t', \<lparr>is_approval = a, is_approve_token = approve_token,
                                     is_cancel_token = cancel_token\<rparr>))"

definition approval_get :: "pystr \<Rightarrow> approval_table \<Rightarrow> patch_approval option" where
  "approval_get approval_id t = get_row ap_id t approval_id"

text \<open>
  \<open>find_pending\<close>: the WHERE clause (\<open>same\<close> matches a missing value with a missing
  value, which is equality of options), then the first match that is not past.
\<close>

definition find_pending ::
  "instant \<Rightarrow> pystr \<Rightarrow> pystr \<Rightarrow> pystr option \<Rightarrow> pystr option \<Rightarrow> approval_table
     \<Rightarrow> patch_approval option" where
  "find_pending now event target_host service target_version t =
     find (\<lambda>a. \<not> patch_is_past now (ap_expires_at a))
       (filter (\<lambda>a. ap_status a = Patch_pending \<and> ap_event a = event \<and>
          ap_target_host a = target_host \<and> ap_service a = service \<and>
          ap_target_version a = target_version) t)"

definition token_column :: "approval_action \<Rightarrow> patch_approval \<Rightarrow> pystr" where
  "token_column action =
     (if action = Action_approve then ap_approve_token_hash else ap_cancel_token_hash)"

definition approval_check ::
  "(pystr \<Rightarrow> pystr) \<Rightarrow> instant \<Rightarrow> pystr \<Rightarrow> approval_action \<Rightarrow> approval_table \<Rightarrow> token_check" where
  "approval_check hash now token action t =
     (if token = [] \<or> MAX_TOKEN_CHARS < length token
      then \<lparr>tc_state = Token_invalid, tc_approval = None\<rparr>
      else case find (\<lambda>a. token_column action a = hash token) t of
        None \<Rightarrow> \<lparr>tc_state = Token_invalid, tc_approval = None\<rparr>
      | Some approval \<Rightarrow>
          if ap_status approval = Patch_expired
            then \<lparr>tc_state = Token_expired, tc_approval = Some approval\<rparr>
          else if ap_status approval \<noteq> Patch_pending
            then \<lparr>tc_state = Token_used, tc_approval = Some approval\<rparr>
          else if patch_is_past now (ap_expires_at approval)
            then \<lparr>tc_state = Token_expired, tc_approval = Some approval\<rparr>
          else \<lparr>tc_state = Token_valid, tc_approval = Some approval\<rparr>)"

text \<open>The UPDATE of \<open>_expire\<close>.\<close>

definition approval_expire :: "pystr \<Rightarrow> approval_table \<Rightarrow> approval_table" where
  "approval_expire approval_id t =
     map (\<lambda>a. if ap_id a = approval_id \<and> ap_status a = Patch_pending
              then a\<lparr>ap_status := Patch_expired\<rparr> else a) t"

text \<open>The conditional UPDATE of \<open>consume\<close> and its row count.\<close>

definition claim_hits :: "instant \<Rightarrow> pystr \<Rightarrow> patch_approval \<Rightarrow> bool" where
  "claim_hits now approval_id a \<longleftrightarrow>
     ap_id a = approval_id \<and> ap_status a = Patch_pending \<and> now < instant_of (ap_expires_at a)"

definition approval_claim ::
  "instant \<Rightarrow> pystr \<Rightarrow> patch_approval_status \<Rightarrow> approval_table \<Rightarrow> approval_table \<times> nat" where
  "approval_claim now approval_id target t =
     (map (\<lambda>a. if claim_hits now approval_id a
               then a\<lparr>ap_status := target, ap_resolved_at := Some (Naive now)\<rparr> else a) t,
      length (filter (claim_hits now approval_id) t))"

definition claim_target :: "approval_action \<Rightarrow> patch_approval_status" where
  "claim_target action = (if action = Action_approve then Patch_approved else Patch_cancelled)"

text \<open>\<open>consume\<close>: \<open>now\<close> is read by \<open>check\<close>, \<open>now'\<close> for the UPDATE.\<close>

definition approval_consume ::
  "(pystr \<Rightarrow> pystr) \<Rightarrow> instant \<Rightarrow> instant \<Rightarrow> pystr \<Rightarrow> approval_action
     \<Rightarrow> approval_table \<Rightarrow> approval_table \<times> token_check" where
  "approval_consume hash now now' token action t =
     (let found = approval_check hash now token action t in
      case tc_approval found of
        None \<Rightarrow> (t, found)
      | Some approval \<Rightarrow>
          if tc_state found = Token_expired then (approval_expire (ap_id approval) t, found)
          else if tc_state found \<noteq> Token_valid then (t, found)
          else
            let (t', moved) = approval_claim now' (ap_id approval) (claim_target action) t;
                current = approval_get (ap_id approval) t'
            in if moved \<noteq> 1 then
                 (case current of
                    Some c \<Rightarrow>
                      if ap_status c = Patch_pending
                      then (let t'' = approval_expire (ap_id c) t' in
                            (t'', \<lparr>tc_state = Token_expired, tc_approval = approval_get (ap_id c) t''\<rparr>))
                      else (t', \<lparr>tc_state = Token_used, tc_approval = current\<rparr>)
                  | None \<Rightarrow> (t', \<lparr>tc_state = Token_used, tc_approval = None\<rparr>))
               else (t', \<lparr>tc_state = Token_valid, tc_approval = current\<rparr>))"

definition record_outcome ::
  "instant \<Rightarrow> pystr \<Rightarrow> patch_approval_status \<Rightarrow> pystr option \<Rightarrow> pystr option
     \<Rightarrow> approval_table \<Rightarrow> approval_table" where
  "record_outcome now approval_id st executed_via detail t =
     put_row ap_id approval_id
       (\<lambda>a. a\<lparr>ap_status := st, ap_executed_via := executed_via, ap_detail := detail,
              ap_resolved_at := or_value (ap_resolved_at a) (Some (Naive now))\<rparr>) t"

definition approval_overdue :: "instant \<Rightarrow> patch_approval \<Rightarrow> bool" where
  "approval_overdue now a \<longleftrightarrow> ap_status a = Patch_pending \<and> patch_is_past now (ap_expires_at a)"

definition approval_purge_expired :: "instant \<Rightarrow> approval_table \<Rightarrow> approval_table \<times> nat" where
  "approval_purge_expired now t =
     (map (\<lambda>a. if approval_overdue now a then a\<lparr>ap_status := Patch_expired\<rparr> else a) t,
      length (filter (approval_overdue now) t))"

section \<open>The statements as a machine\<close>

datatype approval_op =
    Approval_create instant pystr pystr patch_approval int
  | Approval_claim instant pystr approval_action
  | Approval_expire pystr
  | Approval_outcome instant pystr patch_approval_status "pystr option" "pystr option"
  | Approval_purge instant

datatype approval_out =
    Created "issued_approval option"
  | Claimed nat
  | Statement_done

fun approval_step ::
  "(pystr \<Rightarrow> pystr) \<Rightarrow> approval_op \<Rightarrow> approval_table \<Rightarrow> approval_table \<times> approval_out" where
  "approval_step hash (Approval_create now ta tc a ttl) t =
     (case approval_create hash now ta tc a ttl t of
        None \<Rightarrow> (t, Created None) | Some (t', i) \<Rightarrow> (t', Created (Some i)))"
| "approval_step hash (Approval_claim now i act) t =
     (let (t', n) = approval_claim now i (claim_target act) t in (t', Claimed n))"
| "approval_step hash (Approval_expire i) t = (approval_expire i t, Statement_done)"
| "approval_step hash (Approval_outcome now i st via d) t =
     (record_outcome now i st via d t, Statement_done)"
| "approval_step hash (Approval_purge now) t = (fst (approval_purge_expired now t), Statement_done)"

text \<open>Outcomes are only ever recorded as executed, failed or undelivered.\<close>

fun approval_legal :: "approval_op \<Rightarrow> bool" where
  "approval_legal (Approval_outcome now i st via d) \<longleftrightarrow>
     st \<in> {Patch_executed, Patch_failed, Patch_undelivered}"
| "approval_legal _ = True"

text \<open>The claim that resolved approval \<open>k\<close>, by either link.\<close>

fun approval_wins :: "approval_op \<Rightarrow> approval_out \<Rightarrow> pystr \<Rightarrow> bool" where
  "approval_wins (Approval_claim now i act) (Claimed n) k = (i = k \<and> n = 1)"
| "approval_wins x out k = False"

definition approval_is_pending :: "patch_approval \<Rightarrow> bool" where
  "approval_is_pending a \<longleftrightarrow> ap_status a = Patch_pending"

section \<open>Lemmas\<close>

lemma patch_is_past_iff [simp]: "patch_is_past now e \<longleftrightarrow> instant_of e < now"
  by (cases e) (auto simp: patch_is_past_def patch_now_like_def)

lemma claim_target_not_pending [simp]: "claim_target act \<noteq> Patch_pending"
  by (simp add: claim_target_def)

lemma approval_create_insert:
  "approval_create hash now ta tc a ttl t = Some (t', i) \<Longrightarrow>
     \<exists>r. insert_row ap_id r t = Some t'"
  by (auto simp: approval_create_def Let_def split: option.splits if_splits)

lemma approval_step_evolves:
  assumes "approval_legal x"
  shows "evolves ap_id approval_is_pending t (fst (approval_step hash x t))"
proof (cases x)
  case (Approval_create)
  then show ?thesis
    by (auto intro: evolves_insert dest!: approval_create_insert split: option.splits)
next
  case (Approval_claim)
  then show ?thesis
    by (auto simp: approval_claim_def approval_is_pending_def intro!: evolves_map split: if_splits)
next
  case (Approval_expire)
  then show ?thesis
    by (auto simp: approval_expire_def approval_is_pending_def intro!: evolves_map split: if_splits)
next
  case (Approval_outcome)
  with assms show ?thesis
    by (auto simp: record_outcome_def approval_is_pending_def intro!: evolves_put)
next
  case (Approval_purge)
  then show ?thesis
    by (auto simp: approval_purge_expired_def approval_is_pending_def
        intro!: evolves_map split: if_splits)
qed

lemma keyed_expire [simp]: "keyed ap_id (approval_expire i t) = keyed ap_id t"
  by (simp add: approval_expire_def keyed_map)

lemma keyed_claim [simp]: "keyed ap_id (fst (approval_claim now i st t)) = keyed ap_id t"
  by (simp add: approval_claim_def keyed_map)

lemma keyed_outcome [simp]: "keyed ap_id (record_outcome now i st via d t) = keyed ap_id t"
  by (simp add: record_outcome_def keyed_put)

lemma keyed_approval_purge [simp]:
  "keyed ap_id (fst (approval_purge_expired now t)) = keyed ap_id t"
  by (simp add: approval_purge_expired_def keyed_map)

lemma approval_step_keyed: "keyed ap_id t \<Longrightarrow> keyed ap_id (fst (approval_step hash x t))"
  by (cases x)
     (auto simp: Let_def split_beta intro: keyed_insert dest!: approval_create_insert
        split: option.splits)

lemma get_claim:
  "get_row ap_id (fst (approval_claim now i st t)) k =
     map_option (\<lambda>a. if claim_hits now i a
       then a\<lparr>ap_status := st, ap_resolved_at := Some (Naive now)\<rparr> else a) (get_row ap_id t k)"
  by (simp add: approval_claim_def get_row_map)

lemma claim_moved:
  assumes "keyed ap_id t" "snd (approval_claim now i st t) = 1"
  shows "\<exists>a. get_row ap_id t i = Some a \<and> claim_hits now i a"
proof -
  from assms(2) have "filter (claim_hits now i) t \<noteq> []"
    by (auto simp: approval_claim_def)
  then obtain a where "a \<in> set t" "claim_hits now i a"
    by (auto simp: filter_empty_conv)
  moreover from this(2) have "ap_id a = i" by (simp add: claim_hits_def)
  ultimately show ?thesis using assms(1) by (auto dest: keyed_get)
qed

lemma claim_count:
  assumes "keyed ap_id t"
  shows "snd (approval_claim now i st t) =
    (case get_row ap_id t i of Some a \<Rightarrow> if claim_hits now i a then 1 else 0 | None \<Rightarrow> 0)"
  using assms unfolding approval_claim_def snd_conv keyed_def
proof (induction t)
  case Nil
  then show ?case by simp
next
  case (Cons b t)
  show ?case
  proof (cases "ap_id b = i")
    case True
    with Cons.prems have "i \<notin> ap_id ` set t" by auto
    then have "filter (claim_hits now i) t = []"
      by (auto simp: filter_empty_conv claim_hits_def)
    with True show ?thesis by (simp add: get_row_def)
  next
    case False
    then have "\<not> claim_hits now i b" by (simp add: claim_hits_def)
    with False Cons show ?thesis by (simp add: get_row_def)
  qed
qed

lemma approval_wins_iff:
  "approval_wins x (snd (approval_step hash x t)) k \<longleftrightarrow>
     (\<exists>now act. x = Approval_claim now k act \<and>
        snd (approval_claim now k (claim_target act) t) = 1 \<and>
        fst (approval_step hash x t) = fst (approval_claim now k (claim_target act) t))"
  by (cases x) (auto simp: split_beta Let_def split: option.splits elim!: approval_wins.elims)

interpretation approval_gate:
  gate_table "approval_step hash" approval_legal ap_id approval_is_pending approval_wins
  for hash
proof (unfold_locales, goal_cases)
  case (1 x t)
  then show ?case by (simp add: approval_step_keyed)
next
  case (2 x t)
  then show ?case by (rule approval_step_evolves)
next
  case (3 t x k)
  then show ?case
    by (auto simp: approval_wins_iff approval_is_pending_def claim_hits_def dest!: claim_moved)
next
  case (4 t x k)
  then show ?case
    by (auto simp: approval_wins_iff get_claim approval_is_pending_def dest!: claim_moved)
qed

lemma approval_check_valid:
  "tc_state (approval_check hash now token action t) = Token_valid \<longleftrightarrow>
     token \<noteq> [] \<and> length token \<le> MAX_TOKEN_CHARS \<and>
     (\<exists>a. find (\<lambda>a. token_column action a = hash token) t = Some a \<and>
        ap_status a = Patch_pending \<and> now \<le> instant_of (ap_expires_at a))"
  by (auto simp: approval_check_def split: option.splits)

lemma approval_check_some:
  "tc_state (approval_check hash now token action t) = Token_valid \<Longrightarrow>
     tc_approval (approval_check hash now token action t) \<noteq> None"
  by (auto simp: approval_check_def split: option.splits if_splits)

lemma get_expire:
  "get_row ap_id (approval_expire i t) k =
     (if k = i then map_option (\<lambda>a. if ap_status a = Patch_pending
        then a\<lparr>ap_status := Patch_expired\<rparr> else a) (get_row ap_id t k)
      else get_row ap_id t k)"
  using get_row_SomeD [of ap_id t k]
  by (cases "get_row ap_id t k") (auto simp: approval_expire_def get_row_map)

lemma get_claim_at:
  "get_row ap_id (fst (approval_claim now i st t)) k =
     (if k = i then map_option (\<lambda>a. if ap_status a = Patch_pending \<and> now < instant_of (ap_expires_at a)
        then a\<lparr>ap_status := st, ap_resolved_at := Some (Naive now)\<rparr> else a) (get_row ap_id t k)
      else get_row ap_id t k)"
  using get_row_SomeD [of ap_id t k]
  by (cases "get_row ap_id t k") (auto simp: get_claim claim_hits_def)

lemma approval_check_row:
  "tc_approval (approval_check hash now token action t) = Some a \<Longrightarrow>
     a \<in> set t \<and> token_column action a = hash token"
  by (auto simp: approval_check_def find_Some_iff split: option.splits if_splits)

lemma approval_consume_valid:
  assumes k: "keyed ap_id t"
    and v: "approval_consume hash now now' token action t = (t', c)"
    and s: "tc_state c = Token_valid"
  shows "\<exists>a. tc_approval (approval_check hash now token action t) = Some a \<and>
     tc_state (approval_check hash now token action t) = Token_valid \<and>
     snd (approval_claim now' (ap_id a) (claim_target action) t) = 1 \<and>
     t' = fst (approval_claim now' (ap_id a) (claim_target action) t) \<and>
     tc_approval c = get_row ap_id t' (ap_id a)"
  using v s approval_check_some [of hash now token action t]
  by (auto simp: approval_consume_def Let_def split_beta approval_get_def
      split: option.splits if_splits)

lemma approval_consume_keyed:
  "keyed ap_id t \<Longrightarrow> keyed ap_id (fst (approval_consume hash now now' token action t))"
  by (auto simp: approval_consume_def Let_def split_beta split: option.splits)

lemma evolves_expire: "evolves ap_id approval_is_pending t (approval_expire i t)"
  using approval_step_evolves [of "Approval_expire i" t] by simp

lemma evolves_purge:
  "evolves ap_id approval_is_pending t (fst (approval_purge_expired now t))"
  unfolding approval_purge_expired_def fst_conv
  by (rule evolves_map) (auto simp: approval_is_pending_def split: if_splits)

lemma evolves_claim:
  "evolves ap_id approval_is_pending t (fst (approval_claim now i (claim_target act) t))"
  using approval_step_evolves [of "Approval_claim now i act" t] by (simp add: split_beta Let_def)

lemma approval_consume_evolves:
  "evolves ap_id approval_is_pending t (fst (approval_consume hash now now' token action t))"
  by (auto simp: approval_consume_def Let_def split_beta
      intro: evolves_expire evolves_claim evolves_trans split: option.splits)

section \<open>Properties\<close>

text \<open>
  Approve and Cancel of one patch request exclude each other and each works once: in
  any interleaving of the statements of any number of clicks on either link, expiries,
  purges and recorded outcomes, at most one claiming UPDATE of an approval reports a row
  moved. A click that \<open>consume\<close> answers as valid has made that claim.
\<close>
theorem approval_resolved_once:
  assumes "list_all approval_legal xs"
  shows "win_count approval_wins k (snd (run_ops (approval_step hash) xs [])) \<le> 1"
  by (rule approval_gate.at_most_one_win) (simp_all add: assms)

theorem approval_resolved_once_witness:
  "win_count approval_wins ''a1'' (snd (run_ops (approval_step (\<lambda>s. s))
     [Approval_claim 1 ''a1'' Action_approve, Approval_claim 1 ''a1'' Action_cancel,
      Approval_outcome 2 ''a1'' Patch_executed None None] [])) \<le> 1"
  by (rule approval_resolved_once) simp

text \<open>
  What a click with a token that names an approval does: if the approval is pending
  and unexpired when the UPDATE runs, exactly that approval is resolved, to approved or
  cancelled by the link used, and the click is answered valid; if it is pending but past
  its expiry it is marked expired; in both other cases (expired, already resolved)
  nothing changes and the click is not answered valid.
\<close>
theorem approval_consume_outcome:
  assumes "keyed ap_id t" "now \<le> now'"
    "find (\<lambda>a. token_column action a = hash token) t = Some a"
    "token \<noteq> []" "length token \<le> MAX_TOKEN_CHARS"
  shows "get_row ap_id (fst (approval_consume hash now now' token action t)) k =
      (if k = ap_id a \<and> ap_status a = Patch_pending
       then Some (if now' < instant_of (ap_expires_at a)
                  then a\<lparr>ap_status := claim_target action, ap_resolved_at := Some (Naive now')\<rparr>
                  else a\<lparr>ap_status := Patch_expired\<rparr>)
       else get_row ap_id t k) \<and>
    (tc_state (snd (approval_consume hash now now' token action t)) = Token_valid \<longleftrightarrow>
       ap_status a = Patch_pending \<and> now' < instant_of (ap_expires_at a))"
proof -
  have a: "get_row ap_id t (ap_id a) = Some a"
    using assms by (auto simp: find_Some_iff intro: keyed_get)
  have found: "approval_check hash now token action t =
      \<lparr>tc_state = (if ap_status a = Patch_expired then Token_expired
         else if ap_status a \<noteq> Patch_pending then Token_used
         else if instant_of (ap_expires_at a) < now then Token_expired else Token_valid),
       tc_approval = Some a\<rparr>"
    using assms by (simp add: approval_check_def)
  note moved = claim_count [OF assms(1), of now' "ap_id a" "claim_target action"]
  consider (resolved) "ap_status a \<noteq> Patch_pending"
    | (past) "ap_status a = Patch_pending" "instant_of (ap_expires_at a) < now"
    | (late) "ap_status a = Patch_pending" "now \<le> instant_of (ap_expires_at a)"
        "instant_of (ap_expires_at a) \<le> now'"
    | (live) "ap_status a = Patch_pending" "now' < instant_of (ap_expires_at a)"
    by linarith
  then show ?thesis
  proof cases
    case resolved
    then show ?thesis
      by (auto simp: approval_consume_def found Let_def get_expire a)
  next
    case past
    then show ?thesis
      using assms(2) by (auto simp: approval_consume_def found Let_def get_expire a)
  next
    case late
    then show ?thesis
      using moved
      by (auto simp: approval_consume_def found Let_def split_beta get_expire get_claim_at a
          claim_hits_def approval_get_def)
  next
    case live
    then show ?thesis
      using moved assms(2)
      by (auto simp: approval_consume_def found Let_def split_beta get_claim_at a
          claim_hits_def approval_get_def)
  qed
qed

text \<open>A pending approval that expires at minute 60, for the examples.\<close>

definition example_approval :: patch_approval where
  "example_approval =
     \<lparr>ap_id = ''a1'', ap_event = ''host_updates'', ap_target_host = ''pi'', ap_service = None,
      ap_current_version = None, ap_target_version = None, ap_severity = None,
      ap_patchmon_host_id = None, ap_summary = None, ap_approve_token_hash = ''yes'',
      ap_cancel_token_hash = ''no'', ap_status = Patch_pending, ap_created_at = Naive 0,
      ap_expires_at = Naive (minutes 60), ap_resolved_at = None, ap_executed_via = None,
      ap_detail = None\<rparr>"

theorem approval_consume_outcome_witness:
  "get_row ap_id
     (fst (approval_consume (\<lambda>s. s) 1 2 ''no'' Action_cancel [example_approval])) ''a1'' =
   Some (example_approval\<lparr>ap_status := Patch_cancelled, ap_resolved_at := Some (Naive 2)\<rparr>)"
  using approval_consume_outcome [of "[example_approval]" 1 2 Action_cancel "\<lambda>s. s" "''no''"
      example_approval "''a1''"]
  by (simp add: keyed_def token_column_def example_approval_def minutes_def claim_target_def
      MAX_TOKEN_CHARS_def)

end
