(* ===== verification/Executor.thy ===== *)
theory Executor
  imports Patching
begin

text \<open>
  \<open>patching/executor.py\<close>: the Ansible run of an approved patch. Subprocesses are a
  parameter: what each command brought, given the commands run before it. Every command
  run is recorded, so the properties speak about what was executed.
\<close>

section \<open>Reading \<open>ansible --list-hosts\<close>\<close>

definition DETAIL_CHARS :: nat where
  "DETAIL_CHARS = 2000"

fun digits_value :: "nat \<Rightarrow> pystr \<Rightarrow> nat" where
  "digits_value acc [] = acc"
| "digits_value acc (c # s) = digits_value (10 * acc + (code_point c - 48)) s"

text \<open>\<open>^\s*hosts \((\d+)\):\s*$\<close>: the number, when the line matches.\<close>

definition match_list_hosts :: "pystr \<Rightarrow> nat option" where
  "match_list_hosts line =
     (let s = dropWhile is_space line in
      if \<not> starts_with s ''hosts ('' then None
      else let r = drop 7 s;
               ds = takeWhile is_ascii_digit r;
               rest = dropWhile is_ascii_digit r
           in if ds \<noteq> [] \<and> starts_with rest '')'' \<and> starts_with (drop 1 rest) '':''
                 \<and> list_all is_space (drop 2 rest)
              then Some (digits_value 0 ds) else None)"

fun list_hosts_from :: "pystr list \<Rightarrow> pystr list" where
  "list_hosts_from [] = []"
| "list_hosts_from (line # rest) =
     (case match_list_hosts line of
        Some n \<Rightarrow> filter (\<lambda>s. s \<noteq> []) (map strip (take n rest))
      | None \<Rightarrow> list_hosts_from rest)"

definition parse_list_hosts :: "pystr \<Rightarrow> pystr list" where
  "parse_list_hosts stdout = list_hosts_from (splitlines stdout)"

definition tail_text :: "pystr list \<Rightarrow> pystr" where
  "tail_text outputs =
     (let s = join [CHR 0x0A] (filter (\<lambda>p. p \<noteq> []) (map strip outputs))
      in drop (length s - DETAIL_CHARS) s)"

section \<open>Running\<close>

record command =
  cmd_argv :: "pystr list"
  cmd_ansible_cfg :: pystr

datatype run_result = Ran int pystr pystr | Not_installed | Timed_out | Crashed

type_synonym runner = "command list \<Rightarrow> command \<Rightarrow> run_result"

record executor =
  ex_playbook :: "pystr option"
  ex_ansible_cfg_path :: "pystr option"
  ex_ssh_key_path :: "pystr option"
  ex_ssh_user :: pystr

text \<open>What a run's detail says; \<open>str\<close> parts are the outputs it quotes.\<close>

datatype exec_detail =
    Detail_crashed
  | Detail_no_playbook
  | Detail_needs_settings
  | Detail_option_host pystr
  | Detail_no_ansible
  | Detail_resolve_timeout pystr
  | Detail_not_one_host pystr nat pystr
  | Detail_no_ansible_playbook
  | Detail_timeout
  | Detail_succeeded pystr
  | Detail_exited int pystr

record execution_result =
  er_status :: patch_approval_status
  er_executed_via :: "pystr option"
  er_detail :: exec_detail

definition or_empty :: "pystr option \<Rightarrow> pystr" where
  "or_empty v = (case v of None \<Rightarrow> [] | Some s \<Rightarrow> s)"

definition extra_vars :: "patch_approval \<Rightarrow> (pystr \<times> json) list" where
  "extra_vars a =
     [(''patchmon_approval_id'', JStr (ap_id a)),
      (''patchmon_event'', JStr (ap_event a)),
      (''patchmon_target_host'', JStr (ap_target_host a)),
      (''patchmon_host_id'', JStr (or_empty (ap_patchmon_host_id a))),
      (''patchmon_service'', JStr (or_empty (ap_service a))),
      (''patchmon_current_version'', JStr (or_empty (ap_current_version a))),
      (''patchmon_target_version'', JStr (or_empty (ap_target_version a)))]"

definition can_execute :: "executor \<Rightarrow> bool" where
  "can_execute ex = truthy (ex_playbook ex)"

definition list_hosts_command :: "pystr \<Rightarrow> pystr \<Rightarrow> command" where
  "list_hosts_command cfg host =
     \<lparr>cmd_argv = [''ansible'', ''--list-hosts'', ''--'', host], cmd_ansible_cfg = cfg\<rparr>"

definition playbook_command ::
  "(json \<Rightarrow> pystr) \<Rightarrow> executor \<Rightarrow> pystr \<Rightarrow> pystr \<Rightarrow> pystr \<Rightarrow> patch_approval \<Rightarrow> command" where
  "playbook_command dumps ex playbook cfg key a =
     \<lparr>cmd_argv = [''ansible-playbook'', ''--private-key'', key, ''-u'', ex_ssh_user ex,
        ''--limit'', ap_target_host a, ''-e'', dumps (JObj (extra_vars a)), ''--'', playbook],
      cmd_ansible_cfg = cfg\<rparr>"

text \<open>
  \<open>_run_playbook\<close>: the commands it ran, and its status and detail; \<open>None\<close> when an
  exception other than the two it handles escaped.
\<close>

definition run_playbook ::
  "(json \<Rightarrow> pystr) \<Rightarrow> runner \<Rightarrow> executor \<Rightarrow> pystr \<Rightarrow> patch_approval
     \<Rightarrow> command list \<times> (patch_approval_status \<times> exec_detail) option" where
  "run_playbook dumps run ex playbook a =
     (if \<not> (truthy (ex_ansible_cfg_path ex) \<and> truthy (ex_ssh_key_path ex))
        then ([], Some (Patch_failed, Detail_needs_settings))
      else if starts_with (ap_target_host a) ''-''
        then ([], Some (Patch_failed, Detail_option_host (ap_target_host a)))
      else
        let cfg = or_empty (ex_ansible_cfg_path ex); key = or_empty (ex_ssh_key_path ex);
            host = ap_target_host a; c1 = list_hosts_command cfg host
        in case run [] c1 of
             Not_installed \<Rightarrow> ([c1], Some (Patch_failed, Detail_no_ansible))
           | Timed_out \<Rightarrow> ([c1], Some (Patch_failed, Detail_resolve_timeout host))
           | Crashed \<Rightarrow> ([c1], None)
           | Ran rc out err \<Rightarrow>
               if parse_list_hosts out \<noteq> [host]
               then ([c1], Some (Patch_failed,
                      Detail_not_one_host host (length (parse_list_hosts out)) (tail_text [err])))
               else let c2 = playbook_command dumps ex playbook cfg key a in
                 case run [c1] c2 of
                   Not_installed \<Rightarrow> ([c1, c2], Some (Patch_failed, Detail_no_ansible_playbook))
                 | Timed_out \<Rightarrow> ([c1, c2], Some (Patch_failed, Detail_timeout))
                 | Crashed \<Rightarrow> ([c1, c2], None)
                 | Ran rc' out' err' \<Rightarrow>
                     ([c1, c2],
                      Some (if rc' = 0 then (Patch_executed, Detail_succeeded (tail_text [out', err']))
                            else (Patch_failed, Detail_exited rc' (tail_text [out', err'])))))"

text \<open>\<open>execute\<close> around \<open>_execute\<close>: a crash is an outcome too.\<close>

definition execute ::
  "(json \<Rightarrow> pystr) \<Rightarrow> runner \<Rightarrow> executor \<Rightarrow> patch_approval \<Rightarrow> command list \<times> execution_result" where
  "execute dumps run ex a =
     (if \<not> truthy (ex_playbook ex)
      then ([], \<lparr>er_status = Patch_failed, er_executed_via = None, er_detail = Detail_no_playbook\<rparr>)
      else case run_playbook dumps run ex (or_empty (ex_playbook ex)) a of
        (cs, None) \<Rightarrow>
          (cs, \<lparr>er_status = Patch_failed, er_executed_via = None, er_detail = Detail_crashed\<rparr>)
      | (cs, Some (st, d)) \<Rightarrow>
          (cs, \<lparr>er_status = st, er_executed_via = Some ''ansible'', er_detail = d\<rparr>))"

definition is_playbook_command :: "command \<Rightarrow> bool" where
  "is_playbook_command c \<longleftrightarrow> (\<exists>r. cmd_argv c = ''ansible-playbook'' # r)"

section \<open>Properties\<close>

lemma run_playbook_status:
  "run_playbook dumps run ex pb a = (cs, Some (st, d)) \<Longrightarrow> st \<in> {Patch_executed, Patch_failed}"
  by (auto simp: run_playbook_def Let_def split: run_result.splits if_splits)

text \<open>
  C24: A patch only ever runs against the one inventory host the alert names: an
  \<open>ansible-playbook\<close> command is issued only when the name does not read as an option,
  and only after \<open>ansible --list-hosts\<close> resolved it to exactly that one host; it is
  limited to that host, at most one is issued, and success is reported only when it
  exited 0.
\<close>
theorem execute_one_host:
  "let (cs, r) = execute dumps run ex a in
     (\<forall>c \<in> set cs. is_playbook_command c \<longrightarrow>
        \<not> starts_with (ap_target_host a) ''-'' \<and>
        (\<exists>cfg rc out err. cs = [list_hosts_command cfg (ap_target_host a), c] \<and>
           run [] (list_hosts_command cfg (ap_target_host a)) = Ran rc out err \<and>
           parse_list_hosts out = [ap_target_host a]) \<and>
        take 2 (drop 5 (cmd_argv c)) = [''--limit'', ap_target_host a]) \<and>
     (er_status r = Patch_executed \<longrightarrow>
        (\<exists>c1 c2 out err. cs = [c1, c2] \<and> is_playbook_command c2 \<and> run [c1] c2 = Ran 0 out err))"
  by (auto simp: execute_def run_playbook_def Let_def is_playbook_command_def
      list_hosts_command_def playbook_command_def
      split: run_result.splits option.splits)

text \<open>An executor and a runner whose inventory knows one host, for the example.\<close>

definition example_executor :: executor where
  "example_executor =
     \<lparr>ex_playbook = Some ''p.yml'', ex_ansible_cfg_path = Some ''a.cfg'',
      ex_ssh_key_path = Some ''k'', ex_ssh_user = ''root''\<rparr>"

definition example_runner :: runner where
  "example_runner h c = Ran 0 (''  hosts (1):'' @ [CHR 0x0A] @ ''    pi'' @ [CHR 0x0A]) []"

theorem execute_one_host_witness:
  "let (cs, r) = execute (\<lambda>j. []) example_runner example_executor example_approval in
     er_status r = Patch_executed \<and>
     (\<exists>c \<in> set cs. take 2 (drop 5 (cmd_argv c)) = [''--limit'', ''pi''])"
proof -
  have "parse_list_hosts (''  hosts (1):'' @ [CHR 0x0A] @ ''    pi'' @ [CHR 0x0A]) = [''pi'']"
    by code_simp
  then have run: "execute (\<lambda>j. []) example_runner example_executor example_approval =
    ([list_hosts_command ''a.cfg'' ''pi'',
      playbook_command (\<lambda>j. []) example_executor ''p.yml'' ''a.cfg'' ''k'' example_approval],
     \<lparr>er_status = Patch_executed, er_executed_via = Some ''ansible'',
      er_detail = Detail_succeeded (tail_text
        [''  hosts (1):'' @ [CHR 0x0A] @ ''    pi'' @ [CHR 0x0A], []])\<rparr>)"
    by (simp add: execute_def run_playbook_def example_executor_def example_runner_def
        example_approval_def or_empty_def Let_def starts_with_def)
  have "is_playbook_command
      (playbook_command (\<lambda>j. []) example_executor ''p.yml'' ''a.cfg'' ''k'' example_approval)"
    by (simp add: is_playbook_command_def playbook_command_def)
  then show ?thesis
    using execute_one_host [of "\<lambda>j. []" example_runner example_executor example_approval]
    by (simp add: run) (simp add: example_approval_def)
qed

end
