(* ===== verification/WebhookCommon.thy ===== *)
theory WebhookCommon
  imports Models
begin

text \<open>
  \<open>webhooks/common.py\<close>: the body reader with its cap, the declared-length test, and the
  single-line rendering of sender-supplied text. A request body is the list of chunks
  the stream delivers.
\<close>

section \<open>Reading a capped body\<close>

fun read_chunks :: "nat \<Rightarrow> nat \<Rightarrow> pystr list \<Rightarrow> pystr list \<Rightarrow> pystr option" where
  "read_chunks limit got chunks [] = Some (concat (rev chunks))"
| "read_chunks limit got chunks (c # cs) =
     (let got' = got + length c in
      if limit < got' then None else read_chunks limit got' (c # chunks) cs)"

definition read_capped :: "pystr list \<Rightarrow> nat \<Rightarrow> pystr option" where
  "read_capped stream limit = read_chunks limit 0 [] stream"

text \<open>How many bytes were buffered when the reader stopped.\<close>

fun buffered :: "nat \<Rightarrow> nat \<Rightarrow> pystr list \<Rightarrow> nat" where
  "buffered limit got [] = got"
| "buffered limit got (c # cs) =
     (if limit < got + length c then got else buffered limit (got + length c) cs)"

fun decimal_value :: "nat \<Rightarrow> pystr \<Rightarrow> nat" where
  "decimal_value acc [] = acc"
| "decimal_value acc (c # s) = decimal_value (10 * acc + (code_point c - 48)) s"

text \<open>
  \<open>declared and declared.isdigit() and int(declared) > limit\<close>, for a header of ASCII
  digits (a header value with other digits never reaches the comparison).
\<close>

definition declared_too_large :: "pystr option \<Rightarrow> nat \<Rightarrow> bool" where
  "declared_too_large declared limit =
     (case declared of None \<Rightarrow> False
      | Some s \<Rightarrow> s \<noteq> [] \<and> list_all is_ascii_digit s \<and> limit < decimal_value 0 s)"

section \<open>One line of text\<close>

definition is_unsafe_text :: "char \<Rightarrow> bool" where
  "is_unsafe_text c \<longleftrightarrow> code_point c < 32 \<or> (127 \<le> code_point c \<and> code_point c \<le> 159)"

text \<open>\<open>one_line\<close>; the ellipsis it appends is outside the 8-bit range, so it is an argument.\<close>

definition one_line :: "pystr \<Rightarrow> pystr option \<Rightarrow> nat \<Rightarrow> pystr" where
  "one_line ellipsis v limit =
     (let s = join '' '' (words (map (\<lambda>c. if is_unsafe_text c then CHR '' '' else c)
                (case v of None \<Rightarrow> [] | Some s \<Rightarrow> s)))
      in if length s \<le> limit then s else take (limit - 1) s @ ellipsis)"

section \<open>Lemmas\<close>

lemma read_chunks_eq:
  "got = length (concat chunks) \<Longrightarrow>
     read_chunks limit got chunks cs =
       (if length (concat chunks) + length (concat cs) \<le> limit \<or> cs = []
        then Some (concat (rev chunks) @ concat cs) else None)"
proof (induction limit got chunks cs rule: read_chunks.induct)
  case (1 limit got chunks)
  then show ?case by simp
next
  case (2 limit got chunks c cs)
  have got: "got + length c = length (concat (c # chunks))"
    using "2.prems" by simp
  have IH: "read_chunks limit (got + length c) (c # chunks) cs =
    (if length (concat (c # chunks)) + length (concat cs) \<le> limit \<or> cs = []
     then Some (concat (rev (c # chunks)) @ concat cs) else None)" if "\<not> limit < got + length c"
    by (rule "2.IH" [OF refl that got])
  show ?case
  proof (cases "limit < got + length c")
    case True
    then show ?thesis using got by simp
  next
    case False
    then show ?thesis
      using IH [OF False] got by (cases cs) (simp_all del: read_chunks.simps(2), auto simp: Let_def add_ac)
  qed
qed

lemma buffered_le: "got \<le> limit \<Longrightarrow> buffered limit got cs \<le> limit"
  by (induction limit got cs rule: buffered.induct) auto

lemma words_no_space: "w \<in> set (words s) \<Longrightarrow> c \<in> set w \<Longrightarrow> \<not> is_space c"
proof (induction s arbitrary: w rule: words.induct)
  case (1 s)
  show ?case
    using 1 by (subst (asm) words.simps) (auto simp: Let_def dest: set_takeWhileD split: if_splits)
qed

lemma set_words: "w \<in> set (words s) \<Longrightarrow> set w \<subseteq> set s"
proof (induction s arbitrary: w rule: words.induct)
  case (1 s)
  let ?t = "dropWhile is_space s"
  from "1.prems" have ne: "?t \<noteq> []" and
    "w = takeWhile (\<lambda>c. \<not> is_space c) ?t \<or> w \<in> set (words (dropWhile (\<lambda>c. \<not> is_space c) ?t))"
    by (subst (asm) words.simps; auto simp: Let_def split: if_splits)+
  moreover have "set (dropWhile (\<lambda>c. \<not> is_space c) ?t) \<subseteq> set s"
    by (meson set_dropWhileD subsetI)
  ultimately show ?case
    using "1.IH" [OF refl ne] by (auto dest!: set_takeWhileD dest: set_dropWhileD)
qed

lemma set_join: "set (join sep xs) \<subseteq> set sep \<union> (\<Union>x\<in>set xs. set x)"
  by (induction sep xs rule: join.induct) auto

section \<open>Properties\<close>

text \<open>
  The capped reader returns the whole body exactly when the body is within the limit,
  however it is chunked and whatever length was declared, and never buffers more than the
  limit on the way.
\<close>
theorem read_capped_exact:
  "read_capped stream limit =
     (if length (concat stream) \<le> limit then Some (concat stream) else None) \<and>
   buffered limit 0 stream \<le> limit"
  using read_chunks_eq [of 0 "[]" limit stream] buffered_le [of 0 limit stream]
  by (auto simp: read_capped_def)

text \<open>
  Sender-supplied text rendered with \<open>one_line\<close> is at most \<open>limit\<close> characters (with
  its one-character ellipsis) and holds no control character, so it cannot break a line
  in the approval email.
\<close>
theorem one_line_safe:
  assumes "0 < limit" "length ellipsis = 1" "\<not> is_unsafe_text (hd ellipsis)"
  shows "length (one_line ellipsis v limit) \<le> limit \<and>
    (\<forall>c \<in> set (one_line ellipsis v limit). \<not> is_unsafe_text c)"
proof -
  let ?raw = "case v of None \<Rightarrow> [] | Some s \<Rightarrow> s"
  let ?m = "map (\<lambda>c. if is_unsafe_text c then CHR '' '' else c) ?raw"
  let ?s = "join '' '' (words ?m)"
  have sp: "\<not> is_unsafe_text (CHR '' '')"
    by (simp add: is_unsafe_text_def code_point_def)
  have ws: "set w \<subseteq> set ?m" if "w \<in> set (words ?m)" for w
    using that by (rule set_words)
  have safe_m: "\<not> is_unsafe_text c" if "c \<in> set ?m" for c
    using that sp by (auto split: if_splits)
  have safe: "\<not> is_unsafe_text c" if "c \<in> set ?s" for c
  proof -
    from that set_join [of "'' ''" "words ?m"]
    have "c = CHR '' '' \<or> (\<exists>w \<in> set (words ?m). c \<in> set w)" by auto
    with sp ws safe_m show ?thesis by blast
  qed
  obtain e where e: "ellipsis = [e]" "\<not> is_unsafe_text e"
    using assms(2,3) by (cases ellipsis) auto
  show ?thesis
  proof (cases "length ?s \<le> limit")
    case True
    then have "one_line ellipsis v limit = ?s" by (simp add: one_line_def Let_def)
    with True safe show ?thesis by simp
  next
    case False
    then have "one_line ellipsis v limit = take (limit - 1) ?s @ [e]"
      by (simp add: one_line_def Let_def e)
    with assms(1) safe e(2) show ?thesis by (auto dest: in_set_takeD)
  qed
qed

theorem one_line_safe_witness:
  "length (one_line ''.'' (Some ''a  b'') 2) \<le> 2"
proof -
  have "(0::nat) < 2" "length ''.'' = 1" "\<not> is_unsafe_text (hd ''.'')"
    by (simp_all add: is_unsafe_text_def code_point_def)
  from one_line_safe [OF this] show ?thesis by blast
qed

end
