(* ===== verification/ApprovalRoutes.thy ===== *)
theory ApprovalRoutes
  imports Executor WebhookCommon
begin

text \<open>
  \<open>webhooks/approval.py\<close>: the browser-facing Approve and Cancel routes. A response is
  the page shown, with what it is about; its HTML is in \<open>ApprovalPages\<close>. \<open>decode\<close> and \<open>qs\<close>
  stand for UTF-8 decoding and \<open>parse_qs\<close> (the values of \<open>token\<close>; \<open>None\<close> when it
  raises). A POST that approves schedules one background task, \<open>execute_and_report\<close>.
\<close>

section \<open>Pages\<close>

datatype run_plan = Plan_nothing | Plan_playbook pystr pystr

datatype page =
    Page_expired patch_approval
  | Page_used patch_approval
  | Page_invalid
  | Page_read_only
  | Page_confirm patch_approval approval_action pystr run_plan
  | Page_cancelled patch_approval
  | Page_approved patch_approval run_plan
  | Page_failed

fun page_status :: "page \<Rightarrow> nat" where
  "page_status (Page_expired a) = 410"
| "page_status (Page_used a) = 409"
| "page_status Page_invalid = 404"
| "page_status Page_read_only = 503"
| "page_status (Page_confirm a act tok p) = 200"
| "page_status (Page_cancelled a) = 200"
| "page_status (Page_approved a p) = 200"
| "page_status Page_failed = 500"

definition MAX_FORM_BYTES :: nat where
  "MAX_FORM_BYTES = 4096"

definition subject :: "patch_approval \<Rightarrow> pystr" where
  "subject a =
     (if truthy (ap_service a) then or_empty (ap_service a)
      else map (\<lambda>c. if c = CHR ''_'' then CHR '' '' else c) (ap_event a))"

definition describe :: "patch_approval \<Rightarrow> (pystr \<times> pystr) list" where
  "describe a =
     map (\<lambda>(l, v). (l, or_empty v))
       (filter (\<lambda>(l, v). truthy v)
         [(''Host'', Some (ap_target_host a)),
          (''Service'', ap_service a),
          (''Current version'', ap_current_version a),
          (''Target version'', ap_target_version a),
          (''Event'', Some (ap_event a)),
          (''Severity'', ap_severity a),
          (''Summary'', ap_summary a)])"

definition status_page :: "token_check \<Rightarrow> page" where
  "status_page found =
     (case (tc_state found, tc_approval found) of
        (Token_expired, Some a) \<Rightarrow> Page_expired a
      | (Token_used, Some a) \<Rightarrow> Page_used a
      | _ \<Rightarrow> Page_invalid)"

text \<open>\<open>Path(playbook).name\<close>: the last component that is not empty or a dot.\<close>

definition path_name :: "pystr \<Rightarrow> pystr" where
  "path_name p =
     (case rev (filter (\<lambda>s. s \<noteq> [] \<and> s \<noteq> ''.'') (split_at_char (CHR ''/'') p)) of
        [] \<Rightarrow> [] | s # _ \<Rightarrow> s)"

definition plan :: "executor \<Rightarrow> patch_approval \<Rightarrow> run_plan" where
  "plan ex a =
     (if \<not> truthy (ex_playbook ex) then Plan_nothing
      else Plan_playbook (path_name (or_empty (ex_playbook ex))) (ap_target_host a))"

text \<open>\<open>_form_token\<close>: from the form body, else from the query string; \<open>None\<close> if parsing raised.\<close>

definition form_token ::
  "(pystr \<Rightarrow> pystr) \<Rightarrow> (pystr \<Rightarrow> pystr list option) \<Rightarrow> pystr list \<Rightarrow> pystr \<Rightarrow> pystr option" where
  "form_token decode qs stream query_token =
     (case read_capped stream MAX_FORM_BYTES of
        None \<Rightarrow> Some (strip query_token)
      | Some raw \<Rightarrow>
          if raw = [] then Some (strip query_token)
          else case qs (decode raw) of
                 None \<Rightarrow> None
               | Some [] \<Rightarrow> Some (strip query_token)
               | Some (tok # _) \<Rightarrow> Some (strip tok))"

section \<open>The handler\<close>

record approval_request =
  rq_get :: bool
  rq_action :: approval_action
  rq_query_token :: pystr
  rq_stream :: "pystr list"

text \<open>
  The table after the request, the page, and the approval whose background task it
  schedules.
\<close>

definition approval_handle ::
  "(pystr \<Rightarrow> pystr) \<Rightarrow> (pystr \<Rightarrow> pystr) \<Rightarrow> (pystr \<Rightarrow> pystr list option) \<Rightarrow> executor \<Rightarrow> bool
     \<Rightarrow> instant \<Rightarrow> instant \<Rightarrow> approval_request \<Rightarrow> approval_table
     \<Rightarrow> approval_table \<times> page \<times> patch_approval option" where
  "approval_handle hash decode qs ex read_only now now' rq t =
     (if rq_get rq then
        (let token = strip (rq_query_token rq);
             found = approval_check hash now token (rq_action rq) t
         in case tc_approval found of
              None \<Rightarrow> (t, status_page found, None)
            | Some a \<Rightarrow>
                if tc_state found \<noteq> Token_valid then (t, status_page found, None)
                else if read_only then (t, Page_read_only, None)
                else (t, Page_confirm a (rq_action rq) token (plan ex a), None))
      else if read_only then (t, Page_read_only, None)
      else case form_token decode qs (rq_stream rq) (rq_query_token rq) of
        None \<Rightarrow> (t, Page_failed, None)
      | Some token \<Rightarrow>
          (let (t', found) = approval_consume hash now now' token (rq_action rq) t in
           case tc_approval found of
             None \<Rightarrow> (t', status_page found, None)
           | Some a \<Rightarrow>
               if tc_state found \<noteq> Token_valid then (t', status_page found, None)
               else if rq_action rq = Action_cancel then (t', Page_cancelled a, None)
               else (t', Page_approved a (plan ex a), Some a)))"

section \<open>The background task\<close>

record result_mail =
  rm_ok :: bool
  rm_approval :: patch_approval
  rm_executed_via :: "pystr option"
  rm_detail :: exec_detail

text \<open>\<open>render\<close> turns the outcome's detail into the stored text.\<close>

definition execute_and_report ::
  "(json \<Rightarrow> pystr) \<Rightarrow> runner \<Rightarrow> (exec_detail \<Rightarrow> pystr) \<Rightarrow> executor \<Rightarrow> instant \<Rightarrow> patch_approval
     \<Rightarrow> approval_table \<Rightarrow> approval_table \<times> command list \<times> result_mail" where
  "execute_and_report dumps run render ex now a t =
     (let (cs, r) = execute dumps run ex a in
      (record_outcome now (ap_id a) (er_status r) (er_executed_via r) (Some (render (er_detail r))) t,
       cs,
       \<lparr>rm_ok = (er_status r = Patch_executed), rm_approval = a,
        rm_executed_via = er_executed_via r, rm_detail = er_detail r\<rparr>))"

section \<open>The life of the approvals as a machine\<close>

text \<open>
  Everything that writes the table: the webhook creating an approval or marking it
  undelivered, a click, the background task of an approved one, the purge.
\<close>

datatype approval_event =
    Event_create instant pystr pystr patch_approval int
  | Event_undelivered instant pystr pystr
  | Event_request instant instant approval_request
  | Event_background instant patch_approval
  | Event_purge instant

record approval_env =
  ae_hash :: "pystr \<Rightarrow> pystr"
  ae_decode :: "pystr \<Rightarrow> pystr"
  ae_qs :: "pystr \<Rightarrow> pystr list option"
  ae_dumps :: "json \<Rightarrow> pystr"
  ae_run :: runner
  ae_render :: "exec_detail \<Rightarrow> pystr"
  ae_executor :: executor
  ae_read_only :: bool

text \<open>The output of a step: the approval whose patch run it schedules, if any.\<close>

fun approval_event_step ::
  "approval_env \<Rightarrow> approval_event \<Rightarrow> approval_table \<Rightarrow> approval_table \<times> patch_approval option" where
  "approval_event_step e (Event_create now ta tc a ttl) t =
     (case approval_create (ae_hash e) now ta tc a ttl t of
        None \<Rightarrow> (t, None) | Some (t', i) \<Rightarrow> (t', None))"
| "approval_event_step e (Event_undelivered now i d) t =
     (record_outcome now i Patch_undelivered None (Some d) t, None)"
| "approval_event_step e (Event_request now now' rq) t =
     (let (t', p, b) = approval_handle (ae_hash e) (ae_decode e) (ae_qs e) (ae_executor e)
            (ae_read_only e) now now' rq t in (t', b))"
| "approval_event_step e (Event_background now a) t =
     (fst (execute_and_report (ae_dumps e) (ae_run e) (ae_render e) (ae_executor e) now a t), None)"
| "approval_event_step e (Event_purge now) t = (fst (approval_purge_expired now t), None)"

definition approval_scheduled :: "approval_event \<Rightarrow> patch_approval option \<Rightarrow> pystr \<Rightarrow> bool" where
  "approval_scheduled x out k \<longleftrightarrow> (\<exists>a. out = Some a \<and> ap_id a = k)"

section \<open>Lemmas\<close>

lemma execute_status: "er_status (snd (execute dumps run ex a)) \<in> {Patch_executed, Patch_failed}"
  using run_playbook_status [of dumps run ex "or_empty (ex_playbook ex)" a]
  by (auto simp: execute_def split: option.splits prod.splits)

lemma record_outcome_evolves:
  "st \<noteq> Patch_pending \<Longrightarrow>
     evolves ap_id approval_is_pending t (record_outcome now i st via d t)"
  unfolding record_outcome_def by (rule evolves_put) (auto simp: approval_is_pending_def)

lemma execute_and_report_table:
  "\<exists>st via d. st \<noteq> Patch_pending \<and>
     fst (execute_and_report dumps run render ex now a t) = record_outcome now (ap_id a) st via d t"
  using execute_status [of dumps run ex a]
  by (fastforce simp: execute_and_report_def split_beta Let_def)

lemma approval_handle_table:
  "fst (approval_handle hash decode qs ex ro now now' rq t) = t \<or>
   (\<exists>token. fst (approval_handle hash decode qs ex ro now now' rq t) =
      fst (approval_consume hash now now' token (rq_action rq) t))"
  by (auto simp: approval_handle_def Let_def split_beta split: option.splits)

lemma approval_handle_scheduled:
  assumes "approval_handle hash decode qs ex ro now now' rq t = (t', p, Some a)"
  shows "\<not> rq_get rq \<and> \<not> ro \<and> rq_action rq = Action_approve \<and>
    (\<exists>token c. form_token decode qs (rq_stream rq) (rq_query_token rq) = Some token \<and>
       approval_consume hash now now' token Action_approve t = (t', c) \<and>
       tc_state c = Token_valid \<and> tc_approval c = Some a)"
proof -
  have get: "\<not> rq_get rq"
    using assms by (auto simp: approval_handle_def Let_def split: option.splits if_splits)
  have ro: "\<not> ro"
    using assms get by (auto simp: approval_handle_def)
  obtain token where tok: "form_token decode qs (rq_stream rq) (rq_query_token rq) = Some token"
    using assms get ro by (auto simp: approval_handle_def split: option.splits)
  obtain u c where u: "approval_consume hash now now' token (rq_action rq) t = (u, c)"
    by fastforce
  show ?thesis
    using assms get ro tok u
    by (cases "rq_action rq"; cases "tc_approval c"; cases "tc_state c = Token_valid")
       (simp_all add: approval_handle_def)
qed

lemma approval_event_keyed: "keyed ap_id t \<Longrightarrow> keyed ap_id (fst (approval_event_step e x t))"
proof (cases x)
  case (Event_create)
  assume "keyed ap_id t"
  with Event_create show ?thesis
    by (auto intro: keyed_insert dest!: approval_create_insert split: option.splits)
next
  case (Event_request now now' rq)
  assume "keyed ap_id t"
  with Event_request show ?thesis
    using approval_handle_table [of "ae_hash e" "ae_decode e" "ae_qs e" "ae_executor e"
        "ae_read_only e" now now' rq t]
    by (auto simp: split_beta Let_def approval_consume_keyed)
next
  case (Event_background now a)
  assume "keyed ap_id t"
  with Event_background show ?thesis
    using execute_and_report_table [of "ae_dumps e" "ae_run e" "ae_render e" "ae_executor e" now a t]
    by auto
qed auto

lemma approval_event_evolves:
  "evolves ap_id approval_is_pending t (fst (approval_event_step e x t))"
proof (cases x)
  case (Event_create)
  then show ?thesis
    by (auto intro: evolves_insert dest!: approval_create_insert split: option.splits)
next
  case (Event_undelivered)
  then show ?thesis by (simp add: record_outcome_evolves)
next
  case (Event_request now now' rq)
  then show ?thesis
    using approval_handle_table [of "ae_hash e" "ae_decode e" "ae_qs e" "ae_executor e"
        "ae_read_only e" now now' rq t]
    by (auto simp: split_beta Let_def approval_consume_evolves)
next
  case (Event_background now a)
  then show ?thesis
    using execute_and_report_table [of "ae_dumps e" "ae_run e" "ae_render e" "ae_executor e" now a t]
    by (auto simp: record_outcome_evolves)
next
  case (Event_purge now)
  show ?thesis unfolding Event_purge by (simp add: evolves_purge)
qed

lemma approval_scheduled_claim:
  assumes "keyed ap_id t" "approval_scheduled x (snd (approval_event_step e x t)) k"
  shows "\<exists>now' a. get_row ap_id t k = Some a \<and> claim_hits now' k a \<and>
    fst (approval_event_step e x t) = fst (approval_claim now' k Patch_approved t)"
proof -
  from assms(2) obtain now now' rq t' p a where x: "x = Event_request now now' rq"
    and h: "approval_handle (ae_hash e) (ae_decode e) (ae_qs e) (ae_executor e)
      (ae_read_only e) now now' rq t = (t', p, Some a)" and k: "ap_id a = k"
  proof (cases x)
    case (Event_request now now' rq)
    with assms(2) that show ?thesis
      by (auto simp: approval_scheduled_def split: prod.splits)
  qed (use assms(2) in \<open>auto simp: approval_scheduled_def split: option.splits\<close>)
  from approval_handle_scheduled [OF h] obtain token c where
    c: "approval_consume (ae_hash e) now now' token Action_approve t = (t', c)"
      "tc_state c = Token_valid" "tc_approval c = Some a" by blast
  from approval_consume_valid [OF assms(1) c(1,2)] obtain b :: patch_approval where
    b: "snd (approval_claim now' (ap_id b) (claim_target Action_approve) t) = 1"
      "t' = fst (approval_claim now' (ap_id b) (claim_target Action_approve) t)"
      "tc_approval c = get_row ap_id t' (ap_id b)" by auto
  with c(3) k have id: "ap_id b = k" by (auto dest: get_row_SomeD)
  have "fst (approval_event_step e x t) = t'"
    using x h by simp
  then show ?thesis
    using claim_moved [OF assms(1) b(1)] b(2) id by (auto simp: claim_target_def)
qed

interpretation approval_runs:
  gate_table "approval_event_step e" "\<lambda>_. True" ap_id approval_is_pending approval_scheduled
  for e
proof (unfold_locales, goal_cases)
  case (1 x t)
  then show ?case by (simp add: approval_event_keyed)
next
  case (2 x t)
  show ?case by (rule approval_event_evolves)
next
  case (3 t x k)
  then show ?case
    by (auto simp: claim_hits_def approval_is_pending_def dest!: approval_scheduled_claim)
next
  case (4 t x k)
  then show ?case
    by (auto simp: get_claim approval_is_pending_def dest!: approval_scheduled_claim)
qed

section \<open>Properties\<close>

text \<open>
  C1: One approval, at most one patch run: over the whole life of the approvals (alerts
  arriving, any clicks on any links with any tokens, purges, finished runs), the patch of
  a given approval is scheduled at most once, even if its emailed link is opened and
  posted many times.
\<close>
theorem approval_runs_once:
  "win_count approval_scheduled k (snd (run_ops (approval_event_step e) xs [])) \<le> 1"
  by (rule approval_runs.at_most_one_win) (simp_all add: list_all_iff)

text \<open>
  A link preview never acts, and nothing acts in read-only mode: a GET or HEAD leaves
  every approval as it was and schedules nothing, and so does any request while the
  server is read-only. A patch is scheduled only by a POST on the Approve route carrying
  the token whose hash the approval stores for approving, while the approval was pending.
\<close>
theorem approval_acts_only_on_post:
  assumes "keyed ap_id t"
  shows "let (t', p, b) = approval_handle hash decode qs ex read_only now now' rq t in
    (rq_get rq \<or> read_only \<longrightarrow> t' = t \<and> b = None) \<and>
    (\<forall>a. b = Some a \<longrightarrow> rq_action rq = Action_approve \<and>
       (\<exists>token a0. form_token decode qs (rq_stream rq) (rq_query_token rq) = Some token \<and>
          get_row ap_id t (ap_id a) = Some a0 \<and> ap_status a0 = Patch_pending \<and>
          ap_approve_token_hash a0 = hash token \<and> a = a0\<lparr>ap_status := Patch_approved,
            ap_resolved_at := Some (Naive now')\<rparr>))"
proof -
  obtain t' p b where h: "approval_handle hash decode qs ex read_only now now' rq t = (t', p, b)"
    by (metis prod_cases3)
  have inert: "rq_get rq \<or> read_only \<Longrightarrow> t' = t \<and> b = None"
    using h by (auto simp: approval_handle_def Let_def split: option.splits if_splits)
  have "rq_action rq = Action_approve \<and>
       (\<exists>token a0. form_token decode qs (rq_stream rq) (rq_query_token rq) = Some token \<and>
          get_row ap_id t (ap_id a) = Some a0 \<and> ap_status a0 = Patch_pending \<and>
          ap_approve_token_hash a0 = hash token \<and> a = a0\<lparr>ap_status := Patch_approved,
            ap_resolved_at := Some (Naive now')\<rparr>)" if "b = Some a" for a
  proof -
    from approval_handle_scheduled h that obtain token c where
      act: "rq_action rq = Action_approve"
      and tok: "form_token decode qs (rq_stream rq) (rq_query_token rq) = Some token"
      and c: "approval_consume hash now now' token Action_approve t = (t', c)"
        "tc_state c = Token_valid" "tc_approval c = Some a" by metis
    from approval_consume_valid [OF assms c(1,2)] obtain a0 where
      a0: "tc_approval (approval_check hash now token Action_approve t) = Some a0"
        "snd (approval_claim now' (ap_id a0) Patch_approved t) = 1"
        "t' = fst (approval_claim now' (ap_id a0) Patch_approved t)"
        "tc_approval c = get_row ap_id t' (ap_id a0)"
      by (auto simp: claim_target_def)
    have row: "a0 \<in> set t" "ap_approve_token_hash a0 = hash token"
      using approval_check_row [OF a0(1)] by (auto simp: token_column_def)
    then have get: "get_row ap_id t (ap_id a0) = Some a0"
      using assms by (simp add: keyed_get)
    with claim_moved [OF assms a0(2)] have hit: "claim_hits now' (ap_id a0) a0" by auto
    with a0 c(3) get have "a = a0\<lparr>ap_status := Patch_approved, ap_resolved_at := Some (Naive now')\<rparr>"
      by (simp add: get_claim)
    with act tok get row hit show ?thesis
      by (auto simp: claim_hits_def)
  qed
  with inert show ?thesis by (auto simp: h)
qed

theorem approval_acts_only_on_post_witness:
  "snd (snd (approval_handle (\<lambda>s. s) (\<lambda>s. s) (\<lambda>s. None) example_executor False 1 2
     \<lparr>rq_get = True, rq_action = Action_approve, rq_query_token = ''yes'', rq_stream = []\<rparr>
     [example_approval])) = None"
proof -
  have "keyed ap_id [example_approval]" by (simp add: keyed_def)
  from approval_acts_only_on_post [OF this, of "\<lambda>s. s" "\<lambda>s. s" "\<lambda>s. None" example_executor False 1 2
      "\<lparr>rq_get = True, rq_action = Action_approve, rq_query_token = ''yes'', rq_stream = []\<rparr>"]
  show ?thesis by (simp add: split_beta Let_def)
qed

end
