(* ===== verification/Reconcile.thy ===== *)
theory Reconcile
  imports Models
begin

text \<open>
  \<open>registry/reconcile.py\<close>: matching a discovered service to a registered one and the
  provenance fields to update. \<open>urlparse(...).hostname\<close> is modelled on 8-bit text; the
  check of an IP literal in brackets is the parameter \<open>bracket_ok\<close>. \<open>urlparse\<close> can
  raise \<open>ValueError\<close>, so the functions that parse URLs return \<open>None\<close> for it.
\<close>

section \<open>Discovered services\<close>

record discovered =
  d_source :: source_type
  d_external_id :: pystr
  d_name :: pystr
  d_display_name :: "pystr option"
  d_category :: "category option"
  d_host :: "pystr option"
  d_urls :: "pystr list"
  d_router :: "pystr option"
  d_slug :: "pystr option"
  d_auth_mode :: "auth_mode option"
  d_tags :: "pystr list"
  d_raw :: json

section \<open>Hosts of URLs\<close>

definition is_scheme_char :: "char \<Rightarrow> bool" where
  "is_scheme_char c \<longleftrightarrow> is_ascii_alpha c \<or> is_ascii_digit c \<or> c \<in> {CHR ''+'', CHR ''-'', CHR ''.''}"

text \<open>What \<open>urlsplit\<close> drops: leading control characters and spaces, every tab and line break.\<close>

definition url_clean :: "pystr \<Rightarrow> pystr" where
  "url_clean u =
     filter (\<lambda>c. c \<notin> {CHR 0x09, CHR 0x0A, CHR 0x0D}) (dropWhile (\<lambda>c. code_point c \<le> 32) u)"

definition url_after_scheme :: "pystr \<Rightarrow> pystr" where
  "url_after_scheme u =
     (case partition_at (CHR '':'') u of (scheme, found, rest) \<Rightarrow>
        if found \<and> scheme \<noteq> [] \<and> is_ascii_alpha (hd scheme) \<and> list_all is_scheme_char scheme
        then rest else u)"

definition url_netloc :: "pystr \<Rightarrow> pystr" where
  "url_netloc u =
     (let r = url_after_scheme (url_clean u) in
      if starts_with r ''//''
      then takeWhile (\<lambda>c. c \<notin> {CHR ''/'', CHR ''?'', CHR ''#''}) (drop 2 r) else [])"

text \<open>
  \<open>None\<close>: \<open>urlparse\<close> raised; \<open>Some None\<close>: no host name. The host name is lower-cased up
  to a zone id.
\<close>

definition url_hostname :: "(pystr \<Rightarrow> bool) \<Rightarrow> pystr \<Rightarrow> pystr option option" where
  "url_hostname bracket_ok u =
     (let netloc = url_netloc u;
          info = (if CHR ''@'' \<in> set netloc then snd (snd (rpartition_at (CHR ''@'') netloc)) else netloc);
          opened = CHR ''['' \<in> set info;
          inside = fst (partition_at (CHR '']'') (snd (snd (partition_at (CHR ''['') info))));
          host = (if opened then inside else fst (partition_at (CHR '':'') info))
      in if (CHR ''['' \<in> set netloc) \<noteq> (CHR '']'' \<in> set netloc) then None
         else if CHR ''['' \<in> set netloc \<and> \<not> bracket_ok netloc then None
         else if host = [] then Some None
         else (case partition_at (CHR ''%'') host of (h, z, zone) \<Rightarrow>
                 Some (Some (lower h @ (if z then CHR ''%'' # zone else [])))))"

text \<open>The text handed to \<open>urlparse\<close>: a URL without a scheme separator is read as a netloc.\<close>

definition url_for_host :: "pystr \<Rightarrow> pystr" where
  "url_for_host u = (if contains u ''//'' then u else ''//'' @ u)"

fun hosts_of :: "(pystr \<Rightarrow> bool) \<Rightarrow> pystr list \<Rightarrow> pystr list option" where
  "hosts_of bok [] = Some []"
| "hosts_of bok (u # us) =
     (case url_hostname bok (url_for_host u) of
        None \<Rightarrow> None
      | Some h \<Rightarrow>
          (case hosts_of bok us of
             None \<Rightarrow> None
           | Some hs \<Rightarrow> Some (case h of None \<Rightarrow> hs | Some x \<Rightarrow> lower x # hs)))"

section \<open>Matching\<close>

fun match_by_host ::
  "(pystr \<Rightarrow> bool) \<Rightarrow> pystr list \<Rightarrow> service list \<Rightarrow> service option option" where
  "match_by_host bok wanted [] = Some None"
| "match_by_host bok wanted (s # ss) =
     (case hosts_of bok (svc_urls s) of
        None \<Rightarrow> None
      | Some hs \<Rightarrow>
          if set wanted \<inter> set hs \<noteq> {} then Some (Some s) else match_by_host bok wanted ss)"

definition match_service ::
  "(pystr \<Rightarrow> bool) \<Rightarrow> service list \<Rightarrow> discovered \<Rightarrow> service option option" where
  "match_service bok services d =
     (case find (\<lambda>s. svc_name s = d_name d) services of
        Some s \<Rightarrow> Some (Some s)
      | None \<Rightarrow>
          (case (if truthy (d_router d)
                 then find (\<lambda>s. svc_traefik_router s = d_router d) services else None) of
             Some s \<Rightarrow> Some (Some s)
           | None \<Rightarrow>
               (case hosts_of bok (d_urls d) of
                  None \<Rightarrow> None
                | Some wanted \<Rightarrow>
                    if wanted \<noteq> [] then match_by_host bok wanted services else Some None)))"

section \<open>Field updates\<close>

text \<open>
  One entry of an \<open>updates\<close> dictionary: a field with its new value. \<open>Upd_none\<close> is a field
  given \<open>None\<close>, \<open>Upd_other\<close> a field that is not in \<open>_MUTABLE_FIELDS\<close>.
\<close>

datatype field_update =
    Upd_display_name pystr
  | Upd_category category
  | Upd_host pystr
  | Upd_urls "pystr list"
  | Upd_traefik_router pystr
  | Upd_authentik_app_slug pystr
  | Upd_authentik_link_manual bool
  | Upd_auth_mode auth_mode
  | Upd_traefik_auth_mode auth_mode
  | Upd_authentik_auth_mode auth_mode
  | Upd_auth_mode_conflict bool
  | Upd_tags "pystr list"
  | Upd_notes pystr
  | Upd_none pystr
  | Upd_other pystr

fun apply_update :: "field_update \<Rightarrow> service \<Rightarrow> service" where
  "apply_update (Upd_display_name v) s = s\<lparr>svc_display_name := v\<rparr>"
| "apply_update (Upd_category v) s = s\<lparr>svc_category := v\<rparr>"
| "apply_update (Upd_host v) s = s\<lparr>svc_host := Some v\<rparr>"
| "apply_update (Upd_urls v) s = s\<lparr>svc_urls := v\<rparr>"
| "apply_update (Upd_traefik_router v) s = s\<lparr>svc_traefik_router := Some v\<rparr>"
| "apply_update (Upd_authentik_app_slug v) s = s\<lparr>svc_authentik_app_slug := Some v\<rparr>"
| "apply_update (Upd_authentik_link_manual v) s = s\<lparr>svc_authentik_link_manual := v\<rparr>"
| "apply_update (Upd_auth_mode v) s = s\<lparr>svc_auth_mode := v\<rparr>"
| "apply_update (Upd_traefik_auth_mode v) s = s\<lparr>svc_traefik_auth_mode := Some v\<rparr>"
| "apply_update (Upd_authentik_auth_mode v) s = s\<lparr>svc_authentik_auth_mode := Some v\<rparr>"
| "apply_update (Upd_auth_mode_conflict v) s = s\<lparr>svc_auth_mode_conflict := v\<rparr>"
| "apply_update (Upd_tags v) s = s\<lparr>svc_tags := v\<rparr>"
| "apply_update (Upd_notes v) s = s\<lparr>svc_notes := v\<rparr>"
| "apply_update (Upd_none f) s = s"
| "apply_update (Upd_other f) s = s"

definition apply_updates :: "field_update list \<Rightarrow> service \<Rightarrow> service" where
  "apply_updates us s = fold apply_update us s"

definition proxy_auth_mode :: "auth_mode \<Rightarrow> bool" where
  "proxy_auth_mode m \<longleftrightarrow> m \<in> {AuthMode_forward_auth, AuthMode_oauth2_proxy}"

text \<open>\<open>list(dict.fromkeys(xs))\<close>: each element once, at its first position.\<close>

fun from_keys :: "'a list \<Rightarrow> 'a list" where
  "from_keys [] = []"
| "from_keys (x # xs) = x # filter (\<lambda>y. y \<noteq> x) (from_keys xs)"

text \<open>The new values, one definition per field the pass may change.\<close>

definition new_router :: "service \<Rightarrow> discovered \<Rightarrow> pystr option" where
  "new_router s d =
     (if truthy (d_router d) \<and> d_router d \<noteq> svc_traefik_router s then d_router d else None)"

definition new_slug :: "service \<Rightarrow> discovered \<Rightarrow> pystr option" where
  "new_slug s d =
     (if truthy (d_slug d) \<and> d_slug d \<noteq> svc_authentik_app_slug s \<and> \<not> svc_authentik_link_manual s
      then d_slug d else None)"

definition traefik_demoting :: "service \<Rightarrow> discovered \<Rightarrow> bool" where
  "traefik_demoting s d \<longleftrightarrow>
     d_source d = Source_traefik \<and> d_auth_mode d = Some AuthMode_none \<and>
     (case svc_authentik_auth_mode s of None \<Rightarrow> False | Some m \<Rightarrow> proxy_auth_mode m)"

definition new_auth_mode :: "service \<Rightarrow> discovered \<Rightarrow> auth_mode option" where
  "new_auth_mode s d =
     (case d_auth_mode d of
        None \<Rightarrow> None
      | Some m \<Rightarrow>
          if m \<noteq> AuthMode_unknown \<and> m \<noteq> svc_auth_mode s \<and> \<not> traefik_demoting s d
          then Some m else None)"

definition new_host :: "service \<Rightarrow> discovered \<Rightarrow> pystr option" where
  "new_host s d = (if truthy (d_host d) \<and> d_host d \<noteq> svc_host s then d_host d else None)"

definition new_urls :: "service \<Rightarrow> discovered \<Rightarrow> pystr list option" where
  "new_urls s d =
     (let merged = from_keys (svc_urls s @ d_urls d) in
      if d_urls d \<noteq> [] \<and> set merged \<noteq> set (svc_urls s) then Some merged else None)"

definition new_traefik_auth :: "service \<Rightarrow> discovered \<Rightarrow> auth_mode option" where
  "new_traefik_auth s d =
     (if d_auth_mode d \<notin> {None, Some AuthMode_unknown} \<and> d_source d = Source_traefik \<and>
         d_auth_mode d \<noteq> svc_traefik_auth_mode s
      then d_auth_mode d else None)"

definition new_authentik_auth :: "service \<Rightarrow> discovered \<Rightarrow> auth_mode option" where
  "new_authentik_auth s d =
     (if d_auth_mode d \<notin> {None, Some AuthMode_unknown} \<and> d_source d = Source_authentik \<and>
         d_auth_mode d \<noteq> svc_authentik_auth_mode s
      then d_auth_mode d else None)"

definition new_conflict :: "service \<Rightarrow> discovered \<Rightarrow> bool option" where
  "new_conflict s d =
     (case (or_value (new_traefik_auth s d) (svc_traefik_auth_mode s),
            or_value (new_authentik_auth s d) (svc_authentik_auth_mode s)) of
        (Some t, Some a) \<Rightarrow>
          if truthy (or_text (new_router s d) (svc_traefik_router s)) \<and>
             truthy (or_text (new_slug s d) (svc_authentik_app_slug s))
          then (let conflict = (t = AuthMode_none \<and> proxy_auth_mode a) in
                if conflict \<noteq> svc_auth_mode_conflict s then Some conflict else None)
          else None
      | _ \<Rightarrow> None)"

definition opt_update :: "('a \<Rightarrow> field_update) \<Rightarrow> 'a option \<Rightarrow> field_update list" where
  "opt_update f v = (case v of None \<Rightarrow> [] | Some x \<Rightarrow> [f x])"

definition provenance_updates :: "service \<Rightarrow> discovered \<Rightarrow> field_update list" where
  "provenance_updates s d =
     opt_update Upd_traefik_router (new_router s d) @
     opt_update Upd_authentik_app_slug (new_slug s d) @
     opt_update Upd_auth_mode (new_auth_mode s d) @
     opt_update Upd_host (new_host s d) @
     opt_update Upd_urls (new_urls s d) @
     opt_update Upd_traefik_auth_mode (new_traefik_auth s d) @
     opt_update Upd_authentik_auth_mode (new_authentik_auth s d) @
     opt_update Upd_auth_mode_conflict (new_conflict s d)"

section \<open>Lemmas\<close>

lemma set_from_keys [simp]: "set (from_keys xs) = set xs"
  by (induction xs) auto

lemma distinct_from_keys [simp]: "distinct (from_keys xs)"
  by (induction xs) auto

lemma from_keys_append: "set ys \<subseteq> set xs \<Longrightarrow> set (from_keys (xs @ ys)) = set xs"
  by auto

text \<open>The fields after the updates, one equation per field.\<close>

lemma apply_updates_append [simp]: "apply_updates (us @ vs) s = apply_updates vs (apply_updates us s)"
  by (simp add: apply_updates_def)

lemma apply_opt_update:
  "apply_updates (opt_update f v) s = (case v of None \<Rightarrow> s | Some x \<Rightarrow> apply_update (f x) s)"
  by (simp add: opt_update_def apply_updates_def split: option.splits)

lemma opt_update_Nil [simp]: "opt_update f v = [] \<longleftrightarrow> v = None"
  by (simp add: opt_update_def split: option.splits)

definition updated :: "service \<Rightarrow> discovered \<Rightarrow> service" where
  "updated s d = apply_updates (provenance_updates s d) s"

lemma updated_fields:
  "svc_traefik_router (updated s d) = or_value (new_router s d) (svc_traefik_router s)"
  "svc_authentik_app_slug (updated s d) = or_value (new_slug s d) (svc_authentik_app_slug s)"
  "svc_auth_mode (updated s d) = (case new_auth_mode s d of None \<Rightarrow> svc_auth_mode s | Some m \<Rightarrow> m)"
  "svc_host (updated s d) = or_value (new_host s d) (svc_host s)"
  "svc_urls (updated s d) = (case new_urls s d of None \<Rightarrow> svc_urls s | Some v \<Rightarrow> v)"
  "svc_traefik_auth_mode (updated s d) = or_value (new_traefik_auth s d) (svc_traefik_auth_mode s)"
  "svc_authentik_auth_mode (updated s d) =
     or_value (new_authentik_auth s d) (svc_authentik_auth_mode s)"
  "svc_auth_mode_conflict (updated s d) =
     (case new_conflict s d of None \<Rightarrow> svc_auth_mode_conflict s | Some c \<Rightarrow> c)"
  "svc_authentik_link_manual (updated s d) = svc_authentik_link_manual s"
  by (simp_all add: updated_def provenance_updates_def apply_opt_update split: option.splits)

definition curated where
  "curated (s::service) = (svc_id s, svc_name s, svc_display_name s, svc_category s, svc_tags s, svc_notes s,
     svc_hardware_node_id s, svc_manual_link s, svc_authentik_link_manual s, svc_manual s,
     svc_created_at s)"

fun is_provenance :: "field_update \<Rightarrow> bool" where
  "is_provenance (Upd_host v) = True"
| "is_provenance (Upd_urls v) = True"
| "is_provenance (Upd_traefik_router v) = True"
| "is_provenance (Upd_authentik_app_slug v) = True"
| "is_provenance (Upd_auth_mode v) = True"
| "is_provenance (Upd_traefik_auth_mode v) = True"
| "is_provenance (Upd_authentik_auth_mode v) = True"
| "is_provenance (Upd_auth_mode_conflict v) = True"
| "is_provenance u = False"

lemma opt_update_all:
  "list_all P (opt_update f v) \<longleftrightarrow> (case v of None \<Rightarrow> True | Some x \<Rightarrow> P (f x))"
  by (simp add: opt_update_def split: option.splits)

lemma provenance_updates_kind: "list_all is_provenance (provenance_updates s d)"
  by (simp add: provenance_updates_def opt_update_all split: option.splits)

lemma provenance_keeps_curated: "is_provenance u \<Longrightarrow> curated (apply_update u s) = curated s"
  by (cases u) (simp_all add: curated_def)

lemma or_text_or_value: "v = None \<or> truthy v \<Longrightarrow> or_text v w = or_value v w"
  by (cases v) (auto simp: or_text_def)

lemma new_router_truthy: "new_router s d = None \<or> truthy (new_router s d)"
  by (auto simp: new_router_def)

lemma new_slug_truthy: "new_slug s d = None \<or> truthy (new_slug s d)"
  by (auto simp: new_slug_def)

lemma updated_settled:
  "new_router (updated s d) d = None"
  "new_slug (updated s d) d = None"
  "new_host (updated s d) d = None"
  "new_urls (updated s d) d = None"
  "new_traefik_auth (updated s d) d = None"
  "new_authentik_auth (updated s d) d = None"
proof -
  show "new_router (updated s d) d = None"
    unfolding new_router_def updated_fields by (cases "d_router d") (auto simp: new_router_def)
  show "new_slug (updated s d) d = None"
    unfolding new_slug_def updated_fields by (cases "d_slug d") (auto simp: new_slug_def)
  show "new_host (updated s d) d = None"
    unfolding new_host_def updated_fields by (cases "d_host d") (auto simp: new_host_def)
  show "new_urls (updated s d) d = None"
    unfolding new_urls_def updated_fields by (auto simp: new_urls_def Let_def)
  show "new_traefik_auth (updated s d) d = None"
    unfolding new_traefik_auth_def updated_fields
    by (cases "d_auth_mode d") (auto simp: new_traefik_auth_def)
  show "new_authentik_auth (updated s d) d = None"
    unfolding new_authentik_auth_def updated_fields
    by (cases "d_auth_mode d") (auto simp: new_authentik_auth_def)
qed

lemma demoting_updated: "traefik_demoting (updated s d) d = traefik_demoting s d"
  by (auto simp: traefik_demoting_def updated_fields new_authentik_auth_def split: option.splits)

lemma new_auth_mode_settled: "new_auth_mode (updated s d) d = None"
  by (auto simp: new_auth_mode_def updated_fields demoting_updated split: option.splits)

lemma new_conflict_settled: "new_conflict (updated s d) d = None"
  unfolding new_conflict_def [of "updated s d"] updated_settled updated_fields(8)
  using or_text_or_value [OF new_router_truthy] or_text_or_value [OF new_slug_truthy]
  by (auto simp: updated_fields new_conflict_def Let_def or_text_def split: option.splits if_splits)

lemma updated_no_updates: "provenance_updates (updated s d) d = []"
  unfolding provenance_updates_def
  by (simp add: updated_settled new_auth_mode_settled new_conflict_settled)

section \<open>Properties\<close>

text \<open>
  Reconciling a service with the same observation twice is the same as doing it once:
  after the provenance updates are applied, the same discovered item asks for no update, so
  a repeated pass writes no change event and counts nothing as changed.
\<close>
theorem provenance_idempotent:
  "provenance_updates (apply_updates (provenance_updates s d) s) d = []"
  unfolding updated_def [symmetric] by (rule updated_no_updates)

text \<open>
  The conflict flag says what it means: once an update leaves a service with a Traefik
  router, an Authentik slug and an auth mode from both sources, the flag is set exactly when
  Traefik sees no middleware while Authentik enforces a proxy mode.
\<close>
theorem conflict_flag_correct:
  assumes "truthy (svc_traefik_router s')" "truthy (svc_authentik_app_slug s')"
    and "svc_traefik_auth_mode s' = Some t" "svc_authentik_auth_mode s' = Some a"
    and "s' = apply_updates (provenance_updates s d) s"
  shows "svc_auth_mode_conflict s' \<longleftrightarrow>
    t = AuthMode_none \<and> a \<in> {AuthMode_forward_auth, AuthMode_oauth2_proxy}"
proof -
  have s': "s' = updated s d" using assms(5) by (simp add: updated_def)
  show ?thesis
    using assms(1-4) new_conflict_settled [of s d] updated_settled [of s d]
    unfolding s' new_conflict_def
    by (auto simp: or_text_def Let_def proxy_auth_mode_def split: if_splits)
qed

theorem conflict_flag_correct_witness:
  "svc_auth_mode_conflict
     ((new_service ''1'' ''app'' ''App'' 0)
        \<lparr>svc_traefik_router := Some ''app@docker'', svc_authentik_app_slug := Some ''app'',
          svc_authentik_auth_mode := Some AuthMode_forward_auth,
          svc_traefik_auth_mode := Some AuthMode_none, svc_auth_mode_conflict := True\<rparr>)"
proof -
  let ?d = "\<lparr>d_source = Source_traefik, d_external_id = ''app'', d_name = ''app'',
      d_display_name = None, d_category = None, d_host = None, d_urls = [],
      d_router = Some ''app@docker'', d_slug = None, d_auth_mode = Some AuthMode_none,
      d_tags = [], d_raw = JNull\<rparr>"
  let ?s = "(new_service ''1'' ''app'' ''App'' 0)
        \<lparr>svc_traefik_router := Some ''app@docker'', svc_authentik_app_slug := Some ''app'',
          svc_authentik_auth_mode := Some AuthMode_forward_auth\<rparr>"
  let ?t = "?s\<lparr>svc_traefik_auth_mode := Some AuthMode_none, svc_auth_mode_conflict := True\<rparr>"
  have t: "?t = apply_updates (provenance_updates ?s ?d) ?s"
    by (simp add: provenance_updates_def apply_opt_update new_service_def new_router_def
        new_slug_def new_auth_mode_def traefik_demoting_def proxy_auth_mode_def new_host_def
        new_urls_def new_traefik_auth_def new_authentik_auth_def new_conflict_def or_text_def)
  have "svc_auth_mode_conflict ?t \<longleftrightarrow>
    AuthMode_none = AuthMode_none \<and> AuthMode_forward_auth \<in> {AuthMode_forward_auth, AuthMode_oauth2_proxy}"
    by (rule conflict_flag_correct [OF _ _ _ _ t]) simp_all
  then show ?thesis by simp
qed

end
