(* ===== verification/Registry.thy ===== *)
theory Registry
  imports Reconcile
begin

text \<open>
  \<open>registry/store.py\<close>: the service table with its provenance rows and event logs. The
  state holds the four tables in insertion order and the number of rows constructed so
  far; the \<open>k\<close>-th constructed row takes its id and its default timestamps from the
  stream \<open>env\<close>. Each operation is one transaction. Timestamps are stored naive, as
  SQLite returns them.
\<close>

section \<open>State\<close>

record env =
  env_uuid :: "nat \<Rightarrow> pystr"
  env_clock :: "nat \<Rightarrow> instant"

record registry =
  rg_services :: "service list"
  rg_sources :: "service_source list"
  rg_changes :: "change_event list"
  rg_discoveries :: "discovery_event list"
  rg_drawn :: nat

definition empty_registry :: registry where
  "empty_registry =
     \<lparr>rg_services = [], rg_sources = [], rg_changes = [], rg_discoveries = [], rg_drawn = 0\<rparr>"

definition put_service :: "pystr \<Rightarrow> (service \<Rightarrow> service) \<Rightarrow> registry \<Rightarrow> registry" where
  "put_service i f rg = rg\<lparr>rg_services := put_row svc_id i f (rg_services rg)\<rparr>"

definition put_source :: "pystr \<Rightarrow> (service_source \<Rightarrow> service_source) \<Rightarrow> registry \<Rightarrow> registry" where
  "put_source i f rg = rg\<lparr>rg_sources := put_row src_id i f (rg_sources rg)\<rparr>"

text \<open>\<open>session.add\<close> of a newly constructed row, with the id drawn for it.\<close>

definition add_service :: "env \<Rightarrow> service \<Rightarrow> registry \<Rightarrow> registry" where
  "add_service e s rg =
     rg\<lparr>rg_services := rg_services rg @
          [s\<lparr>svc_id := env_uuid e (rg_drawn rg),
             svc_created_at := Naive (env_clock e (rg_drawn rg)),
             svc_updated_at := Naive (env_clock e (rg_drawn rg))\<rparr>],
        rg_drawn := Suc (rg_drawn rg)\<rparr>"

definition add_source ::
  "env \<Rightarrow> pystr \<Rightarrow> source_type \<Rightarrow> pystr \<Rightarrow> json \<Rightarrow> instant option \<Rightarrow> registry \<Rightarrow> registry" where
  "add_source e sid source ext raw seen rg =
     (let t = Naive (env_clock e (rg_drawn rg)) in
      rg\<lparr>rg_sources := rg_sources rg @
           [\<lparr>src_id = env_uuid e (rg_drawn rg), src_service_id = sid, src_source = source,
             src_external_id = ext, src_raw = raw, src_missed_passes = 0,
             src_first_seen_at = t,
             src_last_seen_at = (case seen of None \<Rightarrow> t | Some u \<Rightarrow> Naive u)\<rparr>],
         rg_drawn := Suc (rg_drawn rg)\<rparr>)"

definition record_change ::
  "env \<Rightarrow> pystr \<Rightarrow> pystr \<Rightarrow> pystr option \<Rightarrow> pystr option \<Rightarrow> pystr \<Rightarrow> registry \<Rightarrow> registry" where
  "record_change e sid field old new actor rg =
     rg\<lparr>rg_changes := rg_changes rg @
          [\<lparr>ce_id = env_uuid e (rg_drawn rg), ce_service_id = Some sid, ce_field = field,
            ce_old = old, ce_new = new, ce_actor = actor,
            ce_created_at = Naive (env_clock e (rg_drawn rg))\<rparr>],
        rg_drawn := Suc (rg_drawn rg)\<rparr>"

section \<open>Values in the change log\<close>

definition show_bool :: "bool \<Rightarrow> pystr" where
  "show_bool b = (if b then ''True'' else ''False'')"

definition show_list :: "pystr list \<Rightarrow> pystr" where
  "show_list xs = ''['' @ join '', '' (map py_repr xs) @ '']''"

fun update_name :: "field_update \<Rightarrow> pystr" where
  "update_name (Upd_display_name v) = ''display_name''"
| "update_name (Upd_category v) = ''category''"
| "update_name (Upd_host v) = ''host''"
| "update_name (Upd_urls v) = ''urls''"
| "update_name (Upd_traefik_router v) = ''traefik_router''"
| "update_name (Upd_authentik_app_slug v) = ''authentik_app_slug''"
| "update_name (Upd_authentik_link_manual v) = ''authentik_link_manual''"
| "update_name (Upd_auth_mode v) = ''auth_mode''"
| "update_name (Upd_traefik_auth_mode v) = ''traefik_auth_mode''"
| "update_name (Upd_authentik_auth_mode v) = ''authentik_auth_mode''"
| "update_name (Upd_auth_mode_conflict v) = ''auth_mode_conflict''"
| "update_name (Upd_tags v) = ''tags''"
| "update_name (Upd_notes v) = ''notes''"
| "update_name (Upd_none f) = f"
| "update_name (Upd_other f) = f"

text \<open>\<open>str(getattr(service, field))\<close>: the text of the field the update is about.\<close>

fun field_text :: "field_update \<Rightarrow> service \<Rightarrow> pystr option" where
  "field_text (Upd_display_name v) s = Some (svc_display_name s)"
| "field_text (Upd_category v) s = Some (category_value (svc_category s))"
| "field_text (Upd_host v) s = svc_host s"
| "field_text (Upd_urls v) s = Some (show_list (svc_urls s))"
| "field_text (Upd_traefik_router v) s = svc_traefik_router s"
| "field_text (Upd_authentik_app_slug v) s = svc_authentik_app_slug s"
| "field_text (Upd_authentik_link_manual v) s = Some (show_bool (svc_authentik_link_manual s))"
| "field_text (Upd_auth_mode v) s = Some (auth_mode_value (svc_auth_mode s))"
| "field_text (Upd_traefik_auth_mode v) s = map_option auth_mode_value (svc_traefik_auth_mode s)"
| "field_text (Upd_authentik_auth_mode v) s = map_option auth_mode_value (svc_authentik_auth_mode s)"
| "field_text (Upd_auth_mode_conflict v) s = Some (show_bool (svc_auth_mode_conflict s))"
| "field_text (Upd_tags v) s = Some (show_list (svc_tags s))"
| "field_text (Upd_notes v) s = Some (svc_notes s)"
| "field_text (Upd_none f) s = None"
| "field_text (Upd_other f) s = None"

text \<open>Whether \<open>update_service\<close> looks at the entry at all.\<close>

fun is_mutable :: "field_update \<Rightarrow> bool" where
  "is_mutable (Upd_none f) = False"
| "is_mutable (Upd_other f) = False"
| "is_mutable u = True"

section \<open>Operations\<close>

datatype create_error = Duplicate_service pystr

text \<open>
  The service passed to \<open>create_service\<close> was constructed by its caller just before, so its
  id and timestamps are drawn here.
\<close>

definition create_service ::
  "env \<Rightarrow> service \<Rightarrow> pystr \<Rightarrow> registry \<Rightarrow> registry \<times> (create_error + service)" where
  "create_service e s actor rg =
     (if svc_name s \<in> svc_name ` set (rg_services rg)
      then (rg, Inl (Duplicate_service (svc_name s)))
      else
        (let i = env_uuid e (rg_drawn rg);
             rg1 = add_service e s rg;
             rg2 = add_source e i Source_manual (svc_name s) (JObj []) None rg1;
             rg3 = record_change e i FIELD_CREATED None (Some (svc_name s)) actor rg2
         in (rg3, Inr (last (rg_services rg3)))))"

definition get_service :: "pystr \<Rightarrow> registry \<Rightarrow> service option" where
  "get_service id_or_name rg =
     (case get_row svc_id (rg_services rg) id_or_name of
        Some s \<Rightarrow> Some s
      | None \<Rightarrow> find (\<lambda>s. svc_name s = id_or_name) (rg_services rg))"

definition list_services ::
  "category option \<Rightarrow> pystr option \<Rightarrow> pystr option \<Rightarrow> registry \<Rightarrow> service list" where
  "list_services cat host tag rg =
     filter (\<lambda>s. (case cat of None \<Rightarrow> True | Some c \<Rightarrow> svc_category s = c) \<and>
                 (case host of None \<Rightarrow> True | Some h \<Rightarrow> svc_host s = Some h) \<and>
                 (case tag of None \<Rightarrow> True | Some t \<Rightarrow> t \<in> set (svc_tags s)))
       (rg_services rg)"

definition update_step :: "env \<Rightarrow> pystr \<Rightarrow> pystr \<Rightarrow> field_update \<Rightarrow> registry \<Rightarrow> registry" where
  "update_step e sid actor u rg =
     (case get_row svc_id (rg_services rg) sid of
        None \<Rightarrow> rg
      | Some s \<Rightarrow>
          if \<not> is_mutable u \<or> apply_update u s = s then rg
          else record_change e sid (update_name u) (field_text u s)
                 (field_text u (apply_update u s)) actor (put_service sid (apply_update u) rg))"

definition update_service ::
  "env \<Rightarrow> pystr \<Rightarrow> field_update list \<Rightarrow> pystr \<Rightarrow> registry \<Rightarrow> registry \<times> service option" where
  "update_service e sid us actor rg =
     (case get_row svc_id (rg_services rg) sid of
        None \<Rightarrow> (rg, None)
      | Some s \<Rightarrow>
          (let rg1 = fold (update_step e sid actor) us rg;
               rg2 = put_service sid
                 (\<lambda>s. s\<lparr>svc_updated_at := Naive (env_clock e (rg_drawn rg1))\<rparr>) rg1
           in (rg2, get_row svc_id (rg_services rg2) sid)))"

definition delete_service :: "env \<Rightarrow> pystr \<Rightarrow> pystr \<Rightarrow> registry \<Rightarrow> registry \<times> bool" where
  "delete_service e sid actor rg =
     (case get_row svc_id (rg_services rg) sid of
        None \<Rightarrow> (rg, False)
      | Some s \<Rightarrow>
          (let rg1 = rg\<lparr>rg_sources := drop_rows (\<lambda>r. src_service_id r = sid) (rg_sources rg)\<rparr>;
               rg2 = record_change e sid FIELD_DELETED (Some (svc_name s)) None actor rg1
           in (rg2\<lparr>rg_services := drop_rows (\<lambda>s. svc_id s = sid) (rg_services rg2)\<rparr>, True)))"

text \<open>SQL \<open>LIMIT\<close>: a negative limit is none.\<close>

definition sql_limit :: "int \<Rightarrow> 'a list \<Rightarrow> 'a list" where
  "sql_limit n xs = (if n < 0 then xs else take (nat n) xs)"

definition list_change_events :: "pystr option \<Rightarrow> int \<Rightarrow> registry \<Rightarrow> change_event list" where
  "list_change_events sid limit rg =
     sql_limit limit
       (sort_key (\<lambda>c. - instant_of (ce_created_at c))
         (filter (\<lambda>c. case sid of None \<Rightarrow> True | Some i \<Rightarrow> ce_service_id c = Some i) (rg_changes rg)))"

definition list_discovery_events :: "source_type option \<Rightarrow> int \<Rightarrow> registry \<Rightarrow> discovery_event list" where
  "list_discovery_events source limit rg =
     sql_limit limit
       (sort_key (\<lambda>d. - instant_of (de_started_at d))
         (filter (\<lambda>d. case source of None \<Rightarrow> True | Some x \<Rightarrow> de_source d = x) (rg_discoveries rg)))"

definition get_source :: "pystr \<Rightarrow> source_type \<Rightarrow> registry \<Rightarrow> service_source option" where
  "get_source sid source rg =
     find (\<lambda>r. src_service_id r = sid \<and> src_source r = source) (rg_sources rg)"

definition list_stale_services :: "registry \<Rightarrow> service list" where
  "list_stale_services rg = filter svc_stale (rg_services rg)"

record pass_counts =
  pc_seen :: nat
  pc_new :: nat
  pc_changed :: nat
  pc_missing :: nat

definition no_counts :: pass_counts where
  "no_counts = \<lparr>pc_seen = 0, pc_new = 0, pc_changed = 0, pc_missing = 0\<rparr>"

definition record_discovery_event ::
  "env \<Rightarrow> source_type \<Rightarrow> instant \<Rightarrow> instant \<Rightarrow> discovery_status \<Rightarrow> pass_counts
     \<Rightarrow> pystr option \<Rightarrow> registry \<Rightarrow> registry" where
  "record_discovery_event e source started finished st counts err rg =
     rg\<lparr>rg_discoveries := rg_discoveries rg @
          [\<lparr>de_id = env_uuid e (rg_drawn rg), de_source = source, de_started_at = Naive started,
            de_finished_at = Some (Naive finished), de_status = st,
            de_items_seen = int (pc_seen counts), de_items_new = int (pc_new counts),
            de_items_changed = int (pc_changed counts),
            de_items_missing = int (pc_missing counts), de_error = err\<rparr>],
        rg_drawn := Suc (rg_drawn rg)\<rparr>"

definition purge_old_events :: "instant \<Rightarrow> int \<Rightarrow> registry \<Rightarrow> registry \<times> nat \<times> nat" where
  "purge_old_events now retention_days rg =
     (let cutoff = now - days retention_days;
          old_change = (\<lambda>c. instant_of (ce_created_at c) < cutoff);
          old_discovery = (\<lambda>d. instant_of (de_started_at d) < cutoff)
      in (rg\<lparr>rg_changes := drop_rows old_change (rg_changes rg),
             rg_discoveries := drop_rows old_discovery (rg_discoveries rg)\<rparr>,
          length (filter old_change (rg_changes rg)),
          length (filter old_discovery (rg_discoveries rg))))"

section \<open>Reconciliation\<close>

text \<open>The curated fields the reasoning layer may fill in for a new service.\<close>

record enrichment =
  en_display_name :: "pystr option"
  en_category :: "category option"
  en_auth_mode :: "auth_mode option"
  en_notes :: pystr

definition no_enrichment :: enrichment where
  "no_enrichment =
     \<lparr>en_display_name = None, en_category = None, en_auth_mode = None, en_notes = []\<rparr>"

text \<open>
  \<open>identity_resolver\<close> answers with one of the services it is shown, \<open>metadata_enricher\<close>
  with the fields it fills in; with neither, the pass is deterministic.
\<close>

record reasoning =
  rs_resolve :: "discovered \<Rightarrow> service list \<Rightarrow> service option"
  rs_enrich :: "discovered \<Rightarrow> enrichment"

definition no_reasoning :: reasoning where
  "no_reasoning = \<lparr>rs_resolve = (\<lambda>d ss. None), rs_enrich = (\<lambda>d. no_enrichment)\<rparr>"

definition the_default :: "'a \<Rightarrow> 'a option \<Rightarrow> 'a" where
  "the_default a v = (case v of None \<Rightarrow> a | Some x \<Rightarrow> x)"

definition reported_mode :: "source_type \<Rightarrow> discovered \<Rightarrow> auth_mode option" where
  "reported_mode source d =
     (if d_source d = source \<and> d_auth_mode d \<notin> {None, Some AuthMode_unknown}
      then d_auth_mode d else None)"

text \<open>The service constructed for an item nothing matched (id and timestamps set when added).\<close>

definition discovered_service :: "enrichment \<Rightarrow> instant \<Rightarrow> discovered \<Rightarrow> service" where
  "discovered_service en now d =
     \<lparr>svc_id = [], svc_name = d_name d,
      svc_display_name =
        the_default (d_name d)
          (or_text (or_text (en_display_name en) (d_display_name d)) (Some (d_name d))),
      svc_category = the_default Category_other (or_value (en_category en) (d_category d)),
      svc_host = d_host d, svc_urls = d_urls d, svc_traefik_router = d_router d,
      svc_authentik_app_slug = d_slug d,
      svc_auth_mode = the_default AuthMode_unknown (or_value (en_auth_mode en) (d_auth_mode d)),
      svc_traefik_auth_mode = reported_mode Source_traefik d,
      svc_authentik_auth_mode = reported_mode Source_authentik d,
      svc_tags = d_tags d, svc_notes = en_notes en, svc_auth_mode_conflict = False,
      svc_hardware_node_id = None, svc_manual_link = False, svc_authentik_link_manual = False,
      svc_manual = False, svc_stale = False, svc_created_at = Naive now,
      svc_updated_at = Naive now, svc_last_seen_at = Some (Naive now)\<rparr>"

definition upsert_source ::
  "env \<Rightarrow> pystr \<Rightarrow> source_type \<Rightarrow> discovered \<Rightarrow> instant \<Rightarrow> registry \<Rightarrow> registry" where
  "upsert_source e sid source d now rg =
     (case get_source sid source rg of
        None \<Rightarrow> add_source e sid source (d_external_id d) (d_raw d) (Some now) rg
      | Some r \<Rightarrow>
          put_source (src_id r)
            (\<lambda>r. r\<lparr>src_external_id := d_external_id d, src_raw := d_raw d,
                   src_last_seen_at := Naive now, src_missed_passes := 0\<rparr>) rg)"

text \<open>Set one field of the matched service and log it.\<close>

definition change_field :: "env \<Rightarrow> pystr \<Rightarrow> pystr \<Rightarrow> field_update \<Rightarrow> registry \<Rightarrow> registry" where
  "change_field e sid actor u rg =
     (case get_row svc_id (rg_services rg) sid of
        None \<Rightarrow> rg
      | Some s \<Rightarrow>
          record_change e sid (update_name u) (field_text u s) (field_text u (apply_update u s))
            actor (put_service sid (apply_update u) rg))"

definition set_stale :: "env \<Rightarrow> pystr \<Rightarrow> pystr \<Rightarrow> bool \<Rightarrow> registry \<Rightarrow> registry" where
  "set_stale e sid actor v rg =
     record_change e sid ''stale'' (Some (show_bool (\<not> v))) (Some (show_bool v)) actor
       (put_service sid (\<lambda>s. s\<lparr>svc_stale := v\<rparr>) rg)"

definition merge_into ::
  "env \<Rightarrow> pystr \<Rightarrow> instant \<Rightarrow> service \<Rightarrow> discovered \<Rightarrow> registry \<Rightarrow> registry" where
  "merge_into e actor now s d rg =
     (let i = svc_id s;
          rg1 = fold (change_field e i actor) (provenance_updates s d) rg;
          rg2 = (if svc_stale s then set_stale e i actor False rg1 else rg1)
      in put_service i (\<lambda>s. s\<lparr>svc_last_seen_at := Some (Naive now), svc_updated_at := Naive now\<rparr>) rg2)"

record pass =
  ps_registry :: registry
  ps_new :: nat
  ps_changed :: nat
  ps_seen :: "pystr list"

text \<open>One item; \<open>None\<close> when \<open>match_service\<close> raised.\<close>

definition reconcile_item ::
  "env \<Rightarrow> (pystr \<Rightarrow> bool) \<Rightarrow> reasoning \<Rightarrow> source_type \<Rightarrow> pystr \<Rightarrow> instant \<Rightarrow> discovered
     \<Rightarrow> pass \<Rightarrow> pass option" where
  "reconcile_item e bok rs source actor now d p =
     (let rg = ps_registry p in
      case match_service bok (rg_services rg) d of
        None \<Rightarrow> None
      | Some m \<Rightarrow>
          (case (case m of None \<Rightarrow> rs_resolve rs d (rg_services rg) | Some s \<Rightarrow> Some s) of
             None \<Rightarrow>
               (let i = env_uuid e (rg_drawn rg);
                    rg1 = add_service e (discovered_service (rs_enrich rs d) now d) rg;
                    rg2 = record_change e i FIELD_CREATED None (Some (d_name d)) actor rg1
                in Some (p\<lparr>ps_registry := upsert_source e i source d now rg2,
                           ps_new := ps_new p + 1, ps_seen := i # ps_seen p\<rparr>))
           | Some s \<Rightarrow>
               Some (p\<lparr>ps_registry :=
                         upsert_source e (svc_id s) source d now (merge_into e actor now s d rg),
                       ps_changed :=
                         ps_changed p + (if provenance_updates s d = [] then 0 else 1),
                       ps_seen := svc_id s # ps_seen p\<rparr>)))"

fun reconcile_items ::
  "env \<Rightarrow> (pystr \<Rightarrow> bool) \<Rightarrow> reasoning \<Rightarrow> source_type \<Rightarrow> pystr \<Rightarrow> instant \<Rightarrow> discovered list
     \<Rightarrow> pass \<Rightarrow> pass option" where
  "reconcile_items e bok rs source actor now [] p = Some p"
| "reconcile_items e bok rs source actor now (d # ds) p =
     (case reconcile_item e bok rs source actor now d p of
        None \<Rightarrow> None
      | Some p' \<Rightarrow> reconcile_items e bok rs source actor now ds p')"

text \<open>
  The staleness step for the provenance row \<open>i\<close> of a service the pass did not see: count a
  missed pass, and mark the service stale when every reporting source has missed enough.
\<close>

definition reporting :: "pystr \<Rightarrow> registry \<Rightarrow> service_source list" where
  "reporting sid rg =
     filter (\<lambda>r. src_service_id r = sid \<and> src_source r \<noteq> Source_manual) (rg_sources rg)"

definition miss_row :: "env \<Rightarrow> int \<Rightarrow> pystr \<Rightarrow> service_source \<Rightarrow> registry \<Rightarrow> registry" where
  "miss_row e threshold actor row rg =
     (let sid = src_service_id row;
          missed = src_missed_passes row + 1;
          rg1 = put_source (src_id row) (\<lambda>r. r\<lparr>src_missed_passes := missed\<rparr>) rg
      in if missed < threshold then rg1
         else case get_row svc_id (rg_services rg1) sid of
                None \<Rightarrow> rg1
              | Some s \<Rightarrow>
                  if svc_stale s then rg1
                  else if list_ex (\<lambda>r. src_missed_passes r < threshold) (reporting sid rg1) then rg1
                  else set_stale e sid actor True rg1)"

definition missed_rows :: "source_type \<Rightarrow> pystr list \<Rightarrow> registry \<Rightarrow> service_source list" where
  "missed_rows source seen rg =
     filter (\<lambda>r. src_source r = source \<and> src_service_id r \<notin> set seen) (rg_sources rg)"

definition mark_stale ::
  "env \<Rightarrow> source_type \<Rightarrow> pystr list \<Rightarrow> int \<Rightarrow> pystr \<Rightarrow> registry \<Rightarrow> registry \<times> nat" where
  "mark_stale e source seen threshold actor rg =
     (fold (miss_row e threshold actor) (missed_rows source seen rg) rg,
      length (missed_rows source seen rg))"

text \<open>
  The whole pass. When an item raises, the session closes without a commit and the
  registry is as it was (\<open>None\<close>).
\<close>

definition reconcile ::
  "env \<Rightarrow> (pystr \<Rightarrow> bool) \<Rightarrow> reasoning \<Rightarrow> source_type \<Rightarrow> discovered list \<Rightarrow> int \<Rightarrow> instant
     \<Rightarrow> registry \<Rightarrow> (registry \<times> pass_counts) option" where
  "reconcile e bok rs source ds threshold now rg =
     (let actor = ''discovery:'' @ source_type_value source in
      case reconcile_items e bok rs source actor now ds
             \<lparr>ps_registry = rg, ps_new = 0, ps_changed = 0, ps_seen = []\<rparr> of
        None \<Rightarrow> None
      | Some p \<Rightarrow>
          (let (rg', missing) = mark_stale e source (ps_seen p) threshold actor (ps_registry p)
           in Some (rg', \<lparr>pc_seen = length ds, pc_new = ps_new p, pc_changed = ps_changed p,
                         pc_missing = missing\<rparr>)))"

end
