(* ===== verification/RegistryInv.thy ===== *)
theory RegistryInv
  imports Registry
begin

text \<open>
  What every operation of the registry keeps: unique ids and names, provenance rows that
  refer to a service, at most one row per service and source, ids drawn from the stream.
  The relation \<open>follows\<close> records what a pass may do to the rows that exist already.
\<close>

section \<open>The invariant\<close>

definition env_ok :: "env \<Rightarrow> bool" where
  "env_ok e \<longleftrightarrow> inj (env_uuid e)"

definition source_key :: "service_source \<Rightarrow> pystr \<times> source_type" where
  "source_key r = (src_service_id r, src_source r)"

definition drawn_ids :: "env \<Rightarrow> registry \<Rightarrow> pystr set" where
  "drawn_ids e rg = env_uuid e ` {..<rg_drawn rg}"

definition reg_ok :: "env \<Rightarrow> registry \<Rightarrow> bool" where
  "reg_ok e rg \<longleftrightarrow>
     distinct (map svc_id (rg_services rg)) \<and>
     distinct (map svc_name (rg_services rg)) \<and>
     distinct (map src_id (rg_sources rg)) \<and>
     distinct (map source_key (rg_sources rg)) \<and>
     src_service_id ` set (rg_sources rg) \<subseteq> svc_id ` set (rg_services rg) \<and>
     svc_id ` set (rg_services rg) \<subseteq> drawn_ids e rg \<and>
     src_id ` set (rg_sources rg) \<subseteq> drawn_ids e rg \<and>
     distinct (map ce_id (rg_changes rg)) \<and>
     ce_id ` set (rg_changes rg) \<subseteq> drawn_ids e rg \<and>
     (\<forall>r \<in> set (rg_sources rg). 0 \<le> src_missed_passes r)"

lemma distinct_map_unique: "distinct (map f t) \<Longrightarrow> x \<in> set t \<Longrightarrow> y \<in> set t \<Longrightarrow> f x = f y \<Longrightarrow> x = y"
  by (auto simp: distinct_map inj_on_def)

lemma reg_okD:
  assumes "reg_ok e rg"
  shows "distinct (map svc_id (rg_services rg))" "distinct (map svc_name (rg_services rg))"
    "distinct (map src_id (rg_sources rg))" "distinct (map source_key (rg_sources rg))"
    "src_service_id ` set (rg_sources rg) \<subseteq> svc_id ` set (rg_services rg)"
    "svc_id ` set (rg_services rg) \<subseteq> drawn_ids e rg"
    "r \<in> set (rg_sources rg) \<Longrightarrow> 0 \<le> src_missed_passes r"
  using assms by (simp_all add: reg_ok_def)

lemmas reg_ok_unique =
  distinct_map_unique [OF reg_okD(1)] distinct_map_unique [OF reg_okD(3)]
  distinct_map_unique [OF reg_okD(4)]

definition resolver_ok :: "reasoning \<Rightarrow> bool" where
  "resolver_ok rs \<longleftrightarrow> (\<forall>d ss s. rs_resolve rs d ss = Some s \<longrightarrow> s \<in> set ss)"

lemma drawn_Suc:
  "drawn_ids e (rg\<lparr>rg_drawn := Suc (rg_drawn rg)\<rparr>) = insert (env_uuid e (rg_drawn rg)) (drawn_ids e rg)"
  by (simp add: drawn_ids_def lessThan_Suc)

lemma drawn_ids_cong: "rg_drawn rg' = rg_drawn rg \<Longrightarrow> drawn_ids e rg' = drawn_ids e rg"
  by (simp add: drawn_ids_def)

lemma drawn_ids_Suc:
  "rg_drawn rg' = Suc (rg_drawn rg) \<Longrightarrow>
     drawn_ids e rg' = insert (env_uuid e (rg_drawn rg)) (drawn_ids e rg)"
  by (simp add: drawn_ids_def lessThan_Suc)

lemma uuid_fresh: "env_ok e \<Longrightarrow> env_uuid e (rg_drawn rg) \<notin> drawn_ids e rg"
  by (auto simp: env_ok_def drawn_ids_def inj_def)

lemma reg_ok_empty [simp]: "reg_ok e empty_registry"
  by (simp add: reg_ok_def empty_registry_def)

lemma reg_ok_record_change [intro]:
  assumes "env_ok e" "reg_ok e rg"
  shows "reg_ok e (record_change e sid f old new actor rg)"
proof -
  have "drawn_ids e (record_change e sid f old new actor rg) =
    insert (env_uuid e (rg_drawn rg)) (drawn_ids e rg)"
    by (rule drawn_ids_Suc) (simp add: record_change_def)
  then show ?thesis
    using assms uuid_fresh [of e rg] unfolding reg_ok_def by (auto simp: record_change_def)
qed

lemma reg_ok_put_service:
  assumes "reg_ok e rg" "\<And>s. svc_id (f s) = svc_id s" "\<And>s. svc_name (f s) = svc_name s"
  shows "reg_ok e (put_service i f rg)"
proof -
  have "drawn_ids e (put_service i f rg) = drawn_ids e rg"
    by (rule drawn_ids_cong) (simp add: put_service_def)
  moreover have "svc_id ` set (put_row svc_id i f (rg_services rg)) = svc_id ` set (rg_services rg)"
    using put_row_keys [of svc_id f i "rg_services rg"] assms(2) by (metis set_map)
  moreover have "map svc_name (put_row svc_id i f (rg_services rg)) = map svc_name (rg_services rg)"
    by (simp add: put_row_def assms(3))
  moreover have "map svc_id (put_row svc_id i f (rg_services rg)) = map svc_id (rg_services rg)"
    by (simp add: put_row_keys assms(2))
  ultimately show ?thesis
    using assms(1) unfolding reg_ok_def by (simp add: put_service_def)
qed

lemma reg_ok_put_source:
  assumes "reg_ok e rg" "\<And>r. src_id (f r) = src_id r" "\<And>r. source_key (f r) = source_key r"
    and "\<And>r. r \<in> set (rg_sources rg) \<Longrightarrow> src_id r = i \<Longrightarrow> 0 \<le> src_missed_passes (f r)"
  shows "reg_ok e (put_source i f rg)"
proof -
  let ?t = "put_row src_id i f (rg_sources rg)"
  have d: "drawn_ids e (put_source i f rg) = drawn_ids e rg"
    by (rule drawn_ids_cong) (simp add: put_source_def)
  have k: "map source_key ?t = map source_key (rg_sources rg)"
    by (simp add: put_row_def assms(3))
  then have "map (fst \<circ> source_key) ?t = map (fst \<circ> source_key) (rg_sources rg)"
    by (metis map_map)
  then have sid: "src_service_id ` set ?t = src_service_id ` set (rg_sources rg)"
    by (metis (mono_tags, lifting) comp_apply fst_conv image_cong list.set_map source_key_def)
  have i: "map src_id ?t = map src_id (rg_sources rg)"
    by (simp add: put_row_keys assms(2))
  then have "src_id ` set ?t = src_id ` set (rg_sources rg)" by (metis list.set_map)
  moreover have "\<forall>r \<in> set ?t. 0 \<le> src_missed_passes r"
    using assms(1,4) by (auto simp: reg_ok_def put_row_def)
  ultimately show ?thesis
    using assms(1) d k i sid unfolding reg_ok_def by (simp add: put_source_def)
qed

lemma reg_ok_add_service:
  assumes "env_ok e" "reg_ok e rg" "svc_name s \<notin> svc_name ` set (rg_services rg)"
  shows "reg_ok e (add_service e s rg)"
proof -
  have "drawn_ids e (add_service e s rg) = insert (env_uuid e (rg_drawn rg)) (drawn_ids e rg)"
    by (rule drawn_ids_Suc) (simp add: add_service_def)
  then show ?thesis
    using assms uuid_fresh [of e rg] unfolding reg_ok_def by (auto simp: add_service_def)
qed

lemma get_source_None: "get_source sid source rg = None \<Longrightarrow>
    (sid, source) \<notin> source_key ` set (rg_sources rg)"
  by (auto simp: get_source_def find_None_iff source_key_def)

lemma reg_ok_add_source:
  assumes "env_ok e" "reg_ok e rg" "(sid, source) \<notin> source_key ` set (rg_sources rg)"
    and "sid \<in> svc_id ` set (rg_services rg)"
  shows "reg_ok e (add_source e sid source ext raw seen rg)"
proof -
  have "drawn_ids e (add_source e sid source ext raw seen rg) =
    insert (env_uuid e (rg_drawn rg)) (drawn_ids e rg)"
    by (rule drawn_ids_Suc) (simp add: add_source_def Let_def)
  then show ?thesis
    using assms uuid_fresh [of e rg] unfolding reg_ok_def
    by (auto simp: add_source_def source_key_def Let_def)
qed

section \<open>What each step leaves alone\<close>

lemma services_record_change [simp]: "rg_services (record_change e i f old new a rg) = rg_services rg"
  by (simp add: record_change_def)

lemma sources_record_change [simp]: "rg_sources (record_change e i f old new a rg) = rg_sources rg"
  by (simp add: record_change_def)

lemma sources_put_service [simp]: "rg_sources (put_service i f rg) = rg_sources rg"
  by (simp add: put_service_def)

lemma services_put_service [simp]:
  "rg_services (put_service i f rg) = put_row svc_id i f (rg_services rg)"
  by (simp add: put_service_def)

lemma services_put_source [simp]: "rg_services (put_source i f rg) = rg_services rg"
  by (simp add: put_source_def)

lemma sources_put_source [simp]:
  "rg_sources (put_source i f rg) = put_row src_id i f (rg_sources rg)"
  by (simp add: put_source_def)

lemma services_add_source [simp]: "rg_services (add_source e i s x r n rg) = rg_services rg"
  by (simp add: add_source_def Let_def)

lemma sources_add_service [simp]: "rg_sources (add_service e s rg) = rg_sources rg"
  by (simp add: add_service_def)

lemma services_upsert_source [simp]: "rg_services (upsert_source e i s d n rg) = rg_services rg"
  by (simp add: upsert_source_def split: option.splits)

lemma apply_update_id [simp]: "svc_id (apply_update u s) = svc_id s"
  by (cases u) simp_all

lemma apply_update_name [simp]: "svc_name (apply_update u s) = svc_name s"
  by (cases u) simp_all

lemma reg_ok_change_field:
  "env_ok e \<Longrightarrow> reg_ok e rg \<Longrightarrow> reg_ok e (change_field e i a u rg)"
  by (auto simp: change_field_def intro!: reg_ok_put_service split: option.splits)

lemma reg_ok_set_stale: "env_ok e \<Longrightarrow> reg_ok e rg \<Longrightarrow> reg_ok e (set_stale e i a v rg)"
  by (auto simp: set_stale_def intro!: reg_ok_put_service)

lemma reg_ok_fold:
  assumes "\<And>x rg. reg_ok e rg \<Longrightarrow> reg_ok e (f x rg)" "reg_ok e rg"
  shows "reg_ok e (fold f xs rg)"
  using assms(2) by (induction xs arbitrary: rg) (auto intro: assms(1))

lemma reg_ok_merge_into:
  assumes "env_ok e" "reg_ok e rg"
  shows "reg_ok e (merge_into e a now s d rg)"
  unfolding merge_into_def Let_def
  by (intro reg_ok_put_service)
     (use assms in \<open>auto intro!: reg_ok_set_stale reg_ok_fold reg_ok_change_field\<close>)

lemma reg_ok_upsert_source:
  assumes "env_ok e" "reg_ok e rg" "i \<in> svc_id ` set (rg_services rg)"
  shows "reg_ok e (upsert_source e i source d now rg)"
  using assms
  by (auto simp: upsert_source_def source_key_def split: option.splits
      intro!: reg_ok_add_source reg_ok_put_source dest: get_source_None)

lemma reg_ok_miss_row:
  assumes "env_ok e" "reg_ok e rg" "0 \<le> src_missed_passes row"
  shows "reg_ok e (miss_row e th a row rg)"
proof -
  have "reg_ok e (put_source (src_id row) (\<lambda>r. r\<lparr>src_missed_passes := src_missed_passes row + 1\<rparr>) rg)"
    using assms by (intro reg_ok_put_source) (simp_all add: source_key_def)
  with assms(1) show ?thesis
    by (auto simp: miss_row_def Let_def intro!: reg_ok_set_stale split: option.splits)
qed

section \<open>How existing rows may change in a pass\<close>

text \<open>
  The ids and names stay, in order, with new services appended; every service keeps its
  curated fields, and its slug when it was linked by hand; the log grows at its end, every
  new entry by the pass.
\<close>

definition service_follows :: "service \<Rightarrow> service \<Rightarrow> bool" where
  "service_follows s s' \<longleftrightarrow>
     curated s' = curated s \<and>
     (svc_authentik_link_manual s \<longrightarrow> svc_authentik_app_slug s' = svc_authentik_app_slug s)"

definition follows :: "pystr \<Rightarrow> registry \<Rightarrow> registry \<Rightarrow> bool" where
  "follows actor rg rg' \<longleftrightarrow>
     (\<exists>ss new. rg_services rg' = ss @ new \<and> list_all2 service_follows (rg_services rg) ss) \<and>
     (\<exists>cs. rg_changes rg' = rg_changes rg @ cs \<and> list_all (\<lambda>c. ce_actor c = actor) cs)"

lemma service_follows_refl [simp]: "service_follows s s"
  by (simp add: service_follows_def)

lemma service_follows_trans:
  "service_follows s t \<Longrightarrow> service_follows t u \<Longrightarrow> service_follows s u"
  by (auto simp: service_follows_def curated_def)

lemma followsI:
  "list_all2 service_follows (rg_services rg) ss \<Longrightarrow> rg_services rg' = ss @ new \<Longrightarrow>
     rg_changes rg' = rg_changes rg @ cs \<Longrightarrow> list_all (\<lambda>c. ce_actor c = actor) cs \<Longrightarrow>
     follows actor rg rg'"
  by (auto simp: follows_def)

lemma follows_grow:
  "rg_services rg' = rg_services rg @ new \<Longrightarrow> rg_changes rg' = rg_changes rg @ cs \<Longrightarrow>
     list_all (\<lambda>c. ce_actor c = actor) cs \<Longrightarrow> follows actor rg rg'"
  by (rule followsI [OF list.rel_refl]) simp_all

lemma follows_refl [simp]: "follows a rg rg"
  by (rule follows_grow [of _ _ "[]" "[]"]) simp_all

lemma follows_trans:
  assumes "follows a r s" "follows a s t"
  shows "follows a r t"
proof -
  obtain ss n where s: "rg_services s = ss @ n" "list_all2 service_follows (rg_services r) ss"
    using assms(1) by (auto simp: follows_def)
  obtain tt m where t: "rg_services t = tt @ m" "list_all2 service_follows (ss @ n) tt"
    using assms(2) s by (auto simp: follows_def)
  from t(2) obtain u v where u: "tt = u @ v" "list_all2 service_follows ss u"
    by (auto simp: list_all2_append1)
  have "list_all2 service_follows (rg_services r) u"
    by (rule list_all2_trans [OF _ s(2) u(2)]) (rule service_follows_trans)
  moreover obtain cs ds where "rg_changes s = rg_changes r @ cs" "list_all (\<lambda>c. ce_actor c = a) cs"
    "rg_changes t = rg_changes s @ ds" "list_all (\<lambda>c. ce_actor c = a) ds"
    using assms by (auto simp: follows_def)
  ultimately show ?thesis
    using t(1) u(1) by (intro followsI [where ss = u and new = "v @ m" and cs = "cs @ ds"]) auto
qed

lemma follows_fold:
  assumes "\<And>x rg. P x \<Longrightarrow> follows a rg (f x rg)" "list_all P xs"
  shows "follows a rg (fold f xs rg)"
  using assms(2)
proof (induction xs arbitrary: rg)
  case Nil
  then show ?case by simp
next
  case (Cons x xs)
  then have "follows a rg (f x rg)" "follows a (f x rg) (fold f xs (f x rg))"
    by (simp_all add: assms(1))
  then show ?case by (auto intro: follows_trans)
qed

lemma follows_record_change [simp]: "follows a rg (record_change e i f old new a rg)"
  by (rule follows_grow [where new = "[]"], simp, simp add: record_change_def, simp)

lemma follows_put_service:
  assumes "\<And>s. svc_id s = i \<Longrightarrow> s \<in> set (rg_services rg) \<Longrightarrow> service_follows s (f s)"
  shows "follows a rg (put_service i f rg)"
proof -
  have "list_all2 service_follows (rg_services rg) (put_row svc_id i f (rg_services rg))"
    by (auto simp: put_row_def list_all2_conv_all_nth intro!: assms)
  then show ?thesis
    by (rule followsI [where new = "[]" and cs = "[]"]) (simp_all add: put_service_def)
qed

lemma follows_put_source [simp]: "follows a rg (put_source i f rg)"
  by (rule follows_grow [where new = "[]" and cs = "[]"]) (simp_all add: put_source_def)

lemma follows_add_source [simp]: "follows a rg (add_source e i s x r n rg)"
  by (rule follows_grow [where new = "[]" and cs = "[]"]) (simp_all add: add_source_def Let_def)

lemma follows_add_service [simp]: "follows a rg (add_service e s rg)"
  by (rule follows_grow [where cs = "[]"]) (simp_all add: add_service_def)

lemma follows_upsert_source [simp]: "follows a rg (upsert_source e i s d n rg)"
  by (simp add: upsert_source_def split: option.splits)

lemma follows_set_stale [simp]: "follows a rg (set_stale e i a v rg)"
  unfolding set_stale_def
  by (rule follows_trans [OF follows_put_service follows_record_change])
     (simp add: service_follows_def curated_def)

end
