(* ===== verification/Reconciliation.thy ===== *)
theory Reconciliation
  imports RegistryInv
begin

text \<open>
  What a reconciliation pass does to the registry: the shape of the tables after each of
  its stages, and the properties of the pass and of the other operations.
\<close>

section \<open>Merging one item\<close>

lemma put_row_put_row:
  "(\<And>r. key (f r) = key r) \<Longrightarrow> put_row key k g (put_row key k f t) = put_row key k (\<lambda>r. g (f r)) t"
  by (simp add: put_row_def)

lemma put_row_cong:
  "(\<And>r. r \<in> set t \<Longrightarrow> key r = k \<Longrightarrow> f r = g r) \<Longrightarrow> put_row key k f t = put_row key k g t"
  by (auto simp: put_row_def)

lemma put_row_id: "(\<And>r. f r = r) \<Longrightarrow> put_row key k f t = t"
  by (induction t) (simp_all add: put_row_def)

lemma get_row_None_put: "get_row key t k = None \<Longrightarrow> put_row key k f t = t"
  by (rule put_row_absent) (simp add: get_row_None_iff)

lemma services_change_field:
  "rg_services (change_field e i a u rg) = put_row svc_id i (apply_update u) (rg_services rg)"
  by (simp add: change_field_def get_row_None_put split: option.splits)

lemma services_set_stale:
  "rg_services (set_stale e i a v rg) = put_row svc_id i (\<lambda>s. s\<lparr>svc_stale := v\<rparr>) (rg_services rg)"
  by (simp add: set_stale_def)

lemma apply_updates_id [simp]: "svc_id (apply_updates us s) = svc_id s"
  unfolding apply_updates_def by (induction us arbitrary: s) simp_all

lemma apply_updates_name [simp]: "svc_name (apply_updates us s) = svc_name s"
  unfolding apply_updates_def by (induction us arbitrary: s) simp_all

lemma apply_updates_stale [simp]: "svc_stale (apply_updates us s) = svc_stale s"
proof -
  have "svc_stale (apply_update u s) = svc_stale s" for u s by (cases u) simp_all
  then show ?thesis unfolding apply_updates_def by (induction us arbitrary: s) simp_all
qed

lemma services_change_fields:
  "rg_services (fold (change_field e i a) us rg) = put_row svc_id i (apply_updates us) (rg_services rg)"
proof (induction us arbitrary: rg)
  case Nil
  then show ?case by (simp add: apply_updates_def put_row_id)
next
  case (Cons u us)
  then show ?case by (simp add: services_change_field put_row_put_row apply_updates_def)
qed

definition merged :: "instant \<Rightarrow> discovered \<Rightarrow> service \<Rightarrow> service" where
  "merged now d s =
     (updated s d)\<lparr>svc_stale := False, svc_last_seen_at := Some (Naive now),
                   svc_updated_at := Naive now\<rparr>"

lemma services_merge_into:
  assumes "reg_ok e rg" "s \<in> set (rg_services rg)"
  shows "rg_services (merge_into e a now s d rg) =
    put_row svc_id (svc_id s) (merged now d) (rg_services rg)"
proof -
  have uniq: "t = s" if "t \<in> set (rg_services rg)" "svc_id t = svc_id s" for t
    using assms that by (auto simp: reg_ok_def distinct_map inj_on_def)
  show ?thesis
    unfolding merge_into_def Let_def
    by (auto simp: services_set_stale services_change_fields put_row_put_row merged_def updated_def
        dest!: uniq intro!: put_row_cong)
qed

lemma merged_follows: "service_follows s (merged now d s)"
proof -
  have "curated (apply_updates us t) = curated t" if "list_all is_provenance us" for us t
    using that unfolding apply_updates_def
    by (induction us arbitrary: t) (simp_all add: provenance_keeps_curated)
  then have "curated (updated s d) = curated s"
    by (simp add: updated_def provenance_updates_kind)
  moreover have "svc_authentik_link_manual s \<Longrightarrow>
      svc_authentik_app_slug (updated s d) = svc_authentik_app_slug s"
    by (simp add: updated_fields new_slug_def)
  ultimately show ?thesis by (simp add: service_follows_def merged_def curated_def)
qed

text \<open>The change log of a stage: it grows at its end, with entries of the pass.\<close>

definition logs :: "pystr \<Rightarrow> registry \<Rightarrow> registry \<Rightarrow> bool" where
  "logs a rg rg' \<longleftrightarrow> (\<exists>cs. rg_changes rg' = rg_changes rg @ cs \<and> list_all (\<lambda>c. ce_actor c = a) cs)"

lemma logsI:
  "rg_changes rg' = rg_changes rg @ cs \<Longrightarrow> list_all (\<lambda>c. ce_actor c = a) cs \<Longrightarrow> logs a rg rg'"
  by (auto simp: logs_def)

lemma logs_refl [simp]: "logs a rg rg"
  by (rule logsI [of _ _ "[]"]) simp_all

lemma logs_trans: "logs a r s \<Longrightarrow> logs a s t \<Longrightarrow> logs a r t"
  unfolding logs_def by (metis append.assoc list_all_append)

lemma logs_put_service [simp]: "logs a rg (put_service i f rg') = logs a rg rg'"
  by (simp add: logs_def put_service_def)

lemma logs_record_change: "logs a rg rg' \<Longrightarrow> logs a rg (record_change e i f old new a rg')"
  by (erule logs_trans) (rule logsI, simp add: record_change_def, simp)

lemma logs_change_field: "logs a rg (change_field e i a u rg)"
  by (auto simp: change_field_def intro!: logs_record_change split: option.splits)

lemma logs_set_stale: "logs a rg rg' \<Longrightarrow> logs a rg (set_stale e i a v rg')"
  by (simp add: set_stale_def logs_record_change)

lemma logs_fold_change: "logs a rg (fold (change_field e i a) us rg)"
  by (induction us arbitrary: rg) (auto intro: logs_trans logs_change_field)

lemma logs_merge_into: "logs a rg (merge_into e a now s d rg)"
  by (simp add: merge_into_def Let_def logs_set_stale logs_fold_change)

lemma follows_merge_into:
  assumes "reg_ok e rg" "s \<in> set (rg_services rg)"
  shows "follows a rg (merge_into e a now s d rg)"
proof -
  have "list_all2 service_follows (rg_services rg)
      (put_row svc_id (svc_id s) (merged now d) (rg_services rg))"
    by (auto simp: put_row_def list_all2_conv_all_nth merged_follows)
  moreover obtain cs where "rg_changes (merge_into e a now s d rg) = rg_changes rg @ cs"
    "list_all (\<lambda>c. ce_actor c = a) cs"
    using logs_merge_into [of a rg e now s d] by (auto simp: logs_def)
  ultimately show ?thesis
    by (intro followsI [where new = "[]" and cs = cs]) (simp_all add: services_merge_into assms)
qed

section \<open>Items\<close>

lemma find_memD: "find P xs = Some x \<Longrightarrow> x \<in> set xs \<and> P x"
  by (auto simp: find_Some_iff)

lemma match_by_host_mem: "match_by_host bok w ss = Some (Some s) \<Longrightarrow> s \<in> set ss"
  by (induction ss) (auto split: option.splits if_splits)

lemma match_service_mem: "match_service bok ss d = Some (Some s) \<Longrightarrow> s \<in> set ss"
  by (auto simp: match_service_def dest!: find_memD match_by_host_mem split: option.splits if_splits)

lemma match_service_none_name:
  "match_service bok ss d = Some None \<Longrightarrow> d_name d \<notin> svc_name ` set ss"
  by (auto simp: match_service_def find_None_iff split: option.splits)

text \<open>The two outcomes of an item.\<close>

lemma reconcile_item_cases:
  assumes "reconcile_item e bok rs source a now d p = Some p'" "resolver_ok rs"
  obtains (new) i rg2 where
      "d_name d \<notin> svc_name ` set (rg_services (ps_registry p))"
      "i = env_uuid e (rg_drawn (ps_registry p))"
      "rg2 = record_change e i FIELD_CREATED None (Some (d_name d)) a
         (add_service e (discovered_service (rs_enrich rs d) now d) (ps_registry p))"
      "p' = p\<lparr>ps_registry := upsert_source e i source d now rg2, ps_new := ps_new p + 1,
              ps_seen := i # ps_seen p\<rparr>"
  | (merge) s where
      "s \<in> set (rg_services (ps_registry p))"
      "p' = p\<lparr>ps_registry := upsert_source e (svc_id s) source d now
                (merge_into e a now s d (ps_registry p)),
              ps_changed := ps_changed p + (if provenance_updates s d = [] then 0 else 1),
              ps_seen := svc_id s # ps_seen p\<rparr>"
proof -
  obtain m where m: "match_service bok (rg_services (ps_registry p)) d = Some m"
    using assms(1) by (auto simp: reconcile_item_def Let_def split: option.splits)
  let ?r = "case m of None \<Rightarrow> rs_resolve rs d (rg_services (ps_registry p)) | Some s \<Rightarrow> Some s"
  show ?thesis
  proof (cases ?r)
    case None
    then have "m = None" by (cases m) auto
    with m None assms(1) show ?thesis
      by (intro new [OF match_service_none_name]) (auto simp: reconcile_item_def Let_def)
  next
    case (Some s)
    have "s \<in> set (rg_services (ps_registry p))"
      using Some m assms(2) by (cases m) (auto simp: resolver_ok_def dest: match_service_mem)
    with Some m assms(1) show ?thesis
      by (intro merge) (auto simp: reconcile_item_def Let_def)
  qed
qed

lemma put_row_ids: "(\<And>r. key (f r) = key r) \<Longrightarrow> key ` set (put_row key k f t) = key ` set t"
  by (metis list.set_map put_row_keys)

lemma merged_id [simp]: "svc_id (merged now d s) = svc_id s"
  by (simp add: merged_def updated_def)

lemma ids_merge_into:
  assumes "reg_ok e rg" "s \<in> set (rg_services rg)"
  shows "svc_id ` set (rg_services (merge_into e a now s d rg)) = svc_id ` set (rg_services rg)"
  by (simp add: services_merge_into assms put_row_ids)

lemma reconcile_item_ok:
  assumes "reconcile_item e bok rs source a now d p = Some p'" "resolver_ok rs" "env_ok e"
    and ok: "reg_ok e (ps_registry p)"
  shows "reg_ok e (ps_registry p') \<and> follows a (ps_registry p) (ps_registry p')"
  using assms(1,2)
proof (cases rule: reconcile_item_cases)
  case (new i rg2)
  let ?rg1 = "add_service e (discovered_service (rs_enrich rs d) now d) (ps_registry p)"
  have "reg_ok e ?rg1"
    using new(1) by (intro reg_ok_add_service assms ok) (simp add: discovered_service_def)
  then have ok2: "reg_ok e rg2" using assms(3) unfolding new(3) by blast
  have "i \<in> svc_id ` set (rg_services rg2)"
    unfolding new(2,3) by (simp add: add_service_def)
  then have "reg_ok e (upsert_source e i source d now rg2)"
    by (rule reg_ok_upsert_source [OF assms(3) ok2])
  moreover have "follows a (ps_registry p) (upsert_source e i source d now rg2)"
    unfolding new(3)
    by (rule follows_trans [OF follows_trans [OF follows_add_service follows_record_change]
          follows_upsert_source])
  ultimately show ?thesis using new(4) by simp
next
  case (merge s)
  let ?m = "merge_into e a now s d (ps_registry p)"
  have "reg_ok e ?m" by (rule reg_ok_merge_into [OF assms(3) ok])
  then have "reg_ok e (upsert_source e (svc_id s) source d now ?m)"
    using ids_merge_into [OF ok merge(1)] merge(1) by (intro reg_ok_upsert_source assms) auto
  moreover have "follows a (ps_registry p) (upsert_source e (svc_id s) source d now ?m)"
    by (rule follows_trans [OF follows_merge_into [OF ok merge(1)] follows_upsert_source])
  ultimately show ?thesis using merge(2) by simp
qed

lemma reconcile_items_ok:
  assumes "reconcile_items e bok rs source a now ds p = Some p'" "resolver_ok rs" "env_ok e"
    and "reg_ok e (ps_registry p)"
  shows "reg_ok e (ps_registry p') \<and> follows a (ps_registry p) (ps_registry p')"
  using assms
proof (induction ds arbitrary: p)
  case Nil
  then show ?case by simp
next
  case (Cons d ds)
  then obtain q where q: "reconcile_item e bok rs source a now d p = Some q"
    "reconcile_items e bok rs source a now ds q = Some p'"
    by (auto split: option.splits)
  with reconcile_item_ok [OF q(1)] Cons show ?case by (blast intro: follows_trans)
qed

section \<open>Staleness\<close>

definition bump :: "service_source \<Rightarrow> service_source" where
  "bump r = r\<lparr>src_missed_passes := src_missed_passes r + 1\<rparr>"

definition bump_rows :: "service_source list \<Rightarrow> service_source list \<Rightarrow> service_source list" where
  "bump_rows xs t = map (\<lambda>r. if src_id r \<in> src_id ` set xs then bump r else r) t"

text \<open>Every non-manual source of the service has missed at least the threshold.\<close>

definition lost_by_all :: "int \<Rightarrow> service_source list \<Rightarrow> pystr \<Rightarrow> bool" where
  "lost_by_all th t sid \<longleftrightarrow>
     (\<forall>r \<in> set t. src_service_id r = sid \<and> src_source r \<noteq> Source_manual \<longrightarrow> th \<le> src_missed_passes r)"

lemma bump_fields [simp]:
  "src_id (bump r) = src_id r" "src_service_id (bump r) = src_service_id r"
  "src_source (bump r) = src_source r" "src_missed_passes (bump r) = src_missed_passes r + 1"
  "source_key (bump r) = source_key r"
  by (simp_all add: bump_def source_key_def)

lemma lost_bump_rows:
  "lost_by_all th (bump_rows xs t) sid \<longleftrightarrow>
     (\<forall>r \<in> set t. src_service_id r = sid \<and> src_source r \<noteq> Source_manual \<longrightarrow>
        th \<le> src_missed_passes r + (if src_id r \<in> src_id ` set xs then 1 else 0))"
proof -
  have "lost_by_all th (bump_rows xs t) sid \<longleftrightarrow>
    (\<forall>r \<in> set t. src_service_id (if src_id r \<in> src_id ` set xs then bump r else r) = sid \<and>
       src_source (if src_id r \<in> src_id ` set xs then bump r else r) \<noteq> Source_manual \<longrightarrow>
       th \<le> src_missed_passes (if src_id r \<in> src_id ` set xs then bump r else r))"
    by (simp only: lost_by_all_def bump_rows_def set_map ball_simps)
  also have "\<dots> \<longleftrightarrow> (\<forall>r \<in> set t. src_service_id r = sid \<and> src_source r \<noteq> Source_manual \<longrightarrow>
        th \<le> src_missed_passes r + (if src_id r \<in> src_id ` set xs then 1 else 0))"
    by (intro ball_cong refl) (simp split: if_split)
  finally show ?thesis .
qed

lemma bump_rows_Nil [simp]: "bump_rows [] t = t"
  by (simp add: bump_rows_def)

lemma miss_row_sources:
  assumes "reg_ok e rg" "x \<in> set (rg_sources rg)"
  shows "rg_sources (miss_row e th a x rg) = bump_rows [x] (rg_sources rg)"
proof -
  have uniq: "r = x" if "r \<in> set (rg_sources rg)" "src_id r = src_id x" for r
    using assms that by (auto simp: reg_ok_def distinct_map inj_on_def)
  have "put_row src_id (src_id x) (\<lambda>r. r\<lparr>src_missed_passes := src_missed_passes x + 1\<rparr>) (rg_sources rg) =
    bump_rows [x] (rg_sources rg)"
    by (auto simp: put_row_def bump_rows_def bump_def dest: uniq)
  then show ?thesis
    by (auto simp: miss_row_def Let_def set_stale_def split: option.splits)
qed

lemma miss_row_services:
  assumes "reg_ok e rg" "x \<in> set (rg_sources rg)" "src_source x \<noteq> Source_manual"
  shows "rg_services (miss_row e th a x rg) =
    put_row svc_id (src_service_id x)
      (\<lambda>s. if lost_by_all th (bump_rows [x] (rg_sources rg)) (src_service_id x)
           then s\<lparr>svc_stale := True\<rparr> else s) (rg_services rg)"
proof -
  let ?rg1 = "put_source (src_id x) (\<lambda>r. r\<lparr>src_missed_passes := src_missed_passes x + 1\<rparr>) rg"
  let ?B = "bump_rows [x] (rg_sources rg)"
  have src: "rg_sources ?rg1 = ?B"
    using assms(1,2) by (auto simp: put_row_def bump_rows_def bump_def reg_ok_def distinct_map inj_on_def)
  have low: "\<not> lost_by_all th ?B (src_service_id x)" if "src_missed_passes x + 1 < th"
  proof -
    have "bump x \<in> set ?B" using assms(2) by (force simp: bump_rows_def)
    with that assms(3) show ?thesis by (force simp: lost_by_all_def)
  qed
  have lost: "list_ex (\<lambda>r. src_missed_passes r < th) (reporting (src_service_id x) ?rg1) \<longleftrightarrow>
    \<not> lost_by_all th ?B (src_service_id x)"
    unfolding reporting_def src by (auto simp: lost_by_all_def list_ex_iff)
  have uniq: "t = s" if "get_row svc_id (rg_services rg) (src_service_id x) = Some s"
    "t \<in> set (rg_services rg)" "svc_id t = src_service_id x" for s t
    using that assms(1) by (auto simp: reg_ok_def distinct_map inj_on_def dest!: get_row_SomeD)
  show ?thesis
  proof (cases "lost_by_all th ?B (src_service_id x)")
    case False
    then have "rg_services (miss_row e th a x rg) = rg_services rg"
      using lost by (simp add: miss_row_def Let_def split: option.splits)
    with False show ?thesis by (simp add: put_row_id)
  next
    case True
    then have th: "\<not> src_missed_passes x + 1 < th" using low by blast
    show ?thesis
    proof (cases "get_row svc_id (rg_services rg) (src_service_id x)")
      case None
      with th show ?thesis by (simp add: miss_row_def Let_def get_row_None_put)
    next
      case (Some s)
      show ?thesis
      proof (cases "svc_stale s")
        case stale: True
        have "put_row svc_id (src_service_id x) (\<lambda>s. s\<lparr>svc_stale := True\<rparr>) (rg_services rg) =
          put_row svc_id (src_service_id x) (\<lambda>s. s) (rg_services rg)"
          by (rule put_row_cong) (use uniq [OF Some] stale in auto)
        with True th Some stale show ?thesis
          by (simp add: miss_row_def Let_def put_row_id)
      next
        case False
        with True th Some lost show ?thesis
          by (simp add: miss_row_def Let_def services_set_stale)
      qed
    qed
  qed
qed

lemma reg_ok_miss_rows:
  "env_ok e \<Longrightarrow> reg_ok e rg \<Longrightarrow> \<forall>x \<in> set xs. 0 \<le> src_missed_passes x \<Longrightarrow>
     reg_ok e (fold (miss_row e th a) xs rg)"
  by (induction xs arbitrary: rg) (simp_all add: reg_ok_miss_row)

lemma map_put_marked:
  assumes "\<And>r. key (f r) = key r" "\<And>r. f (f r) = f r"
  shows "map (\<lambda>r. if key r \<in> A \<and> L (key r) then f r else r)
      (put_row key k (\<lambda>r. if L k then f r else r) t) =
    map (\<lambda>r. if key r \<in> insert k A \<and> L (key r) then f r else r) t"
  by (induction t) (auto simp: put_row_def assms)

text \<open>All the staleness steps of a pass together.\<close>

lemma miss_rows_tables:
  assumes "env_ok e" "reg_ok e rg" "set xs \<subseteq> set (rg_sources rg)" "distinct (map src_id xs)"
    and "distinct (map src_service_id xs)" "\<forall>x \<in> set xs. src_source x \<noteq> Source_manual"
  shows "rg_sources (fold (miss_row e th a) xs rg) = bump_rows xs (rg_sources rg) \<and>
    rg_services (fold (miss_row e th a) xs rg) =
      map (\<lambda>s. if svc_id s \<in> src_service_id ` set xs \<and>
                 lost_by_all th (bump_rows xs (rg_sources rg)) (svc_id s)
               then s\<lparr>svc_stale := True\<rparr> else s) (rg_services rg)"
  using assms(2-)
proof (induction xs arbitrary: rg)
  case Nil
  then show ?case by simp
next
  case (Cons x xs)
  let ?rg1 = "miss_row e th a x rg"
  let ?t = "rg_sources rg"
  have x: "x \<in> set ?t" "src_source x \<noteq> Source_manual" using Cons.prems by auto
  have nonneg: "0 \<le> src_missed_passes x" using x(1) Cons.prems(1) by (simp add: reg_ok_def)
  have src1: "rg_sources ?rg1 = bump_rows [x] ?t" by (rule miss_row_sources [OF Cons.prems(1) x(1)])
  have sub: "set xs \<subseteq> set (rg_sources ?rg1)"
  proof
    fix y assume y: "y \<in> set xs"
    have "src_id x \<notin> src_id ` set xs" using Cons.prems(3) by simp
    with y have "src_id y \<noteq> src_id x" by (metis imageI)
    moreover have "y \<in> set ?t" using y Cons.prems(2) by auto
    ultimately show "y \<in> set (rg_sources ?rg1)" unfolding src1 by (force simp: bump_rows_def)
  qed
  have split: "bump_rows xs (bump_rows [x] ?t) = bump_rows (x # xs) ?t"
    using Cons.prems(3) by (auto simp: bump_rows_def)
  have IH: "rg_sources (fold (miss_row e th a) xs ?rg1) = bump_rows (x # xs) ?t"
    "rg_services (fold (miss_row e th a) xs ?rg1) =
      map (\<lambda>s. if svc_id s \<in> src_service_id ` set xs \<and> lost_by_all th (bump_rows (x # xs) ?t) (svc_id s)
               then s\<lparr>svc_stale := True\<rparr> else s) (rg_services ?rg1)"
    using Cons.IH [OF reg_ok_miss_row [OF assms(1) Cons.prems(1) nonneg] sub] Cons.prems
    unfolding src1 split by auto
  have same: "lost_by_all th (bump_rows [x] ?t) (src_service_id x) =
    lost_by_all th (bump_rows (x # xs) ?t) (src_service_id x)"
  proof -
    have "src_id r \<in> src_id ` set xs \<longleftrightarrow> False" if "r \<in> set ?t" "src_service_id r = src_service_id x" for r
    proof -
      have "src_service_id y \<noteq> src_service_id x" if "y \<in> set xs" for y
        using Cons.prems(4) that by (metis distinct.simps(2) imageI list.set_map list.simps(9))
      moreover have "y = r" if "y \<in> set xs" "src_id y = src_id r" for y
        using that Cons.prems(1,2) \<open>r \<in> set ?t\<close>
        by (auto simp: reg_ok_def distinct_map inj_on_def)
      ultimately show ?thesis using that by force
    qed
    then show ?thesis unfolding lost_bump_rows by (intro ball_cong) auto
  qed
  have svc1: "rg_services ?rg1 = put_row svc_id (src_service_id x)
      (\<lambda>s. if lost_by_all th (bump_rows (x # xs) ?t) (src_service_id x)
           then s\<lparr>svc_stale := True\<rparr> else s) (rg_services rg)"
    using miss_row_services [OF Cons.prems(1) x, of th a] unfolding same .
  have "rg_services (fold (miss_row e th a) (x # xs) rg) =
    map (\<lambda>s. if svc_id s \<in> insert (src_service_id x) (src_service_id ` set xs) \<and>
        lost_by_all th (bump_rows (x # xs) ?t) (svc_id s)
      then s\<lparr>svc_stale := True\<rparr> else s) (rg_services rg)"
    unfolding fold_simps comp_apply IH(2) svc1 by (rule map_put_marked) simp_all
  moreover have "insert (src_service_id x) (src_service_id ` set xs) = src_service_id ` set (x # xs)"
    by simp
  ultimately show ?case using IH(1) by (simp only: fold_simps comp_apply simp_thms)
qed

section \<open>The pass\<close>

text \<open>What a pass has established about the services it has seen so far.\<close>

definition seen_ok :: "source_type \<Rightarrow> registry \<Rightarrow> pystr list \<Rightarrow> bool" where
  "seen_ok source rg seen \<longleftrightarrow>
     (\<forall>i \<in> set seen.
        (\<exists>r \<in> set (rg_sources rg). source_key r = (i, source) \<and> src_missed_passes r = 0) \<and>
        (\<forall>s \<in> set (rg_services rg). svc_id s = i \<longrightarrow> \<not> svc_stale s))"

definition stale_from :: "registry \<Rightarrow> registry \<Rightarrow> bool" where
  "stale_from rg rg' \<longleftrightarrow>
     (\<forall>s' \<in> set (rg_services rg'). svc_stale s' \<longrightarrow>
        (\<exists>s \<in> set (rg_services rg). svc_id s = svc_id s' \<and> svc_stale s))"

definition kept :: "registry \<Rightarrow> registry \<Rightarrow> pystr list \<Rightarrow> bool" where
  "kept rg rg' seen \<longleftrightarrow>
     (\<forall>s \<in> set (rg_services rg). svc_id s \<notin> set seen \<longrightarrow> s \<in> set (rg_services rg'))"

lemma stale_from_trans: "stale_from a b \<Longrightarrow> stale_from b c \<Longrightarrow> stale_from a c"
  unfolding stale_from_def by fastforce

definition refreshed :: "discovered \<Rightarrow> instant \<Rightarrow> service_source \<Rightarrow> service_source" where
  "refreshed d now r =
     r\<lparr>src_external_id := d_external_id d, src_raw := d_raw d, src_last_seen_at := Naive now,
       src_missed_passes := 0\<rparr>"

lemma refreshed_fields [simp]:
  "source_key (refreshed d now r) = source_key r" "src_missed_passes (refreshed d now r) = 0"
  by (simp_all add: refreshed_def source_key_def)

lemma upsert_source_Some:
  "get_source i source rg = Some r \<Longrightarrow>
     rg_sources (upsert_source e i source d now rg) =
       map (\<lambda>q. if src_id q = src_id r then refreshed d now q else q) (rg_sources rg)"
  by (simp add: upsert_source_def put_row_def refreshed_def)

lemma upsert_source_row:
  "\<exists>r \<in> set (rg_sources (upsert_source e i source d now rg)).
     source_key r = (i, source) \<and> src_missed_passes r = 0"
proof (cases "get_source i source rg")
  case None
  then show ?thesis by (simp add: upsert_source_def add_source_def source_key_def Let_def)
next
  case (Some r)
  then have "r \<in> set (rg_sources rg)" "source_key r = (i, source)"
    by (auto simp: get_source_def source_key_def dest!: find_memD)
  with upsert_source_Some [OF Some, of e d now] show ?thesis
    by (intro bexI [of _ "refreshed d now r"]) auto
qed

lemma upsert_source_keeps_rows:
  assumes "r \<in> set (rg_sources rg)" "src_missed_passes r = 0"
  shows "\<exists>r' \<in> set (rg_sources (upsert_source e i source d now rg)).
    source_key r' = source_key r \<and> src_missed_passes r' = 0"
proof (cases "get_source i source rg")
  case None
  with assms show ?thesis by (auto simp: upsert_source_def add_source_def Let_def)
next
  case (Some q)
  let ?r = "if src_id r = src_id q then refreshed d now r else r"
  have "?r \<in> set (rg_sources (upsert_source e i source d now rg))"
    using assms(1) by (auto simp: upsert_source_Some [OF Some])
  then show ?thesis using assms(2) by (intro bexI [of _ ?r]) auto
qed

lemma seen_ok_upsert:
  assumes "seen_ok source rg seen" "\<forall>s \<in> set (rg_services rg). svc_id s = i \<longrightarrow> \<not> svc_stale s"
  shows "seen_ok source (upsert_source e i source d now rg) (i # seen)"
proof -
  have "\<exists>r \<in> set (rg_sources (upsert_source e i source d now rg)).
      source_key r = (j, source) \<and> src_missed_passes r = 0" if "j \<in> set seen" for j
    using assms(1) that upsert_source_keeps_rows [of _ rg e i source d now]
    unfolding seen_ok_def by metis
  then show ?thesis
    using assms upsert_source_row [of e i source d now rg] by (auto simp: seen_ok_def)
qed

lemma services_new_item:
  "rg_services (record_change e i f old new a (add_service e s rg)) =
     rg_services rg @ [s\<lparr>svc_id := env_uuid e (rg_drawn rg),
       svc_created_at := Naive (env_clock e (rg_drawn rg)),
       svc_updated_at := Naive (env_clock e (rg_drawn rg))\<rparr>]"
  by (simp add: add_service_def)

lemma sources_merge_into [simp]: "rg_sources (merge_into e a now s d rg) = rg_sources rg"
proof -
  have "rg_sources (change_field e i a u rg) = rg_sources rg" for i u rg
    by (simp add: change_field_def split: option.splits)
  then have "rg_sources (fold (change_field e i a) us rg) = rg_sources rg" for i us
    by (induction us arbitrary: rg) simp_all
  then show ?thesis by (simp add: merge_into_def Let_def set_stale_def)
qed

lemma reconcile_item_seen:
  assumes "reconcile_item e bok rs source a now d p = Some p'" "resolver_ok rs" "env_ok e"
    and ok: "reg_ok e (ps_registry p)" and seen: "seen_ok source (ps_registry p) (ps_seen p)"
  shows "seen_ok source (ps_registry p') (ps_seen p') \<and> stale_from (ps_registry p) (ps_registry p') \<and>
    kept (ps_registry p) (ps_registry p') (ps_seen p') \<and> set (ps_seen p) \<subseteq> set (ps_seen p')"
  using assms(1,2)
proof (cases rule: reconcile_item_cases)
  case (new i rg2)
  have svc: "rg_services rg2 = rg_services (ps_registry p) @
      [(discovered_service (rs_enrich rs d) now d)
         \<lparr>svc_id := i, svc_created_at := Naive (env_clock e (rg_drawn (ps_registry p))),
          svc_updated_at := Naive (env_clock e (rg_drawn (ps_registry p)))\<rparr>]"
    unfolding new(2,3) by (rule services_new_item)
  have fresh: "i \<notin> svc_id ` set (rg_services (ps_registry p))"
  proof -
    have "svc_id ` set (rg_services (ps_registry p)) \<subseteq> drawn_ids e (ps_registry p)"
      using ok by (simp add: reg_ok_def)
    then show ?thesis
      using uuid_fresh [OF assms(3), of "ps_registry p"] unfolding new(2) by (rule contra_subsetD)
  qed
  have src: "rg_sources rg2 = rg_sources (ps_registry p)"
    by (simp add: new(3))
  have "seen_ok source rg2 (ps_seen p)"
    using seen fresh unfolding seen_ok_def svc src by (auto simp: discovered_service_def)
  moreover have "\<forall>s \<in> set (rg_services rg2). svc_id s = i \<longrightarrow> \<not> svc_stale s"
    unfolding svc using fresh by (auto simp: discovered_service_def)
  ultimately have "seen_ok source (upsert_source e i source d now rg2) (i # ps_seen p)"
    by (rule seen_ok_upsert)
  moreover have "stale_from (ps_registry p) rg2"
    unfolding stale_from_def svc by (auto simp: discovered_service_def)
  moreover have "kept (ps_registry p) rg2 (i # ps_seen p)"
    unfolding kept_def svc by auto
  ultimately show ?thesis by (simp add: new(4) stale_from_def kept_def subset_insertI)
next
  case (merge s)
  let ?m = "merge_into e a now s d (ps_registry p)"
  have svc: "rg_services ?m = put_row svc_id (svc_id s) (merged now d) (rg_services (ps_registry p))"
    by (rule services_merge_into [OF ok merge(1)])
  have "seen_ok source ?m (ps_seen p)"
    using seen unfolding seen_ok_def svc
    by (auto simp: put_row_def merged_def updated_def)
  moreover have "\<forall>t \<in> set (rg_services ?m). svc_id t = svc_id s \<longrightarrow> \<not> svc_stale t"
    unfolding svc by (auto simp: put_row_def merged_def)
  ultimately have "seen_ok source (upsert_source e (svc_id s) source d now ?m) (svc_id s # ps_seen p)"
    by (rule seen_ok_upsert)
  moreover have "stale_from (ps_registry p) ?m"
    unfolding stale_from_def svc by (auto simp: put_row_def merged_def split: if_splits)
  moreover have "kept (ps_registry p) ?m (svc_id s # ps_seen p)"
    unfolding kept_def svc by (force simp: put_row_def)
  ultimately show ?thesis by (simp add: merge(2) stale_from_def kept_def subset_insertI)
qed

lemma reconcile_items_seen:
  assumes "reconcile_items e bok rs source a now ds p = Some p'" "resolver_ok rs" "env_ok e"
    and "reg_ok e (ps_registry p)" "seen_ok source (ps_registry p) (ps_seen p)"
  shows "seen_ok source (ps_registry p') (ps_seen p') \<and> stale_from (ps_registry p) (ps_registry p') \<and>
    kept (ps_registry p) (ps_registry p') (ps_seen p') \<and> set (ps_seen p) \<subseteq> set (ps_seen p')"
  using assms
proof (induction ds arbitrary: p)
  case Nil
  then show ?case by (auto simp: stale_from_def kept_def)
next
  case (Cons d ds)
  then obtain q where q: "reconcile_item e bok rs source a now d p = Some q"
    "reconcile_items e bok rs source a now ds q = Some p'"
    by (auto split: option.splits)
  note first = reconcile_item_seen [OF q(1) Cons.prems(2-5)]
  have "reg_ok e (ps_registry q)" using reconcile_item_ok [OF q(1) Cons.prems(2-4)] by blast
  with Cons.IH [OF q(2) Cons.prems(2,3)] first
  have rest: "seen_ok source (ps_registry p') (ps_seen p')"
    "stale_from (ps_registry q) (ps_registry p')"
    "kept (ps_registry q) (ps_registry p') (ps_seen p')" "set (ps_seen q) \<subseteq> set (ps_seen p')"
    by blast+
  from first rest(3,4) have "kept (ps_registry p) (ps_registry p') (ps_seen p')"
    unfolding kept_def by blast
  with first rest show ?case by (blast intro: stale_from_trans)
qed

lemma reconcile_items_counts:
  assumes "reconcile_items e bok rs source a now ds p = Some p'" "resolver_ok rs" "env_ok e"
    and "reg_ok e (ps_registry p)"
  shows "length (rg_services (ps_registry p')) + ps_new p =
      length (rg_services (ps_registry p)) + ps_new p' \<and>
    ps_new p' + ps_changed p' \<le> ps_new p + ps_changed p + length ds"
  using assms
proof (induction ds arbitrary: p)
  case Nil
  then show ?case by simp
next
  case (Cons d ds)
  then obtain q where q: "reconcile_item e bok rs source a now d p = Some q"
    "reconcile_items e bok rs source a now ds q = Some p'"
    by (auto split: option.splits)
  have "length (rg_services (ps_registry q)) + ps_new p =
      length (rg_services (ps_registry p)) + ps_new q \<and>
    ps_new q + ps_changed q \<le> ps_new p + ps_changed p + 1"
    using q(1) Cons.prems(2)
  proof (cases rule: reconcile_item_cases)
    case (new i rg2)
    then show ?thesis by (simp add: add_service_def)
  next
    case (merge s)
    then show ?thesis by (simp add: services_merge_into Cons.prems)
  qed
  with q reconcile_item_ok [OF q(1)] Cons.IH [OF q(2)] Cons.prems show ?case by fastforce
qed

lemma missed_rows_facts:
  assumes "reg_ok e rg" "source \<noteq> Source_manual"
  shows "set (missed_rows source seen rg) \<subseteq> set (rg_sources rg)"
    "distinct (map src_id (missed_rows source seen rg))"
    "distinct (map src_service_id (missed_rows source seen rg))"
    "\<forall>x \<in> set (missed_rows source seen rg). src_source x \<noteq> Source_manual"
proof -
  show "set (missed_rows source seen rg) \<subseteq> set (rg_sources rg)"
    "\<forall>x \<in> set (missed_rows source seen rg). src_source x \<noteq> Source_manual"
    using assms(2) by (auto simp: missed_rows_def)
  show "distinct (map src_id (missed_rows source seen rg))"
    using assms(1) by (simp add: missed_rows_def reg_ok_def distinct_map_filter)
  have "distinct (map source_key (missed_rows source seen rg))"
    using assms(1) by (simp add: missed_rows_def reg_ok_def distinct_map_filter)
  then show "distinct (map src_service_id (missed_rows source seen rg))"
    by (auto simp: distinct_map inj_on_def source_key_def missed_rows_def)
qed

text \<open>A pass in its two stages.\<close>

lemma reconcile_Some:
  assumes "reconcile e bok rs source ds th now rg = Some (rg', c)"
  obtains p where
    "reconcile_items e bok rs source (''discovery:'' @ source_type_value source) now ds
       \<lparr>ps_registry = rg, ps_new = 0, ps_changed = 0, ps_seen = []\<rparr> = Some p"
    "rg' = fold (miss_row e th (''discovery:'' @ source_type_value source))
       (missed_rows source (ps_seen p) (ps_registry p)) (ps_registry p)"
    "c = \<lparr>pc_seen = length ds, pc_new = ps_new p, pc_changed = ps_changed p,
      pc_missing = length (missed_rows source (ps_seen p) (ps_registry p))\<rparr>"
  using assms by (auto simp: reconcile_def mark_stale_def Let_def split: option.splits)

lemma follows_miss_row: "follows a rg (miss_row e th a row rg)"
proof -
  have "follows a rg (set_stale e i a True (put_source j f rg))" for i j f
    by (rule follows_trans [OF follows_put_source follows_set_stale])
  then show ?thesis by (simp add: miss_row_def Let_def split: option.splits)
qed

lemma reconcile_ok:
  assumes "reconcile e bok rs source ds th now rg = Some (rg', c)"
    and "env_ok e" "resolver_ok rs" "reg_ok e rg"
  shows "reg_ok e rg' \<and> follows (''discovery:'' @ source_type_value source) rg rg'"
proof -
  let ?a = "''discovery:'' @ source_type_value source"
  from assms(1) obtain p where p: "reconcile_items e bok rs source ?a now ds
       \<lparr>ps_registry = rg, ps_new = 0, ps_changed = 0, ps_seen = []\<rparr> = Some p"
    and rg': "rg' = fold (miss_row e th ?a) (missed_rows source (ps_seen p) (ps_registry p)) (ps_registry p)"
    by (rule reconcile_Some)
  have ok: "reg_ok e (ps_registry p)" "follows ?a rg (ps_registry p)"
    using reconcile_items_ok [OF p assms(3,2)] assms(4) by simp_all
  have "\<forall>x \<in> set (missed_rows source (ps_seen p) (ps_registry p)). 0 \<le> src_missed_passes x"
    using ok(1) by (auto simp: reg_ok_def missed_rows_def)
  then have "reg_ok e rg'" unfolding rg' by (rule reg_ok_miss_rows [OF assms(2) ok(1)])
  moreover have "follows ?a (ps_registry p) rg'"
    unfolding rg' by (rule follows_fold [where P = "\<lambda>_. True"]) (simp_all add: follows_miss_row list_all_iff)
  ultimately show ?thesis using ok(2) by (blast intro: follows_trans)
qed

text \<open>
  The tables after a pass in terms of the registry \<open>q\<close> after its items and the ids seen.
\<close>

lemma reconcile_stages:
  assumes "reconcile e bok rs source ds th now rg = Some (rg', c)"
    and "env_ok e" "resolver_ok rs" "reg_ok e rg" "source \<noteq> Source_manual"
  obtains q seen where
    "reg_ok e q" "seen_ok source q seen" "stale_from rg q" "kept rg q seen"
    "rg_sources rg' = bump_rows (missed_rows source seen q) (rg_sources q)"
    "rg_services rg' = map (\<lambda>s. if svc_id s \<in> src_service_id ` set (missed_rows source seen q) \<and>
        lost_by_all th (rg_sources rg') (svc_id s)
      then s\<lparr>svc_stale := True\<rparr> else s) (rg_services q)"
proof -
  let ?a = "''discovery:'' @ source_type_value source"
  from assms(1) obtain p where p: "reconcile_items e bok rs source ?a now ds
       \<lparr>ps_registry = rg, ps_new = 0, ps_changed = 0, ps_seen = []\<rparr> = Some p"
    and rg': "rg' = fold (miss_row e th ?a) (missed_rows source (ps_seen p) (ps_registry p)) (ps_registry p)"
    by (rule reconcile_Some)
  have ok: "reg_ok e (ps_registry p)" using reconcile_items_ok [OF p assms(3,2)] assms(4) by simp
  have seen: "seen_ok source (ps_registry p) (ps_seen p)" "stale_from rg (ps_registry p)"
    "kept rg (ps_registry p) (ps_seen p)"
    using reconcile_items_seen [OF p assms(3,2)] assms(4) by (simp_all add: seen_ok_def)
  have "rg_sources rg' = bump_rows (missed_rows source (ps_seen p) (ps_registry p)) (rg_sources (ps_registry p))"
    and "rg_services rg' = map (\<lambda>s. if svc_id s \<in> src_service_id ` set (missed_rows source (ps_seen p) (ps_registry p)) \<and>
        lost_by_all th (bump_rows (missed_rows source (ps_seen p) (ps_registry p)) (rg_sources (ps_registry p))) (svc_id s)
        then s\<lparr>svc_stale := True\<rparr> else s) (rg_services (ps_registry p))"
    using miss_rows_tables [OF assms(2) ok missed_rows_facts [OF ok assms(5), of "ps_seen p"]]
    unfolding rg' by blast+
  then show ?thesis by (intro that [OF ok seen]) (simp_all only:)
qed

text \<open>A provenance row of the pass's source has missed no pass exactly when its service was seen.\<close>

lemma missed_zero_iff:
  assumes "reg_ok e q" "seen_ok source q seen"
    and "r \<in> set (bump_rows (missed_rows source seen q) (rg_sources q))" "src_source r = source"
  shows "src_missed_passes r = 0 \<longleftrightarrow> src_service_id r \<in> set seen"
    and "src_missed_passes r \<noteq> 0 \<Longrightarrow> src_service_id r \<in> src_service_id ` set (missed_rows source seen q)"
proof -
  let ?xs = "missed_rows source seen q"
  obtain r0 where r0: "r0 \<in> set (rg_sources q)" "source_key r0 = source_key r"
    "src_missed_passes r = src_missed_passes r0 + (if src_id r0 \<in> src_id ` set ?xs then 1 else 0)"
    using assms(3) by (auto simp: bump_rows_def split: if_splits)
  have ids: "y = r0" if "y \<in> set (rg_sources q)" "src_id y = src_id r0" for y
    by (rule reg_ok_unique(2) [OF assms(1) that(1) r0(1) that(2)])
  have keys: "y = r0" if "y \<in> set (rg_sources q)" "source_key y = source_key r0" for y
    by (rule reg_ok_unique(3) [OF assms(1) that(1) r0(1) that(2)])
  have key: "src_service_id r0 = src_service_id r" "src_source r0 = source"
    using r0(2) assms(4) by (simp_all add: source_key_def)
  have in_xs: "src_id r0 \<in> src_id ` set ?xs \<longleftrightarrow> src_service_id r \<notin> set seen"
  proof
    assume "src_id r0 \<in> src_id ` set ?xs"
    then obtain y where y: "y \<in> set ?xs" "src_id y = src_id r0" by auto
    then have "y = r0" by (intro ids) (simp_all add: missed_rows_def)
    with y(1) key show "src_service_id r \<notin> set seen" by (simp add: missed_rows_def)
  next
    assume "src_service_id r \<notin> set seen"
    then have "r0 \<in> set ?xs" using r0(1) key by (simp add: missed_rows_def)
    then show "src_id r0 \<in> src_id ` set ?xs" by blast
  qed
  have "0 \<le> src_missed_passes r0" using assms(1) r0(1) by (simp add: reg_ok_def)
  moreover have "src_missed_passes r0 = 0" if seen: "src_service_id r \<in> set seen"
  proof -
    from seen assms(2) obtain y where "y \<in> set (rg_sources q)"
      "source_key y = (src_service_id r, source)" "src_missed_passes y = 0"
      by (auto simp: seen_ok_def)
    with keys [of y] key show ?thesis by (simp add: source_key_def)
  qed
  ultimately show iff: "src_missed_passes r = 0 \<longleftrightarrow> src_service_id r \<in> set seen"
    using r0(3) in_xs by (cases "src_service_id r \<in> set seen") simp_all
  show "src_service_id r \<in> src_service_id ` set ?xs" if "src_missed_passes r \<noteq> 0"
    using that iff r0(1) key by (auto simp: missed_rows_def intro: rev_image_eqI)
qed

end
