(* ===== verification/RegistryProps.thy ===== *)
theory RegistryProps
  imports Reconciliation
begin

text \<open>
  The registry as a machine (any sequence of its operations) and its properties.
\<close>

section \<open>Runs\<close>

datatype registry_op =
    Op_create service pystr
  | Op_update pystr "field_update list" pystr
  | Op_delete pystr pystr
  | Op_reconcile reasoning source_type "discovered list" int instant
  | Op_discovery source_type instant instant discovery_status pass_counts "pystr option"
  | Op_purge instant int

fun registry_step :: "env \<Rightarrow> (pystr \<Rightarrow> bool) \<Rightarrow> registry_op \<Rightarrow> registry \<Rightarrow> registry" where
  "registry_step e bok (Op_create s a) rg = fst (create_service e s a rg)"
| "registry_step e bok (Op_update i us a) rg = fst (update_service e i us a rg)"
| "registry_step e bok (Op_delete i a) rg = fst (delete_service e i a rg)"
| "registry_step e bok (Op_reconcile rs src ds th now) rg =
     (case reconcile e bok rs src ds th now rg of None \<Rightarrow> rg | Some (rg', c) \<Rightarrow> rg')"
| "registry_step e bok (Op_discovery src t u st c err) rg =
     record_discovery_event e src t u st c err rg"
| "registry_step e bok (Op_purge now n) rg = fst (purge_old_events now n rg)"

definition registry_run :: "env \<Rightarrow> (pystr \<Rightarrow> bool) \<Rightarrow> registry_op list \<Rightarrow> registry" where
  "registry_run e bok ops = fold (registry_step e bok) ops empty_registry"

fun op_ok :: "registry_op \<Rightarrow> bool" where
  "op_ok (Op_reconcile rs src ds th now) = resolver_ok rs"
| "op_ok x = True"

section \<open>Lemmas\<close>

lemma reg_ok_update_step:
  "env_ok e \<Longrightarrow> reg_ok e rg \<Longrightarrow> reg_ok e (update_step e i a u rg)"
  by (auto simp: update_step_def intro!: reg_ok_put_service split: option.splits)

lemma reg_ok_update_service:
  assumes "env_ok e" "reg_ok e rg"
  shows "reg_ok e (fst (update_service e i us a rg))"
proof -
  have "reg_ok e (put_service i f (fold (update_step e i a) us rg))"
    if "\<And>s. svc_id (f s) = svc_id s" "\<And>s. svc_name (f s) = svc_name s" for f
    using assms that by (intro reg_ok_put_service reg_ok_fold) (simp_all add: reg_ok_update_step)
  then show ?thesis
    using assms by (simp add: update_service_def Let_def split: option.splits)
qed

lemma reg_ok_create_service:
  assumes "env_ok e" "reg_ok e rg"
  shows "reg_ok e (fst (create_service e s a rg))"
proof (cases "svc_name s \<in> svc_name ` set (rg_services rg)")
  case True
  with assms show ?thesis by (simp add: create_service_def)
next
  case False
  let ?i = "env_uuid e (rg_drawn rg)"
  let ?rg1 = "add_service e s rg"
  have ok1: "reg_ok e ?rg1" by (rule reg_ok_add_service [OF assms False])
  have ids: "svc_id ` set (rg_services rg) \<subseteq> drawn_ids e rg"
    "src_service_id ` set (rg_sources rg) \<subseteq> svc_id ` set (rg_services rg)"
    using assms(2) by (simp_all add: reg_ok_def)
  have "?i \<notin> src_service_id ` set (rg_sources rg)"
    using ids uuid_fresh [OF assms(1), of rg] by blast
  then have "(?i, Source_manual) \<notin> source_key ` set (rg_sources ?rg1)"
    by (force simp: source_key_def)
  then have "reg_ok e (add_source e ?i Source_manual (svc_name s) (JObj []) None ?rg1)"
    by (intro reg_ok_add_source [OF assms(1) ok1]) (simp_all add: add_service_def)
  with False show ?thesis
    using assms(1) by (auto simp: create_service_def Let_def)
qed

lemma distinct_map_drop: "distinct (map f t) \<Longrightarrow> distinct (map f (drop_rows p t))"
  by (simp add: drop_rows_def distinct_map_filter)

lemma reg_ok_shrink:
  assumes "reg_ok e rg" "rg_services rg' = drop_rows p (rg_services rg)"
    and "rg_sources rg' = drop_rows p' (rg_sources rg)" "rg_changes rg' = drop_rows p'' (rg_changes rg)"
    and "rg_drawn rg' = rg_drawn rg"
    and "src_service_id ` set (rg_sources rg') \<subseteq> svc_id ` set (rg_services rg')"
  shows "reg_ok e rg'"
  using assms(1) assms(6) drawn_ids_cong [OF assms(5), of e]
  unfolding reg_ok_def assms(2-4) by (auto simp: distinct_map_filter drop_rows_def)

lemma drop_rows_False [simp]: "drop_rows (\<lambda>r. False) t = t"
  by (simp add: drop_rows_def)

lemma reg_ok_delete_service:
  assumes "env_ok e" "reg_ok e rg"
  shows "reg_ok e (fst (delete_service e i a rg))"
proof (cases "get_row svc_id (rg_services rg) i")
  case None
  with assms show ?thesis by (simp add: delete_service_def)
next
  case (Some s)
  let ?rg1 = "rg\<lparr>rg_sources := drop_rows (\<lambda>r. src_service_id r = i) (rg_sources rg),
      rg_services := drop_rows (\<lambda>s. svc_id s = i) (rg_services rg)\<rparr>"
  have "src_service_id ` set (rg_sources ?rg1) \<subseteq> svc_id ` set (rg_services ?rg1)"
  proof
    fix k assume "k \<in> src_service_id ` set (rg_sources ?rg1)"
    then obtain r where r: "r \<in> set (rg_sources rg)" "k = src_service_id r" "k \<noteq> i"
      by (auto simp: drop_rows_def)
    then have "k \<in> svc_id ` set (rg_services rg)" using reg_okD(5) [OF assms(2)] by blast
    with r(3) show "k \<in> svc_id ` set (rg_services ?rg1)" by (auto simp: drop_rows_def)
  qed
  then have "reg_ok e ?rg1"
    by (intro reg_ok_shrink [OF assms(2), where p'' = "\<lambda>_. False"]) simp_all
  then have "reg_ok e (record_change e i FIELD_DELETED (Some (svc_name s)) None a ?rg1)"
    using assms(1) by blast
  moreover have "fst (delete_service e i a rg) =
      record_change e i FIELD_DELETED (Some (svc_name s)) None a ?rg1"
    using Some by (cases rg) (simp add: delete_service_def Let_def record_change_def)
  ultimately show ?thesis by simp
qed

lemma reg_ok_step:
  assumes "env_ok e" "op_ok x" "reg_ok e rg"
  shows "reg_ok e (registry_step e bok x rg)"
proof (cases x)
  case (Op_reconcile rs src ds th now)
  with assms reconcile_ok show ?thesis by (fastforce split: option.splits)
next
  case (Op_discovery src t u st c err)
  have "drawn_ids e (record_discovery_event e src t u st c err rg) =
    insert (env_uuid e (rg_drawn rg)) (drawn_ids e rg)"
    by (rule drawn_ids_Suc) (simp add: record_discovery_event_def)
  with assms(3) Op_discovery show ?thesis
    by (auto simp: reg_ok_def record_discovery_event_def)
next
  case (Op_purge now n)
  have "reg_ok e (fst (purge_old_events now n rg))"
    using reg_okD(5) [OF assms(3)]
    by (intro reg_ok_shrink [OF assms(3), where p = "\<lambda>_. False" and p' = "\<lambda>_. False"
          and p'' = "\<lambda>c. instant_of (ce_created_at c) < now - days n"])
       (simp_all add: purge_old_events_def Let_def)
  with Op_purge show ?thesis by simp
qed (use assms in \<open>simp_all add: reg_ok_create_service reg_ok_update_service reg_ok_delete_service\<close>)

lemma reg_ok_run:
  assumes "env_ok e" "list_all op_ok ops"
  shows "reg_ok e (registry_run e bok ops)"
proof -
  have "reg_ok e rg \<Longrightarrow> reg_ok e (fold (registry_step e bok) ops rg)" for rg
    using assms(2) by (induction ops arbitrary: rg) (simp_all add: reg_ok_step assms(1))
  then show ?thesis by (simp add: registry_run_def)
qed

lemma list_all2_memD: "list_all2 P xs ys \<Longrightarrow> x \<in> set xs \<Longrightarrow> \<exists>y \<in> set ys. P x y"
  by (induction rule: list_all2_induct) auto

text \<open>The entries of an update that change the service, in order.\<close>

fun effective :: "field_update list \<Rightarrow> service \<Rightarrow> field_update list" where
  "effective [] s = []"
| "effective (u # us) s =
     (if \<not> is_mutable u \<or> apply_update u s = s then effective us s
      else u # effective us (apply_update u s))"

lemma not_mutable_same: "\<not> is_mutable u \<Longrightarrow> apply_update u s = s"
  by (cases u) simp_all

lemma services_update_step:
  assumes "distinct (map svc_id (rg_services rg))"
  shows "rg_services (update_step e i a u rg) = put_row svc_id i (apply_update u) (rg_services rg)"
proof (cases "get_row svc_id (rg_services rg) i")
  case None
  then show ?thesis by (simp add: update_step_def get_row_None_put)
next
  case (Some s)
  show ?thesis
  proof (cases "\<not> is_mutable u \<or> apply_update u s = s")
    case True
    then have same: "apply_update u s = s" using not_mutable_same by blast
    have "apply_update u t = t" if "t \<in> set (rg_services rg)" "svc_id t = i" for t
    proof -
      have "t = s" using get_row_unique [OF assms that(1)] Some that(2) by simp
      with same show ?thesis by simp
    qed
    then have "put_row svc_id i (apply_update u) (rg_services rg) = put_row svc_id i (\<lambda>t. t) (rg_services rg)"
      by (intro put_row_cong) simp
    with True Some show ?thesis by (simp add: update_step_def put_row_id)
  next
    case False
    with Some show ?thesis by (simp add: update_step_def)
  qed
qed

lemma services_update_fold:
  assumes "distinct (map svc_id (rg_services rg))"
  shows "rg_services (fold (update_step e i a) us rg) =
    put_row svc_id i (apply_updates us) (rg_services rg)"
  using assms
proof (induction us arbitrary: rg)
  case Nil
  then show ?case by (simp add: apply_updates_def put_row_id)
next
  case (Cons u us)
  have "distinct (map svc_id (rg_services (update_step e i a u rg)))"
    using Cons.prems by (simp add: services_update_step put_row_keys)
  with Cons show ?case by (simp add: services_update_step put_row_put_row apply_updates_def)
qed

lemma sources_update_fold [simp]: "rg_sources (fold (update_step e i a) us rg) = rg_sources rg"
proof (induction us arbitrary: rg)
  case Nil
  then show ?case by simp
next
  case (Cons u us)
  have "rg_sources (update_step e i a u rg) = rg_sources rg"
    by (simp add: update_step_def split: option.splits)
  with Cons show ?case by simp
qed

lemma changes_update_fold:
  assumes "get_row svc_id (rg_services rg) i = Some s" "distinct (map svc_id (rg_services rg))"
  shows "\<exists>cs. rg_changes (fold (update_step e i a) us rg) = rg_changes rg @ cs \<and>
    map ce_field cs = map update_name (effective us s) \<and>
    list_all (\<lambda>c. ce_service_id c = Some i \<and> ce_actor c = a) cs"
  using assms
proof (induction us arbitrary: rg s)
  case Nil
  then show ?case by simp
next
  case (Cons u us)
  let ?rg1 = "update_step e i a u rg"
  have get1: "get_row svc_id (rg_services ?rg1) i = Some (apply_update u s)"
    using Cons.prems by (simp add: services_update_step get_row_put_row)
  have "distinct (map svc_id (rg_services ?rg1))"
    using Cons.prems by (simp add: services_update_step put_row_keys)
  from Cons.IH [OF get1 this] obtain cs where cs:
    "rg_changes (fold (update_step e i a) us ?rg1) = rg_changes ?rg1 @ cs"
    "map ce_field cs = map update_name (effective us (apply_update u s))"
    "list_all (\<lambda>c. ce_service_id c = Some i \<and> ce_actor c = a) cs" by blast
  show ?case
  proof (cases "\<not> is_mutable u \<or> apply_update u s = s")
    case True
    then have "apply_update u s = s" using not_mutable_same by blast
    moreover have "?rg1 = rg" using True Cons.prems(1) by (simp add: update_step_def)
    ultimately show ?thesis using cs by auto
  next
    case False
    then have "rg_changes ?rg1 = rg_changes rg @
      [\<lparr>ce_id = env_uuid e (rg_drawn rg), ce_service_id = Some i, ce_field = update_name u,
        ce_old = field_text u s, ce_new = field_text u (apply_update u s), ce_actor = a,
        ce_created_at = Naive (env_clock e (rg_drawn rg))\<rparr>]"
      using Cons.prems(1) by (simp add: update_step_def record_change_def put_service_def)
    with False cs show ?thesis by auto
  qed
qed

lemma length_unseen_bump:
  "length (filter (\<lambda>r. src_source r = source \<and> src_service_id r \<notin> S) (bump_rows xs t)) =
     length (filter (\<lambda>r. src_source r = source \<and> src_service_id r \<notin> S) t)"
  by (induction t) (auto simp: bump_rows_def)

section \<open>Properties\<close>

text \<open>
  C8: After any sequence of registry operations (creates, updates, deletes, discovery passes
  from any source with any reasoning answers, purges), service ids and names are unique,
  every provenance row belongs to an existing service, and a service has at most one row
  per source.
\<close>
theorem registry_invariant:
  assumes "inj (env_uuid e)" "list_all op_ok ops"
  shows "distinct (map svc_id (rg_services (registry_run e bok ops))) \<and>
    distinct (map svc_name (rg_services (registry_run e bok ops))) \<and>
    (\<forall>r \<in> set (rg_sources (registry_run e bok ops)).
       \<exists>s \<in> set (rg_services (registry_run e bok ops)). svc_id s = src_service_id r) \<and>
    distinct (map (\<lambda>r. (src_service_id r, src_source r)) (rg_sources (registry_run e bok ops)))"
proof -
  have "reg_ok e (registry_run e bok ops)"
    using assms by (intro reg_ok_run) (simp_all add: env_ok_def)
  moreover have "source_key = (\<lambda>r. (src_service_id r, src_source r))"
    by (rule ext) (simp add: source_key_def)
  ultimately show ?thesis unfolding reg_ok_def by fastforce
qed

text \<open>
  C26: A discovery pass only enriches: every registered service is still there with its name,
  display name, category, tags, notes, hardware link and creation time untouched, a slug linked by
  hand is kept, and the change log only grows, with entries made by this pass.
\<close>
theorem reconcile_only_enriches:
  assumes "inj (env_uuid e)" "resolver_ok rs" "reg_ok e rg" "s \<in> set (rg_services rg)"
    and "reconcile e bok rs source ds th now rg = Some (rg', c)"
  shows "(\<exists>s' \<in> set (rg_services rg'). svc_id s' = svc_id s \<and> svc_name s' = svc_name s \<and>
      svc_display_name s' = svc_display_name s \<and> svc_category s' = svc_category s \<and>
      svc_tags s' = svc_tags s \<and> svc_notes s' = svc_notes s \<and>
      svc_hardware_node_id s' = svc_hardware_node_id s \<and> svc_manual s' = svc_manual s \<and>
      svc_created_at s' = svc_created_at s \<and>
      (svc_authentik_link_manual s \<longrightarrow>
         svc_authentik_link_manual s' \<and> svc_authentik_app_slug s' = svc_authentik_app_slug s)) \<and>
    (\<exists>cs. rg_changes rg' = rg_changes rg @ cs \<and>
       (\<forall>x \<in> set cs. ce_actor x = ''discovery:'' @ source_type_value source))"
proof -
  have f: "follows (''discovery:'' @ source_type_value source) rg rg'"
    using reconcile_ok [OF assms(5)] assms(1-3) by (simp add: env_ok_def)
  then obtain ss new where "rg_services rg' = ss @ new"
    "list_all2 service_follows (rg_services rg) ss" by (auto simp: follows_def)
  with assms(4) obtain s' where "s' \<in> set (rg_services rg')" "service_follows s s'"
    by (auto dest: list_all2_memD)
  with f show ?thesis
    unfolding follows_def service_follows_def curated_def list_all_iff by blast
qed

text \<open>
  C3: Staleness after a discovery pass, exactly. For a service this source reports: when the
  pass saw it (its row has missed no pass) it is not stale; when the pass did not see it, it
  is stale if it already was, or if every discovery source that ever reported it has missed
  at least the threshold, and in no other case.
\<close>
theorem reconcile_staleness:
  assumes "inj (env_uuid e)" "resolver_ok rs" "reg_ok e rg" "source \<noteq> Source_manual"
    and "reconcile e bok rs source ds th now rg = Some (rg', c)" "s' \<in> set (rg_services rg')"
    and "r \<in> set (rg_sources rg')" "src_service_id r = svc_id s'" "src_source r = source"
  shows "svc_stale s' \<longleftrightarrow> src_missed_passes r \<noteq> 0 \<and>
      ((\<exists>s \<in> set (rg_services rg). svc_id s = svc_id s' \<and> svc_stale s) \<or>
       (\<forall>q \<in> set (rg_sources rg'). src_service_id q = svc_id s' \<and> src_source q \<noteq> Source_manual \<longrightarrow>
          th \<le> src_missed_passes q))"
proof -
  have e: "env_ok e" using assms(1) by (simp add: env_ok_def)
  obtain q seen where q: "reg_ok e q" "seen_ok source q seen" "stale_from rg q" "kept rg q seen"
    and src: "rg_sources rg' = bump_rows (missed_rows source seen q) (rg_sources q)"
    and svc: "rg_services rg' = map (\<lambda>s. if svc_id s \<in> src_service_id ` set (missed_rows source seen q) \<and>
        lost_by_all th (rg_sources rg') (svc_id s)
      then s\<lparr>svc_stale := True\<rparr> else s) (rg_services q)"
    by (rule reconcile_stages [OF assms(5) e assms(2-4)])
  obtain s where s: "s \<in> set (rg_services q)" "svc_id s = svc_id s'"
    "svc_stale s' \<longleftrightarrow> svc_stale s \<or> (svc_id s' \<in> src_service_id ` set (missed_rows source seen q) \<and>
       lost_by_all th (rg_sources rg') (svc_id s'))"
    using assms(6) unfolding svc by (auto split: if_splits)
  note zero = missed_zero_iff [OF q(1,2) assms(7) [unfolded src] assms(9), unfolded assms(8)]
  show ?thesis
  proof (cases "src_missed_passes r = 0")
    case True
    then have "svc_id s' \<in> set seen" using zero(1) by simp
    moreover from this have "\<not> svc_stale s" using q(2) s(1,2) by (auto simp: seen_ok_def)
    ultimately show ?thesis using True s(3) by (auto simp: missed_rows_def)
  next
    case False
    then have unseen: "svc_id s' \<notin> set seen" using zero(1) by simp
    have "svc_stale s \<longleftrightarrow> (\<exists>t \<in> set (rg_services rg). svc_id t = svc_id s' \<and> svc_stale t)"
    proof
      assume "svc_stale s"
      with q(3) s(1) have "\<exists>t \<in> set (rg_services rg). svc_id t = svc_id s \<and> svc_stale t"
        unfolding stale_from_def by blast
      then show "\<exists>t \<in> set (rg_services rg). svc_id t = svc_id s' \<and> svc_stale t" by (simp only: s(2))
    next
      assume "\<exists>t \<in> set (rg_services rg). svc_id t = svc_id s' \<and> svc_stale t"
      then obtain t where t: "t \<in> set (rg_services rg)" "svc_id t = svc_id s'" "svc_stale t" by blast
      with q(4) unseen have "t \<in> set (rg_services q)" by (simp add: kept_def)
      with t s(1,2) reg_ok_unique(1) [OF q(1), of t s] show "svc_stale s" by simp
    qed
    with False s(3) zero(2) show ?thesis by (simp add: lost_by_all_def)
  qed
qed

text \<open>
  The counts a pass reports are true: it saw every item, it created as many services as
  the registry grew by, no item is counted twice as new or changed, and the missing count is
  the number of this source's provenance rows that the pass did not refresh.
\<close>
theorem reconcile_counts:
  assumes "inj (env_uuid e)" "resolver_ok rs" "reg_ok e rg" "source \<noteq> Source_manual"
    and "reconcile e bok rs source ds th now rg = Some (rg', c)"
  shows "pc_seen c = length ds \<and>
    length (rg_services rg') = length (rg_services rg) + pc_new c \<and>
    pc_new c + pc_changed c \<le> length ds \<and>
    pc_missing c =
      length (filter (\<lambda>r. src_source r = source \<and> src_missed_passes r \<noteq> 0) (rg_sources rg'))"
proof -
  let ?a = "''discovery:'' @ source_type_value source"
  have e: "env_ok e" using assms(1) by (simp add: env_ok_def)
  from assms(5) obtain p where p: "reconcile_items e bok rs source ?a now ds
       \<lparr>ps_registry = rg, ps_new = 0, ps_changed = 0, ps_seen = []\<rparr> = Some p"
    and rg': "rg' = fold (miss_row e th ?a) (missed_rows source (ps_seen p) (ps_registry p)) (ps_registry p)"
    and c: "c = \<lparr>pc_seen = length ds, pc_new = ps_new p, pc_changed = ps_changed p,
      pc_missing = length (missed_rows source (ps_seen p) (ps_registry p))\<rparr>"
    by (rule reconcile_Some)
  let ?q = "ps_registry p" and ?xs = "missed_rows source (ps_seen p) (ps_registry p)"
  have ok: "reg_ok e ?q" using reconcile_items_ok [OF p assms(2) e] assms(3) by simp
  have seen: "seen_ok source ?q (ps_seen p)"
    using reconcile_items_seen [OF p assms(2) e] assms(3) by (simp add: seen_ok_def)
  note tables = miss_rows_tables [OF e ok missed_rows_facts [OF ok assms(4), of "ps_seen p"]]
  have src: "rg_sources rg' = bump_rows ?xs (rg_sources ?q)" using tables unfolding rg' by blast
  have len: "length (rg_services rg') = length (rg_services ?q)" using tables unfolding rg' by simp
  have "filter (\<lambda>r. src_source r = source \<and> src_missed_passes r \<noteq> 0) (rg_sources rg') =
    filter (\<lambda>r. src_source r = source \<and> src_service_id r \<notin> set (ps_seen p)) (rg_sources rg')"
    using missed_zero_iff(1) [OF ok seen] unfolding src by (intro filter_cong) auto
  also have "length \<dots> = length ?xs"
    unfolding src length_unseen_bump by (simp add: missed_rows_def)
  finally show ?thesis
    using reconcile_items_counts [OF p assms(2) e] assms(3) len by (simp add: c)
qed

text \<open>
  Editing a service: \<open>update_service\<close> writes exactly the given values of mutable fields to
  that one service (never its id, name or provenance rows), leaves every other service alone, and
  logs exactly one change, naming the field, for each entry that changed something.
\<close>
theorem update_service_exact:
  assumes "distinct (map svc_id (rg_services rg))" "get_row svc_id (rg_services rg) i = Some s"
    and "update_service e i us a rg = (rg', result)"
  shows "(\<exists>t. result = Some ((apply_updates us s)\<lparr>svc_updated_at := t\<rparr>)) \<and>
    get_row svc_id (rg_services rg') i = result \<and>
    (\<forall>j. j \<noteq> i \<longrightarrow> get_row svc_id (rg_services rg') j = get_row svc_id (rg_services rg) j) \<and>
    rg_sources rg' = rg_sources rg \<and>
    (\<exists>cs. rg_changes rg' = rg_changes rg @ cs \<and>
       map ce_field cs = map update_name (effective us s))"
  using assms changes_update_fold [OF assms(2,1), of e a us]
  by (auto simp: update_service_def Let_def services_update_fold [OF assms(1)] get_row_put_row
      put_service_def)

text \<open>
  The life of a service: a create under a taken name is refused and changes nothing; a
  created service is found by its id with a manual provenance row; a deleted one is found no
  more, its provenance rows are gone with it, every other service is kept, and its name is
  free again.
\<close>
theorem service_lifecycle:
  assumes "inj (env_uuid e)" "reg_ok e rg"
  shows "(svc_name s \<in> svc_name ` set (rg_services rg) \<longrightarrow>
      create_service e s a rg = (rg, Inl (Duplicate_service (svc_name s)))) \<and>
    (svc_name s \<notin> svc_name ` set (rg_services rg) \<longrightarrow>
      (\<exists>rg' s'. create_service e s a rg = (rg', Inr s') \<and> svc_name s' = svc_name s \<and>
         get_service (svc_id s') rg' = Some s' \<and>
         get_source (svc_id s') Source_manual rg' \<noteq> None)) \<and>
    (\<forall>t. get_row svc_id (rg_services rg) i = Some t \<longrightarrow>
      (\<exists>rg'. delete_service e i a rg = (rg', True) \<and>
         set (rg_services rg') = set (rg_services rg) - {t} \<and>
         i \<notin> src_service_id ` set (rg_sources rg') \<and>
         svc_name t \<notin> svc_name ` set (rg_services rg')))"
proof (intro conjI impI allI)
  assume "svc_name s \<in> svc_name ` set (rg_services rg)"
  then show "create_service e s a rg = (rg, Inl (Duplicate_service (svc_name s)))"
    by (simp add: create_service_def)
next
  have e: "env_ok e" using assms(1) by (simp add: env_ok_def)
  assume new: "svc_name s \<notin> svc_name ` set (rg_services rg)"
  have "env_uuid e (rg_drawn rg) \<notin> svc_id ` set (rg_services rg)"
    using uuid_fresh [OF e, of rg] reg_okD(6) [OF assms(2)] by blast
  then have "get_row svc_id (rg_services rg) (env_uuid e (rg_drawn rg)) = None"
    by (simp add: get_row_None_iff)
  with new show "\<exists>rg' s'. create_service e s a rg = (rg', Inr s') \<and> svc_name s' = svc_name s \<and>
         get_service (svc_id s') rg' = Some s' \<and> get_source (svc_id s') Source_manual rg' \<noteq> None"
    by (simp add: create_service_def Let_def add_service_def add_source_def record_change_def
        get_service_def get_source_def find_append split: option.splits)
next
  fix t assume t: "get_row svc_id (rg_services rg) i = Some t"
  then have mem: "t \<in> set (rg_services rg)" "svc_id t = i" by (auto dest: get_row_SomeD)
  let ?S = "drop_rows (\<lambda>s. svc_id s = i) (rg_services rg)"
  have "s = t" if "s \<in> set (rg_services rg)" "svc_id s = i" for s
    using reg_ok_unique(1) [OF assms(2) that(1) mem(1)] that(2) mem(2) by simp
  then have S: "set ?S = set (rg_services rg) - {t}"
    using mem(2) unfolding drop_rows_def by fastforce
  moreover have "svc_name t \<notin> svc_name ` set ?S"
  proof
    assume "svc_name t \<in> svc_name ` set ?S"
    then obtain s where "s \<in> set (rg_services rg) - {t}" "svc_name t = svc_name s"
      unfolding S by blast
    with distinct_map_unique [OF reg_okD(2) [OF assms(2)] mem(1), of s] show False by simp
  qed
  moreover have "i \<notin> src_service_id ` set (drop_rows (\<lambda>r. src_service_id r = i) (rg_sources rg))"
    by (auto simp: drop_rows_def)
  ultimately show "\<exists>rg'. delete_service e i a rg = (rg', True) \<and>
         set (rg_services rg') = set (rg_services rg) - {t} \<and>
         i \<notin> src_service_id ` set (rg_sources rg') \<and> svc_name t \<notin> svc_name ` set (rg_services rg')"
    using t by (simp add: delete_service_def Let_def record_change_def)
qed

end
