(* ===== verification/Rescan.thy ===== *)
theory Rescan
  imports RegistryProps
begin

text \<open>
  A second discovery pass with the same observation: the item matches the same service
  again and changes nothing. Also the concrete registry the witnesses are evaluated on.
\<close>

section \<open>Matching again\<close>

lemma hosts_of_iff:
  "hosts_of bok us \<noteq> None \<longleftrightarrow> (\<forall>u \<in> set us. url_hostname bok (url_for_host u) \<noteq> None)"
  by (induction us) (auto split: option.splits)

lemma hosts_of_set:
  "hosts_of bok us = Some hs \<Longrightarrow>
     set hs = {lower x | x u. u \<in> set us \<and> url_hostname bok (url_for_host u) = Some (Some x)}"
proof (induction us arbitrary: hs)
  case Nil
  then show ?case by simp
next
  case (Cons u us)
  then obtain h hs' where h: "url_hostname bok (url_for_host u) = Some h" "hosts_of bok us = Some hs'"
    "hs = (case h of None \<Rightarrow> hs' | Some x \<Rightarrow> lower x # hs')"
    by (auto split: option.splits)
  with Cons.IH [OF h(2)] show ?case by (cases h) auto
qed

lemma hosts_of_union:
  assumes "hosts_of bok us = Some hs" "hosts_of bok vs = Some ks" "set ws = set us \<union> set vs"
  shows "\<exists>ls. hosts_of bok ws = Some ls \<and> set hs \<subseteq> set ls"
proof -
  have "hosts_of bok ws \<noteq> None"
    using assms hosts_of_iff [of bok us] hosts_of_iff [of bok vs] hosts_of_iff [of bok ws] by auto
  then obtain ls where "hosts_of bok ws = Some ls" by blast
  with hosts_of_set [OF this] hosts_of_set [OF assms(1)] assms(3) show ?thesis by auto
qed

lemma find_map: "find P (map g xs) = map_option g (find (\<lambda>x. P (g x)) xs)"
  by (induction xs) auto

lemma find_cong_on: "(\<And>x. x \<in> set xs \<Longrightarrow> P x = Q x) \<Longrightarrow> find P xs = find Q xs"
  by (induction xs) auto

lemma updated_urls_set: "set (svc_urls (updated s d)) = set (svc_urls s) \<union> set (d_urls d)"
  by (auto simp: updated_fields new_urls_def Let_def)

lemma merged_urls [simp]: "svc_urls (merged now d s) = svc_urls (updated s d)"
  by (simp add: merged_def)

lemma merged_router [simp]:
  "svc_traefik_router (merged now d s) = or_value (new_router s d) (svc_traefik_router s)"
  by (simp add: merged_def updated_fields)

lemma merged_name [simp]: "svc_name (merged now d s) = svc_name s"
  by (simp add: merged_def updated_def)

lemma match_by_host_again:
  assumes "match_by_host bok w ss = Some (Some s)" "distinct (map svc_id ss)"
    and "hosts_of bok (d_urls d) = Some w"
  shows "match_by_host bok w (put_row svc_id (svc_id s) (merged now d) ss) =
    Some (Some (merged now d s))"
  using assms(1,2)
proof (induction ss)
  case Nil
  then show ?case by simp
next
  case (Cons t ss)
  then obtain hs where hs: "hosts_of bok (svc_urls t) = Some hs"
    by (auto split: option.splits)
  show ?case
  proof (cases "set w \<inter> set hs = {}")
    case True
    with Cons.prems hs have rest: "match_by_host bok w ss = Some (Some s)" by simp
    then have "s \<in> set ss" by (rule match_by_host_mem)
    with Cons.prems(2) have "svc_id t \<noteq> svc_id s" by auto
    with True hs Cons.IH [OF rest] Cons.prems(2) show ?thesis by (simp add: put_row_def)
  next
    case False
    with Cons.prems hs have s: "t = s" by simp
    from hosts_of_union [OF hs assms(3)] obtain ls where
      "hosts_of bok (svc_urls (updated s d)) = Some ls" "set hs \<subseteq> set ls"
      using updated_urls_set [of s d] s by metis
    with False s show ?thesis by (auto simp: put_row_def)
  qed
qed

lemma match_service_again:
  assumes m: "match_service bok ss d = Some (Some s)" and dist: "distinct (map svc_id ss)"
  shows "match_service bok (put_row svc_id (svc_id s) (merged now d) ss) d =
    Some (Some (merged now d s))"
proof -
  let ?g = "\<lambda>t. if svc_id t = svc_id s then merged now d t else t"
  let ?ss = "put_row svc_id (svc_id s) (merged now d) ss"
  have ss: "?ss = map ?g ss" by (simp add: put_row_def)
  have mem: "s \<in> set ss" using m by (rule match_service_mem)
  have name: "find (\<lambda>t. svc_name t = d_name d) ?ss = map_option ?g (find (\<lambda>t. svc_name t = d_name d) ss)"
    unfolding ss find_map by (rule arg_cong [where f = "map_option ?g"]) (auto intro: find_cong_on)
  have same: "t = s" if "t \<in> set ss" "svc_id t = svc_id s" for t
    by (rule distinct_map_unique [OF dist that(1) mem that(2)])
  show ?thesis
  proof (cases "find (\<lambda>t. svc_name t = d_name d) ss")
    case (Some t)
    then have "t = s" using m by (simp add: match_service_def)
    with Some name show ?thesis by (simp add: match_service_def)
  next
    case no_name: None
    show ?thesis
    proof (cases "truthy (d_router d)")
      case True
      let ?P = "\<lambda>t. svc_traefik_router t = d_router d"
      have s_after: "?P (?g s)" using True by (cases "d_router d") (auto simp: new_router_def)
      have "find ?P ?ss = Some (merged now d s)"
      proof (cases "find ?P ss")
        case (Some t)
        then have t: "t = s" using m no_name True by (simp add: match_service_def)
        with Some have "?P s" by (auto dest: find_memD)
        then have "?P (?g t) = ?P t" if "t \<in> set ss" for t
          using same [OF that] s_after by auto
        then have "find (\<lambda>t. ?P (?g t)) ss = find ?P ss" by (rule find_cong_on)
        with Some t show ?thesis unfolding ss find_map by simp
      next
        case None
        then have "\<not> ?P t" if "t \<in> set ss" for t using that by (auto simp: find_None_iff)
        then have "?P (?g t) = (svc_id t = svc_id s)" if "t \<in> set ss" for t
          using same [OF that] that s_after by auto
        then have "find (\<lambda>t. ?P (?g t)) ss = get_row svc_id ss (svc_id s)"
          unfolding get_row_def by (rule find_cong_on)
        also have "\<dots> = Some s" by (rule get_row_unique [OF dist mem])
        finally show ?thesis unfolding ss find_map by simp
      qed
      with no_name name True show ?thesis by (simp add: match_service_def)
    next
      case False
      with m no_name obtain w where w: "hosts_of bok (d_urls d) = Some w" "w \<noteq> []"
        "match_by_host bok w ss = Some (Some s)"
        by (auto simp: match_service_def split: option.splits if_splits)
      with match_by_host_again [OF w(3) dist w(1)] no_name name False show ?thesis
        by (simp add: match_service_def)
    qed
  qed
qed

text \<open>Fields a pass reads: matching and updating do not look at staleness or times.\<close>

definition same_view :: "service \<Rightarrow> service \<Rightarrow> bool" where
  "same_view s t \<longleftrightarrow>
     svc_id t = svc_id s \<and> svc_name t = svc_name s \<and> svc_host t = svc_host s \<and>
     svc_urls t = svc_urls s \<and> svc_traefik_router t = svc_traefik_router s \<and>
     svc_authentik_app_slug t = svc_authentik_app_slug s \<and>
     svc_authentik_link_manual t = svc_authentik_link_manual s \<and>
     svc_auth_mode t = svc_auth_mode s \<and>
     svc_traefik_auth_mode t = svc_traefik_auth_mode s \<and>
     svc_authentik_auth_mode t = svc_authentik_auth_mode s \<and>
     svc_auth_mode_conflict t = svc_auth_mode_conflict s"

lemma provenance_same_view:
  assumes "same_view s t"
  shows "provenance_updates t d = provenance_updates s d"
proof -
  have eqs: "svc_host t = svc_host s" "svc_urls t = svc_urls s"
    "svc_traefik_router t = svc_traefik_router s"
    "svc_authentik_app_slug t = svc_authentik_app_slug s"
    "svc_authentik_link_manual t = svc_authentik_link_manual s" "svc_auth_mode t = svc_auth_mode s"
    "svc_traefik_auth_mode t = svc_traefik_auth_mode s"
    "svc_authentik_auth_mode t = svc_authentik_auth_mode s"
    "svc_auth_mode_conflict t = svc_auth_mode_conflict s"
    using assms by (simp_all add: same_view_def)
  show ?thesis
    unfolding provenance_updates_def new_router_def new_slug_def new_auth_mode_def
      traefik_demoting_def new_host_def new_urls_def new_traefik_auth_def new_authentik_auth_def
      new_conflict_def eqs ..
qed

lemma match_by_host_same_view:
  "list_all2 same_view ss tt \<Longrightarrow> match_by_host bok w ss = Some (Some s) \<Longrightarrow>
     \<exists>t. match_by_host bok w tt = Some (Some t) \<and> same_view s t"
  by (induction rule: list_all2_induct) (auto simp: same_view_def split: option.splits if_splits)

lemma find_same_view:
  assumes "list_all2 same_view ss tt" "\<And>s t. same_view s t \<Longrightarrow> P t = P s"
  shows "rel_option same_view (find P ss) (find P tt)"
  using assms(1) by (induction rule: list_all2_induct) (auto simp: assms(2))

lemma match_service_same_view:
  assumes "list_all2 same_view ss tt" "match_service bok ss d = Some (Some s)"
  shows "\<exists>t. match_service bok tt d = Some (Some t) \<and> same_view s t"
proof -
  have name: "rel_option same_view (find (\<lambda>s. svc_name s = d_name d) ss) (find (\<lambda>s. svc_name s = d_name d) tt)"
    by (rule find_same_view [OF assms(1)]) (simp add: same_view_def)
  have router: "rel_option same_view (find (\<lambda>s. svc_traefik_router s = d_router d) ss)
      (find (\<lambda>s. svc_traefik_router s = d_router d) tt)"
    by (rule find_same_view [OF assms(1)]) (simp add: same_view_def)
  show ?thesis
    using assms(2) name router match_by_host_same_view [OF assms(1)]
    by (auto simp: match_service_def option_rel_Some1 split: option.splits if_splits)
qed

text \<open>A service just created from an item asks for no update from the same item.\<close>

lemma new_service_settled:
  assumes "same_view ((discovered_service no_enrichment now d)\<lparr>svc_id := i\<rparr>) t"
  shows "provenance_updates t d = []"
proof -
  let ?s = "(discovered_service no_enrichment now d)\<lparr>svc_id := i\<rparr>"
  have "new_conflict ?s d = None"
    by (auto simp: new_conflict_def discovered_service_def reported_mode_def new_traefik_auth_def
        new_authentik_auth_def split: option.splits)
  then have "provenance_updates ?s d = []"
    by (auto simp: provenance_updates_def new_router_def new_slug_def new_auth_mode_def
        new_host_def new_urls_def new_traefik_auth_def new_authentik_auth_def discovered_service_def
        reported_mode_def no_enrichment_def the_default_def Let_def split: option.splits)
  with provenance_same_view [OF assms] show ?thesis by simp
qed

lemma resolver_ok_none [simp]: "resolver_ok no_reasoning"
  by (simp add: resolver_ok_def no_reasoning_def)

text \<open>After one item, the registry matches that item again and has nothing to change.\<close>

lemma item_settled:
  assumes "reconcile_item e bok no_reasoning source a now d p = Some p'" "env_ok e"
    and "reg_ok e (ps_registry p)"
  shows "\<exists>s. match_service bok (rg_services (ps_registry p')) d = Some (Some s) \<and>
    provenance_updates s d = []"
proof (cases "match_service bok (rg_services (ps_registry p)) d")
  case None
  with assms(1) show ?thesis by (simp add: reconcile_item_def)
next
  case (Some m)
  show ?thesis
  proof (cases m)
    case None
    let ?i = "env_uuid e (rg_drawn (ps_registry p))"
    let ?s = "(discovered_service no_enrichment now d)
      \<lparr>svc_id := ?i, svc_created_at := Naive (env_clock e (rg_drawn (ps_registry p))),
       svc_updated_at := Naive (env_clock e (rg_drawn (ps_registry p)))\<rparr>"
    have "rg_services (ps_registry p') = rg_services (ps_registry p) @ [?s]"
      using assms(1) Some None
      by (auto simp: reconcile_item_def Let_def no_reasoning_def add_service_def)
    moreover have "find (\<lambda>s. svc_name s = d_name d) (rg_services (ps_registry p)) = None"
      using Some None by (auto simp: match_service_def split: option.splits)
    moreover have "svc_name ?s = d_name d" by (simp add: discovered_service_def)
    ultimately have "match_service bok (rg_services (ps_registry p')) d = Some (Some ?s)"
      by (simp add: match_service_def find_append)
    moreover have "provenance_updates ?s d = []"
      by (rule new_service_settled [where now = now and i = ?i]) (simp add: same_view_def)
    ultimately show ?thesis by blast
  next
    case (Some s)
    with \<open>match_service bok (rg_services (ps_registry p)) d = Some m\<close>
    have m: "match_service bok (rg_services (ps_registry p)) d = Some (Some s)" by simp
    have "rg_services (ps_registry p') =
        put_row svc_id (svc_id s) (merged now d) (rg_services (ps_registry p))"
      using assms(1) m services_merge_into [OF assms(3) match_service_mem [OF m]]
      by (auto simp: reconcile_item_def Let_def)
    then have "match_service bok (rg_services (ps_registry p')) d = Some (Some (merged now d s))"
      using match_service_again [OF m reg_okD(1) [OF assms(3)]] by simp
    moreover have "same_view (updated s d) (merged now d s)"
      by (simp add: same_view_def merged_def)
    ultimately show ?thesis using provenance_same_view updated_no_updates by metis
  qed
qed

lemma list_all2_map_same: "(\<And>x. P x (f x)) \<Longrightarrow> list_all2 P xs (map f xs)"
  by (induction xs) simp_all

section \<open>Properties\<close>


end
