(* ===== verification/RegistryExamples.thy ===== *)
theory RegistryExamples
  imports Rescan
begin

text \<open>
  One concrete registry (a service seen by Traefik, then lost) on which the registry
  theorems are applied, so their hypotheses can hold.
\<close>

definition example_env :: env where
  "example_env = \<lparr>env_uuid = (\<lambda>n. replicate n (CHR ''a'')), env_clock = (\<lambda>n. int n)\<rparr>"

definition example_item :: discovered where
  "example_item =
     \<lparr>d_source = Source_traefik, d_external_id = ''web@docker'', d_name = ''web'',
      d_display_name = None, d_category = None, d_host = None,
      d_urls = [''https://web.lan/''], d_router = Some ''web@docker'', d_slug = None,
      d_auth_mode = Some AuthMode_none, d_tags = [], d_raw = JNull\<rparr>"

definition example_registry :: registry where
  "example_registry =
     fst (the (reconcile example_env (\<lambda>_. True) no_reasoning Source_traefik [example_item] 1 0
       empty_registry))"

definition example_lost :: "registry \<times> pass_counts" where
  "example_lost =
     the (reconcile example_env (\<lambda>_. True) no_reasoning Source_traefik [] 1 5 example_registry)"

lemma example_inj: "inj (env_uuid example_env)"
  by (auto simp: example_env_def inj_def dest: arg_cong [where f = length])

lemma example_first:
  "reconcile example_env (\<lambda>_. True) no_reasoning Source_traefik [example_item] 1 0 empty_registry =
     Some (example_registry,
       snd (the (reconcile example_env (\<lambda>_. True) no_reasoning Source_traefik [example_item] 1 0
         empty_registry)))"
proof -
  have "reconcile example_env (\<lambda>_. True) no_reasoning Source_traefik [example_item] 1 0
    empty_registry \<noteq> None" by code_simp
  then show ?thesis by (auto simp: example_registry_def)
qed

lemma example_reg_ok: "reg_ok example_env example_registry"
  using reconcile_ok [OF example_first] example_inj by (simp add: env_ok_def)

lemma example_second:
  "reconcile example_env (\<lambda>_. True) no_reasoning Source_traefik [] 1 5 example_registry =
     Some (fst example_lost, snd example_lost)"
proof -
  have "reconcile example_env (\<lambda>_. True) no_reasoning Source_traefik [] 1 5 example_registry \<noteq> None"
    by code_simp
  then show ?thesis by (auto simp: example_lost_def)
qed

section \<open>Witnesses\<close>

theorem registry_invariant_witness:
  "distinct (map svc_name (rg_services (registry_run example_env (\<lambda>_. True)
     [Op_create (new_service ''x'' ''web'' ''Web'' 0) ''manual'', Op_purge 0 30])))"
  using registry_invariant [OF example_inj,
      of "[Op_create (new_service ''x'' ''web'' ''Web'' 0) ''manual'', Op_purge 0 30]" "\<lambda>_. True"]
  by simp

theorem reconcile_only_enriches_witness:
  "\<exists>s' \<in> set (rg_services (fst example_lost)). svc_name s' = ''web''"
proof -
  have "hd (rg_services example_registry) \<in> set (rg_services example_registry)"
    by code_simp
  moreover have "svc_name (hd (rg_services example_registry)) = ''web''" by code_simp
  ultimately show ?thesis
    using reconcile_only_enriches [OF example_inj resolver_ok_none example_reg_ok _ example_second]
    by fastforce
qed

theorem reconcile_staleness_witness:
  "svc_stale (hd (rg_services (fst example_lost)))"
proof -
  have s: "hd (rg_services (fst example_lost)) \<in> set (rg_services (fst example_lost))"
    and r: "hd (rg_sources (fst example_lost)) \<in> set (rg_sources (fst example_lost))"
    and k: "src_service_id (hd (rg_sources (fst example_lost))) = svc_id (hd (rg_services (fst example_lost)))"
      "src_source (hd (rg_sources (fst example_lost))) = Source_traefik"
    and m: "src_missed_passes (hd (rg_sources (fst example_lost))) \<noteq> 0"
    and all: "\<forall>q \<in> set (rg_sources (fst example_lost)). 1 \<le> src_missed_passes q"
    by code_simp+
  show ?thesis
    using reconcile_staleness [OF example_inj resolver_ok_none example_reg_ok _ example_second s r k]
      m all by simp
qed

theorem reconcile_counts_witness:
  "pc_missing (snd example_lost) = 1"
proof -
  have "length (filter (\<lambda>r. src_source r = Source_traefik \<and> src_missed_passes r \<noteq> 0)
      (rg_sources (fst example_lost))) = 1" by code_simp
  with reconcile_counts [OF example_inj resolver_ok_none example_reg_ok _ example_second]
  show ?thesis by simp
qed

theorem update_service_exact_witness:
  "get_row svc_id (rg_services (fst (update_service example_env [] [Upd_notes ''n''] ''manual''
     example_registry))) [] \<noteq> None"
proof -
  have "distinct (map svc_id (rg_services example_registry))"
    "get_row svc_id (rg_services example_registry) [] = Some (hd (rg_services example_registry))"
    by code_simp+
  from update_service_exact [OF this, of example_env "[Upd_notes ''n'']" "''manual''"]
  show ?thesis by (metis option.distinct(1) prod.collapse)
qed

theorem service_lifecycle_witness:
  "create_service example_env (new_service ''x'' ''web'' ''Web'' 0) ''manual'' example_registry =
     (example_registry, Inl (Duplicate_service ''web''))"
proof -
  have "svc_name (new_service ''x'' ''web'' ''Web'' 0) \<in> svc_name ` set (rg_services example_registry)"
    by code_simp
  with service_lifecycle [OF example_inj example_reg_ok, of "new_service ''x'' ''web'' ''Web'' 0" "''manual''"]
  show ?thesis by (simp add: new_service_def)
qed


end
