(* ===== verification/GitCrypt.thy ===== *)
theory GitCrypt
  imports Models
begin

text \<open>
  \<open>gitcrypt.py\<close>, the pure part: the \<open>.gitattributes\<close> entries that make git-crypt
  encrypt a path, and reading and writing \<open>.env\<close> text. Text is what \<open>read_text\<close>
  returns and \<open>write_text\<close> is given.
\<close>

section \<open>Paths\<close>

definition path_parts :: "pystr \<Rightarrow> pystr list" where
  "path_parts p = filter (\<lambda>s. s \<noteq> [] \<and> s \<noteq> ''.'') (split_at_char (CHR ''/'') p)"

definition path_last :: "pystr \<Rightarrow> pystr" where
  "path_last p = (case rev (path_parts p) of [] \<Rightarrow> [] | s # _ \<Rightarrow> s)"

datatype path_error = Path_absolute | Path_traversal | Path_outside | Path_inside_git
  | Path_unsafe_attr | Path_is_attributes | Dotenv_bad_key | Dotenv_line_break

text \<open>
  \<open>check_path\<close>; \<open>resolve\<close> stands for \<open>Path.resolve\<close>, which follows the file system's
  symbolic links. Paths are lists of components.
\<close>

definition check_path ::
  "(pystr list \<Rightarrow> pystr list) \<Rightarrow> pystr list \<Rightarrow> pystr \<Rightarrow> path_error + pystr list" where
  "check_path resolve repo path =
     (if starts_with path ''/'' then Inl Path_absolute
      else if ''..'' \<in> set (path_parts path) then Inl Path_traversal
      else
        (let root = resolve repo; target = resolve (repo @ path_parts path) in
         if take (length root) target \<noteq> root then Inl Path_outside
         else if ''.git'' \<in> set (map lower (drop (length root) target)) then Inl Path_inside_git
         else Inr target))"

definition is_unsafe_attr_char :: "char \<Rightarrow> bool" where
  "is_unsafe_attr_char c \<longleftrightarrow> is_space c \<or> c \<in> set ''*?[]!#'' \<or> c = CHR 0x5C \<or> c = CHR 0x22"

definition check_attr_path :: "pystr \<Rightarrow> path_error option" where
  "check_attr_path path =
     (if list_ex is_unsafe_attr_char path then Some Path_unsafe_attr
      else if path_last path = ''.gitattributes'' then Some Path_is_attributes
      else None)"

section \<open>The attributes file\<close>

definition gitattributes_entry :: "pystr \<Rightarrow> pystr" where
  "gitattributes_entry path = path @ '' filter=git-crypt diff=git-crypt''"

definition has_gitattributes_entry :: "pystr \<Rightarrow> pystr \<Rightarrow> bool" where
  "has_gitattributes_entry content path \<longleftrightarrow>
     list_ex (\<lambda>line. strip line = gitattributes_entry path) (splitlines content)"

text \<open>The text \<open>ensure_gitattributes_entry\<close> writes over \<open>current\<close>; \<open>None\<close> when it writes nothing.\<close>

definition ensured_attributes :: "pystr \<Rightarrow> pystr \<Rightarrow> pystr option" where
  "ensured_attributes current path =
     (if has_gitattributes_entry current path then None
      else Some (rstrip_by (\<lambda>c. c = CHR 0x0A) current @ (if current \<noteq> [] then [CHR 0x0A] else []) @
                 gitattributes_entry path @ [CHR 0x0A]))"

section \<open>Dotenv text\<close>

definition is_key_start :: "char \<Rightarrow> bool" where
  "is_key_start c \<longleftrightarrow> is_ascii_alpha c \<or> c = CHR ''_''"

definition is_key_char :: "char \<Rightarrow> bool" where
  "is_key_char c \<longleftrightarrow> is_ascii_alpha c \<or> is_ascii_digit c \<or> c = CHR ''_''"

definition dotenv_key_ok :: "pystr \<Rightarrow> bool" where
  "dotenv_key_ok k \<longleftrightarrow> k \<noteq> [] \<and> is_key_start (hd k) \<and> list_all is_key_char k"

definition check_dotenv_entry :: "pystr \<Rightarrow> pystr \<Rightarrow> path_error option" where
  "check_dotenv_entry key v =
     (if \<not> dotenv_key_ok key then Some Dotenv_bad_key
      else if CHR 0x0A \<in> set v \<or> CHR 0x0D \<in> set v then Some Dotenv_line_break
      else None)"

text \<open>\<open>d[k] = v\<close> on a dictionary as the list of its items in insertion order.\<close>

fun dict_set :: "'k \<Rightarrow> 'v \<Rightarrow> ('k \<times> 'v) list \<Rightarrow> ('k \<times> 'v) list" where
  "dict_set k v [] = [(k, v)]"
| "dict_set k v ((k', v') # d) = (if k' = k then (k, v) # d else (k', v') # dict_set k v d)"

definition dotenv_line :: "pystr \<Rightarrow> (pystr \<times> pystr) option" where
  "dotenv_line raw =
     (let line = strip raw in
      if line = [] \<or> starts_with line ''#'' then None
      else case partition_at (CHR ''='') line of
             (k, True, v) \<Rightarrow> Some (strip k, strip v)
           | (k, False, v) \<Rightarrow> None)"

definition dict_of_lines :: "pystr list \<Rightarrow> (pystr \<times> pystr) list \<Rightarrow> (pystr \<times> pystr) list" where
  "dict_of_lines ls d =
     fold (\<lambda>l d. case dotenv_line l of None \<Rightarrow> d | Some (k, v) \<Rightarrow> dict_set k v d) ls d"

definition parse_dotenv :: "pystr \<Rightarrow> (pystr \<times> pystr) list" where
  "parse_dotenv content = dict_of_lines (splitlines content) []"

definition serialize_dotenv :: "(pystr \<times> pystr) list \<Rightarrow> pystr" where
  "serialize_dotenv d = concat (map (\<lambda>(k, v). k @ ''='' @ v @ [CHR 0x0A]) d)"

text \<open>
  \<open>re.match(r"^[A-Z_][A-Z0-9_]*=", line)\<close>, and the heuristic (the float test
  \<open>kv / n >= 0.6\<close> is \<open>5 kv >= 3 n\<close>).
\<close>

definition looks_like_kv :: "pystr \<Rightarrow> bool" where
  "looks_like_kv l =
     (let k = takeWhile (\<lambda>c. is_ascii_upper c \<or> is_ascii_digit c \<or> c = CHR ''_'') l in
      k \<noteq> [] \<and> \<not> is_ascii_digit (hd k) \<and> starts_with (drop (length k) l) ''='')"

definition is_dotenv_content :: "pystr \<Rightarrow> bool" where
  "is_dotenv_content content =
     (let ls = filter (\<lambda>l. l \<noteq> [] \<and> \<not> starts_with l ''#'') (map strip (splitlines content))
      in ls \<noteq> [] \<and> 3 * length ls \<le> 5 * length (filter looks_like_kv ls))"

text \<open>\<open>Path.suffix\<close> of a file name: from its last dot, unless that dot starts or ends the name.\<close>

definition path_suffix :: "pystr \<Rightarrow> pystr" where
  "path_suffix name =
     (case rpartition_at (CHR ''.'') name of (a, dot, b) \<Rightarrow>
        if dot \<and> a \<noteq> [] \<and> b \<noteq> [] then CHR ''.'' # b else [])"

datatype secret_content = Parsed_dotenv "(pystr \<times> pystr) list" | Raw_text pystr

definition detect_format :: "pystr list \<Rightarrow> pystr \<Rightarrow> secret_content" where
  "detect_format target content =
     (let name = (if target = [] then [] else last target) in
      if path_suffix name = ''.env'' \<or> name = ''.env'' \<or> is_dotenv_content content
      then Parsed_dotenv (parse_dotenv content) else Raw_text content)"

section \<open>Lemmas on lines\<close>

lemma line_break_is_space: "is_line_break c \<Longrightarrow> is_space c"
  by (auto simp: is_line_break_def is_space_def)

lemma split_keep_nl:
  "split_keep acc (u @ CHR 0x0A # v) = split_keep acc (u @ [CHR 0x0A]) @ split_keep [] v"
proof (induction acc u rule: split_keep.induct)
  case (1 acc)
  then show ?case by (simp add: is_line_break_def)
next
  case (2 acc c s)
  show ?case
  proof (cases "c = CHR 0x0D \<and> s @ [CHR 0x0A] \<noteq> [] \<and> hd (s @ [CHR 0x0A]) = CHR 0x0A")
    case True
    then show ?thesis using 2 by (cases s) (auto simp: is_line_break_def)
  next
    case False
    then have "\<not> (c = CHR 0x0D \<and> s \<noteq> [] \<and> hd s = CHR 0x0A)" "s = [] \<longrightarrow> c \<noteq> CHR 0x0D"
      by (auto split: if_splits)
    with 2 show ?thesis by (cases s) auto
  qed
qed

lemma splitlines_nl: "splitlines (u @ CHR 0x0A # v) = splitlines (u @ [CHR 0x0A]) @ splitlines v"
  unfolding splitlines_def splitlines_keep_def by (subst split_keep_nl) simp

lemma split_keep_plain:
  "list_all (\<lambda>c. \<not> is_line_break c) u \<Longrightarrow> split_keep acc (u @ [CHR 0x0A]) = [rev acc @ u @ [CHR 0x0A]]"
proof (induction u arbitrary: acc)
  case Nil
  then show ?case by (simp add: is_line_break_def)
next
  case (Cons c u)
  then have "c \<noteq> CHR 0x0D" by (auto simp: is_line_break_def)
  with Cons show ?case by simp
qed

lemma splitlines_plain:
  assumes "list_all (\<lambda>c. \<not> is_line_break c) u"
  shows "splitlines (u @ [CHR 0x0A]) = [u]"
proof -
  have "takeWhile (\<lambda>c. \<not> is_line_break c) (u @ [CHR 0x0A]) = u"
    using assms by (induction u) (auto simp: is_line_break_def)
  then show ?thesis
    by (simp add: splitlines_def splitlines_keep_def split_keep_plain [OF assms])
qed

lemma strip_id: "s = [] \<or> (\<not> is_space (hd s) \<and> \<not> is_space (last s)) \<Longrightarrow> strip s = s"
  unfolding strip_def by (rule strip_by_id)

lemma strip_ends: "strip s = t \<Longrightarrow> t = [] \<or> (\<not> is_space (hd t) \<and> \<not> is_space (last t))"
proof -
  assume t: "strip s = t"
  let ?a = "dropWhile is_space s"
  have t': "t = rev (dropWhile is_space (rev ?a))"
    using t by (simp add: strip_def strip_by_def rstrip_by_def lstrip_by_def)
  show ?thesis
  proof (cases "t = []")
    case False
    then have ne: "dropWhile is_space (rev ?a) \<noteq> []" using t' by simp
    then have last: "\<not> is_space (last t)"
      using hd_dropWhile [OF ne] by (simp add: t' last_rev)
    obtain u where u: "rev ?a = u @ dropWhile is_space (rev ?a)"
      by (metis takeWhile_dropWhile_id)
    then have a: "?a = t @ rev u" by (metis rev_append rev_rev_ident t')
    then have "hd ?a = hd t" using False by simp
    moreover have "?a \<noteq> []" using a False by auto
    ultimately have "\<not> is_space (hd t)" using hd_dropWhile [of is_space s] by auto
    with last show ?thesis by blast
  qed simp
qed

lemma strip_strip [simp]: "strip (strip s) = strip s"
  by (rule strip_id) (metis strip_ends)

lemma set_strip: "set (strip s) \<subseteq> set s"
  by (auto simp: strip_def strip_by_def rstrip_by_def lstrip_by_def dest!: set_dropWhileD)

lemma splitlines_no_break: "l \<in> set (splitlines s) \<Longrightarrow> c \<in> set l \<Longrightarrow> \<not> is_line_break c"
  by (auto simp: splitlines_def dest: set_takeWhileD)

section \<open>Lemmas on dotenv text\<close>

definition entry_ok :: "pystr \<times> pystr \<Rightarrow> bool" where
  "entry_ok e \<longleftrightarrow>
     (case e of (k, v) \<Rightarrow> strip k = k \<and> strip v = v \<and> CHR ''='' \<notin> set k \<and> \<not> starts_with k ''#'' \<and>
        list_all (\<lambda>c. \<not> is_line_break c) (k @ v))"

definition dict_ok :: "(pystr \<times> pystr) list \<Rightarrow> bool" where
  "dict_ok d \<longleftrightarrow> distinct (map fst d) \<and> list_all entry_ok d"

lemma fst_dict_set: "fst ` set (dict_set k v d) = insert k (fst ` set d)"
  by (induction k v d rule: dict_set.induct) auto

lemma map_of_dict_set: "map_of (dict_set k v d) = (map_of d)(k \<mapsto> v)"
  by (induction k v d rule: dict_set.induct) (auto simp: fun_eq_iff)

lemma dict_ok_set: "dict_ok d \<Longrightarrow> entry_ok (k, v) \<Longrightarrow> dict_ok (dict_set k v d)"
proof (induction k v d rule: dict_set.induct)
  case (1 k v)
  then show ?case by (simp add: dict_ok_def)
next
  case (2 k v k' v' d)
  show ?case
  proof (cases "k' = k")
    case True
    with 2 show ?thesis by (simp add: dict_ok_def)
  next
    case False
    with 2 have "dict_ok (dict_set k v d)" by (simp add: dict_ok_def)
    moreover have "k' \<notin> fst ` set (dict_set k v d)"
      using 2(2) False by (simp add: fst_dict_set dict_ok_def)
    ultimately show ?thesis using 2(2) False by (simp add: dict_ok_def)
  qed
qed

lemma dict_set_new: "k \<notin> fst ` set d \<Longrightarrow> dict_set k v d = d @ [(k, v)]"
  by (induction k v d rule: dict_set.induct) auto

lemma hd_strip_append:
  assumes "strip k = k" "strip v = v"
  shows "strip (k @ CHR ''='' # v) = k @ CHR ''='' # v"
proof (rule strip_id, rule disjI2, rule conjI)
  have eq: "\<not> is_space (CHR ''='')" by (simp add: is_space_def)
  show "\<not> is_space (hd (k @ CHR ''='' # v))"
    using strip_ends [OF assms(1)] eq by (cases k) auto
  show "\<not> is_space (last (k @ CHR ''='' # v))"
    using strip_ends [OF assms(2)] eq by auto
qed

lemma dotenv_line_entry: "entry_ok (k, v) \<Longrightarrow> dotenv_line (k @ ''='' @ v) = Some (k, v)"
proof -
  assume ok: "entry_ok (k, v)"
  then have "strip (k @ CHR ''='' # v) = k @ CHR ''='' # v"
    by (simp add: entry_ok_def hd_strip_append)
  moreover have "\<not> starts_with (k @ CHR ''='' # v) ''#''"
    using ok by (cases k) (auto simp: entry_ok_def starts_with_def)
  ultimately show ?thesis
    using ok by (simp add: dotenv_line_def Let_def entry_ok_def)
qed

lemma dotenv_line_ok:
  assumes "dotenv_line l = Some (k, v)" "list_all (\<lambda>c. \<not> is_line_break c) l"
  shows "entry_ok (k, v)"
proof -
  let ?t = "strip l"
  obtain a b where p: "partition_at (CHR ''='') ?t = (a, True, b)" "k = strip a" "v = strip b"
    and t: "?t \<noteq> []" "\<not> starts_with ?t ''#''"
    using assms(1) by (auto simp: dotenv_line_def Let_def split: if_splits prod.splits bool.splits)
  from partition_at_Some [OF p(1)] have split: "?t = a @ CHR ''='' # b" "CHR ''='' \<notin> set a" by auto
  have "set a \<subseteq> set l" "set b \<subseteq> set l" using set_strip [of l] split(1) by auto
  then have "list_all (\<lambda>c. \<not> is_line_break c) (k @ v)"
    using assms(2) set_strip [of a] set_strip [of b] p by (auto simp: list_all_iff)
  moreover have "CHR ''='' \<notin> set k" using split(2) set_strip [of a] p by auto
  moreover have "\<not> starts_with k ''#''"
  proof
    assume k: "starts_with k ''#''"
    then have ne: "a \<noteq> []" using p(2) by (auto simp: starts_with_def)
    then have "hd a = hd ?t" using split(1) by simp
    moreover have "\<not> is_space (hd ?t)" using strip_ends [of l ?t] t by auto
    ultimately have "dropWhile is_space a = a" using ne by (intro dropWhile_id) auto
    then have "k = rev (dropWhile is_space (rev a))"
      using p(2) by (simp add: strip_def strip_by_def lstrip_by_def rstrip_by_def)
    then obtain u where "a = k @ u"
      by (metis rev_append rev_rev_ident takeWhile_dropWhile_id)
    then show False using k split(1) t(2) by (auto simp: starts_with_iff)
  qed
  ultimately show ?thesis using p by (simp add: entry_ok_def)
qed

lemma dict_of_lines_ok:
  assumes "\<forall>l \<in> set ls. list_all (\<lambda>c. \<not> is_line_break c) l" "dict_ok d"
  shows "dict_ok (dict_of_lines ls d)"
  using assms
proof (induction ls arbitrary: d)
  case Nil
  then show ?case by (simp add: dict_of_lines_def)
next
  case (Cons l ls)
  have "dict_ok (case dotenv_line l of None \<Rightarrow> d | Some (k, v) \<Rightarrow> dict_set k v d)"
    using Cons.prems by (auto split: option.splits intro: dict_ok_set dotenv_line_ok)
  with Cons show ?case by (simp add: dict_of_lines_def)
qed

lemma parse_dotenv_ok: "dict_ok (parse_dotenv s)"
  unfolding parse_dotenv_def
  by (rule dict_of_lines_ok) (auto simp: list_all_iff dict_ok_def dest: splitlines_no_break)

lemma splitlines_serialize:
  "list_all entry_ok d \<Longrightarrow> splitlines (serialize_dotenv d) = map (\<lambda>(k, v). k @ ''='' @ v) d"
proof (induction d)
  case Nil
  then show ?case by (simp add: serialize_dotenv_def splitlines_def splitlines_keep_def)
next
  case (Cons e d)
  obtain k v where e: "e = (k, v)" by fastforce
  have plain: "list_all (\<lambda>c. \<not> is_line_break c) (k @ ''='' @ v)"
    using Cons.prems by (simp add: e entry_ok_def is_line_break_def)
  have "serialize_dotenv (e # d) = (k @ ''='' @ v) @ CHR 0x0A # serialize_dotenv d"
    by (simp add: serialize_dotenv_def e)
  then have "splitlines (serialize_dotenv (e # d)) = [k @ ''='' @ v] @ splitlines (serialize_dotenv d)"
    using splitlines_nl splitlines_plain [OF plain] by metis
  with Cons show ?case by (simp add: e)
qed

lemma dict_of_lines_entries:
  assumes "dict_ok d" "fst ` set d \<inter> fst ` set acc = {}"
  shows "dict_of_lines (map (\<lambda>(k, v). k @ ''='' @ v) d) acc = acc @ d"
  using assms
proof (induction d arbitrary: acc)
  case Nil
  then show ?case by (simp add: dict_of_lines_def)
next
  case (Cons e d)
  obtain k v where e: "e = (k, v)" by fastforce
  have "dict_of_lines (map (\<lambda>(k, v). k @ ''='' @ v) d) (acc @ [e]) = (acc @ [e]) @ d"
    using Cons.prems by (intro Cons.IH) (auto simp: dict_ok_def)
  moreover have "dict_set k v acc = acc @ [e]"
    using Cons.prems(2) by (simp add: e dict_set_new)
  moreover have "dotenv_line (k @ ''='' @ v) = Some (k, v)"
    using Cons.prems(1) by (intro dotenv_line_entry) (simp add: dict_ok_def e)
  ultimately show ?case by (simp add: dict_of_lines_def e)
qed

lemma parse_serialize: "dict_ok d \<Longrightarrow> parse_dotenv (serialize_dotenv d) = d"
  using dict_of_lines_entries [of d "[]"] splitlines_serialize [of d]
  by (simp add: parse_dotenv_def dict_ok_def)

lemma space_not_key_char: "is_space c \<Longrightarrow> \<not> is_key_char c"
  unfolding is_space_def
  by (elim insertE emptyE; simp add: is_key_char_def is_ascii_alpha_def is_ascii_upper_def
      is_ascii_lower_def is_ascii_digit_def code_point_def)

lemma sign_not_key_char: "\<not> is_key_char (CHR ''='')" "\<not> is_key_char (CHR ''#'')"
  by (simp_all add: is_key_char_def is_ascii_alpha_def is_ascii_upper_def
      is_ascii_lower_def is_ascii_digit_def code_point_def)
lemma equals_not_key_char: "c = CHR ''='' \<Longrightarrow> \<not> is_key_char c" by (simp add: sign_not_key_char)
lemma hash_not_key_char: "c = CHR ''#'' \<Longrightarrow> \<not> is_key_char c" by (simp add: sign_not_key_char)
lemma key_char_facts: "is_key_char c \<Longrightarrow> \<not> is_space c \<and> c \<noteq> CHR ''='' \<and> c \<noteq> CHR ''#''"
 by (metis equals_not_key_char hash_not_key_char space_not_key_char)

lemma dotenv_key_entry:
  assumes "dotenv_key_ok k" "strip v = v" "list_all (\<lambda>c. \<not> is_line_break c) v"
  shows "entry_ok (k, v)"
proof -
  have k: "\<forall>c \<in> set k. \<not> is_space c \<and> c \<noteq> CHR ''='' \<and> c \<noteq> CHR ''#''" "k \<noteq> []"
    using assms(1) key_char_facts by (auto simp: dotenv_key_ok_def list_all_iff)
  then have "strip k = k" by (intro strip_id) simp
  moreover have "\<not> starts_with k ''#''" using k by (cases k) (auto simp: starts_with_def)
  moreover have "CHR ''='' \<notin> set k" using k(1) by blast
  moreover have "list_all (\<lambda>c. \<not> is_line_break c) k"
    unfolding list_all_iff using k(1) line_break_is_space by blast
  ultimately show ?thesis using assms(2,3) by (simp add: entry_ok_def)
qed

section \<open>Lemmas on the attributes file\<close>

lemma words_word:
  assumes "w \<noteq> []" "\<forall>c \<in> set w. \<not> is_space c"
  shows "words (w @ CHR '' '' # s) = w # words s"
proof -
  have sp: "is_space (CHR '' '')" by (simp add: is_space_def)
  have "dropWhile is_space (w @ CHR '' '' # s) = w @ CHR '' '' # s"
    using assms by (intro dropWhile_id) (cases w; simp)
  moreover have "takeWhile (\<lambda>c. \<not> is_space c) (w @ CHR '' '' # s) = w"
    "dropWhile (\<lambda>c. \<not> is_space c) (w @ CHR '' '' # s) = CHR '' '' # s"
    using assms(2) sp by (simp_all add: takeWhile_append2 dropWhile_append2)
  moreover have "words (CHR '' '' # s) = words s"
    using sp by (simp add: words.simps [of "CHR '' '' # s"] words.simps [of s])
  ultimately show ?thesis using assms(1) by (subst words.simps) simp
qed

lemma words_last_word:
  assumes "w \<noteq> []" "\<forall>c \<in> set w. \<not> is_space c"
  shows "words w = [w]"
proof -
  have "dropWhile is_space w = w" using assms by (intro dropWhile_id) (cases w; simp)
  moreover have "takeWhile (\<lambda>c. \<not> is_space c) w = w" "dropWhile (\<lambda>c. \<not> is_space c) w = []"
    using assms(2) by (simp_all add: takeWhile_eq_all_conv)
  ultimately show ?thesis using assms(1)
    by (subst words.simps) (simp add: words.simps [of "[]"] del: dropWhile_eq_Nil_conv)
qed

lemma attr_path_no_space: "check_attr_path path = None \<Longrightarrow> \<forall>c \<in> set path. \<not> is_space c"
  by (auto simp: check_attr_path_def is_unsafe_attr_char_def list_ex_iff split: if_splits)

lemma words_entry:
  assumes "path \<noteq> []" "check_attr_path path = None"
  shows "words (gitattributes_entry path) = [path, ''filter=git-crypt'', ''diff=git-crypt'']"
proof -
  have "\<forall>c \<in> set ''filter=git-crypt''. \<not> is_space c" "\<forall>c \<in> set ''diff=git-crypt''. \<not> is_space c"
    by (simp_all add: is_space_def)
  then have "words (''filter=git-crypt'' @ CHR '' '' # ''diff=git-crypt'') =
      [''filter=git-crypt'', ''diff=git-crypt'']"
    by (subst words_word) (simp_all add: words_last_word)
  with words_word [OF assms(1) attr_path_no_space [OF assms(2)]] show ?thesis
    by (simp add: gitattributes_entry_def)
qed

lemma strip_entry:
  assumes "path \<noteq> []" "check_attr_path path = None"
  shows "strip (gitattributes_entry path) = gitattributes_entry path"
  using attr_path_no_space [OF assms(2)] assms(1)
  by (intro strip_id disjI2) (cases path; simp add: gitattributes_entry_def is_space_def)

lemma entry_no_break:
  assumes "check_attr_path path = None"
  shows "list_all (\<lambda>c. \<not> is_line_break c) (gitattributes_entry path)"
proof -
  have "list_all (\<lambda>c. \<not> is_line_break c) path"
    unfolding list_all_iff using attr_path_no_space [OF assms] line_break_is_space by blast
  then show ?thesis by (simp add: gitattributes_entry_def is_line_break_def)
qed

lemma takeWhile_snoc_not: "\<not> p n \<Longrightarrow> takeWhile p (xs @ [n]) = takeWhile p xs"
  by (induction xs) auto

lemma split_keep_more:
  "set (map (takeWhile p) (split_keep acc s)) \<subseteq> set (map (takeWhile p) (split_keep acc (s @ [CHR 0x0A])))"
  if "\<And>c. p c \<longleftrightarrow> \<not> is_line_break c"
proof (induction acc s rule: split_keep.induct)
  case (1 acc)
  then show ?case using that by (simp add: is_line_break_def takeWhile_snoc_not)
next
  case (2 acc c s)
  have nl: "\<not> p (CHR 0x0A)" "is_line_break (CHR 0x0A)" using that by (simp_all add: is_line_break_def)
  show ?case
  proof (cases s)
    case Nil
    have "takeWhile p (rev acc @ [c, CHR 0x0A]) = takeWhile p (rev acc @ [c])"
      using takeWhile_snoc_not [of p "CHR 0x0A" "rev acc @ [c]"] nl(1) by simp
    with nl(2) show ?thesis unfolding Nil by (cases "c = CHR 0x0D") simp_all
  next
    case (Cons d r)
    then have hd: "hd (s @ [CHR 0x0A]) = hd s" "tl (s @ [CHR 0x0A]) = tl s @ [CHR 0x0A]" "s \<noteq> []"
      by simp_all
    consider (crlf) "c = CHR 0x0D \<and> s \<noteq> [] \<and> hd s = CHR 0x0A"
      | (break) "\<not> (c = CHR 0x0D \<and> s \<noteq> [] \<and> hd s = CHR 0x0A)" "is_line_break c"
      | (plain) "\<not> (c = CHR 0x0D \<and> s \<noteq> [] \<and> hd s = CHR 0x0A)" "\<not> is_line_break c"
      by blast
    then show ?thesis
    proof cases
      case crlf
      then show ?thesis using 2(1) [OF crlf] hd by (simp add: subset_insertI2)
    next
      case break
      then have "split_keep acc (c # s) = rev (c # acc) # split_keep [] s"
        "split_keep acc ((c # s) @ [CHR 0x0A]) = rev (c # acc) # split_keep [] (s @ [CHR 0x0A])"
        using hd by auto
      then show ?thesis using 2(2) [OF break] by (simp add: subset_insertI2 del: split_keep.simps)
    next
      case plain
      then have "split_keep acc (c # s) = split_keep (c # acc) s"
        "split_keep acc ((c # s) @ [CHR 0x0A]) = split_keep (c # acc) (s @ [CHR 0x0A])"
        using hd by auto
      then show ?thesis using 2(3) [OF plain] by (simp del: split_keep.simps)
    qed
  qed
qed

lemma splitlines_more: "set (splitlines s) \<subseteq> set (splitlines (s @ [CHR 0x0A]))"
  using split_keep_more [of "\<lambda>c. \<not> is_line_break c" "[]" s]
  by (simp add: splitlines_def splitlines_keep_def)

lemma splitlines_newlines: "l \<in> set (splitlines (replicate n (CHR 0x0A))) \<Longrightarrow> l = []"
proof (induction n)
  case 0
  then show ?case by (simp add: splitlines_def splitlines_keep_def)
next
  case (Suc n)
  have "splitlines (replicate (Suc n) (CHR 0x0A)) = splitlines [CHR 0x0A] @ splitlines (replicate n (CHR 0x0A))"
    using splitlines_nl [of "[]" "replicate n (CHR 0x0A)"] by simp
  with Suc show ?case by (auto simp: splitlines_plain [of "[]", simplified])
qed

lemma rstrip_by_newlines:
  "\<exists>n. s = rstrip_by (\<lambda>c. c = x) s @ replicate n x"
proof -
  let ?t = "takeWhile (\<lambda>c. c = x) (rev s)"
  have "s = rev (dropWhile (\<lambda>c. c = x) (rev s)) @ rev ?t"
    by (metis rev_append rev_rev_ident takeWhile_dropWhile_id)
  moreover have "rev ?t = replicate (length ?t) x"
    by (metis (mono_tags, lifting) length_rev rev_replicate replicate_length_same set_takeWhileD)
  ultimately show ?thesis unfolding rstrip_by_def by metis
qed

lemma old_lines_kept:
  assumes "has_gitattributes_entry s q"
  shows "\<exists>l \<in> set (splitlines (rstrip_by (\<lambda>c. c = CHR 0x0A) s @ [CHR 0x0A])). strip l = gitattributes_entry q"
proof -
  let ?r = "rstrip_by (\<lambda>c. c = CHR 0x0A) s"
  obtain l where l: "l \<in> set (splitlines s)" "strip l = gitattributes_entry q"
    using assms by (auto simp: has_gitattributes_entry_def list_ex_iff)
  have ne: "l \<noteq> []" using l(2) by (auto simp: gitattributes_entry_def)
  obtain n where n: "s = ?r @ replicate n (CHR 0x0A)" using rstrip_by_newlines by blast
  have "l \<in> set (splitlines (?r @ [CHR 0x0A]))"
  proof (cases n)
    case 0
    then show ?thesis using n l(1) splitlines_more [of ?r] by auto
  next
    case (Suc m)
    then have "splitlines s = splitlines (?r @ [CHR 0x0A]) @ splitlines (replicate m (CHR 0x0A))"
      using n splitlines_nl [of ?r "replicate m (CHR 0x0A)"] by (metis replicate_Suc)
    with l(1) ne splitlines_newlines show ?thesis by auto
  qed
  with l(2) show ?thesis by blast
qed

section \<open>Properties\<close>

text \<open>
  The line written for an accepted path is read as that one literal path with the two
  git-crypt attributes; after the write the path is covered and a second call writes
  nothing; and every path covered before is still covered.
\<close>
theorem attributes_ensured:
  assumes "path \<noteq> []" "check_attr_path path = None"
    and "ensured_attributes current path = Some updated"
  shows "words (gitattributes_entry path) = [path, ''filter=git-crypt'', ''diff=git-crypt''] \<and>
    has_gitattributes_entry updated path \<and> ensured_attributes updated path = None \<and>
    (has_gitattributes_entry current q \<longrightarrow> has_gitattributes_entry updated q)"
proof -
  let ?r = "rstrip_by (\<lambda>c. c = CHR 0x0A) current"
  let ?e = "gitattributes_entry path"
  have e: "splitlines (?e @ [CHR 0x0A]) = [?e]"
    by (rule splitlines_plain [OF entry_no_break [OF assms(2)]])
  have upd: "updated = (if current = [] then ?e @ [CHR 0x0A] else ?r @ CHR 0x0A # ?e @ [CHR 0x0A])"
    using assms(3) by (auto simp: ensured_attributes_def rstrip_by_def split: if_splits)
  have lines: "splitlines updated = (if current = [] then [?e] else splitlines (?r @ [CHR 0x0A]) @ [?e])"
    using e splitlines_nl [of ?r "?e @ [CHR 0x0A]"] by (simp add: upd)
  have has: "has_gitattributes_entry updated path"
    using lines strip_entry [OF assms(1,2)] by (auto simp: has_gitattributes_entry_def)
  have "has_gitattributes_entry updated q" if "has_gitattributes_entry current q"
  proof (cases "current = []")
    case True
    with that show ?thesis
      by (simp add: has_gitattributes_entry_def splitlines_def splitlines_keep_def)
  next
    case False
    with old_lines_kept [OF that] lines show ?thesis
      by (auto simp: has_gitattributes_entry_def list_ex_iff)
  qed
  with has words_entry [OF assms(1,2)] show ?thesis by (simp add: ensured_attributes_def)
qed

theorem attributes_ensured_witness:
  "\<exists>u. ensured_attributes ''*.key filter=git-crypt'' ''app/.env'' = Some u \<and>
     has_gitattributes_entry u ''app/.env''"
proof -
  have "ensured_attributes ''*.key filter=git-crypt'' ''app/.env'' \<noteq> None" by code_simp
  then obtain u where u: "ensured_attributes ''*.key filter=git-crypt'' ''app/.env'' = Some u" by blast
  have "check_attr_path ''app/.env'' = None" by code_simp
  with attributes_ensured [OF _ this u] u show ?thesis by simp
qed

text \<open>
  The empty path slips through: the checks accept it, its entry starts with a space, so
  it is never found again and every call appends one more line.
\<close>
theorem attributes_empty_path:
  "check_attr_path [] = None \<and> check_path (\<lambda>p. p) [''repo''] [] = Inr [''repo''] \<and>
   (case ensured_attributes [] [] of None \<Rightarrow> False | Some u \<Rightarrow> ensured_attributes u [] \<noteq> None)"
  by code_simp

text \<open>
  C39: Adding a secret changes exactly that key: when a valid key with a value without line
  breaks and surrounding white space is set in the parsed file and the file is written back, reading it again
  gives the old dictionary with that one key updated, whatever the old file held.
\<close>
theorem dotenv_add_exact:
  assumes "check_dotenv_entry key v = None" "strip v = v" "list_all (\<lambda>c. \<not> is_line_break c) v"
  shows "parse_dotenv (serialize_dotenv (dict_set key v (parse_dotenv old))) =
      dict_set key v (parse_dotenv old) \<and>
    map_of (parse_dotenv (serialize_dotenv (dict_set key v (parse_dotenv old)))) =
      (map_of (parse_dotenv old))(key \<mapsto> v)"
proof -
  have "dotenv_key_ok key" using assms(1) by (auto simp: check_dotenv_entry_def split: if_splits)
  then have "dict_ok (dict_set key v (parse_dotenv old))"
    using assms by (intro dict_ok_set parse_dotenv_ok dotenv_key_entry)
  from parse_serialize [OF this] show ?thesis by (simp add: map_of_dict_set)
qed

theorem dotenv_add_exact_witness:
  "parse_dotenv (serialize_dotenv (dict_set ''A'' ''1'' (parse_dotenv ''B=2''))) =
     dict_set ''A'' ''1'' (parse_dotenv ''B=2'')"
proof -
  have "check_dotenv_entry ''A'' ''1'' = None" "strip ''1'' = ''1''"
    "list_all (\<lambda>c. \<not> is_line_break c) ''1''" by code_simp+
  from dotenv_add_exact [OF this] show ?thesis by blast
qed

text \<open>
  The check on a new \<open>.env\<close> value is too weak for the reader: it accepts a value with a
  vertical tab, and since \<open>parse_dotenv\<close> splits at every line boundary of
  \<open>str.splitlines\<close>, the one entry written is read back as two keys.
\<close>
theorem dotenv_value_adds_key:
  "check_dotenv_entry ''A'' (''x'' @ [CHR 0x0B] @ ''ADMIN=1'') = None \<and>
   parse_dotenv (serialize_dotenv [(''A'', ''x'' @ [CHR 0x0B] @ ''ADMIN=1'')]) =
     [(''A'', ''x''), (''ADMIN'', ''1'')]"
  by code_simp

end
