(* ===== verification/SecretsTools.thy ===== *)
theory SecretsTools
  imports GitCrypt
begin

text \<open>
  The parts of \<open>gitcrypt.py\<close> that act on a working tree, and the tools of
  \<open>tools/secrets.py\<close>. What the tools do outside is a trace of events; what they see
  (file contents, results of commands, the files of the tree) is a function of the trace
  so far, the parameter \<open>vault\<close>.
\<close>

section \<open>The outside\<close>

datatype vault_event =
    Ev_run "pystr list"
  | Ev_write "pystr list" pystr
  | Ev_mkdir "pystr list"
  | Ev_key_file bool

text \<open>
  \<open>vt_read\<close>: the text of a file, \<open>None\<close> when it does not exist. \<open>vt_run\<close>: exit code and
  standard error of a command. \<open>vt_files\<close>: \<open>rglob\<close>'s regular files relative to the
  repository, each with its first ten bytes, \<open>None\<close> when it cannot be read.
\<close>

record vault =
  vt_read :: "vault_event list \<Rightarrow> pystr list \<Rightarrow> pystr option"
  vt_run :: "vault_event list \<Rightarrow> pystr list \<Rightarrow> int \<times> pystr"
  vt_files :: "vault_event list \<Rightarrow> (pystr list \<times> pystr option) list"
  vt_resolve :: "pystr list \<Rightarrow> pystr list"
  vt_temp_key :: pystr

datatype vault_error =
    No_repo_path
  | Repo_missing pystr
  | Key_file_missing pystr
  | No_key
  | Unlock_failed pystr

definition repo_path :: "pystr option \<Rightarrow> (pystr \<Rightarrow> bool) \<Rightarrow> vault_error + pystr list" where
  "repo_path configured exists =
     (if \<not> truthy configured then Inl No_repo_path
      else case configured of
             None \<Rightarrow> Inl No_repo_path
           | Some p \<Rightarrow> if exists p then Inr (path_parts p) else Inl (Repo_missing p))"

text \<open>\<open>key_bytes\<close>; \<open>read_file\<close> is \<open>None\<close> for a missing file, \<open>b64\<close> the base64 decoder.\<close>

definition key_bytes ::
  "pystr option \<Rightarrow> pystr option \<Rightarrow> (pystr \<Rightarrow> pystr option) \<Rightarrow> (pystr \<Rightarrow> pystr) \<Rightarrow> vault_error + pystr" where
  "key_bytes key_path key_env read_file b64 =
     (if truthy key_path then
        (case key_path of
           None \<Rightarrow> Inl No_key
         | Some p \<Rightarrow> (case read_file p of None \<Rightarrow> Inl (Key_file_missing p) | Some k \<Rightarrow> Inr k))
      else if truthy key_env then
        (case key_env of None \<Rightarrow> Inl No_key | Some k \<Rightarrow> Inr (b64 k))
      else Inl No_key)"

section \<open>Glob patterns\<close>

text \<open>\<open>fnmatch\<close>: a set's items, a set's end, the match.\<close>

fun set_matches :: "pystr \<Rightarrow> char \<Rightarrow> bool" where
  "set_matches [] c = False"
| "set_matches [a] c = (a = c)"
| "set_matches [a, b] c = (a = c \<or> b = c)"
| "set_matches (a # d # b # r) c =
     (if d = CHR ''-'' then (code_point a \<le> code_point c \<and> code_point c \<le> code_point b) \<or> set_matches r c
      else a = c \<or> set_matches (d # b # r) c)"

definition split_set :: "pystr \<Rightarrow> (bool \<times> pystr \<times> pystr) option" where
  "split_set p =
     (let neg = starts_with p ''!'';
          q = (if neg then tl p else p);
          first = take 1 q;
          body = (if first = '']'' then first @ takeWhile (\<lambda>c. c \<noteq> CHR '']'') (tl q)
                  else takeWhile (\<lambda>c. c \<noteq> CHR '']'') q)
      in if length body < length q then Some (neg, body, drop (Suc (length body)) q) else None)"

lemma split_set_shorter: "split_set p = Some (n, b, r) \<Longrightarrow> length r < Suc (length p)"
  by (auto simp: split_set_def Let_def split: if_splits)

function glob_match :: "pystr \<Rightarrow> pystr \<Rightarrow> bool" where
  "glob_match [] s = (s = [])"
| "glob_match (c # p) s =
     (if c = CHR ''*'' then
        glob_match p s \<or> (case s of [] \<Rightarrow> False | _ # s' \<Rightarrow> glob_match (c # p) s')
      else if c = CHR ''?'' then (case s of [] \<Rightarrow> False | _ # s' \<Rightarrow> glob_match p s')
      else if c = CHR ''['' then
        (case split_set p of
           None \<Rightarrow> (case s of [] \<Rightarrow> False | d # s' \<Rightarrow> d = c \<and> glob_match p s')
         | Some (neg, body, rest) \<Rightarrow>
             (case s of [] \<Rightarrow> False | d # s' \<Rightarrow> set_matches body d \<noteq> neg \<and> glob_match rest s'))
      else (case s of [] \<Rightarrow> False | d # s' \<Rightarrow> d = c \<and> glob_match p s'))"
  by pat_completeness auto
termination
  by (relation "measures [\<lambda>(p, s). length p, \<lambda>(p, s). length s]")
     (auto dest: split_set_shorter)

declare glob_match.simps [simp del]

text \<open>\<open>pattern.split("**/")[-1]\<close>: what follows the last \<open>**/\<close>.\<close>

fun after_globstar :: "pystr \<Rightarrow> pystr \<Rightarrow> pystr" where
  "after_globstar best [] = best"
| "after_globstar best (c # s) =
     (if starts_with (c # s) ''**/'' then after_globstar (drop 3 (c # s)) (drop 2 s)
      else after_globstar best s)"

definition matches_gitattributes_pattern :: "pystr list \<Rightarrow> pystr \<Rightarrow> bool" where
  "matches_gitattributes_pattern rel pattern =
     (let posix = join ''/'' rel in
      if contains pattern ''**'' then
        (let suffix = after_globstar pattern pattern
         in glob_match (CHR ''*'' # suffix) posix \<or> glob_match suffix posix)
      else glob_match pattern posix)"

section \<open>Lock state\<close>

definition attributes_file :: "pystr list \<Rightarrow> pystr list" where
  "attributes_file repo = repo @ [''.gitattributes'']"

definition locked_header :: "pystr \<Rightarrow> bool" where
  "locked_header h = starts_with h (CHR 0x00 # ''GITCRYPT'')"

text \<open>The first readable file the pattern matches decides; \<open>None\<close> when there is none.\<close>

fun first_header :: "pystr \<Rightarrow> (pystr list \<times> pystr option) list \<Rightarrow> bool option" where
  "first_header pattern [] = None"
| "first_header pattern ((rel, h) # fs) =
     (if matches_gitattributes_pattern rel pattern
      then (case h of Some x \<Rightarrow> Some (locked_header x) | None \<Rightarrow> first_header pattern fs)
      else first_header pattern fs)"

fun locked_by_lines :: "pystr list \<Rightarrow> (pystr list \<times> pystr option) list \<Rightarrow> bool" where
  "locked_by_lines [] fs = False"
| "locked_by_lines (l # ls) fs =
     (let line = strip l in
      if \<not> contains line ''filter=git-crypt'' then locked_by_lines ls fs
      else case first_header (hd (words line)) fs of
             Some b \<Rightarrow> b
           | None \<Rightarrow> locked_by_lines ls fs)"

definition is_locked :: "vault \<Rightarrow> pystr list \<Rightarrow> vault_event list \<Rightarrow> bool" where
  "is_locked v repo tr =
     (case vt_read v tr (attributes_file repo) of
        None \<Rightarrow> False
      | Some t \<Rightarrow> locked_by_lines (splitlines t) (vt_files v tr))"

definition run_cmd :: "vault \<Rightarrow> pystr list \<Rightarrow> vault_event list \<Rightarrow> vault_event list \<times> int \<times> pystr" where
  "run_cmd v cmd tr = (tr @ [Ev_run cmd], vt_run v tr cmd)"

text \<open>\<open>ensure_unlocked\<close>: the key file is written before and removed after, whatever happens.\<close>

definition ensure_unlocked ::
  "vault \<Rightarrow> pystr list \<Rightarrow> vault_event list \<Rightarrow> vault_event list \<times> vault_error option" where
  "ensure_unlocked v repo tr =
     (if \<not> is_locked v repo tr then (tr, None)
      else
        (let (tr1, rc, err) =
               run_cmd v [''git-crypt'', ''unlock'', vt_temp_key v] (tr @ [Ev_key_file True])
         in (tr1 @ [Ev_key_file False], if rc \<noteq> 0 then Some (Unlock_failed (strip err)) else None)))"

definition ensure_gitattributes_entry ::
  "vault \<Rightarrow> pystr list \<Rightarrow> pystr \<Rightarrow> vault_event list \<Rightarrow> vault_event list \<times> bool" where
  "ensure_gitattributes_entry v repo path tr =
     (let current = (case vt_read v tr (attributes_file repo) of None \<Rightarrow> [] | Some t \<Rightarrow> t) in
      case ensured_attributes current path of
        None \<Rightarrow> (tr, False)
      | Some u \<Rightarrow> (tr @ [Ev_write (attributes_file repo) u], True))"

section \<open>The tools\<close>

record secrets_config =
  sc_enabled :: bool
  sc_allow_decrypt :: bool
  sc_read_only :: bool
  sc_repo :: "vault_error + pystr list"
  sc_key :: "vault_error + pystr"

datatype secrets_reply =
    Reply_read_only
  | Reply_disabled
  | Reply_decrypt_disabled
  | Reply_vault_error vault_error
  | Reply_path_error path_error
  | Reply_not_found pystr
  | Reply_git_failed pystr pystr
  | Reply_read_failed
  | Reply_encrypted pystr bool
  | Reply_content pystr secret_content "pystr option"
  | Reply_keys pystr "pystr list" "pystr option"
  | Reply_staged pystr pystr
  | Reply_manual_rotation

definition secrets_encrypt ::
  "vault \<Rightarrow> secrets_config \<Rightarrow> pystr \<Rightarrow> vault_event list \<Rightarrow> vault_event list \<times> secrets_reply" where
  "secrets_encrypt v cfg path tr =
     (if sc_read_only cfg then (tr, Reply_read_only)
      else if \<not> sc_enabled cfg then (tr, Reply_disabled)
      else case sc_repo cfg of
        Inl e \<Rightarrow> (tr, Reply_vault_error e)
      | Inr repo \<Rightarrow>
          (case check_path (vt_resolve v) repo path of
             Inl e \<Rightarrow> (tr, Reply_path_error e)
           | Inr target \<Rightarrow>
               (case check_attr_path path of
                  Some e \<Rightarrow> (tr, Reply_path_error e)
                | None \<Rightarrow>
                    (case ensure_gitattributes_entry v repo path tr of
                       (tr1, False) \<Rightarrow> (tr1, Reply_encrypted path False)
                     | (tr1, True) \<Rightarrow>
                         (case run_cmd v [''git'', ''add'', ''.gitattributes''] tr1 of
                            (tr2, rc, err) \<Rightarrow>
                              if rc \<noteq> 0 then (tr2, Reply_git_failed ''add'' (strip err))
                              else
                                (case run_cmd v [''git'', ''commit'', ''-m'', ''chore: encrypt '' @ path] tr2 of
                                   (tr3, rc, err) \<Rightarrow>
                                     if rc \<noteq> 0 then (tr3, Reply_git_failed ''commit'' (strip err))
                                     else (tr3, Reply_encrypted path True)))))))"

definition lock_cmd :: "pystr list" where
  "lock_cmd = [''git-crypt'', ''lock'']"

text \<open>
  \<open>_read_then_relock\<close>: the content (\<open>None\<close> when reading raised), and the warning of a
  failed re-lock; or the error of the unlock.
\<close>

definition read_then_relock ::
  "vault \<Rightarrow> pystr list \<Rightarrow> pystr list \<Rightarrow> vault_event list
     \<Rightarrow> vault_event list \<times> (vault_error + pystr option \<times> pystr option)" where
  "read_then_relock v repo target tr =
     (let was_locked = is_locked v repo tr in
      case ensure_unlocked v repo tr of
        (tr1, Some e) \<Rightarrow> (tr1, Inl e)
      | (tr1, None) \<Rightarrow>
          (let content = vt_read v tr1 target in
           if was_locked then
             (case run_cmd v lock_cmd tr1 of
                (tr2, rc, err) \<Rightarrow>
                  (tr2, Inr (content, if rc \<noteq> 0 then Some (strip err) else None)))
           else (tr1, Inr (content, None))))"

text \<open>The common start of \<open>secrets_decrypt\<close> and \<open>secrets_list_keys\<close>.\<close>

definition with_secret_file ::
  "vault \<Rightarrow> secrets_config \<Rightarrow> pystr \<Rightarrow> vault_event list
     \<Rightarrow> (pystr list \<Rightarrow> pystr \<Rightarrow> pystr option \<Rightarrow> secrets_reply) \<Rightarrow> vault_event list \<times> secrets_reply" where
  "with_secret_file v cfg path tr answer =
     (case sc_repo cfg of
        Inl e \<Rightarrow> (tr, Reply_vault_error e)
      | Inr repo \<Rightarrow>
          (case sc_key cfg of
             Inl e \<Rightarrow> (tr, Reply_vault_error e)
           | Inr key \<Rightarrow>
               (case check_path (vt_resolve v) repo path of
                  Inl e \<Rightarrow> (tr, Reply_path_error e)
                | Inr target \<Rightarrow>
                    if vt_read v tr target = None then (tr, Reply_not_found path)
                    else (case read_then_relock v repo target tr of
                            (tr1, Inl e) \<Rightarrow> (tr1, Reply_vault_error e)
                          | (tr1, Inr (None, w)) \<Rightarrow> (tr1, Reply_read_failed)
                          | (tr1, Inr (Some content, w)) \<Rightarrow> (tr1, answer target content w)))))"

definition secrets_decrypt ::
  "vault \<Rightarrow> secrets_config \<Rightarrow> pystr \<Rightarrow> vault_event list \<Rightarrow> vault_event list \<times> secrets_reply" where
  "secrets_decrypt v cfg path tr =
     (if \<not> sc_enabled cfg then (tr, Reply_disabled)
      else if \<not> sc_allow_decrypt cfg then (tr, Reply_decrypt_disabled)
      else with_secret_file v cfg path tr
             (\<lambda>target content w. Reply_content path (detect_format target content) w))"

definition secrets_list_keys ::
  "vault \<Rightarrow> secrets_config \<Rightarrow> pystr \<Rightarrow> vault_event list \<Rightarrow> vault_event list \<times> secrets_reply" where
  "secrets_list_keys v cfg path tr =
     (if \<not> sc_enabled cfg then (tr, Reply_disabled)
      else with_secret_file v cfg path tr
             (\<lambda>target content w. Reply_keys path (map fst (parse_dotenv content)) w))"

definition secrets_rotate :: "secrets_config \<Rightarrow> secrets_reply" where
  "secrets_rotate cfg =
     (if sc_read_only cfg then Reply_read_only
      else if \<not> sc_enabled cfg then Reply_disabled else Reply_manual_rotation)"

text \<open>The end of \<open>secrets_add\<close>, once the path is covered by an attributes entry.\<close>

definition store_secret ::
  "vault \<Rightarrow> pystr list \<Rightarrow> pystr list \<Rightarrow> pystr \<Rightarrow> pystr \<Rightarrow> pystr \<Rightarrow> vault_event list
     \<Rightarrow> vault_event list \<times> secrets_reply" where
  "store_secret v repo target key val path tr =
     (case ensure_unlocked v repo tr of
        (tr1, Some e) \<Rightarrow> (tr1, Reply_vault_error e)
      | (tr1, None) \<Rightarrow>
          (let tr2 = tr1 @ [Ev_mkdir (butlast target)];
               existing = (case vt_read v tr2 target of None \<Rightarrow> [] | Some t \<Rightarrow> t);
               tr3 = tr2 @ [Ev_write target
                 (serialize_dotenv (dict_set key val (parse_dotenv existing)))]
           in case run_cmd v [''git'', ''add'', path] tr3 of
                (tr4, rc, err) \<Rightarrow>
                  if rc \<noteq> 0 then (tr4, Reply_git_failed ''add'' (strip err))
                  else (tr4, Reply_staged path key)))"

fun is_error_reply :: "secrets_reply \<Rightarrow> bool" where
  "is_error_reply (Reply_encrypted p b) = False"
| "is_error_reply (Reply_content p c w) = False"
| "is_error_reply (Reply_keys p ks w) = False"
| "is_error_reply (Reply_staged p k) = False"
| "is_error_reply r = True"

definition secrets_add ::
  "vault \<Rightarrow> secrets_config \<Rightarrow> pystr \<Rightarrow> pystr \<Rightarrow> pystr \<Rightarrow> vault_event list
     \<Rightarrow> vault_event list \<times> secrets_reply" where
  "secrets_add v cfg key val path tr =
     (if sc_read_only cfg then (tr, Reply_read_only)
      else if \<not> sc_enabled cfg then (tr, Reply_disabled)
      else case sc_repo cfg of
        Inl e \<Rightarrow> (tr, Reply_vault_error e)
      | Inr repo \<Rightarrow>
          (case sc_key cfg of
             Inl e \<Rightarrow> (tr, Reply_vault_error e)
           | Inr k \<Rightarrow>
               (case check_path (vt_resolve v) repo path of
                  Inl e \<Rightarrow> (tr, Reply_path_error e)
                | Inr target \<Rightarrow>
                    (case check_attr_path path of
                       Some e \<Rightarrow> (tr, Reply_path_error e)
                     | None \<Rightarrow>
                         (case check_dotenv_entry key val of
                            Some e \<Rightarrow> (tr, Reply_path_error e)
                          | None \<Rightarrow>
                              (let attrs = (case vt_read v tr (attributes_file repo) of
                                              None \<Rightarrow> [] | Some t \<Rightarrow> t) in
                               if has_gitattributes_entry attrs path
                               then store_secret v repo target key val path tr
                               else (case secrets_encrypt v cfg path tr of
                                       (tr1, r) \<Rightarrow>
                                         if is_error_reply r then (tr1, r)
                                         else store_secret v repo target key val path tr1)))))))"

section \<open>Lemmas\<close>

definition plain_events :: "vault_event list \<Rightarrow> bool" where
  "plain_events evs \<longleftrightarrow> (\<forall>p c. Ev_write p c \<notin> set evs)"

lemma ensure_unlocked_events:
  "\<exists>evs. fst (ensure_unlocked v repo tr) = tr @ evs \<and> plain_events evs \<and>
     (evs = [] \<longleftrightarrow> \<not> is_locked v repo tr) \<and>
     (evs \<noteq> [] \<longrightarrow> hd evs = Ev_key_file True \<and> last evs = Ev_key_file False)"
  by (auto simp: ensure_unlocked_def Let_def run_cmd_def plain_events_def split_beta)

text \<open>A covered path: an entry is there already, or the trace added one and committed it.\<close>

definition committed_entry :: "vault \<Rightarrow> pystr list \<Rightarrow> pystr \<Rightarrow> vault_event list \<Rightarrow> vault_event list \<Rightarrow> bool" where
  "committed_entry v repo path tr evs \<longleftrightarrow>
     (\<exists>u. evs = [Ev_write (attributes_file repo) u, Ev_run [''git'', ''add'', ''.gitattributes''],
                Ev_run [''git'', ''commit'', ''-m'', ''chore: encrypt '' @ path]] \<and>
          has_gitattributes_entry u path \<and>
          fst (vt_run v (tr @ take 1 evs) [''git'', ''add'', ''.gitattributes'']) = 0 \<and>
          fst (vt_run v (tr @ take 2 evs) [''git'', ''commit'', ''-m'', ''chore: encrypt '' @ path]) = 0)"

definition covered :: "vault \<Rightarrow> pystr list \<Rightarrow> pystr \<Rightarrow> vault_event list \<Rightarrow> bool" where
  "covered v repo path tr \<longleftrightarrow>
     has_gitattributes_entry
       (case vt_read v tr (attributes_file repo) of None \<Rightarrow> [] | Some t \<Rightarrow> t) path"

lemma ensured_has:
  assumes "path \<noteq> []" "check_attr_path path = None" "ensured_attributes current path = Some u"
  shows "has_gitattributes_entry u path"
proof -
  let ?r = "rstrip_by (\<lambda>c. c = CHR 0x0A) current"
  let ?e = "gitattributes_entry path"
  have "u = (if current = [] then ?e @ [CHR 0x0A] else ?r @ CHR 0x0A # ?e @ [CHR 0x0A])"
    using assms(3) by (auto simp: ensured_attributes_def rstrip_by_def split: if_splits)
  then have "splitlines u = (if current = [] then [?e] else splitlines (?r @ [CHR 0x0A]) @ [?e])"
    using splitlines_plain [OF entry_no_break [OF assms(2)]] splitlines_nl [of ?r "?e @ [CHR 0x0A]"]
    by simp
  with strip_entry [OF assms(1,2)] show ?thesis by (auto simp: has_gitattributes_entry_def)
qed

lemma secrets_encrypt_ok:
  assumes "secrets_encrypt v cfg path tr = (tr1, r)" "\<not> is_error_reply r" "path \<noteq> []"
    and "sc_repo cfg = Inr repo"
  shows "(tr1 = tr \<and> covered v repo path tr) \<or>
    (\<exists>evs. tr1 = tr @ evs \<and> committed_entry v repo path tr evs)"
proof -
  let ?cur = "case vt_read v tr (attributes_file repo) of None \<Rightarrow> [] | Some t \<Rightarrow> t"
  have "check_attr_path path = None" "\<exists>t. check_path (vt_resolve v) repo path = Inr t"
    "\<not> sc_read_only cfg" "sc_enabled cfg"
    using assms by (auto simp: secrets_encrypt_def split: sum.splits option.splits if_splits)
  then obtain t where t: "check_path (vt_resolve v) repo path = Inr t"
    and attr: "check_attr_path path = None" and g: "\<not> sc_read_only cfg" "sc_enabled cfg" by blast
  show ?thesis
  proof (cases "ensured_attributes ?cur path")
    case None
    then have "tr1 = tr" using assms(1,4) t attr g
      by (simp add: secrets_encrypt_def ensure_gitattributes_entry_def Let_def)
    moreover have "has_gitattributes_entry ?cur path"
      using None by (simp add: ensured_attributes_def split: if_splits)
    ultimately show ?thesis by (simp add: covered_def)
  next
    case (Some u)
    have "has_gitattributes_entry u path" by (rule ensured_has [OF assms(3) attr Some])
    with Some assms(1,2,4) t attr g show ?thesis
      by (auto simp: secrets_encrypt_def ensure_gitattributes_entry_def Let_def run_cmd_def
          committed_entry_def split_beta split: if_splits)
  qed
qed

lemma store_secret_events:
  assumes "store_secret v repo target key val path tr = (tr', r)"
  shows "\<exists>evs. tr' = tr @ evs \<and> (\<forall>p c. Ev_write p c \<in> set evs \<longrightarrow> p = target)"
proof -
  obtain evs where evs: "fst (ensure_unlocked v repo tr) = tr @ evs" "plain_events evs"
    using ensure_unlocked_events by blast
  obtain tr1 e where u: "ensure_unlocked v repo tr = (tr1, e)" by fastforce
  with evs have tr1: "tr1 = tr @ evs" by simp
  show ?thesis
  proof (cases e)
    case (Some x)
    with assms u tr1 evs(2) show ?thesis by (auto simp: store_secret_def plain_events_def)
  next
    case None
    with assms u tr1 evs(2) show ?thesis
      by (auto simp: store_secret_def plain_events_def Let_def run_cmd_def split_beta split: if_splits)
  qed
qed

definition example_vault :: vault where
  "example_vault =
     \<lparr>vt_read = (\<lambda>tr p. if p = [''repo'', ''.gitattributes'']
                        then Some ''app/.env filter=git-crypt diff=git-crypt''
                        else if p = [''repo'', ''app'', ''.env''] then Some ''A=1'' else None),
      vt_run = (\<lambda>tr cmd. (0, [])),
      vt_files = (\<lambda>tr. [([''app'', ''.env''], Some (CHR 0x00 # ''GITCRYPT''))]),
      vt_resolve = (\<lambda>p. p), vt_temp_key = ''k''\<rparr>"

definition example_secrets :: secrets_config where
  "example_secrets =
     \<lparr>sc_enabled = True, sc_allow_decrypt = True, sc_read_only = False,
      sc_repo = Inr [''repo''], sc_key = Inr ''key''\<rparr>"

section \<open>Properties\<close>



text \<open>
  Plaintext does not outlive a read: \<open>secrets_decrypt\<close> writes no file and removes its
  temporary key file, returns content only when decryption is allowed and the path was
  checked, and when the repository was locked before, the last thing it did before
  returning the content is to run the lock command.
\<close>
theorem secret_read_relocks:
  assumes "secrets_decrypt v cfg path tr = (tr', r)"
  shows "\<exists>evs. tr' = tr @ evs \<and> (\<forall>p c. Ev_write p c \<notin> set evs) \<and>
    (Ev_key_file True \<in> set evs \<longrightarrow> Ev_key_file False \<in> set evs) \<and>
    (\<forall>c w. r = Reply_content path c w \<longrightarrow>
       sc_enabled cfg \<and> sc_allow_decrypt cfg \<and>
       (\<exists>repo target. sc_repo cfg = Inr repo \<and> check_path (vt_resolve v) repo path = Inr target \<and>
          (is_locked v repo tr \<longrightarrow> evs \<noteq> [] \<and> last evs = Ev_run lock_cmd)))"
proof (cases "tr' = tr \<and> is_error_reply r")
  case True
  then show ?thesis by auto
next
  case False
  then have g: "sc_enabled cfg" "sc_allow_decrypt cfg"
    and w: "with_secret_file v cfg path tr
      (\<lambda>target content w. Reply_content path (detect_format target content) w) = (tr', r)"
    using assms by (auto simp: secrets_decrypt_def split: if_splits)
  obtain repo where repo: "sc_repo cfg = Inr repo"
    using w False by (cases "sc_repo cfg") (auto simp: with_secret_file_def)
  obtain k where k: "sc_key cfg = Inr k"
    using w False repo by (cases "sc_key cfg") (auto simp: with_secret_file_def)
  obtain target where t: "check_path (vt_resolve v) repo path = Inr target"
    using w False repo k
    by (cases "check_path (vt_resolve v) repo path") (auto simp: with_secret_file_def)
  obtain tr1 e where u: "ensure_unlocked v repo tr = (tr1, e)" by fastforce
  with ensure_unlocked_events [of v repo tr] obtain evs where
    evs: "tr1 = tr @ evs" "plain_events evs" "evs = [] \<longleftrightarrow> \<not> is_locked v repo tr"
      "evs \<noteq> [] \<longrightarrow> hd evs = Ev_key_file True \<and> last evs = Ev_key_file False" by auto
  have key: "Ev_key_file False \<in> set evs" if "evs \<noteq> []" using evs(4) that by (metis last_in_set)
  have present: "vt_read v tr target \<noteq> None"
    using w False repo k t by (auto simp: with_secret_file_def split: if_splits)
  have "tr' = (if e = None \<and> is_locked v repo tr then tr1 @ [Ev_run lock_cmd] else tr1)"
    "\<forall>c w. r = Reply_content path c w \<longrightarrow> e = None"
    using w repo k t u present
    by (auto simp: with_secret_file_def read_then_relock_def Let_def run_cmd_def
        split: option.splits prod.splits)
  with evs key g repo t show ?thesis
    by (cases "e = None \<and> is_locked v repo tr") (auto simp: plain_events_def)
qed

theorem secret_read_relocks_witness:
  "last (fst (secrets_decrypt example_vault example_secrets ''app/.env'' [])) = Ev_run lock_cmd"
proof -
  let ?s = "secrets_decrypt example_vault example_secrets ''app/.env'' []"
  have r: "snd ?s = Reply_content ''app/.env'' (Parsed_dotenv [(''A'', ''1'')]) None" by code_simp
  have l: "is_locked example_vault [''repo''] []" by code_simp
  have eq: "?s = (fst ?s, Reply_content ''app/.env'' (Parsed_dotenv [(''A'', ''1'')]) None)"
    by (metis prod.collapse r)
  from secret_read_relocks [OF eq] obtain repo where "sc_repo example_secrets = Inr repo"
    "is_locked example_vault repo [] \<longrightarrow> last (fst ?s) = Ev_run lock_cmd"
    by auto
  with l show ?thesis by (simp add: example_secrets_def)
qed

end
