(* ===== verification/Regex.thy ===== *)
theory Regex
  imports Prelude
begin

text \<open>
  The part of Python's \<open>re\<close> the source uses: ordered alternatives and greedy repetition
  with backtracking. \<open>rx_ways r p s\<close> lists the ways \<open>r\<close> can match a prefix of \<open>s\<close>, in the
  order the engine tries them, as the reversed text before the end of the match and the
  text after it; the first of them is the match.
\<close>

datatype rx =
    Rx_char "char \<Rightarrow> bool"
  | Rx_empty
  | Rx_seq rx rx
  | Rx_alt rx rx
  | Rx_star rx
  | Rx_boundary
  | Rx_end

definition is_word_char :: "char \<Rightarrow> bool" where
  "is_word_char c \<longleftrightarrow>
     is_ascii_alpha c \<or> is_ascii_digit c \<or> c = CHR ''_'' \<or>
     (let n = code_point c in
      n \<in> {170, 178, 179, 181, 185, 186, 188, 189, 190} \<or>
      (192 \<le> n \<and> n \<noteq> 215 \<and> n \<noteq> 247))"

definition at_boundary :: "pystr \<Rightarrow> pystr \<Rightarrow> bool" where
  "at_boundary p s \<longleftrightarrow> (p \<noteq> [] \<and> is_word_char (hd p)) \<noteq> (s \<noteq> [] \<and> is_word_char (hd s))"

primrec star_ways ::
  "(pystr \<Rightarrow> pystr \<Rightarrow> (pystr \<times> pystr) list) \<Rightarrow> nat \<Rightarrow> pystr \<Rightarrow> pystr \<Rightarrow> (pystr \<times> pystr) list" where
  "star_ways f 0 p s = [(p, s)]"
| "star_ways f (Suc n) p s =
     concat (map (\<lambda>(p', s'). star_ways f n p' s') (filter (\<lambda>(p', s'). length s' < length s) (f p s)))
     @ [(p, s)]"

primrec rx_ways :: "rx \<Rightarrow> pystr \<Rightarrow> pystr \<Rightarrow> (pystr \<times> pystr) list" where
  "rx_ways (Rx_char f) p s = (case s of [] \<Rightarrow> [] | c # s' \<Rightarrow> if f c then [(c # p, s')] else [])"
| "rx_ways Rx_empty p s = [(p, s)]"
| "rx_ways (Rx_seq a b) p s = concat (map (\<lambda>(p', s'). rx_ways b p' s') (rx_ways a p s))"
| "rx_ways (Rx_alt a b) p s = rx_ways a p s @ rx_ways b p s"
| "rx_ways (Rx_star a) p s = star_ways (rx_ways a) (length s) p s"
| "rx_ways Rx_boundary p s = (if at_boundary p s then [(p, s)] else [])"
| "rx_ways Rx_end p s = (if s = [] then [(p, s)] else [])"

text \<open>Shorthands: a literal, a character class repeated at least once, between two bounds.\<close>

fun rx_text :: "pystr \<Rightarrow> rx" where
  "rx_text [] = Rx_empty"
| "rx_text (c # s) = Rx_seq (Rx_char (\<lambda>d. d = c)) (rx_text s)"

definition rx_plus :: "rx \<Rightarrow> rx" where
  "rx_plus r = Rx_seq r (Rx_star r)"

definition rx_opt :: "rx \<Rightarrow> rx" where
  "rx_opt r = Rx_alt r Rx_empty"

primrec rx_times :: "nat \<Rightarrow> rx \<Rightarrow> rx" where
  "rx_times 0 r = Rx_empty"
| "rx_times (Suc n) r = Rx_seq r (rx_times n r)"

primrec rx_upto :: "nat \<Rightarrow> rx \<Rightarrow> rx" where
  "rx_upto 0 r = Rx_empty"
| "rx_upto (Suc n) r = Rx_alt (Rx_seq r (rx_upto n r)) Rx_empty"

text \<open>\<open>re.match\<close> from a position: the text matched and what follows.\<close>

definition rx_match_at :: "rx \<Rightarrow> pystr \<Rightarrow> pystr \<Rightarrow> (pystr \<times> pystr) option" where
  "rx_match_at r p s =
     (case rx_ways r p s of [] \<Rightarrow> None | (p', s') # _ \<Rightarrow> Some (take (length s - length s') s, s'))"

text \<open>\<open>findall\<close>: the matched texts, left to right, without overlap.\<close>

fun findall_from :: "nat \<Rightarrow> rx \<Rightarrow> pystr \<Rightarrow> pystr \<Rightarrow> pystr list" where
  "findall_from 0 r p s = []"
| "findall_from (Suc n) r p s =
     (case rx_match_at r p s of
        Some (m, s') \<Rightarrow>
          if m = [] then [] # (case s of [] \<Rightarrow> [] | c # t \<Rightarrow> findall_from n r (c # p) t)
          else m # findall_from n r (rev m @ p) s'
      | None \<Rightarrow> (case s of [] \<Rightarrow> [] | c # t \<Rightarrow> findall_from n r (c # p) t))"

definition rx_findall :: "rx \<Rightarrow> pystr \<Rightarrow> pystr list" where
  "rx_findall r s = findall_from (Suc (length s)) r [] s"

section \<open>Lemmas\<close>

text \<open>Every way consumes a prefix.\<close>

lemma star_ways_split:
  assumes "\<And>p s p' s'. (p', s') \<in> set (f p s) \<Longrightarrow> \<exists>w. s = w @ s' \<and> p' = rev w @ p"
  shows "(p', s') \<in> set (star_ways f n p s) \<Longrightarrow> \<exists>w. s = w @ s' \<and> p' = rev w @ p"
proof (induction n arbitrary: p s)
  case 0
  then show ?case by simp
next
  case (Suc n)
  then consider "p' = p" "s' = s"
    | q t where "(q, t) \<in> set (f p s)" "(p', s') \<in> set (star_ways f n q t)" by auto
  then show ?case
  proof cases
    case 1
    then show ?thesis by simp
  next
    case 2
    then obtain w v where "s = w @ t" "q = rev w @ p" "t = v @ s'" "p' = rev v @ q"
      using assms Suc.IH by blast
    then show ?thesis by (intro exI [of _ "w @ v"]) simp
  qed
qed

lemma rx_ways_split: "(p', s') \<in> set (rx_ways r p s) \<Longrightarrow> \<exists>w. s = w @ s' \<and> p' = rev w @ p"
proof (induction r arbitrary: p s p' s')
  case (Rx_char f)
  then show ?case by (auto split: list.splits if_splits)
next
  case (Rx_seq a b)
  then obtain q t where "(q, t) \<in> set (rx_ways a p s)" "(p', s') \<in> set (rx_ways b q t)" by auto
  then obtain w v where "s = w @ t" "q = rev w @ p" "t = v @ s'" "p' = rev v @ q"
    using Rx_seq.IH by blast
  then show ?case by (intro exI [of _ "w @ v"]) simp
next
  case (Rx_star a)
  have "(p', s') \<in> set (star_ways (rx_ways a) (length s) p s)" using Rx_star.prems by simp
  then show ?case by (rule star_ways_split [rotated]) (rule Rx_star.IH)
qed (auto split: if_splits)

lemma rx_match_at_split: "rx_match_at r p s = Some (m, s') \<Longrightarrow> s = m @ s'"
proof -
  assume "rx_match_at r p s = Some (m, s')"
  then obtain q rest where q: "rx_ways r p s = (q, s') # rest" "m = take (length s - length s') s"
    by (auto simp: rx_match_at_def split: list.splits)
  then obtain w where "s = w @ s'" using rx_ways_split [of q s' r p s] by auto
  with q(2) show ?thesis by simp
qed

text \<open>Every match of \<open>findall\<close> is a part of the text.\<close>

lemma findall_from_part: "m \<in> set (findall_from n r p s) \<Longrightarrow> \<exists>u v. s = u @ m @ v"
proof (induction n arbitrary: p s)
  case 0
  then show ?case by simp
next
  case (Suc n)
  have skip: "\<exists>u v. s = u @ m @ v" if "s = c # t" "m \<in> set (findall_from n r (c # p) t)" for c t
  proof -
    from Suc.IH [OF that(2)] obtain u v where "t = u @ m @ v" by blast
    then show ?thesis using that(1) by (intro exI [of _ "c # u"] exI [of _ v]) simp
  qed
  show ?case
  proof (cases "rx_match_at r p s")
    case None
    with Suc.prems skip show ?thesis by (cases s) auto
  next
    case (Some x)
    obtain w s' where x: "x = (w, s')" by fastforce
    then have s: "s = w @ s'" using Some rx_match_at_split by simp
    show ?thesis
    proof (cases "w = []")
      case True
      then have "m = [] \<or> (\<exists>c t. s = c # t \<and> m \<in> set (findall_from n r (c # p) t))"
        using Suc.prems Some x by (cases s) auto
      then show ?thesis
      proof
        assume "m = []"
        then show ?thesis by (intro exI [of _ s] exI [of _ "[]"]) simp
      qed (use skip in blast)
    next
      case False
      with Suc.prems Some x consider "m = w" | "m \<in> set (findall_from n r (rev w @ p) s')" by auto
      then show ?thesis
      proof cases
        case 1
        then show ?thesis using s by (intro exI [of _ "[]"] exI [of _ s']) simp
      next
        case 2
        from Suc.IH [OF this] obtain u v where "s' = u @ m @ v" by blast
        then show ?thesis using s by (intro exI [of _ "w @ u"] exI [of _ v]) simp
      qed
    qed
  qed
qed

lemma rx_findall_part: "m \<in> set (rx_findall r s) \<Longrightarrow> \<exists>u v. s = u @ m @ v"
  unfolding rx_findall_def by (rule findall_from_part)

end
