(* ===== verification/WebhookSchemas.thy ===== *)
theory WebhookSchemas
  imports Models Regex
begin

text \<open>
  \<open>webhooks/schemas.py\<close>: the two Dockhand alert bodies and their reduction to one
  normalized alert. Validation is what pydantic does for the declared field types
  (strict strings, unknown keys ignored); a reason for ignoring an alert is a constructor.
\<close>

section \<open>Severities and kinds\<close>

definition severity_rank :: "pystr \<Rightarrow> nat option" where
  "severity_rank s =
     map_of [(''none'', 0), (''unknown'', 0), (''low'', 1), (''medium'', 2), (''moderate'', 2),
             (''high'', 3), (''critical'', 4)] s"

definition UPDATE_KEYWORDS :: "pystr list" where
  "UPDATE_KEYWORDS = [''update'', ''updated'', ''upgrade'', ''new version'', ''new image'']"

definition VULN_KEYWORDS :: "pystr list" where
  "VULN_KEYWORDS = [''vulnerab'', ''cve'', ''scan'', ''security'']"

datatype alert_kind = Kind_image_update | Kind_vulnerability | Kind_ignored

text \<open>\<open>_classify\<close>; the list of ignored keywords changes nothing, both its outcomes are ignored.\<close>

definition classify :: "pystr \<Rightarrow> alert_kind" where
  "classify t =
     (let lowered = lower t in
      if list_ex (contains lowered) VULN_KEYWORDS then Kind_vulnerability
      else if list_ex (contains lowered) UPDATE_KEYWORDS then Kind_image_update
      else Kind_ignored)"

definition severity_meets :: "pystr option \<Rightarrow> pystr \<Rightarrow> bool" where
  "severity_meets severity minimum =
     (if \<not> truthy severity then False
      else case severity_rank (lower (strip (case severity of None \<Rightarrow> [] | Some s \<Rightarrow> s))) of
             None \<Rightarrow> True
           | Some got \<Rightarrow>
               (case severity_rank (lower (strip minimum)) of None \<Rightarrow> 3 | Some f \<Rightarrow> f) \<le> got)"

section \<open>Image references\<close>

definition parse_image_ref :: "pystr \<Rightarrow> pystr \<times> pystr" where
  "parse_image_ref raw =
     (let ref = strip raw in
      if ref = [] then ([], [])
      else if CHR ''@'' \<in> set ref then (fst (partition_at (CHR ''@'') ref), [])
      else if starts_with (lower ref) ''sha256:'' then ([], [])
      else case rpartition_at (CHR '':'') ref of (head, found, tail) \<Rightarrow>
        if \<not> found \<or> CHR ''/'' \<in> set tail then (ref, []) else (head, tail))"

section \<open>Alerts\<close>

datatype ignore_reason =
    Below_severity "pystr option" pystr
  | No_image_reference
  | No_target_tag
  | No_container_name
  | Not_actionable pystr

record normalized_alert =
  na_kind :: alert_kind
  na_container :: pystr
  na_image :: pystr
  na_current_tag :: pystr
  na_new_tag :: pystr
  na_node :: "pystr option"
  na_severity :: "pystr option"
  na_cve_ids :: "pystr list"
  na_raw_event :: pystr
  na_reason :: "ignore_reason option"

text \<open>A \<open>NormalizedAlert\<close> with the defaults of the model.\<close>

definition blank_alert :: "alert_kind \<Rightarrow> pystr \<Rightarrow> pystr option \<Rightarrow> pystr \<Rightarrow> normalized_alert" where
  "blank_alert kind container node raw =
     \<lparr>na_kind = kind, na_container = container, na_image = [], na_current_tag = [],
      na_new_tag = [], na_node = node, na_severity = None, na_cve_ids = [],
      na_raw_event = raw, na_reason = None\<rparr>"

definition or_default :: "pystr option \<Rightarrow> pystr" where
  "or_default v = (case v of None \<Rightarrow> [] | Some s \<Rightarrow> s)"

definition first_text :: "pystr \<Rightarrow> pystr \<Rightarrow> pystr" where
  "first_text a b = (if a \<noteq> [] then a else b)"

record structured_alert =
  sa_event :: pystr
  sa_container :: pystr
  sa_current_image :: "pystr option"
  sa_latest_image :: "pystr option"
  sa_server :: "pystr option"
  sa_severity :: "pystr option"
  sa_cve_ids :: "pystr list"
  sa_fixed_image :: "pystr option"

definition normalize_structured :: "pystr \<Rightarrow> structured_alert \<Rightarrow> normalized_alert" where
  "normalize_structured min_severity a =
     (let base = (\<lambda>kind. blank_alert kind (sa_container a) (sa_server a) (sa_event a)) in
      case classify (sa_event a) of
        Kind_vulnerability \<Rightarrow>
          if \<not> severity_meets (sa_severity a) min_severity
          then (base Kind_ignored)\<lparr>na_severity := sa_severity a,
                 na_reason := Some (Below_severity (sa_severity a) min_severity)\<rparr>
          else
            (case parse_image_ref (or_default (sa_current_image a)) of (repo, current_tag) \<Rightarrow>
             case parse_image_ref
                    (or_default (or_text (sa_fixed_image a) (sa_latest_image a))) of
               (fixed_repo, fixed_tag) \<Rightarrow>
                 if repo = [] \<and> fixed_repo = []
                 then (base Kind_ignored)\<lparr>na_severity := sa_severity a,
                        na_reason := Some No_image_reference\<rparr>
                 else (base Kind_vulnerability)
                        \<lparr>na_image := first_text repo fixed_repo, na_current_tag := current_tag,
                         na_new_tag := fixed_tag, na_severity := sa_severity a,
                         na_cve_ids := sa_cve_ids a\<rparr>)
      | Kind_image_update \<Rightarrow>
          (case parse_image_ref (or_default (sa_current_image a)) of (repo, current_tag) \<Rightarrow>
           case parse_image_ref (or_default (sa_latest_image a)) of (new_repo, new_tag) \<Rightarrow>
             if new_tag = []
             then (base Kind_ignored)\<lparr>na_reason := Some No_target_tag\<rparr>
             else (base Kind_image_update)
                    \<lparr>na_image := first_text new_repo repo, na_current_tag := current_tag,
                     na_new_tag := new_tag\<rparr>)
      | Kind_ignored \<Rightarrow>
          (base Kind_ignored)\<lparr>na_reason := Some (Not_actionable (sa_event a))\<rparr>)"

section \<open>The generic body\<close>

definition is_ref_char :: "char \<Rightarrow> bool" where
  "is_ref_char c \<longleftrightarrow> is_ascii_alpha c \<or> is_ascii_digit c \<or> c \<in> set ''._-''"

definition kv_rx :: rx where
  "kv_rx =
     Rx_seq Rx_boundary
       (Rx_seq
         (foldr (\<lambda>k r. Rx_alt (rx_text k) r)
           [''new_image'', ''old_image'', ''image'', ''current_image'', ''latest_image'']
           (rx_text ''fixed_image''))
         (Rx_seq (rx_text ''='') (rx_plus (Rx_char (\<lambda>c. \<not> is_space c)))))"

definition ref_rx :: rx where
  "ref_rx =
     (let part = rx_plus (Rx_char is_ref_char);
          port = rx_opt (Rx_seq (rx_text '':'') (rx_plus (Rx_char is_ascii_digit)))
      in Rx_seq Rx_boundary
           (Rx_seq (Rx_star (Rx_seq part (Rx_seq port (rx_text ''/''))))
             (Rx_seq part (Rx_seq (rx_text '':'') (Rx_seq part Rx_boundary)))))"

definition cve_rx :: rx where
  "cve_rx =
     (let digit = Rx_char is_ascii_digit in
      Rx_seq (Rx_char (\<lambda>c. lower [c] = ''c''))
        (Rx_seq (Rx_char (\<lambda>c. lower [c] = ''v''))
          (Rx_seq (Rx_char (\<lambda>c. lower [c] = ''e''))
            (Rx_seq (rx_text ''-'')
              (Rx_seq (rx_times 4 digit)
                (Rx_seq (rx_text ''-'') (Rx_seq (rx_times 4 digit) (rx_upto 3 digit))))))))"

record generic_alert =
  ga_title :: pystr
  ga_message :: pystr
  ga_agent :: "pystr option"

definition generic_container :: "generic_alert \<Rightarrow> pystr" where
  "generic_container a =
     (case partition_at (CHR '':'') (ga_title a) of (h, found, tail) \<Rightarrow>
        if found \<and> strip tail \<noteq> [] then hd (words (strip tail))
        else (case rev (words (ga_title a)) of [] \<Rightarrow> [] | w # _ \<Rightarrow> w))"

text \<open>\<open>dict(_KV_RE.findall(message))\<close>: a later pair replaces an earlier one.\<close>

definition kv_pairs :: "pystr \<Rightarrow> (pystr \<times> pystr) list" where
  "kv_pairs message =
     rev (map (\<lambda>m. case partition_at (CHR ''='') m of (k, f, v) \<Rightarrow> (k, v)) (rx_findall kv_rx message))"

definition pair_text :: "(pystr \<times> pystr) list \<Rightarrow> pystr \<Rightarrow> pystr" where
  "pair_text pairs k = or_default (map_of pairs k)"

text \<open>The new and the old reference of the message.\<close>

definition generic_refs :: "pystr \<Rightarrow> pystr \<times> pystr" where
  "generic_refs message =
     (let pairs = kv_pairs message;
          new_ref = first_text (pair_text pairs ''new_image'')
                      (first_text (pair_text pairs ''image'') (pair_text pairs ''latest_image''));
          old_ref = first_text (pair_text pairs ''old_image'') (pair_text pairs ''current_image'')
      in if new_ref = [] \<and> old_ref = []
         then (case rx_findall ref_rx message of
                 a # b # _ \<Rightarrow> (a, b) | [a] \<Rightarrow> (a, []) | [] \<Rightarrow> ([], []))
         else (new_ref, old_ref))"

definition generic_severity :: "pystr \<Rightarrow> pystr option" where
  "generic_severity message =
     find (contains (lower message)) [''critical'', ''high'', ''medium'', ''moderate'', ''low'']"

definition normalize_generic :: "pystr \<Rightarrow> generic_alert \<Rightarrow> normalized_alert" where
  "normalize_generic min_severity a =
     (let container = generic_container a;
          base = (\<lambda>kind. blank_alert kind container None (ga_title a));
          (new_ref, old_ref) = generic_refs (ga_message a);
          (new_repo, new_tag) = parse_image_ref new_ref;
          (old_repo, old_tag) = parse_image_ref old_ref;
          severity = generic_severity (ga_message a)
      in case classify (ga_title a @ '' '' @ ga_message a) of
        Kind_vulnerability \<Rightarrow>
          if \<not> severity_meets severity min_severity
          then (base Kind_ignored)\<lparr>na_severity := severity,
                 na_reason := Some (Below_severity severity min_severity)\<rparr>
          else if old_repo = [] \<and> new_repo = []
          then (base Kind_ignored)\<lparr>na_severity := severity, na_reason := Some No_image_reference\<rparr>
          else (base Kind_vulnerability)
                 \<lparr>na_image := first_text old_repo new_repo, na_current_tag := old_tag,
                  na_new_tag := new_tag, na_severity := severity,
                  na_cve_ids := map upper_ascii (rx_findall cve_rx (ga_message a))\<rparr>
      | Kind_image_update \<Rightarrow>
          if container = [] then (base Kind_ignored)\<lparr>na_reason := Some No_container_name\<rparr>
          else if new_tag = [] then (base Kind_ignored)\<lparr>na_reason := Some No_target_tag\<rparr>
          else (base Kind_image_update)
                 \<lparr>na_image := first_text new_repo old_repo, na_current_tag := old_tag,
                  na_new_tag := new_tag\<rparr>
      | Kind_ignored \<Rightarrow>
          (base Kind_ignored)\<lparr>na_reason := Some (Not_actionable (ga_title a))\<rparr>)"

section \<open>Validation\<close>

fun as_text :: "json option \<Rightarrow> pystr option" where
  "as_text (Some (JStr s)) = Some s"
| "as_text _ = None"

text \<open>An optional string field: absent, null or a string; \<open>None\<close> when it is anything else.\<close>

fun as_optional_text :: "json option \<Rightarrow> pystr option option" where
  "as_optional_text None = Some None"
| "as_optional_text (Some JNull) = Some None"
| "as_optional_text (Some (JStr s)) = Some (Some s)"
| "as_optional_text (Some _) = None"

fun texts :: "json list \<Rightarrow> pystr list option" where
  "texts [] = Some []"
| "texts (JStr s # js) = (case texts js of None \<Rightarrow> None | Some ss \<Rightarrow> Some (s # ss))"
| "texts (_ # js) = None"

fun as_text_list :: "json option \<Rightarrow> pystr list option" where
  "as_text_list None = Some []"
| "as_text_list (Some (JList js)) = texts js"
| "as_text_list (Some _) = None"

definition validate_structured :: "json \<Rightarrow> structured_alert option" where
  "validate_structured j =
     (case (as_text (json_get j ''event''), as_text (json_get j ''container''),
            as_optional_text (json_get j ''current_image''),
            as_optional_text (json_get j ''latest_image''),
            as_optional_text (json_get j ''server''),
            as_optional_text (json_get j ''severity''),
            as_text_list (json_get j ''cve_ids''),
            as_optional_text (json_get j ''fixed_image'')) of
        (Some ev, Some c, Some cur, Some lat, Some srv, Some sev, Some cves, Some fx) \<Rightarrow>
          Some \<lparr>sa_event = ev, sa_container = c, sa_current_image = cur, sa_latest_image = lat,
                sa_server = srv, sa_severity = sev, sa_cve_ids = cves, sa_fixed_image = fx\<rparr>
      | _ \<Rightarrow> None)"

definition validate_generic :: "json \<Rightarrow> generic_alert option" where
  "validate_generic j =
     (case (as_text (json_get j ''title''),
            (case json_get j ''message'' of None \<Rightarrow> Some [] | m \<Rightarrow> as_text m),
            as_optional_text (json_get j ''agent'')) of
        (Some t, Some m, Some ag) \<Rightarrow> Some \<lparr>ga_title = t, ga_message = m, ga_agent = ag\<rparr>
      | _ \<Rightarrow> None)"

section \<open>Lemmas\<close>

lemma lower_sha: "lower ''sha256:'' = ''sha256:''"
  by (simp add: lower_def lower_char_def code_point_def)

lemma structured_kind:
  "na_kind (normalize_structured m a) = Kind_image_update \<Longrightarrow> na_new_tag (normalize_structured m a) \<noteq> []"
  "na_kind (normalize_structured m a) = Kind_vulnerability \<Longrightarrow>
     na_image (normalize_structured m a) \<noteq> [] \<and>
     severity_meets (na_severity (normalize_structured m a)) m"
  by (auto simp: normalize_structured_def Let_def blank_alert_def first_text_def
      split: alert_kind.splits if_splits prod.splits)

lemma generic_kind:
  "na_kind (normalize_generic m a) = Kind_image_update \<Longrightarrow>
     na_new_tag (normalize_generic m a) \<noteq> [] \<and> na_container (normalize_generic m a) \<noteq> []"
  "na_kind (normalize_generic m a) = Kind_vulnerability \<Longrightarrow>
     na_image (normalize_generic m a) \<noteq> [] \<and> severity_meets (na_severity (normalize_generic m a)) m"
  by (auto simp: normalize_generic_def Let_def blank_alert_def first_text_def
      split: alert_kind.splits if_splits prod.splits)

section \<open>Properties\<close>

text \<open>
  An alert becomes an image update only with a target tag, and a vulnerability only with
  a repository and a severity at or above the threshold, from either body and for any
  content; so an alert whose references are all digests is never turned into a version bump.
\<close>
theorem alerts_actionable:
  "(na_kind (normalize_structured m a) = Kind_image_update \<longrightarrow>
      na_new_tag (normalize_structured m a) \<noteq> []) \<and>
   (na_kind (normalize_structured m a) = Kind_vulnerability \<longrightarrow>
      na_image (normalize_structured m a) \<noteq> [] \<and>
      severity_meets (na_severity (normalize_structured m a)) m) \<and>
   (na_kind (normalize_generic m g) = Kind_image_update \<longrightarrow>
      na_new_tag (normalize_generic m g) \<noteq> [] \<and> na_container (normalize_generic m g) \<noteq> []) \<and>
   (na_kind (normalize_generic m g) = Kind_vulnerability \<longrightarrow>
      na_image (normalize_generic m g) \<noteq> [] \<and>
      severity_meets (na_severity (normalize_generic m g)) m)"
  using structured_kind generic_kind by blast

definition example_generic :: generic_alert where
  "example_generic =
     \<lparr>ga_title = ''Container updated: c1'', ga_message = ''image=nginx:1.27 old_image=nginx:1.25'',
      ga_agent = Some ''Dockhand''\<rparr>"

theorem alerts_actionable_witness:
  "na_new_tag (normalize_generic ''high'' example_generic) \<noteq> []"
proof -
  have "na_kind (normalize_generic ''high'' example_generic) = Kind_image_update" by code_simp
  with alerts_actionable [of "''high''" _ example_generic] show ?thesis by blast
qed

text \<open>
  Image references: a reference with a digest names no tag; one written as repository,
  colon and tag is split back into them, registry port included; and a port is never taken
  for a tag.
\<close>
theorem parse_image_ref_correct:
  assumes "strip ref = ref"
  shows "(CHR ''@'' \<in> set ref \<or> starts_with (lower ref) ''sha256:'' \<longrightarrow> snd (parse_image_ref ref) = []) \<and>
    (CHR ''@'' \<notin> set ref \<and> \<not> starts_with (lower ref) ''sha256:'' \<and> ref = repo @ '':'' @ tag \<and>
       CHR '':'' \<notin> set tag \<longrightarrow>
       parse_image_ref ref = (if CHR ''/'' \<in> set tag then (ref, []) else (repo, tag)))"
proof -
  have r: "rpartition_at (CHR '':'') (repo @ '':'' @ tag) = (repo, True, tag)" if "CHR '':'' \<notin> set tag"
    using that takeWhile_neq_append [of "CHR '':''" "rev tag" "rev repo"]
      dropWhile_neq_append [of "CHR '':''" "rev tag" "rev repo"]
    by (simp add: rpartition_at_def)
  show ?thesis
    using r assms by (auto simp: parse_image_ref_def Let_def)
qed

theorem parse_image_ref_correct_witness:
  "parse_image_ref ''ghcr.io:5000/team/app:v2'' = (''ghcr.io:5000/team/app'', ''v2'')"
proof -
  have "strip ''ghcr.io:5000/team/app:v2'' = ''ghcr.io:5000/team/app:v2''"
    "CHR ''@'' \<notin> set ''ghcr.io:5000/team/app:v2''"
    "\<not> starts_with (lower ''ghcr.io:5000/team/app:v2'') ''sha256:''"
    by code_simp+
  with parse_image_ref_correct [of "''ghcr.io:5000/team/app:v2''" "''ghcr.io:5000/team/app''" "''v2''"]
  show ?thesis by simp
qed

end
