(* ===== verification/DockhandWebhook.thy ===== *)
theory DockhandWebhook
  imports WebhookSchemas WebhookCommon Registry
begin

text \<open>
  \<open>webhooks/dockhand.py\<close>: the receiver of Dockhand alerts. A request holds the headers
  the route reads and the chunks of its body; \<open>loads\<close> stands for \<open>json.loads\<close> (\<open>None\<close>
  when it raises) and the proposal engine's answer is left to \<open>ProposalEngine\<close>: a response
  that calls it carries the call.
\<close>

section \<open>Configuration and authorization\<close>

record dockhand_settings =
  dw_enabled :: bool
  dw_secret :: "pystr option"
  dw_max_body :: nat
  dw_min_severity :: pystr
  dw_vulnerability_enabled :: bool
  dw_read_only :: bool

text \<open>The secret the route compares with; \<open>None\<close>: the route is not registered.\<close>

definition registered_secret :: "dockhand_settings \<Rightarrow> pystr option" where
  "registered_secret cfg =
     (if \<not> dw_enabled cfg then None
      else (let secret = strip (or_default (dw_secret cfg))
            in if secret = [] then None else Some secret))"

record alert_request =
  rq_authorization :: "pystr option"
  rq_token_header :: "pystr option"
  rq_content_length :: "pystr option"
  rq_content_type :: "pystr option"
  rq_body :: "pystr list"

definition provided_secret :: "alert_request \<Rightarrow> pystr" where
  "provided_secret rq =
     (let header = strip (or_default (rq_authorization rq));
          bearer = (if starts_with (lower header) ''bearer '' then drop (length ''bearer '') header else [])
      in strip (if bearer = [] then or_default (rq_token_header rq) else bearer))"

definition authorized :: "pystr \<Rightarrow> alert_request \<Rightarrow> bool" where
  "authorized expected rq \<longleftrightarrow> provided_secret rq \<noteq> [] \<and> provided_secret rq = expected"

section \<open>The route\<close>

text \<open>\<open>_parse_alert\<close>: the structured shape first; \<open>None\<close> when neither validates.\<close>

fun is_object :: "json \<Rightarrow> bool" where
  "is_object (JObj kvs) = True"
| "is_object j = False"

definition parse_alert :: "pystr \<Rightarrow> json \<Rightarrow> normalized_alert option" where
  "parse_alert min_severity payload =
     (if \<not> is_object payload then None
      else case validate_structured payload of
             Some a \<Rightarrow> Some (normalize_structured min_severity a)
           | None \<Rightarrow>
               (case validate_generic payload of
                  Some a \<Rightarrow> Some (normalize_generic min_severity a)
                | None \<Rightarrow> None))"

datatype engine_call =
    Call_vulnerability (call_service: pystr) pystr pystr pystr pystr "pystr list"
  | Call_image_update (call_service: pystr) pystr pystr pystr

datatype webhook_response =
    Resp_read_only
  | Resp_too_large
  | Resp_unauthorized
  | Resp_not_json_type
  | Resp_invalid_json
  | Resp_invalid_payload
  | Resp_ignored "ignore_reason option" pystr
  | Resp_vulnerability_disabled pystr
  | Resp_no_service pystr
  | Resp_engine engine_call

fun response_status :: "webhook_response \<Rightarrow> nat" where
  "response_status Resp_read_only = 403"
| "response_status Resp_too_large = 413"
| "response_status Resp_unauthorized = 403"
| "response_status Resp_not_json_type = 400"
| "response_status Resp_invalid_json = 400"
| "response_status Resp_invalid_payload = 422"
| "response_status (Resp_ignored r c) = 200"
| "response_status (Resp_vulnerability_disabled c) = 200"
| "response_status (Resp_no_service c) = 200"
| "response_status (Resp_engine c) = 200"

text \<open>What the route does with a validated alert.\<close>

definition handle_alert :: "dockhand_settings \<Rightarrow> registry \<Rightarrow> normalized_alert \<Rightarrow> webhook_response" where
  "handle_alert cfg rg alert =
     (if na_kind alert = Kind_ignored then Resp_ignored (na_reason alert) (na_container alert)
      else if na_kind alert = Kind_vulnerability \<and> \<not> dw_vulnerability_enabled cfg
      then Resp_vulnerability_disabled (na_container alert)
      else case get_service (na_container alert) rg of
             None \<Rightarrow> Resp_no_service (na_container alert)
           | Some s \<Rightarrow>
               if na_kind alert = Kind_vulnerability
               then Resp_engine (Call_vulnerability (svc_id s) (na_image alert)
                      (na_current_tag alert) (na_new_tag alert) (or_default (na_severity alert))
                      (na_cve_ids alert))
               else Resp_engine (Call_image_update (svc_id s) (na_image alert)
                      (na_current_tag alert) (na_new_tag alert)))"

definition dockhand_webhook ::
  "(pystr \<Rightarrow> json option) \<Rightarrow> dockhand_settings \<Rightarrow> pystr \<Rightarrow> registry \<Rightarrow> alert_request
     \<Rightarrow> webhook_response" where
  "dockhand_webhook loads cfg expected rg rq =
     (if dw_read_only cfg then Resp_read_only
      else if declared_too_large (rq_content_length rq) (dw_max_body cfg) then Resp_too_large
      else if \<not> authorized expected rq then Resp_unauthorized
      else case read_capped (rq_body rq) (dw_max_body cfg) of
        None \<Rightarrow> Resp_too_large
      | Some raw \<Rightarrow>
          if strip (fst (partition_at (CHR '';'') (or_default (rq_content_type rq)))) \<noteq> ''application/json''
          then Resp_not_json_type
          else (case loads raw of
                  None \<Rightarrow> Resp_invalid_json
                | Some payload \<Rightarrow>
                    (case parse_alert (dw_min_severity cfg) payload of
                       None \<Rightarrow> Resp_invalid_payload
                     | Some alert \<Rightarrow> handle_alert cfg rg alert)))"

section \<open>Lemmas\<close>

lemma read_capped_Some: "read_capped stream limit = Some raw \<Longrightarrow> raw = concat stream \<and> length raw \<le> limit"
  using read_chunks_eq [of 0 "[]" limit stream]
  by (auto simp: read_capped_def split: if_splits)

lemma get_service_mem: "get_service k rg = Some s \<Longrightarrow>
    s \<in> set (rg_services rg) \<and> (svc_id s = k \<or> svc_name s = k)"
  by (auto simp: get_service_def find_Some_iff dest!: get_row_SomeD split: option.splits)

lemma parse_alert_kind:
  assumes "parse_alert m payload = Some alert"
  shows "na_kind alert = Kind_image_update \<Longrightarrow> na_new_tag alert \<noteq> []"
    and "na_kind alert = Kind_vulnerability \<Longrightarrow> na_image alert \<noteq> []"
  using assms structured_kind generic_kind
  by (auto simp: parse_alert_def split: option.splits if_splits)

lemma handle_alert_engine:
  assumes "handle_alert cfg rg alert = Resp_engine call"
  obtains s where "get_service (na_container alert) rg = Some s"
    "call_service call = svc_id s"
    "na_kind alert = Kind_vulnerability \<and> dw_vulnerability_enabled cfg \<and>
       call = Call_vulnerability (svc_id s) (na_image alert) (na_current_tag alert)
         (na_new_tag alert) (or_default (na_severity alert)) (na_cve_ids alert) \<or>
     na_kind alert = Kind_image_update \<and>
       call = Call_image_update (svc_id s) (na_image alert) (na_current_tag alert) (na_new_tag alert)"
proof -
  obtain s where s: "get_service (na_container alert) rg = Some s"
    using assms by (auto simp: handle_alert_def split: if_splits option.splits)
  show ?thesis
    using assms s by (intro that [OF s]; cases "na_kind alert")
      (auto simp: handle_alert_def split: if_splits)
qed

section \<open>Properties\<close>

text \<open>
  C4: The receiver fails closed: whatever is sent, the proposal engine is called at most once
  and only for a request that carries the configured secret while the server may write,
  whose real body is within the limit and parses as a JSON alert, for a registered service
  the alert names; an image update is never requested without a target tag nor a vulnerability response
  without a repository, or at all when they are disabled.
\<close>
theorem webhook_fails_closed:
  assumes "dockhand_webhook loads cfg expected rg rq = Resp_engine call"
  shows "\<not> dw_read_only cfg \<and> provided_secret rq = expected \<and> provided_secret rq \<noteq> [] \<and>
    length (concat (rq_body rq)) \<le> dw_max_body cfg \<and>
    (\<exists>payload alert. loads (concat (rq_body rq)) = Some payload \<and>
       parse_alert (dw_min_severity cfg) payload = Some alert \<and>
       (\<exists>s \<in> set (rg_services rg). call_service call = svc_id s \<and>
          (svc_id s = na_container alert \<or> svc_name s = na_container alert)) \<and>
       (\<forall>i img cur new. call = Call_image_update i img cur new \<longrightarrow> new \<noteq> []) \<and>
       (\<forall>i img cur new sev cves. call = Call_vulnerability i img cur new sev cves \<longrightarrow>
          img \<noteq> [] \<and> dw_vulnerability_enabled cfg))"
proof -
  obtain raw payload alert where r: "read_capped (rq_body rq) (dw_max_body cfg) = Some raw"
    "loads raw = Some payload" "parse_alert (dw_min_severity cfg) payload = Some alert"
    "handle_alert cfg rg alert = Resp_engine call" "\<not> dw_read_only cfg" "authorized expected rq"
    using assms by (auto simp: dockhand_webhook_def split: if_splits option.splits)
  from handle_alert_engine [OF r(4)] obtain s where
    s: "get_service (na_container alert) rg = Some s" "call_service call = svc_id s"
    and c: "na_kind alert = Kind_vulnerability \<and> dw_vulnerability_enabled cfg \<and>
       call = Call_vulnerability (svc_id s) (na_image alert) (na_current_tag alert)
         (na_new_tag alert) (or_default (na_severity alert)) (na_cve_ids alert) \<or>
     na_kind alert = Kind_image_update \<and>
       call = Call_image_update (svc_id s) (na_image alert) (na_current_tag alert) (na_new_tag alert)"
    by blast
  have raw: "raw = concat (rq_body rq)" "length raw \<le> dw_max_body cfg"
    using read_capped_Some [OF r(1)] by blast+
  have "\<exists>s \<in> set (rg_services rg). call_service call = svc_id s \<and>
      (svc_id s = na_container alert \<or> svc_name s = na_container alert)"
    using get_service_mem [OF s(1)] s(2) by blast
  moreover have "\<forall>i img cur new. call = Call_image_update i img cur new \<longrightarrow> new \<noteq> []"
    "\<forall>i img cur new sev cves. call = Call_vulnerability i img cur new sev cves \<longrightarrow>
       img \<noteq> [] \<and> dw_vulnerability_enabled cfg"
    using c parse_alert_kind [OF r(3)] by auto
  ultimately show ?thesis using r(2,3,5,6) raw unfolding authorized_def by blast
qed

text \<open>
  Dockhand is never made to retry an alert it cannot improve: once a request is
  authorized, within the limit and holds a valid alert, the answer is 200, whether the
  alert is acted on, ignored or names no service; and without an enabled receiver with
  a secret that is not blank there is no route at all.
\<close>
theorem webhook_statuses:
  assumes "\<not> dw_read_only cfg" "authorized expected rq"
    and "\<not> declared_too_large (rq_content_length rq) (dw_max_body cfg)"
    and "length (concat (rq_body rq)) \<le> dw_max_body cfg"
    and "strip (fst (partition_at (CHR '';'') (or_default (rq_content_type rq)))) = ''application/json''"
    and "loads (concat (rq_body rq)) = Some payload" "parse_alert (dw_min_severity cfg) payload \<noteq> None"
  shows "response_status (dockhand_webhook loads cfg expected rg rq) = 200"
proof -
  have "read_capped (rq_body rq) (dw_max_body cfg) = Some (concat (rq_body rq))"
    using read_chunks_eq [of 0 "[]" "dw_max_body cfg" "rq_body rq"] assms(4)
    by (simp add: read_capped_def)
  moreover have "response_status (handle_alert cfg rg alert) = 200" for alert
    by (simp add: handle_alert_def split: option.splits)
  ultimately show ?thesis
    using assms by (auto simp: dockhand_webhook_def)
qed

text \<open>
  No secret, no endpoint: the route is registered exactly when it is enabled and its
  secret is more than white space, and a request without a secret is never authorized
  against it, whatever the other headers say.
\<close>
theorem webhook_registration:
  "(registered_secret cfg = None \<longleftrightarrow> \<not> dw_enabled cfg \<or> strip (or_default (dw_secret cfg)) = []) \<and>
   (\<forall>expected. registered_secret cfg = Some expected \<longrightarrow>
      expected \<noteq> [] \<and> \<not> authorized expected (rq\<lparr>rq_authorization := None, rq_token_header := None\<rparr>))"
  by (auto simp: registered_secret_def Let_def authorized_def provided_secret_def or_default_def
      starts_with_def lower_def)

section \<open>Witnesses\<close>

definition example_dw :: dockhand_settings where
  "example_dw =
     \<lparr>dw_enabled = True, dw_secret = Some ''s3'', dw_max_body = 100, dw_min_severity = ''high'',
      dw_vulnerability_enabled = True, dw_read_only = False\<rparr>"

definition example_rq :: alert_request where
  "example_rq =
     \<lparr>rq_authorization = Some ''Bearer s3'', rq_token_header = None, rq_content_length = None,
      rq_content_type = Some ''application/json'', rq_body = [''{}'']\<rparr>"

definition example_payload :: json where
  "example_payload =
     JObj [(''title'', JStr ''Container updated: web''), (''message'', JStr ''image=nginx:1.27'')]"

definition example_web :: registry where
  "example_web = empty_registry\<lparr>rg_services := [new_service ''id1'' ''web'' ''Web'' 0]\<rparr>"

theorem webhook_fails_closed_witness:
  "provided_secret example_rq = ''s3''"
proof -
  have "dockhand_webhook (\<lambda>s. Some example_payload) example_dw ''s3'' example_web example_rq =
      Resp_engine (Call_image_update ''id1'' ''nginx'' [] ''1.27'')" by code_simp
  from webhook_fails_closed [OF this] show ?thesis by blast
qed

theorem webhook_statuses_witness:
  "response_status (dockhand_webhook (\<lambda>s. Some example_payload) example_dw ''s3'' empty_registry
     example_rq) = 200"
  by (rule webhook_statuses [of _ _ _ _ example_payload]; code_simp)

theorem webhook_registration_witness:
  "\<not> authorized ''s3'' (example_rq\<lparr>rq_authorization := None, rq_token_header := None\<rparr>)"
proof -
  have "registered_secret example_dw = Some ''s3''" by code_simp
  with webhook_registration [of example_dw example_rq] show ?thesis by blast
qed

end
