(* ===== verification/PatchGenerator.thy ===== *)
theory PatchGenerator
  imports Models Regex
begin

text \<open>
  \<open>proposal/generator.py\<close>: the credential scrub and the gates between the reasoning
  layer's answer and a patch. The answer is a parameter (\<open>None\<close>: the layer is off or the
  call failed), so is \<open>yaml_ok\<close>, whether \<open>yaml.safe_load\<close> accepts a text. Reasons of a
  rejection are constructors; a confidence is the rational its float denotes.
\<close>

section \<open>The scrub\<close>

definition any_case :: "pystr \<Rightarrow> rx" where
  "any_case k = foldr (\<lambda>c r. Rx_seq (Rx_char (\<lambda>d. lower_char d = lower_char c)) r) k Rx_empty"

definition credential_key_rx :: rx where
  "credential_key_rx =
     Rx_seq
       (foldr (\<lambda>k r. Rx_alt (any_case k) r) [''TOKEN'', ''KEY'', ''SECRET'', ''PASSWORD'']
         (any_case ''PASS''))
       (Rx_seq (Rx_star (Rx_char is_space))
         (Rx_seq (Rx_char (\<lambda>c. c \<in> set '':='')) (Rx_star (Rx_char is_space))))"

definition is_credential_char :: "char \<Rightarrow> bool" where
  "is_credential_char c \<longleftrightarrow> is_ascii_alpha c \<or> is_ascii_digit c \<or> c \<in> set ''_-''"

definition credential_value_rx :: rx where
  "credential_value_rx =
     Rx_seq (rx_times 20 (Rx_char is_credential_char)) (Rx_star (Rx_char is_credential_char))"

definition PLACEHOLDER :: pystr where
  "PLACEHOLDER = ''<replace-with-credential>''"

text \<open>A match at this position: group 1, and the text after the match.\<close>

definition credential_at :: "pystr \<Rightarrow> (pystr \<times> pystr) option" where
  "credential_at s =
     (case concat (map (\<lambda>(p1, s1). map (\<lambda>(p2, s2). (rev p1, s2)) (rx_ways credential_value_rx p1 s1))
                    (rx_ways credential_key_rx [] s)) of
        [] \<Rightarrow> None | x # _ \<Rightarrow> Some x)"

text \<open>\<open>_CREDENTIAL_RE.subn\<close>: the new text and the number of replacements.\<close>

fun scrub_from :: "nat \<Rightarrow> pystr \<Rightarrow> pystr \<times> nat" where
  "scrub_from 0 s = (s, 0)"
| "scrub_from (Suc n) s =
     (case credential_at s of
        Some (g, rest) \<Rightarrow> (let (t, k) = scrub_from n rest in (g @ PLACEHOLDER @ t, Suc k))
      | None \<Rightarrow> (case s of [] \<Rightarrow> ([], 0)
                | c # r \<Rightarrow> (let (t, k) = scrub_from n r in (c # t, k))))"

definition scrub_credentials :: "pystr \<Rightarrow> pystr \<times> bool" where
  "scrub_credentials s = (let (t, k) = scrub_from (Suc (length s)) s in (t, 0 < k))"

section \<open>The gates\<close>

record patch_answer =
  an_patch :: pystr
  an_confidence :: rat
  an_commit_message :: pystr
  an_pr_title :: pystr
  an_pr_body :: pystr
  an_reasoning :: pystr

datatype patch_rejection =
    Reasoning_unavailable | Confidence_below rat rat | Patch_empty | Patch_not_yaml

record patch_result =
  ps_ok :: bool
  ps_confidence :: rat
  ps_rejection :: "patch_rejection option"
  ps_patch :: pystr
  ps_commit_message :: pystr
  ps_pr_title :: pystr
  ps_pr_body :: pystr
  ps_reasoning :: pystr

definition rejected_patch :: "rat \<Rightarrow> patch_rejection \<Rightarrow> patch_result" where
  "rejected_patch c why =
     \<lparr>ps_ok = False, ps_confidence = c, ps_rejection = Some why, ps_patch = [],
      ps_commit_message = [], ps_pr_title = [], ps_pr_body = [], ps_reasoning = []\<rparr>"

text \<open>\<open>patch.replace("\t", "  ")\<close>.\<close>

definition untab :: "pystr \<Rightarrow> pystr" where
  "untab s = concat (map (\<lambda>c. if c = CHR 0x09 then ''  '' else [c]) s)"

definition or_message :: "pystr \<Rightarrow> pystr \<Rightarrow> pystr" where
  "or_message a b = (if a \<noteq> [] then a else b)"

definition gate_patch ::
  "(pystr \<Rightarrow> bool) \<Rightarrow> rat \<Rightarrow> patch_answer option \<Rightarrow> (patch_answer \<Rightarrow> pystr \<Rightarrow> patch_result)
     \<Rightarrow> patch_result" where
  "gate_patch yaml_ok threshold raw accept =
     (case raw of
        None \<Rightarrow> rejected_patch 0 Reasoning_unavailable
      | Some a \<Rightarrow>
          (let patch = fst (scrub_credentials (an_patch a)) in
           if an_confidence a < threshold
           then rejected_patch (an_confidence a) (Confidence_below (an_confidence a) threshold)
           else if strip patch = [] then rejected_patch (an_confidence a) Patch_empty
           else if \<not> yaml_ok (untab patch) then rejected_patch (an_confidence a) Patch_not_yaml
           else accept a (untab patch)))"

definition generate_patch ::
  "(pystr \<Rightarrow> bool) \<Rightarrow> rat \<Rightarrow> pystr \<Rightarrow> patch_answer option \<Rightarrow> patch_result" where
  "generate_patch yaml_ok threshold finding raw =
     gate_patch yaml_ok threshold raw
       (\<lambda>a patch.
          \<lparr>ps_ok = True, ps_confidence = an_confidence a, ps_rejection = None, ps_patch = patch,
           ps_commit_message =
             or_message (fst (scrub_credentials (an_commit_message a))) (''fix: remediate '' @ finding),
           ps_pr_title = or_message (fst (scrub_credentials (an_pr_title a))) (''Remediate '' @ finding),
           ps_pr_body = fst (scrub_credentials (an_pr_body a)),
           ps_reasoning = fst (scrub_credentials (an_reasoning a))\<rparr>)"

definition revise_patch :: "(pystr \<Rightarrow> bool) \<Rightarrow> rat \<Rightarrow> patch_answer option \<Rightarrow> patch_result" where
  "revise_patch yaml_ok threshold raw =
     gate_patch yaml_ok threshold raw
       (\<lambda>a patch.
          \<lparr>ps_ok = True, ps_confidence = an_confidence a, ps_rejection = None, ps_patch = patch,
           ps_commit_message =
             or_message (fst (scrub_credentials (an_commit_message a))) ''fix: apply review feedback'',
           ps_pr_title = [], ps_pr_body = [],
           ps_reasoning = fst (scrub_credentials (an_reasoning a))\<rparr>)"

section \<open>Lemmas\<close>

lemma gate_patch_ok:
  assumes "ps_ok (gate_patch yaml_ok threshold raw accept)"
  shows "\<exists>a. raw = Some a \<and> threshold \<le> an_confidence a \<and>
    strip (fst (scrub_credentials (an_patch a))) \<noteq> [] \<and>
    yaml_ok (untab (fst (scrub_credentials (an_patch a))))"
proof (cases raw)
  case None
  with assms show ?thesis by (simp add: gate_patch_def rejected_patch_def)
next
  case (Some a)
  with assms show ?thesis
    by (simp add: gate_patch_def rejected_patch_def Let_def not_less split: if_splits)
qed

lemma gate_patch_accept:
  assumes "threshold \<le> an_confidence a" "strip (fst (scrub_credentials (an_patch a))) \<noteq> []"
    and "yaml_ok (untab (fst (scrub_credentials (an_patch a))))"
  shows "gate_patch yaml_ok threshold (Some a) accept =
    accept a (untab (fst (scrub_credentials (an_patch a))))"
  using assms by (simp add: gate_patch_def Let_def not_less)

lemma replaced_gone: "t \<notin> set y \<Longrightarrow> t \<notin> set (concat (map (\<lambda>c. if c = t then y else [c]) s))"
  by (induction s) auto

lemma untab_no_tab: "CHR 0x09 \<notin> set (untab s)"
  unfolding untab_def by (rule replaced_gone) simp

lemma credential_key_first:
  assumes "lower_char c \<notin> set ''tksp''"
  shows "credential_at (c # r) = None"
proof -
  have "lower_char c \<noteq> CHR ''t''" "lower_char c \<noteq> CHR ''k''" "lower_char c \<noteq> CHR ''s''"
    "lower_char c \<noteq> CHR ''p''" using assms by simp_all
  moreover have "lower_char (CHR ''T'') = CHR ''t''" "lower_char (CHR ''K'') = CHR ''k''"
    "lower_char (CHR ''S'') = CHR ''s''" "lower_char (CHR ''P'') = CHR ''p''" by code_simp+
  ultimately show ?thesis
    by (simp add: credential_at_def credential_key_rx_def any_case_def)
qed

lemma scrub_from_skip:
  "credential_at (c # r) = None \<Longrightarrow>
     scrub_from (Suc n) (c # r) = (c # fst (scrub_from n r), snd (scrub_from n r))"
  by (simp add: case_prod_beta Let_def)

lemma scrub_from_hit:
  "credential_at s = Some (g, rest) \<Longrightarrow>
     scrub_from (Suc n) s = (g @ PLACEHOLDER @ fst (scrub_from n rest), Suc (snd (scrub_from n rest)))"
  by (simp add: case_prod_beta Let_def)

lemma scrub_from_nil [simp]: "scrub_from n [] = ([], 0)"
proof (cases n)
  case (Suc m)
  have "credential_at [] = None" by code_simp
  then show ?thesis by (simp add: Suc)
qed simp

text \<open>A text without the first letter of a key name is left as it is.\<close>

lemma scrub_from_plain:
  "\<forall>c \<in> set s. lower_char c \<notin> set ''tksp'' \<Longrightarrow> scrub_from n s = (s, 0)"
proof (induction s arbitrary: n)
  case (Cons c r)
  then show ?case
    by (cases n) (simp_all del: scrub_from.simps(2) add: scrub_from_skip credential_key_first)
qed simp

lemma unquoted_scrubbed:
  "fst (scrub_credentials ''KEY:abcdefghij0123456789'') = ''KEY:<replace-with-credential>''"
proof -
  have "credential_at ''KEY:abcdefghij0123456789'' = Some (''KEY:'', [])" by code_simp
  from scrub_from_hit [OF this] show ?thesis
    by (simp add: scrub_credentials_def PLACEHOLDER_def del: scrub_from.simps(2))
qed

lemma quoted_kept:
  "scrub_credentials (''KEY:'' @ CHR 0x22 # ''abcdefghij0123456789'' @ [CHR 0x22]) =
     (''KEY:'' @ CHR 0x22 # ''abcdefghij0123456789'' @ [CHR 0x22], False)"
proof -
  have "credential_at (''KEY:'' @ CHR 0x22 # ''abcdefghij0123456789'' @ [CHR 0x22]) = None" by code_simp
  moreover have "\<forall>c \<in> set (''EY:'' @ CHR 0x22 # ''abcdefghij0123456789'' @ [CHR 0x22]).
      lower_char c \<notin> set ''tksp''" by code_simp
  ultimately show ?thesis
    by (simp add: scrub_credentials_def scrub_from_skip scrub_from_plain del: scrub_from.simps(2))
qed



section \<open>Properties\<close>

text \<open>
  The scrub that is to keep every credential out of a commit misses a quoted one: a
  secret-named key with an unquoted value of twenty characters is replaced, the same value in double
  quotes goes through unchanged.
\<close>
theorem scrub_misses_quoted:
  "fst (scrub_credentials ''KEY:abcdefghij0123456789'') = ''KEY:<replace-with-credential>'' \<and>
   scrub_credentials (''KEY:'' @ CHR 0x22 # ''abcdefghij0123456789'' @ [CHR 0x22]) =
     (''KEY:'' @ CHR 0x22 # ''abcdefghij0123456789'' @ [CHR 0x22], False)"
  by (simp only: unquoted_scrubbed quoted_kept simp_thms)

text \<open>
  No ungated patch: a patch is accepted only when the reasoning layer answered with at
  least the threshold's confidence and the text, scrubbed and with its tabs expanded, is
  valid YAML and not blank; that text is the one accepted, and it holds no tab.
\<close>
theorem patch_gates:
  assumes "ps_ok (generate_patch yaml_ok threshold finding raw) \<or> ps_ok (revise_patch yaml_ok threshold raw)"
  shows "\<exists>a. raw = Some a \<and> threshold \<le> an_confidence a \<and>
    strip (fst (scrub_credentials (an_patch a))) \<noteq> [] \<and>
    yaml_ok (untab (fst (scrub_credentials (an_patch a)))) \<and>
    ps_patch (generate_patch yaml_ok threshold finding raw) = untab (fst (scrub_credentials (an_patch a))) \<and>
    ps_patch (revise_patch yaml_ok threshold raw) = untab (fst (scrub_credentials (an_patch a))) \<and>
    CHR 0x09 \<notin> set (ps_patch (generate_patch yaml_ok threshold finding raw))"
proof -
  obtain a where a: "raw = Some a" "threshold \<le> an_confidence a"
    "strip (fst (scrub_credentials (an_patch a))) \<noteq> []"
    "yaml_ok (untab (fst (scrub_credentials (an_patch a))))"
    using assms gate_patch_ok unfolding generate_patch_def revise_patch_def by blast
  then show ?thesis
    by (simp add: generate_patch_def revise_patch_def gate_patch_accept untab_no_tab)
qed

end
