(* ===== verification/ProposalStore.thy ===== *)
theory ProposalStore
  imports PatchGenerator Registry
begin

text \<open>
  \<open>proposal/store.py\<close> and \<open>proposal/lifecycle.py\<close>: the proposal table, and the retirement
  of a proposal whose pull request is done. The table is the list of rows in insertion
  order; timestamps come back naive. Calls that leave the process are appended to a trace
  of events and answered by oracles on that trace.
\<close>

section \<open>The table\<close>

type_synonym proposals = "proposal list"

definition proposal_create :: "proposal \<Rightarrow> proposals \<Rightarrow> proposals \<times> proposal" where
  "proposal_create p t =
     (let row = p\<lparr>pr_created_at := sqlite_datetime (pr_created_at p),
                  pr_resolved_at := map_option sqlite_datetime (pr_resolved_at p)\<rparr>
      in (t @ [row], row))"

definition proposal_get :: "pystr \<Rightarrow> proposals \<Rightarrow> proposal option" where
  "proposal_get i t = get_row pr_id t i"

text \<open>
  \<open>save\<close> of a loaded row whose attributes \<open>f\<close> were assigned: the UPDATE writes those
  columns, the refresh reads the row back; \<open>None\<close> when the row is gone.
\<close>

definition proposal_save ::
  "pystr \<Rightarrow> (proposal \<Rightarrow> proposal) \<Rightarrow> proposals \<Rightarrow> proposals \<times> proposal option" where
  "proposal_save i f t = (let t' = put_row pr_id i f t in (t', get_row pr_id t' i))"

definition is_open_for :: "pystr \<Rightarrow> finding_type \<Rightarrow> proposal \<Rightarrow> bool" where
  "is_open_for sid f p \<longleftrightarrow>
     pr_service_id p = Some sid \<and> pr_finding_type p = f \<and> pr_status p = Proposal_open"

definition find_open :: "pystr \<Rightarrow> finding_type \<Rightarrow> proposals \<Rightarrow> proposal option" where
  "find_open sid f t = find (is_open_for sid f) t"

definition newest_first :: "proposals \<Rightarrow> proposals" where
  "newest_first t = sort_key (\<lambda>p. - instant_of (pr_created_at p)) t"

definition latest_proposal :: "pystr \<Rightarrow> finding_type \<Rightarrow> proposals \<Rightarrow> proposal option" where
  "latest_proposal sid f t =
     (case newest_first (filter (\<lambda>p. pr_service_id p = Some sid \<and> pr_finding_type p = f) t) of
        [] \<Rightarrow> None | p # _ \<Rightarrow> Some p)"

definition find_open_by_path :: "pystr \<Rightarrow> finding_type \<Rightarrow> proposals \<Rightarrow> proposal option" where
  "find_open_by_path path f t =
     find (\<lambda>p. pr_file_path p = path \<and> pr_finding_type p = f \<and> pr_status p = Proposal_open) t"

definition list_open :: "bool \<Rightarrow> proposals \<Rightarrow> proposals" where
  "list_open exclude_normalization t =
     newest_first
       (filter (\<lambda>p. pr_status p = Proposal_open \<and>
                    (exclude_normalization \<longrightarrow> pr_finding_type p \<noteq> Finding_normalization)) t)"

definition list_all_proposals :: "int \<Rightarrow> proposals \<Rightarrow> proposals" where
  "list_all_proposals limit t = sql_limit limit (newest_first t)"

definition set_status ::
  "instant \<Rightarrow> pystr \<Rightarrow> proposal_status \<Rightarrow> bool \<Rightarrow> proposals \<Rightarrow> proposals \<times> proposal option" where
  "set_status now i st resolved t =
     (case get_row pr_id t i of
        None \<Rightarrow> (t, None)
      | Some p \<Rightarrow>
          proposal_save i
            (\<lambda>p. p\<lparr>pr_status := st,
                   pr_resolved_at := (if resolved then Some (Naive now) else pr_resolved_at p)\<rparr>) t)"

section \<open>The world of the engine\<close>

datatype git_event =
    G_read (ev_repo: pystr) (ev_path: pystr) (ev_ref: pystr)
  | G_branch (ev_repo: pystr) (ev_new_branch: pystr) (ev_base: pystr)
  | G_commit (ev_repo: pystr) (ev_path: pystr) (ev_content: pystr) (ev_branch: pystr) (ev_message: pystr)
  | G_open (ev_repo: pystr) (ev_title: pystr) (ev_body: pystr) (ev_branch: pystr) (ev_base: pystr)
      (ev_label: pystr)
  | G_state (ev_repo: pystr) (ev_number: int)
  | G_close (ev_repo: pystr) (ev_number: int)
  | G_comments (ev_repo: pystr) (ev_number: int)
  | G_list (ev_repo: pystr) (ev_ref: pystr)
  | G_delete (ev_repo: pystr) (ev_path: pystr) (ev_branch: pystr) (ev_message: pystr)
  | Ask_patch (ev_path: pystr)
  | Ask_normal_form (ev_path: pystr)
  | Notified (ev_url: "pystr option")

datatype git_error = Git_error pystr

datatype pr_state = PR_open | PR_merged | PR_closed

record comment =
  co_id :: int
  co_login :: pystr
  co_body :: pystr

text \<open>
  What answers the calls, given the trace up to and including the call: the git provider,
  the reasoning layer (\<open>None\<close> is off or failed), the YAML parser, the random tag of a
  branch name, and the clock and ids of new rows.
\<close>

record oracles =
  go_read :: "git_event list \<Rightarrow> git_error + pystr"
  go_branch :: "git_event list \<Rightarrow> git_error option"
  go_commit :: "git_event list \<Rightarrow> git_error option"
  go_open :: "git_event list \<Rightarrow> git_error + (pystr \<times> int)"
  go_state :: "git_event list \<Rightarrow> git_error + pr_state"
  go_comments :: "git_event list \<Rightarrow> git_error + comment list"
  go_patch :: "git_event list \<Rightarrow> patch_answer option"
  go_yaml :: "pystr \<Rightarrow> bool"
  go_suffix :: "git_event list \<Rightarrow> pystr"
  go_now :: "git_event list \<Rightarrow> instant"
  go_uuid :: "nat \<Rightarrow> pystr"

text \<open>\<open>pw_drawn\<close> counts the rows constructed, the \<open>k\<close>-th takes the \<open>k\<close>-th id.\<close>

record pworld =
  pw_rows :: proposals
  pw_drawn :: nat
  pw_trace :: "git_event list"

definition emit :: "git_event \<Rightarrow> pworld \<Rightarrow> pworld" where
  "emit ev w = w\<lparr>pw_trace := pw_trace w @ [ev]\<rparr>"

definition add_proposal ::
  "oracles \<Rightarrow> finding_type \<Rightarrow> (proposal \<Rightarrow> proposal) \<Rightarrow> pworld \<Rightarrow> pworld \<times> proposal" where
  "add_proposal g f cols w =
     (let (rows, row) =
        proposal_create (cols (new_proposal (go_uuid g (pw_drawn w)) f (go_now g (pw_trace w))))
          (pw_rows w)
      in (w\<lparr>pw_rows := rows, pw_drawn := Suc (pw_drawn w)\<rparr>, row))"

definition world_set_status ::
  "oracles \<Rightarrow> pystr \<Rightarrow> proposal_status \<Rightarrow> bool \<Rightarrow> pworld \<Rightarrow> pworld \<times> proposal option" where
  "world_set_status g i st resolved w =
     (let (rows, r) = set_status (go_now g (pw_trace w)) i st resolved (pw_rows w)
      in (w\<lparr>pw_rows := rows\<rparr>, r))"

section \<open>Retirement\<close>

text \<open>\<open>not proposal.pr_number\<close> is true of \<open>None\<close> and of 0.\<close>

definition pr_number_set :: "proposal \<Rightarrow> bool" where
  "pr_number_set p \<longleftrightarrow> pr_pr_number p \<notin> {None, Some 0}"

definition retired_status :: "finding_type \<Rightarrow> pr_state \<Rightarrow> proposal_status option" where
  "retired_status f st =
     (if st = PR_closed then Some Proposal_cancelled
      else if st = PR_merged \<and> f \<noteq> Finding_auth_mode_conflict then Some Proposal_merged
      else None)"

definition retire_if_finished ::
  "oracles \<Rightarrow> bool \<Rightarrow> pystr option \<Rightarrow> proposal \<Rightarrow> pworld \<Rightarrow> pworld \<times> bool" where
  "retire_if_finished g has_git repo p w =
     (if \<not> pr_number_set p \<or> \<not> has_git \<or> \<not> truthy repo then (w, False)
      else
        (let w1 = emit (G_state (the repo) (the (pr_pr_number p))) w in
         case go_state g (pw_trace w1) of
           Inl err \<Rightarrow> (w1, False)
         | Inr st \<Rightarrow>
             (case retired_status (pr_finding_type p) st of
                None \<Rightarrow> (w1, False)
              | Some status \<Rightarrow> (fst (world_set_status g (pr_id p) status True w1), True))))"

section \<open>Lemmas on the table\<close>

lemma set_status_rows:
  "fst (set_status now i st resolved t) =
     put_row pr_id i
       (\<lambda>p. p\<lparr>pr_status := st,
              pr_resolved_at := (if resolved then Some (Naive now) else pr_resolved_at p)\<rparr>) t"
proof (cases "get_row pr_id t i")
  case None
  then have "i \<notin> pr_id ` set t" by (simp add: get_row_None_iff)
  then show ?thesis by (simp add: None set_status_def put_row_absent)
next
  case (Some p)
  then show ?thesis by (simp add: set_status_def proposal_save_def Let_def)
qed

lemma set_newest_first [simp]: "set (newest_first t) = set t"
  by (simp add: newest_first_def)

lemma in_list_open:
  "p \<in> set (list_open x t) \<longleftrightarrow>
     p \<in> set t \<and> pr_status p = Proposal_open \<and> (x \<longrightarrow> pr_finding_type p \<noteq> Finding_normalization)"
  by (auto simp: list_open_def)

lemma find_open_SomeD: "find_open sid f t = Some p \<Longrightarrow> p \<in> set t \<and> is_open_for sid f p"
  by (auto simp: find_open_def find_Some_iff)

lemma find_open_None_iff: "find_open sid f t = None \<longleftrightarrow> (\<forall>p \<in> set t. \<not> is_open_for sid f p)"
  by (auto simp: find_open_def find_None_iff)

text \<open>The newest row of a service and finding, whatever its status.\<close>

lemma latest_proposal_newest:
  assumes "latest_proposal sid f t = Some p"
  shows "p \<in> set t \<and> pr_service_id p = Some sid \<and> pr_finding_type p = f \<and>
    (\<forall>q \<in> set t. pr_service_id q = Some sid \<and> pr_finding_type q = f \<longrightarrow>
       instant_of (pr_created_at q) \<le> instant_of (pr_created_at p))"
proof -
  let ?m = "filter (\<lambda>p. pr_service_id p = Some sid \<and> pr_finding_type p = f) t"
  obtain qs where q: "newest_first ?m = p # qs"
    using assms by (auto simp: latest_proposal_def split: list.splits)
  have s: "sorted (map (\<lambda>p. - instant_of (pr_created_at p)) (p # qs))"
    using q unfolding newest_first_def by (metis sorted_sort_key)
  have "set (p # qs) = set ?m" using q by (metis set_newest_first)
  then show ?thesis using s by fastforce
qed

end
