(* ===== verification/ProposalEngine.thy ===== *)
theory ProposalEngine
  imports ProposalStore
begin

text \<open>
  \<open>proposal/engine.py\<close>: opening remediation pull requests, the verification sweep,
  auto-creation after a discovery pass, the review-comment loop and cancellation. Every
  operation takes the settings, the oracles, the registry it reads and the world, and
  gives the world after it. Notifications never raise, so they only leave an event. An
  \<open>await\<close> lets other tasks run, so \<open>open_proposal\<close> is split at the one between its check
  for an open proposal and its effects: \<open>open_check\<close>, then \<open>open_effects\<close>.
\<close>

section \<open>Settings\<close>

record proposal_settings =
  se_git :: bool
  se_repo :: "pystr option"
  se_base :: pystr
  se_label :: pystr
  se_dry_run :: bool
  se_auto_create :: bool
  se_read_only :: bool
  se_threshold :: rat
  se_apply_mode :: pystr
  se_allowed_users :: pystr
  se_path :: "pystr \<Rightarrow> pystr \<Rightarrow> pystr"
  se_reason :: "patch_rejection \<Rightarrow> pystr"

text \<open>
  \<open>se_path\<close> is the configured template applied to a node and a service, \<open>se_reason\<close> the
  wording of a rejection.
\<close>

definition engine_configured :: "proposal_settings \<Rightarrow> bool" where
  "engine_configured st \<longleftrightarrow> se_git st \<and> truthy (se_repo st)"

definition finding_of :: "service \<Rightarrow> finding_type option" where
  "finding_of s = (if svc_auth_mode_conflict s then Some Finding_auth_mode_conflict else None)"

definition resolve_target :: "proposal_settings \<Rightarrow> service \<Rightarrow> pystr option" where
  "resolve_target st s =
     (if truthy (svc_host s) then Some (se_path st (the (svc_host s)) (svc_name s)) else None)"

definition branch_name :: "finding_type \<Rightarrow> service \<Rightarrow> pystr \<Rightarrow> pystr" where
  "branch_name f s tag =
     ''patch/'' @ finding_type_value f @ ''-'' @ svc_name s @ ''-'' @ tag"

definition apply_footer :: "pystr \<Rightarrow> pystr" where
  "apply_footer mode =
     (if mode = ''ansible'' then
        [CHR 0x0A, CHR 0x0A] @ ''---'' @ [CHR 0x0A] @
        ''_Merge this PR to apply the change. The GitHub Actions workflow '' @
        ''will trigger Ansible to deploy the update to the affected node automatically._''
      else if mode = ''webhook'' then
        [CHR 0x0A, CHR 0x0A] @ ''---'' @ [CHR 0x0A] @
        ''_Merge this PR to apply the change. The configured webhook '' @
        ''will trigger deployment to the affected node automatically._''
      else
        [CHR 0x0A, CHR 0x0A] @ ''---'' @ [CHR 0x0A] @
        ''_After merging, deploy the change to the affected node '' @
        ''(pull the repo and reload the service) to apply it._'')"

definition feature_branch :: "pystr \<Rightarrow> pystr \<Rightarrow> bool" where
  "feature_branch branch base \<longleftrightarrow> branch \<noteq> [] \<and> branch \<noteq> base"

definition the_repo :: "proposal_settings \<Rightarrow> pystr" where
  "the_repo st = the_default [] (se_repo st)"

section \<open>Opening a proposal\<close>

datatype create_reply =
    Not_configured
  | Missing_input
  | No_service
  | No_finding
  | Skipped_open proposal
  | No_target
  | Read_failed pystr
  | Patch_rejected pystr proposal
  | Dry_run pystr patch_result pystr
  | Git_failed
  | Opened proposal

definition engine_retire ::
  "proposal_settings \<Rightarrow> oracles \<Rightarrow> proposal \<Rightarrow> pworld \<Rightarrow> pworld \<times> bool" where
  "engine_retire st g p w = retire_if_finished g (se_git st) (se_repo st) p w"

text \<open>The check for an open proposal, shared with the finding that has no fix.\<close>

definition open_check ::
  "proposal_settings \<Rightarrow> oracles \<Rightarrow> finding_type \<Rightarrow> service \<Rightarrow> pworld \<Rightarrow> pworld \<times> create_reply option" where
  "open_check st g f s w =
     (case find_open (svc_id s) f (pw_rows w) of
        None \<Rightarrow> (w, None)
      | Some p \<Rightarrow>
          (let (w1, retired) = engine_retire st g p w
           in (w1, if retired then None else Some (Skipped_open p))))"

text \<open>Branch, commit and pull request; the first failure ends it.\<close>

definition git_open ::
  "proposal_settings \<Rightarrow> oracles \<Rightarrow> pystr \<Rightarrow> pystr \<Rightarrow> patch_result \<Rightarrow> pystr \<Rightarrow> pworld
     \<Rightarrow> pworld \<times> (pystr \<times> int) option" where
  "git_open st g branch path r body w =
     (let repo = the_repo st; base = se_base st in
      if \<not> feature_branch branch base then (w, None)
      else
        (let w1 = emit (G_branch repo branch base) w in
         if go_branch g (pw_trace w1) \<noteq> None then (w1, None)
         else
           (let w2 = emit (G_commit repo path (ps_patch r) branch (ps_commit_message r)) w1 in
            if go_commit g (pw_trace w2) \<noteq> None then (w2, None)
            else
              (let w3 = emit (G_open repo (ps_pr_title r) body branch base (se_label st)) w2 in
               case go_open g (pw_trace w3) of
                 Inl err \<Rightarrow> (w3, None)
               | Inr opened \<Rightarrow> (w3, Some opened)))))"

definition open_effects ::
  "proposal_settings \<Rightarrow> oracles \<Rightarrow> finding_type \<Rightarrow> service \<Rightarrow> pystr \<Rightarrow> pworld
     \<Rightarrow> pworld \<times> create_reply" where
  "open_effects st g f s actor w =
     (case resolve_target st s of
        None \<Rightarrow> (w, No_target)
      | Some path \<Rightarrow>
          (let w1 = emit (G_read (the_repo st) path (se_base st)) w in
           case go_read g (pw_trace w1) of
             Inl err \<Rightarrow> (w1, Read_failed path)
           | Inr current \<Rightarrow>
               (let w2 = emit (Ask_patch path) w1;
                    r = generate_patch (go_yaml g) (se_threshold st) (finding_type_value f)
                          (go_patch g (pw_trace w2));
                    body = ps_pr_body r @ apply_footer (se_apply_mode st)
                in
                if \<not> ps_ok r then
                  (let why = se_reason st (the (ps_rejection r));
                       (w3, row) = add_proposal g f
                         (\<lambda>p. p\<lparr>pr_service_id := Some (svc_id s), pr_file_path := path,
                                pr_status := Proposal_rejected, pr_rejection_reason := Some why,
                                pr_confidence := Some (ps_confidence r), pr_actor := actor\<rparr>) w2
                   in (emit (Notified None) w3, Patch_rejected why row))
                else if se_dry_run st then (w2, Dry_run path r body)
                else
                  (let branch = branch_name f s (go_suffix g (pw_trace w2));
                       (w3, opened) = git_open st g branch path r body w2
                   in case opened of
                        None \<Rightarrow> (w3, Git_failed)
                      | Some (url, number) \<Rightarrow>
                          (let (w4, row) = add_proposal g f
                             (\<lambda>p. p\<lparr>pr_service_id := Some (svc_id s), pr_pr_url := url,
                                    pr_pr_number := Some number, pr_branch := branch,
                                    pr_file_path := path, pr_diff := ps_patch r,
                                    pr_status := Proposal_open,
                                    pr_confidence := Some (ps_confidence r),
                                    pr_actor := actor\<rparr>) w3
                           in (emit (Notified (Some url)) w4, Opened row))))))"

definition open_proposal ::
  "proposal_settings \<Rightarrow> oracles \<Rightarrow> finding_type \<Rightarrow> service \<Rightarrow> pystr \<Rightarrow> pworld
     \<Rightarrow> pworld \<times> create_reply" where
  "open_proposal st g f s actor w =
     (case open_check st g f s w of
        (w1, Some reply) \<Rightarrow> (w1, reply)
      | (w1, None) \<Rightarrow> open_effects st g f s actor w1)"

definition create_for_service ::
  "proposal_settings \<Rightarrow> oracles \<Rightarrow> registry \<Rightarrow> pystr \<Rightarrow> pystr \<Rightarrow> pworld \<Rightarrow> pworld \<times> create_reply" where
  "create_for_service st g rg sid actor w =
     (if \<not> engine_configured st then (w, Not_configured)
      else case get_service sid rg of
        None \<Rightarrow> (w, No_service)
      | Some s \<Rightarrow>
          (case finding_of s of
             None \<Rightarrow> (w, No_finding)
           | Some f \<Rightarrow> open_proposal st g f s actor w))"

definition create_for_image_update ::
  "proposal_settings \<Rightarrow> oracles \<Rightarrow> registry \<Rightarrow> pystr \<Rightarrow> pystr \<Rightarrow> pystr \<Rightarrow> pystr \<Rightarrow> pworld
     \<Rightarrow> pworld \<times> create_reply" where
  "create_for_image_update st g rg sid img new_tag actor w =
     (if \<not> engine_configured st then (w, Not_configured)
      else if img = [] \<or> new_tag = [] then (w, Missing_input)
      else case get_service sid rg of
        None \<Rightarrow> (w, No_service)
      | Some s \<Rightarrow> open_proposal st g Finding_image_update s actor w)"

definition no_fix_reason :: "pystr list \<Rightarrow> pystr" where
  "no_fix_reason cves =
     ''no fixed version available upstream ('' @
     (if cves \<noteq> [] then join '', '' cves else ''unspecified CVEs'') @ '')''"

definition create_for_vulnerability ::
  "proposal_settings \<Rightarrow> oracles \<Rightarrow> registry \<Rightarrow> pystr \<Rightarrow> pystr \<Rightarrow> pystr \<Rightarrow> pystr list \<Rightarrow> pystr
     \<Rightarrow> pworld \<Rightarrow> pworld \<times> create_reply" where
  "create_for_vulnerability st g rg sid img fixed_tag cves actor w =
     (if \<not> engine_configured st then (w, Not_configured)
      else if img = [] then (w, Missing_input)
      else case get_service sid rg of
        None \<Rightarrow> (w, No_service)
      | Some s \<Rightarrow>
          if fixed_tag = [] then
            (case open_check st g Finding_vulnerability_scan s w of
               (w1, Some reply) \<Rightarrow> (w1, reply)
             | (w1, None) \<Rightarrow>
                 (let (w2, row) = add_proposal g Finding_vulnerability_scan
                    (\<lambda>p. p\<lparr>pr_service_id := Some (svc_id s),
                           pr_file_path := the_default [] (resolve_target st s),
                           pr_status := Proposal_rejected,
                           pr_rejection_reason := Some (no_fix_reason cves),
                           pr_actor := actor\<rparr>) w1
                  in (emit (Notified None) w2, Patch_rejected (no_fix_reason cves) row)))
          else open_proposal st g Finding_vulnerability_scan s actor w)"

section \<open>After a discovery pass\<close>

definition sync_pr_states :: "proposal_settings \<Rightarrow> oracles \<Rightarrow> pworld \<Rightarrow> pworld" where
  "sync_pr_states st g w =
     (if \<not> engine_configured st then w
      else fold (\<lambda>p w. fst (engine_retire st g p w)) (list_open False (pw_rows w)) w)"

text \<open>The step for one open proposal; the age of one not yet verified is only logged.\<close>

definition sweep_one ::
  "oracles \<Rightarrow> registry \<Rightarrow> proposal \<Rightarrow> pworld \<times> proposal list \<Rightarrow> pworld \<times> proposal list" where
  "sweep_one g rg p wv =
     (case wv of (w, verified) \<Rightarrow>
        if pr_finding_type p \<noteq> Finding_auth_mode_conflict then (w, verified)
        else case pr_service_id p of
          None \<Rightarrow> (w, verified)
        | Some sid \<Rightarrow>
            (case get_service sid rg of
               None \<Rightarrow> (w, verified)
             | Some s \<Rightarrow>
                 if svc_auth_mode_conflict s then (w, verified)
                 else
                   (let w1 = fst (world_set_status g (pr_id p) Proposal_verified True w)
                    in (emit (Notified (if pr_pr_url p \<noteq> [] then Some (pr_pr_url p) else None)) w1,
                        verified @ [p]))))"

definition sweep_verifications :: "oracles \<Rightarrow> registry \<Rightarrow> pworld \<Rightarrow> pworld \<times> proposal list" where
  "sweep_verifications g rg w = fold (sweep_one g rg) (list_open True (pw_rows w)) (w, [])"

definition REJECTED_RETRY_AFTER :: instant where
  "REJECTED_RETRY_AFTER = days 1"

definition rejection_worth_retrying :: "instant \<Rightarrow> registry \<Rightarrow> service \<Rightarrow> proposal \<Rightarrow> bool" where
  "rejection_worth_retrying now rg s rejected =
     (let t0 = instant_of (pr_created_at rejected) in
      (case list_change_events (Some (svc_id s)) 1 rg of
         [] \<Rightarrow> False
       | c # _ \<Rightarrow> t0 < instant_of (ce_created_at c))
      \<or> REJECTED_RETRY_AFTER \<le> now - t0)"

text \<open>Whether auto-create asks for a patch for this service now.\<close>

definition auto_wants :: "instant \<Rightarrow> registry \<Rightarrow> proposals \<Rightarrow> service \<Rightarrow> bool" where
  "auto_wants now rg rows s \<longleftrightarrow>
     svc_auth_mode_conflict s \<and> \<not> svc_stale s \<and>
     find_open (svc_id s) Finding_auth_mode_conflict rows = None \<and>
     (case latest_proposal (svc_id s) Finding_auth_mode_conflict rows of
        None \<Rightarrow> True
      | Some p \<Rightarrow>
          pr_status p \<noteq> Proposal_cancelled \<and>
          (pr_status p = Proposal_rejected \<longrightarrow> rejection_worth_retrying now rg s p))"

definition auto_one :: "proposal_settings \<Rightarrow> oracles \<Rightarrow> registry \<Rightarrow> service \<Rightarrow> pworld \<Rightarrow> pworld" where
  "auto_one st g rg s w =
     (if auto_wants (go_now g (pw_trace w)) rg (pw_rows w) s
      then fst (create_for_service st g rg (svc_id s) ''discovery:auto'' w) else w)"

definition auto_create :: "proposal_settings \<Rightarrow> oracles \<Rightarrow> registry \<Rightarrow> pworld \<Rightarrow> pworld" where
  "auto_create st g rg w = fold (auto_one st g rg) (list_services None None None rg) w"

definition after_discovery :: "proposal_settings \<Rightarrow> oracles \<Rightarrow> registry \<Rightarrow> pworld \<Rightarrow> pworld" where
  "after_discovery st g rg w =
     (if \<not> engine_configured st then w
      else
        (let w1 = sync_pr_states st g w;
             w2 = fst (sweep_verifications g rg w1)
         in if se_auto_create st \<and> \<not> se_read_only st then auto_create st g rg w2 else w2))"

section \<open>Review comments\<close>

definition allowed_users :: "pystr \<Rightarrow> pystr list" where
  "allowed_users users = filter (\<lambda>u. u \<noteq> []) (map strip (split_at_char (CHR '','') users))"

definition authorized_commenter :: "proposal_settings \<Rightarrow> comment \<Rightarrow> bool" where
  "authorized_commenter st c \<longleftrightarrow> co_login c \<in> set (allowed_users (se_allowed_users st))"

definition save_proposal ::
  "pystr \<Rightarrow> (proposal \<Rightarrow> proposal) \<Rightarrow> pworld \<Rightarrow> pworld \<times> proposal option" where
  "save_proposal i f w =
     (let (rows, r) = proposal_save i f (pw_rows w) in (w\<lparr>pw_rows := rows\<rparr>, r))"

definition pr_link :: "proposal \<Rightarrow> pystr option" where
  "pr_link p = (if pr_pr_url p \<noteq> [] then Some (pr_pr_url p) else None)"

text \<open>
  One comment. The second component is the refreshed row, \<open>None\<close> when an exception left the
  method: the branch of the row is no feature branch, or the row is gone.
\<close>

definition apply_review_feedback ::
  "proposal_settings \<Rightarrow> oracles \<Rightarrow> proposal \<Rightarrow> comment \<Rightarrow> pworld \<Rightarrow> pworld \<times> proposal option" where
  "apply_review_feedback st g p c w =
     (let seen = (\<lambda>r. r\<lparr>pr_last_comment_id := Some (co_id c)\<rparr>); repo = the_repo st in
      if \<not> authorized_commenter st c then save_proposal (pr_id p) seen w
      else if \<not> feature_branch (pr_branch p) (se_base st) then (w, None)
      else
        (let w1 = emit (G_read repo (pr_file_path p) (pr_branch p)) w in
         case go_read g (pw_trace w1) of
           Inl err \<Rightarrow> save_proposal (pr_id p) seen w1
         | Inr current \<Rightarrow>
             (let w2 = emit (Ask_patch (pr_file_path p)) w1;
                  r = revise_patch (go_yaml g) (se_threshold st) (go_patch g (pw_trace w2))
              in
              if \<not> ps_ok r then save_proposal (pr_id p) seen (emit (Notified (pr_link p)) w2)
              else
                (let w3 = emit (G_commit repo (pr_file_path p) (ps_patch r) (pr_branch p)
                                  (ps_commit_message r)) w2 in
                 if go_commit g (pw_trace w3) \<noteq> None then save_proposal (pr_id p) seen w3
                 else
                   (let (w4, row) = save_proposal (pr_id p) (\<lambda>r'. (seen r')\<lparr>pr_diff := ps_patch r\<rparr>) w3
                    in case row of
                         None \<Rightarrow> (w4, None)
                       | Some q \<Rightarrow> (emit (Notified (pr_link q)) w4, Some q))))))"

fun feedback_loop ::
  "proposal_settings \<Rightarrow> oracles \<Rightarrow> comment list \<Rightarrow> proposal \<Rightarrow> pworld \<Rightarrow> pworld" where
  "feedback_loop st g [] p w = w"
| "feedback_loop st g (c # cs) p w =
     (case apply_review_feedback st g p c w of
        (w1, None) \<Rightarrow> w1
      | (w1, Some q) \<Rightarrow> feedback_loop st g cs q w1)"

definition new_comments :: "proposal \<Rightarrow> comment list \<Rightarrow> comment list" where
  "new_comments p cs =
     sort_key co_id (filter (\<lambda>c. the_default 0 (pr_last_comment_id p) < co_id c) cs)"

definition poll_one :: "proposal_settings \<Rightarrow> oracles \<Rightarrow> proposal \<Rightarrow> pworld \<Rightarrow> pworld" where
  "poll_one st g p w =
     (let w1 = emit (G_comments (the_repo st) (the_default 0 (pr_pr_number p))) w in
      case go_comments g (pw_trace w1) of
        Inl err \<Rightarrow> w1
      | Inr cs \<Rightarrow> feedback_loop st g (new_comments p cs) p w1)"

definition poll_pr_comments :: "proposal_settings \<Rightarrow> oracles \<Rightarrow> pworld \<Rightarrow> pworld" where
  "poll_pr_comments st g w =
     (if \<not> engine_configured st then w
      else fold (\<lambda>p w. if \<not> pr_number_set p \<or> pr_branch p = [] then w else poll_one st g p w)
             (list_open True (pw_rows w)) w)"

section \<open>Cancellation\<close>

definition cancel_proposal ::
  "proposal_settings \<Rightarrow> oracles \<Rightarrow> pystr \<Rightarrow> pworld \<Rightarrow> pworld \<times> proposal option" where
  "cancel_proposal st g i w =
     (case proposal_get i (pw_rows w) of
        None \<Rightarrow> (w, None)
      | Some p \<Rightarrow>
          (let w1 = (if engine_configured st \<and> pr_number_set p
                     then emit (G_close (the_repo st) (the (pr_pr_number p))) w else w);
               (w2, updated) = world_set_status g i Proposal_cancelled False w1
           in (w2, or_value updated (Some p))))"

end
