(* ===== verification/ProposalProps.thy ===== *)
theory ProposalProps
  imports ProposalEngine
begin

text \<open>
  What holds of every run of the proposal engine. \<open>engine_step\<close> is one entry point called
  to its end, \<open>engine_reach\<close> the worlds a sequence of such calls reaches from an empty
  table. The lemmas split into what an operation appends to the trace and what it does to
  the rows.
\<close>

section \<open>Runs\<close>

datatype engine_op =
    Create_service registry pystr pystr
  | Create_image registry pystr pystr pystr pystr
  | Create_vulnerability registry pystr pystr pystr "pystr list" pystr
  | After_discovery registry
  | Poll_comments
  | Cancel pystr

fun engine_step :: "proposal_settings \<Rightarrow> oracles \<Rightarrow> engine_op \<Rightarrow> pworld \<Rightarrow> pworld" where
  "engine_step st g (Create_service rg sid actor) w = fst (create_for_service st g rg sid actor w)"
| "engine_step st g (Create_image rg sid img tag actor) w =
     fst (create_for_image_update st g rg sid img tag actor w)"
| "engine_step st g (Create_vulnerability rg sid img tag cves actor) w =
     fst (create_for_vulnerability st g rg sid img tag cves actor w)"
| "engine_step st g (After_discovery rg) w = after_discovery st g rg w"
| "engine_step st g Poll_comments w = poll_pr_comments st g w"
| "engine_step st g (Cancel i) w = fst (cancel_proposal st g i w)"

definition no_proposals :: pworld where
  "no_proposals = \<lparr>pw_rows = [], pw_drawn = 0, pw_trace = []\<rparr>"

inductive engine_reach :: "proposal_settings \<Rightarrow> oracles \<Rightarrow> pworld \<Rightarrow> bool"
  for st :: proposal_settings and g :: oracles where
  reach_init: "engine_reach st g no_proposals"
| reach_step: "engine_reach st g w \<Longrightarrow> engine_reach st g (engine_step st g op w)"

section \<open>Projections\<close>

lemma emit_simps [simp]:
  "pw_rows (emit ev w) = pw_rows w" "pw_drawn (emit ev w) = pw_drawn w"
  "pw_trace (emit ev w) = pw_trace w @ [ev]"
  by (simp_all add: emit_def)

lemma add_proposal_simps [simp]:
  "pw_trace (fst (add_proposal g f cols w)) = pw_trace w"
  "pw_drawn (fst (add_proposal g f cols w)) = Suc (pw_drawn w)"
  "pw_rows (fst (add_proposal g f cols w)) = pw_rows w @ [snd (add_proposal g f cols w)]"
  by (simp_all add: add_proposal_def proposal_create_def Let_def)

lemma add_proposal_row:
  "snd (add_proposal g f cols w) =
     (let p = cols (new_proposal (go_uuid g (pw_drawn w)) f (go_now g (pw_trace w)))
      in p\<lparr>pr_created_at := sqlite_datetime (pr_created_at p),
           pr_resolved_at := map_option sqlite_datetime (pr_resolved_at p)\<rparr>)"
  by (simp add: add_proposal_def proposal_create_def Let_def)

lemma world_set_status_simps [simp]:
  "pw_trace (fst (world_set_status g i s r w)) = pw_trace w"
  "pw_drawn (fst (world_set_status g i s r w)) = pw_drawn w"
  "pw_rows (fst (world_set_status g i s r w)) =
     fst (set_status (go_now g (pw_trace w)) i s r (pw_rows w))"
  by (simp_all add: world_set_status_def case_prod_beta Let_def)

lemma save_proposal_simps [simp]:
  "pw_trace (fst (save_proposal i f w)) = pw_trace w"
  "pw_drawn (fst (save_proposal i f w)) = pw_drawn w"
  "pw_rows (fst (save_proposal i f w)) = put_row pr_id i f (pw_rows w)"
  "snd (save_proposal i f w) = get_row pr_id (put_row pr_id i f (pw_rows w)) i"
  by (simp_all add: save_proposal_def proposal_save_def Let_def)

section \<open>Where commits go\<close>

text \<open>A call that writes to the repository goes to the configured one, off the base branch.\<close>

fun ev_safe :: "proposal_settings \<Rightarrow> git_event \<Rightarrow> bool" where
  "ev_safe st (G_branch repo branch base) =
     (repo = the_repo st \<and> base = se_base st \<and> feature_branch branch (se_base st))"
| "ev_safe st (G_commit repo path content branch message) =
     (repo = the_repo st \<and> feature_branch branch (se_base st))"
| "ev_safe st (G_delete repo path branch message) =
     (repo = the_repo st \<and> feature_branch branch (se_base st))"
| "ev_safe st (G_open repo title body branch base label) =
     (repo = the_repo st \<and> base = se_base st \<and> feature_branch branch (se_base st))"
| "ev_safe st _ = True"

definition trace_safe :: "proposal_settings \<Rightarrow> pworld \<Rightarrow> bool" where
  "trace_safe st w \<longleftrightarrow> list_all (ev_safe st) (pw_trace w)"

lemma trace_safe_cong: "pw_trace w' = pw_trace w \<Longrightarrow> trace_safe st w' \<longleftrightarrow> trace_safe st w"
  by (simp add: trace_safe_def)

lemma trace_safe_emit [simp]: "trace_safe st (emit ev w) \<longleftrightarrow> trace_safe st w \<and> ev_safe st ev"
  by (simp add: trace_safe_def)

lemma trace_safe_ops [simp]:
  "trace_safe st (fst (add_proposal g f cols w)) \<longleftrightarrow> trace_safe st w"
  "trace_safe st (fst (world_set_status g i s r w)) \<longleftrightarrow> trace_safe st w"
  "trace_safe st (fst (save_proposal i h w)) \<longleftrightarrow> trace_safe st w"
  by (simp_all add: trace_safe_def)

lemma retire_safe: "trace_safe st w \<Longrightarrow> trace_safe st (fst (engine_retire st g p w))"
  by (simp add: engine_retire_def retire_if_finished_def Let_def split: sum.split option.split)

lemma open_check_safe: "trace_safe st w \<Longrightarrow> trace_safe st (fst (open_check st g f s w))"
  using retire_safe [of st w g]
  by (simp add: open_check_def case_prod_beta Let_def split: option.split)

lemma git_open_safe: "trace_safe st w \<Longrightarrow> trace_safe st (fst (git_open st g b path r body w))"
  by (simp add: git_open_def Let_def split: sum.split)

lemma open_effects_safe: "trace_safe st w \<Longrightarrow> trace_safe st (fst (open_effects st g f s actor w))"
  by (simp add: open_effects_def Let_def case_prod_beta git_open_safe
        split: option.split sum.split)

lemma open_proposal_safe: "trace_safe st w \<Longrightarrow> trace_safe st (fst (open_proposal st g f s actor w))"
  using open_check_safe [of st w g f s] open_effects_safe
  by (simp add: open_proposal_def case_prod_beta split: option.split)

lemma create_safe:
  assumes "trace_safe st w"
  shows "trace_safe st (fst (create_for_service st g rg sid actor w))"
    and "trace_safe st (fst (create_for_image_update st g rg sid img tag actor w))"
    and "trace_safe st (fst (create_for_vulnerability st g rg sid img tag cves actor w))"
  using assms open_proposal_safe [OF assms] open_check_safe [OF assms]
  by (simp_all add: create_for_service_def create_for_image_update_def
        create_for_vulnerability_def case_prod_beta Let_def split: option.split)

lemma sync_safe: "trace_safe st w \<Longrightarrow> trace_safe st (sync_pr_states st g w)"
  unfolding sync_pr_states_def
  by (auto intro: fold_invariant [where Q = "\<lambda>x. True" and P = "trace_safe st"] retire_safe)

lemma sweep_safe: "trace_safe st w \<Longrightarrow> trace_safe st (fst (sweep_verifications g rg w))"
  unfolding sweep_verifications_def
proof (rule fold_invariant [where Q = "\<lambda>x. True" and P = "\<lambda>wv. trace_safe st (fst wv)"])
  fix p :: proposal and wv :: "pworld \<times> proposal list"
  assume "trace_safe st (fst wv)"
  then show "trace_safe st (fst (sweep_one g rg p wv))"
    by (cases wv) (simp add: sweep_one_def Let_def split: option.split)
qed simp_all

lemma auto_create_safe: "trace_safe st w \<Longrightarrow> trace_safe st (auto_create st g rg w)"
  unfolding auto_create_def
  by (auto intro!: fold_invariant [where Q = "\<lambda>x. True" and P = "trace_safe st"]
        simp: auto_one_def create_safe)

lemma after_discovery_safe: "trace_safe st w \<Longrightarrow> trace_safe st (after_discovery st g rg w)"
  by (simp add: after_discovery_def Let_def sync_safe sweep_safe auto_create_safe)

lemma feedback_safe: "trace_safe st w \<Longrightarrow> trace_safe st (fst (apply_review_feedback st g p c w))"
  by (simp add: apply_review_feedback_def Let_def case_prod_beta split: sum.split option.split)

lemma feedback_loop_safe: "trace_safe st w \<Longrightarrow> trace_safe st (feedback_loop st g cs p w)"
proof (induction cs arbitrary: p w)
  case (Cons c cs)
  then show ?case
    using feedback_safe [OF Cons.prems, of g p c]
    by (auto split: prod.split option.split)
qed simp

lemma poll_safe: "trace_safe st w \<Longrightarrow> trace_safe st (poll_pr_comments st g w)"
proof -
  assume "trace_safe st w"
  then have "trace_safe st (fold (\<lambda>p w. if \<not> pr_number_set p \<or> pr_branch p = [] then w
      else poll_one st g p w) (list_open True (pw_rows w)) w)"
    by (intro fold_invariant [where Q = "\<lambda>x. True" and P = "trace_safe st"])
      (simp_all add: poll_one_def Let_def feedback_loop_safe split: sum.split)
  with \<open>trace_safe st w\<close> show ?thesis by (simp add: poll_pr_comments_def)
qed

lemma cancel_safe: "trace_safe st w \<Longrightarrow> trace_safe st (fst (cancel_proposal st g i w))"
  by (simp add: cancel_proposal_def Let_def case_prod_beta split: option.split)

lemma engine_step_safe: "trace_safe st w \<Longrightarrow> trace_safe st (engine_step st g op w)"
  by (cases op) (simp_all add: create_safe after_discovery_safe poll_safe cancel_safe)

lemma engine_reach_safe: "engine_reach st g w \<Longrightarrow> trace_safe st w"
proof (induction rule: engine_reach.induct)
  case reach_init
  then show ?case by (simp add: trace_safe_def no_proposals_def)
qed (rule engine_step_safe)

section \<open>At most one open proposal\<close>

definition one_open :: "proposals \<Rightarrow> bool" where
  "one_open t \<longleftrightarrow>
     (\<forall>p \<in> set t. \<forall>q \<in> set t.
        pr_status p = Proposal_open \<and> pr_status q = Proposal_open \<and> pr_service_id p \<noteq> None \<and>
        pr_service_id p = pr_service_id q \<and> pr_finding_type p = pr_finding_type q \<longrightarrow> p = q)"

definition rows_ok :: "oracles \<Rightarrow> pworld \<Rightarrow> bool" where
  "rows_ok g w \<longleftrightarrow>
     distinct (map pr_id (pw_rows w)) \<and> pr_id ` set (pw_rows w) \<subseteq> go_uuid g ` {..<pw_drawn w} \<and>
     one_open (pw_rows w)"

lemma rows_ok_emit [simp]: "rows_ok g (emit ev w) \<longleftrightarrow> rows_ok g w"
  by (simp add: rows_ok_def)

text \<open>An assignment that keeps the key columns and opens nothing.\<close>

definition keeps_closed :: "(proposal \<Rightarrow> proposal) \<Rightarrow> bool" where
  "keeps_closed f \<longleftrightarrow>
     (\<forall>p. pr_id (f p) = pr_id p \<and> pr_service_id (f p) = pr_service_id p \<and>
          pr_finding_type (f p) = pr_finding_type p \<and>
          (pr_status (f p) = Proposal_open \<longrightarrow> pr_status p = Proposal_open))"

lemma rows_ok_put:
  assumes "rows_ok g w" "keeps_closed f" "pw_rows w' = put_row pr_id i f (pw_rows w)"
    and "pw_drawn w' = pw_drawn w"
  shows "rows_ok g w'"
proof -
  let ?h = "\<lambda>p. if pr_id p = i then f p else p"
  have h: "pr_id (?h p) = pr_id p" "pr_service_id (?h p) = pr_service_id p"
    "pr_finding_type (?h p) = pr_finding_type p"
    "pr_status (?h p) = Proposal_open \<Longrightarrow> pr_status p = Proposal_open" for p
    using assms(2) by (auto simp: keeps_closed_def split: if_splits)
  have ids: "map pr_id (pw_rows w') = map pr_id (pw_rows w)"
    using assms(2,3) by (auto simp: keeps_closed_def put_row_def)
  have s: "set (pw_rows w') = ?h ` set (pw_rows w)"
    by (simp add: assms(3) put_row_def)
  have "one_open (pw_rows w')"
    unfolding one_open_def
  proof (intro ballI impI)
    fix p' q' assume "p' \<in> set (pw_rows w')" "q' \<in> set (pw_rows w')"
      and o: "pr_status p' = Proposal_open \<and> pr_status q' = Proposal_open \<and>
        pr_service_id p' \<noteq> None \<and> pr_service_id p' = pr_service_id q' \<and>
        pr_finding_type p' = pr_finding_type q'"
    then obtain p q where pq: "p \<in> set (pw_rows w)" "q \<in> set (pw_rows w)" "p' = ?h p" "q' = ?h q"
      using s by auto
    moreover have "pr_status p = Proposal_open" "pr_status q = Proposal_open"
      using h(4) o pq by metis+
    ultimately have "p = q"
      using assms(1) o h(2,3) by (auto simp: rows_ok_def one_open_def)
    then show "p' = q'" using pq by simp
  qed
  moreover have "pr_id ` set (pw_rows w') = pr_id ` set (pw_rows w)"
    by (metis ids list.set_map)
  ultimately show ?thesis
    using assms(1,4) ids by (simp add: rows_ok_def)
qed

lemma rows_ok_append:
  assumes "rows_ok g w" "inj (go_uuid g)" "pr_id r = go_uuid g (pw_drawn w)"
    and "pw_rows w' = pw_rows w @ [r]" "pw_drawn w' = Suc (pw_drawn w)"
    and "pr_status r = Proposal_open \<Longrightarrow> pr_service_id r = Some sid \<and>
      find_open sid (pr_finding_type r) (pw_rows w) = None"
  shows "rows_ok g w'"
proof -
  have fresh: "pr_id r \<notin> pr_id ` set (pw_rows w)"
    using assms(1-3) by (auto simp: rows_ok_def dest: injD)
  have old: "p = q" if "p \<in> set (pw_rows w)" "q \<in> set (pw_rows w)" "pr_status p = Proposal_open"
    "pr_status q = Proposal_open" "pr_service_id p \<noteq> None" "pr_service_id p = pr_service_id q"
    "pr_finding_type p = pr_finding_type q" for p q
    using assms(1) that by (simp add: rows_ok_def one_open_def)
  have new: False if "pr_status r = Proposal_open" "p \<in> set (pw_rows w)" "pr_status p = Proposal_open"
    "pr_service_id p = pr_service_id r" "pr_finding_type p = pr_finding_type r" for p
    using assms(6) that by (auto simp: find_open_None_iff is_open_for_def)
  have "one_open (pw_rows w @ [r])"
    unfolding one_open_def
  proof (intro ballI impI)
    fix p q assume pq: "p \<in> set (pw_rows w @ [r])" "q \<in> set (pw_rows w @ [r])"
      and o: "pr_status p = Proposal_open \<and> pr_status q = Proposal_open \<and> pr_service_id p \<noteq> None \<and>
        pr_service_id p = pr_service_id q \<and> pr_finding_type p = pr_finding_type q"
    consider "p \<in> set (pw_rows w)" "q \<in> set (pw_rows w)" | "p = r" "q \<in> set (pw_rows w)"
      | "p \<in> set (pw_rows w)" "q = r" | "p = r" "q = r" using pq by auto
    then show "p = q"
    proof cases
      case 1 then show ?thesis using old o by blast
    next
      case 2 then show ?thesis using new [of q] o by simp
    next
      case 3 then show ?thesis using new [of p] o by simp
    qed simp
  qed
  then show ?thesis
    using assms(1,3,4,5) fresh by (auto simp: rows_ok_def lessThan_Suc)
qed

lemma keeps_closed_status:
  "st \<noteq> Proposal_open \<Longrightarrow> keeps_closed (\<lambda>p. p\<lparr>pr_status := st, pr_resolved_at := h p\<rparr>)"
  by (simp add: keeps_closed_def)

lemma keeps_closed_seen:
  "keeps_closed (\<lambda>p. p\<lparr>pr_last_comment_id := i\<rparr>)"
  "keeps_closed (\<lambda>p. p\<lparr>pr_last_comment_id := i, pr_diff := d\<rparr>)"
  by (simp_all add: keeps_closed_def)

lemma set_status_ok:
  assumes "rows_ok g w" "s \<noteq> Proposal_open"
  shows "rows_ok g (fst (world_set_status g i s r w))"
  by (rule rows_ok_put [OF assms(1) keeps_closed_status [OF assms(2)]])
    (simp_all add: set_status_rows)

lemma retired_not_open: "retired_status f s = Some st \<Longrightarrow> st \<noteq> Proposal_open"
  by (auto simp: retired_status_def split: if_splits)

lemma retire_ok: "rows_ok g w \<Longrightarrow> rows_ok g (fst (engine_retire st g p w))"
  by (simp add: engine_retire_def retire_if_finished_def Let_def set_status_ok retired_not_open
        split: sum.split option.split)

lemma retire_closes:
  assumes "snd (engine_retire st g p w)"
  shows "\<exists>s h. s \<noteq> Proposal_open \<and> pw_rows (fst (engine_retire st g p w)) =
    put_row pr_id (pr_id p) (\<lambda>p. p\<lparr>pr_status := s, pr_resolved_at := h p\<rparr>) (pw_rows w)"
proof -
  obtain x s where x: "go_state g (pw_trace w @ [G_state (the (se_repo st)) (the (pr_pr_number p))]) = Inr x"
    "retired_status (pr_finding_type p) x = Some s"
    "\<not> (\<not> pr_number_set p \<or> \<not> se_git st \<or> \<not> truthy (se_repo st))"
    using assms
    by (auto simp: engine_retire_def retire_if_finished_def Let_def split: sum.splits option.splits if_splits)
  then have "pw_rows (fst (engine_retire st g p w)) = fst (set_status
      (go_now g (pw_trace w @ [G_state (the (se_repo st)) (the (pr_pr_number p))])) (pr_id p) s True (pw_rows w))"
    by (simp add: engine_retire_def retire_if_finished_def Let_def)
  then show ?thesis using retired_not_open [OF x(2)] by (auto simp: set_status_rows)
qed

lemma open_check_ok: "rows_ok g w \<Longrightarrow> rows_ok g (fst (open_check st g f s w))"
  by (simp add: open_check_def case_prod_beta Let_def retire_ok split: option.split)

text \<open>When the check lets a task through, no open proposal is left for the service and finding.\<close>

lemma open_check_none:
  assumes ok: "rows_ok g w" and none: "snd (open_check st g f s w) = None"
  shows "find_open (svc_id s) f (pw_rows (fst (open_check st g f s w))) = None"
proof (cases "find_open (svc_id s) f (pw_rows w)")
  case None
  then show ?thesis by (simp add: open_check_def)
next
  case (Some p)
  then have r: "snd (engine_retire st g p w)"
    and e: "fst (open_check st g f s w) = fst (engine_retire st g p w)"
    using none by (auto simp: open_check_def case_prod_beta Let_def split: if_splits)
  obtain x h where x: "x \<noteq> Proposal_open" "pw_rows (fst (engine_retire st g p w)) =
    put_row pr_id (pr_id p) (\<lambda>p. p\<lparr>pr_status := x, pr_resolved_at := h p\<rparr>) (pw_rows w)"
    using retire_closes [OF r] by blast
  have p: "p \<in> set (pw_rows w)" "is_open_for (svc_id s) f p"
    using find_open_SomeD [OF Some] by auto
  have "\<not> is_open_for (svc_id s) f q'" if q': "q' \<in> set (pw_rows (fst (engine_retire st g p w)))" for q'
  proof
    assume o: "is_open_for (svc_id s) f q'"
    obtain q where q: "q \<in> set (pw_rows w)"
      "q' = (if pr_id q = pr_id p then q\<lparr>pr_status := x, pr_resolved_at := h q\<rparr> else q)"
      using q' by (auto simp: x(2) put_row_def)
    then have "pr_id q \<noteq> pr_id p" "q' = q" using o x(1) by (auto simp: is_open_for_def split: if_splits)
    moreover have "p = q"
      using ok p q(1) o \<open>q' = q\<close> by (auto simp: rows_ok_def one_open_def is_open_for_def)
    ultimately show False by simp
  qed
  then show ?thesis by (simp add: e find_open_None_iff)
qed

text \<open>The rows an opening leaves: unchanged, or one row more.\<close>

lemma git_open_simps [simp]:
  "pw_rows (fst (git_open st g b path r body w)) = pw_rows w"
  "pw_drawn (fst (git_open st g b path r body w)) = pw_drawn w"
  by (simp_all add: git_open_def Let_def split: sum.split)

lemma open_effects_rows:
  "(pw_rows (fst (open_effects st g f s actor w)) = pw_rows w \<and>
    pw_drawn (fst (open_effects st g f s actor w)) = pw_drawn w) \<or>
   (\<exists>r. pw_rows (fst (open_effects st g f s actor w)) = pw_rows w @ [r] \<and>
        pw_drawn (fst (open_effects st g f s actor w)) = Suc (pw_drawn w) \<and>
        pr_id r = go_uuid g (pw_drawn w) \<and> pr_service_id r = Some (svc_id s) \<and>
        pr_finding_type r = f \<and>
        (pr_status r = Proposal_rejected \<or>
         pr_status r = Proposal_open \<and> \<not> se_dry_run st \<and>
           snd (open_effects st g f s actor w) = Opened r))"
  by (simp add: open_effects_def Let_def case_prod_beta add_proposal_row new_proposal_def
        split: option.split sum.split)

lemma open_effects_ok:
  assumes "rows_ok g w" "inj (go_uuid g)" "find_open (svc_id s) f (pw_rows w) = None"
  shows "rows_ok g (fst (open_effects st g f s actor w))"
proof (cases "pw_rows (fst (open_effects st g f s actor w)) = pw_rows w \<and>
    pw_drawn (fst (open_effects st g f s actor w)) = pw_drawn w")
  case True
  then show ?thesis using assms(1) by (simp add: rows_ok_def)
next
  case False
  then obtain r where "pw_rows (fst (open_effects st g f s actor w)) = pw_rows w @ [r]"
    "pw_drawn (fst (open_effects st g f s actor w)) = Suc (pw_drawn w)"
    "pr_id r = go_uuid g (pw_drawn w)" "pr_service_id r = Some (svc_id s)" "pr_finding_type r = f"
    using open_effects_rows [of st g f s actor w] by blast
  then show ?thesis using rows_ok_append [OF assms(1,2), of r] assms(3) by auto
qed

lemma open_proposal_ok:
  assumes "rows_ok g w" "inj (go_uuid g)"
  shows "rows_ok g (fst (open_proposal st g f s actor w))"
  using open_check_ok [OF assms(1), of st f s] open_check_none [OF assms(1), of st f s] assms(2)
  by (auto simp: open_proposal_def case_prod_beta open_effects_ok split: option.split)

lemma add_rejected_ok:
  assumes "rows_ok g w" "inj (go_uuid g)" "pr_status (snd (add_proposal g f cols w)) = Proposal_rejected"
    and "pr_id (snd (add_proposal g f cols w)) = go_uuid g (pw_drawn w)"
  shows "rows_ok g (fst (add_proposal g f cols w))"
  by (rule rows_ok_append [OF assms(1,2,4)]) (simp_all add: assms(3))

lemma create_ok:
  assumes "rows_ok g w" "inj (go_uuid g)"
  shows "rows_ok g (fst (create_for_service st g rg sid actor w))"
    and "rows_ok g (fst (create_for_image_update st g rg sid img tag actor w))"
    and "rows_ok g (fst (create_for_vulnerability st g rg sid img tag cves actor w))"
  using assms open_proposal_ok [OF assms] open_check_ok [OF assms(1)]
  by (simp_all add: create_for_service_def create_for_image_update_def
        create_for_vulnerability_def case_prod_beta Let_def add_rejected_ok add_proposal_row
        new_proposal_def split: option.split)

lemma sync_ok: "rows_ok g w \<Longrightarrow> rows_ok g (sync_pr_states st g w)"
  unfolding sync_pr_states_def
  by (auto intro: fold_invariant [where Q = "\<lambda>x. True" and P = "rows_ok g"] retire_ok)

lemma sweep_ok: "rows_ok g w \<Longrightarrow> rows_ok g (fst (sweep_verifications g rg w))"
  unfolding sweep_verifications_def
proof (rule fold_invariant [where Q = "\<lambda>x. True" and P = "\<lambda>wv. rows_ok g (fst wv)"])
  fix p :: proposal and wv :: "pworld \<times> proposal list"
  assume "rows_ok g (fst wv)"
  then show "rows_ok g (fst (sweep_one g rg p wv))"
    by (cases wv) (simp add: sweep_one_def Let_def set_status_ok split: option.split)
qed simp_all

lemma after_discovery_ok:
  assumes "rows_ok g w" "inj (go_uuid g)"
  shows "rows_ok g (after_discovery st g rg w)"
proof -
  have "rows_ok g (auto_create st g rg v)" if "rows_ok g v" for v
    using that unfolding auto_create_def
    by (auto intro!: fold_invariant [where Q = "\<lambda>x. True" and P = "rows_ok g"]
          simp: auto_one_def create_ok assms(2))
  then show ?thesis by (simp add: after_discovery_def Let_def sync_ok sweep_ok assms(1))
qed

lemma save_ok:
  assumes "rows_ok g w" "keeps_closed f"
  shows "rows_ok g (fst (save_proposal i f w))"
  by (rule rows_ok_put [OF assms]) simp_all

lemma feedback_ok: "rows_ok g w \<Longrightarrow> rows_ok g (fst (apply_review_feedback st g p c w))"
  by (simp add: apply_review_feedback_def Let_def case_prod_beta save_ok keeps_closed_seen
        split: sum.split option.split)

lemma feedback_loop_ok: "rows_ok g w \<Longrightarrow> rows_ok g (feedback_loop st g cs p w)"
proof (induction cs arbitrary: p w)
  case (Cons c cs)
  then show ?case
    using feedback_ok [OF Cons.prems, of st p c] by (auto split: prod.split option.split)
qed simp

lemma poll_ok: "rows_ok g w \<Longrightarrow> rows_ok g (poll_pr_comments st g w)"
proof -
  assume w: "rows_ok g w"
  then have "rows_ok g (fold (\<lambda>p w. if \<not> pr_number_set p \<or> pr_branch p = [] then w
      else poll_one st g p w) (list_open True (pw_rows w)) w)"
    by (intro fold_invariant [where Q = "\<lambda>x. True" and P = "rows_ok g"])
      (simp_all add: poll_one_def Let_def feedback_loop_ok split: sum.split)
  with w show ?thesis by (simp add: poll_pr_comments_def)
qed

lemma cancel_ok: "rows_ok g w \<Longrightarrow> rows_ok g (fst (cancel_proposal st g i w))"
  by (simp add: cancel_proposal_def Let_def case_prod_beta set_status_ok split: option.split)

lemma engine_step_ok: "rows_ok g w \<Longrightarrow> inj (go_uuid g) \<Longrightarrow> rows_ok g (engine_step st g op w)"
  by (cases op) (simp_all add: create_ok after_discovery_ok poll_ok cancel_ok)

lemma engine_reach_ok: "engine_reach st g w \<Longrightarrow> inj (go_uuid g) \<Longrightarrow> rows_ok g w"
proof (induction rule: engine_reach.induct)
  case reach_init
  then show ?case by (simp add: rows_ok_def no_proposals_def one_open_def)
qed (rule engine_step_ok)

end
