(* ===== verification/ProposalClaims.thy ===== *)
theory ProposalClaims
  imports ProposalProps
begin

text \<open>
  The properties of the proposal engine: where it writes, how many pull requests it keeps
  open, whose comments it follows, what the sweep and auto-creation do; each with a
  concrete run as its witness.
\<close>

section \<open>An example\<close>

definition example_answer :: patch_answer where
  "example_answer =
     \<lparr>an_patch = ''a'', an_confidence = 1, an_commit_message = [], an_pr_title = [],
      an_pr_body = [], an_reasoning = []\<rparr>"

definition example_comment :: comment where
  "example_comment = \<lparr>co_id = 7, co_login = ''ann'', co_body = ''x''\<rparr>"

definition example_oracles :: oracles where
  "example_oracles =
     \<lparr>go_read = (\<lambda>t. Inr ''a''), go_branch = (\<lambda>t. None), go_commit = (\<lambda>t. None),
      go_open = (\<lambda>t. Inr (''url'', int (length t))), go_state = (\<lambda>t. Inr PR_open),
      go_comments = (\<lambda>t. Inr [example_comment]), go_patch = (\<lambda>t. Some example_answer),
      go_yaml = (\<lambda>s. True), go_suffix = (\<lambda>t. ''d''), go_now = (\<lambda>t. int (length t)),
      go_uuid = (\<lambda>n. replicate n CHR ''u'')\<rparr>"

definition example_proposals :: proposal_settings where
  "example_proposals =
     \<lparr>se_git = True, se_repo = Some ''o/r'', se_base = ''main'', se_label = ''l'',
      se_dry_run = False, se_auto_create = True, se_read_only = False, se_threshold = 4 / 5,
      se_apply_mode = ''manual'', se_allowed_users = ''ann'', se_path = (\<lambda>n s. n @ s),
      se_reason = (\<lambda>r. [])\<rparr>"

definition example_conflict :: service where
  "example_conflict =
     (new_service ''s'' ''web'' ''web'' 0)\<lparr>svc_host := Some ''n'', svc_auth_mode_conflict := True\<rparr>"

definition example_services :: registry where
  "example_services = empty_registry\<lparr>rg_services := [example_conflict]\<rparr>"

lemma example_uuid: "inj (go_uuid example_oracles)"
proof (rule injI)
  fix a b assume "go_uuid example_oracles a = go_uuid example_oracles b"
  then have "length (replicate a CHR ''u'') = length (replicate b CHR ''u'')"
    by (simp add: example_oracles_def del: length_replicate)
  then show "a = b" by simp
qed

lemma example_scrub [simp]: "scrub_credentials ''a'' = (''a'', False)" "scrub_credentials [] = ([], False)"
proof -
  have "\<forall>c \<in> set ''a''. lower_char c \<notin> set ''tksp''" by code_simp
  from scrub_from_plain [OF this, of 2] show "scrub_credentials ''a'' = (''a'', False)"
    by (simp add: scrub_credentials_def numeral_2_eq_2 del: scrub_from.simps)
  show "scrub_credentials [] = ([], False)"
    by (simp add: scrub_credentials_def del: scrub_from.simps)
qed

lemma example_strip [simp]: "strip ''a'' = ''a''" "untab ''a'' = ''a''"
  by code_simp+

lemma example_generated:
  "generate_patch (\<lambda>s. True) (4 / 5) f (Some example_answer) =
     \<lparr>ps_ok = True, ps_confidence = 1, ps_rejection = None, ps_patch = ''a'',
      ps_commit_message = ''fix: remediate '' @ f, ps_pr_title = ''Remediate '' @ f,
      ps_pr_body = [], ps_reasoning = []\<rparr>"
  by (simp add: generate_patch_def gate_patch_def example_answer_def or_message_def Let_def)

lemma example_revised:
  "revise_patch (\<lambda>s. True) (4 / 5) (Some example_answer) =
     \<lparr>ps_ok = True, ps_confidence = 1, ps_rejection = None, ps_patch = ''a'',
      ps_commit_message = ''fix: apply review feedback'', ps_pr_title = [], ps_pr_body = [],
      ps_reasoning = []\<rparr>"
  by (simp add: revise_patch_def gate_patch_def example_answer_def or_message_def Let_def)

lemmas example_simps =
  example_oracles_def example_proposals_def example_conflict_def example_services_def
  no_proposals_def new_service_def empty_registry_def new_proposal_def the_repo_def the_default_def
  open_effects_def open_check_def git_open_def find_open_def resolve_target_def branch_name_def
  feature_branch_def example_generated add_proposal_def proposal_create_def Let_def

definition example_branch :: pystr where
  "example_branch = ''patch/auth_mode_conflict-web-d''"

definition example_open :: pworld where
  "example_open = fst (create_for_service example_proposals example_oracles example_services ''s'' ''m'' no_proposals)"

lemma example_reach: "engine_reach example_proposals example_oracles example_open"
  using reach_step [OF reach_init, of example_proposals example_oracles
    "Create_service example_services ''s'' ''m''"]
  by (simp add: example_open_def)

lemma example_open_eq:
  "example_open =
     \<lparr>pw_rows = [(new_proposal [] Finding_auth_mode_conflict 5)\<lparr>pr_service_id := Some ''s'', pr_pr_url := ''url'',
          pr_pr_number := Some 5, pr_branch := example_branch, pr_file_path := ''nweb'', pr_diff := ''a'',
          pr_confidence := Some 1, pr_actor := ''m'', pr_created_at := Naive 5\<rparr>],
      pw_drawn = 1,
      pw_trace = [G_read ''o/r'' ''nweb'' ''main'', Ask_patch ''nweb'', G_branch ''o/r'' example_branch ''main'',
        G_commit ''o/r'' ''nweb'' ''a'' example_branch ''fix: remediate auth_mode_conflict'',
        G_open ''o/r'' ''Remediate auth_mode_conflict'' (apply_footer ''manual'') example_branch ''main'' ''l'',
        Notified (Some ''url'')]\<rparr>"
  by (simp add: example_open_def create_for_service_def engine_configured_def get_service_def
      get_row_def finding_of_def open_proposal_def emit_def example_branch_def sqlite_datetime_def
      example_simps)

section \<open>Where the engine writes\<close>

text \<open>
  C2: In every run, whatever the provider answers, each branch the engine creates, each file it
  commits and each pull request it opens is in the configured repository and on a feature
  branch: a named branch that is not the base branch.
\<close>
theorem commits_stay_off_base:
  assumes "engine_reach st g w" "ev \<in> set (pw_trace w)"
    and "(\<exists>path content msg. ev = G_commit repo path content branch msg) \<or>
      (\<exists>base. ev = G_branch repo branch base) \<or> (\<exists>t b base l. ev = G_open repo t b branch base l)"
  shows "repo = the_repo st \<and> branch \<noteq> [] \<and> branch \<noteq> se_base st"
proof -
  have "ev_safe st ev"
    using engine_reach_safe [OF assms(1)] assms(2) by (auto simp: trace_safe_def list_all_iff)
  then show ?thesis using assms(3) by (auto simp: feature_branch_def)
qed

theorem commits_stay_off_base_witness:
  "''o/r'' = the_repo example_proposals \<and> example_branch \<noteq> [] \<and>
   example_branch \<noteq> se_base example_proposals"
proof (rule commits_stay_off_base [OF example_reach])
  show "G_branch ''o/r'' example_branch ''main'' \<in> set (pw_trace example_open)"
    by (simp add: example_open_eq)
qed blast

section \<open>One open proposal\<close>

lemma distinct_one:
  assumes "distinct t" "\<And>p q. p \<in> set t \<Longrightarrow> q \<in> set t \<Longrightarrow> P p \<Longrightarrow> P q \<Longrightarrow> p = q"
  shows "length (filter P t) \<le> 1"
proof -
  have "card (set (filter P t)) \<le> 1"
    using assms(2) by (simp add: card_le_Suc0_iff_eq)
  then show ?thesis using distinct_filter [OF assms(1), of P] distinct_card by fastforce
qed

text \<open>
  C7: As long as each call of the engine ends before the next begins, a service never has two
  open proposals for the same finding, over any sequence of manual requests, alerts,
  discovery passes, comment polls and cancellations.
\<close>
theorem one_open_proposal:
  assumes "engine_reach st g w" "inj (go_uuid g)"
  shows "length (filter (is_open_for sid f) (pw_rows w)) \<le> 1"
proof (rule distinct_one)
  have ok: "rows_ok g w" by (rule engine_reach_ok [OF assms])
  then show "distinct (pw_rows w)" by (auto simp: rows_ok_def distinct_map)
  show "p = q" if "p \<in> set (pw_rows w)" "q \<in> set (pw_rows w)" "is_open_for sid f p" "is_open_for sid f q"
    for p q using ok that by (auto simp: rows_ok_def one_open_def is_open_for_def)
qed

theorem one_open_proposal_witness:
  "length (filter (is_open_for ''s'' Finding_auth_mode_conflict) (pw_rows example_open)) \<le> 1"
  by (rule one_open_proposal [OF example_reach example_uuid])

text \<open>
  The engine awaits the provider between its check for an open proposal and the row it
  records, so two requests for the same finding that both pass the check before either
  records its row leave two open proposals, two pull requests for one finding.
\<close>
theorem concurrent_requests_open_two:
  assumes "find_open (svc_id s) f (pw_rows w) = None"
    and "snd (open_effects st g f s a1 w) = Opened r1"
    and "snd (open_effects st g f s a2 (fst (open_effects st g f s a1 w))) = Opened r2"
  shows "snd (open_check st g f s w) = None \<and>
    snd (open_check st g f s (fst (open_check st g f s w))) = None \<and>
    length (filter (is_open_for (svc_id s) f)
      (pw_rows (fst (open_effects st g f s a2 (fst (open_effects st g f s a1 w)))))) = 2"
proof -
  have grow: "\<exists>r. pw_rows (fst (open_effects st g f s a v)) = pw_rows v @ [r] \<and> is_open_for (svc_id s) f r"
    if "snd (open_effects st g f s a v) = Opened r'" for a v r'
    using that
    by (auto simp: open_effects_def Let_def case_prod_beta add_proposal_row new_proposal_def is_open_for_def
        split: option.splits sum.splits if_splits)
  have "filter (is_open_for (svc_id s) f) (pw_rows w) = []"
    using assms(1) by (auto simp: find_open_None_iff filter_empty_conv)
  then show ?thesis
    using grow [OF assms(2)] grow [OF assms(3)] assms(1) by (auto simp: open_check_def)
qed

theorem concurrent_requests_open_two_witness:
  "length (filter (is_open_for ''s'' Finding_auth_mode_conflict)
     (pw_rows (fst (open_effects example_proposals example_oracles Finding_auth_mode_conflict example_conflict ''b''
       (fst (open_effects example_proposals example_oracles Finding_auth_mode_conflict example_conflict ''a''
          no_proposals)))))) = 2"
proof -
  let ?e = "\<lambda>a w. open_effects example_proposals example_oracles Finding_auth_mode_conflict example_conflict a w"
  have n: "find_open (svc_id example_conflict) Finding_auth_mode_conflict (pw_rows no_proposals) = None"
    by (simp add: example_simps)
  have e: "\<exists>r. snd (?e a w) = Opened r" for a w
    by (simp add: example_simps emit_def)
  obtain r1 r2 where "snd (?e ''a'' no_proposals) = Opened r1"
    "snd (?e ''b'' (fst (?e ''a'' no_proposals))) = Opened r2" using e by blast
  from concurrent_requests_open_two [OF n this] show ?thesis
    by (simp add: example_conflict_def new_service_def)
qed

section \<open>What stays inert\<close>

fun is_git_write :: "git_event \<Rightarrow> bool" where
  "is_git_write (G_branch repo branch base) = True"
| "is_git_write (G_commit repo path content branch msg) = True"
| "is_git_write (G_delete repo path branch msg) = True"
| "is_git_write (G_open repo t b branch base l) = True"
| "is_git_write (G_close repo n) = True"
| "is_git_write _ = False"

definition writes_of :: "pworld \<Rightarrow> git_event list" where
  "writes_of w = filter is_git_write (pw_trace w)"

lemma writes_simps [simp]:
  "writes_of (emit ev w) = writes_of w @ (if is_git_write ev then [ev] else [])"
  "writes_of (fst (add_proposal g f cols w)) = writes_of w"
  "writes_of (fst (world_set_status g i s r w)) = writes_of w"
  "writes_of (fst (save_proposal i h w)) = writes_of w"
  by (simp_all add: writes_of_def)

lemma retire_writes [simp]: "writes_of (fst (engine_retire st g p w)) = writes_of w"
  by (simp add: engine_retire_def retire_if_finished_def Let_def split: sum.split option.split)

lemma open_check_writes [simp]: "writes_of (fst (open_check st g f s w)) = writes_of w"
  by (simp add: open_check_def case_prod_beta Let_def split: option.split)

lemma dry_effects_writes: "se_dry_run st \<Longrightarrow> writes_of (fst (open_effects st g f s actor w)) = writes_of w"
  by (simp add: open_effects_def Let_def case_prod_beta split: option.split sum.split)

definition open_rows :: "pworld \<Rightarrow> pystr set" where
  "open_rows w = pr_id ` {p \<in> set (pw_rows w). pr_status p = Proposal_open}"

lemma retire_open_rows: "open_rows (fst (engine_retire st g p w)) \<subseteq> open_rows w"
proof (cases "snd (engine_retire st g p w)")
  case True
  from retire_closes [OF this] obtain s h where sh: "s \<noteq> Proposal_open"
    "pw_rows (fst (engine_retire st g p w)) =
      put_row pr_id (pr_id p) (\<lambda>p. p\<lparr>pr_status := s, pr_resolved_at := h p\<rparr>) (pw_rows w)" by blast
  show ?thesis using sh(1) by (auto simp: open_rows_def sh(2) put_row_def)
next
  case False
  then have "pw_rows (fst (engine_retire st g p w)) = pw_rows w"
    by (auto simp: engine_retire_def retire_if_finished_def Let_def split: sum.splits option.splits)
  then show ?thesis by (simp add: open_rows_def)
qed

lemma open_check_open_rows: "open_rows (fst (open_check st g f s w)) \<subseteq> open_rows w"
  using retire_open_rows by (simp add: open_check_def case_prod_beta Let_def split: option.split)

lemma dry_effects_open_rows:
  assumes "se_dry_run st"
  shows "open_rows (fst (open_effects st g f s actor w)) = open_rows w"
  using open_effects_rows [of st g f s actor w] assms by (auto simp: open_rows_def)

lemma dry_proposal:
  assumes "se_dry_run st"
  shows "writes_of (fst (open_proposal st g f s a w)) = writes_of w"
    and "open_rows (fst (open_proposal st g f s a w)) \<subseteq> open_rows w"
  using dry_effects_writes [OF assms] dry_effects_open_rows [OF assms] open_check_open_rows
    open_check_writes [of st g f s w]
  by (simp_all add: open_proposal_def case_prod_beta split: option.split)

lemma open_rows_simps [simp]:
  "open_rows (emit ev w) = open_rows w"
  "pr_status (snd (add_proposal g f cols w)) \<noteq> Proposal_open \<Longrightarrow>
     open_rows (fst (add_proposal g f cols w)) = open_rows w"
  by (auto simp: open_rows_def)

lemma no_fix_inert:
  "writes_of (fst (create_for_vulnerability st g rg sid img [] cves actor w)) = writes_of w"
  "open_rows (fst (create_for_vulnerability st g rg sid img [] cves actor w)) \<subseteq> open_rows w"
  using open_check_open_rows [of st g Finding_vulnerability_scan _ w]
  by (simp_all add: create_for_vulnerability_def case_prod_beta Let_def add_proposal_row new_proposal_def
      split: option.split)

lemma dry_create:
  assumes "se_dry_run st"
  shows "writes_of (fst (create_for_service st g rg sid actor w)) = writes_of w \<and>
      open_rows (fst (create_for_service st g rg sid actor w)) \<subseteq> open_rows w"
    and "writes_of (fst (create_for_image_update st g rg sid img tag actor w)) = writes_of w \<and>
      open_rows (fst (create_for_image_update st g rg sid img tag actor w)) \<subseteq> open_rows w"
    and "tag \<noteq> [] \<Longrightarrow> writes_of (fst (create_for_vulnerability st g rg sid img tag cves actor w)) = writes_of w \<and>
      open_rows (fst (create_for_vulnerability st g rg sid img tag cves actor w)) \<subseteq> open_rows w"
  using dry_proposal [OF assms]
  by (simp_all add: create_for_service_def create_for_image_update_def create_for_vulnerability_def
      split: option.split)

text \<open>
  A dry run, and an alert about a vulnerability with no fixed version, never write: nothing
  is created, committed, opened or closed at the provider, and no proposal becomes open.
\<close>
theorem dry_run_inert:
  assumes "op = Create_vulnerability rg sid img [] cves actor \<or>
    se_dry_run st \<and> op \<in> {Create_service rg sid actor, Create_image rg sid img tag actor,
      Create_vulnerability rg sid img tag cves actor}"
  shows "writes_of (engine_step st g op w) = writes_of w \<and>
    open_rows (engine_step st g op w) \<subseteq> open_rows w"
proof (cases "op = Create_vulnerability rg sid img [] cves actor")
  case True
  then show ?thesis by (simp add: no_fix_inert)
next
  case False
  then have st: "se_dry_run st" and tag: "op = Create_vulnerability rg sid img tag cves actor \<Longrightarrow> tag \<noteq> []"
    using assms by auto
  consider "op = Create_service rg sid actor" | "op = Create_image rg sid img tag actor"
    | "op = Create_vulnerability rg sid img tag cves actor" using False assms by auto
  then show ?thesis
    by cases (simp_all only: engine_step.simps dry_create [OF st] dry_create(3) [OF st tag])
qed

theorem dry_run_inert_witness:
  "writes_of (engine_step example_proposals example_oracles
     (Create_vulnerability example_services ''s'' ''i'' [] [] ''m'') example_open) = writes_of example_open"
  by (rule dry_run_inert [THEN conjunct1, OF disjI1, OF refl])

section \<open>Auto-creation\<close>

definition rows_of :: "pystr \<Rightarrow> pworld \<Rightarrow> proposals" where
  "rows_of sid w = filter (\<lambda>p. pr_service_id p = Some sid) (pw_rows w)"

lemma filter_map_same:
  "(\<And>x. x \<in> set xs \<Longrightarrow> P (h x) = P x \<and> (P x \<longrightarrow> h x = x)) \<Longrightarrow> filter P (map h xs) = filter P xs"
  by (induction xs) auto

lemma retire_rows_of:
  assumes "rows_ok g w" "p \<in> set (pw_rows w)" "pr_service_id p \<noteq> Some sid"
  shows "rows_of sid (fst (engine_retire st g p w)) = rows_of sid w"
proof (cases "snd (engine_retire st g p w)")
  case True
  obtain s h where sh: "pw_rows (fst (engine_retire st g p w)) =
      put_row pr_id (pr_id p) (\<lambda>p. p\<lparr>pr_status := s, pr_resolved_at := h p\<rparr>) (pw_rows w)"
    using retire_closes [OF True] by blast
  have "q = p" if "q \<in> set (pw_rows w)" "pr_id q = pr_id p" for q
    using assms(1,2) that by (auto simp: rows_ok_def distinct_map dest: inj_onD)
  then have "\<And>q. q \<in> set (pw_rows w) \<Longrightarrow> pr_id q = pr_id p \<Longrightarrow> pr_service_id q \<noteq> Some sid"
    using assms(3) by blast
  then show ?thesis
    unfolding rows_of_def sh put_row_def by (intro filter_map_same) simp
next
  case False
  then have "pw_rows (fst (engine_retire st g p w)) = pw_rows w"
    by (auto simp: engine_retire_def retire_if_finished_def Let_def split: sum.splits option.splits)
  then show ?thesis by (simp add: rows_of_def)
qed

lemma open_check_rows_of:
  assumes "rows_ok g w" "svc_id s \<noteq> sid"
  shows "rows_of sid (fst (open_check st g f s w)) = rows_of sid w"
proof (cases "find_open (svc_id s) f (pw_rows w)")
  case (Some p)
  then have "p \<in> set (pw_rows w)" "pr_service_id p \<noteq> Some sid"
    using find_open_SomeD [OF Some] assms(2) by (auto simp: is_open_for_def)
  with Some show ?thesis
    using retire_rows_of [OF assms(1)] by (simp add: open_check_def case_prod_beta Let_def)
qed (simp add: open_check_def)

lemma open_effects_rows_of:
  "svc_id s \<noteq> sid \<Longrightarrow> rows_of sid (fst (open_effects st g f s actor w)) = rows_of sid w"
  using open_effects_rows [of st g f s actor w] by (auto simp: rows_of_def)

lemma open_proposal_rows_of:
  "rows_ok g w \<Longrightarrow> svc_id s \<noteq> sid \<Longrightarrow> rows_of sid (fst (open_proposal st g f s actor w)) = rows_of sid w"
  by (simp add: open_proposal_def case_prod_beta open_check_rows_of open_effects_rows_of split: option.split)

lemma get_service_id:
  "s \<in> set (rg_services rg) \<Longrightarrow> \<exists>s'. get_service (svc_id s) rg = Some s' \<and> svc_id s' = svc_id s"
proof (cases "get_row svc_id (rg_services rg) (svc_id s)")
  case None
  then have "svc_id s \<notin> svc_id ` set (rg_services rg)" by (simp only: get_row_None_iff not_False_eq_True)
  moreover assume "s \<in> set (rg_services rg)"
  ultimately show ?thesis by blast
next
  case (Some s')
  then show ?thesis using get_row_SomeD [OF Some] by (simp add: get_service_def)
qed

lemma find_filter: "find Q (filter R xs) = find (\<lambda>x. R x \<and> Q x) xs"
  by (induction xs) auto

lemma auto_wants_rows_of:
  assumes "rows_of (svc_id s) w = rows_of (svc_id s) v"
  shows "auto_wants now rg (pw_rows w) s = auto_wants now rg (pw_rows v) s"
proof -
  have f: "filter (\<lambda>p. pr_service_id p = Some sid \<and> P p) (pw_rows u) = filter P (rows_of sid u)" for sid P u
    by (simp add: rows_of_def conj_commute)
  have "find_open sid x (pw_rows u) = find (\<lambda>p. pr_finding_type p = x \<and> pr_status p = Proposal_open) (rows_of sid u)"
    for sid x u
    by (simp add: find_open_def is_open_for_def [abs_def] rows_of_def find_filter)
  then show ?thesis by (simp add: auto_wants_def latest_proposal_def f assms)
qed

text \<open>
  Auto-creation takes a closed pull request for a no: a service whose latest conflict
  proposal was cancelled keeps exactly the proposals it had, whatever the pass does for the
  other services.
\<close>
theorem auto_create_respects_cancelled:
  assumes reach: "engine_reach st g w" and inj: "inj (go_uuid g)"
    and latest: "latest_proposal sid Finding_auth_mode_conflict (pw_rows w) = Some p"
    and cancelled: "pr_status p = Proposal_cancelled"
  shows "rows_of sid (auto_create st g rg w) = rows_of sid w"
proof -
  have "rows_ok g (auto_create st g rg w) \<and> rows_of sid (auto_create st g rg w) = rows_of sid w"
    unfolding auto_create_def
  proof (rule fold_invariant [where Q = "\<lambda>s. s \<in> set (rg_services rg)"])
    fix s v
    assume s: "s \<in> set (rg_services rg)" and v: "rows_ok g v \<and> rows_of sid v = rows_of sid w"
    show "rows_ok g (auto_one st g rg s v) \<and> rows_of sid (auto_one st g rg s v) = rows_of sid w"
    proof (cases "svc_id s = sid")
      case True
      have "\<not> auto_wants (go_now g (pw_trace v)) rg (pw_rows v) s"
        using auto_wants_rows_of [of s v w] v latest cancelled True by (simp add: auto_wants_def)
      then show ?thesis using v by (simp add: auto_one_def)
    next
      case False
      obtain s' where "get_service (svc_id s) rg = Some s'" "svc_id s' = svc_id s"
        using get_service_id [OF s] by blast
      then have "rows_of sid (fst (create_for_service st g rg (svc_id s) ''discovery:auto'' v)) = rows_of sid v"
        using v False by (simp add: create_for_service_def open_proposal_rows_of split: option.split)
      then show ?thesis using v inj by (simp add: auto_one_def create_ok)
    qed
  qed (auto simp: list_services_def engine_reach_ok [OF reach inj])
  then show ?thesis ..
qed

section \<open>The verification sweep\<close>

definition cleared :: "registry \<Rightarrow> proposal \<Rightarrow> bool" where
  "cleared rg p \<longleftrightarrow>
     pr_status p = Proposal_open \<and> pr_finding_type p = Finding_auth_mode_conflict \<and>
     (case pr_service_id p of None \<Rightarrow> False
      | Some sid \<Rightarrow> (case get_service sid rg of None \<Rightarrow> False | Some s \<Rightarrow> \<not> svc_auth_mode_conflict s))"

lemma sweep_one_eq:
  assumes "pr_status p = Proposal_open"
  shows "sweep_one g rg p (w, v) =
    (if cleared rg p
     then (emit (Notified (if pr_pr_url p \<noteq> [] then Some (pr_pr_url p) else None))
             (fst (world_set_status g (pr_id p) Proposal_verified True w)), v @ [p])
     else (w, v))"
  by (simp add: sweep_one_def cleared_def assms Let_def split: option.split)

lemma sweep_fold:
  assumes "\<forall>p \<in> set L. pr_status p = Proposal_open"
  shows "map (\<lambda>r. (pr_id r, pr_status r)) (pw_rows (fst (fold (sweep_one g rg) L (w, v)))) =
      map (\<lambda>r. (pr_id r, if pr_id r \<in> pr_id ` {p \<in> set L. cleared rg p} then Proposal_verified
                          else pr_status r)) (pw_rows w) \<and>
    snd (fold (sweep_one g rg) L (w, v)) = v @ filter (cleared rg) L"
  using assms
proof (induction L arbitrary: w v)
  case (Cons p L)
  show ?case
  proof (cases "cleared rg p")
    case False
    then have "{q \<in> set (p # L). cleared rg q} = {q \<in> set L. cleared rg q}" by auto
    moreover have "sweep_one g rg p (w, v) = (w, v)" using Cons.prems False by (simp add: sweep_one_eq)
    ultimately show ?thesis using Cons.IH [of w v] Cons.prems False by simp
  next
    case True
    let ?w = "emit (Notified (if pr_pr_url p \<noteq> [] then Some (pr_pr_url p) else None))
             (fst (world_set_status g (pr_id p) Proposal_verified True w))"
    have "map (\<lambda>r. (pr_id r, if pr_id r \<in> pr_id ` {p \<in> set L. cleared rg p} then Proposal_verified
                          else pr_status r)) (pw_rows ?w) =
      map (\<lambda>r. (pr_id r, if pr_id r \<in> pr_id ` {q \<in> set (p # L). cleared rg q} then Proposal_verified
                          else pr_status r)) (pw_rows w)"
      using True by (auto simp: set_status_rows put_row_def)
    then show ?thesis
      using Cons.IH [of ?w "v @ [p]"] Cons.prems True by (simp add: sweep_one_eq)
  qed
qed simp

text \<open>
  The sweep verifies exactly the open conflict proposals whose service is known and no
  longer in conflict: those become verified and are reported, every other proposal (an image
  update, a vulnerability, an adoption, a service still in conflict or gone) keeps its status.
\<close>
theorem sweep_verifies_cleared:
  assumes "engine_reach st g w" "inj (go_uuid g)"
  shows "map pr_status (pw_rows (fst (sweep_verifications g rg w))) =
      map (\<lambda>p. if cleared rg p then Proposal_verified else pr_status p) (pw_rows w) \<and>
    set (snd (sweep_verifications g rg w)) = {p \<in> set (pw_rows w). cleared rg p}"
proof -
  let ?L = "list_open True (pw_rows w)"
  have d: "distinct (map pr_id (pw_rows w))"
    using engine_reach_ok [OF assms] by (simp add: rows_ok_def)
  have c: "{p \<in> set ?L. cleared rg p} = {p \<in> set (pw_rows w). cleared rg p}"
    by (auto simp: in_list_open cleared_def)
  have "pr_id r \<in> pr_id ` {p \<in> set ?L. cleared rg p} \<longleftrightarrow> cleared rg r" if "r \<in> set (pw_rows w)" for r
    unfolding c using d that by (auto simp: distinct_map dest: inj_onD)
  then have m: "map (\<lambda>r. (pr_id r, if pr_id r \<in> pr_id ` {p \<in> set ?L. cleared rg p} then Proposal_verified
      else pr_status r)) (pw_rows w) =
    map (\<lambda>r. (pr_id r, if cleared rg r then Proposal_verified else pr_status r)) (pw_rows w)" by simp
  have f: "map (\<lambda>r. (pr_id r, pr_status r)) (pw_rows (fst (sweep_verifications g rg w))) =
      map (\<lambda>r. (pr_id r, if cleared rg r then Proposal_verified else pr_status r)) (pw_rows w)"
    "snd (sweep_verifications g rg w) = filter (cleared rg) ?L"
    using sweep_fold [of ?L g rg w "[]"] m by (auto simp: sweep_verifications_def in_list_open)
  have "map snd (map (\<lambda>r. (pr_id r, pr_status r)) (pw_rows (fst (sweep_verifications g rg w)))) =
      map snd (map (\<lambda>r. (pr_id r, if cleared rg r then Proposal_verified else pr_status r)) (pw_rows w))"
    by (simp only: f(1))
  then show ?thesis using f(2) c by (simp add: comp_def)
qed

theorem sweep_verifies_cleared_witness:
  "map pr_status (pw_rows (fst (sweep_verifications example_oracles
     (example_services\<lparr>rg_services := [example_conflict\<lparr>svc_auth_mode_conflict := False\<rparr>]\<rparr>) example_open))) =
   [Proposal_verified]"
  using sweep_verifies_cleared [OF example_reach example_uuid, THEN conjunct1]
  by (simp add: example_open_eq new_proposal_def cleared_def get_service_def get_row_def
      example_conflict_def new_service_def)

definition example_cancelled :: pworld where
  "example_cancelled = fst (cancel_proposal example_proposals example_oracles [] example_open)"

theorem auto_create_respects_cancelled_witness:
  "rows_of ''s'' (auto_create example_proposals example_oracles example_services example_cancelled) =
     rows_of ''s'' example_cancelled"
proof -
  have r: "engine_reach example_proposals example_oracles example_cancelled"
    using reach_step [OF example_reach, of "Cancel []"] by (simp add: example_cancelled_def)
  have "\<exists>p. latest_proposal ''s'' Finding_auth_mode_conflict (pw_rows example_cancelled) = Some p \<and>
    pr_status p = Proposal_cancelled"
    by (simp add: example_cancelled_def cancel_proposal_def example_open_eq proposal_get_def get_row_def
        new_proposal_def engine_configured_def pr_number_set_def set_status_rows put_row_def Let_def
        latest_proposal_def newest_first_def case_prod_beta example_proposals_def)
  then show ?thesis using auto_create_respects_cancelled [OF r example_uuid] by blast
qed

section \<open>Review comments\<close>

lemma feedback_row:
  assumes "get_row pr_id (pw_rows w) (pr_id p) = Some p" "feature_branch (pr_branch p) (se_base st)"
  shows "\<exists>q. snd (apply_review_feedback st g p c w) = Some q \<and>
    get_row pr_id (pw_rows (fst (apply_review_feedback st g p c w))) (pr_id p) = Some q \<and>
    pr_id q = pr_id p \<and> pr_branch q = pr_branch p \<and> pr_last_comment_id q = Some (co_id c)"
  using assms
  by (simp add: apply_review_feedback_def Let_def case_prod_beta get_row_put_row
      split: sum.split option.split)

lemma feedback_loop_row:
  assumes "get_row pr_id (pw_rows w) (pr_id p) = Some p" "feature_branch (pr_branch p) (se_base st)"
  shows "\<exists>q. get_row pr_id (pw_rows (feedback_loop st g cs p w)) (pr_id p) = Some q \<and>
    (if cs = [] then q = p else pr_last_comment_id q = Some (co_id (last cs)))"
  using assms
proof (induction cs arbitrary: p w)
  case (Cons c cs)
  obtain w' where w': "fst (apply_review_feedback st g p c w) = w'" by blast
  obtain q where q: "snd (apply_review_feedback st g p c w) = Some q"
    "get_row pr_id (pw_rows w') (pr_id q) = Some q" "pr_id q = pr_id p" "pr_branch q = pr_branch p"
    "pr_last_comment_id q = Some (co_id c)"
    using feedback_row [OF Cons.prems, of g c] w' by auto
  have "feedback_loop st g (c # cs) p w = feedback_loop st g cs q w'"
    using q(1) w' by (cases "apply_review_feedback st g p c w") simp
  moreover have "\<exists>r. get_row pr_id (pw_rows (feedback_loop st g cs q w')) (pr_id q) = Some r \<and>
    (if cs = [] then r = q else pr_last_comment_id r = Some (co_id (last cs)))"
    by (rule Cons.IH) (use q Cons.prems in simp_all)
  ultimately show ?case using q by auto
qed simp

lemma sorted_map_last: "sorted (map f xs) \<Longrightarrow> x \<in> set xs \<Longrightarrow> f x \<le> f (last xs)"
  for f :: "'a \<Rightarrow> int"
  by (induction xs) auto

text \<open>
  C33: A review comment is handled once: after a poll of a proposal on a feature branch, whatever
  became of each comment (untrusted author, unreadable file, rejected or failed revision), the
  stored row has seen all of them, so the same comments again are no new ones.
\<close>
theorem comments_handled_once:
  assumes "get_row pr_id (pw_rows w) (pr_id p) = Some p" "feature_branch (pr_branch p) (se_base st)"
    and "go_comments g (pw_trace w @ [G_comments (the_repo st) (the_default 0 (pr_pr_number p))]) = Inr cs"
  shows "\<exists>q. get_row pr_id (pw_rows (poll_one st g p w)) (pr_id p) = Some q \<and> new_comments q cs = []"
proof -
  let ?n = "new_comments p cs"
  obtain q where q: "get_row pr_id (pw_rows (poll_one st g p w)) (pr_id p) = Some q"
    "if ?n = [] then q = p else pr_last_comment_id q = Some (co_id (last ?n))"
    using feedback_loop_row [of "emit (G_comments (the_repo st) (the_default 0 (pr_pr_number p))) w" p st g ?n]
      assms by (auto simp: poll_one_def Let_def)
  have "new_comments q cs = []"
  proof (cases "?n = []")
    case True
    then show ?thesis using q(2) by simp
  next
    case False
    have s: "set ?n = {c \<in> set cs. the_default 0 (pr_last_comment_id p) < co_id c}"
      by (auto simp: new_comments_def)
    have "co_id c \<le> co_id (last ?n)" if "c \<in> set ?n" for c
      using that by (intro sorted_map_last) (simp_all add: new_comments_def)
    moreover have "the_default 0 (pr_last_comment_id p) < co_id (last ?n)"
      using s False last_in_set by blast
    ultimately have "\<not> co_id (last ?n) < co_id c" if "c \<in> set cs" for c
      using s that by fastforce
    then show ?thesis using q(2) False by (auto simp: new_comments_def the_default_def filter_empty_conv)
  qed
  with q(1) show ?thesis by blast
qed

text \<open>
  Only a comment by an allowed user can lead to a commit: a poll adds at most one write per
  new comment of an author on the list; with an empty list it adds none.
\<close>
theorem comment_commits_bounded:
  assumes "go_comments g (pw_trace w @ [G_comments (the_repo st) (the_default 0 (pr_pr_number p))]) = Inr cs"
  shows "length (writes_of (poll_one st g p w)) \<le>
    length (writes_of w) + length (filter (authorized_commenter st) (new_comments p cs))"
proof -
  have one: "length (writes_of (fst (apply_review_feedback st g p c v))) \<le>
      length (writes_of v) + (if authorized_commenter st c then 1 else 0)" for p c v
    by (simp add: apply_review_feedback_def Let_def case_prod_beta split: sum.split option.split)
  have "length (writes_of (feedback_loop st g cs p v)) \<le>
      length (writes_of v) + length (filter (authorized_commenter st) cs)" for cs p v
  proof (induction cs arbitrary: p v)
    case (Cons c cs)
    obtain v' r where v': "apply_review_feedback st g p c v = (v', r)" by fastforce
    then have "length (writes_of v') \<le> length (writes_of v) + (if authorized_commenter st c then 1 else 0)"
      using one [of p c v] by simp
    moreover have "length (writes_of (feedback_loop st g (c # cs) p v)) \<le>
        length (writes_of v') + length (filter (authorized_commenter st) cs)"
      using v' Cons.IH [of _ v'] by (auto split: option.split)
    ultimately show ?case by (auto split: if_splits)
  qed simp
  from this [of "new_comments p cs" p "emit (G_comments (the_repo st) (the_default 0 (pr_pr_number p))) w"]
  show ?thesis using assms by (simp add: poll_one_def Let_def)
qed

definition example_row :: proposal where
  "example_row = hd (pw_rows example_open)"

lemma example_row_eq: "pw_rows example_open = [example_row]"
  by (simp add: example_row_def example_open_eq)

theorem comments_handled_once_witness:
  "\<exists>q. get_row pr_id (pw_rows (poll_one example_proposals example_oracles example_row example_open))
     (pr_id example_row) = Some q \<and> new_comments q [example_comment] = []"
  by (rule comments_handled_once)
    (simp_all add: example_row_eq example_proposals_def example_oracles_def,
     simp add: example_row_def example_open_eq feature_branch_def example_branch_def)

theorem comment_commits_bounded_witness:
  "length (writes_of (poll_one example_proposals example_oracles example_row example_open)) \<le> 4"
proof -
  have "length (writes_of example_open) = 3" by (simp add: writes_of_def example_open_eq)
  moreover have "length (filter (authorized_commenter example_proposals)
      (new_comments example_row [example_comment])) \<le> 1"
    by (simp add: new_comments_def)
  ultimately show ?thesis
    using comment_commits_bounded [of example_oracles example_open example_proposals example_row
        "[example_comment]"]
    by (simp add: example_oracles_def)
qed

end
