(* ===== verification/PyJson.thy ===== *)
theory PyJson
  imports Models
begin

text \<open>
  Python's view of decoded JSON: truth values, equality of dictionary keys, iteration, and
  the string methods the discovery sources apply to it.
\<close>

text \<open>The values \<open>not v\<close> is true of; \<open>None\<close> is a missing key.\<close>

definition json_falsy :: "json option \<Rightarrow> bool" where
  "json_falsy v \<longleftrightarrow>
     v \<in> {None, Some JNull, Some (JBool False), Some (JInt 0), Some (JFloat 0), Some (JStr []),
          Some (JList []), Some (JObj [])}"

text \<open>
  The key a hashable value is in a dictionary: \<open>True\<close>, \<open>1\<close> and \<open>1.0\<close> are one key. \<open>None\<close>
  when the value is not hashable.
\<close>

fun hash_key :: "json option \<Rightarrow> json option" where
  "hash_key None = Some JNull"
| "hash_key (Some (JBool b)) = Some (JInt (if b then 1 else 0))"
| "hash_key (Some (JFloat q)) =
     Some (if snd (quotient_of q) = 1 then JInt (fst (quotient_of q)) else JFloat q)"
| "hash_key (Some (JList xs)) = None"
| "hash_key (Some (JObj kvs)) = None"
| "hash_key (Some j) = Some j"

text \<open>\<open>for x in v\<close>, with \<open>v or []\<close> first; \<open>None\<close> is a \<open>TypeError\<close>.\<close>

definition json_items :: "json option \<Rightarrow> json list option" where
  "json_items v =
     (if json_falsy v then Some []
      else case v of
        Some (JList xs) \<Rightarrow> Some xs
      | Some (JStr s) \<Rightarrow> Some (map (\<lambda>c. JStr [c]) s)
      | Some (JObj kvs) \<Rightarrow> Some (map (\<lambda>kv. JStr (fst kv)) kvs)
      | _ \<Rightarrow> None)"

text \<open>\<open>v or ""\<close> where a string method follows; \<open>None\<close> is an exception.\<close>

definition json_text_or_empty :: "json option \<Rightarrow> pystr option" where
  "json_text_or_empty v =
     (if json_falsy v then Some [] else case v of Some (JStr s) \<Rightarrow> Some s | _ \<Rightarrow> None)"

text \<open>
  \<open>str.title\<close> below code point 256. The three letters whose capital lies above (the micro
  sign, sharp s, y with diaeresis) are kept.
\<close>

definition is_cased :: "char \<Rightarrow> bool" where
  "is_cased c \<longleftrightarrow>
     is_ascii_alpha c \<or>
     (let n = code_point c in n \<in> {170, 181, 186} \<or> (192 \<le> n \<and> n \<noteq> 215 \<and> n \<noteq> 247))"

definition upper_char :: "char \<Rightarrow> char" where
  "upper_char c =
     (let n = code_point c in
      if (97 \<le> n \<and> n \<le> 122) \<or> (224 \<le> n \<and> n \<le> 254 \<and> n \<noteq> 247) then char_of (n - 32) else c)"

fun title_from :: "bool \<Rightarrow> pystr \<Rightarrow> pystr" where
  "title_from inside [] = []"
| "title_from inside (c # s) =
     (if inside then lower_char c else upper_char c) # title_from (is_cased c) s"

definition title :: "pystr \<Rightarrow> pystr" where
  "title s = title_from False s"

text \<open>All or nothing: the results of a loop that may raise.\<close>

fun collect :: "('a \<Rightarrow> 'b list option) \<Rightarrow> 'a list \<Rightarrow> 'b list option" where
  "collect f [] = Some []"
| "collect f (x # xs) =
     (case f x of
        None \<Rightarrow> None
      | Some ys \<Rightarrow> (case collect f xs of None \<Rightarrow> None | Some zs \<Rightarrow> Some (ys @ zs)))"

lemma collect_Some_in:
  "collect f xs = Some out \<Longrightarrow> y \<in> set out \<Longrightarrow> \<exists>x ys. x \<in> set xs \<and> f x = Some ys \<and> y \<in> set ys"
proof (induction xs arbitrary: out)
  case (Cons x xs)
  obtain ys zs where *: "f x = Some ys" "collect f xs = Some zs" "out = ys @ zs"
    using Cons.prems(1) by (auto split: option.splits)
  then have "y \<in> set ys \<or> y \<in> set zs" using Cons.prems(2) by simp
  then show ?case
  proof
    assume "y \<in> set ys"
    then show ?thesis using *(1) by auto
  next
    assume "y \<in> set zs"
    from Cons.IH [OF *(2) this] show ?thesis by auto
  qed
qed simp

lemma collect_each:
  "collect f xs = Some out \<Longrightarrow> x \<in> set xs \<Longrightarrow> \<exists>ys. f x = Some ys \<and> set ys \<subseteq> set out"
proof (induction xs arbitrary: out)
  case (Cons a xs)
  obtain ys zs where *: "f a = Some ys" "collect f xs = Some zs" "out = ys @ zs"
    using Cons.prems(1) by (auto split: option.splits)
  show ?case
  proof (cases "x = a")
    case True
    then show ?thesis using * by auto
  next
    case False
    then obtain us where "f x = Some us" "set us \<subseteq> set zs"
      using Cons.IH [OF *(2)] Cons.prems(2) by auto
    then show ?thesis using * by auto
  qed
qed simp

end
