(* ===== verification/Auth.thy ===== *)
theory Auth
  imports PyJson
begin

text \<open>
  \<open>auth/verifier.py\<close>, \<open>auth/middleware.py\<close> and \<open>build_auth\<close> of \<open>auth/setup.py\<close>: the check of
  an access token against the issuer's key set, the cache of that set, the group gate, and
  the settings check at start. PyJWT and the HTTP client are parameters: what a header
  holds, what loading a key gives, what decoding with a key says, what a GET brings given
  the GETs before it. Times are rationals, as \<open>time.time\<close> counts seconds.
\<close>

section \<open>Parameters and state\<close>

record jwk =
  jk_alg :: pystr
  jk_entry :: json

datatype jwt_error = Jwt_expired | Jwt_audience | Jwt_issuer | Jwt_other pystr

datatype http_answer = Http_error pystr | Http_answer int "json option"

text \<open>
  \<open>jw_decode token key alg audience issuer leeway required now\<close> is \<open>jwt.decode\<close>; \<open>jw_text\<close>
  is \<open>str\<close> of a claim.
\<close>

record jwt_world =
  jw_header :: "pystr \<Rightarrow> json option"
  jw_load :: "json \<Rightarrow> jwk option"
  jw_decode :: "pystr \<Rightarrow> jwk \<Rightarrow> pystr \<Rightarrow> pystr \<Rightarrow> pystr \<Rightarrow> int \<Rightarrow> pystr list \<Rightarrow> rat \<Rightarrow> jwt_error + json"
  jw_http :: "pystr list \<Rightarrow> http_answer"
  jw_text :: "json \<Rightarrow> pystr"
  jw_int :: "json \<Rightarrow> int"

record verifier =
  vf_issuer :: pystr
  vf_audience :: pystr
  vf_cache :: rat

text \<open>\<open>vs_requests\<close> is the list of the URLs fetched so far.\<close>

record vstate =
  vs_keys :: "pystr \<Rightarrow> jwk option"
  vs_fetched_at :: "rat option"
  vs_jwks_url :: "pystr option"
  vs_requests :: "pystr list"

definition vstate_init :: "pystr option \<Rightarrow> vstate" where
  "vstate_init url =
     \<lparr>vs_keys = (\<lambda>k. None), vs_fetched_at = None, vs_jwks_url = url, vs_requests = []\<rparr>"

definition ALGORITHMS :: "pystr list" where
  "ALGORITHMS = [''RS256'', ''RS384'', ''RS512'', ''PS256'', ''PS384'', ''PS512'', ''ES256'', ''ES384'']"

definition LEEWAY_SECONDS :: int where
  "LEEWAY_SECONDS = 30"

definition MIN_REFETCH_SECONDS :: rat where
  "MIN_REFETCH_SECONDS = 30"

section \<open>Fetching the key set\<close>

datatype jwks_error =
    Fetch_failed pystr | Fetch_status int | Fetch_not_json | No_keys_list | No_jwks_uri

definition get_json :: "jwt_world \<Rightarrow> pystr \<Rightarrow> vstate \<Rightarrow> vstate \<times> (jwks_error + json)" where
  "get_json j url s =
     (let s1 = s\<lparr>vs_requests := vs_requests s @ [url]\<rparr> in
      (s1, case jw_http j (vs_requests s1) of
             Http_error e \<Rightarrow> Inl (Fetch_failed e)
           | Http_answer st body \<Rightarrow>
               if st \<noteq> 200 then Inl (Fetch_status st)
               else (case body of None \<Rightarrow> Inl Fetch_not_json | Some b \<Rightarrow> Inr b)))"

definition discover_jwks_url :: "verifier \<Rightarrow> jwt_world \<Rightarrow> vstate \<Rightarrow> vstate \<times> (jwks_error + pystr)" where
  "discover_jwks_url v j s =
     (let base = rstrip_by (\<lambda>c. c = CHR ''/'') (vf_issuer v);
          (s1, r) = get_json j (base @ ''/.well-known/openid-configuration'') s
      in case r of
           Inl e \<Rightarrow> (s1, Inl e)
         | Inr config \<Rightarrow>
             (case json_get config ''jwks_uri'' of
                Some (JStr url) \<Rightarrow>
                  if starts_with url ''https://'' \<or> starts_with url ''http://''
                  then (s1\<lparr>vs_jwks_url := Some url\<rparr>, Inr url)
                  else (s1, Inl No_jwks_uri)
              | _ \<Rightarrow> (s1, Inl No_jwks_uri)))"

text \<open>One entry of the key list: a signing key with a key id that loads.\<close>

definition add_key :: "jwt_world \<Rightarrow> json \<Rightarrow> (pystr \<Rightarrow> jwk option) \<Rightarrow> pystr \<Rightarrow> jwk option" where
  "add_key j e found =
     (case e of
        JObj kvs \<Rightarrow>
          if json_get e ''use'' \<noteq> None \<and> json_get e ''use'' \<noteq> Some (JStr ''sig'') then found
          else (case json_get e ''kid'' of
                  Some (JStr kid) \<Rightarrow>
                    (case jw_load j e of None \<Rightarrow> found | Some k \<Rightarrow> found(kid \<mapsto> k))
                | _ \<Rightarrow> found)
      | _ \<Rightarrow> found)"

definition fetch_keys ::
  "verifier \<Rightarrow> jwt_world \<Rightarrow> vstate \<Rightarrow> vstate \<times> (jwks_error + (pystr \<Rightarrow> jwk option))" where
  "fetch_keys v j s =
     (let (s1, url) = (if truthy (vs_jwks_url s) then (s, Inr (the (vs_jwks_url s)))
                       else discover_jwks_url v j s)
      in case url of
           Inl e \<Rightarrow> (s1, Inl e)
         | Inr u \<Rightarrow>
             (let (s2, r) = get_json j u s1 in
              case r of
                Inl e \<Rightarrow> (s2, Inl e)
              | Inr body \<Rightarrow>
                  (case json_get body ''keys'' of
                     Some (JList es) \<Rightarrow> (s2, Inr (fold (add_key j) es (\<lambda>k. None)))
                   | _ \<Rightarrow> (s2, Inl No_keys_list))))"

definition lookup_key ::
  "verifier \<Rightarrow> jwt_world \<Rightarrow> rat \<Rightarrow> pystr \<Rightarrow> vstate \<Rightarrow> vstate \<times> (jwks_error + jwk option)" where
  "lookup_key v j now kid s =
     (let stale = (case vs_fetched_at s of None \<Rightarrow> True | Some t \<Rightarrow> vf_cache v \<le> now - t);
          missing = (vs_keys s kid = None);
          may_refetch = (case vs_fetched_at s of None \<Rightarrow> True | Some t \<Rightarrow> MIN_REFETCH_SECONDS \<le> now - t)
      in if stale \<or> (missing \<and> may_refetch)
         then (let (s1, r) = fetch_keys v j s in
               case r of
                 Inl e \<Rightarrow> (s1, Inl e)
               | Inr keys \<Rightarrow>
                   (s1\<lparr>vs_keys := keys, vs_fetched_at := Some now\<rparr>, Inr (keys kid)))
         else (s, Inr (vs_keys s kid)))"

section \<open>Verifying a token\<close>

datatype refusal =
    Malformed | Algorithm_not_allowed | No_key_id | Jwks_unavailable jwks_error | Unknown_key_id
  | Algorithm_mismatch pystr | Expired | Wrong_audience | Wrong_issuer | Invalid_token pystr

record access_token =
  at_client :: pystr
  at_scopes :: "pystr list"
  at_expires :: int
  at_subject :: pystr
  at_claims :: json

fun refusal_of :: "jwt_error \<Rightarrow> refusal" where
  "refusal_of Jwt_expired = Expired"
| "refusal_of Jwt_audience = Wrong_audience"
| "refusal_of Jwt_issuer = Wrong_issuer"
| "refusal_of (Jwt_other e) = Invalid_token e"

definition access_of :: "verifier \<Rightarrow> jwt_world \<Rightarrow> json \<Rightarrow> access_token" where
  "access_of v j claims =
     \<lparr>at_client = (if json_falsy (json_get claims ''azp'') then vf_audience v
                   else jw_text j (the (json_get claims ''azp''))),
      at_scopes = (case json_get claims ''scope'' of Some (JStr s) \<Rightarrow> words s | _ \<Rightarrow> []),
      at_expires = jw_int j (the (json_get claims ''exp'')),
      at_subject = jw_text j (the (json_get claims ''sub'')), at_claims = claims\<rparr>"

definition REQUIRED_CLAIMS :: "pystr list" where
  "REQUIRED_CLAIMS = [''exp'', ''iss'', ''aud'', ''sub'']"

definition verify_token ::
  "verifier \<Rightarrow> jwt_world \<Rightarrow> rat \<Rightarrow> pystr \<Rightarrow> vstate \<Rightarrow> vstate \<times> (refusal + access_token)" where
  "verify_token v j now token s =
     (case jw_header j token of
        None \<Rightarrow> (s, Inl Malformed)
      | Some header \<Rightarrow>
          (case json_get header ''alg'' of
             Some (JStr alg) \<Rightarrow>
               if alg \<notin> set ALGORITHMS then (s, Inl Algorithm_not_allowed)
               else (case json_get header ''kid'' of
                  Some (JStr kid) \<Rightarrow>
                    if kid = [] then (s, Inl No_key_id)
                    else
                      (let (s1, r) = lookup_key v j now kid s in
                       (s1, case r of
                              Inl e \<Rightarrow> Inl (Jwks_unavailable e)
                            | Inr None \<Rightarrow> Inl Unknown_key_id
                            | Inr (Some key) \<Rightarrow>
                                if jk_alg key \<noteq> alg then Inl (Algorithm_mismatch alg)
                                else (case jw_decode j token key alg (vf_audience v) (vf_issuer v)
                                             LEEWAY_SECONDS REQUIRED_CLAIMS now of
                                        Inl e \<Rightarrow> Inl (refusal_of e)
                                      | Inr claims \<Rightarrow> Inr (access_of v j claims))))
                | _ \<Rightarrow> (s, Inl No_key_id))
           | _ \<Rightarrow> (s, Inl Algorithm_not_allowed)))"

text \<open>A sequence of requests, each with the clock it sees; the lock makes them one after another.\<close>

fun verify_all ::
  "verifier \<Rightarrow> jwt_world \<Rightarrow> (rat \<times> pystr) list \<Rightarrow> vstate \<Rightarrow> vstate \<times> (refusal + access_token) list" where
  "verify_all v j [] s = (s, [])"
| "verify_all v j ((now, token) # rs) s =
     (let (s1, r) = verify_token v j now token s; (s2, out) = verify_all v j rs s1 in (s2, r # out))"

section \<open>The group gate\<close>

definition in_group :: "json \<Rightarrow> pystr \<Rightarrow> bool" where
  "in_group claims grp =
     (case json_get claims ''groups'' of Some (JList gs) \<Rightarrow> JStr grp \<in> set gs | _ \<Rightarrow> False)"

text \<open>\<open>sc_user\<close>: the claims of the authenticated user, if the SDK authenticated the request.\<close>

record scope =
  sc_type :: pystr
  sc_path :: pystr
  sc_user :: "json option"

datatype gate_outcome = Forwarded | Forbidden

definition strip_slashes :: "pystr \<Rightarrow> pystr" where
  "strip_slashes = rstrip_by (\<lambda>c. c = CHR ''/'')"

definition group_gate :: "pystr \<Rightarrow> pystr \<Rightarrow> scope \<Rightarrow> gate_outcome" where
  "group_gate grp path sc =
     (if sc_type sc = ''http'' \<and> strip_slashes (sc_path sc) = strip_slashes path
      then (case sc_user sc of
              None \<Rightarrow> Forwarded
            | Some claims \<Rightarrow> if in_group claims grp then Forwarded else Forbidden)
      else Forwarded)"

section \<open>Settings\<close>

record auth_settings =
  as_enabled :: bool
  as_transport :: pystr
  as_issuer :: "pystr option"
  as_audience :: "pystr option"
  as_group :: "pystr option"
  as_resource :: "pystr option"
  as_jwks :: "pystr option"
  as_cache :: rat
  as_scopes :: pystr

datatype auth_error = Auth_missing "pystr list" | Auth_not_https "pystr list" | Auth_sse

record mcp_auth =
  ma_verifier :: verifier
  ma_jwks :: "pystr option"
  ma_group :: pystr
  ma_resource :: pystr
  ma_scopes :: "pystr list"

definition missing_settings :: "auth_settings \<Rightarrow> pystr list" where
  "missing_settings a =
     map fst (filter (\<lambda>(n, v). \<not> truthy v)
       [(''MCP_AUTH_ISSUER_URL'', as_issuer a), (''MCP_AUTH_AUDIENCE'', as_audience a),
        (''MCP_AUTH_REQUIRED_GROUP'', as_group a), (''MCP_AUTH_RESOURCE_URL'', as_resource a)])"

definition not_https :: "auth_settings \<Rightarrow> pystr list" where
  "not_https a =
     map fst (filter (\<lambda>(n, v). truthy v \<and> \<not> starts_with (the v) ''https://'')
       [(''MCP_AUTH_ISSUER_URL'', as_issuer a), (''MCP_AUTH_RESOURCE_URL'', as_resource a),
        (''MCP_AUTH_JWKS_URL'', as_jwks a)])"

text \<open>\<open>re.split(r"[\s,]+", s)\<close> without the empty pieces.\<close>

definition split_scopes :: "pystr \<Rightarrow> pystr list" where
  "split_scopes s = words (map (\<lambda>c. if c = CHR '','' then CHR '' '' else c) s)"

text \<open>\<open>None\<close>: the server starts without authentication.\<close>

definition build_auth :: "auth_settings \<Rightarrow> auth_error + mcp_auth option" where
  "build_auth a =
     (if \<not> as_enabled a then Inr None
      else if missing_settings a \<noteq> [] then Inl (Auth_missing (missing_settings a))
      else if not_https a \<noteq> [] then Inl (Auth_not_https (not_https a))
      else if as_transport a = ''sse'' then Inl Auth_sse
      else Inr (Some
        \<lparr>ma_verifier = \<lparr>vf_issuer = the (as_issuer a), vf_audience = the (as_audience a),
                        vf_cache = as_cache a\<rparr>,
         ma_jwks = as_jwks a, ma_group = the (as_group a), ma_resource = the (as_resource a),
         ma_scopes = split_scopes (as_scopes a)\<rparr>))"

section \<open>Lemmas\<close>

lemma lookup_key_quiet:
  assumes "vs_fetched_at s = Some t" "now - t < MIN_REFETCH_SECONDS" "now - t < vf_cache v"
  shows "lookup_key v j now kid s = (s, Inr (vs_keys s kid))"
  using assms by (simp add: lookup_key_def not_le)

lemma verify_token_quiet:
  assumes "vs_fetched_at s = Some t" "now - t < MIN_REFETCH_SECONDS" "now - t < vf_cache v"
  shows "fst (verify_token v j now token s) = s"
  by (simp add: verify_token_def lookup_key_quiet [OF assms] Let_def
      split: option.split json.split)

lemma verify_token_accepted:
  assumes "snd (verify_token v j now token s) = Inr a"
  shows "\<exists>header alg kid key claims. jw_header j token = Some header \<and>
    json_get header ''alg'' = Some (JStr alg) \<and> alg \<in> set ALGORITHMS \<and>
    json_get header ''kid'' = Some (JStr kid) \<and> snd (lookup_key v j now kid s) = Inr (Some key) \<and>
    jk_alg key = alg \<and>
    jw_decode j token key alg (vf_audience v) (vf_issuer v) LEEWAY_SECONDS REQUIRED_CLAIMS now = Inr claims \<and>
    a = access_of v j claims"
  using assms
  by (auto simp: verify_token_def case_prod_beta Let_def split: option.splits json.splits if_splits sum.splits)

lemma lookup_key_current:
  assumes "snd (lookup_key v j now kid s) = Inr k"
  shows "vs_keys (fst (lookup_key v j now kid s)) kid = k \<and>
    (\<exists>t. vs_fetched_at (fst (lookup_key v j now kid s)) = Some t \<and> (t = now \<or> now - t < vf_cache v))"
  using assms
  by (auto simp: lookup_key_def case_prod_beta Let_def not_le split: if_splits sum.splits option.splits)

section \<open>Properties\<close>

text \<open>
  C5: A token is accepted only when it is signed with an asymmetric algorithm of the list, by a
  key of the issuer's key set fetched no longer ago than the cache time and meant for exactly
  that algorithm, and PyJWT decoded it for this audience and issuer with the required claims; a
  forged header naming HS256 or none is refused whatever the libraries say.
\<close>
theorem token_accepted_only_if_valid:
  assumes "snd (verify_token v j now token s) = Inr a"
  shows "\<exists>alg kid key t. alg \<in> set ALGORITHMS \<and> alg \<noteq> ''HS256'' \<and> alg \<noteq> ''none'' \<and>
    map_option (\<lambda>h. json_get h ''alg'') (jw_header j token) = Some (Some (JStr alg)) \<and>
    vs_keys (fst (verify_token v j now token s)) kid = Some key \<and> jk_alg key = alg \<and>
    vs_fetched_at (fst (verify_token v j now token s)) = Some t \<and> (t = now \<or> now - t < vf_cache v) \<and>
    jw_decode j token key alg (vf_audience v) (vf_issuer v) 30 [''exp'', ''iss'', ''aud'', ''sub''] now =
      Inr (at_claims a)"
proof -
  obtain header alg kid key claims where h: "jw_header j token = Some header"
    "json_get header ''alg'' = Some (JStr alg)" "alg \<in> set ALGORITHMS"
    "json_get header ''kid'' = Some (JStr kid)" "snd (lookup_key v j now kid s) = Inr (Some key)"
    "jk_alg key = alg"
    "jw_decode j token key alg (vf_audience v) (vf_issuer v) LEEWAY_SECONDS REQUIRED_CLAIMS now = Inr claims"
    "a = access_of v j claims"
    using verify_token_accepted [OF assms] by blast
  have "kid \<noteq> []" using assms h by (auto simp: verify_token_def)
  then have "fst (verify_token v j now token s) = fst (lookup_key v j now kid s)"
    using h by (simp add: verify_token_def case_prod_beta Let_def)
  moreover have "alg \<noteq> ''HS256''" "alg \<noteq> ''none''" using h(3) by (auto simp: ALGORITHMS_def)
  ultimately show ?thesis
    using h lookup_key_current [OF h(5)]
    by (auto simp: access_of_def LEEWAY_SECONDS_def REQUIRED_CLAIMS_def)
qed

text \<open>
  C34: Tokens with made-up key ids cannot make the server hammer the issuer: after a fetch of the
  key set, no sequence of requests, whatever tokens they carry, fetches again for thirty
  seconds (or the cache time, when that is shorter).
\<close>
theorem refetch_limited:
  assumes "vs_fetched_at s = Some t" "\<forall>r \<in> set rs. fst r - t < 30 \<and> fst r - t < vf_cache v"
  shows "fst (verify_all v j rs s) = s \<and> vs_requests (fst (verify_all v j rs s)) = vs_requests s"
proof -
  have "fst (verify_all v j rs s) = s" using assms(2)
  proof (induction rs)
    case (Cons r rs)
    then show ?case
      using verify_token_quiet [OF assms(1), of "fst r" v j "snd r"]
      by (cases r) (simp add: case_prod_beta MIN_REFETCH_SECONDS_def)
  qed simp
  then show ?thesis by simp
qed

definition down_issuer :: jwt_world where
  "down_issuer =
     \<lparr>jw_header = (\<lambda>t. Some (JObj [(''alg'', JStr ''RS256''), (''kid'', JStr t)])), jw_load = (\<lambda>e. None),
      jw_decode = (\<lambda>token key alg aud iss leeway req now. Inl Jwt_expired),
      jw_http = (\<lambda>urls. Http_answer 503 None), jw_text = (\<lambda>j. []), jw_int = (\<lambda>j. 0)\<rparr>"

text \<open>
  The limit rests on a fetch that succeeded: while the issuer answers with an error, every
  request that names some key id is one more GET, at the same instant too.
\<close>

lemma fetch_failure_not_limited:
  "length (vs_requests (fst (verify_all \<lparr>vf_issuer = ''https://a'', vf_audience = ''m'', vf_cache = 300\<rparr>
     down_issuer (replicate n (0, ''k'')) (vstate_init (Some ''https://a/jwks''))))) = n"
proof -
  let ?v = "\<lparr>vf_issuer = ''https://a'', vf_audience = ''m'', vf_cache = 300\<rparr>"
  have step: "\<exists>r. verify_token ?v down_issuer 0 ''k'' s =
      (s\<lparr>vs_requests := vs_requests s @ [''https://a/jwks'']\<rparr>, Inl r)"
    if "vs_fetched_at s = None" "vs_jwks_url s = Some ''https://a/jwks''" for s :: vstate
    using that by (simp add: verify_token_def down_issuer_def ALGORITHMS_def lookup_key_def fetch_keys_def
        get_json_def Let_def)
  have "length (vs_requests (fst (verify_all ?v down_issuer (replicate n (0, ''k'')) s))) =
      length (vs_requests s) + n"
    if "vs_fetched_at s = None" "vs_jwks_url s = Some ''https://a/jwks''" for s
    using that
  proof (induction n arbitrary: s)
    case (Suc n)
    let ?s = "s\<lparr>vs_requests := vs_requests s @ [''https://a/jwks'']\<rparr>"
    obtain r where "verify_token ?v down_issuer 0 ''k'' s = (?s, Inl r)" using step Suc.prems by blast
    then show ?case using Suc.IH [of ?s] Suc.prems by (simp add: case_prod_beta)
  qed simp
  then show ?thesis by (simp add: vstate_init_def)
qed

text \<open>
  A signed-in user outside the required group never reaches the protected path, however many
  trailing slashes the request writes; requests to other paths, and those of nobody, which the
  SDK answers itself, are passed on untouched.
\<close>
theorem group_gate_exact:
  "group_gate grp path sc = Forbidden \<longleftrightarrow>
     sc_type sc = ''http'' \<and> strip_slashes (sc_path sc) = strip_slashes path \<and>
     (\<exists>claims. sc_user sc = Some claims \<and>
        \<not> (\<exists>gs. json_get claims ''groups'' = Some (JList gs) \<and> JStr grp \<in> set gs))"
  by (auto simp: group_gate_def in_group_def split: option.split json.split)

text \<open>
  Authentication switched on never leaves the server open: it starts with a verifier and a
  named group over https, or it does not start.
\<close>
theorem auth_fails_closed:
  assumes "as_enabled a" "build_auth a = Inr r"
  shows "\<exists>m. r = Some m \<and> ma_group m \<noteq> [] \<and> vf_audience (ma_verifier m) \<noteq> [] \<and>
    starts_with (vf_issuer (ma_verifier m)) ''https://'' \<and> starts_with (ma_resource m) ''https://'' \<and>
    (truthy (ma_jwks m) \<longrightarrow> starts_with (the (ma_jwks m)) ''https://'') \<and> as_transport a \<noteq> ''sse''"
proof -
  have "missing_settings a = []" "not_https a = []" using assms by (auto simp: build_auth_def split: if_splits)
  then have m: "truthy (as_issuer a)" "truthy (as_audience a)" "truthy (as_group a)" "truthy (as_resource a)"
    "starts_with (the (as_issuer a)) ''https://''" "starts_with (the (as_resource a)) ''https://''"
    "truthy (as_jwks a) \<longrightarrow> starts_with (the (as_jwks a)) ''https://''"
    by (auto simp: missing_settings_def not_https_def split: if_splits)
  then show ?thesis using assms by (auto simp: build_auth_def truthy_iff split: if_splits)
qed

definition example_auth :: auth_settings where
  "example_auth =
     \<lparr>as_enabled = True, as_transport = ''streamable-http'', as_issuer = Some ''https://i'',
      as_audience = Some ''m'', as_group = Some ''g'', as_resource = Some ''https://r'', as_jwks = None,
      as_cache = 300, as_scopes = ''openid''\<rparr>"

theorem auth_fails_closed_witness:
  "\<exists>m. build_auth example_auth = Inr (Some m) \<and> ma_group m \<noteq> []"
proof -
  have "missing_settings example_auth = []" "not_https example_auth = []" by code_simp+
  then obtain r where "build_auth example_auth = Inr r"
    by (simp add: build_auth_def example_auth_def)
  moreover from auth_fails_closed [OF _ this] have "\<exists>m. r = Some m \<and> ma_group m \<noteq> []"
    by (auto simp: example_auth_def)
  ultimately show ?thesis by blast
qed

text \<open>An issuer with one key, and a token it signed.\<close>

definition example_key :: jwk where
  "example_key = \<lparr>jk_alg = ''RS256'', jk_entry = JNull\<rparr>"

definition example_claims :: json where
  "example_claims = JObj [(''exp'', JInt 9), (''sub'', JStr ''ann'')]"

definition example_issuer :: jwt_world where
  "example_issuer =
     down_issuer\<lparr>jw_load := (\<lambda>e. Some example_key),
       jw_decode := (\<lambda>token key alg aud iss leeway req now. Inr example_claims),
       jw_http := (\<lambda>urls. Http_answer 200 (Some (JObj [(''keys'', JList [JObj [(''kid'', JStr ''k'')]])])))\<rparr>"

definition example_vf :: verifier where
  "example_vf = \<lparr>vf_issuer = ''https://a'', vf_audience = ''m'', vf_cache = 300\<rparr>"

lemma example_verified:
  "snd (verify_token example_vf example_issuer 5 ''k'' (vstate_init (Some ''u''))) =
     Inr (access_of example_vf example_issuer example_claims)"
  by (simp add: verify_token_def example_issuer_def down_issuer_def ALGORITHMS_def lookup_key_def
      vstate_init_def fetch_keys_def get_json_def add_key_def example_key_def Let_def)

theorem token_accepted_only_if_valid_witness:
  "\<exists>key. vs_keys (fst (verify_token example_vf example_issuer 5 ''k'' (vstate_init (Some ''u'')))) ''k'' = Some key"
proof -
  obtain kid key where k: "vs_keys (fst (verify_token example_vf example_issuer 5 ''k''
      (vstate_init (Some ''u'')))) kid = Some key"
    using token_accepted_only_if_valid [OF example_verified] by blast
  have "kid = ''k''"
  proof (rule ccontr)
    assume "kid \<noteq> ''k''"
    with k show False
      by (simp add: verify_token_def example_issuer_def down_issuer_def ALGORITHMS_def lookup_key_def
          vstate_init_def fetch_keys_def get_json_def add_key_def Let_def)
  qed
  with k show ?thesis by blast
qed

theorem refetch_limited_witness:
  "fst (verify_all example_vf down_issuer [(6, ''x''), (34, ''y'')]
     ((vstate_init None)\<lparr>vs_fetched_at := Some 5\<rparr>)) = (vstate_init None)\<lparr>vs_fetched_at := Some 5\<rparr>"
  by (rule refetch_limited [where t = 5, THEN conjunct1]) (simp_all add: example_vf_def)

end
