(* ===== verification/DiscoverySources.thy ===== *)
theory DiscoverySources
  imports PyJson Reconcile Regex DockhandActions
begin

text \<open>
  The four discovery sources: \<open>discovery/traefik.py\<close>, \<open>discovery/authentik.py\<close>,
  \<open>discovery/docker.py\<close>, \<open>discovery/dockhand.py\<close>, and the outpost detection they share
  (\<open>discovery/outpost.py\<close>). A source maps the lists its client returned to the services of
  one pass; \<open>None\<close> is an exception (an item of another shape), which fails the pass.
  \<open>json_str\<close> is \<open>str\<close> of a JSON value; \<open>extras\<close> the setting DISCOVERY_EXCLUDE_NAMES.
\<close>

section \<open>Names\<close>

text \<open>
  The pattern \<open>$\<close> matches at the end and before a final line break: the part the suffix is
  looked for in, and the line break kept after it.
\<close>

definition split_final_newline :: "pystr \<Rightarrow> pystr \<times> pystr" where
  "split_final_newline s =
     (if s \<noteq> [] \<and> last s = CHR 0x0A then (butlast s, [CHR 0x0A]) else (s, []))"

text \<open>\<open>@\w+$\<close> replaced by nothing.\<close>

definition strip_provider :: "pystr \<Rightarrow> pystr" where
  "strip_provider s =
     (let (body, nl) = split_final_newline s; (a, found, b) = rpartition_at (CHR ''@'') body
      in if found \<and> b \<noteq> [] \<and> list_all is_word_char b then a @ nl else s)"

definition is_dash :: "char \<Rightarrow> bool" where
  "is_dash c \<longleftrightarrow> c = CHR ''-'' \<or> c = CHR ''_''"

text \<open>\<open>[-_](a|b)$\<close> replaced by nothing.\<close>

definition has_marker :: "pystr \<Rightarrow> pystr \<Rightarrow> bool" where
  "has_marker m s \<longleftrightarrow> ends_with s m \<and> length m < length s \<and> is_dash (s ! (length s - length m - 1))"

fun strip_markers :: "pystr list \<Rightarrow> pystr \<Rightarrow> pystr" where
  "strip_markers [] s = s"
| "strip_markers (m # ms) s =
     (if has_marker m (fst (split_final_newline s))
      then take (length (fst (split_final_newline s)) - length m - 1) s @ snd (split_final_newline s)
      else strip_markers ms s)"

definition normalize_name :: "pystr \<Rightarrow> pystr" where
  "normalize_name router = lower (strip_markers [''router'', ''proxy''] (strip_provider router))"

definition lstrip_slash :: "pystr \<Rightarrow> pystr" where
  "lstrip_slash s = lstrip_by (\<lambda>c. c = CHR ''/'') s"

definition outpost_name :: "pystr option \<Rightarrow> pystr" where
  "outpost_name name = lower (lstrip_slash (case name of None \<Rightarrow> [] | Some n \<Rightarrow> n))"

definition is_outpost_container :: "pystr option \<Rightarrow> pystr option \<Rightarrow> bool" where
  "is_outpost_container name img \<longleftrightarrow>
     has_marker ''outpost'' (fst (split_final_newline (outpost_name name))) \<or>
     starts_with (lower (case img of None \<Rightarrow> [] | Some i \<Rightarrow> i)) ''ghcr.io/goauthentik/proxy''"

definition outpost_base :: "pystr option \<Rightarrow> pystr" where
  "outpost_base name = strip_markers [''outpost'', ''proxy''] (outpost_name name)"

definition outpost_bases :: "(pystr option \<times> pystr option) list \<Rightarrow> pystr list" where
  "outpost_bases cs =
     filter (\<lambda>b. b \<noteq> [])
       (map (\<lambda>c. outpost_base (fst c)) (filter (\<lambda>c. is_outpost_container (fst c) (snd c)) cs))"

section \<open>Traefik\<close>

definition host_rx :: rx where
  "host_rx = Rx_seq (rx_text (''Host('' @ [CHR 0x60]))
     (Rx_seq (rx_plus (Rx_char (\<lambda>c. c \<noteq> CHR 0x60))) (rx_text (CHR 0x60 # '')'')))"

text \<open>The group of each match: without the six characters before and the two after.\<close>

definition hosts_in :: "pystr \<Rightarrow> pystr list" where
  "hosts_in rule = map (\<lambda>m. take (length m - 8) (drop 6 m)) (rx_findall host_rx rule)"

definition hosts_from_rule :: "json option \<Rightarrow> pystr list option" where
  "hosts_from_rule rule = map_option hosts_in (json_text_or_empty rule)"

definition INTERNAL_ROUTERS :: "pystr list" where
  "INTERNAL_ROUTERS =
     [''api@internal'', ''ping@internal'', ''dashboard@internal'', ''web-to-websecure@internal'']"

definition MEDIA_NAMES :: "pystr list" where
  "MEDIA_NAMES =
     [''plex'', ''overseerr'', ''sonarr'', ''radarr'', ''prowlarr'', ''sabnzbd'', ''qbittorrent'',
      ''tunarr'', ''tracearr'']"

definition DEFAULT_INFRA_NAMES :: "pystr list" where
  "DEFAULT_INFRA_NAMES = [''traefik'', ''authentik'', ''gitea'', ''registry'', ''vscode'']"

definition infra_names :: "pystr \<Rightarrow> pystr list" where
  "infra_names extras =
     DEFAULT_INFRA_NAMES @ filter (\<lambda>n. n \<noteq> []) (map strip (split_at_char (CHR '','') extras))"

definition SECURITY_NAMES :: "pystr list" where
  "SECURITY_NAMES = [''vaultwarden'']"

definition traefik_category :: "pystr \<Rightarrow> pystr \<Rightarrow> category" where
  "traefik_category extras name =
     (if name \<in> set MEDIA_NAMES then Category_media
      else if name \<in> set (infra_names extras) then Category_infra
      else if name \<in> set SECURITY_NAMES then Category_security
      else Category_app)"

text \<open>The names of the middlewares of one type; a matching one without a name raises.\<close>

definition middlewares_of :: "pystr \<Rightarrow> json list \<Rightarrow> json list option" where
  "middlewares_of kind ms =
     collect
       (\<lambda>m. case m of
          JObj kvs \<Rightarrow>
            (case json_get m ''type'' of
               Some (JStr t) \<Rightarrow>
                 if lower t = kind
                 then (case hash_key (json_get m ''name'') of
                         Some n \<Rightarrow> if json_get m ''name'' = None then None else Some [n]
                       | None \<Rightarrow> None)
                 else Some []
             | _ \<Rightarrow> Some [])
        | _ \<Rightarrow> None) ms"

definition used_middlewares :: "json \<Rightarrow> json list option" where
  "used_middlewares router =
     (case json_items (json_get router ''middlewares'') of
        None \<Rightarrow> None
      | Some xs \<Rightarrow> collect (\<lambda>x. map_option (\<lambda>k. [k]) (hash_key (Some x))) xs)"

definition router_auth_mode ::
  "json list \<Rightarrow> json list \<Rightarrow> pystr list \<Rightarrow> json list \<Rightarrow> pystr \<Rightarrow> auth_mode" where
  "router_auth_mode forward basic bases used name =
     (if list_ex (\<lambda>m. m \<in> set forward) used then AuthMode_forward_auth
      else if list_ex (\<lambda>m. m \<in> set basic) used then AuthMode_basic
      else if name \<in> set bases then AuthMode_forward_auth
      else AuthMode_none)"

definition https_url :: "pystr \<Rightarrow> pystr" where
  "https_url h = ''https://'' @ h"

definition replace_dash :: "pystr \<Rightarrow> pystr" where
  "replace_dash s = map (\<lambda>c. if c = CHR ''-'' then CHR '' '' else c) s"

definition router_item ::
  "pystr \<Rightarrow> json list \<Rightarrow> json list \<Rightarrow> pystr list \<Rightarrow> json \<Rightarrow> discovered list option" where
  "router_item extras forward basic bases router =
     (case router of
        JObj kvs \<Rightarrow>
          (let nm = json_get router ''name'' in
           if json_falsy nm \<or> nm \<in> (\<lambda>n. Some (JStr n)) ` set INTERNAL_ROUTERS then Some []
           else
             (case (nm, used_middlewares router, hosts_from_rule (json_get router ''rule'')) of
                (Some (JStr name), Some used, Some hosts) \<Rightarrow>
                  (let n = normalize_name name in
                   Some [\<lparr>d_source = Source_traefik, d_external_id = name, d_name = n,
                          d_display_name = Some (title (replace_dash n)),
                          d_category = Some (traefik_category extras n), d_host = None,
                          d_urls = map https_url hosts, d_router = Some name, d_slug = None,
                          d_auth_mode = Some (router_auth_mode forward basic bases used n),
                          d_tags = [], d_raw = router\<rparr>])
              | _ \<Rightarrow> None))
      | _ \<Rightarrow> None)"

definition traefik_discover ::
  "pystr \<Rightarrow> pystr list \<Rightarrow> json list \<Rightarrow> json list \<Rightarrow> discovered list option" where
  "traefik_discover extras bases routers middlewares =
     (case (middlewares_of ''forwardauth'' middlewares, middlewares_of ''basicauth'' middlewares) of
        (Some forward, Some basic) \<Rightarrow> collect (router_item extras forward basic bases) routers
      | _ \<Rightarrow> None)"

section \<open>Authentik\<close>

definition provider_marker :: "(json \<Rightarrow> pystr) \<Rightarrow> json \<Rightarrow> pystr" where
  "provider_marker json_str p =
     (let part = (\<lambda>k. case json_get p k of None \<Rightarrow> [] | Some j \<Rightarrow> json_str j)
      in lower (part ''component'' @ '' '' @ part ''meta_model_name''))"

definition is_proxy :: "(json \<Rightarrow> pystr) \<Rightarrow> json \<Rightarrow> bool" where
  "is_proxy json_str p \<longleftrightarrow> contains (provider_marker json_str p) ''proxy''"

definition is_oauth2 :: "(json \<Rightarrow> pystr) \<Rightarrow> json \<Rightarrow> bool" where
  "is_oauth2 json_str p \<longleftrightarrow>
     contains (provider_marker json_str p) ''oauth2'' \<or> contains (provider_marker json_str p) ''openid''"

definition authentik_category :: "pystr \<Rightarrow> pystr \<Rightarrow> pystr \<Rightarrow> category" where
  "authentik_category extras name grp =
     (let key = lower name; g = lower grp in
      if key \<in> set MEDIA_NAMES \<or> contains g ''media'' then Category_media
      else if key \<in> set (infra_names extras) \<or> contains g ''infra'' then Category_infra
      else if key \<in> set SECURITY_NAMES \<or> contains g ''security'' then Category_security
      else if contains g ''monitoring'' then Category_monitoring
      else Category_app)"

text \<open>The provider an application names: the last one listed with that key.\<close>

definition provider_of :: "json list \<Rightarrow> json \<Rightarrow> json option" where
  "provider_of providers app =
     (case hash_key (json_get app ''provider'') of
        None \<Rightarrow> None
      | Some k \<Rightarrow>
          (case find (\<lambda>p. hash_key (json_get p ''pk'') = Some k) (rev providers) of
             None \<Rightarrow> Some (JObj [])
           | Some p \<Rightarrow> Some p))"

definition url_of :: "json option \<Rightarrow> pystr list option" where
  "url_of v =
     (if json_falsy v then Some [] else case v of Some (JStr s) \<Rightarrow> Some [s] | _ \<Rightarrow> None)"

definition application_urls :: "pystr list \<Rightarrow> pystr list \<Rightarrow> pystr list" where
  "application_urls external launch = external @ filter (\<lambda>u. u \<notin> set external) launch"

definition display_of :: "json option \<Rightarrow> pystr option option" where
  "display_of v = (case v of None \<Rightarrow> Some None | Some JNull \<Rightarrow> Some None | Some (JStr s) \<Rightarrow> Some (Some s)
                   | _ \<Rightarrow> None)"

definition application_item ::
  "(json \<Rightarrow> pystr) \<Rightarrow> pystr \<Rightarrow> json list \<Rightarrow> json \<Rightarrow> discovered list option" where
  "application_item json_str extras providers app =
     (case app of
        JObj kvs \<Rightarrow>
          if json_falsy (json_get app ''slug'') then Some []
          else
            (case provider_of providers app of
               None \<Rightarrow> None
             | Some p \<Rightarrow>
                 (let proxy = is_proxy json_str p;
                      external = (if proxy then url_of (json_get p ''external_host'') else Some []);
                      launch = url_of (if json_falsy (json_get app ''launch_url'')
                                       then json_get app ''meta_launch_url''
                                       else json_get app ''launch_url'')
                  in case (json_get app ''slug'', external, launch,
                           json_text_or_empty (json_get app ''group''), display_of (json_get app ''name'')) of
                       (Some (JStr slug), Some ext, Some la, Some grp, Some display) \<Rightarrow>
                         Some [\<lparr>d_source = Source_authentik, d_external_id = slug, d_name = slug,
                                d_display_name = display,
                                d_category = Some (authentik_category extras slug grp), d_host = None,
                                d_urls = application_urls ext la, d_router = None, d_slug = Some slug,
                                d_auth_mode = Some (if proxy then AuthMode_forward_auth
                                                    else if is_oauth2 json_str p then AuthMode_oauth2_oidc
                                                    else AuthMode_unknown),
                                d_tags = [], d_raw = app\<rparr>]
                     | _ \<Rightarrow> None))
      | _ \<Rightarrow> None)"

definition provider_ok :: "json \<Rightarrow> bool" where
  "provider_ok p = (case p of JObj kvs \<Rightarrow> hash_key (json_get p ''pk'') \<noteq> None | _ \<Rightarrow> False)"

definition authentik_discover ::
  "(json \<Rightarrow> pystr) \<Rightarrow> pystr \<Rightarrow> json list \<Rightarrow> json list \<Rightarrow> discovered list option" where
  "authentik_discover json_str extras apps providers =
     (if \<not> list_all provider_ok providers then None
      else collect (application_item json_str extras providers) apps)"

section \<open>Docker and Dockhand\<close>

text \<open>A container as the Docker SDK gives it: id, name, first image tag, status, labels.\<close>

record container =
  ct_id :: pystr
  ct_name :: "pystr option"
  ct_tag :: "pystr option"
  ct_status :: "pystr option"
  ct_labels :: "(pystr \<times> pystr) list"

definition hosts_from_labels :: "(pystr \<times> pystr) list \<Rightarrow> pystr list" where
  "hosts_from_labels labels =
     concat (map (\<lambda>(k, v). if starts_with k ''traefik.http.routers.'' \<and> ends_with k ''.rule''
                           then hosts_in v else []) labels)"

definition container_name :: "container \<Rightarrow> pystr" where
  "container_name c = lstrip_slash (case ct_name c of None \<Rightarrow> [] | Some n \<Rightarrow> n)"

definition opt_json :: "pystr option \<Rightarrow> json" where
  "opt_json v = (case v of None \<Rightarrow> JNull | Some s \<Rightarrow> JStr s)"

definition plain_item :: "source_type \<Rightarrow> pystr \<Rightarrow> pystr \<Rightarrow> pystr list \<Rightarrow> json \<Rightarrow> discovered" where
  "plain_item source ext name urls raw =
     \<lparr>d_source = source, d_external_id = ext, d_name = name, d_display_name = None,
      d_category = None, d_host = None, d_urls = urls, d_router = None, d_slug = None,
      d_auth_mode = None, d_tags = [], d_raw = raw\<rparr>"

definition docker_discover :: "container list \<Rightarrow> discovered list" where
  "docker_discover cs =
     map (\<lambda>c. plain_item Source_docker (take 12 (ct_id c)) (container_name c)
                (map https_url (hosts_from_labels (ct_labels c)))
                (JObj [(''id'', JStr (ct_id c)), (''name'', JStr (container_name c)),
                       (''image'', opt_json (ct_tag c)), (''status'', opt_json (ct_status c)),
                       (''labels'', JObj (map (\<lambda>(k, v). (k, JStr v)) (ct_labels c)))]))
       (filter (\<lambda>c. container_name c \<noteq> []) cs)"

definition list_outpost_bases :: "container list \<Rightarrow> pystr list" where
  "list_outpost_bases cs = outpost_bases (map (\<lambda>c. (Some (container_name c), ct_tag c)) cs)"

text \<open>
  The Dockhand source sees containers and stacks tagged with the environment id as a string,
  and the environments under \<open>str(id)\<close>; the last entry of a key wins.
\<close>

definition dockhand_context :: "(json \<Rightarrow> pystr) \<Rightarrow> json list \<Rightarrow> json list \<Rightarrow> json \<Rightarrow> json" where
  "dockhand_context json_str environments stacks ct =
     (let env = json_get ct ''environment_id'';
          project = opt_json (compose_project ct);
          stack = find (\<lambda>s. json_get s ''environment_id'' = env \<and>
                            hash_key (json_get s ''name'') = Some project) (rev stacks);
          environment = find (\<lambda>e. Some (JStr (case json_get e ''id'' of None \<Rightarrow> ''None'' | Some j \<Rightarrow> json_str j))
                                  = env) (rev environments);
          orn = (\<lambda>v. case v of None \<Rightarrow> JNull | Some j \<Rightarrow> j)
      in JObj [(''container'', ct), (''stack'', orn stack), (''environment'', orn environment)])"

definition dockhand_item ::
  "(json \<Rightarrow> pystr) \<Rightarrow> json list \<Rightarrow> json list \<Rightarrow> json \<Rightarrow> discovered list option" where
  "dockhand_item json_str environments stacks ct =
     (case json_text_or_empty (json_get ct ''name'') of
        None \<Rightarrow> None
      | Some n \<Rightarrow>
          (let name = lstrip_slash n in
           if name = [] then Some []
           else Some [plain_item Source_dockhand
                        (case json_get ct ''id'' of None \<Rightarrow> ''None'' | Some j \<Rightarrow> json_str j)
                        name [] (dockhand_context json_str environments stacks ct)]))"

definition stack_ok :: "json \<Rightarrow> bool" where
  "stack_ok s \<longleftrightarrow> hash_key (json_get s ''name'') \<noteq> None"

definition is_dict :: "json \<Rightarrow> bool" where
  "is_dict j = (case j of JObj kvs \<Rightarrow> True | _ \<Rightarrow> False)"

definition dockhand_discover ::
  "(json \<Rightarrow> pystr) \<Rightarrow> json list \<Rightarrow> json list \<Rightarrow> json list \<Rightarrow> discovered list option" where
  "dockhand_discover json_str environments stacks containers =
     (if \<not> list_all is_dict environments \<or> \<not> list_all stack_ok stacks then None
      else collect (dockhand_item json_str environments stacks) containers)"

section \<open>Lemmas on names\<close>

lemma split_final_newline_plain: "s = [] \<or> last s \<noteq> CHR 0x0A \<Longrightarrow> split_final_newline s = (s, [])"
  by (auto simp: split_final_newline_def)

lemma ends_with_append [simp]: "ends_with (a @ m) m"
  by (simp add: ends_with_def)

lemma has_marker_append: "is_dash d \<Longrightarrow> has_marker m (b @ d # m)"
  using ends_with_append [of "b @ [d]" m] by (simp add: has_marker_def nth_append)

lemma strip_provider_append:
  assumes "p \<noteq> []" "list_all is_word_char p"
  shows "strip_provider (b @ CHR ''@'' # p) = b"
proof -
  have nl: "\<not> is_word_char (CHR 0x0A)" "\<not> is_word_char (CHR ''@'')" by code_simp+
  have at: "CHR ''@'' \<notin> set p" using assms(2) nl(2) by (auto simp: list_all_iff)
  have "last p \<noteq> CHR 0x0A" using assms nl(1) by (auto simp: list_all_iff dest: last_in_set)
  then have "split_final_newline (b @ CHR ''@'' # p) = (b @ CHR ''@'' # p, [])"
    using assms(1) by (intro split_final_newline_plain) simp
  moreover have "rpartition_at (CHR ''@'') (b @ CHR ''@'' # p) = (b, True, p)"
    using at by (simp add: rpartition_at_def takeWhile_neq_append dropWhile_neq_append)
  ultimately show ?thesis using assms by (simp add: strip_provider_def)
qed

lemma strip_markers_hit:
  assumes "is_dash d" "m \<noteq> []" "last m \<noteq> CHR 0x0A" "\<And>n. n \<in> set ms \<Longrightarrow> \<not> has_marker n (b @ d # m)"
  shows "strip_markers (ms @ m # ms') (b @ d # m) = b"
proof -
  have s: "split_final_newline (b @ d # m) = (b @ d # m, [])"
    using assms(2,3) by (intro split_final_newline_plain) simp
  show ?thesis using assms(4)
  proof (induction ms)
    case Nil
    then show ?case using has_marker_append [OF assms(1), of m b] s by simp
  qed (simp add: s)
qed

lemma lstrip_slash_id: "b \<noteq> [] \<Longrightarrow> hd b \<noteq> CHR ''/'' \<Longrightarrow> lstrip_slash b = b"
  by (cases b) (simp_all add: lstrip_slash_def lstrip_by_def)

lemma has_marker_ends:
  assumes "has_marker m s"
  shows "\<exists>a. s = a @ m"
proof -
  obtain t where "rev s = rev m @ t" using assms by (auto simp: has_marker_def ends_with_def starts_with_iff)
  then have "rev (rev s) = rev (rev m @ t)" by simp
  then have "s = rev t @ m" by simp
  then show ?thesis ..
qed

lemma not_router_proxy: "\<not> has_marker ''router'' (b @ d # ''proxy'')"
proof
  assume "has_marker ''router'' (b @ d # ''proxy'')"
  then obtain a where "b @ d # ''proxy'' = a @ ''router''" using has_marker_ends by blast
  then have "last (b @ d # ''proxy'') = last (a @ ''router'')" by simp
  then show False by simp
qed

section \<open>Properties\<close>

lemma normalize_proxy:
  assumes "is_dash d" "p \<noteq> []" "list_all is_word_char p"
  shows "normalize_name (b @ d # ''proxy'' @ ''@'' @ p) = lower b"
proof -
  have "strip_provider (b @ d # ''proxy'' @ ''@'' @ p) = b @ d # ''proxy''"
    using strip_provider_append [OF assms(2,3), of "b @ d # ''proxy''"] by simp
  moreover have "strip_markers ([''router''] @ ''proxy'' # []) (b @ d # ''proxy'') = b"
    by (rule strip_markers_hit [OF assms(1)]) (simp_all add: not_router_proxy)
  ultimately show ?thesis by (simp add: normalize_name_def)
qed

lemma lower_append [simp]: "lower (a @ b) = lower a @ lower b"
  by (simp add: lower_def)

lemma lower_dash: "is_dash d \<Longrightarrow> lower [d] = [d]"
  by (auto simp: is_dash_def) code_simp+

lemma outpost_base_of:
  assumes "is_dash d" "b \<noteq> []" "hd b \<noteq> CHR ''/''"
  shows "outpost_base (Some (b @ d # ''outpost'')) = lower b"
    and "is_outpost_container (Some (b @ d # ''outpost'')) img"
proof -
  have o: "lower ''outpost'' = ''outpost''" by code_simp
  have n: "outpost_name (Some (b @ d # ''outpost'')) = lower b @ d # ''outpost''"
    using assms lower_append [of b "[d] @ ''outpost''"] lower_append [of "[d]" "''outpost''"] lower_dash [OF assms(1)] o
    by (simp add: outpost_name_def lstrip_slash_id)
  have "strip_markers ([] @ ''outpost'' # [''proxy'']) (lower b @ d # ''outpost'') = lower b"
    by (rule strip_markers_hit [OF assms(1)]) simp_all
  then show "outpost_base (Some (b @ d # ''outpost'')) = lower b"
    by (simp add: outpost_base_def n)
  have "split_final_newline (lower b @ d # ''outpost'') = (lower b @ d # ''outpost'', [])"
    by (rule split_final_newline_plain) simp
  then show "is_outpost_container (Some (b @ d # ''outpost'')) img"
    using has_marker_append [OF assms(1)] by (simp add: is_outpost_container_def n)
qed

text \<open>
  A router whose service runs behind an Authentik outpost is never reported as open: when a
  container \<open>b_outpost\<close> or \<open>b-outpost\<close> runs, the router \<open>b-proxy\<close> (or \<open>b_proxy\<close>) of any provider
  reduces to the same base name and its discovered service is protected, so the pass cannot
  raise a false conflict for it.
\<close>
theorem outpost_router_protected:
  assumes "is_dash d1" "is_dash d2" "b \<noteq> []" "hd b \<noteq> CHR ''/''" "p \<noteq> []" "list_all is_word_char p"
    and "(Some (b @ d2 # ''outpost''), img) \<in> set cs"
    and "json_get router ''name'' = Some (JStr (b @ d1 # ''proxy'' @ ''@'' @ p))"
    and "router_item extras forward basic (outpost_bases cs) router = Some items" "i \<in> set items"
  shows "d_name i = lower b \<and> d_auth_mode i \<in> {Some AuthMode_forward_auth, Some AuthMode_basic}"
proof -
  have n: "normalize_name (b @ d1 # ''proxy'' @ ''@'' @ p) = lower b"
    by (rule normalize_proxy [OF assms(1,5,6)])
  have "lower b \<noteq> []" using assms(3) by (simp add: lower_def)
  then have base: "lower b \<in> set (outpost_bases cs)"
    using assms(7) outpost_base_of [OF assms(2-4)] unfolding outpost_bases_def by force
  have "d_name i = normalize_name (b @ d1 # ''proxy'' @ ''@'' @ p) \<and>
    (\<exists>used. d_auth_mode i = Some (router_auth_mode forward basic (outpost_bases cs) used
       (normalize_name (b @ d1 # ''proxy'' @ ''@'' @ p))))"
    using assms(8-10) by (cases router) (auto simp: router_item_def Let_def split: if_splits option.splits)
  then show ?thesis using n base by (auto simp: router_auth_mode_def split: if_splits)
qed

text \<open>
  The Traefik source flags as open exactly the routers that use no forward-auth and no
  basic-auth middleware and have no outpost; it reports each router once, under its own id,
  leaves out the internal ones and those without a name, and the URLs it reports are https.
\<close>
theorem traefik_reports_auth:
  assumes "traefik_discover extras bases routers middlewares = Some items" "i \<in> set items"
    and "middlewares_of ''forwardauth'' middlewares = Some forward"
    and "middlewares_of ''basicauth'' middlewares = Some basic"
  shows "\<exists>r used. r \<in> set routers \<and> json_get r ''name'' = Some (JStr (d_external_id i)) \<and>
    used_middlewares r = Some used \<and> d_raw i = r \<and> d_router i = Some (d_external_id i) \<and>
    d_external_id i \<notin> set INTERNAL_ROUTERS \<and> d_name i = normalize_name (d_external_id i) \<and>
    (\<forall>u \<in> set (d_urls i). starts_with u ''https://'') \<and>
    (d_auth_mode i = Some AuthMode_none \<longleftrightarrow>
       set used \<inter> (set forward \<union> set basic) = {} \<and> d_name i \<notin> set bases)"
proof -
  have "collect (router_item extras forward basic bases) routers = Some items"
    using assms(1,3,4) by (simp add: traefik_discover_def)
  from collect_Some_in [OF this assms(2)] obtain r ys where r: "r \<in> set routers"
    "router_item extras forward basic bases r = Some ys" "i \<in> set ys" by blast
  have internal_iff: "(Some (JStr x) \<in> (\<lambda>n. Some (JStr n)) ` S) = (x \<in> S)" for x S by auto
  obtain kvs where k: "r = JObj kvs" using r(2) by (cases r) (auto simp: router_item_def)
  obtain name used hosts where u: "json_get r ''name'' = Some (JStr name)" "used_middlewares r = Some used"
    "hosts_from_rule (json_get r ''rule'') = Some hosts" "name \<notin> set INTERNAL_ROUTERS"
    "i = \<lparr>d_source = Source_traefik, d_external_id = name, d_name = normalize_name name,
          d_display_name = Some (title (replace_dash (normalize_name name))),
          d_category = Some (traefik_category extras (normalize_name name)), d_host = None,
          d_urls = map https_url hosts, d_router = Some name, d_slug = None,
          d_auth_mode = Some (router_auth_mode forward basic bases used (normalize_name name)),
          d_tags = [], d_raw = r\<rparr>"
    using r(2,3) k internal_iff
    by (auto simp: router_item_def Let_def split: if_splits option.splits json.splits)
  moreover have "router_auth_mode forward basic bases used n = AuthMode_none \<longleftrightarrow>
      set used \<inter> (set forward \<union> set basic) = {} \<and> n \<notin> set bases" for n
    by (auto simp: router_auth_mode_def list_ex_iff)
  moreover have "\<forall>u \<in> set (map https_url hosts). starts_with u ''https://''"
    by (auto simp only: https_url_def set_map starts_with_refl)
  ultimately show ?thesis using r(1) by (intro exI [of _ r] exI [of _ used]) simp
qed

definition example_routers :: "json list" where
  "example_routers = [JObj [(''name'', JStr ''a-proxy@docker''), (''rule'', JNull)],
     JObj [(''name'', JStr ''b@file''), (''middlewares'', JList [JStr ''fa''])]]"

definition example_middlewares :: "json list" where
  "example_middlewares = [JObj [(''name'', JStr ''fa''), (''type'', JStr ''ForwardAuth'')]]"

lemma example_traefik:
  "middlewares_of ''forwardauth'' example_middlewares = Some [JStr ''fa'']"
  "middlewares_of ''basicauth'' example_middlewares = Some []"
  "map_option (map d_name) (traefik_discover [] [] example_routers example_middlewares) = Some [''a'', ''b'']"
  by code_simp+

text \<open>The first router above with the outpost of its service running.\<close>

lemma example_outposts: "outpost_bases [(Some ''a_outpost'', None)] = [''a'']"
  by code_simp

lemma example_item:
  "\<exists>i. router_item [] [] [] (outpost_bases [(Some ''a_outpost'', None)])
      (JObj [(''name'', JStr ''a-proxy@docker''), (''rule'', JNull)]) = Some [i]"
proof -
  have "map_option length (router_item [] [] [] [''a'']
      (JObj [(''name'', JStr ''a-proxy@docker''), (''rule'', JNull)])) = Some 1" by code_simp
  then show ?thesis unfolding example_outposts by (auto simp: length_Suc_conv)
qed

theorem outpost_router_protected_witness:
  "\<exists>i. router_item [] [] [] (outpost_bases [(Some ''a_outpost'', None)])
      (JObj [(''name'', JStr ''a-proxy@docker''), (''rule'', JNull)]) = Some [i] \<and>
    d_auth_mode i \<in> {Some AuthMode_forward_auth, Some AuthMode_basic}"
proof -
  obtain i where i: "router_item [] [] [] (outpost_bases [(Some ''a_outpost'', None)])
      (JObj [(''name'', JStr ''a-proxy@docker''), (''rule'', JNull)]) = Some [i]"
    using example_item by blast
  have "list_all is_word_char ''docker''" by code_simp
  moreover have "lower ''a'' = ''a''" by code_simp
  ultimately have "d_name i = ''a'' \<and> d_auth_mode i \<in> {Some AuthMode_forward_auth, Some AuthMode_basic}"
    using outpost_router_protected [of "CHR ''-''" "CHR ''_''" "''a''" "''docker''" None
        "[(Some ''a_outpost'', None)]", OF _ _ _ _ _ _ _ _ i]
    by (simp add: is_dash_def)
  then show ?thesis using i by blast
qed

theorem traefik_reports_auth_witness:
  "\<exists>items. traefik_discover [] [] example_routers example_middlewares = Some items \<and>
    (\<exists>i r. i \<in> set items \<and> r \<in> set example_routers \<and> d_raw i = r)"
proof -
  obtain items where t: "traefik_discover [] [] example_routers example_middlewares = Some items"
    and m: "map d_name items = [''a'', ''b'']" using example_traefik(3) by auto
  obtain i where i: "i \<in> set items" using m by (cases items) auto
  from traefik_reports_auth [OF t i example_traefik(1,2)] show ?thesis using t i by blast
qed

end
