(* ===== verification/DiscoveryEngine.thy ===== *)
theory DiscoveryEngine
  imports DiscoverySources RegistryProps
begin

text \<open>
  \<open>discovery/engine.py\<close>: one discovery pass of a source, with the reasoning answers collected
  before the transaction, and the hook that runs after a pass, at most one run at a time. What
  a source reported and what the reasoning layer answers are parameters; \<open>None\<close> of a source
  is the exception its \<open>discover\<close> raised.
\<close>

section \<open>Reasoning before the transaction\<close>

definition opt_value :: "('a \<Rightarrow> json) \<Rightarrow> 'a option \<Rightarrow> json" where
  "opt_value f v = (case v of None \<Rightarrow> JNull | Some x \<Rightarrow> f x)"

definition service_summary :: "service \<Rightarrow> json" where
  "service_summary s = JObj
     [(''name'', JStr (svc_name s)), (''display_name'', JStr (svc_display_name s)),
      (''category'', JStr (category_value (svc_category s))), (''host'', opt_value JStr (svc_host s)),
      (''urls'', JList (map JStr (svc_urls s))),
      (''traefik_router'', opt_value JStr (svc_traefik_router s)),
      (''authentik_app_slug'', opt_value JStr (svc_authentik_app_slug s)),
      (''auth_mode'', JStr (auth_mode_value (svc_auth_mode s)))]"

definition candidate_summary :: "discovered \<Rightarrow> json" where
  "candidate_summary d = JObj
     [(''source'', JStr (source_type_value (d_source d))), (''name'', JStr (d_name d)),
      (''display_name'', opt_value JStr (d_display_name d)), (''host'', opt_value JStr (d_host d)),
      (''urls'', JList (map JStr (d_urls d))), (''traefik_router'', opt_value JStr (d_router d)),
      (''authentik_app_slug'', opt_value JStr (d_slug d)),
      (''auth_mode'', opt_value (\<lambda>m. JStr (auth_mode_value m)) (d_auth_mode d))]"

text \<open>
  The reasoner: whether it is enabled, its answer to an identity question (a service name) and
  to a metadata question from a rule, the middlewares and a service name.
\<close>

record reasoner =
  re_enabled :: bool
  re_identity :: "json \<Rightarrow> json list \<Rightarrow> pystr option"
  re_metadata :: "pystr \<Rightarrow> json list \<Rightarrow> json \<Rightarrow> enrichment option"
  re_str :: "json \<Rightarrow> pystr"

definition find_by_name :: "service list \<Rightarrow> pystr option \<Rightarrow> service option" where
  "find_by_name ss name =
     (if truthy name then find (\<lambda>s. svc_name s = the name) ss else None)"

definition ask_identity :: "reasoner \<Rightarrow> discovered \<Rightarrow> service list \<Rightarrow> service option" where
  "ask_identity re d ss =
     find_by_name ss (re_identity re (candidate_summary d) (map service_summary ss))"

definition ask_metadata :: "reasoner \<Rightarrow> discovered \<Rightarrow> enrichment option" where
  "ask_metadata re d =
     (if d_source d \<noteq> Source_traefik then None
      else
        (let raw = d_raw d; rule = json_get raw ''rule''; sv = json_get raw ''service'' in
         re_metadata re (if json_falsy rule then [] else re_str re (the rule))
           (case json_items (json_get raw ''middlewares'') of None \<Rightarrow> [] | Some xs \<Rightarrow> xs)
           (if json_falsy sv then JStr (d_name d) else the sv)))"

text \<open>The answers by external id; the later item of an id wins.\<close>

record answers =
  aw_matched :: "pystr \<Rightarrow> pystr option option"
  aw_enriched :: "pystr \<Rightarrow> enrichment option option"

definition no_answers :: answers where
  "no_answers = \<lparr>aw_matched = (\<lambda>k. None), aw_enriched = (\<lambda>k. None)\<rparr>"

fun reason_items ::
  "(pystr \<Rightarrow> bool) \<Rightarrow> reasoner \<Rightarrow> service list \<Rightarrow> discovered list \<Rightarrow> answers \<Rightarrow> answers option" where
  "reason_items bok re ss [] a = Some a"
| "reason_items bok re ss (d # ds) a =
     (case match_service bok ss d of
        None \<Rightarrow> None
      | Some (Some s) \<Rightarrow> reason_items bok re ss ds a
      | Some None \<Rightarrow>
          (let hit = ask_identity re d ss;
               a1 = a\<lparr>aw_matched := (aw_matched a)(d_external_id d := Some (map_option svc_name hit))\<rparr>
           in reason_items bok re ss ds
                (if hit = None
                 then a1\<lparr>aw_enriched := (aw_enriched a1)(d_external_id d := Some (ask_metadata re d))\<rparr>
                 else a1)))"

definition lookup_answers :: "answers \<Rightarrow> reasoning" where
  "lookup_answers a =
     \<lparr>rs_resolve = (\<lambda>d ss. case aw_matched a (d_external_id d) of
                       None \<Rightarrow> None | Some name \<Rightarrow> find_by_name ss name),
      rs_enrich = (\<lambda>d. case aw_enriched a (d_external_id d) of
                     Some (Some en) \<Rightarrow> en | _ \<Rightarrow> no_enrichment)\<rparr>"

definition reasoning_for ::
  "(pystr \<Rightarrow> bool) \<Rightarrow> reasoner option \<Rightarrow> registry \<Rightarrow> discovered list \<Rightarrow> reasoning option" where
  "reasoning_for bok re rg ds =
     (case re of
        None \<Rightarrow> Some no_reasoning
      | Some r \<Rightarrow>
          if \<not> re_enabled r then Some no_reasoning
          else map_option lookup_answers
                 (reason_items bok r (list_services None None None rg) ds no_answers))"

section \<open>A pass\<close>

datatype source_run = Not_enabled | Source_raised pystr | Reported "discovered list"

text \<open>
  \<open>_discover\<close>: the registry after it and whether the recorded status is \<open>ok\<close>. \<open>raised\<close> is the
  text of an exception out of the matching, \<open>t0\<close>, \<open>now\<close> and \<open>finished\<close> the clock. The reasoning
  is awaited, so it sees \<open>rg0\<close>, the registry before it, and the transaction may find another.
\<close>

definition discover_pass ::
  "env \<Rightarrow> (pystr \<Rightarrow> bool) \<Rightarrow> reasoner option \<Rightarrow> source_type \<Rightarrow> int \<Rightarrow> source_run \<Rightarrow> pystr
     \<Rightarrow> instant \<Rightarrow> instant \<Rightarrow> instant \<Rightarrow> registry \<Rightarrow> registry \<Rightarrow> registry \<times> bool" where
  "discover_pass e bok re source th run raised t0 now finished rg0 rg =
     (let failed = (\<lambda>why. (record_discovery_event e source t0 finished Discovery_failed no_counts
                             (Some why) rg, False))
      in case run of
           Not_enabled \<Rightarrow>
             failed (''discovery source '' @ source_type_value source @ '' is not enabled'')
         | Source_raised why \<Rightarrow> failed why
         | Reported ds \<Rightarrow>
             (case reasoning_for bok re rg0 ds of
                None \<Rightarrow> failed raised
              | Some rs \<Rightarrow>
                  (case reconcile e bok rs source ds th now rg of
                     None \<Rightarrow> failed raised
                   | Some (rg1, counts) \<Rightarrow>
                       (record_discovery_event e source t0 finished Discovery_ok counts None rg1,
                        True))))"

definition engine_status ::
  "source_type list \<Rightarrow> registry \<Rightarrow> (source_type \<times> discovery_event option) list" where
  "engine_status sources rg =
     map (\<lambda>s. (s, case list_discovery_events (Some s) 1 rg of [] \<Rightarrow> None | ev # _ \<Rightarrow> Some ev)) sources"

section \<open>The hook after a pass\<close>

text \<open>
  \<open>_pass_complete\<close> with its lock and its pending flag; \<open>hk_log\<close> is the history of the requests
  and of the starts and ends of runs. \<open>hook_request\<close> is a call from a finished pass, up to the
  point where it returns or awaits the hook; \<open>hook_returns\<close> continues the call that holds the
  lock after the hook ended (or raised, which is logged).
\<close>

datatype hook_event = Requested | Run_started | Run_ended

record hook =
  hk_pending :: bool
  hk_locked :: bool
  hk_log :: "hook_event list"

definition idle_hook :: hook where
  "idle_hook = \<lparr>hk_pending = False, hk_locked = False, hk_log = []\<rparr>"

definition hook_loop :: "hook \<Rightarrow> hook" where
  "hook_loop h =
     (if hk_pending h
      then h\<lparr>hk_pending := False, hk_locked := True, hk_log := hk_log h @ [Run_started]\<rparr>
      else h\<lparr>hk_locked := False\<rparr>)"

definition hook_request :: "hook \<Rightarrow> hook" where
  "hook_request h =
     (let h1 = h\<lparr>hk_pending := True, hk_log := hk_log h @ [Requested]\<rparr> in
      if hk_locked h1 then h1 else hook_loop h1)"

definition hook_returns :: "hook \<Rightarrow> hook" where
  "hook_returns h = hook_loop (h\<lparr>hk_log := hk_log h @ [Run_ended]\<rparr>)"

inductive hook_step :: "hook \<Rightarrow> hook \<Rightarrow> bool" where
  step_request: "hook_step h (hook_request h)"
| step_returns: "hk_locked h \<Longrightarrow> hook_step h (hook_returns h)"

inductive hook_reach :: "hook \<Rightarrow> bool" where
  hook_idle: "hook_reach idle_hook"
| hook_next: "hook_reach h \<Longrightarrow> hook_step h h' \<Longrightarrow> hook_reach h'"

inductive_cases hook_stepE: "hook_step h h'"

section \<open>Lemmas\<close>

lemma find_by_name_in: "find_by_name ss n = Some s \<Longrightarrow> s \<in> set ss"
  by (auto simp: find_by_name_def find_Some_iff split: if_splits)

lemma no_reasoning_ok: "resolver_ok no_reasoning"
  by (simp add: resolver_ok_def no_reasoning_def)

lemma lookup_answers_ok: "resolver_ok (lookup_answers a)"
  by (auto simp: resolver_ok_def lookup_answers_def dest: find_by_name_in split: option.splits)

text \<open>The resolver the engine hands over only answers with a service it was shown.\<close>

lemma reasoning_for_ok: "reasoning_for bok re rg ds = Some rs \<Longrightarrow> resolver_ok rs"
  by (auto simp: reasoning_for_def no_reasoning_ok lookup_answers_ok split: option.splits if_splits)

lemma record_discovery_event_simps [simp]:
  "rg_services (record_discovery_event e s a b st c err rg) = rg_services rg"
  "rg_sources (record_discovery_event e s a b st c err rg) = rg_sources rg"
  "rg_changes (record_discovery_event e s a b st c err rg) = rg_changes rg"
  by (simp_all add: record_discovery_event_def)

lemma reg_ok_discovery_event:
  assumes "env_ok e" "reg_ok e rg"
  shows "reg_ok e (record_discovery_event e s a b st c err rg)"
proof -
  have "drawn_ids e (record_discovery_event e s a b st c err rg) =
    insert (env_uuid e (rg_drawn rg)) (drawn_ids e rg)"
    by (rule drawn_ids_Suc) (simp add: record_discovery_event_def)
  then show ?thesis using assms unfolding reg_ok_def by (auto simp: record_discovery_event_def)
qed

lemma discoveries_frame:
  "rg_discoveries (record_change e i f old new a rg) = rg_discoveries rg"
  "rg_discoveries (put_service i g rg) = rg_discoveries rg"
  "rg_discoveries (put_source i h rg) = rg_discoveries rg"
  "rg_discoveries (add_service e s rg) = rg_discoveries rg"
  "rg_discoveries (add_source e i src ext raw seen rg) = rg_discoveries rg"
  by (simp_all add: record_change_def put_service_def put_source_def add_service_def add_source_def Let_def)

lemma discoveries_change: "rg_discoveries (change_field e i a u rg) = rg_discoveries rg"
  by (simp add: change_field_def discoveries_frame split: option.split)

lemma discoveries_fold:
  "(\<And>x rg. rg_discoveries (f x rg) = rg_discoveries rg) \<Longrightarrow> rg_discoveries (fold f xs rg) = rg_discoveries rg"
  by (induction xs arbitrary: rg) simp_all

lemma discoveries_steps:
  "rg_discoveries (merge_into e a now s d rg) = rg_discoveries rg"
  "rg_discoveries (upsert_source e i src d now rg) = rg_discoveries rg"
  "rg_discoveries (miss_row e th a row rg) = rg_discoveries rg"
  by (simp_all add: merge_into_def upsert_source_def miss_row_def set_stale_def Let_def discoveries_frame
      discoveries_fold discoveries_change split: option.split)

lemma discoveries_item:
  "reconcile_item e bok rs src a now d p = Some q \<Longrightarrow>
     rg_discoveries (ps_registry q) = rg_discoveries (ps_registry p)"
  by (auto simp: reconcile_item_def Let_def discoveries_steps discoveries_frame split: option.splits)

lemma discoveries_items:
  "reconcile_items e bok rs src a now ds p = Some q \<Longrightarrow>
     rg_discoveries (ps_registry q) = rg_discoveries (ps_registry p)"
  by (induction ds arbitrary: p) (auto dest: discoveries_item split: option.splits)

lemma reconcile_discoveries:
  "reconcile e bok rs src ds th now rg = Some (rg', c) \<Longrightarrow> rg_discoveries rg' = rg_discoveries rg"
  by (auto simp: reconcile_def Let_def mark_stale_def discoveries_fold discoveries_steps
      dest: discoveries_items split: option.splits)

text \<open>The history of runs: started and ended in turn, and what is still unserved.\<close>

definition unserved :: "hook_event list \<Rightarrow> bool" where
  "unserved l \<longleftrightarrow> Requested \<in> set (takeWhile (\<lambda>x. x \<noteq> Run_started) (rev l))"

fun alternate :: "bool \<Rightarrow> hook_event list \<Rightarrow> bool" where
  "alternate running [] = True"
| "alternate running (Requested # l) = alternate running l"
| "alternate running (Run_started # l) = (\<not> running \<and> alternate True l)"
| "alternate running (Run_ended # l) = (running \<and> alternate False l)"

definition running_after :: "bool \<Rightarrow> hook_event list \<Rightarrow> bool" where
  "running_after r l = fold (\<lambda>x r. case x of Requested \<Rightarrow> r | Run_started \<Rightarrow> True | Run_ended \<Rightarrow> False) l r"

lemma alternate_append:
  "alternate r (l @ m) \<longleftrightarrow> alternate r l \<and> alternate (running_after r l) m"
  by (induction r l rule: alternate.induct) (auto simp: running_after_def)

lemma unserved_simps [simp]:
  "unserved (l @ [Requested])" "\<not> unserved (l @ [Run_started])" "\<not> unserved []"
  "unserved (l @ [Run_ended]) = unserved l"
  by (simp_all add: unserved_def)

definition hook_ok :: "hook \<Rightarrow> bool" where
  "hook_ok h \<longleftrightarrow>
     alternate False (hk_log h) \<and> (hk_locked h \<longleftrightarrow> running_after False (hk_log h)) \<and>
     (hk_pending h \<longleftrightarrow> unserved (hk_log h)) \<and> (hk_pending h \<longrightarrow> hk_locked h) \<and>
     count_list (hk_log h) Run_started + (if hk_pending h then 1 else 0) \<le> count_list (hk_log h) Requested"

lemma running_after_snoc:
  "running_after r (l @ [x]) = (case x of Requested \<Rightarrow> running_after r l | Run_started \<Rightarrow> True | Run_ended \<Rightarrow> False)"
  by (cases x) (simp_all add: running_after_def)

lemma log_pairs:
  "running_after r (l @ [x, Run_started])" "\<not> unserved (l @ [x, Run_started])"
  "\<not> unserved (l @ [x, Run_started, Run_ended])"
  by (simp_all add: running_after_def unserved_def)

lemmas hook_defs =
  hook_ok_def hook_loop_def hook_request_def hook_returns_def alternate_append running_after_snoc log_pairs Let_def

lemma hook_step_ok: "hook_step h h' \<Longrightarrow> hook_ok h \<Longrightarrow> hook_ok h'"
  by (erule hook_stepE) (auto simp: hook_defs)

lemma hook_reach_ok: "hook_reach h \<Longrightarrow> hook_ok h"
proof (induction rule: hook_reach.induct)
  case hook_idle
  then show ?case by (simp add: hook_ok_def idle_hook_def running_after_def)
qed (rule hook_step_ok)

section \<open>Properties\<close>

lemma discover_pass_cases:
  obtains (failed) why where "discover_pass e bok re source th run raised t0 now t1 rg0 rg =
      (record_discovery_event e source t0 t1 Discovery_failed no_counts (Some why) rg, False)"
  | (ok) ds rs rg1 c where "run = Reported ds" "resolver_ok rs"
      "reconcile e bok rs source ds th now rg = Some (rg1, c)"
      "discover_pass e bok re source th run raised t0 now t1 rg0 rg =
        (record_discovery_event e source t0 t1 Discovery_ok c None rg1, True)"
proof (cases run)
  case (Reported ds)
  show ?thesis
  proof (cases "reasoning_for bok re rg0 ds")
    case None
    with Reported show ?thesis by (intro failed) (simp add: discover_pass_def)
  next
    case (Some rs)
    show ?thesis
    proof (cases "reconcile e bok rs source ds th now rg")
      case None
      with Reported Some show ?thesis by (intro failed) (simp add: discover_pass_def)
    next
      case (Some p)
      then show ?thesis
        using Reported \<open>reasoning_for bok re rg0 ds = Some rs\<close> reasoning_for_ok
        by (cases p) (intro ok; simp add: discover_pass_def)
    qed
  qed
qed (rule failed, simp add: discover_pass_def)+

text \<open>
  C40: A discovery pass never damages the registry, whatever the source reports and whatever the
  reasoning layer answers, even about a registry that has changed since: names and ids stay
  unique and every provenance row keeps its service; a failed pass leaves services, provenance
  and change log as they were; and each pass adds exactly one event to the discovery log, with
  the status it ended with.
\<close>
theorem discovery_pass_safe:
  assumes "inj (env_uuid e)" "reg_ok e rg"
    and "discover_pass e bok re source th run raised t0 now t1 rg0 rg = (rg', good)"
  shows "reg_ok e rg' \<and>
    (\<not> good \<longrightarrow> rg_services rg' = rg_services rg \<and> rg_sources rg' = rg_sources rg \<and>
       rg_changes rg' = rg_changes rg) \<and>
    (\<exists>ev. rg_discoveries rg' = rg_discoveries rg @ [ev] \<and> de_source ev = source \<and>
       de_status ev = (if good then Discovery_ok else Discovery_failed) \<and>
       (de_error ev = None \<longleftrightarrow> good))"
proof -
  have e: "env_ok e" using assms(1) by (simp add: env_ok_def)
  show ?thesis
  proof (rule discover_pass_cases [of e bok re source th run raised t0 now t1 rg0 rg])
    fix why assume "discover_pass e bok re source th run raised t0 now t1 rg0 rg =
      (record_discovery_event e source t0 t1 Discovery_failed no_counts (Some why) rg, False)"
    with assms(3) show ?thesis
      using reg_ok_discovery_event [OF e assms(2)] by (auto simp: record_discovery_event_def)
  next
    fix ds rs rg1 c
    assume rs: "resolver_ok rs" and r: "reconcile e bok rs source ds th now rg = Some (rg1, c)"
      and d: "discover_pass e bok re source th run raised t0 now t1 rg0 rg =
        (record_discovery_event e source t0 t1 Discovery_ok c None rg1, True)"
    have ok: "reg_ok e rg1" using reconcile_ok [OF r e rs assms(2)] by simp
    have "rg_discoveries rg1 = rg_discoveries rg" by (rule reconcile_discoveries [OF r])
    with d assms(3) show ?thesis
      using reg_ok_discovery_event [OF e ok] by (auto simp: record_discovery_event_def)
  qed
qed

text \<open>
  The hook after discovery passes is never running twice at once, is run at most once per
  finished pass, and serves every one: while passes are unserved a run is in progress that
  will start another, so once the running hook has returned twice with no new pass in
  between, nothing is running and a run started after the last finished pass.
\<close>
theorem hook_serves_every_pass:
  assumes "hook_reach h"
  shows "alternate False (hk_log h) \<and>
    count_list (hk_log h) Run_started \<le> count_list (hk_log h) Requested \<and>
    (unserved (hk_log h) \<longrightarrow> hk_locked h) \<and>
    (hk_locked h \<longrightarrow> \<not> unserved (hk_log (hook_returns h)) \<and>
       (hk_locked (hook_returns h) \<longrightarrow>
          \<not> hk_locked (hook_returns (hook_returns h)) \<and>
          \<not> unserved (hk_log (hook_returns (hook_returns h)))))"
  using hook_reach_ok [OF assms] by (auto simp: hook_defs)

definition failing_env :: env where
  "failing_env = \<lparr>env_uuid = (\<lambda>n. replicate n CHR ''u''), env_clock = int\<rparr>"

theorem discovery_pass_safe_witness:
  "rg_services (fst (discover_pass failing_env (\<lambda>s. True) None Source_traefik 3 (Source_raised ''down'') [] 1 2 3
     empty_registry empty_registry)) = []"
proof -
  have inj: "inj (env_uuid failing_env)"
  proof (rule injI)
    fix a b assume "env_uuid failing_env a = env_uuid failing_env b"
    then have "length (env_uuid failing_env a) = length (env_uuid failing_env b)" by (rule arg_cong)
    then show "a = b" by (simp add: failing_env_def)
  qed
  obtain rg' good where d: "discover_pass failing_env (\<lambda>s. True) None Source_traefik 3 (Source_raised ''down'') [] 1 2 3
     empty_registry empty_registry = (rg', good)" by fastforce
  then have "\<not> good" by (simp add: discover_pass_def)
  then show ?thesis using discovery_pass_safe [OF inj reg_ok_empty d] d by (simp add: empty_registry_def)
qed

theorem hook_serves_every_pass_witness:
  "\<not> hk_locked (hook_returns (hook_returns (hook_request (hook_request idle_hook)))) \<and>
   \<not> unserved (hk_log (hook_returns (hook_returns (hook_request (hook_request idle_hook)))))"
proof -
  have r: "hook_reach (hook_request (hook_request idle_hook))"
    by (intro hook_next [OF _ step_request] hook_idle)
  have "hk_locked (hook_request (hook_request idle_hook))"
    "hk_locked (hook_returns (hook_request (hook_request idle_hook)))"
    by (simp_all add: idle_hook_def hook_request_def hook_loop_def hook_returns_def Let_def)
  then show ?thesis using hook_serves_every_pass [OF r] by simp
qed

end
