(* ===== verification/IntakeFetch.thy ===== *)
theory IntakeFetch
  imports Reconcile PyJson
begin

text \<open>
  \<open>intake/fetch.py\<close>: fetching a foreign repository. The file system of the clone, the
  outcome of \<open>git clone\<close> and the environment are parameters; every process started and
  the life of the temporary directory are recorded in a trace. The check of an IP literal in
  brackets is \<open>bracket_ok\<close>, as in \<open>Reconcile\<close>.
\<close>

section \<open>The address\<close>

definition ALLOWED_SCHEMES :: "pystr list" where
  "ALLOWED_SCHEMES = [''https'']"

definition COMPOSE_NAMES :: "pystr list" where
  "COMPOSE_NAMES = [''compose.yaml'', ''compose.yml'', ''docker-compose.yml'', ''docker-compose.yaml'']"

definition DOCKERFILE_NAMES :: "pystr list" where
  "DOCKERFILE_NAMES = [''Dockerfile'', ''dockerfile'']"

definition README_NAMES :: "pystr list" where
  "README_NAMES = [''README.md'', ''README.rst'', ''README.txt'', ''README'', ''readme.md'']"

definition MAX_FILE_BYTES :: int where
  "MAX_FILE_BYTES = 256 * 1024"

definition GIT_TRUST_ANCHOR_VARS :: "pystr list" where
  "GIT_TRUST_ANCHOR_VARS = [''GIT_SSL_CAINFO'', ''GIT_SSL_CAPATH'']"

text \<open>\<open>Url_malformed\<close> is the \<open>ValueError\<close> of \<open>urlparse\<close>, \<open>Git_missing\<close> the \<open>OSError\<close> of a
  process that cannot be started; the others are an \<open>IntakeError\<close>.\<close>

datatype intake_error =
    Url_required
  | Url_option
  | Url_malformed
  | Url_no_scheme
  | Url_bad_scheme pystr
  | Url_no_host
  | Clone_timed_out pystr
  | Clone_failed pystr pystr
  | Git_missing
  | Repo_too_large rat int

text \<open>The scheme \<open>urlsplit\<close> reads.\<close>

definition url_scheme :: "pystr \<Rightarrow> pystr" where
  "url_scheme u =
     (case partition_at (CHR '':'') (url_clean u) of (scheme, found, rest) \<Rightarrow>
        if found \<and> scheme \<noteq> [] \<and> is_ascii_alpha (hd scheme) \<and> list_all is_scheme_char scheme
        then lower scheme else [])"

definition check_repo_url :: "(pystr \<Rightarrow> bool) \<Rightarrow> pystr \<Rightarrow> intake_error + pystr" where
  "check_repo_url bracket_ok url =
     (let candidate = strip url in
      if candidate = [] then Inl Url_required
      else if starts_with candidate ''-'' then Inl Url_option
      else case url_hostname bracket_ok candidate of
        None \<Rightarrow> Inl Url_malformed
      | Some host \<Rightarrow>
          if lower (url_scheme candidate) = [] then Inl Url_no_scheme
          else if lower (url_scheme candidate) \<notin> set ALLOWED_SCHEMES
            then Inl (Url_bad_scheme (lower (url_scheme candidate)))
          else if \<not> truthy host then Inl Url_no_host
          else Inr candidate)"

section \<open>The clone\<close>

type_synonym environ = "pystr \<Rightarrow> pystr option"

definition git_env :: "environ \<Rightarrow> environ" where
  "git_env environ =
     (\<lambda>k. if starts_with k ''GIT_'' \<and> k \<notin> set GIT_TRUST_ANCHOR_VARS then None else environ k)
       (''GIT_TERMINAL_PROMPT'' := Some ''0'', ''GIT_ASKPASS'' := Some [],
        ''GIT_CONFIG_NOSYSTEM'' := Some ''1'', ''GIT_CONFIG_GLOBAL'' := Some ''/dev/null'')"

definition clone_argv :: "pystr \<Rightarrow> pystr \<Rightarrow> pystr list" where
  "clone_argv url dest =
     [''git'', ''-c'', ''credential.helper='', ''-c'', ''protocol.allow=never'',
      ''-c'', ''protocol.https.allow=always'', ''clone'', ''--depth'', ''1'', ''--single-branch'',
      ''--no-tags'', ''--quiet'', ''--'', url, dest]"

text \<open>One entry of the cloned tree, as the calls of \<open>_read_contained\<close> see it.\<close>

record root_file =
  rf_symlink :: bool
  rf_is_file :: bool
  rf_resolved :: "pystr list"
  rf_size :: int
  rf_text :: "pystr + pystr"

datatype clone_answer = Clone_exit int pystr | Clone_timeout | Clone_not_started

datatype intake_event =
    Tmp_made
  | Ran_git "pystr list" environ
  | Git_killed
  | Read_file pystr
  | Tmp_removed

text \<open>
  What a fetch meets: the environment, the temporary directory, what a command answers, the
  sizes \<open>os.walk\<close> and \<open>lstat\<close> report (\<open>None\<close>: an \<open>OSError\<close>), where the clone's root resolves
  and what each name in it is.
\<close>

record fetch_world =
  fw_environ :: environ
  fw_tmp :: pystr
  fw_clone :: "pystr list \<Rightarrow> clone_answer"
  fw_sizes :: "int option list"
  fw_root :: "pystr list"
  fw_file :: "pystr \<Rightarrow> root_file option"

definition run_clone ::
  "fetch_world \<Rightarrow> pystr \<Rightarrow> pystr \<Rightarrow> intake_event list \<Rightarrow> intake_event list \<times> intake_error option" where
  "run_clone w url dest tr =
     (let argv = clone_argv url dest; tr1 = tr @ [Ran_git argv (git_env (fw_environ w))] in
      case fw_clone w argv of
        Clone_not_started \<Rightarrow> (tr1, Some Git_missing)
      | Clone_timeout \<Rightarrow> (tr1 @ [Git_killed], Some (Clone_timed_out url))
      | Clone_exit code stderr \<Rightarrow>
          (tr1, if code \<noteq> 0 then Some (Clone_failed url (strip stderr)) else None))"

definition dir_size_bytes :: "int option list \<Rightarrow> int" where
  "dir_size_bytes sizes = sum_list (map (\<lambda>s. case s of None \<Rightarrow> 0 | Some n \<Rightarrow> n) sizes)"

section \<open>Reading the clone\<close>

datatype skip_reason =
    Skip_symlink pystr
  | Skip_outside pystr
  | Skip_oversized pystr int
  | Skip_os_error pystr pystr

definition read_contained ::
  "fetch_world \<Rightarrow> pystr \<Rightarrow> intake_event list \<Rightarrow> intake_event list \<times> pystr option \<times> skip_reason option" where
  "read_contained w name tr =
     (case fw_file w name of
        None \<Rightarrow> (tr, None, None)
      | Some f \<Rightarrow>
          if rf_symlink f then (tr, None, Some (Skip_symlink name))
          else if \<not> rf_is_file f then (tr, None, None)
          else if take (length (fw_root w)) (rf_resolved f) \<noteq> fw_root w
            then (tr, None, Some (Skip_outside name))
          else if MAX_FILE_BYTES < rf_size f then (tr, None, Some (Skip_oversized name (rf_size f)))
          else (tr @ [Read_file name],
                case rf_text f of
                  Inl err \<Rightarrow> (None, Some (Skip_os_error name err))
                | Inr text \<Rightarrow> (Some text, None)))"

fun first_present ::
  "fetch_world \<Rightarrow> pystr list \<Rightarrow> skip_reason list \<Rightarrow> intake_event list
     \<Rightarrow> intake_event list \<times> skip_reason list \<times> (pystr \<times> pystr) option" where
  "first_present w [] skipped tr = (tr, skipped, None)"
| "first_present w (name # names) skipped tr =
     (case read_contained w name tr of
        (tr1, content, Some reason) \<Rightarrow> first_present w names (skipped @ [reason]) tr1
      | (tr1, Some content, None) \<Rightarrow> (tr1, skipped, Some (content, name))
      | (tr1, None, None) \<Rightarrow> first_present w names skipped tr1)"

record repo_snapshot =
  sn_repo_url :: pystr
  sn_dockerfile :: "pystr option"
  sn_compose :: "pystr option"
  sn_compose_path :: "pystr option"
  sn_readme :: "pystr option"
  sn_skipped :: "skip_reason list"

definition snapshot_empty :: "repo_snapshot \<Rightarrow> bool" where
  "snapshot_empty s \<longleftrightarrow> \<not> (truthy (sn_dockerfile s) \<or> truthy (sn_compose s) \<or> truthy (sn_readme s))"

definition collect_from_dir ::
  "fetch_world \<Rightarrow> pystr \<Rightarrow> intake_event list \<Rightarrow> intake_event list \<times> repo_snapshot" where
  "collect_from_dir w repo_url tr =
     (let (tr1, k1, d) = first_present w DOCKERFILE_NAMES [] tr;
          (tr2, k2, c) = first_present w COMPOSE_NAMES k1 tr1;
          (tr3, k3, r) = first_present w README_NAMES k2 tr2
      in (tr3, \<lparr>sn_repo_url = repo_url, sn_dockerfile = map_option fst d, sn_compose = map_option fst c,
                sn_compose_path = map_option snd c, sn_readme = map_option fst r, sn_skipped = k3\<rparr>))"

definition fetch_repo ::
  "(pystr \<Rightarrow> bool) \<Rightarrow> fetch_world \<Rightarrow> pystr \<Rightarrow> int \<Rightarrow> intake_event list \<times> (intake_error + repo_snapshot)" where
  "fetch_repo bracket_ok w url max_repo_mb =
     (case check_repo_url bracket_ok url of
        Inl e \<Rightarrow> ([], Inl e)
      | Inr safe_url \<Rightarrow>
          (case run_clone w safe_url (fw_tmp w @ ''/repo'') [Tmp_made] of
             (tr, Some e) \<Rightarrow> (tr @ [Tmp_removed], Inl e)
           | (tr, None) \<Rightarrow>
               (let size_mb = of_int (dir_size_bytes (fw_sizes w)) / (1024 * 1024) in
                if of_int max_repo_mb < size_mb
                then (tr @ [Tmp_removed], Inl (Repo_too_large size_mb max_repo_mb))
                else (let (tr1, snap) = collect_from_dir w safe_url tr
                      in (tr1 @ [Tmp_removed], Inr snap)))))"

section \<open>Lemmas\<close>

text \<open>The \<open>GIT_\<close> variables a clone gets: the two trust anchors as inherited, four fixed ones.\<close>

definition git_vars_fixed :: "environ \<Rightarrow> environ \<Rightarrow> bool" where
  "git_vars_fixed base env \<longleftrightarrow>
     (\<forall>k v. env k = Some v \<and> starts_with k ''GIT_'' \<longrightarrow>
        k \<in> {''GIT_SSL_CAINFO'', ''GIT_SSL_CAPATH''} \<and> base k = Some v \<or>
        (k, v) \<in> {(''GIT_TERMINAL_PROMPT'', ''0''), (''GIT_ASKPASS'', []), (''GIT_CONFIG_NOSYSTEM'', ''1''),
          (''GIT_CONFIG_GLOBAL'', ''/dev/null'')})"

lemma git_env_fixed: "git_vars_fixed e (git_env e)"
  unfolding git_vars_fixed_def
  by (simp add: git_env_def GIT_TRUST_ANCHOR_VARS_def split: if_split)

text \<open>What may be returned: the text of a plain file of the clone within the size cap.\<close>

definition contained_text :: "fetch_world \<Rightarrow> pystr \<Rightarrow> pystr \<Rightarrow> bool" where
  "contained_text w name text \<longleftrightarrow>
     (\<exists>f. fw_file w name = Some f \<and> \<not> rf_symlink f \<and> rf_is_file f \<and>
        take (length (fw_root w)) (rf_resolved f) = fw_root w \<and> rf_size f \<le> MAX_FILE_BYTES \<and>
        rf_text f = Inr text)"

lemma read_contained_text:
  "read_contained w name tr = (tr1, Some text, k) \<Longrightarrow> k = None \<and> contained_text w name text"
  by (auto simp: read_contained_def contained_text_def split: option.splits if_splits sum.splits)

lemma first_present_text:
  "first_present w names k tr = (tr1, k1, Some (text, name)) \<Longrightarrow>
     name \<in> set names \<and> contained_text w name text"
proof (induction w names k tr rule: first_present.induct)
  case (2 w n names k tr)
  obtain tr2 c r where rc: "read_contained w n tr = (tr2, c, r)" by (metis prod_cases3)
  show ?case
  proof (cases r)
    case (Some reason)
    then show ?thesis using 2 rc by (cases c) simp_all
  next
    case None
    show ?thesis
    proof (cases c)
      case None
      then show ?thesis using 2 rc \<open>r = None\<close> by simp
    next
      case (Some t)
      then show ?thesis using 2 rc \<open>r = None\<close> read_contained_text [of w n tr tr2 t r] by simp
    qed
  qed
qed simp

text \<open>Reading only adds reads of the clone to the trace.\<close>

definition only_reads :: "pystr list \<Rightarrow> intake_event list \<Rightarrow> intake_event list \<Rightarrow> bool" where
  "only_reads names tr tr' \<longleftrightarrow> (\<exists>ns. set ns \<subseteq> set names \<and> tr' = tr @ map Read_file ns)"

lemma only_reads_refl: "only_reads names tr tr"
  by (auto simp: only_reads_def intro: exI [of _ "[]"])

lemma only_reads_trans:
  "only_reads ns tr tr1 \<Longrightarrow> only_reads ms tr1 tr2 \<Longrightarrow> only_reads (ns @ ms) tr tr2"
  unfolding only_reads_def by (metis append.assoc map_append set_append sup.mono)

lemma only_reads_mono: "only_reads ns tr tr1 \<Longrightarrow> set ns \<subseteq> set ms \<Longrightarrow> only_reads ms tr tr1"
  unfolding only_reads_def by blast

lemma read_contained_reads: "only_reads [name] tr (fst (read_contained w name tr))"
proof -
  have "only_reads [name] tr (tr @ [Read_file name])"
    by (auto simp: only_reads_def intro: exI [of _ "[name]"])
  then show ?thesis
    by (simp add: read_contained_def only_reads_refl split: option.split sum.split)
qed

lemma first_present_reads: "only_reads names tr (fst (first_present w names k tr))"
proof (induction w names k tr rule: first_present.induct)
  case (2 w n names k tr)
  obtain tr2 c r where rc: "read_contained w n tr = (tr2, c, r)" by (metis prod_cases3)
  have s: "only_reads [n] tr tr2" using read_contained_reads [of n tr w] rc by simp
  have *: "only_reads (n # names) tr t" if "only_reads names tr2 t" for t
    using only_reads_trans [OF s that] by simp
  have **: "only_reads (n # names) tr tr2" by (rule only_reads_mono [OF s]) simp
  show ?case
  proof (cases r)
    case (Some reason)
    then show ?thesis using 2 rc * by (cases c) simp_all
  next
    case None
    then show ?thesis using 2 rc * ** by (cases c) simp_all
  qed
qed (simp add: only_reads_refl)

lemma collect_reads:
  "only_reads (DOCKERFILE_NAMES @ COMPOSE_NAMES @ README_NAMES) tr (fst (collect_from_dir w url tr))"
proof -
  obtain tr1 k1 d where 1: "first_present w DOCKERFILE_NAMES [] tr = (tr1, k1, d)" by (metis prod_cases3)
  obtain tr2 k2 c where 2: "first_present w COMPOSE_NAMES k1 tr1 = (tr2, k2, c)" by (metis prod_cases3)
  obtain tr3 k3 r where 3: "first_present w README_NAMES k2 tr2 = (tr3, k3, r)" by (metis prod_cases3)
  show ?thesis
    using first_present_reads [of DOCKERFILE_NAMES tr w "[]"] first_present_reads [of COMPOSE_NAMES tr1 w k1]
      first_present_reads [of README_NAMES tr2 w k2] 1 2 3
    by (auto simp: collect_from_dir_def intro: only_reads_trans)
qed

lemma collect_contained:
  assumes "collect_from_dir w url tr = (tr1, s)"
  shows "sn_dockerfile s = Some t \<Longrightarrow> \<exists>n \<in> set DOCKERFILE_NAMES. contained_text w n t"
    and "sn_compose s = Some t \<Longrightarrow> \<exists>n \<in> set COMPOSE_NAMES. sn_compose_path s = Some n \<and> contained_text w n t"
    and "sn_readme s = Some t \<Longrightarrow> \<exists>n \<in> set README_NAMES. contained_text w n t"
  using assms
  by (auto simp: collect_from_dir_def split: prod.splits dest!: first_present_text)

lemma check_repo_url_ok:
  assumes "check_repo_url bok url = Inr u"
  shows "u = strip url \<and> u \<noteq> [] \<and> \<not> starts_with u ''-'' \<and> lower (url_scheme u) = ''https'' \<and>
    (\<exists>h. url_hostname bok u = Some (Some h) \<and> h \<noteq> [])"
  using assms
  by (auto simp: check_repo_url_def Let_def ALLOWED_SCHEMES_def truthy_iff split: if_splits option.splits)

text \<open>The trace of a fetch: nothing, or the directory made, one clone, reads, the directory removed.\<close>

lemma fetch_trace:
  "fst (fetch_repo bok w url mb) = [] \<or>
   (\<exists>u mid. check_repo_url bok url = Inr u \<and>
      fst (fetch_repo bok w url mb) =
        Tmp_made # Ran_git (clone_argv u (fw_tmp w @ ''/repo'')) (git_env (fw_environ w)) # mid @ [Tmp_removed] \<and>
      set mid \<subseteq> insert Git_killed (Read_file ` set (DOCKERFILE_NAMES @ COMPOSE_NAMES @ README_NAMES)))"
proof (cases "check_repo_url bok url")
  case (Inl e)
  then show ?thesis by (simp add: fetch_repo_def)
next
  case (Inr u)
  let ?go = "Ran_git (clone_argv u (fw_tmp w @ ''/repo'')) (git_env (fw_environ w))"
  obtain ns where ns: "set ns \<subseteq> set (DOCKERFILE_NAMES @ COMPOSE_NAMES @ README_NAMES)"
    "fst (collect_from_dir w u [Tmp_made, ?go]) = [Tmp_made, ?go] @ map Read_file ns"
    using collect_reads [of "[Tmp_made, ?go]" w u] by (auto simp: only_reads_def)
  have "\<exists>mid. fst (fetch_repo bok w url mb) = Tmp_made # ?go # mid @ [Tmp_removed] \<and>
      mid \<in> {[], [Git_killed], map Read_file ns}"
    using Inr ns(2) by (auto simp: fetch_repo_def run_clone_def Let_def split: prod.splits clone_answer.splits)
  then obtain mid where mid: "fst (fetch_repo bok w url mb) = Tmp_made # ?go # mid @ [Tmp_removed]"
    "mid \<in> {[], [Git_killed], map Read_file ns}" by blast
  then have "set mid \<subseteq> insert Git_killed (Read_file ` set (DOCKERFILE_NAMES @ COMPOSE_NAMES @ README_NAMES))"
    using image_mono [OF ns(1), of Read_file]
    by (elim insertE emptyE) (simp, simp, metis set_map subset_insertI2)
  then show ?thesis using mid(1) Inr by blast
qed

lemma fetch_clones:
  assumes "Ran_git argv env \<in> set (fst (fetch_repo bok w url mb))"
  obtains u where "check_repo_url bok url = Inr u" "argv = clone_argv u (fw_tmp w @ ''/repo'')"
    "env = git_env (fw_environ w)"
  using fetch_trace [of bok w url mb] assms by auto

lemma fetch_one_clone: "length (filter (\<lambda>e. \<exists>a v. e = Ran_git a v) (fst (fetch_repo bok w url mb))) \<le> 1"
proof -
  have "filter (\<lambda>e. \<exists>a v. e = Ran_git a v) mid = []"
    if "set mid \<subseteq> insert Git_killed (Read_file ` set (DOCKERFILE_NAMES @ COMPOSE_NAMES @ README_NAMES))" for mid
    using that by (auto simp: filter_empty_conv)
  then show ?thesis using fetch_trace [of bok w url mb] by auto
qed

lemma fetch_returns:
  assumes "snd (fetch_repo bok w url mb) = Inr s" "Some t \<in> {sn_dockerfile s, sn_compose s, sn_readme s}"
  shows "\<exists>name \<in> set (DOCKERFILE_NAMES @ COMPOSE_NAMES @ README_NAMES). contained_text w name t"
proof -
  obtain u tr0 tr1 where c: "collect_from_dir w u tr0 = (tr1, s)"
    using assms(1) by (auto simp: fetch_repo_def Let_def split: sum.splits prod.splits option.splits if_splits)
  show ?thesis using assms(2) collect_contained [OF c, of t] by auto
qed

text \<open>
  C28: Fetching a stranger's repository is safe: the only process ever started is one
  \<open>git clone\<close> of an \<open>https\<close> URL with a host, the URL stands after \<open>--\<close>, every other
  transport is forbidden to git and no inherited \<open>GIT_\<close> variable but the two trust anchors
  reaches it; the temporary directory is removed last, whatever happened; and every text
  returned is that of a plain file of the clone, no symbolic link, not outside it, within the
  size cap.
\<close>
theorem fetch_repo_contained:
  assumes "fetch_repo bok w url mb = (tr, result)"
  shows "(Tmp_made \<in> set tr \<longrightarrow> last tr = Tmp_removed) \<and>
    length (filter (\<lambda>e. \<exists>a v. e = Ran_git a v) tr) \<le> 1 \<and>
    (Ran_git argv env \<in> set tr \<longrightarrow> git_vars_fixed (fw_environ w) env \<and>
      (\<exists>u h. check_repo_url bok url = Inr u \<and> lower (url_scheme u) = ''https'' \<and>
        url_hostname bok u = Some (Some h) \<and> h \<noteq> [] \<and>
        argv = [''git'', ''-c'', ''credential.helper='', ''-c'', ''protocol.allow=never'',
          ''-c'', ''protocol.https.allow=always'', ''clone'', ''--depth'', ''1'', ''--single-branch'',
          ''--no-tags'', ''--quiet'', ''--'', u, fw_tmp w @ ''/repo''])) \<and>
    (result = Inr s \<and> Some t \<in> {sn_dockerfile s, sn_compose s, sn_readme s} \<longrightarrow>
      (\<exists>name \<in> set (DOCKERFILE_NAMES @ COMPOSE_NAMES @ README_NAMES). contained_text w name t))"
proof (intro conjI)
  have tr: "tr = fst (fetch_repo bok w url mb)" and r: "result = snd (fetch_repo bok w url mb)"
    using assms by simp_all
  show "Tmp_made \<in> set tr \<longrightarrow> last tr = Tmp_removed"
    using fetch_trace [of bok w url mb] tr by auto
  show "length (filter (\<lambda>e. \<exists>a v. e = Ran_git a v) tr) \<le> 1" unfolding tr by (rule fetch_one_clone)
  show "Ran_git argv env \<in> set tr \<longrightarrow> git_vars_fixed (fw_environ w) env \<and>
      (\<exists>u h. check_repo_url bok url = Inr u \<and> lower (url_scheme u) = ''https'' \<and>
        url_hostname bok u = Some (Some h) \<and> h \<noteq> [] \<and>
        argv = [''git'', ''-c'', ''credential.helper='', ''-c'', ''protocol.allow=never'',
          ''-c'', ''protocol.https.allow=always'', ''clone'', ''--depth'', ''1'', ''--single-branch'',
          ''--no-tags'', ''--quiet'', ''--'', u, fw_tmp w @ ''/repo''])"
    unfolding tr clone_argv_def [symmetric]
    using git_env_fixed check_repo_url_ok by (metis fetch_clones)
  show "result = Inr s \<and> Some t \<in> {sn_dockerfile s, sn_compose s, sn_readme s} \<longrightarrow>
      (\<exists>name \<in> set (DOCKERFILE_NAMES @ COMPOSE_NAMES @ README_NAMES). contained_text w name t)"
    unfolding r using fetch_returns by blast
qed

definition example_fetch :: fetch_world where
  "example_fetch =
     \<lparr>fw_environ = (\<lambda>k. None), fw_tmp = ''/tmp/i'', fw_clone = (\<lambda>argv. Clone_exit 0 []), fw_sizes = [Some 9],
      fw_root = [''tmp''], fw_file = (\<lambda>n. if n = ''Dockerfile'' then
        Some \<lparr>rf_symlink = False, rf_is_file = True, rf_resolved = [''tmp'', n], rf_size = 9,
          rf_text = Inr ''FROM a''\<rparr> else None)\<rparr>"

theorem fetch_repo_contained_witness:
  "\<exists>tr s. fetch_repo (\<lambda>u. True) example_fetch ''https://g.io/r'' 10 = (tr, Inr s) \<and> sn_dockerfile s = Some ''FROM a'' \<and>
     last tr = Tmp_removed \<and>
     (\<exists>name \<in> set (DOCKERFILE_NAMES @ COMPOSE_NAMES @ README_NAMES). contained_text example_fetch name ''FROM a'')"
proof -
  have url: "check_repo_url (\<lambda>u. True) ''https://g.io/r'' = Inr ''https://g.io/r''" by code_simp
  obtain tr s where r: "fetch_repo (\<lambda>u. True) example_fetch ''https://g.io/r'' 10 = (tr, Inr s)"
    and s: "sn_dockerfile s = Some ''FROM a''" and m: "Tmp_made \<in> set tr"
    by (simp add: fetch_repo_def url run_clone_def example_fetch_def dir_size_bytes_def collect_from_dir_def
        read_contained_def DOCKERFILE_NAMES_def COMPOSE_NAMES_def README_NAMES_def MAX_FILE_BYTES_def)
  show ?thesis
    using fetch_repo_contained [OF r, of "[]" "\<lambda>k. None" s "''FROM a''"] r s m by auto
qed

end
