(* ===== verification/Shlex.thy ===== *)
theory Shlex
  imports Prelude
begin

text \<open>
  \<open>shlex.split\<close> (POSIX rules, no comments) and \<open>shlex.quote\<close>, \<open>shlex.join\<close>. The scanner
  returns \<open>None\<close> for the \<open>ValueError\<close> of an unclosed quote or a trailing backslash.
\<close>

definition is_shell_space :: "char \<Rightarrow> bool" where
  "is_shell_space c \<longleftrightarrow> c \<in> {CHR '' '', CHR 0x09, CHR 0x0D, CHR 0x0A}"

definition is_quote :: "char \<Rightarrow> bool" where
  "is_quote c \<longleftrightarrow> c = CHR 0x27 \<or> c = CHR 0x22"

text \<open>
  The states of the scanner: between words, in a word, in a quoted part, after a backslash
  (with the quote it stands in, if any).
\<close>

datatype sh_state = Sh_space | Sh_word | Sh_quoted char | Sh_escape "char option"

text \<open>\<open>q\<close>: whether the word had a quoted part, \<open>t\<close>: the word so far, reversed.\<close>

fun shlex_from :: "sh_state \<Rightarrow> bool \<Rightarrow> pystr \<Rightarrow> pystr \<Rightarrow> pystr list option" where
  "shlex_from Sh_space q t [] = Some []"
| "shlex_from Sh_word q t [] = Some (if t \<noteq> [] \<or> q then [rev t] else [])"
| "shlex_from (Sh_quoted d) q t [] = None"
| "shlex_from (Sh_escape e) q t [] = None"
| "shlex_from Sh_space q t (c # s) =
     (if is_shell_space c then shlex_from Sh_space False [] s
      else if c = CHR 0x5C then shlex_from (Sh_escape None) False [] s
      else if is_quote c then shlex_from (Sh_quoted c) False [] s
      else shlex_from Sh_word False [c] s)"
| "shlex_from Sh_word q t (c # s) =
     (if is_shell_space c then
        (if t \<noteq> [] \<or> q then map_option (\<lambda>ws. rev t # ws) (shlex_from Sh_space False [] s)
         else shlex_from Sh_space False [] s)
      else if is_quote c then shlex_from (Sh_quoted c) q t s
      else if c = CHR 0x5C then shlex_from (Sh_escape None) q t s
      else shlex_from Sh_word q (c # t) s)"
| "shlex_from (Sh_quoted d) q t (c # s) =
     (if c = d then shlex_from Sh_word True t s
      else if c = CHR 0x5C \<and> d = CHR 0x22 then shlex_from (Sh_escape (Some d)) True t s
      else shlex_from (Sh_quoted d) True (c # t) s)"
| "shlex_from (Sh_escape None) q t (c # s) = shlex_from Sh_word q (c # t) s"
| "shlex_from (Sh_escape (Some d)) q t (c # s) =
     shlex_from (Sh_quoted d) q (if c \<noteq> CHR 0x5C \<and> c \<noteq> d then c # CHR 0x5C # t else c # t) s"

definition shlex_split :: "pystr \<Rightarrow> pystr list option" where
  "shlex_split s = shlex_from Sh_space False [] s"

text \<open>\<open>[a-zA-Z0-9_@%+=:,./-]\<close>, the characters \<open>shlex.quote\<close> calls safe.\<close>

definition is_shell_safe :: "char \<Rightarrow> bool" where
  "is_shell_safe c \<longleftrightarrow> is_ascii_alpha c \<or> is_ascii_digit c \<or> c \<in> set ''_@%+=:,./-''"

definition escape_quote :: "char \<Rightarrow> pystr" where
  "escape_quote c =
     (if c = CHR 0x27 then [CHR 0x27, CHR 0x22, CHR 0x27, CHR 0x22, CHR 0x27] else [c])"

definition shlex_quote :: "pystr \<Rightarrow> pystr" where
  "shlex_quote s =
     (if s = [] then [CHR 0x27, CHR 0x27]
      else if list_all is_shell_safe s then s
      else CHR 0x27 # concat (map escape_quote s) @ [CHR 0x27])"

definition shlex_join :: "pystr list \<Rightarrow> pystr" where
  "shlex_join ws = join '' '' (map shlex_quote ws)"

section \<open>Splitting what was joined\<close>

lemma shell_safe_plain:
  assumes "is_shell_safe c"
  shows "\<not> is_shell_space c \<and> \<not> is_quote c \<and> c \<noteq> CHR 0x5C"
proof -
  have "\<forall>d \<in> {CHR '' '', CHR 0x09, CHR 0x0D, CHR 0x0A, CHR 0x27, CHR 0x22, CHR 0x5C}. \<not> is_shell_safe d"
    by code_simp
  then show ?thesis using assms by (auto simp: is_shell_space_def is_quote_def)
qed

text \<open>After a word: its end, or the separator and the rest.\<close>

definition after_word :: "pystr \<Rightarrow> bool \<Rightarrow> pystr \<Rightarrow> pystr list option" where
  "after_word t q s = shlex_from Sh_word q t s"

lemma shlex_safe_run:
  "list_all is_shell_safe s \<Longrightarrow> shlex_from Sh_word q t (s @ r) = shlex_from Sh_word q (rev s @ t) r"
proof (induction s arbitrary: t)
  case (Cons c s)
  then have "\<not> is_shell_space c" "\<not> is_quote c" "c \<noteq> CHR 0x5C" using shell_safe_plain [of c] by simp_all
  then show ?case using Cons by simp
qed simp

lemma quote_not_space: "\<not> is_shell_space (CHR 0x27)" "\<not> is_shell_space (CHR 0x22)"
  "is_quote (CHR 0x27)" "is_quote (CHR 0x22)"
  by (simp_all add: is_shell_space_def is_quote_def)

lemma escape_quote_simps:
  "escape_quote (CHR 0x27) = [CHR 0x27, CHR 0x22, CHR 0x27, CHR 0x22, CHR 0x27]"
  "c \<noteq> CHR 0x27 \<Longrightarrow> escape_quote c = [c]"
  by (simp_all add: escape_quote_def)

lemma shlex_quoted_run:
  "shlex_from (Sh_quoted (CHR 0x27)) True t (concat (map escape_quote s) @ CHR 0x27 # r) =
     shlex_from Sh_word True (rev s @ t) r"
proof (induction s arbitrary: t)
  case (Cons c s)
  show ?case
  proof (cases "c = CHR 0x27")
    case True
    then show ?thesis using Cons.IH [of "c # t"] by (simp add: escape_quote_simps quote_not_space)
  next
    case False
    then show ?thesis using Cons.IH [of "c # t"] by (simp add: escape_quote_simps)
  qed
qed simp

text \<open>The first character after an opening quote sets the flag, so the run starts there.\<close>

lemma shlex_quoted_start:
  "s \<noteq> [] \<Longrightarrow>
   shlex_from (Sh_quoted (CHR 0x27)) q t (concat (map escape_quote s) @ CHR 0x27 # r) =
     shlex_from Sh_word True (rev s @ t) r"
proof (induction s)
  case (Cons c s)
  then show ?case
    using shlex_quoted_run [of "c # t" s r]
    by (cases "c = CHR 0x27") (simp_all add: escape_quote_simps quote_not_space)
qed simp

lemma shlex_word:
  "\<exists>q. (q \<or> w \<noteq> []) \<and> shlex_from Sh_space False [] (shlex_quote w @ r) = shlex_from Sh_word q (rev w) r"
proof -
  consider (empty) "w = []" | (safe) "w \<noteq> []" "list_all is_shell_safe w"
    | (quoted) "w \<noteq> []" "\<not> list_all is_shell_safe w" by blast
  then show ?thesis
  proof cases
    case empty
    then show ?thesis by (intro exI [of _ True]) (simp add: shlex_quote_def quote_not_space)
  next
    case safe
    then obtain c s where w: "w = c # s" by (cases w) auto
    then have c: "\<not> is_shell_space c" "\<not> is_quote c" "c \<noteq> CHR 0x5C" "list_all is_shell_safe s"
      using safe shell_safe_plain [of c] by simp_all
    then show ?thesis using safe w
      by (intro exI [of _ False]) (simp add: shlex_quote_def shlex_safe_run)
  next
    case quoted
    then show ?thesis
      using shlex_quoted_start [of w False "[]" r]
      by (intro exI [of _ True]) (simp add: shlex_quote_def quote_not_space)
  qed
qed

theorem shlex_split_join: "shlex_split (shlex_join ws) = Some ws"
proof -
  have "shlex_from Sh_space False [] (join '' '' (map shlex_quote ws)) = Some ws"
  proof (induction ws rule: induct_list012)
    case (2 w)
    then show ?case using shlex_word [of w "[]"] by auto
  next
    case (3 w v ws)
    obtain q where "q \<or> w \<noteq> []" and q: "shlex_from Sh_space False []
        (shlex_quote w @ CHR '' '' # join '' '' (map shlex_quote (v # ws))) =
      shlex_from Sh_word q (rev w) (CHR '' '' # join '' '' (map shlex_quote (v # ws)))"
      using shlex_word [of w "CHR '' '' # join '' '' (map shlex_quote (v # ws))"] by blast
    moreover have "is_shell_space (CHR '' '')" by (simp add: is_shell_space_def)
    ultimately show ?case using 3 by auto
  qed simp
  then show ?thesis by (simp add: shlex_split_def shlex_join_def)
qed

end
