(* ===== verification/Yaml.thy ===== *)
theory Yaml
  imports Models
begin

text \<open>
  YAML documents as the readers of PyYAML and ruamel build them, Python's view of their
  values, and paths into them. Comments and quoting are not represented.
\<close>

text \<open>
  A YAML document as \<open>safe_load\<close> builds it; \<open>Y_other\<close> stands for the scalars (floats, dates,
  bytes) whose truth and text are given with it.
\<close>

datatype yaml =
    Y_null
  | Y_bool bool
  | Y_int int
  | Y_str pystr
  | Y_list "yaml list"
  | Y_map "(yaml \<times> yaml) list"
  | Y_other bool pystr

definition yaml_true :: "yaml option \<Rightarrow> bool" where
  "yaml_true v =
     (case v of
        None \<Rightarrow> False
      | Some Y_null \<Rightarrow> False
      | Some (Y_bool b) \<Rightarrow> b
      | Some (Y_int n) \<Rightarrow> n \<noteq> 0
      | Some (Y_str s) \<Rightarrow> s \<noteq> []
      | Some (Y_list xs) \<Rightarrow> xs \<noteq> []
      | Some (Y_map kvs) \<Rightarrow> kvs \<noteq> []
      | Some (Y_other b s) \<Rightarrow> b)"

text \<open>\<open>str(v)\<close>; the text of a list or a mapping is a parameter.\<close>

definition yaml_text :: "(yaml \<Rightarrow> pystr) \<Rightarrow> yaml \<Rightarrow> pystr" where
  "yaml_text show v =
     (case v of
        Y_null \<Rightarrow> ''None''
      | Y_bool b \<Rightarrow> (if b then ''True'' else ''False'')
      | Y_int n \<Rightarrow> show_int n
      | Y_str s \<Rightarrow> s
      | Y_other b s \<Rightarrow> s
      | _ \<Rightarrow> show v)"

definition yaml_get :: "(yaml \<times> yaml) list \<Rightarrow> pystr \<Rightarrow> yaml option" where
  "yaml_get kvs k = map_of kvs (Y_str k)"

text \<open>\<open>for entry in v or []\<close>.\<close>

definition yaml_items :: "yaml option \<Rightarrow> yaml list option" where
  "yaml_items v =
     (if \<not> yaml_true v then Some []
      else case v of
        Some (Y_list xs) \<Rightarrow> Some xs
      | Some (Y_map kvs) \<Rightarrow> Some (map fst kvs)
      | Some (Y_str s) \<Rightarrow> Some (map (\<lambda>c. Y_str [c]) s)
      | _ \<Rightarrow> None)"

text \<open>The value a path of keys leads to, through mappings.\<close>

fun yaml_at :: "yaml list \<Rightarrow> yaml \<Rightarrow> yaml option" where
  "yaml_at [] v = Some v"
| "yaml_at (k # ks) v =
     (case v of
        Y_map kvs \<Rightarrow> (case map_of kvs k of None \<Rightarrow> None | Some w \<Rightarrow> yaml_at ks w)
      | _ \<Rightarrow> None)"

text \<open>A value that is neither a mapping nor null: what an edit of mappings must leave alone.\<close>

definition yaml_leaf :: "yaml \<Rightarrow> bool" where
  "yaml_leaf v \<longleftrightarrow> v \<noteq> Y_null \<and> (\<forall>kvs. v \<noteq> Y_map kvs)"

text \<open>Every leaf, except those at the paths of \<open>X\<close>, is still where it was.\<close>

definition leaves_kept :: "yaml list set \<Rightarrow> yaml \<Rightarrow> yaml \<Rightarrow> bool" where
  "leaves_kept X d d' \<longleftrightarrow>
     (\<forall>p v. yaml_at p d = Some v \<longrightarrow> yaml_leaf v \<longrightarrow> p \<notin> X \<longrightarrow> yaml_at p d' = Some v)"

lemma leaves_kept_refl [simp]: "leaves_kept X d d"
  by (simp add: leaves_kept_def)

lemma leaves_kept_trans: "leaves_kept X a b \<Longrightarrow> leaves_kept X b c \<Longrightarrow> leaves_kept X a c"
  by (simp add: leaves_kept_def)

lemma leaves_kept_mono: "leaves_kept X a b \<Longrightarrow> X \<subseteq> Y \<Longrightarrow> leaves_kept Y a b"
  by (auto simp: leaves_kept_def)

lemma leaves_kept_nothing:
  "d = Y_null \<or> d = Y_map [] \<Longrightarrow> leaves_kept X d d'"
proof -
  assume d: "d = Y_null \<or> d = Y_map []"
  have "\<not> yaml_leaf v" if "yaml_at p d = Some v" for p v
    using that d by (cases p) (auto simp: yaml_leaf_def)
  then show ?thesis by (auto simp: leaves_kept_def)
qed

end
