(* ===== verification/IntakeParse.thy ===== *)
theory IntakeParse
  imports IntakeFetch Shlex GitCrypt Yaml
begin

text \<open>
  \<open>intake/parse.py\<close>: what a repository's own files say it needs. The YAML and JSON readers
  are parameters, as is \<open>str\<close> of a value that is not text. A loop over a value that cannot be
  iterated is a \<open>TypeError\<close>, here \<open>None\<close>.
\<close>

section \<open>Requirements\<close>

type_synonym env_vars = "(pystr \<times> pystr option) list"

record requirements =
  rq_base_image :: "pystr option"
  rq_ports :: "pystr list"
  rq_env_vars :: env_vars
  rq_volumes :: "pystr list"
  rq_depends_on :: "pystr list"
  rq_service_names :: "pystr list"
  rq_sources :: "pystr list"
  rq_warnings :: "pystr list"

definition no_requirements :: requirements where
  "no_requirements =
     \<lparr>rq_base_image = None, rq_ports = [], rq_env_vars = [], rq_volumes = [], rq_depends_on = [],
      rq_service_names = [], rq_sources = [], rq_warnings = []\<rparr>"

text \<open>\<open>if x not in xs: xs.append(x)\<close>, and \<open>d.setdefault(k, v)\<close>.\<close>

definition add_new :: "'a \<Rightarrow> 'a list \<Rightarrow> 'a list" where
  "add_new x xs = (if x \<in> set xs then xs else xs @ [x])"

definition add_all :: "'a list \<Rightarrow> 'a list \<Rightarrow> 'a list" where
  "add_all new xs = fold add_new new xs"

definition set_default :: "'k \<times> 'v \<Rightarrow> ('k \<times> 'v) list \<Rightarrow> ('k \<times> 'v) list" where
  "set_default kv d = (if fst kv \<in> fst ` set d then d else d @ [kv])"

definition defaults :: "('k \<times> 'v) list \<Rightarrow> ('k \<times> 'v) list \<Rightarrow> ('k \<times> 'v) list" where
  "defaults new d = fold set_default new d"

definition dict_update :: "('k \<times> 'v) list \<Rightarrow> ('k \<times> 'v) list \<Rightarrow> ('k \<times> 'v) list" where
  "dict_update new d = fold (\<lambda>(k, v). dict_set k v) new d"

definition non_empty :: "pystr \<Rightarrow> pystr option" where
  "non_empty s = (if s = [] then None else Some s)"

section \<open>Ports\<close>

definition DEFAULT_PROTOCOL :: pystr where
  "DEFAULT_PROTOCOL = ''tcp''"

definition normalize_port :: "pystr \<Rightarrow> pystr option" where
  "normalize_port value =
     (let text = strip value in
      if text = [] then None
      else (let (body, proto) =
                  (case rpartition_at (CHR ''/'') text of
                     (a, True, raw) \<Rightarrow> (a, if lower (strip raw) = [] then DEFAULT_PROTOCOL else lower (strip raw))
                   | (a, False, b) \<Rightarrow> (text, DEFAULT_PROTOCOL));
                container_port = strip (last (split_at_char (CHR '':'') body))
            in if container_port = [] then None else Some (container_port @ ''/'' @ proto)))"

section \<open>Dockerfiles\<close>

fun logical_lines :: "pystr \<Rightarrow> pystr list \<Rightarrow> pystr list" where
  "logical_lines buffer [] = (if buffer = [] then [] else [buffer])"
| "logical_lines buffer (raw # rest) =
     (let stripped = strip raw in
      if buffer = [] \<and> (stripped = [] \<or> starts_with stripped ''#'') then logical_lines buffer rest
      else if ends_with stripped [CHR 0x5C]
        then logical_lines (buffer @ rstrip_by is_space (butlast stripped) @ '' '') rest
      else (if buffer @ stripped = [] then [] else [buffer @ stripped]) @ logical_lines [] rest)"

definition dockerfile_lines :: "pystr \<Rightarrow> pystr list" where
  "dockerfile_lines content = logical_lines [] (splitlines content)"

definition env_token :: "pystr \<Rightarrow> env_vars \<Rightarrow> env_vars" where
  "env_token token d =
     (case partition_at (CHR ''='') token of (key, sep, value) \<Rightarrow>
        if sep \<and> key \<noteq> [] then dict_set key (Some value) d else d)"

definition parse_env_instruction :: "pystr \<Rightarrow> env_vars" where
  "parse_env_instruction argument =
     (case (case shlex_split argument of Some ts \<Rightarrow> ts | None \<Rightarrow> words argument) of
        [] \<Rightarrow> []
      | t # ts \<Rightarrow>
          if CHR ''='' \<notin> set t then [(t, non_empty (join '' '' ts))] else fold env_token (t # ts) [])"

definition parse_volume_instruction ::
  "(pystr \<Rightarrow> json list option) \<Rightarrow> (json \<Rightarrow> pystr) \<Rightarrow> pystr \<Rightarrow> pystr list" where
  "parse_volume_instruction loads str argument =
     (let text = strip argument in
      if starts_with text ''['' then
        (case loads text of
           None \<Rightarrow> []
         | Some items \<Rightarrow> filter (\<lambda>s. strip s \<noteq> []) (map str items))
      else words text)"

text \<open>The state of the scan: what was found, the image of each named stage, the last \<open>FROM\<close>.\<close>

record docker_scan =
  ds_req :: requirements
  ds_stages :: "(pystr \<times> pystr) list"
  ds_last_from :: "pystr option"

definition docker_line ::
  "(pystr \<Rightarrow> json list option) \<Rightarrow> (json \<Rightarrow> pystr) \<Rightarrow> pystr \<Rightarrow> docker_scan \<Rightarrow> docker_scan" where
  "docker_line loads str line sc =
     (case partition_at (CHR '' '') line of (instruction, _, rest) \<Rightarrow>
        let keyword = upper_ascii (strip instruction); argument = strip rest in
        if argument = [] then sc
        else if keyword = ''FROM'' then
          (let tokens = words argument; img = hd tokens in
           sc\<lparr>ds_stages :=
                (if 3 \<le> length tokens \<and> upper_ascii (tokens ! 1) = ''AS''
                 then dict_set (lower (tokens ! 2)) img (ds_stages sc) else ds_stages sc),
              ds_last_from := Some img\<rparr>)
        else if keyword = ''EXPOSE'' then
          sc\<lparr>ds_req := (ds_req sc)\<lparr>rq_ports :=
               add_all (List.map_filter normalize_port (words argument)) (rq_ports (ds_req sc))\<rparr>\<rparr>
        else if keyword = ''ENV'' then
          sc\<lparr>ds_req := (ds_req sc)\<lparr>rq_env_vars :=
               dict_update (parse_env_instruction argument) (rq_env_vars (ds_req sc))\<rparr>\<rparr>
        else if keyword = ''VOLUME'' then
          sc\<lparr>ds_req := (ds_req sc)\<lparr>rq_volumes :=
               add_all (parse_volume_instruction loads str argument) (rq_volumes (ds_req sc))\<rparr>\<rparr>
        else sc)"

definition parse_dockerfile ::
  "(pystr \<Rightarrow> json list option) \<Rightarrow> (json \<Rightarrow> pystr) \<Rightarrow> pystr \<Rightarrow> requirements" where
  "parse_dockerfile loads str content =
     (let sc = fold (docker_line loads str) (dockerfile_lines content)
                 \<lparr>ds_req = no_requirements\<lparr>rq_sources := [''Dockerfile'']\<rparr>, ds_stages = [], ds_last_from = None\<rparr>
      in case ds_last_from sc of
           None \<Rightarrow> ds_req sc
         | Some img \<Rightarrow>
             (ds_req sc)\<lparr>rq_base_image :=
                Some (case map_of (ds_stages sc) (lower img) of None \<Rightarrow> img | Some i \<Rightarrow> i)\<rparr>)"

section \<open>Compose files\<close>

definition compose_env :: "(yaml \<Rightarrow> pystr) \<Rightarrow> yaml option \<Rightarrow> env_vars" where
  "compose_env show raw =
     (case raw of
        Some (Y_map kvs) \<Rightarrow>
          fold (\<lambda>(k, v). dict_set (yaml_text show k) (if v = Y_null then None else Some (yaml_text show v))) kvs []
      | Some (Y_list xs) \<Rightarrow>
          fold (\<lambda>x d. case partition_at (CHR ''='') (yaml_text show x) of (key, sep, value) \<Rightarrow>
                  if key = [] then d else dict_set (strip key) (if sep then Some value else None) d) xs []
      | _ \<Rightarrow> [])"

definition compose_volume_target :: "(yaml \<Rightarrow> pystr) \<Rightarrow> yaml \<Rightarrow> pystr option" where
  "compose_volume_target show entry =
     (case entry of
        Y_map kvs \<Rightarrow>
          if yaml_true (yaml_get kvs ''target'') then Some (yaml_text show (the (yaml_get kvs ''target'')))
          else None
      | _ \<Rightarrow>
          (let text = strip (yaml_text show entry); parts = split_at_char (CHR '':'') text in
           if text = [] then None else if 2 \<le> length parts then Some (parts ! 1) else Some (hd parts)))"

definition compose_port :: "(yaml \<Rightarrow> pystr) \<Rightarrow> yaml \<Rightarrow> pystr option" where
  "compose_port show entry =
     (case entry of
        Y_map kvs \<Rightarrow>
          (if yaml_get kvs ''target'' \<in> {None, Some Y_null} then None
           else Some (yaml_text show (the (yaml_get kvs ''target'')) @ ''/'' @
             lower (if yaml_true (yaml_get kvs ''protocol'')
                    then yaml_text show (the (yaml_get kvs ''protocol'')) else DEFAULT_PROTOCOL)))
      | _ \<Rightarrow> normalize_port (yaml_text show entry))"

definition truthy_texts :: "pystr option list \<Rightarrow> pystr list" where
  "truthy_texts xs = filter (\<lambda>s. s \<noteq> []) (List.map_filter id xs)"

definition depends_items :: "yaml option \<Rightarrow> yaml list option" where
  "depends_items v = (case v of Some (Y_map kvs) \<Rightarrow> Some (map fst kvs) | _ \<Rightarrow> yaml_items v)"

definition compose_service ::
  "(yaml \<Rightarrow> pystr) \<Rightarrow> yaml \<times> yaml \<Rightarrow> requirements \<Rightarrow> requirements option" where
  "compose_service show nv r =
     (let r1 = r\<lparr>rq_service_names := rq_service_names r @ [yaml_text show (fst nv)]\<rparr> in
      case snd nv of
        Y_map kvs \<Rightarrow>
          (case (yaml_items (yaml_get kvs ''ports''), yaml_items (yaml_get kvs ''volumes''),
                 depends_items (yaml_get kvs ''depends_on'')) of
             (Some ports, Some volumes, Some depends) \<Rightarrow>
               Some (r1\<lparr>rq_base_image :=
                     (if yaml_true (yaml_get kvs ''image'') \<and> rq_base_image r = None
                      then Some (yaml_text show (the (yaml_get kvs ''image''))) else rq_base_image r),
                   rq_ports := add_all (truthy_texts (map (compose_port show) ports)) (rq_ports r),
                   rq_env_vars := defaults (compose_env show (yaml_get kvs ''environment'')) (rq_env_vars r),
                   rq_volumes := add_all (truthy_texts (map (compose_volume_target show) volumes)) (rq_volumes r),
                   rq_depends_on := add_all (map (yaml_text show) depends) (rq_depends_on r)\<rparr>)
           | _ \<Rightarrow> None)
      | _ \<Rightarrow> Some r1)"

fun compose_services ::
  "(yaml \<Rightarrow> pystr) \<Rightarrow> (yaml \<times> yaml) list \<Rightarrow> requirements \<Rightarrow> requirements option" where
  "compose_services show [] r = Some r"
| "compose_services show (nv # nvs) r =
     (case compose_service show nv r of None \<Rightarrow> None | Some r1 \<Rightarrow> compose_services show nvs r1)"

text \<open>\<open>loads\<close> is \<open>yaml.safe_load\<close>: a document or the text of the error.\<close>

definition parse_compose ::
  "(pystr \<Rightarrow> pystr + yaml) \<Rightarrow> (yaml \<Rightarrow> pystr) \<Rightarrow> pystr \<Rightarrow> requirements option" where
  "parse_compose loads show content =
     (let r = no_requirements\<lparr>rq_sources := [''compose'']\<rparr> in
      case loads content of
        Inl err \<Rightarrow> Some (r\<lparr>rq_warnings := [''compose file could not be parsed as YAML: '' @ err]\<rparr>)
      | Inr (Y_map doc) \<Rightarrow>
          (case yaml_get doc ''services'' of
             Some (Y_map services) \<Rightarrow> compose_services show services r
           | _ \<Rightarrow> Some (r\<lparr>rq_warnings := [''compose file declares no `services` mapping'']\<rparr>))
      | Inr _ \<Rightarrow> Some (r\<lparr>rq_warnings := [''compose file is not a YAML mapping'']\<rparr>))"

section \<open>Combining\<close>

definition merge_one :: "requirements \<Rightarrow> requirements \<Rightarrow> requirements" where
  "merge_one source m =
     \<lparr>rq_base_image = (case rq_base_image m of None \<Rightarrow> rq_base_image source | Some i \<Rightarrow> Some i),
      rq_ports = add_all (rq_ports source) (rq_ports m),
      rq_env_vars = defaults (rq_env_vars source) (rq_env_vars m),
      rq_volumes = add_all (rq_volumes source) (rq_volumes m),
      rq_depends_on = add_all (rq_depends_on source) (rq_depends_on m),
      rq_service_names = add_all (rq_service_names source) (rq_service_names m),
      rq_sources = rq_sources m @ rq_sources source,
      rq_warnings = rq_warnings m @ rq_warnings source\<rparr>"

definition merge_requirements :: "requirements option \<Rightarrow> requirements option \<Rightarrow> requirements" where
  "merge_requirements dockerfile compose =
     fold merge_one (List.map_filter id [compose, dockerfile]) no_requirements"

record parsers =
  ps_json :: "pystr \<Rightarrow> json list option"
  ps_json_text :: "json \<Rightarrow> pystr"
  ps_yaml :: "pystr \<Rightarrow> pystr + yaml"
  ps_yaml_text :: "yaml \<Rightarrow> pystr"

definition NO_FILES_WARNING :: pystr where
  "NO_FILES_WARNING =
     ''no Dockerfile or compose file found; requirements could not be determined '' @
     ''from the repository'' @ [CHR 0x27] @ ''s files''"

text \<open>The last steps, once both files were parsed: the compose file under its own name, the warning.\<close>

definition finish_snapshot ::
  "repo_snapshot \<Rightarrow> requirements option \<Rightarrow> requirements option \<Rightarrow> requirements" where
  "finish_snapshot sn dockerfile compose =
     (let m = merge_requirements dockerfile compose;
          sources = (if compose \<noteq> None \<and> truthy (sn_compose_path sn)
                     then map (\<lambda>s. if s = ''compose'' then the (sn_compose_path sn) else s) (rq_sources m)
                     else rq_sources m)
      in m\<lparr>rq_sources := sources,
           rq_warnings := rq_warnings m @ (if sources = [] then [NO_FILES_WARNING] else [])\<rparr>)"

definition parse_snapshot :: "parsers \<Rightarrow> repo_snapshot \<Rightarrow> requirements option" where
  "parse_snapshot ps sn =
     (let dockerfile = (if truthy (sn_dockerfile sn)
                        then Some (parse_dockerfile (ps_json ps) (ps_json_text ps) (the (sn_dockerfile sn)))
                        else None)
      in if truthy (sn_compose sn)
         then map_option (\<lambda>c. finish_snapshot sn dockerfile (Some c))
                (parse_compose (ps_yaml ps) (ps_yaml_text ps) (the (sn_compose sn)))
         else Some (finish_snapshot sn dockerfile None))"

section \<open>Collecting without repetition\<close>

lemma set_add_all [simp]: "set (add_all new xs) = set xs \<union> set new"
  unfolding add_all_def by (induction new arbitrary: xs) (auto simp: add_new_def)

lemma distinct_add_all [simp]: "distinct xs \<Longrightarrow> distinct (add_all new xs)"
  unfolding add_all_def by (induction new arbitrary: xs) (auto simp: add_new_def)

lemma keys_defaults [simp]: "fst ` set (defaults new d) = fst ` set d \<union> fst ` set new"
  unfolding defaults_def by (induction new arbitrary: d) (auto simp: set_default_def)

lemma distinct_defaults [simp]: "distinct (map fst d) \<Longrightarrow> distinct (map fst (defaults new d))"
  unfolding defaults_def by (induction new arbitrary: d) (auto simp: set_default_def)

lemma lookup_defaults:
  "map_of (defaults new d) k = (case map_of d k of Some v \<Rightarrow> Some v | None \<Rightarrow> map_of new k)"
  unfolding defaults_def
proof (induction new arbitrary: d)
  case (Cons kv new)
  have "map_of (set_default kv d) k = (case map_of d k of Some v \<Rightarrow> Some v | None \<Rightarrow> map_of [kv] k)"
  proof (cases "fst kv \<in> fst ` set d")
    case True
    then have "k = fst kv \<Longrightarrow> map_of d k \<noteq> None" by (simp add: map_of_eq_None_iff)
    then show ?thesis using True by (cases kv) (auto simp: set_default_def split: option.split)
  next
    case False
    then show ?thesis by (cases kv) (simp add: set_default_def map_add_def split: option.split)
  qed
  then show ?case using Cons.IH [of "set_default kv d"] by (cases kv) (auto split: option.splits)
qed (simp split: option.split)

lemma distinct_dict_set: "distinct (map fst d) \<Longrightarrow> distinct (map fst (dict_set k v d))"
proof (induction k v d rule: dict_set.induct)
  case (2 k v k' v' d)
  then show ?case using fst_dict_set [of k v d] by auto
qed simp

lemma distinct_dict_fold:
  "(\<And>x d. distinct (map fst d) \<Longrightarrow> distinct (map fst (f x d))) \<Longrightarrow> distinct (map fst d) \<Longrightarrow>
     distinct (map fst (fold f xs d))"
  by (induction xs arbitrary: d) auto

lemma distinct_dict_update [simp]: "distinct (map fst d) \<Longrightarrow> distinct (map fst (dict_update new d))"
  unfolding dict_update_def by (rule distinct_dict_fold) (auto simp: distinct_dict_set split: prod.split)

section \<open>Well-formed requirements\<close>

definition requirements_ok :: "requirements \<Rightarrow> bool" where
  "requirements_ok r \<longleftrightarrow>
     distinct (rq_ports r) \<and> distinct (map fst (rq_env_vars r)) \<and> distinct (rq_volumes r) \<and>
     distinct (rq_depends_on r)"

lemma requirements_ok_simps [simp]:
  "requirements_ok no_requirements"
  "requirements_ok (r\<lparr>rq_sources := x\<rparr>) = requirements_ok r"
  "requirements_ok (r\<lparr>rq_warnings := x\<rparr>) = requirements_ok r"
  "requirements_ok (r\<lparr>rq_base_image := i\<rparr>) = requirements_ok r"
  "requirements_ok (r\<lparr>rq_service_names := ns\<rparr>) = requirements_ok r"
  by (simp_all add: requirements_ok_def no_requirements_def)

lemma docker_line_ok: "requirements_ok (ds_req sc) \<Longrightarrow> requirements_ok (ds_req (docker_line loads str line sc))"
  by (simp add: docker_line_def Let_def requirements_ok_def split: prod.split)

lemma parse_dockerfile_ok: "requirements_ok (parse_dockerfile loads str content)"
proof -
  have "requirements_ok (ds_req (fold (docker_line loads str) ls sc))" if "requirements_ok (ds_req sc)" for ls sc
    using that by (induction ls arbitrary: sc) (simp_all add: docker_line_ok)
  then show ?thesis by (simp add: parse_dockerfile_def Let_def split: option.split)
qed

lemma compose_service_ok: "compose_service show nv r = Some r1 \<Longrightarrow> requirements_ok r \<Longrightarrow> requirements_ok r1"
  by (auto simp: compose_service_def requirements_ok_def Let_def split: yaml.splits option.splits)

lemma compose_services_ok:
  "compose_services show nvs r = Some r1 \<Longrightarrow> requirements_ok r \<Longrightarrow> requirements_ok r1"
  by (induction nvs arbitrary: r) (auto split: option.splits dest: compose_service_ok)

lemma parse_compose_ok: "parse_compose loads show content = Some r \<Longrightarrow> requirements_ok r"
  by (auto simp: parse_compose_def Let_def split: sum.splits yaml.splits option.splits
      dest: compose_services_ok)

lemma merge_one_ok: "requirements_ok m \<Longrightarrow> requirements_ok (merge_one source m)"
  by (simp add: merge_one_def requirements_ok_def)

lemma merge_requirements_ok: "requirements_ok (merge_requirements d c)"
  by (cases d; cases c) (simp_all add: merge_requirements_def merge_one_ok List.map_filter_simps)

text \<open>
  C32: Whatever the repository's files hold, the requirements read from them list every port,
  volume and dependency once and give every variable one value, and when neither file was found
  a warning says so.
\<close>
theorem parse_snapshot_wellformed:
  assumes "parse_snapshot ps sn = Some r"
  shows "distinct (rq_ports r) \<and> distinct (map fst (rq_env_vars r)) \<and> distinct (rq_volumes r) \<and>
    distinct (rq_depends_on r) \<and> (rq_sources r = [] \<longrightarrow> rq_warnings r \<noteq> [])"
proof -
  have f: "requirements_ok (finish_snapshot sn d c) \<and>
    (rq_sources (finish_snapshot sn d c) = [] \<longrightarrow> rq_warnings (finish_snapshot sn d c) \<noteq> [])" for d c
    by (simp add: finish_snapshot_def Let_def merge_requirements_ok)
  have "\<exists>d c. r = finish_snapshot sn d c"
    using assms by (auto simp: parse_snapshot_def Let_def split: if_splits)
  then show ?thesis using f by (auto simp: requirements_ok_def)
qed

section \<open>Compose wins\<close>

text \<open>
  Where the Dockerfile and the compose file disagree, the compose file wins: its image and
  its value of a variable are taken whenever it has one, the Dockerfile's otherwise; ports,
  volumes and dependencies of both are kept, and nothing else is added.
\<close>
theorem merge_compose_wins:
  "let m = merge_requirements (Some d) (Some c) in
   rq_base_image m = (if rq_base_image c = None then rq_base_image d else rq_base_image c) \<and>
   (\<forall>k. map_of (rq_env_vars m) k =
      (case map_of (rq_env_vars c) k of Some v \<Rightarrow> Some v | None \<Rightarrow> map_of (rq_env_vars d) k)) \<and>
   set (rq_ports m) = set (rq_ports c) \<union> set (rq_ports d) \<and>
   set (rq_volumes m) = set (rq_volumes c) \<union> set (rq_volumes d) \<and>
   set (rq_depends_on m) = set (rq_depends_on c) \<union> set (rq_depends_on d) \<and>
   rq_sources m = rq_sources c @ rq_sources d \<and> rq_warnings m = rq_warnings c @ rq_warnings d"
  by (auto simp: merge_requirements_def merge_one_def no_requirements_def List.map_filter_simps
      lookup_defaults split: option.split)

section \<open>Reading back an \<open>ENV\<close> line\<close>

definition env_assignment :: "pystr \<times> pystr \<Rightarrow> pystr" where
  "env_assignment kv = fst kv @ CHR ''='' # snd kv"

lemma fold_env_tokens:
  assumes "distinct (map fst kvs)" "\<forall>kv \<in> set kvs. fst kv \<noteq> [] \<and> CHR ''='' \<notin> set (fst kv)"
    "fst ` set d \<inter> fst ` set kvs = {}"
  shows "fold env_token (map env_assignment kvs) d = d @ map (\<lambda>kv. (fst kv, Some (snd kv))) kvs"
  using assms
proof (induction kvs arbitrary: d)
  case (Cons kv kvs)
  have "env_token (env_assignment kv) d = d @ [(fst kv, Some (snd kv))]"
    using Cons.prems by (auto simp: env_token_def env_assignment_def intro!: dict_set_new)
  then show ?case using Cons.IH [of "d @ [(fst kv, Some (snd kv))]"] Cons.prems by auto
qed simp

text \<open>
  An \<open>ENV\<close> instruction is read as it was meant: writing any variables with distinct,
  non-empty names (no equals sign in a name) and any values, quoted for the shell, and reading
  the line gives back exactly those variables and values, in order.
\<close>
theorem env_instruction_roundtrip:
  assumes "kvs \<noteq> []" "distinct (map fst kvs)" "\<forall>kv \<in> set kvs. fst kv \<noteq> [] \<and> CHR ''='' \<notin> set (fst kv)"
  shows "parse_env_instruction (shlex_join (map (\<lambda>kv. fst kv @ CHR ''='' # snd kv) kvs)) =
    map (\<lambda>kv. (fst kv, Some (snd kv))) kvs"
proof -
  obtain kv kvs' where kv: "kvs = kv # kvs'" using assms(1) by (cases kvs) auto
  have e: "map (\<lambda>kv. fst kv @ CHR ''='' # snd kv) kvs = map env_assignment kvs"
    by (simp add: env_assignment_def)
  have "CHR ''='' \<in> set (env_assignment kv)" by (simp add: env_assignment_def)
  then have "parse_env_instruction (shlex_join (map env_assignment kvs)) = fold env_token (map env_assignment kvs) []"
    by (simp only: parse_env_instruction_def shlex_split_join option.case) (simp add: kv)
  then show ?thesis using fold_env_tokens [OF assms(2,3), of "[]"] by (simp only: e) simp
qed

theorem env_instruction_roundtrip_witness:
  "parse_env_instruction (shlex_join (map (\<lambda>kv. fst kv @ CHR ''='' # snd kv) [(''A'', ''x y''), (''B'', [])])) =
     [(''A'', Some ''x y''), (''B'', Some [])]"
  using env_instruction_roundtrip [of "[(''A'', ''x y''), (''B'', [])]"] by simp

definition example_parsers :: parsers where
  "example_parsers =
     \<lparr>ps_json = (\<lambda>s. None), ps_json_text = (\<lambda>j. []),
      ps_yaml = (\<lambda>s. Inr (Y_map [(Y_str ''services'', Y_map [(Y_str ''a'', Y_map [(Y_str ''image'', Y_str ''i'')])])])),
      ps_yaml_text = (\<lambda>y. [])\<rparr>"

theorem parse_snapshot_wellformed_witness:
  "\<exists>r. parse_snapshot example_parsers \<lparr>sn_repo_url = [], sn_dockerfile = Some ''EXPOSE 80 80'',
       sn_compose = Some ''s'', sn_compose_path = Some ''compose.yaml'', sn_readme = None, sn_skipped = []\<rparr> = Some r \<and>
     distinct (rq_ports r)"
proof -
  let ?s = "\<lparr>sn_repo_url = [], sn_dockerfile = Some ''EXPOSE 80 80'', sn_compose = Some ''s'',
    sn_compose_path = Some ''compose.yaml'', sn_readme = None, sn_skipped = []\<rparr>"
  have "parse_snapshot example_parsers ?s \<noteq> None"
    by (simp add: parse_snapshot_def example_parsers_def parse_compose_def yaml_get_def compose_service_def
        yaml_items_def yaml_true_def depends_items_def Let_def)
  then obtain r where "parse_snapshot example_parsers ?s = Some r" by blast
  with parse_snapshot_wellformed [OF this] show ?thesis by blast
qed

end
