(* ===== verification/Hardware.thy ===== *)
theory Hardware
  imports RegistryInv PyJson
begin

text \<open>
  \<open>models/hardware.py\<close> and \<open>hardware/store.py\<close>: the hardware nodes and their change log. As in
  \<open>Registry\<close>, the \<open>k\<close>-th constructed row takes its id and its default timestamps from the
  stream \<open>env\<close>, each operation is one transaction, and timestamps are stored naive. Disks and
  pools are JSON columns. How Python prints a float, a timestamp or a JSON value in the change
  log is the parameter \<open>printer\<close>; it has no other effect.
\<close>

section \<open>Tables\<close>

datatype node_role =
  Role_pve_host | Role_docker_host | Role_nas | Role_workstation | Role_pi | Role_other

fun node_role_value :: "node_role \<Rightarrow> pystr" where
  "node_role_value Role_pve_host = ''pve_host''"
| "node_role_value Role_docker_host = ''docker_host''"
| "node_role_value Role_nas = ''nas''"
| "node_role_value Role_workstation = ''workstation''"
| "node_role_value Role_pi = ''pi''"
| "node_role_value Role_other = ''other''"

datatype node_status = Node_confirmed | Node_unconfirmed | Node_stale | Node_offline

fun node_status_value :: "node_status \<Rightarrow> pystr" where
  "node_status_value Node_confirmed = ''confirmed''"
| "node_status_value Node_unconfirmed = ''unconfirmed''"
| "node_status_value Node_stale = ''stale''"
| "node_status_value Node_offline = ''offline''"

text \<open>\<open>NodeRole(text)\<close> and \<open>NodeStatus(text)\<close>; \<open>None\<close> is the \<open>ValueError\<close>.\<close>

definition node_role_of :: "pystr \<Rightarrow> node_role option" where
  "node_role_of t =
     find (\<lambda>r. node_role_value r = t)
       [Role_pve_host, Role_docker_host, Role_nas, Role_workstation, Role_pi, Role_other]"

definition node_status_of :: "pystr \<Rightarrow> node_status option" where
  "node_status_of t =
     find (\<lambda>r. node_status_value r = t) [Node_confirmed, Node_unconfirmed, Node_stale, Node_offline]"

record hardware_node =
  hn_id :: pystr
  hn_hostname :: pystr
  hn_display_name :: pystr
  hn_role :: node_role
  hn_status :: node_status
  hn_ip_address :: "pystr option"
  hn_mac_address :: "pystr option"
  hn_os :: "pystr option"
  hn_cpu_model :: "pystr option"
  hn_cpu_cores :: "int option"
  hn_ram_gb :: "rat option"
  hn_gpu_model :: "pystr option"
  hn_storage :: "json list"
  hn_storage_pools :: "json list"
  hn_tags :: "pystr list"
  hn_notes :: pystr
  hn_location :: "pystr option"
  hn_ups_backed :: "bool option"
  hn_obtained_at :: "pystr option"
  hn_cluster_member :: "pystr option"
  hn_ansible_host :: "pystr option"
  hn_ansible_groups :: "pystr list"
  hn_last_confirmed_at :: "datetime option"
  hn_last_seen_at :: "datetime option"
  hn_manual :: bool
  hn_created_at :: datetime
  hn_updated_at :: datetime

text \<open>A node with only its two names given: the column defaults.\<close>

definition new_node :: "pystr \<Rightarrow> pystr \<Rightarrow> hardware_node" where
  "new_node hostname display_name =
     \<lparr>hn_id = [], hn_hostname = hostname, hn_display_name = display_name, hn_role = Role_other,
      hn_status = Node_unconfirmed, hn_ip_address = None, hn_mac_address = None, hn_os = None,
      hn_cpu_model = None, hn_cpu_cores = None, hn_ram_gb = None, hn_gpu_model = None,
      hn_storage = [], hn_storage_pools = [], hn_tags = [], hn_notes = [], hn_location = None,
      hn_ups_backed = None, hn_obtained_at = None, hn_cluster_member = None,
      hn_ansible_host = None, hn_ansible_groups = [], hn_last_confirmed_at = None,
      hn_last_seen_at = None, hn_manual = True, hn_created_at = Naive 0, hn_updated_at = Naive 0\<rparr>"

record hardware_change =
  hc_id :: pystr
  hc_node_id :: "pystr option"
  hc_field :: pystr
  hc_old :: "pystr option"
  hc_new :: "pystr option"
  hc_actor :: pystr
  hc_created_at :: datetime

record hardware =
  hw_nodes :: "hardware_node list"
  hw_changes :: "hardware_change list"
  hw_drawn :: nat

definition no_hardware :: hardware where
  "no_hardware = \<lparr>hw_nodes = [], hw_changes = [], hw_drawn = 0\<rparr>"

section \<open>Field updates\<close>

text \<open>
  One entry of an \<open>updates\<close> dictionary. \<open>role\<close> and \<open>status\<close> come as text and are validated;
  \<open>Node_none\<close> is a field given \<open>None\<close>, \<open>Node_immutable\<close> one that is not in \<open>_MUTABLE_FIELDS\<close>.
\<close>

datatype node_update =
    Node_display_name pystr
  | Node_role pystr
  | Node_status pystr
  | Node_ip_address pystr
  | Node_mac_address pystr
  | Node_os pystr
  | Node_cpu_model pystr
  | Node_cpu_cores int
  | Node_ram_gb rat
  | Node_gpu_model pystr
  | Node_storage "json list"
  | Node_storage_pools "json list"
  | Node_tags "pystr list"
  | Node_notes pystr
  | Node_location pystr
  | Node_ups_backed bool
  | Node_obtained_at pystr
  | Node_cluster_member pystr
  | Node_ansible_host pystr
  | Node_ansible_groups "pystr list"
  | Node_last_confirmed_at datetime
  | Node_last_seen_at datetime
  | Node_none pystr
  | Node_immutable pystr

fun node_field :: "node_update \<Rightarrow> pystr" where
  "node_field (Node_display_name v) = ''display_name''"
| "node_field (Node_role v) = ''role''"
| "node_field (Node_status v) = ''status''"
| "node_field (Node_ip_address v) = ''ip_address''"
| "node_field (Node_mac_address v) = ''mac_address''"
| "node_field (Node_os v) = ''os''"
| "node_field (Node_cpu_model v) = ''cpu_model''"
| "node_field (Node_cpu_cores v) = ''cpu_cores''"
| "node_field (Node_ram_gb v) = ''ram_gb''"
| "node_field (Node_gpu_model v) = ''gpu_model''"
| "node_field (Node_storage v) = ''storage''"
| "node_field (Node_storage_pools v) = ''storage_pools''"
| "node_field (Node_tags v) = ''tags''"
| "node_field (Node_notes v) = ''notes''"
| "node_field (Node_location v) = ''location''"
| "node_field (Node_ups_backed v) = ''ups_backed''"
| "node_field (Node_obtained_at v) = ''obtained_at''"
| "node_field (Node_cluster_member v) = ''cluster_member''"
| "node_field (Node_ansible_host v) = ''ansible_host''"
| "node_field (Node_ansible_groups v) = ''ansible_groups''"
| "node_field (Node_last_confirmed_at v) = ''last_confirmed_at''"
| "node_field (Node_last_seen_at v) = ''last_seen_at''"
| "node_field (Node_none f) = f"
| "node_field (Node_immutable f) = f"

fun apply_node :: "node_update \<Rightarrow> hardware_node \<Rightarrow> hardware_node" where
  "apply_node (Node_display_name v) n = n\<lparr>hn_display_name := v\<rparr>"
| "apply_node (Node_role v) n = (case node_role_of v of None \<Rightarrow> n | Some r \<Rightarrow> n\<lparr>hn_role := r\<rparr>)"
| "apply_node (Node_status v) n = (case node_status_of v of None \<Rightarrow> n | Some r \<Rightarrow> n\<lparr>hn_status := r\<rparr>)"
| "apply_node (Node_ip_address v) n = n\<lparr>hn_ip_address := Some v\<rparr>"
| "apply_node (Node_mac_address v) n = n\<lparr>hn_mac_address := Some v\<rparr>"
| "apply_node (Node_os v) n = n\<lparr>hn_os := Some v\<rparr>"
| "apply_node (Node_cpu_model v) n = n\<lparr>hn_cpu_model := Some v\<rparr>"
| "apply_node (Node_cpu_cores v) n = n\<lparr>hn_cpu_cores := Some v\<rparr>"
| "apply_node (Node_ram_gb v) n = n\<lparr>hn_ram_gb := Some v\<rparr>"
| "apply_node (Node_gpu_model v) n = n\<lparr>hn_gpu_model := Some v\<rparr>"
| "apply_node (Node_storage v) n = n\<lparr>hn_storage := v\<rparr>"
| "apply_node (Node_storage_pools v) n = n\<lparr>hn_storage_pools := v\<rparr>"
| "apply_node (Node_tags v) n = n\<lparr>hn_tags := v\<rparr>"
| "apply_node (Node_notes v) n = n\<lparr>hn_notes := v\<rparr>"
| "apply_node (Node_location v) n = n\<lparr>hn_location := Some v\<rparr>"
| "apply_node (Node_ups_backed v) n = n\<lparr>hn_ups_backed := Some v\<rparr>"
| "apply_node (Node_obtained_at v) n = n\<lparr>hn_obtained_at := Some v\<rparr>"
| "apply_node (Node_cluster_member v) n = n\<lparr>hn_cluster_member := Some v\<rparr>"
| "apply_node (Node_ansible_host v) n = n\<lparr>hn_ansible_host := Some v\<rparr>"
| "apply_node (Node_ansible_groups v) n = n\<lparr>hn_ansible_groups := v\<rparr>"
| "apply_node (Node_last_confirmed_at v) n = n\<lparr>hn_last_confirmed_at := Some v\<rparr>"
| "apply_node (Node_last_seen_at v) n = n\<lparr>hn_last_seen_at := Some v\<rparr>"
| "apply_node (Node_none f) n = n"
| "apply_node (Node_immutable f) n = n"

record printer =
  pn_json :: "json list \<Rightarrow> pystr"
  pn_float :: "rat \<Rightarrow> pystr"
  pn_time :: "datetime \<Rightarrow> pystr"

fun node_text :: "printer \<Rightarrow> node_update \<Rightarrow> hardware_node \<Rightarrow> pystr option" where
  "node_text pn (Node_display_name v) n = Some (hn_display_name n)"
| "node_text pn (Node_role v) n = Some (node_role_value (hn_role n))"
| "node_text pn (Node_status v) n = Some (node_status_value (hn_status n))"
| "node_text pn (Node_ip_address v) n = hn_ip_address n"
| "node_text pn (Node_mac_address v) n = hn_mac_address n"
| "node_text pn (Node_os v) n = hn_os n"
| "node_text pn (Node_cpu_model v) n = hn_cpu_model n"
| "node_text pn (Node_cpu_cores v) n = map_option show_int (hn_cpu_cores n)"
| "node_text pn (Node_ram_gb v) n = map_option (pn_float pn) (hn_ram_gb n)"
| "node_text pn (Node_gpu_model v) n = hn_gpu_model n"
| "node_text pn (Node_storage v) n = Some (pn_json pn (hn_storage n))"
| "node_text pn (Node_storage_pools v) n = Some (pn_json pn (hn_storage_pools n))"
| "node_text pn (Node_tags v) n = Some (show_list (hn_tags n))"
| "node_text pn (Node_notes v) n = Some (hn_notes n)"
| "node_text pn (Node_location v) n = hn_location n"
| "node_text pn (Node_ups_backed v) n = map_option show_bool (hn_ups_backed n)"
| "node_text pn (Node_obtained_at v) n = hn_obtained_at n"
| "node_text pn (Node_cluster_member v) n = hn_cluster_member n"
| "node_text pn (Node_ansible_host v) n = hn_ansible_host n"
| "node_text pn (Node_ansible_groups v) n = Some (show_list (hn_ansible_groups n))"
| "node_text pn (Node_last_confirmed_at v) n = map_option (pn_time pn) (hn_last_confirmed_at n)"
| "node_text pn (Node_last_seen_at v) n = map_option (pn_time pn) (hn_last_seen_at n)"
| "node_text pn (Node_none f) n = None"
| "node_text pn (Node_immutable f) n = None"

fun node_mutable :: "node_update \<Rightarrow> bool" where
  "node_mutable (Node_none f) = False"
| "node_mutable (Node_immutable f) = False"
| "node_mutable u = True"

text \<open>The enum checks made before the session is opened.\<close>

fun node_valid :: "node_update \<Rightarrow> bool" where
  "node_valid (Node_role v) = (node_role_of v \<noteq> None)"
| "node_valid (Node_status v) = (node_status_of v \<noteq> None)"
| "node_valid u = True"

text \<open>\<open>DISCOVERY_FIELDS\<close>.\<close>

fun discovery_field :: "node_update \<Rightarrow> bool" where
  "discovery_field (Node_ip_address v) = True"
| "discovery_field (Node_mac_address v) = True"
| "discovery_field (Node_os v) = True"
| "discovery_field (Node_cpu_model v) = True"
| "discovery_field (Node_cpu_cores v) = True"
| "discovery_field (Node_ram_gb v) = True"
| "discovery_field (Node_storage v) = True"
| "discovery_field u = False"

section \<open>Operations\<close>

definition HARDWARE_CREATED :: pystr where
  "HARDWARE_CREATED = ''__created__''"

definition HARDWARE_DELETED :: pystr where
  "HARDWARE_DELETED = ''__deleted__''"

definition hw_record ::
  "env \<Rightarrow> pystr \<Rightarrow> pystr \<Rightarrow> pystr option \<Rightarrow> pystr option \<Rightarrow> pystr \<Rightarrow> hardware \<Rightarrow> hardware" where
  "hw_record e node_id field old new actor hw =
     hw\<lparr>hw_changes := hw_changes hw @
          [\<lparr>hc_id = env_uuid e (hw_drawn hw), hc_node_id = Some node_id, hc_field = field,
            hc_old = old, hc_new = new, hc_actor = actor,
            hc_created_at = Naive (env_clock e (hw_drawn hw))\<rparr>],
        hw_drawn := Suc (hw_drawn hw)\<rparr>"

text \<open>The row as it is read back: naive timestamps.\<close>

definition stored_node :: "hardware_node \<Rightarrow> hardware_node" where
  "stored_node n =
     n\<lparr>hn_last_confirmed_at := map_option sqlite_datetime (hn_last_confirmed_at n),
       hn_last_seen_at := map_option sqlite_datetime (hn_last_seen_at n),
       hn_created_at := sqlite_datetime (hn_created_at n),
       hn_updated_at := sqlite_datetime (hn_updated_at n)\<rparr>"

datatype hardware_error = Duplicate_node pystr | Invalid_value pystr

definition create_node ::
  "env \<Rightarrow> hardware_node \<Rightarrow> pystr \<Rightarrow> hardware \<Rightarrow> hardware \<times> (hardware_error + hardware_node)" where
  "create_node e node actor hw =
     (if hn_hostname node \<in> hn_hostname ` set (hw_nodes hw)
      then (hw, Inl (Duplicate_node (hn_hostname node)))
      else
        (let k = hw_drawn hw; t = Aware (env_clock e k);
             row = stored_node (node\<lparr>hn_id := env_uuid e k, hn_created_at := t, hn_updated_at := t\<rparr>)
         in (hw_record e (env_uuid e k) HARDWARE_CREATED None (Some (hn_hostname node)) actor
               (hw\<lparr>hw_nodes := hw_nodes hw @ [row], hw_drawn := Suc k\<rparr>),
             Inr row)))"

definition get_node :: "pystr \<Rightarrow> hardware \<Rightarrow> hardware_node option" where
  "get_node id_or_hostname hw =
     (case get_row hn_id (hw_nodes hw) id_or_hostname of
        Some n \<Rightarrow> Some n
      | None \<Rightarrow> find (\<lambda>n. hn_hostname n = id_or_hostname) (hw_nodes hw))"

definition list_nodes ::
  "pystr option \<Rightarrow> pystr option \<Rightarrow> pystr option \<Rightarrow> hardware \<Rightarrow> hardware_node list" where
  "list_nodes role status tag hw =
     filter (\<lambda>n. (case role of None \<Rightarrow> True | Some r \<Rightarrow> node_role_value (hn_role n) = r) \<and>
                 (case status of None \<Rightarrow> True | Some s \<Rightarrow> node_status_value (hn_status n) = s) \<and>
                 (case tag of None \<Rightarrow> True | Some t \<Rightarrow> t \<in> set (hn_tags n)))
       (hw_nodes hw)"

text \<open>One resolved field of the loop: compared, set, logged; the timestamps stay as given.\<close>

definition node_step ::
  "env \<Rightarrow> printer \<Rightarrow> pystr \<Rightarrow> node_update \<Rightarrow> hardware_node \<times> hardware \<Rightarrow> hardware_node \<times> hardware" where
  "node_step e pn actor u nh =
     (let n = fst nh; m = apply_node u n in
      if m = n then nh
      else (m, hw_record e (hn_id n) (node_field u) (node_text pn u n) (node_text pn u m) actor (snd nh)))"

definition update_node ::
  "env \<Rightarrow> printer \<Rightarrow> pystr \<Rightarrow> node_update list \<Rightarrow> pystr \<Rightarrow> hardware
     \<Rightarrow> hardware \<times> (hardware_error + hardware_node option)" where
  "update_node e pn node_id updates actor hw =
     (let resolved = filter node_mutable updates in
      case find (\<lambda>u. \<not> node_valid u) resolved of
        Some u \<Rightarrow> (hw, Inl (Invalid_value (node_field u)))
      | None \<Rightarrow>
          (case get_node node_id hw of
             None \<Rightarrow> (hw, Inr None)
           | Some n \<Rightarrow>
               (let (m, hw1) = fold (node_step e pn actor) resolved (n, hw);
                    row = stored_node (m\<lparr>hn_updated_at := Aware (env_clock e (hw_drawn hw1))\<rparr>)
                in (hw1\<lparr>hw_nodes := put_row hn_id (hn_id n) (\<lambda>_. row) (hw_nodes hw1)\<rparr>, Inr (Some row)))))"

definition delete_node :: "env \<Rightarrow> pystr \<Rightarrow> pystr \<Rightarrow> hardware \<Rightarrow> hardware \<times> bool" where
  "delete_node e node_id actor hw =
     (case get_node node_id hw of
        None \<Rightarrow> (hw, False)
      | Some n \<Rightarrow>
          (let hw1 = hw_record e (hn_id n) HARDWARE_DELETED (Some (hn_hostname n)) None actor hw
           in (hw1\<lparr>hw_nodes := drop_rows (\<lambda>m. hn_id m = hn_id n) (hw_nodes hw1)\<rparr>, True)))"

definition opt_node :: "('a \<Rightarrow> node_update) \<Rightarrow> 'a option \<Rightarrow> node_update list" where
  "opt_node f v = (case v of None \<Rightarrow> [] | Some x \<Rightarrow> [f x])"

definition upsert_from_discovery ::
  "env \<Rightarrow> printer \<Rightarrow> instant \<Rightarrow> pystr \<Rightarrow> pystr option \<Rightarrow> pystr list option \<Rightarrow> node_update list \<Rightarrow> pystr
     \<Rightarrow> hardware \<Rightarrow> hardware \<times> (hardware_error + hardware_node option)" where
  "upsert_from_discovery e pn now hostname ansible_host ansible_groups facts actor hw =
     (let discovered = filter discovery_field facts in
      case get_node hostname hw of
        None \<Rightarrow>
          (let base = (new_node hostname hostname)
                 \<lparr>hn_ansible_host := ansible_host,
                  hn_ansible_groups := (case ansible_groups of None \<Rightarrow> [] | Some gs \<Rightarrow> gs),
                  hn_status := Node_confirmed, hn_last_confirmed_at := Some (Aware now),
                  hn_last_seen_at := Some (Aware now), hn_manual := False\<rparr>;
               (hw1, r) = create_node e (fold apply_node discovered base) actor hw
           in (hw1, map_sum id Some r))
      | Some existing \<Rightarrow>
          update_node e pn (hn_id existing)
            (discovered @ opt_node Node_ansible_host ansible_host @
             opt_node Node_ansible_groups ansible_groups @
             [Node_status ''confirmed'', Node_last_confirmed_at (Aware now), Node_last_seen_at (Aware now)])
            actor hw)"

definition list_with_status :: "node_status \<Rightarrow> hardware \<Rightarrow> hardware_node list" where
  "list_with_status st hw = filter (\<lambda>n. hn_status n = st) (hw_nodes hw)"

definition list_stale_nodes :: "hardware \<Rightarrow> hardware_node list" where
  "list_stale_nodes hw = list_with_status Node_stale hw"

definition list_unconfirmed_nodes :: "hardware \<Rightarrow> hardware_node list" where
  "list_unconfirmed_nodes hw = list_with_status Node_unconfirmed hw"

definition link_service :: "pystr \<Rightarrow> pystr \<Rightarrow> bool \<Rightarrow> hardware \<Rightarrow> registry \<Rightarrow> registry \<times> bool" where
  "link_service service_id node_id manual hw rg =
     (if get_row svc_id (rg_services rg) service_id = None \<or> get_row hn_id (hw_nodes hw) node_id = None
      then (rg, False)
      else (put_service service_id (\<lambda>s. s\<lparr>svc_hardware_node_id := Some node_id, svc_manual_link := manual\<rparr>) rg,
            True))"

definition get_node_services :: "pystr \<Rightarrow> registry \<Rightarrow> service list" where
  "get_node_services node_id rg = filter (\<lambda>s. svc_hardware_node_id s = Some node_id) (rg_services rg)"

text \<open>A number of a pool, 0 when it is missing; \<open>None\<close> when it is no number.\<close>

definition pool_number :: "json \<Rightarrow> pystr \<Rightarrow> rat option" where
  "pool_number pool k =
     (case json_get pool k of
        None \<Rightarrow> Some 0
      | Some (JInt n) \<Rightarrow> Some (of_int n)
      | Some (JFloat q) \<Rightarrow> Some q
      | _ \<Rightarrow> None)"

record capacity =
  cp_total_gb :: rat
  cp_used_gb :: rat
  cp_free_gb :: rat
  cp_confirmed_nodes :: nat
  cp_pools :: "(pystr \<times> json) list"

definition pool_sum :: "pystr \<Rightarrow> (pystr \<times> json) list \<Rightarrow> rat option" where
  "pool_sum k pools = map_option sum_list (those (map (\<lambda>p. pool_number (snd p) k) pools))"

text \<open>\<open>round2\<close> is Python's \<open>round(x, 2)\<close>; the sums are exact here.\<close>

definition capacity_summary :: "(rat \<Rightarrow> rat) \<Rightarrow> hardware \<Rightarrow> capacity option" where
  "capacity_summary round2 hw =
     (let nodes = list_nodes None (Some ''confirmed'') None hw;
          pools = concat (map (\<lambda>n. map (Pair (hn_hostname n)) (hn_storage_pools n)) nodes)
      in case (pool_sum ''total_gb'' pools, pool_sum ''used_gb'' pools, pool_sum ''free_gb'' pools) of
           (Some t, Some u, Some f) \<Rightarrow>
             Some \<lparr>cp_total_gb = round2 t, cp_used_gb = round2 u, cp_free_gb = round2 f,
                   cp_confirmed_nodes = length nodes, cp_pools = pools\<rparr>
         | _ \<Rightarrow> None)"

definition list_hardware_changes :: "pystr option \<Rightarrow> int \<Rightarrow> hardware \<Rightarrow> hardware_change list" where
  "list_hardware_changes node_id limit hw =
     sql_limit limit
       (sort_key (\<lambda>c. - instant_of (hc_created_at c))
         (filter (\<lambda>c. case node_id of None \<Rightarrow> True | Some i \<Rightarrow> hc_node_id c = Some i) (hw_changes hw)))"

section \<open>Lemmas\<close>

lemma node_role_of_value [simp]: "node_role_of (node_role_value r) = Some r"
  by (cases r) (simp_all add: node_role_of_def)

lemma node_status_of_value [simp]: "node_status_of (node_status_value s) = Some s"
  by (cases s) (simp_all add: node_status_of_def)

lemma apply_node_keeps [simp]:
  "hn_id (apply_node u n) = hn_id n"
  "hn_hostname (apply_node u n) = hn_hostname n"
  "hn_manual (apply_node u n) = hn_manual n"
  "hn_created_at (apply_node u n) = hn_created_at n"
  by (cases u; simp split: option.split)+

lemma stored_node_keeps [simp]:
  "hn_id (stored_node n) = hn_id n"
  "hn_hostname (stored_node n) = hn_hostname n"
  by (simp_all add: stored_node_def)

lemma hw_record_simps [simp]:
  "hw_nodes (hw_record e i f old new a hw) = hw_nodes hw"
  "hw_drawn (hw_record e i f old new a hw) = Suc (hw_drawn hw)"
  by (simp_all add: hw_record_def)

lemma fold_apply_keeps [simp]:
  "hn_id (fold apply_node us n) = hn_id n"
  "hn_hostname (fold apply_node us n) = hn_hostname n"
  by (induction us arbitrary: n) simp_all

lemma node_step_fst: "fst (node_step e pn a u nh) = apply_node u (fst nh)"
  by (simp add: node_step_def Let_def)

lemma fold_node_step_fst [simp]: "fst (fold (node_step e pn a) us nh) = fold apply_node us (fst nh)"
  by (induction us arbitrary: nh) (simp_all add: node_step_fst)

lemma fold_node_step_nodes [simp]: "hw_nodes (snd (fold (node_step e pn a) us nh)) = hw_nodes (snd nh)"
  by (induction us arbitrary: nh) (simp_all add: node_step_def Let_def)

lemma fold_node_step_drawn: "hw_drawn (snd nh) \<le> hw_drawn (snd (fold (node_step e pn a) us nh))"
proof (induction us arbitrary: nh)
  case (Cons u us)
  have "hw_drawn (snd nh) \<le> hw_drawn (snd (node_step e pn a u nh))"
    by (simp add: node_step_def Let_def)
  then show ?case using Cons.IH [of "node_step e pn a u nh"] by simp
qed simp

text \<open>The log of an update: one entry per field that changed, by the given actor.\<close>

lemma fold_node_step_log:
  "\<exists>cs. hw_changes (snd (fold (node_step e pn a) us nh)) = hw_changes (snd nh) @ cs \<and>
     (\<forall>c \<in> set cs. hc_node_id c = Some (hn_id (fst nh)) \<and> hc_field c \<in> node_field ` set us \<and> hc_actor c = a)"
proof (induction us arbitrary: nh)
  case (Cons u us)
  let ?nh = "node_step e pn a u nh"
  obtain cs where cs: "hw_changes (snd (fold (node_step e pn a) us ?nh)) = hw_changes (snd ?nh) @ cs"
    "\<forall>c \<in> set cs. hc_node_id c = Some (hn_id (fst ?nh)) \<and> hc_field c \<in> node_field ` set us \<and> hc_actor c = a"
    using Cons.IH by blast
  obtain ds where "hw_changes (snd ?nh) = hw_changes (snd nh) @ ds"
    "\<forall>c \<in> set ds. hc_node_id c = Some (hn_id (fst nh)) \<and> hc_field c = node_field u \<and> hc_actor c = a"
    by (cases "apply_node u (fst nh) = fst nh") (auto simp: node_step_def Let_def hw_record_def)
  then show ?case
    using cs by (intro exI [of _ "ds @ cs"]) (auto simp: node_step_fst)
qed simp

lemma get_node_in: "get_node i hw = Some n \<Longrightarrow> n \<in> set (hw_nodes hw)"
  by (auto simp: get_node_def find_Some_iff dest: get_row_SomeD split: option.splits)

lemma get_node_none_hostname: "get_node i hw = None \<Longrightarrow> i \<notin> hn_hostname ` set (hw_nodes hw)"
  by (auto simp: get_node_def find_None_iff split: option.splits)

section \<open>The store as a machine\<close>

datatype hardware_op =
    Op_create hardware_node pystr
  | Op_update pystr "node_update list" pystr
  | Op_delete pystr pystr
  | Op_upsert instant pystr "pystr option" "pystr list option" "node_update list" pystr

fun hardware_step :: "env \<Rightarrow> printer \<Rightarrow> hardware_op \<Rightarrow> hardware \<Rightarrow> hardware" where
  "hardware_step e pn (Op_create n a) hw = fst (create_node e n a hw)"
| "hardware_step e pn (Op_update i us a) hw = fst (update_node e pn i us a hw)"
| "hardware_step e pn (Op_delete i a) hw = fst (delete_node e i a hw)"
| "hardware_step e pn (Op_upsert now h ah ag us a) hw = fst (upsert_from_discovery e pn now h ah ag us a hw)"

definition hardware_ok :: "env \<Rightarrow> hardware \<Rightarrow> bool" where
  "hardware_ok e hw \<longleftrightarrow>
     distinct (map hn_id (hw_nodes hw)) \<and> distinct (map hn_hostname (hw_nodes hw)) \<and>
     hn_id ` set (hw_nodes hw) \<subseteq> env_uuid e ` {..<hw_drawn hw}"

lemma hardware_ok_grow:
  assumes "hardware_ok e hw" "hw_drawn hw \<le> k"
    "map hn_id ns = map hn_id (hw_nodes hw)" "map hn_hostname ns = map hn_hostname (hw_nodes hw)"
  shows "hardware_ok e (hw\<lparr>hw_nodes := ns, hw_changes := cs, hw_drawn := k\<rparr>)"
proof -
  have "set (map hn_id ns) = set (map hn_id (hw_nodes hw))" using assms(3) by simp
  then have "hn_id ` set ns = hn_id ` set (hw_nodes hw)" by simp
  moreover have "env_uuid e ` {..<hw_drawn hw} \<subseteq> env_uuid e ` {..<k}"
    by (rule image_mono) (use assms(2) in auto)
  ultimately show ?thesis
    using assms(1,3,4) unfolding hardware_ok_def by (simp, blast)
qed

lemma create_node_ok:
  assumes "inj (env_uuid e)" "hardware_ok e hw"
  shows "hardware_ok e (fst (create_node e n a hw))"
proof -
  have "env_uuid e (hw_drawn hw) \<notin> env_uuid e ` {..<hw_drawn hw}"
    using assms(1) by (auto dest: injD)
  then have "env_uuid e (hw_drawn hw) \<notin> hn_id ` set (hw_nodes hw)"
    using assms(2) by (auto simp: hardware_ok_def)
  then show ?thesis
    using assms(2) by (auto simp: create_node_def Let_def hardware_ok_def less_Suc_eq)
qed

lemma map_put_same:
  assumes "distinct (map key t)" "n \<in> set t" "f m = f n"
  shows "map f (put_row key (key n) (\<lambda>_. m) t) = map f t"
proof -
  have "f (if key r = key n then m else r) = f r" if "r \<in> set t" for r
    using distinct_map_unique [OF assms(1) that assms(2)] assms(3) by auto
  then show ?thesis by (simp add: put_row_def)
qed

lemma get_row_replace:
  "key m = k \<Longrightarrow> get_row key (put_row key k (\<lambda>_. m) t) j =
     (if j = k then map_option (\<lambda>_. m) (get_row key t j) else get_row key t j)"
  by (induction t) (auto simp: get_row_def put_row_def)

lemma update_node_ok:
  assumes "hardware_ok e hw"
  shows "hardware_ok e (fst (update_node e pn i us a hw))"
proof (cases "find (\<lambda>u. \<not> node_valid u) (filter node_mutable us) = None \<and> get_node i hw \<noteq> None")
  case False
  then show ?thesis using assms by (auto simp: update_node_def Let_def split: option.splits)
next
  case True
  then obtain n where n: "get_node i hw = Some n" by blast
  let ?r = "fold (node_step e pn a) (filter node_mutable us) (n, hw)"
  let ?row = "stored_node ((fst ?r)\<lparr>hn_updated_at := Aware (env_clock e (hw_drawn (snd ?r)))\<rparr>)"
  let ?ns = "put_row hn_id (hn_id n) (\<lambda>_. ?row) (hw_nodes hw)"
  have d: "distinct (map hn_id (hw_nodes hw))" using assms by (simp add: hardware_ok_def)
  have upd: "fst (update_node e pn i us a hw) =
      hw\<lparr>hw_nodes := ?ns, hw_changes := hw_changes (snd ?r), hw_drawn := hw_drawn (snd ?r)\<rparr>"
    using True n by (simp add: update_node_def Let_def case_prod_beta)
  show ?thesis
    unfolding upd
  proof (rule hardware_ok_grow [OF assms])
    show "hw_drawn hw \<le> hw_drawn (snd ?r)" using fold_node_step_drawn [of "(n, hw)"] by simp
    show "map hn_id ?ns = map hn_id (hw_nodes hw)" by (rule map_put_same [OF d get_node_in [OF n]]) simp
    show "map hn_hostname ?ns = map hn_hostname (hw_nodes hw)"
      by (rule map_put_same [OF d get_node_in [OF n]]) simp
  qed
qed

lemma delete_node_ok:
  assumes "hardware_ok e hw"
  shows "hardware_ok e (fst (delete_node e i a hw))"
proof -
  have "distinct (map f (filter P t))" if "distinct (map f t)" for f :: "hardware_node \<Rightarrow> pystr" and P t
    using that by (simp add: distinct_map_filter)
  moreover have "env_uuid e ` {..<hw_drawn hw} \<subseteq> env_uuid e ` {..<Suc (hw_drawn hw)}"
    by (rule image_mono) auto
  ultimately show ?thesis
    using assms by (auto simp: delete_node_def Let_def hardware_ok_def drop_rows_def split: option.split)
qed

lemma hardware_step_ok:
  assumes "inj (env_uuid e)" "hardware_ok e hw"
  shows "hardware_ok e (hardware_step e pn x hw)"
  using assms
  by (cases x)
     (auto simp: create_node_ok update_node_ok delete_node_ok upsert_from_discovery_def Let_def case_prod_beta
        split: option.split)

text \<open>
  Over any sequence of creations, edits, deletions and discovery passes, no two nodes share
  an id or a hostname; in particular discovery never registers a host a second time.
\<close>
theorem hardware_unique:
  assumes "inj (env_uuid e)"
  shows "distinct (map hn_id (hw_nodes (fold (hardware_step e pn) ops no_hardware))) \<and>
    distinct (map hn_hostname (hw_nodes (fold (hardware_step e pn) ops no_hardware)))"
proof -
  have "hardware_ok e (fold (hardware_step e pn) ops hw)" if "hardware_ok e hw" for hw
    using that by (induction ops arbitrary: hw) (simp_all add: hardware_step_ok [OF assms])
  from this [of no_hardware] show ?thesis by (simp add: hardware_ok_def no_hardware_def)
qed

section \<open>Discovery and curated fields\<close>

text \<open>What a person curates on a node, and what identifies it.\<close>

definition same_curated :: "hardware_node \<Rightarrow> hardware_node \<Rightarrow> bool" where
  "same_curated n m \<longleftrightarrow>
     hn_id m = hn_id n \<and> hn_hostname m = hn_hostname n \<and> hn_display_name m = hn_display_name n \<and>
     hn_role m = hn_role n \<and> hn_gpu_model m = hn_gpu_model n \<and> hn_storage_pools m = hn_storage_pools n \<and>
     hn_tags m = hn_tags n \<and> hn_notes m = hn_notes n \<and> hn_location m = hn_location n \<and>
     hn_ups_backed m = hn_ups_backed n \<and> hn_obtained_at m = hn_obtained_at n \<and>
     hn_cluster_member m = hn_cluster_member n \<and> hn_manual m = hn_manual n"

fun provenance_update :: "node_update \<Rightarrow> bool" where
  "provenance_update (Node_ansible_host v) = True"
| "provenance_update (Node_ansible_groups v) = True"
| "provenance_update (Node_status v) = (v = ''confirmed'')"
| "provenance_update (Node_last_confirmed_at v) = True"
| "provenance_update (Node_last_seen_at v) = True"
| "provenance_update u = discovery_field u"

lemma provenance_same_curated: "provenance_update u \<Longrightarrow> same_curated n (apply_node u n)"
  by (cases u) (auto simp: same_curated_def split: option.split)

lemma fold_same_curated: "list_all provenance_update us \<Longrightarrow> same_curated n (fold apply_node us n)"
proof (induction us arbitrary: n)
  case Nil
  then show ?case by (simp add: same_curated_def)
next
  case (Cons u us)
  then have "same_curated n (apply_node u n)" "same_curated (apply_node u n) (fold apply_node us (apply_node u n))"
    using provenance_same_curated by simp_all
  then show ?case by (simp add: same_curated_def)
qed

definition upsert_updates ::
  "instant \<Rightarrow> pystr option \<Rightarrow> pystr list option \<Rightarrow> node_update list \<Rightarrow> node_update list" where
  "upsert_updates now ah ag us =
     filter discovery_field us @ opt_node Node_ansible_host ah @ opt_node Node_ansible_groups ag @
     [Node_status ''confirmed'', Node_last_confirmed_at (Aware now), Node_last_seen_at (Aware now)]"

lemma discovery_field_provenance: "discovery_field u \<Longrightarrow> provenance_update u \<and> node_valid u \<and> node_mutable u"
  by (cases u) simp_all

lemma upsert_updates_provenance:
  "u \<in> set (upsert_updates now ah ag us) \<Longrightarrow> provenance_update u \<and> node_valid u \<and> node_mutable u"
proof -
  have "node_status_of ''confirmed'' = Some Node_confirmed" using node_status_of_value [of Node_confirmed] by simp
  then show "u \<in> set (upsert_updates now ah ag us) \<Longrightarrow> provenance_update u \<and> node_valid u \<and> node_mutable u"
    by (auto simp: upsert_updates_def opt_node_def discovery_field_provenance split: option.splits)
qed

lemma upsert_status:
  "hn_status (fold apply_node (upsert_updates now ah ag us) n) = Node_confirmed"
  using node_status_of_value [of Node_confirmed] by (simp add: upsert_updates_def)

text \<open>The fields a discovery pass writes.\<close>

definition observed_fields :: "pystr set" where
  "observed_fields =
     {''ip_address'', ''mac_address'', ''os'', ''cpu_model'', ''cpu_cores'', ''ram_gb'', ''storage'',
      ''ansible_host'', ''ansible_groups'', ''status'', ''last_confirmed_at'', ''last_seen_at''}"

text \<open>
  A live discovery pass over a known node confirms it and refreshes only what it observed:
  whatever facts it reports, everything a person curated on the node (display name, role, tags,
  notes, location, pools, ...), its id and its hostname stay, every other node stays as it was,
  and the change log only grows, by entries of this node and this actor for observed fields.
\<close>
lemma discovery_keeps_curated:
  assumes "distinct (map hn_id (hw_nodes hw))" "get_node hostname hw = Some n"
    "upsert_from_discovery e pn now hostname ah ag facts a hw = (hw', result)"
  shows "(\<exists>m. result = Inr (Some m) \<and> same_curated n m \<and> hn_status m = Node_confirmed \<and>
      get_row hn_id (hw_nodes hw') (hn_id n) = Some m) \<and>
    (\<forall>j. j \<noteq> hn_id n \<longrightarrow> get_row hn_id (hw_nodes hw') j = get_row hn_id (hw_nodes hw) j) \<and>
    (\<exists>cs. hw_changes hw' = hw_changes hw @ cs \<and>
      (\<forall>c \<in> set cs. hc_node_id c = Some (hn_id n) \<and> hc_actor c = a \<and>
        hc_field c \<in> observed_fields))"
proof -
  let ?us = "upsert_updates now ah ag facts"
  have pv: "list_all provenance_update ?us" and v: "find (\<lambda>u. \<not> node_valid u) ?us = None"
    and mu: "filter node_mutable ?us = ?us"
    using upsert_updates_provenance [of _ now ah ag facts] by (auto simp: list_all_iff find_None_iff)
  have i: "get_node (hn_id n) hw = Some n"
    using get_row_unique [OF assms(1) get_node_in [OF assms(2)]] by (simp add: get_node_def)
  have u: "upsert_from_discovery e pn now hostname ah ag facts a hw = update_node e pn (hn_id n) ?us a hw"
    by (simp add: upsert_from_discovery_def assms(2) upsert_updates_def)
  let ?r = "fold (node_step e pn a) ?us (n, hw)"
  let ?m = "stored_node ((fold apply_node ?us n)\<lparr>hn_updated_at := Aware (env_clock e (hw_drawn (snd ?r)))\<rparr>)"
  have r: "result = Inr (Some ?m)"
    "hw' = (snd ?r)\<lparr>hw_nodes := put_row hn_id (hn_id n) (\<lambda>_. ?m) (hw_nodes hw)\<rparr>"
    using assms(3) by (simp_all add: u update_node_def Let_def mu v i case_prod_beta)
  have get: "get_row hn_id (hw_nodes hw') j = (if j = hn_id n then Some ?m else get_row hn_id (hw_nodes hw) j)" for j
    using get_row_unique [OF assms(1) get_node_in [OF assms(2)]] by (simp add: r(2) get_row_replace)
  have m: "same_curated n ?m \<and> hn_status ?m = Node_confirmed"
    using fold_same_curated [OF pv, of n] upsert_status [of now ah ag facts n]
    by (simp add: same_curated_def stored_node_def)
  have f: "node_field x \<in> observed_fields" if "provenance_update x" for x
    using that by (cases x) (simp_all add: observed_fields_def)
  obtain cs where cs: "hw_changes hw' = hw_changes hw @ cs"
    "\<forall>c \<in> set cs. hc_node_id c = Some (hn_id n) \<and> hc_field c \<in> node_field ` set ?us \<and> hc_actor c = a"
    using fold_node_step_log [of e pn a ?us "(n, hw)"] r(2) by auto
  have "node_field ` set ?us \<subseteq> observed_fields" using pv f by (auto simp: list_all_iff)
  then have log: "\<forall>c \<in> set cs. hc_node_id c = Some (hn_id n) \<and> hc_actor c = a \<and> hc_field c \<in> observed_fields"
    using cs(2) by blast
  show ?thesis
  proof (intro conjI)
    show "\<exists>m. result = Inr (Some m) \<and> same_curated n m \<and> hn_status m = Node_confirmed \<and>
        get_row hn_id (hw_nodes hw') (hn_id n) = Some m"
      using m get [of "hn_id n"] r(1) by (intro exI [of _ ?m]) simp
    show "\<forall>j. j \<noteq> hn_id n \<longrightarrow> get_row hn_id (hw_nodes hw') j = get_row hn_id (hw_nodes hw) j"
      using get by simp
  qed (use cs(1) log in blast)
qed

definition plain_printer :: printer where
  "plain_printer = \<lparr>pn_json = (\<lambda>j. []), pn_float = (\<lambda>q. []), pn_time = (\<lambda>t. [])\<rparr>"

definition count_env :: env where
  "count_env = \<lparr>env_uuid = (\<lambda>k. replicate k (CHR ''i'')), env_clock = int\<rparr>"

lemma count_env_inj: "inj (env_uuid count_env)"
proof (rule injI)
  fix x y assume "env_uuid count_env x = env_uuid count_env y"
  then have "length (replicate x (CHR ''i'')) = length (replicate y (CHR ''i''))" by (simp add: count_env_def)
  then show "x = y" by simp
qed

theorem hardware_unique_witness:
  "distinct (map hn_hostname (hw_nodes (fold (hardware_step count_env plain_printer)
     [Op_create (new_node ''pi'' ''Pi'') ''m'', Op_upsert 5 ''pi'' None None [Node_os ''Debian''] ''ansible''] no_hardware)))"
  by (rule hardware_unique [OF count_env_inj, THEN conjunct2])

end
