(* ===== verification/AnsibleFacts.thy ===== *)
theory AnsibleFacts
  imports Hardware GitCrypt
begin

text \<open>
  \<open>hardware/ansible_facts.py\<close> and \<open>discover_now\<close> of \<open>tools/hardware.py\<close>: one live
  fact-gathering pass. The \<open>ansible\<close> process, the JSON reader, \<open>str\<close> of a value that is no
  text and Python's \<open>round(x, 2)\<close> are parameters; arithmetic on floats is exact. Facts of
  another type than the column they go to, and an exception of the code, are \<open>None\<close>.
\<close>

section \<open>Reading the output\<close>

definition is_status_char :: "char \<Rightarrow> bool" where
  "is_status_char c \<longleftrightarrow> is_ascii_upper c \<or> c = CHR ''!''"

text \<open>What follows the host: \<open>\s*\|\s*([A-Z!]+)\s*=>\s*(\{.*\})\s*$\<close>.\<close>

definition match_after_host :: "pystr \<Rightarrow> (pystr \<times> pystr) option" where
  "match_after_host r =
     (let a = dropWhile is_space r in
      if \<not> starts_with a ''|'' then None
      else (let b = dropWhile is_space (drop 1 a);
                status = takeWhile is_status_char b;
                c = dropWhile is_space (dropWhile is_status_char b)
            in if status = [] \<or> \<not> starts_with c ''=>'' then None
               else (let j = rstrip_by is_space (dropWhile is_space (drop 2 c)) in
                     if 2 \<le> length j \<and> hd j = CHR 0x7B \<and> last j = CHR 0x7D
                     then Some (status, j) else None)))"

text \<open>\<open>^\S+\<close> takes as many characters as it can, and gives back while the rest does not match.\<close>

fun match_host :: "nat \<Rightarrow> pystr \<Rightarrow> (pystr \<times> pystr \<times> pystr) option" where
  "match_host 0 line = None"
| "match_host (Suc n) line =
     (case match_after_host (drop (Suc n) line) of
        Some (status, j) \<Rightarrow> Some (take (Suc n) line, status, j)
      | None \<Rightarrow> match_host n line)"

definition match_one_line :: "pystr \<Rightarrow> (pystr \<times> pystr \<times> pystr) option" where
  "match_one_line line = match_host (length (takeWhile (\<lambda>c. \<not> is_space c) line)) line"

type_synonym gathered = "(pystr \<times> json) list \<times> (pystr \<times> pystr) list"

definition setup_line ::
  "(pystr \<Rightarrow> json option) \<Rightarrow> (json \<Rightarrow> pystr) \<Rightarrow> pystr \<Rightarrow> gathered \<Rightarrow> gathered" where
  "setup_line loads str line fg =
     (case match_one_line (strip line) of
        None \<Rightarrow> fg
      | Some (host, status, j) \<Rightarrow>
          (case loads j of
             None \<Rightarrow> (fst fg, dict_set host (''unparseable '' @ status @ '' response'') (snd fg))
           | Some payload \<Rightarrow>
               if status = ''SUCCESS'' \<and> \<not> json_falsy (json_get payload ''ansible_facts'')
               then (dict_set host (the (json_get payload ''ansible_facts'')) (fst fg), snd fg)
               else (fst fg,
                     dict_set host
                       (case json_get payload ''msg'' of
                          None \<Rightarrow> status
                        | Some (JStr m) \<Rightarrow> m
                        | Some v \<Rightarrow> str v) (snd fg))))"

definition parse_setup_output ::
  "(pystr \<Rightarrow> json option) \<Rightarrow> (json \<Rightarrow> pystr) \<Rightarrow> pystr \<Rightarrow> gathered" where
  "parse_setup_output loads str stdout = fold (setup_line loads str) (splitlines stdout) ([], [])"

section \<open>Running \<open>ansible\<close>\<close>

datatype facts_error =
    Facts_option_pattern pystr
  | Facts_no_cli
  | Facts_stderr pystr
  | Facts_exit int pystr

datatype facts_run = Facts_ran int pystr pystr | Facts_not_found

definition gather_argv :: "pystr \<Rightarrow> pystr \<Rightarrow> int \<Rightarrow> pystr \<Rightarrow> pystr list" where
  "gather_argv key user timeout pattern =
     [''ansible'', ''-m'', ''setup'', ''-o'', ''--private-key'', key, ''-u'', user, ''-e'',
      ''ansible_ssh_timeout='' @ show_int timeout, ''--'', pattern]"

definition gather_facts ::
  "(pystr \<Rightarrow> json option) \<Rightarrow> (json \<Rightarrow> pystr) \<Rightarrow> (pystr list \<Rightarrow> facts_run) \<Rightarrow> pystr \<Rightarrow> pystr \<Rightarrow> int \<Rightarrow> pystr
     \<Rightarrow> pystr list list \<times> (facts_error + gathered)" where
  "gather_facts loads str run key user timeout pattern =
     (if starts_with pattern ''-'' then ([], Inl (Facts_option_pattern pattern))
      else
        (let argv = gather_argv key user timeout pattern in
         ([argv],
          case run argv of
            Facts_not_found \<Rightarrow> Inl Facts_no_cli
          | Facts_ran rc out err \<Rightarrow>
              if strip out = [] \<and> strip err \<noteq> [] then Inl (Facts_stderr (strip err))
              else (let fg = parse_setup_output loads str out in
                    if rc \<noteq> 0 \<and> fst fg = [] \<and> snd fg = []
                    then Inl (Facts_exit rc (strip (if err \<noteq> [] then err else out)))
                    else Inr fg))))"

section \<open>Facts to fields\<close>

text \<open>A fact that is to be text: absent or falsy, the text, or of another type (\<open>None\<close>).\<close>

definition text_fact :: "json \<Rightarrow> pystr \<Rightarrow> pystr option option" where
  "text_fact facts k =
     (if json_falsy (json_get facts k) then Some None
      else case json_get facts k of Some (JStr s) \<Rightarrow> Some (Some s) | _ \<Rightarrow> None)"

definition hostname_from_facts :: "json \<Rightarrow> pystr option option" where
  "hostname_from_facts facts =
     (case text_fact facts ''ansible_hostname'' of
        Some None \<Rightarrow> text_fact facts ''ansible_fqdn''
      | r \<Rightarrow> r)"

definition json_text :: "(json \<Rightarrow> pystr) \<Rightarrow> json \<Rightarrow> pystr" where
  "json_text str v = (case v of JStr s \<Rightarrow> s | JInt n \<Rightarrow> show_int n | _ \<Rightarrow> str v)"

text \<open>\<open>max(xs, key=len)\<close>: the first of the longest.\<close>

fun longest :: "pystr \<Rightarrow> pystr list \<Rightarrow> pystr" where
  "longest best [] = best"
| "longest best (x # xs) = longest (if length best < length x then x else best) xs"

definition cpu_model_of :: "(json \<Rightarrow> pystr) \<Rightarrow> json option \<Rightarrow> pystr option" where
  "cpu_model_of str processor =
     (case processor of
        Some (JList (p # ps)) \<Rightarrow>
          (let m = longest (json_text str p) (map (json_text str) ps)
           in if m = [] then None else Some m)
      | _ \<Rightarrow> None)"

text \<open>\<open>float\<close> of digits and dots: \<open>None\<close> is the \<open>ValueError\<close> of no digit or a second dot.\<close>

definition parse_decimal :: "pystr \<Rightarrow> rat option" where
  "parse_decimal s =
     (case partition_at (CHR ''.'') s of (a, dot, b) \<Rightarrow>
        if CHR ''.'' \<in> set b \<or> a @ b = [] then None
        else Some (of_nat (foldl (\<lambda>n c. 10 * n + (code_point c - 48)) 0 (a @ b)) / 10 ^ length b))"

definition size_scale :: "pystr \<Rightarrow> rat" where
  "size_scale u =
     (if u = ''B'' then 1 / 10 ^ 9 else if u = ''KB'' then 1 / 10 ^ 6 else if u = ''MB'' then 1 / 10 ^ 3
      else if u = ''TB'' then 10 ^ 3 else 1)"

text \<open>\<open>Some None\<close>: no size; \<open>None\<close>: an exception.\<close>

definition size_to_gb :: "(rat \<Rightarrow> rat) \<Rightarrow> (json \<Rightarrow> pystr) \<Rightarrow> json option \<Rightarrow> rat option option" where
  "size_to_gb round2 str reported =
     (if json_falsy reported then Some None
      else
        (let s = strip (json_text str (the reported));
             num = takeWhile (\<lambda>c. is_ascii_digit c \<or> c = CHR ''.'') s;
             r = dropWhile is_space (drop (length num) s);
             unit = (if starts_with r ''B'' then ''B''
                     else if r \<noteq> [] \<and> hd r \<in> set ''KMGT'' \<and> starts_with (drop 1 r) ''B''
                       then [hd r, CHR ''B''] else [])
         in if num = [] \<or> unit = [] then Some None
            else map_option (\<lambda>q. Some (round2 (q * size_scale unit))) (parse_decimal num)))"

definition disk_type :: "pystr \<Rightarrow> json \<Rightarrow> pystr" where
  "disk_type name info =
     (if starts_with name ''nvme'' then ''nvme''
      else if json_get info ''rotational'' = Some (JStr ''0'') then ''ssd''
      else if json_get info ''rotational'' = Some (JStr ''1'') then ''hdd''
      else ''unknown'')"

definition skipped_device :: "pystr \<Rightarrow> bool" where
  "skipped_device name \<longleftrightarrow> list_ex (starts_with name) [''loop'', ''sr'', ''dm-'', ''zd'', ''ram'']"

text \<open>One device: no disk, the dumped \<open>StorageDisk\<close>, or an exception.\<close>

definition disk_of ::
  "(rat \<Rightarrow> rat) \<Rightarrow> (json \<Rightarrow> pystr) \<Rightarrow> pystr \<times> json \<Rightarrow> json list option" where
  "disk_of round2 str ni =
     (case ni of (name, info) \<Rightarrow>
        (case info of
           JObj kvs \<Rightarrow>
             if skipped_device name then Some []
             else (case size_to_gb round2 str (json_get info ''size'') of
                     None \<Rightarrow> None
                   | Some None \<Rightarrow> Some []
                   | Some (Some gb) \<Rightarrow>
                       (case text_fact info ''model'' of
                          None \<Rightarrow> None
                        | Some m \<Rightarrow>
                            Some [JObj [(''device'', JStr (''/dev/'' @ name)),
                              (''model'', case m of None \<Rightarrow> JNull | Some s \<Rightarrow> JStr s),
                              (''size_gb'', JFloat gb), (''type'', JStr (disk_type name info)),
                              (''pool'', JNull)]]))
         | _ \<Rightarrow> Some []))"

definition disks_from_devices ::
  "(rat \<Rightarrow> rat) \<Rightarrow> (json \<Rightarrow> pystr) \<Rightarrow> json option \<Rightarrow> json list option" where
  "disks_from_devices round2 str devices =
     (if json_falsy devices then Some []
      else case devices of Some (JObj kvs) \<Rightarrow> collect (disk_of round2 str) kvs | _ \<Rightarrow> None)"

definition opt_field :: "('a \<Rightarrow> node_update) \<Rightarrow> 'a option option \<Rightarrow> node_update list option" where
  "opt_field f v = map_option (opt_node f) v"

definition address_fields :: "json \<Rightarrow> node_update list option" where
  "address_fields facts =
     (let ip = json_get facts ''ansible_default_ipv4'' in
      if json_falsy ip then Some []
      else case ip of
        Some (JObj kvs) \<Rightarrow>
          (case (opt_field Node_ip_address (text_fact (JObj kvs) ''address''),
                 opt_field Node_mac_address (text_fact (JObj kvs) ''macaddress'')) of
             (Some a, Some m) \<Rightarrow> Some (a @ m)
           | _ \<Rightarrow> None)
      | _ \<Rightarrow> None)"

definition os_fields :: "json \<Rightarrow> node_update list option" where
  "os_fields facts =
     (case (text_fact facts ''ansible_distribution'', text_fact facts ''ansible_distribution_version'') of
        (Some None, _) \<Rightarrow> Some []
      | (Some (Some d), Some None) \<Rightarrow> Some [Node_os d]
      | (Some (Some d), Some (Some v)) \<Rightarrow> Some [Node_os (strip (d @ '' '' @ v))]
      | _ \<Rightarrow> None)"

definition core_fields :: "json \<Rightarrow> node_update list option" where
  "core_fields facts =
     (let v = (if json_falsy (json_get facts ''ansible_processor_vcpus'')
               then json_get facts ''ansible_processor_cores''
               else json_get facts ''ansible_processor_vcpus'')
      in if json_falsy v then Some []
         else case v of Some (JInt n) \<Rightarrow> Some [Node_cpu_cores n] | _ \<Rightarrow> None)"

definition ram_fields :: "(rat \<Rightarrow> rat) \<Rightarrow> json \<Rightarrow> node_update list option" where
  "ram_fields round2 facts =
     (let v = json_get facts ''ansible_memtotal_mb'' in
      if json_falsy v then Some []
      else case v of
        Some (JInt n) \<Rightarrow> Some [Node_ram_gb (round2 (of_int n / 1024))]
      | Some (JFloat q) \<Rightarrow> Some [Node_ram_gb (round2 (q / 1024))]
      | _ \<Rightarrow> None)"

definition node_fields_from_facts ::
  "(rat \<Rightarrow> rat) \<Rightarrow> (json \<Rightarrow> pystr) \<Rightarrow> json \<Rightarrow> node_update list option" where
  "node_fields_from_facts round2 str facts =
     map_option concat
       (those [address_fields facts, os_fields facts,
          Some (opt_node Node_cpu_model (cpu_model_of str (json_get facts ''ansible_processor''))),
          core_fields facts, ram_fields round2 facts,
          map_option (\<lambda>ds. if ds = [] then [] else [Node_storage ds])
            (disks_from_devices round2 str (json_get facts ''ansible_devices''))])"

section \<open>One pass\<close>

record facts_world =
  fx_cfg_path :: "pystr option"
  fx_key_path :: "pystr option"
  fx_user :: pystr
  fx_loads :: "pystr \<Rightarrow> json option"
  fx_str :: "json \<Rightarrow> pystr"
  fx_round :: "rat \<Rightarrow> rat"
  fx_run :: "pystr list \<Rightarrow> facts_run"
  fx_env :: env
  fx_printer :: printer
  fx_clock :: "nat \<Rightarrow> instant"

datatype discover_reply =
    Discover_read_only
  | Discover_unconfigured
  | Discover_failed facts_error
  | Discovered_nodes "pystr list" "pystr list" "(pystr \<times> pystr) list"

text \<open>One host of the pass. \<open>None\<close>: an exception left \<open>discover_now\<close>.\<close>

definition discover_host ::
  "facts_world \<Rightarrow> pystr \<times> json \<Rightarrow> hardware \<Rightarrow> (hardware \<times> bool \<times> pystr) option" where
  "discover_host x hf hw =
     (case (hostname_from_facts (snd hf), node_fields_from_facts (fx_round x) (fx_str x) (snd hf)) of
        (Some h, Some facts) \<Rightarrow>
          (let hostname = (case h of None \<Rightarrow> fst hf | Some n \<Rightarrow> n) in
           case upsert_from_discovery (fx_env x) (fx_printer x) (fx_clock x (hw_drawn hw)) hostname None None
                  facts ''ansible'' hw of
             (hw1, Inr (Some n)) \<Rightarrow> Some (hw1, get_node hostname hw = None, hn_hostname n)
           | _ \<Rightarrow> None)
      | _ \<Rightarrow> None)"

fun discover_hosts ::
  "facts_world \<Rightarrow> (pystr \<times> json) list \<Rightarrow> hardware \<Rightarrow> pystr list \<Rightarrow> pystr list
     \<Rightarrow> hardware \<times> (pystr list \<times> pystr list) option" where
  "discover_hosts x [] hw made renewed = (hw, Some (made, renewed))"
| "discover_hosts x (hf # hfs) hw made renewed =
     (case discover_host x hf hw of
        None \<Rightarrow> (hw, None)
      | Some (hw1, fresh, n) \<Rightarrow>
          if fresh then discover_hosts x hfs hw1 (made @ [n]) renewed
          else discover_hosts x hfs hw1 made (renewed @ [n]))"

definition discover_now ::
  "facts_world \<Rightarrow> pystr option \<Rightarrow> hardware \<Rightarrow> hardware \<times> pystr list list \<times> discover_reply option" where
  "discover_now x host hw =
     (if \<not> truthy (fx_cfg_path x) \<or> \<not> truthy (fx_key_path x) then (hw, [], Some Discover_unconfigured)
      else case gather_facts (fx_loads x) (fx_str x) (fx_run x) (the (fx_key_path x)) (fx_user x) 15
                  (if truthy host then the host else ''all'') of
        (cmds, Inl e) \<Rightarrow> (hw, cmds, Some (Discover_failed e))
      | (cmds, Inr (facts_by_host, failures)) \<Rightarrow>
          (case discover_hosts x facts_by_host hw [] [] of
             (hw1, None) \<Rightarrow> (hw1, cmds, None)
           | (hw1, Some (made, renewed)) \<Rightarrow>
               (hw1, cmds, Some (Discovered_nodes made renewed failures))))"

definition hardware_discover_now ::
  "facts_world \<Rightarrow> bool \<Rightarrow> pystr option \<Rightarrow> hardware \<Rightarrow> hardware \<times> pystr list list \<times> discover_reply option" where
  "hardware_discover_now x read_only host hw =
     (if read_only then (hw, [], Some Discover_read_only) else discover_now x host hw)"

section \<open>What a pass does\<close>

text \<open>Every node is still there with its curated fields, and ids stay unique.\<close>

definition nodes_kept :: "hardware \<Rightarrow> hardware \<Rightarrow> bool" where
  "nodes_kept hw hw' \<longleftrightarrow>
     (\<forall>n \<in> set (hw_nodes hw). \<exists>m \<in> set (hw_nodes hw'). same_curated n m)"

lemma nodes_kept_refl [simp]: "nodes_kept hw hw"
  by (auto simp: nodes_kept_def same_curated_def)

lemma nodes_kept_trans: "nodes_kept hw hw1 \<Longrightarrow> nodes_kept hw1 hw2 \<Longrightarrow> nodes_kept hw hw2"
  unfolding nodes_kept_def same_curated_def by metis

lemma nodes_kept_subset: "set (hw_nodes hw) \<subseteq> set (hw_nodes hw') \<Longrightarrow> nodes_kept hw hw'"
  unfolding nodes_kept_def same_curated_def by blast

lemma create_node_subset: "set (hw_nodes hw) \<subseteq> set (hw_nodes (fst (create_node e n a hw)))"
  by (auto simp: create_node_def Let_def)

lemma upsert_nodes_kept:
  assumes "hardware_ok e hw" "upsert_from_discovery e pn now h ah ag facts a hw = (hw', r)"
  shows "nodes_kept hw hw'"
proof (cases "get_node h hw")
  case None
  obtain k where "hw' = fst (create_node e k a hw)"
    using assms(2) None
    by (simp add: upsert_from_discovery_def Let_def case_prod_beta) blast
  then show ?thesis using nodes_kept_subset [OF create_node_subset] by simp
next
  case (Some n)
  have d: "distinct (map hn_id (hw_nodes hw))" using assms(1) by (simp add: hardware_ok_def)
  have up: "(\<exists>m. r = Inr (Some m) \<and> same_curated n m \<and> hn_status m = Node_confirmed \<and>
      get_row hn_id (hw_nodes hw') (hn_id n) = Some m) \<and>
    (\<forall>j. j \<noteq> hn_id n \<longrightarrow> get_row hn_id (hw_nodes hw') j = get_row hn_id (hw_nodes hw) j)"
    using discovery_keeps_curated [OF d Some assms(2)] by blast
  show ?thesis
    unfolding nodes_kept_def
  proof
    fix k assume k: "k \<in> set (hw_nodes hw)"
    show "\<exists>m \<in> set (hw_nodes hw'). same_curated k m"
    proof (cases "hn_id k = hn_id n")
      case True
      then have "k = n" using distinct_map_unique [OF d k get_node_in [OF Some]] by simp
      then show ?thesis using up by (auto dest: get_row_SomeD)
    next
      case False
      then have "get_row hn_id (hw_nodes hw') (hn_id k) = Some k"
        using up get_row_unique [OF d k] by simp
      then show ?thesis by (auto simp: same_curated_def dest: get_row_SomeD)
    qed
  qed
qed

lemma discover_host_kept:
  assumes "inj (env_uuid (fx_env x))" "hardware_ok (fx_env x) hw" "discover_host x hf hw = Some (hw1, b, n)"
  shows "hardware_ok (fx_env x) hw1 \<and> nodes_kept hw hw1"
proof -
  obtain now h facts r where u:
    "upsert_from_discovery (fx_env x) (fx_printer x) now h None None facts ''ansible'' hw = (hw1, r)"
    using assms(3) by (auto simp: discover_host_def Let_def split: option.splits prod.splits sum.splits)
  then have "hw1 = hardware_step (fx_env x) (fx_printer x) (Op_upsert now h None None facts ''ansible'') hw"
    by simp
  then show ?thesis
    using hardware_step_ok [OF assms(1,2)] upsert_nodes_kept [OF assms(2) u] by metis
qed

lemma discover_hosts_kept:
  assumes "inj (env_uuid (fx_env x))" "hardware_ok (fx_env x) hw"
  shows "hardware_ok (fx_env x) (fst (discover_hosts x hfs hw cs us)) \<and>
    nodes_kept hw (fst (discover_hosts x hfs hw cs us))"
  using assms(2)
proof (induction hfs arbitrary: hw cs us)
  case (Cons hf hfs)
  show ?case
  proof (cases "discover_host x hf hw")
    case None
    then show ?thesis using Cons.prems by simp
  next
    case (Some t)
    obtain hw1 b n where t: "t = (hw1, b, n)" by (cases t)
    have k: "hardware_ok (fx_env x) hw1" "nodes_kept hw hw1"
      using discover_host_kept [OF assms(1) Cons.prems] Some t by simp_all
    show ?thesis
      using Cons.IH [OF k(1)] nodes_kept_trans [OF k(2)] by (simp add: Some t)
  qed
qed simp

lemma gather_commands:
  "cmd \<in> set (fst (gather_facts loads str run key user t pattern)) \<Longrightarrow>
     \<not> starts_with pattern ''-'' \<and> cmd = gather_argv key user t pattern"
  by (auto simp: gather_facts_def Let_def split: if_splits)

lemma discover_now_result:
  assumes "hardware_discover_now x read_only host hw = (hw', cmds, reply)"
  shows "(hw' = hw \<or> (\<exists>hfs. hw' = fst (discover_hosts x hfs hw [] []))) \<and>
    (cmds = [] \<or> (\<exists>p. cmds = fst (gather_facts (fx_loads x) (fx_str x) (fx_run x)
      (the (fx_key_path x)) (fx_user x) 15 p)))"
proof -
  obtain p where p: "p = (if truthy host then the host else ''all'')" by blast
  obtain cs r where g: "gather_facts (fx_loads x) (fx_str x) (fx_run x) (the (fx_key_path x)) (fx_user x) 15 p = (cs, r)"
    by (cases "gather_facts (fx_loads x) (fx_str x) (fx_run x) (the (fx_key_path x)) (fx_user x) 15 p")
  have c: "cs = fst (gather_facts (fx_loads x) (fx_str x) (fx_run x) (the (fx_key_path x)) (fx_user x) 15 p)"
    using g by simp
  note run = assms [unfolded hardware_discover_now_def discover_now_def p [symmetric] g]
  show ?thesis
  proof (cases r)
    case (Inl e)
    then show ?thesis
      using run c by (auto split: if_splits)
  next
    case (Inr fg)
    obtain hfs fails where fg: "fg = (hfs, fails)" by (cases fg)
    obtain hw1 q where d: "discover_hosts x hfs hw [] [] = (hw1, q)" by (cases "discover_hosts x hfs hw [] []")
    have h: "hw1 = fst (discover_hosts x hfs hw [] [])" using d by simp
    have "hw' \<in> {hw, hw1}" "cmds \<in> {[], cs}"
      using run Inr fg d by (auto split: if_splits option.splits)
    then show ?thesis using c h by blast
  qed
qed

text \<open>
  A live discovery pass over the whole inventory loses nothing a person entered: whatever the
  hosts report, and even when an exception ends the pass early, every node is still registered
  with its hostname, display name, role, tags, notes and other curated fields; the only process
  started is one \<open>ansible -m setup\<close> whose pattern stands after \<open>--\<close> and is no option; in
  read-only mode nothing happens.
\<close>
theorem discovery_pass_keeps_curated:
  assumes "inj (env_uuid (fx_env x))" "hardware_ok (fx_env x) hw"
    "hardware_discover_now x read_only host hw = (hw', cmds, reply)"
  shows "(\<forall>n \<in> set (hw_nodes hw). \<exists>m \<in> set (hw_nodes hw'). same_curated n m) \<and>
    (read_only \<longrightarrow> hw' = hw \<and> cmds = []) \<and>
    (cmd \<in> set cmds \<longrightarrow> (\<exists>pattern. \<not> starts_with pattern ''-'' \<and>
      drop (length cmd - 2) cmd = [''--'', pattern] \<and> take 3 cmd = [''ansible'', ''-m'', ''setup'']))"
proof (intro conjI impI)
  have "hw' = hw \<or> (\<exists>hfs. hw' = fst (discover_hosts x hfs hw [] []))"
    using assms(3) by (auto dest!: discover_now_result)
  then have "nodes_kept hw hw'" using discover_hosts_kept [OF assms(1,2)] by auto
  then show "\<forall>n \<in> set (hw_nodes hw). \<exists>m \<in> set (hw_nodes hw'). same_curated n m"
    by (simp add: nodes_kept_def)
  show "hw' = hw" "cmds = []" if read_only using that assms(3) by (simp_all add: hardware_discover_now_def)
  assume "cmd \<in> set cmds"
  then obtain p where "cmd \<in> set (fst (gather_facts (fx_loads x) (fx_str x) (fx_run x)
      (the (fx_key_path x)) (fx_user x) 15 p))"
    using assms(3) by (auto dest!: discover_now_result)
  then have "\<not> starts_with p ''-''" "cmd = gather_argv (the (fx_key_path x)) (fx_user x) 15 p"
    by (auto dest: gather_commands)
  then show "\<exists>pattern. \<not> starts_with pattern ''-'' \<and>
      drop (length cmd - 2) cmd = [''--'', pattern] \<and> take 3 cmd = [''ansible'', ''-m'', ''setup'']"
    by (intro exI [of _ p]) (simp add: gather_argv_def)
qed

definition example_facts :: facts_world where
  "example_facts =
     \<lparr>fx_cfg_path = Some ''c'', fx_key_path = Some ''k'', fx_user = ''root'',
      fx_loads = (\<lambda>j. Some (JObj [(''ansible_facts'', JObj [(''ansible_hostname'', JStr ''pi''),
        (''ansible_distribution'', JStr ''Debian'')])])),
      fx_str = (\<lambda>j. []), fx_round = id, fx_run = (\<lambda>c. Facts_ran 0 ''h | SUCCESS => {}'' []),
      fx_env = count_env, fx_printer = plain_printer, fx_clock = int\<rparr>"

definition example_nodes :: hardware where
  "example_nodes =
     \<lparr>hw_nodes = [(new_node ''pi'' ''Pi'')\<lparr>hn_id := env_uuid count_env 0, hn_notes := ''mine''\<rparr>],
      hw_changes = [], hw_drawn = 1\<rparr>"

theorem discovery_pass_keeps_curated_witness:
  "\<exists>hw' cmds m. hardware_discover_now example_facts False None example_nodes =
      (hw', cmds, Some (Discovered_nodes [] [''pi''] [])) \<and>
    m \<in> set (hw_nodes hw') \<and> hn_os m = Some ''Debian'' \<and> hn_notes m = ''mine''"
proof -
  let ?r = "hardware_discover_now example_facts False None example_nodes"
  have "snd (snd ?r) = Some (Discovered_nodes [] [''pi''] [])" by code_simp
  then obtain hw' cmds where r: "?r = (hw', cmds, Some (Discovered_nodes [] [''pi''] []))"
    by (metis prod.collapse)
  have "map hn_os (hw_nodes (fst ?r)) = [Some ''Debian'']" by code_simp
  then have os: "map hn_os (hw_nodes hw') = [Some ''Debian'']" by (simp only: r fst_conv)
  have i: "inj (env_uuid (fx_env example_facts))" by (simp add: example_facts_def count_env_inj)
  have ok: "hardware_ok (fx_env example_facts) example_nodes"
    by (simp add: hardware_ok_def example_nodes_def example_facts_def new_node_def)
  have "\<forall>n \<in> set (hw_nodes example_nodes). \<exists>m \<in> set (hw_nodes hw'). same_curated n m"
    using discovery_pass_keeps_curated [OF i ok r] by blast
  then obtain m where "m \<in> set (hw_nodes hw')" "hn_notes m = ''mine''"
    by (auto simp: example_nodes_def same_curated_def)
  moreover have "hn_os m = Some ''Debian''" using os \<open>m \<in> set (hw_nodes hw')\<close> by (cases "hw_nodes hw'") auto
  ultimately show ?thesis using r by blast
qed

end
