(* ===== verification/InventoryWriter.thy ===== *)
theory InventoryWriter
  imports Yaml GitCrypt AnsibleFacts InventoryGate
begin

text \<open>
  \<open>inventory/writer.py\<close> and \<open>tools/ansible_inventory.py\<close>: one host's entry in the Ansible
  inventory, behind the arithmetic challenge. The inventory is the document the YAML library
  reads; that it keeps comments and quoting is the library's promise and not modelled.
\<close>

section \<open>Editing the document\<close>

datatype inventory_write_error = Not_a_mapping pystr | Document_not_mapping | Inventory_unreadable

type_synonym entries = "(yaml \<times> yaml) list"

text \<open>
  \<open>_child_map\<close> followed by an edit of the child: a missing or null child is an empty mapping,
  anything but a mapping is refused.
\<close>

definition with_child ::
  "pystr \<Rightarrow> (entries \<Rightarrow> inventory_write_error + entries) \<Rightarrow> entries \<Rightarrow> inventory_write_error + entries" where
  "with_child k f parent =
     (let store = map_sum id (\<lambda>sub. dict_set (Y_str k) (Y_map sub) parent) in
      case yaml_get parent k of
        None \<Rightarrow> store (f [])
      | Some Y_null \<Rightarrow> store (f [])
      | Some (Y_map kvs) \<Rightarrow> store (f kvs)
      | _ \<Rightarrow> Inl (Not_a_mapping k))"

definition set_host :: "pystr option \<Rightarrow> entries \<Rightarrow> inventory_write_error + entries" where
  "set_host ansible_host block =
     Inr (if truthy ansible_host
          then dict_set (Y_str ''ansible_host'') (Y_str (the ansible_host)) block else block)"

definition join_group :: "pystr \<Rightarrow> entries \<Rightarrow> inventory_write_error + entries" where
  "join_group hostname group_hosts =
     Inr (if Y_str hostname \<in> fst ` set group_hosts then group_hosts
          else dict_set (Y_str hostname) (Y_map []) group_hosts)"

fun join_groups :: "pystr \<Rightarrow> pystr list \<Rightarrow> entries \<Rightarrow> inventory_write_error + entries" where
  "join_groups hostname [] children = Inr children"
| "join_groups hostname (g # gs) children =
     (case with_child g (with_child ''hosts'' (join_group hostname)) children of
        Inl e \<Rightarrow> Inl e
      | Inr c \<Rightarrow> join_groups hostname gs c)"

definition upsert_root ::
  "pystr \<Rightarrow> pystr option \<Rightarrow> pystr list \<Rightarrow> entries \<Rightarrow> inventory_write_error + entries" where
  "upsert_root hostname ansible_host gs doc_root =
     (case with_child ''hosts'' (with_child hostname (set_host ansible_host)) doc_root of
        Inl e \<Rightarrow> Inl e
      | Inr r1 \<Rightarrow>
          if gs \<noteq> [] then with_child ''children'' (join_groups hostname gs) r1 else Inr r1)"

text \<open>The file: missing, unreadable as YAML, or a document.\<close>

datatype inventory_file = Inv_missing | Inv_unreadable | Inv_doc yaml

definition load_inventory :: "inventory_file \<Rightarrow> inventory_write_error + entries" where
  "load_inventory f =
     (case f of
        Inv_missing \<Rightarrow> Inr [(Y_str ''all'', Y_map [(Y_str ''hosts'', Y_map [])])]
      | Inv_unreadable \<Rightarrow> Inl Inventory_unreadable
      | Inv_doc Y_null \<Rightarrow> Inr []
      | Inv_doc (Y_map kvs) \<Rightarrow> Inr kvs
      | Inv_doc _ \<Rightarrow> Inl Document_not_mapping)"

definition upsert_doc ::
  "pystr \<Rightarrow> pystr option \<Rightarrow> pystr list \<Rightarrow> inventory_file \<Rightarrow> inventory_write_error + entries" where
  "upsert_doc hostname ansible_host gs f =
     (case load_inventory f of
        Inl e \<Rightarrow> Inl e
      | Inr d \<Rightarrow> with_child ''all'' (upsert_root hostname ansible_host gs) d)"

section \<open>The atomic write\<close>

text \<open>Where the write can fail; the temporary file is removed then and the exception goes on.\<close>

datatype write_fault = No_fault | Fault_dump | Fault_chmod | Fault_replace

record inventory_dir =
  iv_file :: inventory_file
  iv_tmp :: bool

definition dump_inventory :: "write_fault \<Rightarrow> entries \<Rightarrow> inventory_dir \<Rightarrow> inventory_dir \<times> bool" where
  "dump_inventory fault d s =
     (let s1 = s\<lparr>iv_tmp := True\<rparr> in
      if fault = Fault_dump \<or> (fault = Fault_chmod \<and> iv_file s \<noteq> Inv_missing) \<or> fault = Fault_replace
      then (s1\<lparr>iv_tmp := False\<rparr>, False)
      else (s1\<lparr>iv_file := Inv_doc (Y_map d), iv_tmp := False\<rparr>, True))"

datatype upsert_outcome = Upsert_refused inventory_write_error | Upsert_raised | Upsert_written

definition upsert_host ::
  "write_fault \<Rightarrow> pystr \<Rightarrow> pystr option \<Rightarrow> pystr list \<Rightarrow> inventory_dir \<Rightarrow> inventory_dir \<times> upsert_outcome" where
  "upsert_host fault hostname ansible_host gs s =
     (case upsert_doc hostname ansible_host gs (iv_file s) of
        Inl e \<Rightarrow> (s, Upsert_refused e)
      | Inr d \<Rightarrow>
          (case dump_inventory fault d s of
             (s1, True) \<Rightarrow> (s1, Upsert_written)
           | (s1, False) \<Rightarrow> (s1, Upsert_raised)))"

section \<open>The tool pair\<close>

record sync_world =
  sy_nodes :: hardware
  sy_gate :: inventory_table
  sy_dir :: inventory_dir

datatype sync_reply =
    Sync_read_only
  | Sync_no_path
  | Sync_no_node pystr
  | Sync_challenge pending_inventory_write
  | Sync_gate_error inventory_error
  | Sync_gone pystr
  | Sync_refused inventory_write_error
  | Sync_raised
  | Synced pystr "pystr option" "pystr list"

definition inventory_sync_node ::
  "bool \<Rightarrow> pystr option \<Rightarrow> int \<Rightarrow> instant \<Rightarrow> pystr \<Rightarrow> int \<Rightarrow> int \<Rightarrow> pystr \<Rightarrow> sync_world
     \<Rightarrow> sync_world \<times> sync_reply" where
  "inventory_sync_node read_only path ttl now rid x y id_or_hostname w =
     (if read_only then (w, Sync_read_only)
      else if \<not> truthy path then (w, Sync_no_path)
      else case get_node id_or_hostname (sy_nodes w) of
        None \<Rightarrow> (w, Sync_no_node id_or_hostname)
      | Some n \<Rightarrow>
          (case inventory_request now rid x y (hn_id n) (hn_hostname n)
                  ''manual:ansible_inventory_sync_node'' ttl (sy_gate w) of
             (t, Inl e) \<Rightarrow> (w\<lparr>sy_gate := t\<rparr>, Sync_gate_error e)
           | (t, Inr c) \<Rightarrow> (w\<lparr>sy_gate := t\<rparr>, Sync_challenge c)))"

definition inventory_sync_confirm ::
  "bool \<Rightarrow> pystr option \<Rightarrow> write_fault \<Rightarrow> instant \<Rightarrow> pystr \<Rightarrow> int \<Rightarrow> sync_world \<Rightarrow> sync_world \<times> sync_reply" where
  "inventory_sync_confirm read_only path fault now request_id answer w =
     (if read_only then (w, Sync_read_only)
      else case inventory_confirm now request_id answer (sy_gate w) of
        (t, Inl e) \<Rightarrow> (w\<lparr>sy_gate := t\<rparr>, Sync_gate_error e)
      | (t, Inr c) \<Rightarrow>
          (case get_node (pi_node_id c) (sy_nodes w) of
             None \<Rightarrow> (w\<lparr>sy_gate := t\<rparr>, Sync_gone (pi_node_id c))
           | Some n \<Rightarrow>
               if \<not> truthy path then (w\<lparr>sy_gate := t\<rparr>, Sync_no_path)
               else (let ah = or_text (hn_ansible_host n) (hn_ip_address n) in
                     case upsert_host fault (hn_hostname n) ah (hn_ansible_groups n) (sy_dir w) of
                       (d, Upsert_written) \<Rightarrow>
                         (w\<lparr>sy_gate := t, sy_dir := d\<rparr>, Synced (hn_hostname n) ah (hn_ansible_groups n))
                     | (d, Upsert_raised) \<Rightarrow> (w\<lparr>sy_gate := t, sy_dir := d\<rparr>, Sync_raised)
                     | (d, Upsert_refused e) \<Rightarrow> (w\<lparr>sy_gate := t, sy_dir := d\<rparr>, Sync_refused e))))"

section \<open>What an edit keeps\<close>

text \<open>The entries the child is edited from; \<open>None\<close> when it is no mapping.\<close>

definition child_entries :: "pystr \<Rightarrow> entries \<Rightarrow> entries option" where
  "child_entries k parent =
     (case yaml_get parent k of
        None \<Rightarrow> Some []
      | Some Y_null \<Rightarrow> Some []
      | Some (Y_map kvs) \<Rightarrow> Some kvs
      | _ \<Rightarrow> None)"

lemma with_child_eq:
  "with_child k f parent =
     (case child_entries k parent of
        None \<Rightarrow> Inl (Not_a_mapping k)
      | Some sub \<Rightarrow> map_sum id (\<lambda>sub. dict_set (Y_str k) (Y_map sub) parent) (f sub))"
  by (simp add: with_child_def child_entries_def Let_def split: option.split yaml.split)

lemma with_child_Inr:
  assumes "with_child k f parent = Inr parent'"
  obtains sub sub' where "child_entries k parent = Some sub" "f sub = Inr sub'"
    "parent' = dict_set (Y_str k) (Y_map sub') parent"
proof -
  obtain sub where sub: "child_entries k parent = Some sub"
    using assms by (cases "child_entries k parent") (simp_all add: with_child_eq)
  then obtain sub' where "f sub = Inr sub'" "parent' = dict_set (Y_str k) (Y_map sub') parent"
    using assms by (cases "f sub") (simp_all add: with_child_eq)
  with sub show thesis by (rule that)
qed

lemma with_child_leaves:
  assumes "with_child k f parent = Inr parent'"
    and "\<And>sub sub'. f sub = Inr sub' \<Longrightarrow> leaves_kept {p. Y_str k # p \<in> X} (Y_map sub) (Y_map sub')"
  shows "leaves_kept X (Y_map parent) (Y_map parent')"
proof -
  obtain sub sub' where s: "child_entries k parent = Some sub" "f sub = Inr sub'"
    "parent' = dict_set (Y_str k) (Y_map sub') parent" using with_child_Inr [OF assms(1)] .
  have sub: "leaves_kept {p. Y_str k # p \<in> X} (Y_map sub) (Y_map sub')" using assms(2) s(2) .
  have k: "leaves_kept {p. Y_str k # p \<in> X} w (Y_map sub')" if "map_of parent (Y_str k) = Some w" for w
    using s(1) sub that
    by (auto simp: child_entries_def yaml_get_def intro: leaves_kept_nothing split: yaml.splits)
  show ?thesis
    unfolding leaves_kept_def
  proof (intro allI impI)
    fix p v assume p: "yaml_at p (Y_map parent) = Some v" "yaml_leaf v" "p \<notin> X"
    then obtain a ks w where a: "p = a # ks" "map_of parent a = Some w" "yaml_at ks w = Some v"
      by (cases p) (auto simp: yaml_leaf_def split: option.splits)
    show "yaml_at p (Y_map parent') = Some v"
    proof (cases "a = Y_str k")
      case True
      then show ?thesis using k a p by (auto simp: s(3) map_of_dict_set leaves_kept_def)
    next
      case False
      then show ?thesis using a by (simp add: s(3) map_of_dict_set)
    qed
  qed
qed

text \<open>Setting a key that held no leaf, or the one key that may change.\<close>

lemma dict_set_leaves:
  assumes "\<And>w p v. map_of e k = Some w \<Longrightarrow> yaml_at p w = Some v \<Longrightarrow> yaml_leaf v \<Longrightarrow> k # p \<in> X"
  shows "leaves_kept X (Y_map e) (Y_map (dict_set k u e))"
  unfolding leaves_kept_def
proof (intro allI impI)
  fix p v assume p: "yaml_at p (Y_map e) = Some v" "yaml_leaf v" "p \<notin> X"
  then obtain a ks w where a: "p = a # ks" "map_of e a = Some w" "yaml_at ks w = Some v"
    by (cases p) (auto simp: yaml_leaf_def split: option.splits)
  then show "yaml_at p (Y_map (dict_set k u e)) = Some v"
    using assms p by (cases "a = k") (auto simp: map_of_dict_set)
qed

definition host_key_path :: "pystr \<Rightarrow> yaml list" where
  "host_key_path hostname = [Y_str ''all'', Y_str ''hosts'', Y_str hostname, Y_str ''ansible_host'']"

text \<open>Where the one changed value may sit: the path itself, or below it.\<close>

definition below :: "yaml list \<Rightarrow> yaml list set" where
  "below p = {q. take (length p) q = p}"

lemma below_Cons: "{q. k # q \<in> below (k # p)} = below p"
  by (auto simp: below_def)

lemma with_child_below:
  assumes "with_child k f parent = Inr parent'"
    and "\<And>sub sub'. f sub = Inr sub' \<Longrightarrow> leaves_kept (below p) (Y_map sub) (Y_map sub')"
  shows "leaves_kept (below (Y_str k # p)) (Y_map parent) (Y_map parent')"
  by (rule with_child_leaves [OF assms(1)]) (simp only: below_Cons assms(2))

lemma set_host_leaves:
  "set_host ah block = Inr block' \<Longrightarrow> leaves_kept (below [Y_str ''ansible_host'']) (Y_map block) (Y_map block')"
  by (auto simp: set_host_def below_def intro!: dict_set_leaves split: if_splits)

lemma join_group_leaves: "join_group h hosts = Inr hosts' \<Longrightarrow> leaves_kept X (Y_map hosts) (Y_map hosts')"
proof (cases "Y_str h \<in> fst ` set hosts")
  case False
  assume "join_group h hosts = Inr hosts'"
  then have h: "hosts' = dict_set (Y_str h) (Y_map []) hosts" using False by (simp add: join_group_def)
  have "map_of hosts (Y_str h) = None" using False by (simp add: map_of_eq_None_iff)
  then show ?thesis unfolding h by (intro dict_set_leaves) simp
qed (simp add: join_group_def)

lemma join_groups_leaves:
  "join_groups h gs children = Inr children' \<Longrightarrow> leaves_kept X (Y_map children) (Y_map children')"
proof (induction gs arbitrary: children)
  case (Cons g gs)
  obtain c where c: "with_child g (with_child ''hosts'' (join_group h)) children = Inr c"
    "join_groups h gs c = Inr children'"
    using Cons.prems by (auto split: sum.splits)
  have "leaves_kept X (Y_map children) (Y_map c)"
    by (rule with_child_leaves [OF c(1)], rule with_child_leaves, assumption) (rule join_group_leaves)
  then show ?case using Cons.IH [OF c(2)] by (rule leaves_kept_trans)
qed simp

lemma upsert_root_leaves:
  assumes "upsert_root h ah gs r = Inr r'"
  shows "leaves_kept (below [Y_str ''hosts'', Y_str h, Y_str ''ansible_host'']) (Y_map r) (Y_map r')"
proof -
  let ?X = "below [Y_str ''hosts'', Y_str h, Y_str ''ansible_host'']"
  obtain r1 where w: "with_child ''hosts'' (with_child h (set_host ah)) r = Inr r1"
    using assms by (cases "with_child ''hosts'' (with_child h (set_host ah)) r") (simp_all add: upsert_root_def)
  have r1: "with_child ''hosts'' (with_child h (set_host ah)) r = Inr r1"
    "gs \<noteq> [] \<Longrightarrow> with_child ''children'' (join_groups h gs) r1 = Inr r'" "gs = [] \<Longrightarrow> r' = r1"
    using assms w by (simp_all add: upsert_root_def)
  have 1: "leaves_kept ?X (Y_map r) (Y_map r1)"
    by (rule with_child_below [OF r1(1)], rule with_child_below, assumption) (rule set_host_leaves)
  have "leaves_kept ?X (Y_map r1) (Y_map r')" if "gs \<noteq> []"
    by (rule with_child_leaves [OF r1(2) [OF that]]) (rule join_groups_leaves)
  then have "leaves_kept ?X (Y_map r1) (Y_map r')" using r1(3) by (cases "gs = []") simp_all
  with 1 show ?thesis by (rule leaves_kept_trans)
qed

section \<open>What an edit establishes\<close>

lemma dict_set_same: "map_of d k = Some v \<Longrightarrow> dict_set k v d = d"
  by (induction k v d rule: dict_set.induct) (auto split: if_splits)

lemma child_of_map: "map_of e (Y_str k) = Some (Y_map sub) \<Longrightarrow> child_entries k e = Some sub"
  by (simp add: child_entries_def yaml_get_def)

text \<open>An edit that changes nothing: the child is there and its own edit changes nothing.\<close>

lemma with_child_fix:
  "with_child k f e = Inr e \<longleftrightarrow> (\<exists>sub. map_of e (Y_str k) = Some (Y_map sub) \<and> f sub = Inr sub)"
proof
  assume e: "with_child k f e = Inr e"
  obtain sub sub' where s: "child_entries k e = Some sub" "f sub = Inr sub'"
    "e = dict_set (Y_str k) (Y_map sub') e" using with_child_Inr [OF e] .
  have m: "map_of e (Y_str k) = Some (Y_map sub')" by (subst s(3)) (simp add: map_of_dict_set)
  then have "sub = sub'" using s(1) by (simp add: child_of_map)
  then show "\<exists>sub. map_of e (Y_str k) = Some (Y_map sub) \<and> f sub = Inr sub" using m s(2) by blast
next
  assume "\<exists>sub. map_of e (Y_str k) = Some (Y_map sub) \<and> f sub = Inr sub"
  then show "with_child k f e = Inr e" by (auto simp: with_child_eq child_of_map dict_set_same)
qed

lemma with_child_makes_fix:
  assumes "with_child k f e = Inr e'" "\<And>s s'. f s = Inr s' \<Longrightarrow> f s' = Inr s'"
  shows "with_child k f e' = Inr e'"
proof -
  obtain sub sub' where s: "child_entries k e = Some sub" "f sub = Inr sub'"
    "e' = dict_set (Y_str k) (Y_map sub') e" using with_child_Inr [OF assms(1)] .
  then show ?thesis using assms(2) [OF s(2)] by (simp add: with_child_fix map_of_dict_set)
qed

lemma with_child_keeps_fix:
  assumes "with_child k f e = Inr e" "with_child k' g e = Inr e'" "k \<noteq> k'"
  shows "with_child k f e' = Inr e'"
proof -
  obtain sub sub' where s: "child_entries k' e = Some sub" "g sub = Inr sub'"
    "e' = dict_set (Y_str k') (Y_map sub') e" using with_child_Inr [OF assms(2)] .
  then show ?thesis using assms(1,3) by (simp add: with_child_fix map_of_dict_set)
qed

lemma set_host_idem: "set_host ah s = Inr s' \<Longrightarrow> set_host ah s' = Inr s'"
  by (auto simp: set_host_def dict_set_same map_of_dict_set)

lemma join_group_idem: "join_group h s = Inr s' \<Longrightarrow> join_group h s' = Inr s'"
  by (auto simp: join_group_def fst_dict_set split: if_splits)

lemma join_group_member: "join_group h s = Inr s' \<Longrightarrow> map_of s' (Y_str h) \<noteq> None"
  unfolding map_of_eq_None_iff by (auto simp: join_group_def fst_dict_set split: if_splits)

abbreviation group_edit :: "pystr \<Rightarrow> pystr \<Rightarrow> entries \<Rightarrow> inventory_write_error + entries" where
  "group_edit h g \<equiv> with_child g (with_child ''hosts'' (join_group h))"

lemma group_edit_idem: "group_edit h g s = Inr s' \<Longrightarrow> group_edit h g s' = Inr s'"
  by (rule with_child_makes_fix, assumption) (rule with_child_makes_fix, assumption, rule join_group_idem)

lemma join_groups_keep:
  "group_edit h g c = Inr c \<Longrightarrow> join_groups h gs c = Inr c' \<Longrightarrow> group_edit h g c' = Inr c'"
proof (induction gs arbitrary: c)
  case (Cons g' gs)
  obtain d where d: "group_edit h g' c = Inr d" "join_groups h gs d = Inr c'"
    using Cons.prems(2) by (auto split: sum.splits)
  have "group_edit h g d = Inr d"
    using group_edit_idem [OF d(1)] with_child_keeps_fix [OF Cons.prems(1) d(1)] by (cases "g = g'") auto
  then show ?case using Cons.IH d(2) by blast
qed simp

lemma join_groups_fix: "join_groups h gs c = Inr c' \<Longrightarrow> g \<in> set gs \<Longrightarrow> group_edit h g c' = Inr c'"
proof (induction gs arbitrary: c)
  case (Cons g' gs)
  obtain d where d: "group_edit h g' c = Inr d" "join_groups h gs d = Inr c'"
    using Cons.prems(1) by (auto split: sum.splits)
  show ?case
  proof (cases "g \<in> set gs")
    case True
    then show ?thesis using Cons.IH d(2) by blast
  next
    case False
    then have "g = g'" using Cons.prems(2) by simp
    then show ?thesis using join_groups_keep [OF group_edit_idem [OF d(1)] d(2)] by simp
  qed
qed simp

lemma join_groups_same: "\<forall>g \<in> set gs. group_edit h g c = Inr c \<Longrightarrow> join_groups h gs c = Inr c"
  by (induction gs) simp_all

lemma join_groups_idem: "join_groups h gs c = Inr c' \<Longrightarrow> join_groups h gs c' = Inr c'"
  using join_groups_fix join_groups_same by blast

lemma upsert_root_fix:
  assumes "upsert_root h ah gs r = Inr r'"
  shows "with_child ''hosts'' (with_child h (set_host ah)) r' = Inr r'"
    and "gs \<noteq> [] \<longrightarrow> with_child ''children'' (join_groups h gs) r' = Inr r'"
proof -
  obtain r1 where w: "with_child ''hosts'' (with_child h (set_host ah)) r = Inr r1"
    using assms by (cases "with_child ''hosts'' (with_child h (set_host ah)) r") (simp_all add: upsert_root_def)
  have r1: "gs \<noteq> [] \<Longrightarrow> with_child ''children'' (join_groups h gs) r1 = Inr r'" "gs = [] \<Longrightarrow> r' = r1"
    using assms w by (simp_all add: upsert_root_def)
  have f: "with_child ''hosts'' (with_child h (set_host ah)) r1 = Inr r1"
    by (rule with_child_makes_fix [OF w], rule with_child_makes_fix, assumption) (rule set_host_idem)
  show "with_child ''hosts'' (with_child h (set_host ah)) r' = Inr r'"
    using f with_child_keeps_fix [OF f r1(1)] r1(2) by (cases "gs = []") simp_all
  show "gs \<noteq> [] \<longrightarrow> with_child ''children'' (join_groups h gs) r' = Inr r'"
  proof
    assume g: "gs \<noteq> []"
    show "with_child ''children'' (join_groups h gs) r' = Inr r'"
      by (rule with_child_makes_fix [OF r1(1) [OF g]]) (rule join_groups_idem)
  qed
qed

lemma upsert_root_idem: "upsert_root h ah gs r = Inr r' \<Longrightarrow> upsert_root h ah gs r' = Inr r'"
  using upsert_root_fix [of h ah gs r r'] by (simp add: upsert_root_def)

text \<open>
  C29: Writing a host into the inventory does just that: afterwards the host has the given
  \<open>ansible_host\<close> and is a member of every given group, every value anywhere else in the file is
  still where it was, and writing the same entry again changes nothing.
\<close>
theorem inventory_upsert_exact:
  assumes "load_inventory f = Inr d" "upsert_doc h ah gs f = Inr d'"
  shows "leaves_kept (below (host_key_path h)) (Y_map d) (Y_map d') \<and>
    (truthy ah \<longrightarrow> yaml_at (host_key_path h) (Y_map d') = Some (Y_str (the ah))) \<and>
    (\<forall>g \<in> set gs. yaml_at [Y_str ''all'', Y_str ''children'', Y_str g, Y_str ''hosts'', Y_str h] (Y_map d') \<noteq> None) \<and>
    upsert_doc h ah gs (Inv_doc (Y_map d')) = Inr d'"
proof -
  have w: "with_child ''all'' (upsert_root h ah gs) d = Inr d'" using assms by (simp add: upsert_doc_def)
  have fx: "with_child ''all'' (upsert_root h ah gs) d' = Inr d'"
    by (rule with_child_makes_fix [OF w]) (rule upsert_root_idem)
  then obtain r where r: "map_of d' (Y_str ''all'') = Some (Y_map r)" "upsert_root h ah gs r = Inr r"
    by (auto simp: with_child_fix)
  have "with_child ''hosts'' (with_child h (set_host ah)) r = Inr r" by (rule upsert_root_fix(1) [OF r(2)])
  then obtain hs b where hs: "map_of r (Y_str ''hosts'') = Some (Y_map hs)" "map_of hs (Y_str h) = Some (Y_map b)"
    "set_host ah b = Inr b" by (auto simp: with_child_fix)
  have b: "map_of b (Y_str ''ansible_host'') = Some (Y_str (the ah))" if "truthy ah"
  proof -
    have "dict_set (Y_str ''ansible_host'') (Y_str (the ah)) b = b" using hs(3) that by (simp add: set_host_def)
    then show ?thesis by (metis fun_upd_same map_of_dict_set)
  qed
  have "yaml_at [Y_str ''children'', Y_str g, Y_str ''hosts'', Y_str h] (Y_map r) \<noteq> None" if g: "g \<in> set gs" for g
  proof -
    have "with_child ''children'' (join_groups h gs) r = Inr r" using upsert_root_fix(2) [OF r(2)] g by (cases gs) simp_all
    then obtain c where c: "map_of r (Y_str ''children'') = Some (Y_map c)" "join_groups h gs c = Inr c"
      by (auto simp: with_child_fix)
    obtain e hs' where "map_of c (Y_str g) = Some (Y_map e)" "map_of e (Y_str ''hosts'') = Some (Y_map hs')"
      "join_group h hs' = Inr hs'" using join_groups_fix [OF c(2) g] by (auto simp: with_child_fix)
    moreover from this(3) have "map_of hs' (Y_str h) \<noteq> None" by (rule join_group_member)
    ultimately show ?thesis using c(1) by auto
  qed
  moreover have "leaves_kept (below (host_key_path h)) (Y_map d) (Y_map d')"
    unfolding host_key_path_def by (rule with_child_below [OF w]) (rule upsert_root_leaves)
  moreover have "upsert_doc h ah gs (Inv_doc (Y_map d')) = Inr d'"
    using fx by (simp add: upsert_doc_def load_inventory_def)
  ultimately show ?thesis using r(1) hs b by (auto simp: host_key_path_def)
qed

definition example_inventory :: entries where
  "example_inventory =
     [(Y_str ''all'', Y_map [(Y_str ''hosts'', Y_map [(Y_str ''pi'', Y_map [(Y_str ''ansible_user'', Y_str ''me'')])])])]"

theorem inventory_upsert_exact_witness:
  "\<exists>d'. upsert_doc ''pi'' (Some ''10.0.0.2'') [''docker''] (Inv_doc (Y_map example_inventory)) = Inr d' \<and>
     yaml_at (host_key_path ''pi'') (Y_map d') = Some (Y_str ''10.0.0.2'') \<and>
     yaml_at [Y_str ''all'', Y_str ''hosts'', Y_str ''pi'', Y_str ''ansible_user''] (Y_map d') = Some (Y_str ''me'')"
proof -
  let ?f = "Inv_doc (Y_map example_inventory)"
  have "isl (upsert_doc ''pi'' (Some ''10.0.0.2'') [''docker''] ?f) = False" by code_simp
  then obtain d' where d: "upsert_doc ''pi'' (Some ''10.0.0.2'') [''docker''] ?f = Inr d'"
    by (cases "upsert_doc ''pi'' (Some ''10.0.0.2'') [''docker''] ?f") auto
  have "load_inventory ?f = Inr example_inventory" by (simp add: load_inventory_def)
  note exact = inventory_upsert_exact [OF this d]
  then have k: "leaves_kept (below (host_key_path ''pi'')) (Y_map example_inventory) (Y_map d')" by blast
  let ?p = "[Y_str ''all'', Y_str ''hosts'', Y_str ''pi'', Y_str ''ansible_user'']"
  have "yaml_at ?p (Y_map example_inventory) = Some (Y_str ''me'')" "yaml_leaf (Y_str ''me'')"
    "?p \<notin> below (host_key_path ''pi'')"
    by (simp_all add: example_inventory_def yaml_leaf_def below_def host_key_path_def)
  then have "yaml_at ?p (Y_map d') = Some (Y_str ''me'')" using k unfolding leaves_kept_def by blast
  moreover have "yaml_at (host_key_path ''pi'') (Y_map d') = Some (Y_str ''10.0.0.2'')"
    using exact by simp
  ultimately show ?thesis using d by blast
qed

section \<open>The tools over the gate\<close>

datatype sync_op =
    Sync_ask bool "pystr option" int instant pystr int int pystr
  | Sync_answer bool "pystr option" write_fault instant pystr int
  | Sync_nodes hardware

text \<open>The last operation stands for whatever the hardware tools do in between.\<close>

fun sync_step :: "sync_op \<Rightarrow> sync_world \<Rightarrow> sync_world \<times> sync_reply option" where
  "sync_step (Sync_ask ro path ttl now rid x y i) w =
     (let (w', r) = inventory_sync_node ro path ttl now rid x y i w in (w', Some r))"
| "sync_step (Sync_answer ro path fault now rid ans) w =
     (let (w', r) = inventory_sync_confirm ro path fault now rid ans w in (w', Some r))"
| "sync_step (Sync_nodes hw) w = (w\<lparr>sy_nodes := hw\<rparr>, None)"

text \<open>A write of the file on the answer to request \<open>k\<close>.\<close>

fun sync_writes :: "sync_op \<Rightarrow> sync_reply option \<Rightarrow> pystr \<Rightarrow> bool" where
  "sync_writes (Sync_answer ro path fault now rid ans) (Some (Synced h ah gs)) k = (rid = k)"
| "sync_writes x r k = False"

text \<open>The gate operation a call makes, if any.\<close>

fun gate_ops :: "sync_op \<Rightarrow> sync_world \<Rightarrow> inventory_op list" where
  "gate_ops (Sync_ask ro path ttl now rid x y i) w =
     (case (if ro \<or> \<not> truthy path then None else get_node i (sy_nodes w)) of
        None \<Rightarrow> []
      | Some n \<Rightarrow> [Inventory_Request now rid x y (hn_id n) (hn_hostname n)
                    ''manual:ansible_inventory_sync_node'' ttl])"
| "gate_ops (Sync_answer ro path fault now rid ans) w =
     (if ro then [] else [Inventory_Confirm now rid ans])"
| "gate_ops (Sync_nodes hw) w = []"

lemma sync_step_gate:
  "sy_gate (fst (sync_step x w)) = fst (run_ops inventory_step (gate_ops x w) (sy_gate w)) \<and>
   (sync_writes x (snd (sync_step x w)) k \<longrightarrow>
      win_count inventory_wins k (snd (run_ops inventory_step (gate_ops x w) (sy_gate w))) = 1)"
proof (cases x)
  case (Sync_ask ro path ttl now rid a b i)
  then show ?thesis
    by (simp add: inventory_sync_node_def case_prod_beta split: option.split sum.split)
next
  case (Sync_answer ro path fault now rid ans)
  obtain t r where c: "inventory_confirm now rid ans (sy_gate w) = (t, r)"
    by (cases "inventory_confirm now rid ans (sy_gate w)")
  show ?thesis
  proof (cases r)
    case (Inl e)
    then show ?thesis using c by (simp add: Sync_answer inventory_sync_confirm_def)
  next
    case (Inr p)
    then show ?thesis
      using c
      by (simp add: Sync_answer inventory_sync_confirm_def Let_def split: option.split prod.split upsert_outcome.split)
  qed
qed simp

lemma sync_refines_gate:
  "\<exists>ys. sy_gate (fst (run_ops sync_step xs w)) = fst (run_ops inventory_step ys (sy_gate w)) \<and>
     win_count sync_writes k (snd (run_ops sync_step xs w)) \<le>
       win_count inventory_wins k (snd (run_ops inventory_step ys (sy_gate w)))"
proof (induction xs arbitrary: w)
  case Nil
  show ?case by (rule exI [of _ "[]"]) simp
next
  case (Cons x xs)
  let ?w = "fst (sync_step x w)"
  obtain ys where ys: "sy_gate (fst (run_ops sync_step xs ?w)) = fst (run_ops inventory_step ys (sy_gate ?w))"
    "win_count sync_writes k (snd (run_ops sync_step xs ?w)) \<le>
       win_count inventory_wins k (snd (run_ops inventory_step ys (sy_gate ?w)))"
    using Cons.IH by blast
  have app: "win_count f k (tr @ tr') = win_count f k tr + win_count f k tr'" for f tr tr'
    by (simp add: win_count_def)
  show ?case
    using sync_step_gate [of x w k] ys
    by (intro exI [of _ "gate_ops x w @ ys"])
       (simp add: run_ops_Cons run_ops_append app del: run_ops.simps(2))
qed


definition example_sync :: sync_world where
  "example_sync =
     \<lparr>sy_nodes = example_nodes, sy_gate = [], sy_dir = \<lparr>iv_file = Inv_missing, iv_tmp = False\<rparr>\<rparr>"


end
