(* ===== verification/AdoptionSsh.thy ===== *)
theory AdoptionSsh
  imports Shlex GitCrypt PyJson
begin

text \<open>
  \<open>adoption/ssh.py\<close>: reading a live container over SSH. The outcome of a command is a
  parameter; the remote login shell splits the command line as \<open>shlex.split\<close> does.
\<close>

section \<open>Commands\<close>

definition ssh_user_ok :: "pystr \<Rightarrow> bool" where
  "ssh_user_ok u \<longleftrightarrow>
     u \<noteq> [] \<and> length u \<le> 32 \<and> (is_ascii_lower (hd u) \<or> hd u = CHR ''_'') \<and>
     list_all (\<lambda>c. is_ascii_lower c \<or> is_ascii_digit c \<or> c = CHR ''_'' \<or> c = CHR ''-'') (tl u)"

definition ssh_host_ok :: "pystr \<Rightarrow> bool" where
  "ssh_host_ok h \<longleftrightarrow>
     h \<noteq> [] \<and> length h \<le> 253 \<and> (is_ascii_alpha (hd h) \<or> is_ascii_digit (hd h)) \<and>
     list_all (\<lambda>c. is_ascii_alpha c \<or> is_ascii_digit c \<or> c \<in> {CHR ''.'', CHR '':'', CHR ''-''}) (tl h)"

text \<open>The last one is not an \<open>SSHError\<close>: the answer was JSON of another shape.\<close>

datatype ssh_error =
    Ssh_unsafe_user pystr
  | Ssh_unsafe_host pystr
  | Ssh_failed pystr pystr
  | Ssh_bad_json pystr
  | Ssh_no_data pystr
  | Ssh_other_exception

definition ssh_base :: "pystr \<Rightarrow> pystr \<Rightarrow> pystr \<Rightarrow> ssh_error + pystr list" where
  "ssh_base key_path user host =
     (if \<not> ssh_user_ok user then Inl (Ssh_unsafe_user user)
      else if \<not> ssh_host_ok host then Inl (Ssh_unsafe_host host)
      else Inr [''ssh'', ''-i'', key_path, ''-o'', ''BatchMode=yes'', ''-o'',
                ''StrictHostKeyChecking=accept-new'', ''-o'', ''ConnectTimeout=10'', ''--'', user @ ''@'' @ host])"

definition remote_command :: "pystr list \<Rightarrow> pystr" where
  "remote_command argv = shlex_join argv"

text \<open>Exit code, standard output, standard error of a local command.\<close>

type_synonym ssh_run = "pystr list \<Rightarrow> int \<times> pystr \<times> pystr"

record ssh_login =
  sl_key :: pystr
  sl_user :: pystr
  sl_host :: pystr

definition ssh_run_remote ::
  "ssh_run \<Rightarrow> ssh_login \<Rightarrow> pystr list \<Rightarrow> pystr list list \<times> (ssh_error + int \<times> pystr \<times> pystr)" where
  "ssh_run_remote run l argv =
     (case ssh_base (sl_key l) (sl_user l) (sl_host l) of
        Inl e \<Rightarrow> ([], Inl e)
      | Inr base \<Rightarrow> ([base @ [remote_command argv]], Inr (run (base @ [remote_command argv]))))"

definition inspect_container ::
  "(pystr \<Rightarrow> json option) \<Rightarrow> ssh_run \<Rightarrow> ssh_login \<Rightarrow> pystr \<Rightarrow> pystr list list \<times> (ssh_error + json)" where
  "inspect_container loads run l container_id =
     (case ssh_run_remote run l [''docker'', ''inspect'', ''--'', container_id] of
        (cmds, Inl e) \<Rightarrow> (cmds, Inl e)
      | (cmds, Inr (rc, out, err)) \<Rightarrow>
          (cmds,
           if rc \<noteq> 0 then Inl (Ssh_failed container_id (strip err))
           else (case loads out of
                   None \<Rightarrow> Inl (Ssh_bad_json container_id)
                 | Some (JList (d # ds)) \<Rightarrow> Inr d
                 | Some v \<Rightarrow>
                     Inl (if json_falsy (Some v) then Ssh_no_data container_id else Ssh_other_exception))))"

definition read_remote_file ::
  "ssh_run \<Rightarrow> ssh_login \<Rightarrow> pystr \<Rightarrow> pystr list list \<times> (ssh_error + pystr)" where
  "read_remote_file run l path =
     (case ssh_run_remote run l [''cat'', ''--'', path] of
        (cmds, Inl e) \<Rightarrow> (cmds, Inl e)
      | (cmds, Inr (rc, out, err)) \<Rightarrow>
          (cmds, if rc \<noteq> 0 then Inl (Ssh_failed path (strip err)) else Inr out))"

definition try_read_remote_file ::
  "ssh_run \<Rightarrow> ssh_login \<Rightarrow> pystr \<Rightarrow> pystr list list \<times> pystr option" where
  "try_read_remote_file run l path =
     (case read_remote_file run l path of
        (cmds, Inl e) \<Rightarrow> (cmds, None)
      | (cmds, Inr t) \<Rightarrow> (cmds, Some t))"

section \<open>What \<open>docker inspect\<close> tells\<close>

text \<open>\<open>(inspect.get("Config") or {}).get(k)\<close>; \<open>None\<close> is an exception.\<close>

definition config_get :: "json \<Rightarrow> pystr \<Rightarrow> json option option" where
  "config_get d k =
     (if json_falsy (json_get d ''Config'') then Some None
      else case json_get d ''Config'' of Some (JObj kvs) \<Rightarrow> Some (map_of kvs k) | _ \<Rightarrow> None)"

definition env_entry :: "(json \<Rightarrow> pystr) \<Rightarrow> json \<Rightarrow> (pystr \<times> pystr) list \<Rightarrow> (pystr \<times> pystr) list" where
  "env_entry str entry d =
     (case partition_at (CHR ''='') (case entry of JStr s \<Rightarrow> s | _ \<Rightarrow> str entry) of (key, sep, val) \<Rightarrow>
        if sep \<and> key \<noteq> [] then dict_set key val d else d)"

definition env_dict_from_inspect :: "(json \<Rightarrow> pystr) \<Rightarrow> json \<Rightarrow> (pystr \<times> pystr) list option" where
  "env_dict_from_inspect str d =
     (case config_get d ''Env'' of
        None \<Rightarrow> None
      | Some v \<Rightarrow> map_option (\<lambda>xs. fold (env_entry str) xs []) (json_items v))"

definition labels_from_inspect :: "json \<Rightarrow> (pystr \<times> json) list option" where
  "labels_from_inspect d =
     (case config_get d ''Labels'' of
        None \<Rightarrow> None
      | Some v \<Rightarrow> if json_falsy v then Some []
                  else (case v of Some (JObj kvs) \<Rightarrow> Some kvs | _ \<Rightarrow> None))"

definition config_files_label :: pystr where
  "config_files_label = ''com.docker.compose.project.config_files''"

text \<open>\<open>None\<close>: the label is no text.\<close>

definition compose_paths_from_labels :: "(pystr \<times> json) list \<Rightarrow> (pystr list \<times> json option) option" where
  "compose_paths_from_labels labels =
     (case (case map_of labels config_files_label of None \<Rightarrow> Some [] | Some (JStr s) \<Rightarrow> Some s | _ \<Rightarrow> None) of
        None \<Rightarrow> None
      | Some raw \<Rightarrow>
          Some (filter (\<lambda>p. p \<noteq> []) (split_at_char (CHR '','') raw),
                map_of labels ''com.docker.compose.project.working_dir''))"

section \<open>Nothing becomes a second command\<close>

lemma ssh_base_Inr:
  "ssh_base k u h = Inr b \<Longrightarrow> ssh_user_ok u \<and> ssh_host_ok h \<and> drop 9 b = [''--'', u @ ''@'' @ h] \<and> length b = 11"
  by (auto simp: ssh_base_def split: if_splits)

lemma ssh_commands:
  "cmd \<in> set (fst (ssh_run_remote run l argv)) \<Longrightarrow>
     ssh_user_ok (sl_user l) \<and> ssh_host_ok (sl_host l) \<and>
     drop 9 cmd = [''--'', sl_user l @ ''@'' @ sl_host l, remote_command argv]"
  by (auto simp: ssh_run_remote_def dest!: ssh_base_Inr split: sum.splits)

lemma no_dash_first:
  assumes "ssh_user_ok u"
  shows "\<not> starts_with (u @ r) ''-''"
proof -
  have "\<not> is_ascii_lower (CHR ''-'')" by code_simp
  then show ?thesis using assms by (cases u) (auto simp: ssh_user_ok_def starts_with_def)
qed

text \<open>
  Whatever the operator names and whatever a container's labels hold, the only local command
  is one \<open>ssh\<close> to a plain user and host after \<open>--\<close>, and the one argument it passes on is read
  by the remote shell as exactly the words meant: a container name or a path with spaces, quotes
  or semicolons is one word, never an option or a second command.
\<close>
theorem ssh_runs_one_command:
  assumes "cmd \<in> set (fst (inspect_container loads run l c)) \<or> cmd \<in> set (fst (read_remote_file run l c))"
  shows "ssh_user_ok (sl_user l) \<and> ssh_host_ok (sl_host l) \<and>
    (\<exists>remote. drop 9 cmd = [''--'', sl_user l @ ''@'' @ sl_host l, remote] \<and>
       shlex_split remote \<in> {Some [''docker'', ''inspect'', ''--'', c], Some [''cat'', ''--'', c]}) \<and>
    \<not> starts_with (sl_user l @ ''@'' @ sl_host l) ''-''"
proof -
  have "cmd \<in> set (fst (ssh_run_remote run l [''docker'', ''inspect'', ''--'', c])) \<or>
      cmd \<in> set (fst (ssh_run_remote run l [''cat'', ''--'', c]))"
    using assms by (auto simp: inspect_container_def read_remote_file_def split: prod.splits sum.splits)
  then have c: "ssh_user_ok (sl_user l)" "ssh_host_ok (sl_host l)"
    "drop 9 cmd = [''--'', sl_user l @ ''@'' @ sl_host l, remote_command [''docker'', ''inspect'', ''--'', c]] \<or>
     drop 9 cmd = [''--'', sl_user l @ ''@'' @ sl_host l, remote_command [''cat'', ''--'', c]]"
    by (auto dest: ssh_commands)
  have "\<exists>remote. drop 9 cmd = [''--'', sl_user l @ ''@'' @ sl_host l, remote] \<and>
       shlex_split remote \<in> {Some [''docker'', ''inspect'', ''--'', c], Some [''cat'', ''--'', c]}"
    using c(3) shlex_split_join unfolding remote_command_def by blast
  then show ?thesis using c no_dash_first [OF c(1)] by blast
qed

definition example_login :: ssh_login where
  "example_login = \<lparr>sl_key = ''k'', sl_user = ''root'', sl_host = ''pi''\<rparr>"

theorem ssh_runs_one_command_witness:
  "\<exists>cmd remote. cmd \<in> set (fst (read_remote_file (\<lambda>c. (0, [], [])) example_login ''/a; rm -rf /'')) \<and>
     drop 9 cmd = [''--'', ''root@pi'', remote]"
proof -
  let ?r = "read_remote_file (\<lambda>c. (0, [], [])) example_login ''/a; rm -rf /''"
  have "length (fst ?r) = 1" by code_simp
  then obtain cmd where cmd: "cmd \<in> set (fst ?r)" by (metis length_0_conv list.set_intros(1) neq_Nil_conv zero_neq_one)
  from ssh_runs_one_command [OF disjI2 [OF cmd]]
  obtain remote where "drop 9 cmd = [''--'', sl_user example_login @ ''@'' @ sl_host example_login, remote]" by blast
  then show ?thesis using cmd by (auto simp: example_login_def)
qed

end
