(* ===== verification/AdoptionGen.thy ===== *)
theory AdoptionGen
  imports PatchGenerator GitCrypt
begin

text \<open>
  \<open>proposal/adoption.py\<close>: asking the model to sanitize a legacy compose file. The live values
  of the container are masked before the question, restored after it; the gates are those of
  the patch generator. \<open>container_env\<close> is the dictionary as an association list in order.
\<close>

section \<open>Masking\<close>

definition MIN_MASKED_LENGTH :: nat where
  "MIN_MASKED_LENGTH = 8"

definition PLACEHOLDER_PREFIX :: pystr where
  "PLACEHOLDER_PREFIX = ''<value-of:''"

definition placeholder_of :: "pystr \<Rightarrow> pystr" where
  "placeholder_of key = PLACEHOLDER_PREFIX @ key @ ''>''"

text \<open>\<open>s.replace(v, p)\<close> for a non-empty \<open>v\<close>: left to right, without overlap.\<close>

fun replace_from :: "nat \<Rightarrow> pystr \<Rightarrow> pystr \<Rightarrow> pystr \<Rightarrow> pystr" where
  "replace_from skip v p [] = []"
| "replace_from (Suc k) v p (c # s) = replace_from k v p s"
| "replace_from 0 v p (c # s) =
     (if starts_with (c # s) v then p @ replace_from (length v - 1) v p s
      else c # replace_from 0 v p s)"

definition replace_all :: "pystr \<Rightarrow> pystr \<Rightarrow> pystr \<Rightarrow> pystr" where
  "replace_all v p s = replace_from 0 v p s"

definition mask_one ::
  "pystr \<times> pystr \<Rightarrow> pystr \<times> (pystr \<times> pystr) list \<Rightarrow> pystr \<times> (pystr \<times> pystr) list" where
  "mask_one kv mp =
     (case kv of (key, val) \<Rightarrow>
        if length val < MIN_MASKED_LENGTH \<or> \<not> contains (fst mp) val then mp
        else (replace_all val (placeholder_of key) (fst mp), dict_set (placeholder_of key) val (snd mp)))"

text \<open>Longest values first; the sort is stable.\<close>

definition mask_live_values ::
  "pystr \<Rightarrow> (pystr \<times> pystr) list \<Rightarrow> pystr \<times> (pystr \<times> pystr) list" where
  "mask_live_values compose container_env =
     fold mask_one (sort_key (\<lambda>kv. - int (length (snd kv))) container_env) (compose, [])"

definition restore_live_values :: "pystr \<Rightarrow> (pystr \<times> pystr) list \<Rightarrow> pystr" where
  "restore_live_values s placeholders = fold (\<lambda>(p, v). replace_all p v) placeholders s"

section \<open>The gates\<close>

record secrets_question =
  sq_compose :: pystr
  sq_env :: "(pystr \<times> pystr) list"
  sq_labels :: "(pystr \<times> pystr) list"

record secrets_answer =
  sa_compose :: pystr
  sa_keys :: "pystr list"
  sa_confidence :: rat
  sa_reasoning :: pystr

datatype adoption_rejection =
    Adopt_unavailable
  | Adopt_placeholder
  | Adopt_confidence rat rat
  | Adopt_empty
  | Adopt_not_yaml

record adoption_result =
  ar_ok :: bool
  ar_confidence :: rat
  ar_rejection :: "adoption_rejection option"
  ar_compose :: pystr
  ar_keys :: "pystr list"
  ar_reasoning :: pystr

definition adoption_rejected :: "rat \<Rightarrow> adoption_rejection \<Rightarrow> adoption_result" where
  "adoption_rejected q why =
     \<lparr>ar_ok = False, ar_confidence = q, ar_rejection = Some why, ar_compose = [], ar_keys = [], ar_reasoning = []\<rparr>"

text \<open>What is sent to the model.\<close>

definition adoption_question ::
  "pystr \<Rightarrow> (pystr \<times> pystr) list \<Rightarrow> (pystr \<times> pystr) list \<Rightarrow> secrets_question" where
  "adoption_question compose container_env container_labels =
     \<lparr>sq_compose = fst (mask_live_values compose container_env),
      sq_env = map (\<lambda>kv. (fst kv, placeholder_of (fst kv))) container_env,
      sq_labels = container_labels\<rparr>"

definition adoption_generate ::
  "(pystr \<Rightarrow> bool) \<Rightarrow> rat \<Rightarrow> (secrets_question \<Rightarrow> secrets_answer option) \<Rightarrow> pystr
     \<Rightarrow> (pystr \<times> pystr) list \<Rightarrow> (pystr \<times> pystr) list \<Rightarrow> adoption_result" where
  "adoption_generate yaml_ok threshold ask compose container_env container_labels =
     (case ask (adoption_question compose container_env container_labels) of
        None \<Rightarrow> adoption_rejected 0 Adopt_unavailable
      | Some a \<Rightarrow>
          (let restored = restore_live_values (sa_compose a) (snd (mask_live_values compose container_env)) in
           if contains restored PLACEHOLDER_PREFIX then adoption_rejected 0 Adopt_placeholder
           else
             (let sanitized = fst (scrub_credentials restored);
                  reasoning = fst (scrub_credentials (sa_reasoning a))
              in if sa_confidence a < threshold
                 then adoption_rejected (sa_confidence a) (Adopt_confidence (sa_confidence a) threshold)
                 else if strip sanitized = [] then adoption_rejected (sa_confidence a) Adopt_empty
                 else if \<not> yaml_ok (untab sanitized) then adoption_rejected (sa_confidence a) Adopt_not_yaml
                 else \<lparr>ar_ok = True, ar_confidence = sa_confidence a, ar_rejection = None,
                        ar_compose = untab sanitized, ar_keys = sa_keys a, ar_reasoning = reasoning\<rparr>)))"

section \<open>Replacing\<close>

text \<open>A word without the character at which two texts meet lies in one of them.\<close>

lemma starts_with_append_sep:
  "c \<notin> set w \<Longrightarrow> starts_with (a @ c # b) w \<Longrightarrow> starts_with a w"
proof (induction w arbitrary: a)
  case (Cons d w)
  then show ?case by (cases a) (auto simp: starts_with_def)
qed (simp add: starts_with_def)

lemma contains_append_sep:
  "c \<notin> set w \<Longrightarrow> contains (a @ c # b) w \<Longrightarrow> contains a w \<or> contains b w"
proof (induction a)
  case Nil
  then show ?case by (cases w) (auto simp: starts_with_def)
next
  case (Cons d a)
  from Cons.prems(2) consider "starts_with (d # a @ c # b) w" | "contains (a @ c # b) w" by auto
  then show ?case
  proof cases
    case 1
    then have "starts_with (d # a) w" using starts_with_append_sep [of c w "d # a" b] Cons.prems(1) by simp
    then show ?thesis by simp
  next
    case 2
    then show ?thesis using Cons.IH Cons.prems(1) by auto
  qed
qed

lemma replace_from_skip: "replace_from k v p s = replace_from 0 v p (drop k s)"
proof (induction k v p s rule: replace_from.induct)
  case (2 k v p c s)
  then show ?case by simp
qed simp_all

lemma contains_drop: "contains (drop k s) w \<Longrightarrow> contains s w"
  by (metis append_assoc append_take_drop_id contains_iff)

lemma starts_with_tail: "starts_with (c # s) (d # w) \<longleftrightarrow> c = d \<and> starts_with s w"
  by (auto simp: starts_with_def)

text \<open>A placeholder: an opening and a closing bracket that the words do not contain.\<close>

definition bracketed :: "pystr \<Rightarrow> bool" where
  "bracketed p \<longleftrightarrow> (\<exists>q. p = CHR ''<'' # q @ [CHR ''>''])"

definition unbracketed :: "pystr \<Rightarrow> bool" where
  "unbracketed w \<longleftrightarrow> CHR ''<'' \<notin> set w \<and> CHR ''>'' \<notin> set w"

lemma bracketed_placeholder [simp]: "bracketed (placeholder_of k)"
  by (auto simp: bracketed_def placeholder_of_def PLACEHOLDER_PREFIX_def)

lemma starts_with_bracketed:
  "bracketed p \<Longrightarrow> unbracketed w \<Longrightarrow> starts_with (p @ r) w \<Longrightarrow> w = []"
  by (cases w) (auto simp: bracketed_def unbracketed_def starts_with_def)

lemma replace_prefix:
  assumes "bracketed p"
  shows "unbracketed w \<Longrightarrow> starts_with (replace_from 0 v p s) w \<Longrightarrow> starts_with s w"
proof (induction w arbitrary: s)
  case Nil
  then show ?case by (simp add: starts_with_def)
next
  case (Cons d w)
  then obtain c s' where s: "s = c # s'" by (cases s) (auto simp: starts_with_def)
  have "\<not> starts_with s v"
    using Cons.prems starts_with_bracketed [OF assms Cons.prems(1)] by (auto simp: s split: if_splits)
  then show ?case using Cons by (auto simp: s starts_with_tail unbracketed_def)
qed

lemma contains_bracketed_append:
  assumes "bracketed p" "unbracketed w" "contains (p @ r) w"
  shows "contains p w \<or> contains r w"
proof -
  obtain q where p: "p = CHR ''<'' # q @ [CHR ''>'']" using assms(1) by (auto simp: bracketed_def)
  have "contains ((CHR ''<'' # q) @ CHR ''>'' # r) w" using assms(3) by (simp add: p)
  then have "contains (CHR ''<'' # q) w \<or> contains r w"
    using contains_append_sep [of "CHR ''>''" w "CHR ''<'' # q" r] assms(2) unfolding unbracketed_def by blast
  then show ?thesis by (metis Cons_eq_appendI append.assoc contains_iff p)
qed

text \<open>Replacing brings in no word that was neither in the text nor in the placeholder.\<close>

lemma replace_contains:
  assumes "unbracketed w"
  shows "bracketed p \<Longrightarrow> contains (replace_from k v p s) w \<Longrightarrow> contains s w \<or> contains p w"
proof (induction k v p s rule: replace_from.induct)
  case (3 v p c s)
  show ?case
  proof (cases "starts_with (c # s) v")
    case True
    then have "contains p w \<or> contains (replace_from (length v - 1) v p s) w"
      using contains_bracketed_append [OF 3(3) assms, of "replace_from (length v - 1) v p s"] 3(4) by simp
    then show ?thesis using 3(1) [OF True 3(3)] by auto
  next
    case False
    then consider "starts_with (c # replace_from 0 v p s) w" | "contains (replace_from 0 v p s) w"
      using 3(4) by auto
    then show ?thesis
    proof cases
      case 1
      then have "starts_with (c # s) w"
        using replace_prefix [OF 3(3), of "tl w"] assms
        by (cases w) (auto simp: starts_with_tail unbracketed_def starts_with_def)
      then show ?thesis by simp
    next
      case 2
      then show ?thesis using 3(2) [OF False 3(3)] by auto
    qed
  qed
qed auto

lemma replace_removes:
  assumes "bracketed p" "unbracketed v" "v \<noteq> []" "\<not> contains p v"
  shows "\<not> contains (replace_from k v p s) v"
proof -
  have "bracketed p \<Longrightarrow> unbracketed v \<Longrightarrow> v \<noteq> [] \<Longrightarrow> \<not> contains p v \<Longrightarrow> \<not> contains (replace_from k v p s) v"
  proof (induction k v p s rule: replace_from.induct)
    case (3 v p c s)
    show ?case
    proof (cases "starts_with (c # s) v")
      case True
      then show ?thesis
        using 3(1) [OF True 3(3,4,5,6)] 3(6)
          contains_bracketed_append [OF 3(3,4), of "replace_from (length v - 1) v p s"] by auto
    next
      case False
      have "\<not> starts_with (c # replace_from 0 v p s) v"
      proof
        assume "starts_with (c # replace_from 0 v p s) v"
        then have "starts_with (c # s) v"
          using replace_prefix [OF 3(3), of "tl v" v s] 3(4,5)
          by (cases v) (auto simp: starts_with_tail unbracketed_def)
        with False show False by simp
      qed
      then show ?thesis using 3(2) [OF False 3(3,4,5,6)] False by simp
    qed
  qed simp_all
  then show ?thesis using assms by blast
qed

section \<open>What the model sees\<close>

lemma mask_one_absent:
  assumes "unbracketed v" "\<not> contains (fst mp) v" "\<not> contains (placeholder_of (fst kv)) v"
  shows "\<not> contains (fst (mask_one kv mp)) v"
proof -
  have "\<not> contains (replace_all (snd kv) (placeholder_of (fst kv)) (fst mp)) v"
    using assms replace_contains [OF assms(1) bracketed_placeholder, of 0 "snd kv" "fst kv" "fst mp"]
    by (auto simp: replace_all_def)
  then show ?thesis using assms(2) by (simp add: mask_one_def case_prod_beta)
qed

lemma fold_mask_absent:
  assumes "unbracketed v" "\<forall>kv \<in> set kvs. \<not> contains (placeholder_of (fst kv)) v"
  shows "\<not> contains (fst mp) v \<Longrightarrow> \<not> contains (fst (fold mask_one kvs mp)) v"
  using assms(2)
proof (induction kvs arbitrary: mp)
  case (Cons kv kvs)
  then show ?case using mask_one_absent [OF assms(1), of mp kv] by simp
qed simp

lemma mask_one_removes:
  assumes "unbracketed v" "8 \<le> length v" "\<not> contains (placeholder_of k) v"
  shows "\<not> contains (fst (mask_one (k, v) mp)) v"
proof -
  have "v \<noteq> []" using assms(2) by auto
  then show ?thesis
    using replace_removes [OF bracketed_placeholder assms(1) _ assms(3)] assms(2)
    by (simp add: mask_one_def replace_all_def MIN_MASKED_LENGTH_def)
qed

lemma masked_absent:
  assumes "(k, v) \<in> set kvs" "unbracketed v" "8 \<le> length v"
    "\<forall>kv \<in> set kvs. \<not> contains (placeholder_of (fst kv)) v"
  shows "\<not> contains (fst (mask_live_values compose kvs)) v"
proof -
  let ?s = "sort_key (\<lambda>kv. - int (length (snd kv))) kvs"
  obtain xs ys where s: "?s = xs @ (k, v) # ys" using split_list [of "(k, v)" ?s] assms(1) by auto
  have all: "\<forall>kv \<in> set (xs @ (k, v) # ys). \<not> contains (placeholder_of (fst kv)) v"
    using assms(4) unfolding s [symmetric] by simp
  then have "\<not> contains (fst (mask_one (k, v) (fold mask_one xs (compose, [])))) v"
    using mask_one_removes [OF assms(2,3)] by auto
  then show ?thesis
    using fold_mask_absent [OF assms(2)] all by (simp add: mask_live_values_def s)
qed

text \<open>
  Live secrets do not go to the model, and nothing unreviewed comes back: a live value of
  eight characters or more (without angle brackets, and not part of a placeholder's own text)
  occurs nowhere in the compose text of the question, whose environment holds names only; and
  a sanitized file is accepted only with enough confidence, as the scrubbed text, with no
  placeholder left, that is not blank and valid YAML.
\<close>
theorem adoption_masks_values:
  assumes "(k, v) \<in> set env" "unbracketed v" "8 \<le> length v"
    "\<forall>kv \<in> set env. \<not> contains (placeholder_of (fst kv)) v"
  shows "\<not> contains (sq_compose (adoption_question compose env labels)) v \<and>
    sq_env (adoption_question compose env labels) = map (\<lambda>kv. (fst kv, placeholder_of (fst kv))) env \<and>
    (ar_ok (adoption_generate yaml_ok threshold ask compose env labels) \<longrightarrow>
      (\<exists>a r. ask (adoption_question compose env labels) = Some a \<and> threshold \<le> sa_confidence a \<and>
        \<not> contains r ''<value-of:'' \<and> strip (fst (scrub_credentials r)) \<noteq> [] \<and>
        yaml_ok (ar_compose (adoption_generate yaml_ok threshold ask compose env labels)) \<and>
        ar_compose (adoption_generate yaml_ok threshold ask compose env labels) = untab (fst (scrub_credentials r))))"
proof (intro conjI impI)
  show "\<not> contains (sq_compose (adoption_question compose env labels)) v"
    using masked_absent [OF assms] by (simp add: adoption_question_def)
  show "sq_env (adoption_question compose env labels) = map (\<lambda>kv. (fst kv, placeholder_of (fst kv))) env"
    by (simp add: adoption_question_def)
  let ?g = "adoption_generate yaml_ok threshold ask compose env labels"
  assume ok: "ar_ok ?g"
  then obtain a where a: "ask (adoption_question compose env labels) = Some a"
    by (cases "ask (adoption_question compose env labels)")
      (auto simp: adoption_generate_def adoption_rejected_def)
  let ?r = "restore_live_values (sa_compose a) (snd (mask_live_values compose env))"
  have "threshold \<le> sa_confidence a \<and> \<not> contains ?r ''<value-of:'' \<and> strip (fst (scrub_credentials ?r)) \<noteq> [] \<and>
      yaml_ok (ar_compose ?g) \<and> ar_compose ?g = untab (fst (scrub_credentials ?r))"
    using ok a
    by (simp add: adoption_generate_def adoption_rejected_def Let_def PLACEHOLDER_PREFIX_def split: if_splits)
  then show "\<exists>a r. ask (adoption_question compose env labels) = Some a \<and> threshold \<le> sa_confidence a \<and>
        \<not> contains r ''<value-of:'' \<and> strip (fst (scrub_credentials r)) \<noteq> [] \<and>
        yaml_ok (ar_compose ?g) \<and> ar_compose ?g = untab (fst (scrub_credentials r))"
    using a by blast
qed

theorem adoption_masks_values_witness:
  "\<not> contains (sq_compose (adoption_question ''PASS: hunter2hunter2'' [(''PASS'', ''hunter2hunter2'')] [])) ''hunter2hunter2''"
proof -
  have "(''PASS'', ''hunter2hunter2'') \<in> set [(''PASS'', ''hunter2hunter2'')]" by simp
  moreover have "unbracketed ''hunter2hunter2''" by (simp add: unbracketed_def)
  moreover have "\<forall>kv \<in> set [(''PASS'', ''hunter2hunter2'')]. \<not> contains (placeholder_of (fst kv)) ''hunter2hunter2''"
    by code_simp
  ultimately show ?thesis
    using adoption_masks_values [of "''PASS''" "''hunter2hunter2''" "[(''PASS'', ''hunter2hunter2'')]"
        "''PASS: hunter2hunter2''" "[]"] by simp
qed

end
