(* ===== verification/AdoptionTools.thy ===== *)
theory AdoptionTools
  imports AdoptionSsh AdoptionGen ProposalEngine SecretsTools Hardware Gate
begin

text \<open>
  \<open>adoption/store.py\<close>, the branch, commit and push helpers of \<open>gitcrypt.py\<close>, and
  \<open>tools/adoption.py\<close>: bringing a live container under GitOps. The state is the draft table,
  the proposals with their provider trace, the trace of the local clone and the SSH commands.
  Each tool call runs to its end before the next.
\<close>

section \<open>The draft store\<close>

type_synonym drafts = "adoption_draft list"

definition draft_now_like :: "instant \<Rightarrow> datetime \<Rightarrow> datetime" where
  "draft_now_like now e = (if is_naive e then Naive now else Aware now)"

definition draft_is_past :: "instant \<Rightarrow> datetime \<Rightarrow> bool" where
  "draft_is_past now e \<longleftrightarrow> dt_less e (draft_now_like now e) = Some True"

text \<open>The row as SQLite returns it; \<open>None\<close> is an \<open>IntegrityError\<close>.\<close>

definition draft_create :: "adoption_draft \<Rightarrow> drafts \<Rightarrow> drafts \<times> adoption_draft option" where
  "draft_create d t =
     (let row = d\<lparr>ad_created_at := sqlite_datetime (ad_created_at d),
                  ad_expires_at := sqlite_datetime (ad_expires_at d)\<rparr>
      in case insert_row ad_id row t of None \<Rightarrow> (t, None) | Some t' \<Rightarrow> (t', Some row))"

definition draft_get :: "pystr \<Rightarrow> drafts \<Rightarrow> adoption_draft option" where
  "draft_get i t = get_row ad_id t i"

definition draft_set_status ::
  "pystr \<Rightarrow> adoption_draft_status \<Rightarrow> drafts \<Rightarrow> drafts \<times> adoption_draft option" where
  "draft_set_status i st t =
     (let t' = put_row ad_id i (\<lambda>d. d\<lparr>ad_status := st\<rparr>) t in (t', get_row ad_id t' i))"

definition draft_get_pending :: "instant \<Rightarrow> pystr \<Rightarrow> drafts \<Rightarrow> drafts \<times> adoption_draft option" where
  "draft_get_pending now i t =
     (case draft_get i t of
        None \<Rightarrow> (t, None)
      | Some d \<Rightarrow>
          if ad_status d \<noteq> Draft_pending then (t, None)
          else if draft_is_past now (ad_expires_at d) then (fst (draft_set_status i Draft_expired t), None)
          else (t, Some d))"

definition draft_overdue :: "instant \<Rightarrow> adoption_draft \<Rightarrow> bool" where
  "draft_overdue now d \<longleftrightarrow> ad_status d = Draft_pending \<and> draft_is_past now (ad_expires_at d)"

definition draft_purge_expired :: "instant \<Rightarrow> drafts \<Rightarrow> drafts \<times> nat" where
  "draft_purge_expired now t =
     (map (\<lambda>d. if draft_overdue now d then d\<lparr>ad_status := Draft_expired\<rparr> else d) t,
      length (filter (draft_overdue now) t))"

definition ttl_expiry :: "instant \<Rightarrow> int \<Rightarrow> datetime" where
  "ttl_expiry now ttl_minutes = Aware (now + minutes ttl_minutes)"

section \<open>The local clone\<close>

datatype local_error = Local_vault vault_error | Local_git pystr pystr

definition local_git ::
  "vault \<Rightarrow> pystr \<Rightarrow> pystr list \<Rightarrow> vault_event list \<Rightarrow> vault_event list \<times> local_error option" where
  "local_git v what cmd tr =
     (case run_cmd v cmd tr of
        (tr1, rc, err) \<Rightarrow> (tr1, if rc \<noteq> 0 then Some (Local_git what (strip err)) else None))"

definition git_checkout_branch ::
  "vault \<Rightarrow> pystr \<Rightarrow> pystr \<Rightarrow> vault_event list \<Rightarrow> vault_event list \<times> local_error option" where
  "git_checkout_branch v branch base tr =
     (case local_git v ''fetch'' [''git'', ''fetch'', ''origin'', base] tr of
        (tr1, Some e) \<Rightarrow> (tr1, Some e)
      | (tr1, None) \<Rightarrow>
          (let (tr2, _) = run_cmd v [''git'', ''fetch'', ''origin'', branch] tr1;
               (tr3, rc, _) = run_cmd v [''git'', ''rev-parse'', ''--verify'', ''origin/'' @ branch] tr2;
               upstream = (if rc = 0 then ''origin/'' @ branch else ''origin/'' @ base)
           in local_git v ''checkout'' [''git'', ''checkout'', ''-B'', branch, upstream] tr3))"

definition git_commit_paths ::
  "vault \<Rightarrow> pystr list \<Rightarrow> pystr \<Rightarrow> vault_event list \<Rightarrow> vault_event list \<times> local_error option" where
  "git_commit_paths v paths message tr =
     (case local_git v ''add'' ([''git'', ''add''] @ paths) tr of
        (tr1, Some e) \<Rightarrow> (tr1, Some e)
      | (tr1, None) \<Rightarrow>
          (case run_cmd v [''git'', ''diff'', ''--cached'', ''--quiet''] tr1 of
             (tr2, rc, err) \<Rightarrow>
               if rc = 0 then (tr2, None)
               else local_git v ''commit'' [''git'', ''commit'', ''-m'', message] tr2))"

definition git_push_branch ::
  "vault \<Rightarrow> pystr \<Rightarrow> vault_event list \<Rightarrow> vault_event list \<times> local_error option" where
  "git_push_branch v branch tr = local_git v ''push'' [''git'', ''push'', ''-u'', ''origin'', branch] tr"

section \<open>Drafting\<close>

record adoption_settings =
  as_read_only :: bool
  as_enabled :: bool
  as_git :: bool
  as_repo :: "pystr option"
  as_secrets_repo :: "pystr option"
  as_ssh_key :: "pystr option"
  as_ssh_user :: pystr
  as_base :: pystr
  as_label :: pystr
  as_path :: "pystr \<Rightarrow> pystr \<Rightarrow> pystr"
  as_ttl :: int
  as_threshold :: rat
  as_local_repo :: "vault_error + pystr list"
  as_key :: "vault_error + pystr"

datatype adoption_unready = Adoption_off | Adoption_no_git | Adoption_no_repo | Adoption_no_key

definition adoption_unavailable :: "adoption_settings \<Rightarrow> adoption_unready option" where
  "adoption_unavailable st =
     (if \<not> as_enabled st then Some Adoption_off
      else if \<not> as_git st \<or> \<not> truthy (as_repo st) then Some Adoption_no_git
      else if \<not> truthy (as_secrets_repo st) then Some Adoption_no_repo
      else if \<not> truthy (as_ssh_key st) then Some Adoption_no_key
      else None)"

record adoption_world =
  aw_drafts :: drafts
  aw_prop :: pworld
  aw_local :: "vault_event list"
  aw_ssh :: "pystr list list"

text \<open>What the calls meet; \<open>ax_draft_id\<close> and \<open>ax_token\<close> are random.\<close>

record adoption_oracles =
  ax_git :: oracles
  ax_vault :: vault
  ax_run :: ssh_run
  ax_loads :: "pystr \<Rightarrow> json option"
  ax_str :: "json \<Rightarrow> pystr"
  ax_ask :: "secrets_question \<Rightarrow> secrets_answer option"
  ax_reason :: "adoption_rejection \<Rightarrow> pystr"
  ax_draft_id :: "nat \<Rightarrow> pystr"
  ax_token :: "nat \<Rightarrow> pystr"

datatype adoption_reply =
    Adopt_read_only
  | Adopt_unready adoption_unready
  | Adopt_no_service pystr
  | Adopt_unlinked
  | Adopt_no_node
  | Adopt_not_docker
  | Adopt_no_container
  | Adopt_ssh_error ssh_error
  | Adopt_no_labels
  | Adopt_raised
  | Adopt_rejected adoption_rejection proposal
  | Adopt_drafted adoption_draft
  | Adopt_no_draft
  | Adopt_bad_strategy
  | Adopt_vault_error vault_error
  | Adopt_path_error path_error
  | Adopt_local_error local_error
  | Adopt_git_error git_error
  | Adopt_opened proposal

definition container_ref :: "(json \<Rightarrow> pystr) \<Rightarrow> json \<Rightarrow> pystr" where
  "container_ref str raw =
     (let pick = (if json_falsy (json_get raw ''name'') then json_get raw ''id'' else json_get raw ''name'') in
      if json_falsy pick then [] else case pick of Some (JStr s) \<Rightarrow> s | Some v \<Rightarrow> str v | None \<Rightarrow> [])"

definition run_remote :: "pystr list list \<Rightarrow> adoption_world \<Rightarrow> adoption_world" where
  "run_remote cmds w = w\<lparr>aw_ssh := aw_ssh w @ cmds\<rparr>"

definition label_texts :: "(json \<Rightarrow> pystr) \<Rightarrow> (pystr \<times> json) list \<Rightarrow> (pystr \<times> pystr) list" where
  "label_texts str labels = map (\<lambda>(k, v). (k, case v of JStr s \<Rightarrow> s | _ \<Rightarrow> str v)) labels"

text \<open>From the container's environment and compose text on: the model, then a draft or a rejection.\<close>

definition draft_adoption ::
  "adoption_settings \<Rightarrow> adoption_oracles \<Rightarrow> service \<Rightarrow> hardware_node \<Rightarrow> ssh_login \<Rightarrow> pystr \<Rightarrow> pystr \<Rightarrow> pystr
     \<Rightarrow> (pystr \<times> pystr) list \<Rightarrow> (pystr \<times> pystr) list \<Rightarrow> adoption_world \<Rightarrow> adoption_world \<times> adoption_reply" where
  "draft_adoption st x s node l ct compose_path raw_compose cenv labels w =
     (let r = adoption_generate (go_yaml (ax_git x)) (as_threshold st) (ax_ask x) raw_compose cenv labels in
      if \<not> ar_ok r then
        (let why = the (ar_rejection r);
             (p, row) = add_proposal (ax_git x) Finding_legacy_adoption
               (\<lambda>p. p\<lparr>pr_service_id := Some (svc_id s), pr_status := Proposal_rejected,
                      pr_rejection_reason := Some (ax_reason x why), pr_confidence := Some (ar_confidence r),
                      pr_actor := ''manual:proposal_adopt_service''\<rparr>) (aw_prop w)
         in (w\<lparr>aw_prop := emit (Notified None) p\<rparr>, Adopt_rejected why row))
      else
        (let now = go_now (ax_git x) (pw_trace (aw_prop w));
             detected = List.map_filter
               (\<lambda>k. map_option (\<lambda>v. \<lparr>ds_key = k, ds_live_value = v\<rparr>) (map_of cenv k)) (ar_keys r);
             node_label = (if truthy (svc_host s) then the (svc_host s) else hn_hostname node);
             (t, row) = draft_create
               \<lparr>ad_id = ax_draft_id x (length (aw_drafts w)), ad_service_id = svc_id s, ad_host = sl_host l,
                ad_ssh_user = sl_user l, ad_container_name = ct, ad_compose_path = compose_path,
                ad_target_file_path = as_path st node_label (svc_name s), ad_sanitized_compose = ar_compose r,
                ad_detected_secrets = detected, ad_confidence = ar_confidence r, ad_reasoning = ar_reasoning r,
                ad_status = Draft_pending, ad_created_at = Aware now,
                ad_expires_at = ttl_expiry now (as_ttl st)\<rparr> (aw_drafts w)
         in (w\<lparr>aw_drafts := t\<rparr>, case row of None \<Rightarrow> Adopt_raised | Some d \<Rightarrow> Adopt_drafted d)))"

text \<open>From the checked service on: inspect, find the compose file, read it.\<close>

definition inspect_and_draft ::
  "adoption_settings \<Rightarrow> adoption_oracles \<Rightarrow> service \<Rightarrow> hardware_node \<Rightarrow> ssh_login \<Rightarrow> pystr
     \<Rightarrow> adoption_world \<Rightarrow> adoption_world \<times> adoption_reply" where
  "inspect_and_draft st x s node l ct w =
     (case inspect_container (ax_loads x) (ax_run x) l ct of
        (cmds, Inl e) \<Rightarrow>
          (run_remote cmds w, if e = Ssh_other_exception then Adopt_raised else Adopt_ssh_error e)
      | (cmds, Inr d) \<Rightarrow>
          (case (labels_from_inspect d, env_dict_from_inspect (ax_str x) d) of
             (Some labels, Some cenv) \<Rightarrow>
               (case compose_paths_from_labels labels of
                  None \<Rightarrow> (run_remote cmds w, Adopt_raised)
                | Some ([], wd) \<Rightarrow> (run_remote cmds w, Adopt_no_labels)
                | Some (compose_path # ps, wd) \<Rightarrow>
                    (case read_remote_file (ax_run x) l compose_path of
                       (cmds', Inl e) \<Rightarrow> (run_remote (cmds @ cmds') w, Adopt_ssh_error e)
                     | (cmds', Inr raw_compose) \<Rightarrow>
                         draft_adoption st x s node l ct compose_path raw_compose cenv
                           (label_texts (ax_str x) labels) (run_remote (cmds @ cmds') w)))
           | _ \<Rightarrow> (run_remote cmds w, Adopt_raised)))"

definition adopt_service ::
  "adoption_settings \<Rightarrow> adoption_oracles \<Rightarrow> registry \<Rightarrow> hardware \<Rightarrow> pystr \<Rightarrow> pystr option
     \<Rightarrow> adoption_world \<Rightarrow> adoption_world \<times> adoption_reply" where
  "adopt_service st x rg hw service_id ssh_user w =
     (if as_read_only st then (w, Adopt_read_only)
      else case adoption_unavailable st of
        Some e \<Rightarrow> (w, Adopt_unready e)
      | None \<Rightarrow>
          (case get_service service_id rg of
             None \<Rightarrow> (w, Adopt_no_service service_id)
           | Some s \<Rightarrow>
               if \<not> truthy (svc_hardware_node_id s) then (w, Adopt_unlinked)
               else (case get_node (the (svc_hardware_node_id s)) hw of
                  None \<Rightarrow> (w, Adopt_no_node)
                | Some node \<Rightarrow>
                    (case get_source (svc_id s) Source_docker rg of
                       None \<Rightarrow> (w, Adopt_not_docker)
                     | Some src \<Rightarrow>
                         (let ct = container_ref (ax_str x) (src_raw src);
                              l = \<lparr>sl_key = the (as_ssh_key st),
                                   sl_user = (if truthy ssh_user then the ssh_user else as_ssh_user st),
                                   sl_host = (if truthy (hn_ip_address node) then the (hn_ip_address node)
                                              else hn_hostname node)\<rparr>
                          in if ct = [] then (w, Adopt_no_container)
                             else inspect_and_draft st x s node l ct w)))))"

section \<open>Finalizing\<close>

definition secret_values ::
  "adoption_oracles \<Rightarrow> pystr \<Rightarrow> adoption_draft \<Rightarrow> (pystr \<times> pystr) list" where
  "secret_values x strategy d =
     fold (\<lambda>(i, sec) e. dict_set (ds_key sec)
             (if strategy = ''keep'' then ds_live_value sec else ax_token x i) e)
       (enumerate 0 (ad_detected_secrets d)) []"

text \<open>\<open>str(Path(target).parent / ".env")\<close>.\<close>

definition env_path_of :: "pystr \<Rightarrow> pystr" where
  "env_path_of target =
     (if starts_with target ''/'' then ''/'' else []) @ join ''/'' (butlast (path_parts target) @ [''.env''])"

text \<open>The steps on the local clone, in order; the first failure ends them.\<close>

definition push_secrets ::
  "adoption_oracles \<Rightarrow> pystr list \<Rightarrow> pystr \<Rightarrow> pystr \<Rightarrow> pystr \<Rightarrow> (pystr \<times> pystr) list \<Rightarrow> pystr
     \<Rightarrow> vault_event list \<Rightarrow> vault_event list \<times> local_error option" where
  "push_secrets x repo branch base env_path values message tr =
     (let v = ax_vault x in
      case git_checkout_branch v branch base tr of
        (tr1, Some e) \<Rightarrow> (tr1, Some e)
      | (tr1, None) \<Rightarrow>
          (case ensure_unlocked v repo tr1 of
             (tr2, Some e) \<Rightarrow> (tr2, Some (Local_vault e))
           | (tr2, None) \<Rightarrow>
               (let target = repo @ path_parts env_path;
                    tr3 = tr2 @ [Ev_mkdir (butlast target), Ev_write target (serialize_dotenv values)];
                    (tr4, _) = ensure_gitattributes_entry v repo env_path tr3
                in case git_commit_paths v [env_path, ''.gitattributes''] message tr4 of
                     (tr5, Some e) \<Rightarrow> (tr5, Some e)
                   | (tr5, None) \<Rightarrow> git_push_branch v branch tr5)))"

text \<open>The checks before the clone is touched: the repository, the path, every entry.\<close>

definition check_secrets ::
  "adoption_settings \<Rightarrow> adoption_oracles \<Rightarrow> pystr \<Rightarrow> (pystr \<times> pystr) list \<Rightarrow> adoption_reply + pystr list" where
  "check_secrets st x env_path values =
     (case as_local_repo st of
        Inl e \<Rightarrow> Inl (Adopt_vault_error e)
      | Inr repo \<Rightarrow>
          (case as_key st of
             Inl e \<Rightarrow> Inl (Adopt_vault_error e)
           | Inr k \<Rightarrow>
               (case check_path (vt_resolve (ax_vault x)) repo env_path of
                  Inl e \<Rightarrow> Inl (Adopt_path_error e)
                | Inr target \<Rightarrow>
                    (case check_attr_path env_path of
                       Some e \<Rightarrow> Inl (Adopt_path_error e)
                     | None \<Rightarrow>
                         (case List.map_filter (\<lambda>(k, v). check_dotenv_entry k v) values of
                            e # es \<Rightarrow> Inl (Adopt_path_error e)
                          | [] \<Rightarrow> Inr repo)))))"

definition adoption_branch :: "service \<Rightarrow> adoption_draft \<Rightarrow> pystr" where
  "adoption_branch s d = ''adopt/'' @ svc_name s @ ''-'' @ take 8 (ad_id d)"

definition adoption_body :: "pystr \<Rightarrow> adoption_draft \<Rightarrow> pystr \<Rightarrow> pystr" where
  "adoption_body name d strategy =
     (let nl = [CHR 0x0A]; keys = join '', '' (map ds_key (ad_detected_secrets d)) in
      ''Automated brownfield adoption of `'' @ name @ ''`, originally running from a '' @
      ''hand-written compose file at `'' @ ad_compose_path d @ ''` on `'' @ ad_host d @ ''`.'' @ nl @ nl @
      ''**Secrets detected:** '' @ (if keys = [] then ''none'' else keys) @ nl @
      ''**Secret handling:** '' @ strategy @ nl @ nl @ ad_reasoning d @ nl @ nl @
      ''Review the sanitized compose file and the `.env` commit before merging.'')"

text \<open>Branch (unless pushed already), commit, pull request at the provider.\<close>

definition provider_open ::
  "adoption_settings \<Rightarrow> adoption_oracles \<Rightarrow> bool \<Rightarrow> service \<Rightarrow> adoption_draft \<Rightarrow> pystr \<Rightarrow> pworld
     \<Rightarrow> pworld \<times> (git_error + pystr \<times> int)" where
  "provider_open st x pushed s d strategy p =
     (let g = ax_git x; repo = the (as_repo st); base = as_base st; branch = adoption_branch s d;
          p1 = (if pushed then p else emit (G_branch repo branch base) p)
      in case (if pushed then None else go_branch g (pw_trace p1)) of
           Some e \<Rightarrow> (p1, Inl e)
         | None \<Rightarrow>
             (let p2 = emit (G_commit repo (ad_target_file_path d) (ad_sanitized_compose d) branch
                               (''feat: adopt '' @ svc_name s @ '' into GitOps management'')) p1 in
              case go_commit g (pw_trace p2) of
                Some e \<Rightarrow> (p2, Inl e)
              | None \<Rightarrow>
                  (let p3 = emit (G_open repo (''Adopt '' @ svc_name s @ '' into GitOps management'')
                                    (adoption_body (svc_name s) d strategy) branch base (as_label st)) p2
                   in (p3, go_open g (pw_trace p3)))))"

definition finish_adoption ::
  "adoption_settings \<Rightarrow> adoption_oracles \<Rightarrow> bool \<Rightarrow> service \<Rightarrow> adoption_draft \<Rightarrow> pystr
     \<Rightarrow> adoption_world \<Rightarrow> adoption_world \<times> adoption_reply" where
  "finish_adoption st x pushed s d strategy w =
     (case provider_open st x pushed s d strategy (aw_prop w) of
        (p, Inl e) \<Rightarrow> (w\<lparr>aw_prop := p\<rparr>, Adopt_git_error e)
      | (p, Inr (url, number)) \<Rightarrow>
          (let (p1, row) = add_proposal (ax_git x) Finding_legacy_adoption
                 (\<lambda>r. r\<lparr>pr_service_id := Some (svc_id s), pr_pr_url := url, pr_pr_number := Some number,
                        pr_branch := adoption_branch s d, pr_file_path := ad_target_file_path d,
                        pr_diff := ad_sanitized_compose d, pr_status := Proposal_open,
                        pr_confidence := Some (ad_confidence d),
                        pr_actor := ''manual:proposal_adopt_service_finalize''\<rparr>) p
           in (w\<lparr>aw_prop := emit (Notified (Some url)) p1,
                 aw_drafts := fst (draft_set_status (ad_id d) Draft_finalized (aw_drafts w))\<rparr>,
               Adopt_opened row)))"

definition adopt_finalize ::
  "adoption_settings \<Rightarrow> adoption_oracles \<Rightarrow> registry \<Rightarrow> pystr \<Rightarrow> pystr
     \<Rightarrow> adoption_world \<Rightarrow> adoption_world \<times> adoption_reply" where
  "adopt_finalize st x rg draft_id strategy w =
     (if as_read_only st then (w, Adopt_read_only)
      else case adoption_unavailable st of
        Some e \<Rightarrow> (w, Adopt_unready e)
      | None \<Rightarrow>
          (case draft_get_pending (go_now (ax_git x) (pw_trace (aw_prop w))) draft_id (aw_drafts w) of
             (t, None) \<Rightarrow> (w\<lparr>aw_drafts := t\<rparr>, Adopt_no_draft)
           | (t, Some d) \<Rightarrow>
               (case get_service (ad_service_id d) rg of
                  None \<Rightarrow> (w, Adopt_no_service (ad_service_id d))
                | Some s \<Rightarrow>
                    if ad_detected_secrets d \<noteq> [] \<and> strategy \<notin> {''keep'', ''rotate''} then (w, Adopt_bad_strategy)
                    else
                      (let values = secret_values x strategy d in
                       if values = [] then finish_adoption st x False s d strategy w
                       else
                         (let env_path = env_path_of (ad_target_file_path d) in
                          case check_secrets st x env_path values of
                            Inl r \<Rightarrow> (w, r)
                          | Inr repo \<Rightarrow>
                              (case push_secrets x repo (adoption_branch s d) (as_base st) env_path values
                                      (''chore: add secrets for '' @ svc_name s @ '' (adopted)'') (aw_local w) of
                                 (tr, Some e) \<Rightarrow> (w\<lparr>aw_local := tr\<rparr>, Adopt_local_error e)
                               | (tr, None) \<Rightarrow> finish_adoption st x True s d strategy (w\<lparr>aw_local := tr\<rparr>)))))))"

definition adopt_cancel ::
  "adoption_settings \<Rightarrow> pystr \<Rightarrow> adoption_world \<Rightarrow> adoption_world \<times> adoption_draft option" where
  "adopt_cancel st draft_id w =
     (if as_read_only st \<or> \<not> as_enabled st then (w, None)
      else case draft_get draft_id (aw_drafts w) of
        None \<Rightarrow> (w, None)
      | Some d \<Rightarrow>
          (let (t, r) = draft_set_status draft_id Draft_cancelled (aw_drafts w)
           in (w\<lparr>aw_drafts := t\<rparr>, or_value r (Some d))))"

text \<open>What a read tool shows of a draft: of its secrets only the keys.\<close>

definition adopt_get :: "pystr \<Rightarrow> adoption_world \<Rightarrow> (adoption_draft \<times> pystr list) option" where
  "adopt_get draft_id w =
     map_option (\<lambda>d. (d\<lparr>ad_detected_secrets := []\<rparr>, map ds_key (ad_detected_secrets d)))
       (draft_get draft_id (aw_drafts w))"

end
