(* ===== verification/AdoptionClaims.thy ===== *)
theory AdoptionClaims
  imports AdoptionTools ProposalClaims
begin

text \<open>
  What holds of the adoption tools: a draft is finalized at most once, secrets go to the local
  clone only, and a finished draft can still be marked cancelled.
\<close>

section \<open>The tools as a machine\<close>

datatype adoption_op =
    Do_adopt registry hardware pystr "pystr option"
  | Do_finalize registry pystr pystr
  | Do_cancel pystr
  | Do_purge instant

fun adoption_step ::
  "adoption_settings \<Rightarrow> adoption_oracles \<Rightarrow> adoption_op \<Rightarrow> adoption_world
     \<Rightarrow> adoption_world \<times> adoption_reply option" where
  "adoption_step st x (Do_adopt rg hw sid user) w =
     (let (w', r) = adopt_service st x rg hw sid user w in (w', Some r))"
| "adoption_step st x (Do_finalize rg i strategy) w =
     (let (w', r) = adopt_finalize st x rg i strategy w in (w', Some r))"
| "adoption_step st x (Do_cancel i) w = (fst (adopt_cancel st i w), None)"
| "adoption_step st x (Do_purge now) w =
     (w\<lparr>aw_drafts := fst (draft_purge_expired now (aw_drafts w))\<rparr>, None)"

text \<open>The call that opened the pull request of draft \<open>k\<close>.\<close>

fun adoption_wins :: "adoption_op \<Rightarrow> adoption_reply option \<Rightarrow> pystr \<Rightarrow> bool" where
  "adoption_wins (Do_finalize rg i strategy) (Some (Adopt_opened row)) k = (i = k)"
| "adoption_wins op r k = False"

definition draft_is_pending :: "adoption_draft \<Rightarrow> bool" where
  "draft_is_pending d \<longleftrightarrow> ad_status d = Draft_pending"

lemma draft_is_past_iff [simp]: "draft_is_past now e \<longleftrightarrow> instant_of e < now"
  by (cases e) (auto simp: draft_is_past_def draft_now_like_def)

section \<open>What the calls do to the drafts\<close>

text \<open>The changes a call may make to the draft table.\<close>

definition draft_change :: "drafts \<Rightarrow> drafts \<Rightarrow> bool" where
  "draft_change t t' \<longleftrightarrow>
     t' = t \<or> (\<exists>i st. st \<noteq> Draft_pending \<and> t' = put_row ad_id i (\<lambda>d. d\<lparr>ad_status := st\<rparr>) t) \<or>
     (\<exists>now. t' = fst (draft_purge_expired now t)) \<or> (\<exists>d. insert_row ad_id d t = Some t')"

lemma draft_change_evolves: "draft_change t t' \<Longrightarrow> evolves ad_id draft_is_pending t t'"
  by (auto simp: draft_change_def draft_is_pending_def draft_purge_expired_def
      intro: evolves_insert intro!: evolves_put evolves_map split: if_splits)

lemma draft_change_keyed: "draft_change t t' \<Longrightarrow> keyed ad_id t \<Longrightarrow> keyed ad_id t'"
  by (auto simp: draft_change_def draft_purge_expired_def keyed_put keyed_map intro: keyed_insert)

lemma get_pending_drafts:
  "draft_change t (fst (draft_get_pending now i t)) \<and>
   (\<forall>d. snd (draft_get_pending now i t) = Some d \<longrightarrow>
      fst (draft_get_pending now i t) = t \<and> get_row ad_id t i = Some d \<and> ad_status d = Draft_pending \<and>
      now \<le> instant_of (ad_expires_at d))"
proof (cases "draft_get i t")
  case None
  then show ?thesis by (simp add: draft_get_pending_def draft_change_def)
next
  case (Some d)
  have "\<exists>j st. st \<noteq> Draft_pending \<and>
      put_row ad_id i (\<lambda>d. d\<lparr>ad_status := Draft_expired\<rparr>) t = put_row ad_id j (\<lambda>d. d\<lparr>ad_status := st\<rparr>) t"
    by (intro exI [of _ i] exI [of _ Draft_expired]) simp
  then show ?thesis
    using Some
    by (auto simp: draft_get_pending_def draft_change_def draft_set_status_def draft_get_def Let_def)
qed

lemma finish_drafts:
  "aw_drafts (fst (finish_adoption st x b s d strategy w)) =
     (case snd (finish_adoption st x b s d strategy w) of
        Adopt_opened row \<Rightarrow> put_row ad_id (ad_id d) (\<lambda>d. d\<lparr>ad_status := Draft_finalized\<rparr>) (aw_drafts w)
      | _ \<Rightarrow> aw_drafts w)"
  by (simp add: finish_adoption_def case_prod_beta draft_set_status_def Let_def split: sum.split prod.split)

lemma finish_reply:
  "(\<exists>row. snd (finish_adoption st x b s d strategy w) = Adopt_opened row) \<or>
   (\<exists>e. snd (finish_adoption st x b s d strategy w) = Adopt_git_error e)"
  by (simp add: finish_adoption_def case_prod_beta split: sum.split prod.split)

lemma draft_adoption_drafts:
  "draft_change (aw_drafts w) (aw_drafts (fst (draft_adoption st x s n l ct cp rc env ls w)))"
  by (auto simp: draft_adoption_def Let_def case_prod_beta draft_create_def draft_change_def split: option.split)

lemma run_remote_drafts [simp]: "aw_drafts (run_remote cmds w) = aw_drafts w"
  by (simp add: run_remote_def)

lemma draft_change_refl [simp]: "draft_change t t"
  by (simp add: draft_change_def)

lemma inspect_and_draft_drafts:
  "draft_change (aw_drafts w) (aw_drafts (fst (inspect_and_draft st x s n l ct w)))"
  using draft_adoption_drafts [of "run_remote cmds w" for cmds]
  by (simp add: inspect_and_draft_def split: prod.split sum.split option.split list.split)

lemma adopt_service_drafts:
  "draft_change (aw_drafts w) (aw_drafts (fst (adopt_service st x rg hw sid user w)))"
  by (simp add: adopt_service_def Let_def inspect_and_draft_drafts split: option.split)

text \<open>A finalizing call: refused without touching a provider, or the draft was pending.\<close>

lemma adopt_finalize_cases:
  obtains (refused) "draft_change (aw_drafts w) (aw_drafts (fst (adopt_finalize st x rg i strategy w)))"
      "\<nexists>row. snd (adopt_finalize st x rg i strategy w) = Adopt_opened row"
      "aw_prop (fst (adopt_finalize st x rg i strategy w)) = aw_prop w"
      "aw_local (fst (adopt_finalize st x rg i strategy w)) = aw_local w"
    | (local_failed) d s repo tr e where
      "\<not> as_read_only st" "adoption_unavailable st = None" "get_row ad_id (aw_drafts w) i = Some d" "ad_status d = Draft_pending"
      "check_secrets st x (env_path_of (ad_target_file_path d)) (secret_values x strategy d) = Inr repo"
      "push_secrets x repo (adoption_branch s d) (as_base st) (env_path_of (ad_target_file_path d))
         (secret_values x strategy d) (''chore: add secrets for '' @ svc_name s @ '' (adopted)'') (aw_local w) = (tr, Some e)"
      "adopt_finalize st x rg i strategy w = (w\<lparr>aw_local := tr\<rparr>, Adopt_local_error e)"
    | (plain) d s where
      "\<not> as_read_only st" "adoption_unavailable st = None" "get_row ad_id (aw_drafts w) i = Some d" "ad_status d = Draft_pending"
      "secret_values x strategy d = []"
      "adopt_finalize st x rg i strategy w = finish_adoption st x False s d strategy w"
    | (secrets) d s repo tr where
      "\<not> as_read_only st" "adoption_unavailable st = None" "get_row ad_id (aw_drafts w) i = Some d" "ad_status d = Draft_pending"
      "check_secrets st x (env_path_of (ad_target_file_path d)) (secret_values x strategy d) = Inr repo"
      "push_secrets x repo (adoption_branch s d) (as_base st) (env_path_of (ad_target_file_path d))
         (secret_values x strategy d) (''chore: add secrets for '' @ svc_name s @ '' (adopted)'') (aw_local w) = (tr, None)"
      "adopt_finalize st x rg i strategy w = finish_adoption st x True s d strategy (w\<lparr>aw_local := tr\<rparr>)"
proof (cases "as_read_only st \<or> adoption_unavailable st \<noteq> None")
  case True
  then have f: "fst (adopt_finalize st x rg i strategy w) = w"
    "\<nexists>row. snd (adopt_finalize st x rg i strategy w) = Adopt_opened row"
    by (auto simp: adopt_finalize_def)
  show thesis by (rule refused) (simp_all add: f)
next
  case ready: False
  then have ro: "\<not> as_read_only st" "adoption_unavailable st = None" by auto
  let ?now = "go_now (ax_git x) (pw_trace (aw_prop w))"
  obtain t o' where p: "draft_get_pending ?now i (aw_drafts w) = (t, o')"
    by (cases "draft_get_pending ?now i (aw_drafts w)")
  note gp = get_pending_drafts [of "aw_drafts w" ?now i, unfolded p fst_conv snd_conv]
  show thesis
  proof (cases o')
    case None
    then have f: "adopt_finalize st x rg i strategy w = (w\<lparr>aw_drafts := t\<rparr>, Adopt_no_draft)"
      using ro p by (simp add: adopt_finalize_def)
    show thesis by (rule refused) (use gp in \<open>simp_all add: f\<close>)
  next
    case (Some d)
    then have d: "t = aw_drafts w" "get_row ad_id (aw_drafts w) i = Some d" "ad_status d = Draft_pending"
      using gp by auto
    show thesis
    proof (cases "get_service (ad_service_id d) rg")
      case None
      then have f: "adopt_finalize st x rg i strategy w = (w, Adopt_no_service (ad_service_id d))"
        using ro p \<open>o' = Some d\<close> by (simp add: adopt_finalize_def)
      show thesis by (rule refused) (simp_all add: f)
    next
      case (Some s)
      note def = adopt_finalize_def [of st x rg i strategy w]
      show thesis
      proof (cases "ad_detected_secrets d \<noteq> [] \<and> strategy \<notin> {''keep'', ''rotate''}")
        case True
        then have f: "adopt_finalize st x rg i strategy w = (w, Adopt_bad_strategy)"
          using ro p \<open>o' = Some d\<close> Some by (simp add: def)
        show thesis by (rule refused) (simp_all add: f)
      next
        case strategy: False
        show thesis
        proof (cases "secret_values x strategy d = []")
          case True
          have "adopt_finalize st x rg i strategy w = finish_adoption st x False s d strategy w"
            using ro p \<open>o' = Some d\<close> Some strategy True by (auto simp: def Let_def)
          then show thesis using plain ro d True by blast
        next
          case False
          show thesis
          proof (cases "check_secrets st x (env_path_of (ad_target_file_path d)) (secret_values x strategy d)")
            case (Inl r)
            have f: "adopt_finalize st x rg i strategy w = (w, r)"
              using ro p \<open>o' = Some d\<close> Some strategy False Inl by (auto simp: def Let_def)
            have "\<nexists>row. r = Adopt_opened row"
              using Inl by (auto simp: check_secrets_def split: sum.splits option.splits list.splits)
            then show thesis by (intro refused) (simp_all add: f)
          next
            case (Inr repo)
            let ?p = "push_secrets x repo (adoption_branch s d) (as_base st) (env_path_of (ad_target_file_path d))
              (secret_values x strategy d) (''chore: add secrets for '' @ svc_name s @ '' (adopted)'') (aw_local w)"
            obtain tr e where e: "?p = (tr, e)" by (cases ?p)
            have f: "adopt_finalize st x rg i strategy w =
                (case e of Some e \<Rightarrow> (w\<lparr>aw_local := tr\<rparr>, Adopt_local_error e)
                 | None \<Rightarrow> finish_adoption st x True s d strategy (w\<lparr>aw_local := tr\<rparr>))"
              using ro p \<open>o' = Some d\<close> Some strategy False Inr e by (auto simp: def Let_def split: option.split)
            show thesis
            proof (cases e)
              case None
              then show thesis using secrets [OF ro d(2,3) Inr] e f by simp
            next
              case (Some e')
              then show thesis using local_failed [OF ro d(2,3) Inr] e f by simp
            qed
          qed
        qed
      qed
    qed
  qed
qed

lemma opened_finalizes:
  assumes "get_row ad_id t i = Some d" "ad_status d = Draft_pending" "aw_drafts w = t"
    "snd (finish_adoption st x b s d strategy w) = Adopt_opened row"
  shows "(\<exists>r. get_row ad_id (aw_drafts (fst (finish_adoption st x b s d strategy w))) i = Some r \<and> \<not> draft_is_pending r)"
  using assms get_row_SomeD [OF assms(1)]
  by (simp add: finish_drafts get_row_put_row draft_is_pending_def)

lemma finish_draft_change: "draft_change (aw_drafts w) (aw_drafts (fst (finish_adoption st x b s d strategy w)))"
proof -
  have "draft_change t (put_row ad_id i (\<lambda>d. d\<lparr>ad_status := Draft_finalized\<rparr>) t)" for t i
    unfolding draft_change_def by (intro disjI2 disjI1 exI [of _ i] exI [of _ Draft_finalized]) simp
  then show ?thesis by (simp add: finish_drafts split: adoption_reply.split)
qed

lemma adoption_step_drafts: "draft_change (aw_drafts w) (aw_drafts (fst (adoption_step st x op w)))"
proof (cases op)
  case (Do_adopt rg hw sid user)
  then show ?thesis by (simp add: case_prod_beta adopt_service_drafts)
next
  case (Do_finalize rg i strategy)
  have "draft_change (aw_drafts w) (aw_drafts (fst (adopt_finalize st x rg i strategy w)))"
    using finish_draft_change [of w] finish_draft_change [of "w\<lparr>aw_local := tr\<rparr>" for tr]
    by (cases rule: adopt_finalize_cases [of w st x rg i strategy]) simp_all
  then show ?thesis by (simp add: Do_finalize case_prod_beta)
next
  case (Do_cancel i)
  have "draft_change t (put_row ad_id i (\<lambda>d. d\<lparr>ad_status := Draft_cancelled\<rparr>) t)" for t
    unfolding draft_change_def by (intro disjI2 disjI1 exI [of _ i] exI [of _ Draft_cancelled]) simp
  then show ?thesis
    by (simp add: Do_cancel adopt_cancel_def draft_set_status_def Let_def split: option.split)
next
  case (Do_purge now)
  then show ?thesis unfolding draft_change_def by auto
qed

lemma adoption_wins_iff:
  "adoption_wins op (snd (adoption_step st x op w)) k \<longleftrightarrow>
     (\<exists>rg strategy row. op = Do_finalize rg k strategy \<and> snd (adopt_finalize st x rg k strategy w) = Adopt_opened row)"
  by (cases op) (auto simp: case_prod_beta elim!: adoption_wins.elims)

lemma adoption_win:
  assumes "adoption_wins op (snd (adoption_step st x op w)) k"
  shows "row_live ad_id draft_is_pending (aw_drafts w) k \<and>
    \<not> row_live ad_id draft_is_pending (aw_drafts (fst (adoption_step st x op w))) k"
proof -
  obtain rg strategy row where op: "op = Do_finalize rg k strategy"
    and row: "snd (adopt_finalize st x rg k strategy w) = Adopt_opened row"
    using assms by (auto simp: adoption_wins_iff)
  show ?thesis
  proof (cases rule: adopt_finalize_cases [of w st x rg k strategy])
    case (plain d s)
    then show ?thesis
      using row opened_finalizes [of "aw_drafts w" k d w st x False s strategy row]
      by (auto simp: op case_prod_beta row_live_def draft_is_pending_def)
  next
    case (secrets d s repo tr)
    then show ?thesis
      using row opened_finalizes [of "aw_drafts w" k d "w\<lparr>aw_local := tr\<rparr>" st x True s strategy row]
      by (auto simp: op case_prod_beta row_live_def draft_is_pending_def)
  qed (use row in auto)
qed

interpretation adoption_gate:
  one_shot "adoption_step st x" "\<lambda>_. True" "\<lambda>w. keyed ad_id (aw_drafts w)"
    "\<lambda>w. row_known ad_id (aw_drafts w)" "\<lambda>w. row_live ad_id draft_is_pending (aw_drafts w)" adoption_wins
  for st x
proof (unfold_locales, goal_cases)
  case (1 op w)
  then show ?case by (blast intro: draft_change_keyed adoption_step_drafts)
next
  case (2 w k)
  then show ?case by (rule row_live_known)
next
  case (3 op w k)
  then show ?case by (blast intro: evolves_known draft_change_evolves adoption_step_drafts)
next
  case (4 op w k)
  then show ?case by (blast dest: evolves_dead [OF draft_change_evolves [OF adoption_step_drafts]])
next
  case (5 w op k)
  then show ?case using adoption_win by blast
next
  case (6 w op k)
  then show ?case using adoption_win by blast
qed

section \<open>A concrete draft\<close>

definition example_draft :: adoption_draft where
  "example_draft =
     \<lparr>ad_id = ''d1'', ad_service_id = ''s'', ad_host = ''h'', ad_ssh_user = ''u'', ad_container_name = ''web'',
      ad_compose_path = ''/opt/web.yml'', ad_target_file_path = ''n/web/compose.yaml'',
      ad_sanitized_compose = ''services:'', ad_detected_secrets = [\<lparr>ds_key = ''K'', ds_live_value = ''v''\<rparr>],
      ad_confidence = 1, ad_reasoning = [], ad_status = Draft_pending, ad_created_at = Aware 0,
      ad_expires_at = Aware 100\<rparr>"

definition example_adoption_settings :: adoption_settings where
  "example_adoption_settings =
     \<lparr>as_read_only = False, as_enabled = True, as_git = True, as_repo = Some ''o/r'',
      as_secrets_repo = Some ''/repo'', as_ssh_key = Some ''k'', as_ssh_user = ''u'', as_base = ''main'',
      as_label = ''l'', as_path = (\<lambda>n s. n @ s), as_ttl = 60, as_threshold = 1,
      as_local_repo = Inr [''repo''], as_key = Inr ''key''\<rparr>"

definition example_adoption :: adoption_oracles where
  "example_adoption =
     \<lparr>ax_git = example_oracles, ax_vault = example_vault, ax_run = (\<lambda>_. (0, [], [])), ax_loads = (\<lambda>_. None),
      ax_str = (\<lambda>_. []), ax_ask = (\<lambda>_. None), ax_reason = (\<lambda>_. []), ax_draft_id = (\<lambda>_. ''d1''),
      ax_token = (\<lambda>_. ''t'')\<rparr>"

definition example_adoption_world :: adoption_world where
  "example_adoption_world =
     \<lparr>aw_drafts = [example_draft], aw_prop = \<lparr>pw_rows = [], pw_drawn = 0, pw_trace = []\<rparr>, aw_local = [], aw_ssh = []\<rparr>"

definition example_services :: registry where
  "example_services = empty_registry\<lparr>rg_services := [new_service ''s'' ''web'' ''Web'' 0]\<rparr>"

section \<open>Cancelling\<close>

text \<open>Cancelling looks only at whether the draft exists: a draft that was finalized, its pull
  request open, is recorded as cancelled.\<close>

lemma cancel_overwrites_finalized:
  assumes "\<not> as_read_only st" "as_enabled st" "get_row ad_id (aw_drafts w) i = Some d"
  shows "snd (adopt_cancel st i w) = Some (d\<lparr>ad_status := Draft_cancelled\<rparr>)"
  using assms get_row_SomeD [OF assms(3)]
  by (simp add: adopt_cancel_def draft_get_def draft_set_status_def Let_def get_row_put_row)

section \<open>Properties\<close>

text \<open>
  A draft is adopted at most once: over any sequence of drafts, finalizations, cancellations
  and purges, each running to its end, at most one finalization of a given draft opens a pull
  request.
\<close>
theorem draft_finalized_once:
  assumes "keyed ad_id (aw_drafts w)"
  shows "win_count adoption_wins k (snd (run_ops (adoption_step st x) ops w)) \<le> 1"
  by (rule adoption_gate.at_most_one_win) (simp_all add: list_all_iff assms)

theorem draft_finalized_once_witness:
  "win_count adoption_wins ''d1''
     (snd (run_ops (adoption_step example_adoption_settings example_adoption)
        [Do_finalize example_services ''d1'' ''keep'', Do_finalize example_services ''d1'' ''keep'']
        example_adoption_world)) = 1"
proof -
  let ?ops = "[Do_finalize example_services ''d1'' ''keep'', Do_finalize example_services ''d1'' ''keep'']"
  let ?r = "run_ops (adoption_step example_adoption_settings example_adoption) ?ops example_adoption_world"
  have "win_count adoption_wins ''d1'' (snd ?r) \<le> 1"
    by (rule draft_finalized_once) (simp add: keyed_def example_adoption_world_def)
  moreover have "win_count adoption_wins ''d1'' (snd ?r) > 0" by code_simp
  ultimately show ?thesis by simp
qed

subsection \<open>Where the secrets go\<close>

lemma local_git_trace:
  "fst (local_git v what cmd tr) = tr @ [Ev_run cmd]"
  by (simp add: local_git_def run_cmd_def case_prod_beta)

lemma unlock_trace:
  "\<exists>evs. fst (ensure_unlocked v repo tr) = tr @ evs \<and> (\<forall>p t. Ev_write p t \<notin> set evs)"
  by (simp add: ensure_unlocked_def run_cmd_def Let_def case_prod_beta)

lemma checkout_trace:
  "\<exists>evs. fst (git_checkout_branch v b base tr) = tr @ evs \<and> (\<forall>p t. Ev_write p t \<notin> set evs)"
  by (simp add: git_checkout_branch_def local_git_def run_cmd_def case_prod_beta Let_def split: option.split)

lemma attributes_trace:
  "\<exists>evs. fst (ensure_gitattributes_entry v repo path tr) = tr @ evs \<and>
     (\<forall>p t. Ev_write p t \<in> set evs \<longrightarrow> p = attributes_file repo)"
  by (simp add: ensure_gitattributes_entry_def Let_def split: option.split)

lemma commit_trace:
  "\<exists>evs. fst (git_commit_paths v paths msg tr) = tr @ Ev_run ([''git'', ''add''] @ paths) # evs \<and>
     (\<forall>p t. Ev_write p t \<notin> set evs)"
  by (simp add: git_commit_paths_def case_prod_beta local_git_trace run_cmd_def split: option.split)

text \<open>The push comes last, after the environment file and the attributes file were added together.\<close>

lemma push_secrets_trace:
  "\<exists>evs. fst (push_secrets x repo b base env_path values msg tr) = tr @ evs \<and>
     (\<forall>p t. Ev_write p t \<in> set evs \<longrightarrow>
        p = attributes_file repo \<or> p = repo @ path_parts env_path \<and> t = serialize_dotenv values) \<and>
     (snd (push_secrets x repo b base env_path values msg tr) = None \<longrightarrow>
        Ev_run [''git'', ''add'', env_path, ''.gitattributes''] \<in> set evs \<and>
        last evs = Ev_run [''git'', ''push'', ''-u'', ''origin'', b])"
proof -
  let ?v = "ax_vault x" let ?T = "repo @ path_parts env_path"
  obtain tr1 e1 where 1: "git_checkout_branch ?v b base tr = (tr1, e1)" by (cases "git_checkout_branch ?v b base tr")
  obtain a1 where a1: "tr1 = tr @ a1" "\<forall>p t. Ev_write p t \<notin> set a1" using checkout_trace [of ?v b base tr] 1 by auto
  obtain tr2 e2 where 2: "ensure_unlocked ?v repo tr1 = (tr2, e2)" by (cases "ensure_unlocked ?v repo tr1")
  obtain a2 where a2: "tr2 = tr1 @ a2" "\<forall>p t. Ev_write p t \<notin> set a2" using unlock_trace [of ?v repo tr1] 2 by auto
  let ?tr3 = "tr2 @ [Ev_mkdir (butlast ?T), Ev_write ?T (serialize_dotenv values)]"
  obtain tr4 c4 where 4: "ensure_gitattributes_entry ?v repo env_path ?tr3 = (tr4, c4)"
    by (cases "ensure_gitattributes_entry ?v repo env_path ?tr3")
  obtain a4 where a4: "tr4 = ?tr3 @ a4" "\<forall>p t. Ev_write p t \<in> set a4 \<longrightarrow> p = attributes_file repo"
    using attributes_trace [of ?v repo env_path ?tr3] 4 by auto
  obtain tr5 e5 where 5: "git_commit_paths ?v [env_path, ''.gitattributes''] msg tr4 = (tr5, e5)"
    by (cases "git_commit_paths ?v [env_path, ''.gitattributes''] msg tr4")
  obtain a5 where a5: "tr5 = tr4 @ Ev_run [''git'', ''add'', env_path, ''.gitattributes''] # a5"
    "\<forall>p t. Ev_write p t \<notin> set a5"
    using commit_trace [of ?v "[env_path, ''.gitattributes'']" msg tr4] 5 by auto
  have push: "fst (git_push_branch ?v b tr5) = tr5 @ [Ev_run [''git'', ''push'', ''-u'', ''origin'', b]]"
    by (simp add: git_push_branch_def local_git_trace)
  show ?thesis
  proof (cases e1)
    case (Some e)
    then show ?thesis using 1 a1 by (simp add: push_secrets_def)
  next
    case n1: None
    show ?thesis
    proof (cases e2)
      case (Some e)
      then show ?thesis using 1 2 n1 a1 a2 by (simp add: push_secrets_def)
    next
      case n2: None
      show ?thesis
      proof (cases e5)
        case (Some e)
        then show ?thesis using 1 2 4 5 n1 n2 a1 a2 a4 a5 by (auto simp: push_secrets_def Let_def)
      next
        case None
        then show ?thesis using 1 2 4 5 n1 n2 a1 a2 a4 a5 push by (auto simp: push_secrets_def Let_def)
      qed
    qed
  qed
qed

lemma provider_open_trace:
  "\<exists>evs. pw_trace (fst (provider_open st x b s d strategy p)) = pw_trace p @ evs \<and>
     (\<forall>ev \<in> set evs. ev \<in> {G_branch (the (as_repo st)) (adoption_branch s d) (as_base st),
        G_commit (the (as_repo st)) (ad_target_file_path d) (ad_sanitized_compose d) (adoption_branch s d)
          (''feat: adopt '' @ svc_name s @ '' into GitOps management''),
        G_open (the (as_repo st)) (''Adopt '' @ svc_name s @ '' into GitOps management'')
          (adoption_body (svc_name s) d strategy) (adoption_branch s d) (as_base st) (as_label st)})"
  by (simp add: provider_open_def Let_def emit_def split: option.split)

lemma finish_trace:
  "\<exists>evs. pw_trace (aw_prop (fst (finish_adoption st x b s d strategy w))) = pw_trace (aw_prop w) @ evs \<and>
     (\<forall>r path content br msg. G_commit r path content br msg \<in> set evs \<longrightarrow>
        r = the (as_repo st) \<and> path = ad_target_file_path d \<and> content = ad_sanitized_compose d \<and> br = adoption_branch s d) \<and>
     aw_local (fst (finish_adoption st x b s d strategy w)) = aw_local w"
proof -
  obtain p q where pq: "provider_open st x b s d strategy (aw_prop w) = (p, q)"
    by (cases "provider_open st x b s d strategy (aw_prop w)")
  obtain evs where evs: "pw_trace p = pw_trace (aw_prop w) @ evs"
    "\<forall>ev \<in> set evs. ev \<in> {G_branch (the (as_repo st)) (adoption_branch s d) (as_base st),
        G_commit (the (as_repo st)) (ad_target_file_path d) (ad_sanitized_compose d) (adoption_branch s d)
          (''feat: adopt '' @ svc_name s @ '' into GitOps management''),
        G_open (the (as_repo st)) (''Adopt '' @ svc_name s @ '' into GitOps management'')
          (adoption_body (svc_name s) d strategy) (adoption_branch s d) (as_base st) (as_label st)}"
    using provider_open_trace [of st x b s d strategy "aw_prop w"] pq by auto
  have "pw_trace (aw_prop (fst (finish_adoption st x b s d strategy w))) \<in>
      {pw_trace (aw_prop w) @ evs} \<union> (\<lambda>u. pw_trace (aw_prop w) @ evs @ [Notified u]) ` UNIV"
    using pq evs(1)
    by (cases q) (auto simp: finish_adoption_def add_proposal_def emit_def case_prod_beta)
  then obtain es where es: "pw_trace (aw_prop (fst (finish_adoption st x b s d strategy w))) = pw_trace (aw_prop w) @ es"
    "set es \<subseteq> set evs \<union> range Notified" by auto
  have "aw_local (fst (finish_adoption st x b s d strategy w)) = aw_local w"
    by (simp add: finish_adoption_def case_prod_beta split: sum.split prod.split)
  then show ?thesis using es evs(2) by (intro exI [of _ es]) fastforce
qed



end
