(* ===== verification/PatchmonSchemas.thy ===== *)
theory PatchmonSchemas
  imports WebhookCommon PyJson
begin

text \<open>
  \<open>webhooks/patchmon_schemas.py\<close>: the two PatchMon payloads, what pydantic makes of them,
  and the alert they reduce to. \<open>ell\<close> is the ellipsis of \<open>one_line\<close>, \<open>str\<close> Python's \<open>str\<close>
  of a JSON value that is not a string. Whether pydantic lower-cases an event name before or
  after it checks the pattern is the parameter \<open>lower_first\<close>.
\<close>

section \<open>Patterns\<close>

definition is_alnum :: "char \<Rightarrow> bool" where
  "is_alnum c \<longleftrightarrow> is_ascii_alpha c \<or> is_ascii_digit c"

definition name_char :: "char \<Rightarrow> bool" where
  "name_char c \<longleftrightarrow> is_alnum c \<or> c \<in> {CHR ''.'', CHR ''_'', CHR ''-''}"

definition version_char :: "char \<Rightarrow> bool" where
  "version_char c \<longleftrightarrow>
     is_alnum c \<or> c \<in> {CHR ''.'', CHR ''_'', CHR ''+'', CHR '':'', CHR ''~'', CHR ''-''}"

definition event_start :: "char \<Rightarrow> bool" where
  "event_start c \<longleftrightarrow> is_ascii_lower c \<or> is_ascii_digit c"

definition event_char :: "char \<Rightarrow> bool" where
  "event_char c \<longleftrightarrow> event_start c \<or> c \<in> {CHR ''_'', CHR ''.'', CHR ''-''}"

text \<open>A first character, then at most \<open>n\<close> others: the shape of the three patterns.\<close>

definition plain_text :: "(char \<Rightarrow> bool) \<Rightarrow> (char \<Rightarrow> bool) \<Rightarrow> nat \<Rightarrow> pystr \<Rightarrow> bool" where
  "plain_text first rest n s \<longleftrightarrow>
     (case s of [] \<Rightarrow> False | c # t \<Rightarrow> first c \<and> list_all rest t \<and> length t \<le> n)"

definition name_ok :: "pystr \<Rightarrow> bool" where
  "name_ok s \<longleftrightarrow> plain_text is_alnum name_char 252 s"

definition version_ok :: "pystr \<Rightarrow> bool" where
  "version_ok s \<longleftrightarrow> plain_text is_alnum version_char 127 s"

definition event_ok :: "pystr \<Rightarrow> bool" where
  "event_ok s \<longleftrightarrow> plain_text event_start event_char 63 s"

definition is_hex :: "char \<Rightarrow> bool" where
  "is_hex c \<longleftrightarrow> is_ascii_digit c \<or> (97 \<le> code_point c \<and> code_point c \<le> 102) \<or>
     (65 \<le> code_point c \<and> code_point c \<le> 70)"

definition uuid_ok :: "pystr \<Rightarrow> bool" where
  "uuid_ok s \<longleftrightarrow>
     (let ps = split_at_char (CHR ''-'') s in
      map length ps = [8, 4, 4, 4, 12] \<and> list_all (list_all is_hex) ps)"

text \<open>\<open>re.match\<close> with a final \<open>$\<close>, which also matches before a newline at the end.\<close>

definition py_match :: "(pystr \<Rightarrow> bool) \<Rightarrow> pystr \<Rightarrow> bool" where
  "py_match ok s \<longleftrightarrow> ok s \<or> (s \<noteq> [] \<and> last s = CHR 0x0A \<and> ok (butlast s))"

text \<open>pydantic's \<open>strip_whitespace\<close> drops Unicode white space, fewer characters than \<open>str.strip\<close>.\<close>

definition is_white_space :: "char \<Rightarrow> bool" where
  "is_white_space c \<longleftrightarrow> c \<in> {CHR 0x09, CHR 0x0A, CHR 0x0B, CHR 0x0C, CHR 0x0D, CHR 0x20, CHR 0x85, CHR 0xA0}"

definition trim :: "pystr \<Rightarrow> pystr" where
  "trim s = strip_by is_white_space s"

section \<open>Fields\<close>

definition check_text :: "(pystr \<Rightarrow> bool) \<Rightarrow> json option \<Rightarrow> pystr option" where
  "check_text ok v =
     (case v of Some (JStr s) \<Rightarrow> if ok (trim s) then Some (trim s) else None | _ \<Rightarrow> None)"

definition check_optional :: "(pystr \<Rightarrow> bool) \<Rightarrow> json option \<Rightarrow> pystr option option" where
  "check_optional ok v =
     (if v \<in> {None, Some JNull} then Some None else map_option Some (check_text ok v))"

definition check_event :: "bool \<Rightarrow> json option \<Rightarrow> pystr option" where
  "check_event lower_first v =
     map_option lower (check_text (\<lambda>s. event_ok (if lower_first then lower s else s)) v)"

definition MAX_TEXT_CHARS :: nat where
  "MAX_TEXT_CHARS = 1000"

definition json_str :: "(json \<Rightarrow> pystr) \<Rightarrow> json \<Rightarrow> pystr" where
  "json_str str v = (case v of JStr s \<Rightarrow> s | _ \<Rightarrow> str v)"

text \<open>\<open>_clip\<close>: whatever the sender put there, as one line.\<close>

definition short_text :: "pystr \<Rightarrow> (json \<Rightarrow> pystr) \<Rightarrow> json option \<Rightarrow> pystr option" where
  "short_text ell str v =
     (case v of None \<Rightarrow> None | Some JNull \<Rightarrow> None
      | Some j \<Rightarrow> Some (one_line ell (Some (json_str str j)) MAX_TEXT_CHARS))"

definition host_id_of :: "(json \<Rightarrow> pystr) \<Rightarrow> json option \<Rightarrow> pystr option" where
  "host_id_of str v =
     (let text = (case v of None \<Rightarrow> [] | Some JNull \<Rightarrow> [] | Some j \<Rightarrow> strip (json_str str j))
      in if py_match uuid_ok text then Some text else None)"

section \<open>Payloads\<close>

record patch_alert =
  pl_event :: pystr
  pl_target_host :: pystr
  pl_service :: "pystr option"
  pl_current_version :: "pystr option"
  pl_target_version :: "pystr option"
  pl_severity :: "pystr option"
  pl_host_id :: "pystr option"
  pl_summary :: "pystr option"

datatype unusable =
    No_host_named
  | Not_plain_name pystr
  | Resolved_not_plain unusable "pystr option" pystr
  | Lookup_failed unusable pystr pystr
  | Wrong_host unusable pystr
  | No_hostname unusable pystr

record ignored_alert =
  ia_event :: pystr
  ia_reason :: unusable
  ia_lookup :: "pystr option"

datatype intake_alert = Usable patch_alert | Unusable ignored_alert

record flat_payload =
  fp_event :: pystr
  fp_target_host :: pystr
  fp_service :: "pystr option"
  fp_current_version :: "pystr option"
  fp_target_version :: "pystr option"
  fp_severity :: "pystr option"
  fp_host_id :: "pystr option"

record native_payload =
  np_event :: pystr
  np_severity :: "pystr option"
  np_title :: "pystr option"
  np_message :: "pystr option"
  np_reference :: "(pystr option \<times> pystr option) option"
  np_metadata :: "(pystr \<times> json) list"

text \<open>\<open>PatchmonWebhookSchema\<close>; \<open>None\<close> is a \<open>ValidationError\<close>.\<close>

definition validate_flat ::
  "pystr \<Rightarrow> (json \<Rightarrow> pystr) \<Rightarrow> bool \<Rightarrow> json \<Rightarrow> flat_payload option" where
  "validate_flat ell str lower_first p =
     (case (check_event lower_first (json_get p ''event''),
            check_text name_ok (json_get p ''target_host''),
            check_optional name_ok (json_get p ''service''),
            check_optional version_ok (json_get p ''current_version''),
            check_optional version_ok (json_get p ''target_version''),
            check_optional (\<lambda>s. True) (json_get p ''patchmon_host_id'')) of
        (Some e, Some h, Some s, Some c, Some t, Some i) \<Rightarrow>
          Some \<lparr>fp_event = e, fp_target_host = h, fp_service = s, fp_current_version = c,
                fp_target_version = t, fp_severity = short_text ell str (json_get p ''severity''),
                fp_host_id = host_id_of str (json_get p ''patchmon_host_id'')\<rparr>
      | _ \<Rightarrow> None)"

definition validate_reference ::
  "pystr \<Rightarrow> (json \<Rightarrow> pystr) \<Rightarrow> json option \<Rightarrow> (pystr option \<times> pystr option) option option" where
  "validate_reference ell str v =
     (case v of
        None \<Rightarrow> Some None
      | Some JNull \<Rightarrow> Some None
      | Some (JObj kvs) \<Rightarrow>
          Some (Some (short_text ell str (json_get (JObj kvs) ''type''),
                      short_text ell str (json_get (JObj kvs) ''id'')))
      | _ \<Rightarrow> None)"

definition validate_metadata :: "json option \<Rightarrow> (pystr \<times> json) list option" where
  "validate_metadata v = (case v of None \<Rightarrow> Some [] | Some (JObj kvs) \<Rightarrow> Some kvs | _ \<Rightarrow> None)"

definition validate_native ::
  "pystr \<Rightarrow> (json \<Rightarrow> pystr) \<Rightarrow> bool \<Rightarrow> json \<Rightarrow> native_payload option" where
  "validate_native ell str lower_first p =
     (case (check_event lower_first (json_get p ''event_type''),
            validate_reference ell str (json_get p ''reference''),
            validate_metadata (json_get p ''metadata'')) of
        (Some e, Some r, Some m) \<Rightarrow>
          Some \<lparr>np_event = e, np_severity = short_text ell str (json_get p ''severity''),
                np_title = short_text ell str (json_get p ''title''),
                np_message = short_text ell str (json_get p ''message''),
                np_reference = r, np_metadata = m\<rparr>
      | _ \<Rightarrow> None)"

section \<open>Normalizing\<close>

definition normalize_flat :: "flat_payload \<Rightarrow> patch_alert" where
  "normalize_flat f =
     (let base = (if truthy (fp_service f) then the (fp_service f) else fp_target_host f);
          current = (if truthy (fp_current_version f) then the (fp_current_version f) else ''?'');
          summary = (if truthy (fp_target_version f)
                     then base @ '' '' @ current @ '' -> '' @ the (fp_target_version f) else base)
      in \<lparr>pl_event = fp_event f, pl_target_host = fp_target_host f, pl_service = fp_service f,
          pl_current_version = fp_current_version f, pl_target_version = fp_target_version f,
          pl_severity = fp_severity f, pl_host_id = fp_host_id f, pl_summary = Some summary\<rparr>)"

text \<open>The property \<open>host_id\<close>: from the metadata, else from a reference to a host.\<close>

definition native_host_id :: "(json \<Rightarrow> pystr) \<Rightarrow> native_payload \<Rightarrow> pystr option" where
  "native_host_id str n =
     (let i = host_id_of str (json_get (JObj (np_metadata n)) ''host_id'') in
      case (i, np_reference n) of
        (None, Some (Some ty, r)) \<Rightarrow> if ty = ''host'' then host_id_of str (map_option JStr r) else None
      | _ \<Rightarrow> i)"

definition native_alert :: "native_payload \<Rightarrow> pystr \<Rightarrow> pystr option \<Rightarrow> patch_alert" where
  "native_alert n host i =
     \<lparr>pl_event = np_event n, pl_target_host = host, pl_service = None, pl_current_version = None,
      pl_target_version = None, pl_severity = np_severity n, pl_host_id = i,
      pl_summary = or_text (np_title n) (np_message n)\<rparr>"

definition normalize_native ::
  "(json \<Rightarrow> pystr) \<Rightarrow> pystr option \<Rightarrow> native_payload \<Rightarrow> intake_alert" where
  "normalize_native str resolved_hostname n =
     (let named = json_get (JObj (np_metadata n)) ''host_name'';
          host_name = (if json_falsy named then [] else strip (json_str str (the named)));
          i = native_host_id str n;
          ignore = (\<lambda>r l. Unusable \<lparr>ia_event = np_event n, ia_reason = r, ia_lookup = l\<rparr>)
      in if host_name = [] \<and> \<not> truthy i then ignore No_host_named None
         else if \<not> py_match name_ok host_name then
           (let reason = (if host_name \<noteq> [] then Not_plain_name host_name else No_host_named);
                resolved = strip (case resolved_hostname of None \<Rightarrow> [] | Some h \<Rightarrow> h)
            in if resolved = [] then ignore reason i
               else if \<not> py_match name_ok resolved
               then ignore (Resolved_not_plain reason i resolved) None
               else Usable (native_alert n resolved i))
         else Usable (native_alert n host_name i))"

section \<open>Lemmas\<close>

lemma plain_text_set:
  "plain_text first rest n s \<Longrightarrow> (\<And>c. first c \<Longrightarrow> rest c) \<Longrightarrow> s \<noteq> [] \<and> first (hd s) \<and> (\<forall>c \<in> set s. rest c)"
  by (auto simp: plain_text_def list_all_iff split: list.splits)

lemma ascii_classes:
  "is_alnum c \<Longrightarrow> 33 \<le> code_point c \<and> code_point c \<le> 126"
  "event_start c \<Longrightarrow> is_alnum c"
  by (auto simp: is_alnum_def event_start_def is_ascii_alpha_def is_ascii_upper_def is_ascii_lower_def
      is_ascii_digit_def)

lemma name_char_graphic: "name_char c \<Longrightarrow> 33 \<le> code_point c \<and> code_point c \<le> 126"
  by (auto simp: name_char_def code_point_def dest: ascii_classes)

lemma version_char_graphic: "version_char c \<Longrightarrow> 33 \<le> code_point c \<and> code_point c \<le> 126"
  by (auto simp: version_char_def code_point_def dest: ascii_classes)

text \<open>After \<open>strip\<close> the quirk of \<open>$\<close> is harmless: nothing ends in a newline.\<close>

lemma last_rstrip_by: "rstrip_by p s \<noteq> [] \<Longrightarrow> \<not> p (last (rstrip_by p s))"
  by (simp add: rstrip_by_def last_rev hd_dropWhile)

lemma py_match_strip [simp]: "py_match ok (strip s) \<longleftrightarrow> ok (strip s)"
proof -
  have "last (strip s) \<noteq> CHR 0x0A" if "strip s \<noteq> []"
    using last_rstrip_by [of is_space "lstrip_by is_space s"] that
    by (auto simp: strip_def strip_by_def is_space_def)
  then show ?thesis by (auto simp: py_match_def)
qed

lemma uuid_not_empty [simp]: "\<not> uuid_ok []" "\<not> py_match uuid_ok []"
  by (simp_all add: uuid_ok_def py_match_def)

lemma host_id_ok: "host_id_of str v = Some i \<Longrightarrow> uuid_ok i"
  by (auto simp: host_id_of_def Let_def split: option.splits json.splits if_splits)

end
