(* ===== verification/PatchmonClient.thy ===== *)
theory PatchmonClient
  imports PatchmonSchemas "HOL-Library.List_Lexorder" "HOL-Library.Char_ord"
begin

text \<open>
  \<open>integrations/patchmon/client.py\<close> and \<open>webhooks/patchmon_details.py\<close>: the read-only API
  client with its retries, and the lines of the approval email that say what PatchMon last
  saw. What each attempt of a GET brought is a parameter.
\<close>

section \<open>The client\<close>

definition ENDPOINT_SUFFIXES :: "pystr list" where
  "ENDPOINT_SUFFIXES = [''/api/v1/api/hosts'', ''/api/v1/api'', ''/api/v1'']"

definition api_hint :: "int \<Rightarrow> pystr option" where
  "api_hint st =
     map_of [(401, ''the Token Key or Token Secret is wrong, disabled, or expired''),
             (403, ''the credential lacks the host:get scope, or its IP allowlist excludes this server''),
             (404, ''PatchMon has no such host'')] st"

definition is_host_id :: "pystr \<Rightarrow> bool" where
  "is_host_id v \<longleftrightarrow> py_match uuid_ok v"

definition api_root :: "pystr \<Rightarrow> pystr" where
  "api_root base_url =
     (let root = rstrip_by (\<lambda>c. c = CHR ''/'') (strip base_url) in
      case find (ends_with root) ENDPOINT_SUFFIXES of
        None \<Rightarrow> root | Some s \<Rightarrow> take (length root - length s) root)"

definition api_base :: "pystr \<Rightarrow> pystr" where
  "api_base base_url = api_root base_url @ ''/api/v1/api''"

text \<open>One attempt: an httpx error (its class), or a status with the body if it was JSON.\<close>

datatype api_attempt = Api_error pystr | Api_status int "json option"

datatype api_failure =
    Api_not_json pystr
  | Api_shape pystr
  | Api_refused int pystr
  | Api_failed pystr pystr
  | Api_not_host_id

definition api_text :: "api_failure \<Rightarrow> pystr" where
  "api_text f =
     (case f of
        Api_not_json p \<Rightarrow> ''PatchMon API sent non-JSON for '' @ p
      | Api_shape p \<Rightarrow> ''PatchMon API sent an unexpected shape for '' @ p
      | Api_refused st p \<Rightarrow>
          ''PatchMon API returned '' @ show_int st @ '' for '' @ p @
          (case api_hint st of None \<Rightarrow> [] | Some h \<Rightarrow> '': '' @ h)
      | Api_failed p e \<Rightarrow> ''PatchMon API request to '' @ p @ '' failed: '' @ e
      | Api_not_host_id \<Rightarrow> ''not a PatchMon host id (expected a UUID)'')"

text \<open>
  \<open>_get\<close> from attempt \<open>i\<close> on with \<open>left\<close> attempts to go, \<open>last\<close> the class of the last
  error: the answer and the number of attempts made.
\<close>

fun api_get_loop ::
  "(nat \<Rightarrow> api_attempt) \<Rightarrow> pystr \<Rightarrow> nat \<Rightarrow> nat \<Rightarrow> pystr \<Rightarrow> (api_failure + (pystr \<times> json) list) \<times> nat" where
  "api_get_loop http path i 0 last_error = (Inl (Api_failed path last_error), i)"
| "api_get_loop http path i (Suc left) last_error =
     (case http i of
        Api_error e \<Rightarrow> api_get_loop http path (Suc i) left e
      | Api_status st body \<Rightarrow>
          if st < 300 then
            (case body of
               None \<Rightarrow> (Inl (Api_not_json path), Suc i)
             | Some (JObj kvs) \<Rightarrow> (Inr kvs, Suc i)
             | _ \<Rightarrow> (Inl (Api_shape path), Suc i))
          else if st < 500 then (Inl (Api_refused st path), Suc i)
          else api_get_loop http path (Suc i) left ''PatchmonError'')"

definition api_get :: "(nat \<Rightarrow> api_attempt) \<Rightarrow> int \<Rightarrow> pystr \<Rightarrow> (api_failure + (pystr \<times> json) list) \<times> nat" where
  "api_get http retries path = api_get_loop http path 0 (nat (max 1 retries)) []"

definition host_path :: "pystr \<Rightarrow> pystr \<Rightarrow> api_failure + pystr" where
  "host_path host_id endpoint =
     (if \<not> is_host_id host_id then Inl Api_not_host_id
      else Inr (''hosts/'' @ host_id @ ''/'' @ endpoint))"

text \<open>The API as its callers see it: the attempts for each path and query string.\<close>

record api =
  api_http :: "pystr \<Rightarrow> (pystr \<times> pystr) list \<Rightarrow> nat \<Rightarrow> api_attempt"
  api_retries :: int

definition get_host ::
  "api \<Rightarrow> pystr \<Rightarrow> (pystr \<times> pystr) list \<Rightarrow> pystr \<Rightarrow> api_failure + (pystr \<times> json) list" where
  "get_host a endpoint query host_id =
     (case host_path host_id endpoint of
        Inl f \<Rightarrow> Inl f
      | Inr path \<Rightarrow> fst (api_get (api_http a path query) (api_retries a) path))"

definition get_host_info :: "api \<Rightarrow> pystr \<Rightarrow> api_failure + (pystr \<times> json) list" where
  "get_host_info a host_id = get_host a ''info'' [] host_id"

definition get_host_system :: "api \<Rightarrow> pystr \<Rightarrow> api_failure + (pystr \<times> json) list" where
  "get_host_system a host_id = get_host a ''system'' [] host_id"

text \<open>\<open>[item for item in xs if isinstance(item, dict)]\<close> of a list member of the body.\<close>

definition object_list ::
  "pystr \<Rightarrow> api_failure + (pystr \<times> json) list \<Rightarrow> api_failure + (pystr \<times> json) list list" where
  "object_list key r =
     (case r of
        Inl f \<Rightarrow> Inl f
      | Inr body \<Rightarrow>
          (case map_of body key of
             Some (JList xs) \<Rightarrow> Inr (List.map_filter (\<lambda>j. case j of JObj kvs \<Rightarrow> Some kvs | _ \<Rightarrow> None) xs)
           | _ \<Rightarrow> Inl (Api_shape (if key = ''reports'' then ''package_reports'' else key))))"

definition list_host_packages :: "api \<Rightarrow> pystr \<Rightarrow> bool \<Rightarrow> api_failure + (pystr \<times> json) list list" where
  "list_host_packages a host_id updates_only =
     object_list ''packages''
       (get_host a ''packages'' (if updates_only then [(''updates_only'', ''true'')] else []) host_id)"

definition list_package_reports :: "api \<Rightarrow> pystr \<Rightarrow> int \<Rightarrow> api_failure + (pystr \<times> json) list list" where
  "list_package_reports a host_id limit =
     object_list ''reports''
       (get_host a ''package_reports'' [(''limit'', show_int (max 1 (min limit 100)))] host_id)"

text \<open>The base, key and secret of the client the settings give, if all three are set.\<close>

definition build_patchmon_client ::
  "pystr option \<Rightarrow> pystr option \<Rightarrow> pystr option \<Rightarrow> (pystr \<times> pystr \<times> pystr) option" where
  "build_patchmon_client url key secret =
     (let text = (\<lambda>v. case v of None \<Rightarrow> [] | Some s \<Rightarrow> strip s) in
      if \<not> (truthy url \<and> text url \<noteq> [] \<and> text key \<noteq> [] \<and> text secret \<noteq> []) then None
      else Some (api_base (the url), text key, text secret))"

section \<open>The lines of the email\<close>

definition MAX_PACKAGES_LISTED :: nat where
  "MAX_PACKAGES_LISTED = 20"

definition MAX_VALUE_CHARS :: nat where
  "MAX_VALUE_CHARS = 120"

text \<open>A member of an object as one line.\<close>

definition member_line ::
  "pystr \<Rightarrow> (json \<Rightarrow> pystr) \<Rightarrow> (pystr \<times> json) list \<Rightarrow> pystr \<Rightarrow> nat \<Rightarrow> pystr" where
  "member_line ell str item key limit =
     one_line ell (case map_of item key of None \<Rightarrow> None | Some JNull \<Rightarrow> None
                   | Some j \<Rightarrow> Some (json_str str j)) limit"

text \<open>What a read brought: its value, or an exception (\<open>_failure\<close> shows its class when it is not a
  \<open>PatchmonError\<close>).\<close>

datatype 'a api_read = Read_ok 'a | Read_failed api_failure | Read_raised pystr

definition failure_text :: "pystr \<Rightarrow> 'a api_read \<Rightarrow> pystr" where
  "failure_text ell r =
     (case r of Read_failed f \<Rightarrow> one_line ell (Some (api_text f)) MAX_VALUE_CHARS
      | Read_raised n \<Rightarrow> n | Read_ok v \<Rightarrow> [])"

definition report_line :: "pystr \<Rightarrow> (json \<Rightarrow> pystr) \<Rightarrow> (pystr \<times> json) list list api_read \<Rightarrow> pystr" where
  "report_line ell str r =
     (case r of
        Read_ok [] \<Rightarrow> ''Last agent report: none on record''
      | Read_ok (latest # rest) \<Rightarrow>
          (let date = member_line ell str latest ''date'' MAX_VALUE_CHARS;
               line = ''Last agent report: '' @ (if date = [] then ''unknown time'' else date);
               st = member_line ell str latest ''status'' MAX_VALUE_CHARS
           in if st \<noteq> [] then line @ '' ('' @ st @ '')'' else line)
      | _ \<Rightarrow> ''Last agent report: unavailable ('' @ failure_text ell r @ '')'')"

definition kernel_lines :: "pystr \<Rightarrow> pystr \<Rightarrow> pystr list" where
  "kernel_lines running installed =
     (if running \<noteq> [] \<and> installed \<noteq> [] \<and> running \<noteq> installed
      then [''Kernel: running '' @ running @ '', installed '' @ installed]
      else if running \<noteq> [] \<or> installed \<noteq> []
      then [''Kernel: '' @ (if running \<noteq> [] then running else installed)] else [])"

definition system_lines :: "pystr \<Rightarrow> (json \<Rightarrow> pystr) \<Rightarrow> (pystr \<times> json) list api_read \<Rightarrow> pystr list" where
  "system_lines ell str r =
     (case r of
        Read_ok s \<Rightarrow>
          (let reason = member_line ell str s ''reboot_reason'' MAX_VALUE_CHARS
           in (if map_of s ''needs_reboot'' = Some (JBool True)
               then (if reason \<noteq> [] then ''Reboot needed: yes ('' @ reason @ '')'' else ''Reboot needed: yes'')
               else ''Reboot needed: no'')
              # kernel_lines (member_line ell str s ''kernel_version'' MAX_VALUE_CHARS)
                  (member_line ell str s ''installed_kernel_version'' MAX_VALUE_CHARS))
      | _ \<Rightarrow> [''Reboot and kernel: unavailable ('' @ failure_text ell r @ '')''])"

definition is_security :: "(pystr \<times> json) list \<Rightarrow> bool" where
  "is_security item \<longleftrightarrow> map_of item ''is_security_update'' = Some (JBool True)"

text \<open>\<open>sorted\<close> by (not a security update, name); the sort is stable.\<close>

definition package_order ::
  "pystr \<Rightarrow> (json \<Rightarrow> pystr) \<Rightarrow> (pystr \<times> json) list list \<Rightarrow> (pystr \<times> json) list list" where
  "package_order ell str items =
     (let by_name = sort_key (\<lambda>item. member_line ell str item ''name'' MAX_VALUE_CHARS) items
      in filter is_security by_name @ filter (\<lambda>item. \<not> is_security item) by_name)"

definition package_line :: "pystr \<Rightarrow> (json \<Rightarrow> pystr) \<Rightarrow> (pystr \<times> json) list \<Rightarrow> pystr" where
  "package_line ell str item =
     (let current = member_line ell str item ''current_version'' 60;
          available = member_line ell str item ''available_version'' 60
      in ''  - '' @ (if is_security item then ''[security] '' else []) @ member_line ell str item ''name'' 80 @
         '' '' @ (if current = [] then ''?'' else current) @ '' -> '' @ (if available = [] then ''?'' else available))"

definition package_lines ::
  "pystr \<Rightarrow> (json \<Rightarrow> pystr) \<Rightarrow> (pystr \<times> json) list list api_read \<Rightarrow> pystr list" where
  "package_lines ell str r =
     (case r of
        Read_ok items \<Rightarrow>
          if items = [] then [''Pending updates: none'']
          else
            (let ordered = package_order ell str items
             in [''Pending updates: '' @ show_nat (length ordered) @ '' ('' @
                   show_nat (length (filter is_security ordered)) @ '' security)''] @
                map (package_line ell str) (take MAX_PACKAGES_LISTED ordered) @
                (if MAX_PACKAGES_LISTED < length ordered
                 then [''  - ...and '' @ show_nat (length ordered - MAX_PACKAGES_LISTED) @ '' more''] else []))
      | _ \<Rightarrow> [''Pending updates: unavailable ('' @ failure_text ell r @ '')''])"

text \<open>What the three reads brought within the budget; \<open>None\<close> when it ran out.\<close>

type_synonym host_reads =
  "((pystr \<times> json) list api_read \<times> (pystr \<times> json) list list api_read \<times> (pystr \<times> json) list list api_read) option"

definition host_details :: "pystr \<Rightarrow> (json \<Rightarrow> pystr) \<Rightarrow> host_reads \<Rightarrow> pystr list" where
  "host_details ell str reads =
     (case reads of
        None \<Rightarrow> [''What PatchMon last saw on this host:'', ''Unavailable: PatchMon didn'' @ [CHR 0x27] @ ''t answer in time.'']
      | Some (system, packages, reports) \<Rightarrow>
          ''What PatchMon last saw on this host:'' # report_line ell str reports #
          system_lines ell str system @ package_lines ell str packages @
          [''This is PatchMon'' @ [CHR 0x27] @ ''s list as of that report; the playbook decides what it installs.''])"

end
