(* ===== verification/Notifications.thy ===== *)
theory Notifications
  imports Prelude
begin

text \<open>
  \<open>providers/notification\<close>: the choice of a provider, the message texts of the SMTP
  provider, and which failures a send lets out. Delivery itself is a parameter; the footer and
  diff texts are as given.
\<close>

section \<open>HTML\<close>

definition escape_char :: "char \<Rightarrow> pystr" where
  "escape_char c =
     (if c = CHR ''&'' then ''&amp;'' else if c = CHR ''<'' then ''&lt;''
      else if c = CHR ''>'' then ''&gt;'' else if c = CHR 0x22 then ''&quot;''
      else if c = CHR 0x27 then ''&#x27;'' else [c])"

text \<open>\<open>html.escape\<close> with its default \<open>quote=True\<close>.\<close>

definition html_escape :: "pystr \<Rightarrow> pystr" where
  "html_escape s = concat (map escape_char s)"

definition break_lines :: "pystr \<Rightarrow> pystr" where
  "break_lines s = concat (map (\<lambda>c. if c = CHR 0x0A then ''<br>'' else [c]) s)"

definition quoted :: "pystr \<Rightarrow> pystr" where
  "quoted s = [CHR 0x27] @ s @ [CHR 0x27]"

definition dquoted :: "pystr \<Rightarrow> pystr" where
  "dquoted s = [CHR 0x22] @ s @ [CHR 0x22]"

section \<open>The SMTP messages\<close>

definition MAX_DIFF_CHARS :: nat where
  "MAX_DIFF_CHARS = 20000"

definition BUTTON_STYLE :: pystr where
  "BUTTON_STYLE =
     ''display:inline-block; margin:0.5em 0.5em 0.5em 0; padding:0.6em 1.2em; '' @
     ''border-radius:6px; text-decoration:none; color:#fff;''"

record action_link =
  al_label :: pystr
  al_url :: pystr
  al_color :: pystr

record mail =
  ml_subject :: pystr
  ml_plain :: pystr
  ml_html :: pystr

definition html_head :: "pystr \<Rightarrow> pystr \<Rightarrow> pystr list" where
  "html_head title body =
     [''<html><body style='' @ quoted ''font-family: sans-serif;'' @ ''>'',
      ''<h2>'' @ html_escape title @ ''</h2>'',
      ''<p>'' @ break_lines (html_escape body) @ ''</p>'']"

definition review_buttons :: "pystr \<Rightarrow> pystr" where
  "review_buttons url =
     (let safe_url = html_escape (rstrip_by (\<lambda>c. c = CHR ''/'') url);
          a = (\<lambda>href color label. ''<a href='' @ dquoted href @ '' style='' @
                 dquoted (BUTTON_STYLE @ '' background:'' @ color @ '';'') @ ''>'' @ label @ ''</a>'')
      in ''<p>'' @ a safe_url ''#2da44e'' ''Approve &amp; Merge'' @
         a safe_url ''#cf222e'' ''Request Changes'' @
         a (safe_url @ ''/files'') ''#0969da'' ''View Diff'' @ ''</p>'')"

definition render_html :: "pystr \<Rightarrow> pystr \<Rightarrow> pystr option \<Rightarrow> pystr option \<Rightarrow> pystr" where
  "render_html title body url diff =
     (let pre = (if truthy diff then
            [''<pre style='' @ quoted ''background:#f4f4f4; padding:1em; overflow-x:auto;'' @ ''>'' @
             html_escape (take MAX_DIFF_CHARS (the diff)) @ ''</pre>'' @
             (if length (the diff) \<le> MAX_DIFF_CHARS then [] else ''<p><em>(diff truncated)</em></p>'')]
            else []);
          links = (if truthy url then [review_buttons (the url)] else [])
      in concat (html_head title body @ pre @ links @ [''</body></html>'']))"

definition build_message :: "pystr \<Rightarrow> pystr \<Rightarrow> pystr option \<Rightarrow> pystr option \<Rightarrow> mail" where
  "build_message title body url diff =
     (let nl = [CHR 0x0A];
          parts = [body] @
            (if truthy diff then [nl @ ''--- diff ---'' @ nl @ take MAX_DIFF_CHARS (the diff)] else []) @
            (if truthy url then [nl @ the url] else [])
      in \<lparr>ml_subject = title, ml_plain = join nl parts, ml_html = render_html title body url diff\<rparr>)"

definition action_button :: "action_link \<Rightarrow> pystr" where
  "action_button a =
     ''<a href='' @ dquoted (html_escape (al_url a)) @ '' style='' @
     dquoted (BUTTON_STYLE @ '' background:'' @ html_escape (al_color a) @ '';'') @ ''>'' @
     html_escape (al_label a) @ ''</a>''"

definition plain_lines :: "pystr \<Rightarrow> action_link list \<Rightarrow> pystr option \<Rightarrow> pystr list" where
  "plain_lines body actions footer =
     [body, []] @ map (\<lambda>a. al_label a @ '': '' @ al_url a) actions @
     (if truthy footer then [[], the footer] else [])"

definition build_actionable ::
  "pystr \<Rightarrow> pystr \<Rightarrow> action_link list \<Rightarrow> pystr option \<Rightarrow> mail" where
  "build_actionable title body actions footer =
     \<lparr>ml_subject = title,
      ml_plain = join [CHR 0x0A] (plain_lines body actions footer),
      ml_html = concat (html_head title body @
        [''<p>'' @ concat (map action_button actions) @ ''</p>''] @
        (if truthy footer then
           [''<p style='' @ quoted ''color:#57606a; font-size:0.9em;'' @ ''>'' @
            break_lines (html_escape (the footer)) @ ''</p>''] else []) @
        [''</body></html>''])\<rparr>"

text \<open>What sending brought: delivered, an exception with the name of its class and its text.\<close>

datatype delivery = Delivered | Not_delivered pystr pystr

text \<open>\<open>send_actionable\<close>: every failure becomes a \<open>NotificationDeliveryError\<close> with this text.\<close>

definition send_actionable ::
  "(mail \<Rightarrow> delivery) \<Rightarrow> pystr \<Rightarrow> pystr \<Rightarrow> action_link list \<Rightarrow> pystr option \<Rightarrow> pystr option" where
  "send_actionable deliver title body actions footer =
     (case deliver (build_actionable title body actions footer) of
        Delivered \<Rightarrow> None | Not_delivered cls text \<Rightarrow> Some (cls @ '': '' @ text))"

text \<open>\<open>send\<close> of the SMTP provider sends \<open>build_message\<close> and returns whatever happened; that of ntfy
  lets out every exception that is not an \<open>httpx.HTTPError\<close>.\<close>

record ntfy_post =
  nt_url :: pystr
  nt_headers :: "(pystr \<times> pystr) list"
  nt_content :: pystr

datatype ntfy_outcome = Ntfy_ok | Ntfy_http_error | Ntfy_other pystr

definition ntfy_request :: "pystr \<Rightarrow> pystr \<Rightarrow> pystr option \<Rightarrow> pystr \<Rightarrow> pystr \<Rightarrow> pystr option \<Rightarrow> ntfy_post" where
  "ntfy_request base_url topic token title body url =
     \<lparr>nt_url = rstrip_by (\<lambda>c. c = CHR ''/'') base_url @ ''/'' @ topic,
      nt_headers = [(''Title'', title)] @ (if truthy url then [(''Click'', the url)] else []) @
        (if truthy token then [(''Authorization'', ''Bearer '' @ the token)] else []),
      nt_content = body\<rparr>"

text \<open>The class of the exception \<open>send\<close> raises, if it raises.\<close>

definition ntfy_send ::
  "(ntfy_post \<Rightarrow> ntfy_outcome) \<Rightarrow> pystr \<Rightarrow> pystr \<Rightarrow> pystr option \<Rightarrow> pystr \<Rightarrow> pystr \<Rightarrow> pystr option
     \<Rightarrow> pystr option" where
  "ntfy_send post base_url topic token title body url =
     (case post (ntfy_request base_url topic token title body url) of Ntfy_other e \<Rightarrow> Some e | _ \<Rightarrow> None)"

section \<open>The provider\<close>

record notification_settings =
  ns_provider :: pystr
  ns_url :: "pystr option"
  ns_smtp_host :: "pystr option"
  ns_from :: "pystr option"
  ns_to :: "pystr option"

datatype provider = Provider_ntfy | Provider_smtp | Provider_null

definition build_notification_provider :: "notification_settings \<Rightarrow> provider" where
  "build_notification_provider s =
     (if ns_provider s = ''ntfy'' \<and> truthy (ns_url s) then Provider_ntfy
      else if ns_provider s = ''smtp'' \<and> truthy (ns_smtp_host s) \<and> truthy (ns_from s) \<and> truthy (ns_to s)
      then Provider_smtp else Provider_null)"

section \<open>Lemmas\<close>

lemma html_escape_simps [simp]:
  "html_escape [] = []" "html_escape (c # s) = escape_char c @ html_escape s"
  by (simp_all add: html_escape_def)

text \<open>No character of an escaped text ends an attribute or opens a tag.\<close>

lemma html_escape_inert: "set (html_escape s) \<inter> {CHR ''<'', CHR ''>'', CHR 0x22, CHR 0x27} = {}"
  by (induction s) (auto simp: escape_char_def)

text \<open>The reader of the five entities \<open>html.escape\<close> writes.\<close>

function unescape :: "pystr \<Rightarrow> pystr" where
  "unescape s =
     (if s = [] then []
      else if starts_with s ''&amp;'' then CHR ''&'' # unescape (drop 5 s)
      else if starts_with s ''&lt;'' then CHR ''<'' # unescape (drop 4 s)
      else if starts_with s ''&gt;'' then CHR ''>'' # unescape (drop 4 s)
      else if starts_with s ''&quot;'' then CHR 0x22 # unescape (drop 6 s)
      else if starts_with s ''&#x27;'' then CHR 0x27 # unescape (drop 6 s)
      else hd s # unescape (tl s))"
  by pat_completeness auto
termination by (relation "measure length") auto

declare unescape.simps [simp del]

lemma unescape_escape_char: "unescape (escape_char c @ s) = c # unescape s"
  by (subst unescape.simps) (simp add: escape_char_def starts_with_def)

lemma ntfy_lets_others_out:
  "post (ntfy_request b t k title body u) = Ntfy_other e \<Longrightarrow> ntfy_send post b t k title body u = Some e"
  by (simp add: ntfy_send_def)

section \<open>Properties\<close>

text \<open>
  Escaped text is inert and loses nothing: what \<open>html.escape\<close> writes has no character
  that opens a tag or closes an attribute, and a reader of its entities gives back the text,
  whatever the text was.
\<close>
theorem html_escape_roundtrip:
  "unescape (html_escape s) = s \<and> set (html_escape s) \<inter> {CHR ''<'', CHR ''>'', CHR 0x22, CHR 0x27} = {}"
proof
  show "unescape (html_escape s) = s"
    by (induction s) (simp_all add: unescape_escape_char unescape.simps [of "[]"])
qed (rule html_escape_inert)

end
