(* ===== verification/PatchmonWebhook.thy ===== *)
theory PatchmonWebhook
  imports PatchmonClient Notifications ApprovalRoutes IntakeFetch
begin

text \<open>
  \<open>webhooks/patchmon.py\<close>: the receiver of PatchMon alerts. A request is handled in two
  phases, as the code suspends in between when the PatchMon API is configured:
  \<open>patchmon_decide\<close> up to the look-up of a pending approval, \<open>patchmon_issue\<close> from the
  email's details on. HMAC, the JSON decoder, the clock, the tokens and the delivery of the
  email are parameters.
\<close>

section \<open>Registration\<close>

definition url_query :: "pystr \<Rightarrow> pystr" where
  "url_query u = snd (snd (partition_at (CHR ''?'') (fst (partition_at (CHR ''#'') (url_after_scheme (url_clean u))))))"

definition url_fragment :: "pystr \<Rightarrow> pystr" where
  "url_fragment u = snd (snd (partition_at (CHR ''#'') (url_after_scheme (url_clean u))))"

text \<open>\<open>_approval_base_url\<close>; the outer \<open>None\<close> is a \<open>ValueError\<close> of \<open>urlsplit\<close>.\<close>

definition approval_base_url :: "(pystr \<Rightarrow> bool) \<Rightarrow> pystr option \<Rightarrow> pystr option option" where
  "approval_base_url bracket_ok v =
     (if \<not> truthy v \<or> strip (the v) = [] then Some None
      else
        (let base = rstrip_by (\<lambda>c. c = CHR ''/'') (strip (the v)) in
         case url_hostname bracket_ok base of
           None \<Rightarrow> None
         | Some host \<Rightarrow>
             Some (if url_scheme base \<notin> {''http'', ''https''} \<or> \<not> truthy host \<or>
                      url_query base \<noteq> [] \<or> url_fragment base \<noteq> []
                   then None else Some base)))"

definition alert_events :: "pystr \<Rightarrow> pystr set" where
  "alert_events v =
     set (map (\<lambda>item. lower (strip item)) (filter (\<lambda>item. strip item \<noteq> []) (split_at_char (CHR '','') v)))"

record patchmon_settings =
  ps_enabled :: bool
  ps_secret :: "pystr option"
  ps_base_url :: "pystr option"
  ps_max_body :: nat
  ps_ttl :: int
  ps_events :: pystr
  ps_read_only :: bool

datatype refusal_cause = No_secret | Bad_base_url | Not_smtp | Nothing_to_run

text \<open>The route with the key and the base URL it closes over.\<close>

record patchmon_route =
  pr_key :: pystr
  pr_base :: pystr

datatype registration = Not_enabled | Refused refusal_cause | Registration_raised | Mounted patchmon_route

definition register_patchmon ::
  "(pystr \<Rightarrow> bool) \<Rightarrow> provider \<Rightarrow> executor \<Rightarrow> patchmon_settings \<Rightarrow> registration" where
  "register_patchmon bracket_ok notifier ex st =
     (if \<not> ps_enabled st then Not_enabled
      else
        (let secret = strip (or_empty (ps_secret st)) in
         if secret = [] then Refused No_secret
         else case approval_base_url bracket_ok (ps_base_url st) of
           None \<Rightarrow> Registration_raised
         | Some None \<Rightarrow> Refused Bad_base_url
         | Some (Some base) \<Rightarrow>
             if notifier \<noteq> Provider_smtp then Refused Not_smtp
             else if \<not> can_execute ex then Refused Nothing_to_run
             else Mounted \<lparr>pr_key = secret, pr_base = base\<rparr>))"

section \<open>The signature\<close>

definition signature_matches :: "(pystr \<Rightarrow> pystr \<Rightarrow> pystr) \<Rightarrow> pystr \<Rightarrow> pystr \<Rightarrow> pystr \<Rightarrow> bool" where
  "signature_matches hmac header body key =
     (let p1 = strip header;
          p2 = (if lower (take 7 p1) = ''sha256='' then drop 7 p1 else p1);
          p3 = lower (strip p2)
      in p3 \<noteq> [] \<and> p3 = hmac key body)"

section \<open>Deciding\<close>

datatype patchmon_payload = Flat flat_payload | Native native_payload

datatype loads_answer = Loaded json | Not_json | Loads_raised

datatype info_answer = Info_ok "(pystr \<times> json) list" | Info_failed api_failure | Info_timeout | Info_raised

text \<open>The PatchMon API as the handler reads it, each call under its time budget.\<close>

record patchmon_reader =
  rd_info :: "pystr \<Rightarrow> info_answer"
  rd_details :: "pystr \<Rightarrow> host_reads"

record patchmon_env =
  pe_hmac :: "pystr \<Rightarrow> pystr \<Rightarrow> pystr"
  pe_loads :: "pystr \<Rightarrow> loads_answer"
  pe_str :: "json \<Rightarrow> pystr"
  pe_ell :: pystr
  pe_lower_first :: bool
  pe_reader :: "patchmon_reader option"
  pe_hash :: "pystr \<Rightarrow> pystr"
  pe_fmt :: "datetime \<Rightarrow> pystr"
  pe_deliver :: "mail \<Rightarrow> delivery"

record patchmon_request =
  pq_signature :: "pystr option"
  pq_content_length :: "pystr option"
  pq_content_type :: "pystr option"
  pq_body :: "pystr list"

datatype patchmon_response =
    PM_read_only
  | PM_too_large
  | PM_bad_signature
  | PM_not_json_type
  | PM_invalid_json
  | PM_invalid_payload
  | PM_event_not_listed pystr
  | PM_ignored unusable
  | PM_skipped patch_approval
  | PM_undelivered pystr
  | PM_pending patch_approval run_plan
  | PM_internal

fun patchmon_status :: "patchmon_response \<Rightarrow> nat" where
  "patchmon_status PM_read_only = 403"
| "patchmon_status PM_too_large = 413"
| "patchmon_status PM_bad_signature = 401"
| "patchmon_status PM_not_json_type = 400"
| "patchmon_status PM_invalid_json = 400"
| "patchmon_status PM_invalid_payload = 422"
| "patchmon_status (PM_event_not_listed e) = 200"
| "patchmon_status (PM_ignored r) = 200"
| "patchmon_status (PM_skipped a) = 200"
| "patchmon_status (PM_undelivered i) = 502"
| "patchmon_status (PM_pending a p) = 202"
| "patchmon_status PM_internal = 500"

definition parse_payload :: "patchmon_env \<Rightarrow> json \<Rightarrow> patchmon_payload option" where
  "parse_payload e payload =
     (case payload of
        JObj kvs \<Rightarrow>
          (case validate_flat (pe_ell e) (pe_str e) (pe_lower_first e) payload of
             Some f \<Rightarrow> Some (Flat f)
           | None \<Rightarrow> map_option Native (validate_native (pe_ell e) (pe_str e) (pe_lower_first e) payload))
      | _ \<Rightarrow> None)"

fun payload_event :: "patchmon_payload \<Rightarrow> pystr" where
  "payload_event (Flat f) = fp_event f"
| "payload_event (Native n) = np_event n"

text \<open>\<open>_resolve_by_host_id\<close>; \<open>None\<close> is an exception it does not handle.\<close>

definition resolve_by_host_id ::
  "(json \<Rightarrow> pystr) \<Rightarrow> (pystr \<Rightarrow> info_answer) \<Rightarrow> native_payload \<Rightarrow> ignored_alert \<Rightarrow> pystr \<Rightarrow> intake_alert option" where
  "resolve_by_host_id str info n ignored host_id =
     (let refuse = (\<lambda>r. Some (Unusable \<lparr>ia_event = ia_event ignored, ia_reason = r, ia_lookup = None\<rparr>)) in
      case info host_id of
        Info_raised \<Rightarrow> None
      | Info_timeout \<Rightarrow> refuse (Lookup_failed (ia_reason ignored) host_id ''timed out'')
      | Info_failed f \<Rightarrow> refuse (Lookup_failed (ia_reason ignored) host_id (api_text f))
      | Info_ok kvs \<Rightarrow>
          if map_of kvs ''id'' \<noteq> Some (JStr host_id) then refuse (Wrong_host (ia_reason ignored) host_id)
          else (case map_of kvs ''hostname'' of
                  Some (JStr hostname) \<Rightarrow>
                    if strip hostname = [] then refuse (No_hostname (ia_reason ignored) host_id)
                    else Some (normalize_native str (Some hostname) n)
                | _ \<Rightarrow> refuse (No_hostname (ia_reason ignored) host_id)))"

definition alert_of :: "patchmon_env \<Rightarrow> patchmon_payload \<Rightarrow> intake_alert option" where
  "alert_of e p =
     (case p of
        Flat f \<Rightarrow> Some (Usable (normalize_flat f))
      | Native n \<Rightarrow>
          (case normalize_native (pe_str e) None n of
             Usable a \<Rightarrow> Some (Usable a)
           | Unusable i \<Rightarrow>
               (case pe_reader e of
                  Some rd \<Rightarrow>
                    if truthy (ia_lookup i)
                    then resolve_by_host_id (pe_str e) (rd_info rd) n i (the (ia_lookup i))
                    else Some (Unusable i)
                | None \<Rightarrow> Some (Unusable i))))"

datatype decision = Respond patchmon_response | Ask patch_alert

text \<open>From the validated payload on.\<close>

definition decide_payload ::
  "patchmon_env \<Rightarrow> patchmon_settings \<Rightarrow> instant \<Rightarrow> patchmon_payload \<Rightarrow> approval_table \<Rightarrow> decision" where
  "decide_payload e st now p t =
     (if payload_event p \<notin> alert_events (ps_events st) then Respond (PM_event_not_listed (payload_event p))
      else case alert_of e p of
        None \<Rightarrow> Respond PM_internal
      | Some (Unusable i) \<Rightarrow> Respond (PM_ignored (ia_reason i))
      | Some (Usable a) \<Rightarrow>
          (case find_pending now (pl_event a) (pl_target_host a) (pl_service a) (pl_target_version a) t of
             Some row \<Rightarrow> Respond (PM_skipped row)
           | None \<Rightarrow> Ask a))"

definition patchmon_decide ::
  "patchmon_env \<Rightarrow> patchmon_settings \<Rightarrow> patchmon_route \<Rightarrow> instant \<Rightarrow> patchmon_request \<Rightarrow> approval_table
     \<Rightarrow> decision" where
  "patchmon_decide e st rt now rq t =
     (if ps_read_only st then Respond PM_read_only
      else if declared_too_large (pq_content_length rq) (ps_max_body st) then Respond PM_too_large
      else case read_capped (pq_body rq) (ps_max_body st) of
        None \<Rightarrow> Respond PM_too_large
      | Some raw \<Rightarrow>
          if \<not> signature_matches (pe_hmac e) (or_empty (pq_signature rq)) raw (pr_key rt)
          then Respond PM_bad_signature
          else if strip (fst (partition_at (CHR '';'') (or_empty (pq_content_type rq)))) \<noteq> ''application/json''
          then Respond PM_not_json_type
          else (case pe_loads e raw of
                  Loads_raised \<Rightarrow> Respond PM_internal
                | Not_json \<Rightarrow> Respond PM_invalid_json
                | Loaded payload \<Rightarrow>
                    (case parse_payload e payload of
                       None \<Rightarrow> Respond PM_invalid_payload
                     | Some p \<Rightarrow> decide_payload e st now p t)))"

section \<open>Issuing\<close>

text \<open>What the second phase draws: the row's id, the two tokens and the readings of the clock.\<close>

record patchmon_draw =
  dr_id :: pystr
  dr_approve :: pystr
  dr_cancel :: pystr
  dr_created :: instant
  dr_now :: instant

definition approval_row :: "patchmon_draw \<Rightarrow> patch_alert \<Rightarrow> patch_approval" where
  "approval_row dr a =
     \<lparr>ap_id = dr_id dr, ap_event = pl_event a, ap_target_host = pl_target_host a, ap_service = pl_service a,
      ap_current_version = pl_current_version a, ap_target_version = pl_target_version a,
      ap_severity = pl_severity a, ap_patchmon_host_id = pl_host_id a, ap_summary = pl_summary a,
      ap_approve_token_hash = [], ap_cancel_token_hash = [], ap_status = Patch_pending,
      ap_created_at = Naive (dr_created dr), ap_expires_at = Naive (dr_now dr), ap_resolved_at = None,
      ap_executed_via = None, ap_detail = None\<rparr>"

definition alert_details :: "patchmon_env \<Rightarrow> patch_alert \<Rightarrow> pystr list" where
  "alert_details e a =
     (case pe_reader e of
        None \<Rightarrow> []
      | Some rd \<Rightarrow>
          if truthy (pl_host_id a) then host_details (pe_ell e) (pe_str e) (rd_details rd (the (pl_host_id a)))
          else [''PatchMon details: unavailable (the alert carried no host id)''])"

definition plan_text :: "run_plan \<Rightarrow> pystr" where
  "plan_text p =
     (case p of
        Plan_nothing \<Rightarrow> ''nothing (PATCHMON_ANSIBLE_PLAYBOOK is not set)''
      | Plan_playbook name host \<Rightarrow> ''the Ansible playbook '' @ name @ '' against '' @ host)"

definition approval_lines :: "executor \<Rightarrow> pystr list \<Rightarrow> patch_approval \<Rightarrow> pystr list" where
  "approval_lines ex details a =
     [''PatchMon reported a patch that is waiting for your decision.'', []] @
     map (\<lambda>(label, v). label @ '': '' @ v) (describe a) @
     [''If approved, runs: '' @ plan_text (plan ex a)] @
     (if details \<noteq> [] then [] # details else [])"

text \<open>\<open>quote_plus\<close> on one 8-bit character, as UTF-8.\<close>

definition hex_upper :: "nat \<Rightarrow> char" where
  "hex_upper n = (if n < 10 then char_of (48 + n) else char_of (55 + n))"

definition percent :: "nat \<Rightarrow> pystr" where
  "percent n = [CHR ''%'', hex_upper (n div 16), hex_upper (n mod 16)]"

definition quote_char :: "char \<Rightarrow> pystr" where
  "quote_char c =
     (let n = code_point c in
      if is_alnum c \<or> c \<in> {CHR ''_'', CHR ''.'', CHR ''-'', CHR ''~''} then [c]
      else if c = CHR '' '' then ''+''
      else if n < 128 then percent n else percent (192 + n div 64) @ percent (128 + n mod 64))"

fun action_path :: "approval_action \<Rightarrow> pystr" where
  "action_path Action_approve = ''/patch/approve''"
| "action_path Action_cancel = ''/patch/cancel''"

definition approval_link :: "patchmon_route \<Rightarrow> approval_action \<Rightarrow> pystr \<Rightarrow> pystr" where
  "approval_link rt act token = pr_base rt @ action_path act @ ''?token='' @ concat (map quote_char token)"

definition approval_footer :: "patchmon_env \<Rightarrow> patchmon_settings \<Rightarrow> patch_approval \<Rightarrow> pystr" where
  "approval_footer e st a =
     ''Each link works once and expires at '' @ pe_fmt e (ap_expires_at a) @ '' ('' @ show_int (ps_ttl st) @
     '' minutes). Opening a link shows a confirmation page; nothing runs until you confirm there. '' @
     ''If you didn'' @ [CHR 0x27] @ ''t expect this email, cancel it.''"

definition approval_actions :: "patchmon_route \<Rightarrow> issued_approval \<Rightarrow> action_link list" where
  "approval_actions rt i =
     [\<lparr>al_label = ''Approve'', al_url = approval_link rt Action_approve (is_approve_token i), al_color = ''#2da44e''\<rparr>,
      \<lparr>al_label = ''Cancel'', al_url = approval_link rt Action_cancel (is_cancel_token i), al_color = ''#cf222e''\<rparr>]"

text \<open>The table, the emails handed to the mailer, and the response.\<close>

definition patchmon_issue ::
  "patchmon_env \<Rightarrow> patchmon_settings \<Rightarrow> patchmon_route \<Rightarrow> executor \<Rightarrow> patchmon_draw \<Rightarrow> patch_alert
     \<Rightarrow> approval_table \<Rightarrow> approval_table \<times> mail list \<times> patchmon_response" where
  "patchmon_issue e st rt ex dr alert t =
     (case approval_create (pe_hash e) (dr_now dr) (dr_approve dr) (dr_cancel dr) (approval_row dr alert) (ps_ttl st) t of
        None \<Rightarrow> (t, [], PM_internal)
      | Some (t', issued) \<Rightarrow>
          (let a = is_approval issued;
               title = ''Approve patch: '' @ subject a @ '' on '' @ ap_target_host a;
               body = join [CHR 0x0A] (approval_lines ex (alert_details e alert) a);
               actions = approval_actions rt issued;
               footer = Some (approval_footer e st a);
               sent = build_actionable title body actions footer
           in case send_actionable (pe_deliver e) title body actions footer of
                Some err \<Rightarrow>
                  (record_outcome (dr_now dr) (ap_id a) Patch_undelivered None (Some err) t', [sent],
                   PM_undelivered (ap_id a))
              | None \<Rightarrow> (t', [sent], PM_pending a (plan ex a))))"

definition patchmon_webhook ::
  "patchmon_env \<Rightarrow> patchmon_settings \<Rightarrow> patchmon_route \<Rightarrow> executor \<Rightarrow> instant \<Rightarrow> patchmon_draw \<Rightarrow> patchmon_request
     \<Rightarrow> approval_table \<Rightarrow> approval_table \<times> mail list \<times> patchmon_response" where
  "patchmon_webhook e st rt ex now dr rq t =
     (case patchmon_decide e st rt now rq t of
        Respond r \<Rightarrow> (t, [], r)
      | Ask a \<Rightarrow> patchmon_issue e st rt ex dr a t)"

text \<open>The reader a configured client gives; \<open>slow\<close> says for which host ids the budget runs out.\<close>

definition read_of :: "api_failure + 'a \<Rightarrow> 'a api_read" where
  "read_of r = (case r of Inl f \<Rightarrow> Read_failed f | Inr v \<Rightarrow> Read_ok v)"

definition api_reader :: "api \<Rightarrow> (pystr \<Rightarrow> bool) \<Rightarrow> patchmon_reader" where
  "api_reader a slow =
     \<lparr>rd_info = (\<lambda>i. if slow i then Info_timeout
                     else case get_host_info a i of Inl f \<Rightarrow> Info_failed f | Inr kvs \<Rightarrow> Info_ok kvs),
      rd_details = (\<lambda>i. if slow i then None
                        else Some (read_of (get_host_system a i), read_of (list_host_packages a i True),
                                   read_of (list_package_reports a i 1)))\<rparr>"

end
