(* ===== verification/PatchmonProps.thy ===== *)
theory PatchmonProps
  imports PatchmonWebhook
begin

text \<open>
  What holds of the PatchMon receiver: who can create an approval, what can reach the
  playbook from an alert, and that nothing an alert or PatchMon's database carries can forge a line of
  the approval email.
\<close>

section \<open>Validated payloads\<close>

definition opt_ok :: "('a \<Rightarrow> bool) \<Rightarrow> 'a option \<Rightarrow> bool" where
  "opt_ok P v \<longleftrightarrow> (case v of None \<Rightarrow> True | Some x \<Rightarrow> P x)"

lemma opt_ok_simps [simp]: "opt_ok P None" "opt_ok P (Some x) = P x"
  by (simp_all add: opt_ok_def)

definition flat_text :: "pystr \<Rightarrow> bool" where
  "flat_text s \<longleftrightarrow> (\<forall>c \<in> set s. \<not> is_unsafe_text c)"

definition ellipsis_ok :: "pystr \<Rightarrow> bool" where
  "ellipsis_ok ell \<longleftrightarrow> length ell = 1 \<and> \<not> is_unsafe_text (hd ell)"

lemma flat_text_simps [simp]:
  "flat_text []" "flat_text (c # s) \<longleftrightarrow> \<not> is_unsafe_text c \<and> flat_text s"
  "flat_text (s @ u) \<longleftrightarrow> flat_text s \<and> flat_text u"
  by (auto simp: flat_text_def)

lemma not_unsafe_iff: "\<not> is_unsafe_text c \<longleftrightarrow> (32 \<le> code_point c \<and> code_point c \<le> 126) \<or> 160 \<le> code_point c"
  by (auto simp: is_unsafe_text_def)

lemma flat_one_line [simp]: "ellipsis_ok ell \<Longrightarrow> 0 < n \<Longrightarrow> flat_text (one_line ell v n)"
  using one_line_safe [of n ell v] by (simp add: flat_text_def ellipsis_ok_def)

lemma event_ok_lower: "event_ok s \<Longrightarrow> lower s = s"
proof -
  assume "event_ok s"
  then have "\<forall>c \<in> set s. event_char c"
    using plain_text_set [of event_start event_char 63 s] by (auto simp: event_ok_def event_char_def)
  then show ?thesis
    unfolding lower_def
    by (intro map_idI) (auto simp: event_char_def event_start_def is_ascii_lower_def is_ascii_digit_def
        lower_char_def Let_def code_point_def)
qed

lemma check_event_ok: "check_event lf v = Some s \<Longrightarrow> event_ok s"
  by (auto simp: check_event_def check_text_def event_ok_lower split: option.splits json.splits if_splits)

lemma check_text_ok: "check_text ok v = Some s \<Longrightarrow> ok s"
  by (auto simp: check_text_def split: option.splits json.splits if_splits)

lemma check_optional_ok: "check_optional ok v = Some s \<Longrightarrow> opt_ok ok s"
  by (auto simp: check_optional_def check_text_ok split: if_splits)

lemma short_text_flat: "ellipsis_ok ell \<Longrightarrow> opt_ok flat_text (short_text ell str v)"
  by (simp add: short_text_def MAX_TEXT_CHARS_def split: option.split json.split)

text \<open>What every alert that can become an approval satisfies.\<close>

definition alert_ok :: "patch_alert \<Rightarrow> bool" where
  "alert_ok a \<longleftrightarrow> event_ok (pl_event a) \<and> name_ok (pl_target_host a) \<and> opt_ok name_ok (pl_service a) \<and>
     opt_ok version_ok (pl_current_version a) \<and> opt_ok version_ok (pl_target_version a) \<and>
     opt_ok uuid_ok (pl_host_id a)"

definition alert_flat :: "patch_alert \<Rightarrow> bool" where
  "alert_flat a \<longleftrightarrow> opt_ok flat_text (pl_severity a) \<and> opt_ok flat_text (pl_summary a)"

definition payload_ok :: "pystr \<Rightarrow> patchmon_payload \<Rightarrow> bool" where
  "payload_ok ell p \<longleftrightarrow>
     (case p of
        Flat f \<Rightarrow> event_ok (fp_event f) \<and> name_ok (fp_target_host f) \<and> opt_ok name_ok (fp_service f) \<and>
          opt_ok version_ok (fp_current_version f) \<and> opt_ok version_ok (fp_target_version f) \<and>
          opt_ok uuid_ok (fp_host_id f) \<and> (ellipsis_ok ell \<longrightarrow> opt_ok flat_text (fp_severity f))
      | Native n \<Rightarrow> event_ok (np_event n) \<and>
          (ellipsis_ok ell \<longrightarrow> opt_ok flat_text (np_severity n) \<and> opt_ok flat_text (np_title n) \<and>
             opt_ok flat_text (np_message n)))"

lemma host_id_opt: "opt_ok uuid_ok (host_id_of str v)"
  by (cases "host_id_of str v") (auto dest: host_id_ok)

lemma validate_flat_ok: "validate_flat ell str lf j = Some f \<Longrightarrow> payload_ok ell (Flat f)"
  by (auto simp: validate_flat_def payload_ok_def check_event_ok check_text_ok check_optional_ok
      short_text_flat host_id_opt split: option.splits dest: check_event_ok check_text_ok)

lemma validate_native_ok: "validate_native ell str lf j = Some n \<Longrightarrow> payload_ok ell (Native n)"
  by (auto simp: validate_native_def payload_ok_def check_event_ok short_text_flat split: option.splits)

lemma parse_payload_ok: "parse_payload e j = Some p \<Longrightarrow> payload_ok (pe_ell e) p"
  by (auto simp: parse_payload_def validate_flat_ok validate_native_ok split: json.splits option.splits)

lemma plain_flat:
  assumes "plain_text first rest n s" "\<And>c. first c \<Longrightarrow> rest c"
    "\<And>c. rest c \<Longrightarrow> 33 \<le> code_point c \<and> code_point c \<le> 126"
  shows "flat_text s"
  using plain_text_set [OF assms(1,2)] assms(3) unfolding flat_text_def not_unsafe_iff by fastforce

lemma alnum_chars: "is_alnum c \<Longrightarrow> name_char c" "name_char c \<Longrightarrow> version_char c" "event_char c \<Longrightarrow> version_char c"
  by (auto simp: name_char_def version_char_def event_char_def dest: ascii_classes)

lemma start_chars: "is_alnum c \<Longrightarrow> version_char c" "event_start c \<Longrightarrow> event_char c"
  by (simp_all add: version_char_def event_char_def)

lemma ok_flat: "name_ok s \<Longrightarrow> flat_text s" "version_ok s \<Longrightarrow> flat_text s" "event_ok s \<Longrightarrow> flat_text s"
  unfolding name_ok_def version_ok_def event_ok_def
  by (erule plain_flat; blast intro: alnum_chars start_chars dest: alnum_chars(2,3) version_char_graphic)+

lemma normalize_flat_ok:
  assumes "payload_ok ell (Flat f)"
  shows "alert_ok (normalize_flat f)" "ellipsis_ok ell \<Longrightarrow> alert_flat (normalize_flat f)"
  using assms
  by (auto simp: payload_ok_def normalize_flat_def alert_ok_def alert_flat_def Let_def opt_ok_def truthy_iff
      ok_flat is_unsafe_text_def code_point_def split: option.splits)

lemma native_alert_ok:
  assumes "payload_ok ell (Native n)" "name_ok h" "opt_ok uuid_ok i"
  shows "alert_ok (native_alert n h i)" "ellipsis_ok ell \<Longrightarrow> alert_flat (native_alert n h i)"
  using assms
  by (auto simp: payload_ok_def native_alert_def alert_ok_def alert_flat_def or_text_def split: if_splits)

lemma normalized_event [simp]:
  "pl_event (normalize_flat f) = fp_event f" "pl_event (native_alert n h i) = np_event n"
  by (simp_all add: normalize_flat_def native_alert_def Let_def)

lemma native_host_id_ok: "opt_ok uuid_ok (native_host_id str n)"
  by (auto simp: native_host_id_def opt_ok_def Let_def host_id_ok split: option.splits prod.splits if_splits)

lemma normalize_native_usable:
  assumes "normalize_native str r n = Usable a"
  shows "\<exists>h. a = native_alert n h (native_host_id str n) \<and> name_ok h"
proof -
  have "\<not> py_match name_ok []" by (simp add: py_match_def name_ok_def plain_text_def)
  then show ?thesis using assms by (auto simp: normalize_native_def Let_def split: if_splits)
qed

lemma alert_of_ok:
  assumes "alert_of e p = Some (Usable a)" "payload_ok (pe_ell e) p"
  shows "alert_ok a" "ellipsis_ok (pe_ell e) \<Longrightarrow> alert_flat a" "pl_event a = payload_event p"
proof -
  have "(\<exists>f. p = Flat f \<and> a = normalize_flat f) \<or>
      (\<exists>n r. p = Native n \<and> normalize_native (pe_str e) r n = Usable a)"
    using assms(1)
    by (auto simp: alert_of_def resolve_by_host_id_def Let_def
        split: patchmon_payload.splits intake_alert.splits option.splits info_answer.splits json.splits if_splits)
  then show "alert_ok a" "ellipsis_ok (pe_ell e) \<Longrightarrow> alert_flat a" "pl_event a = payload_event p"
    using assms(2) normalize_flat_ok [of "pe_ell e"] native_alert_ok [OF _ _ native_host_id_ok, of "pe_ell e"]
    by (auto dest!: normalize_native_usable)
qed

section \<open>The two phases\<close>

lemma decide_Ask:
  assumes "patchmon_decide e st rt now rq t = Ask a"
  obtains payload p where "\<not> ps_read_only st" "length (concat (pq_body rq)) \<le> ps_max_body st"
    "signature_matches (pe_hmac e) (or_empty (pq_signature rq)) (concat (pq_body rq)) (pr_key rt)"
    "pe_loads e (concat (pq_body rq)) = Loaded payload" "parse_payload e payload = Some p"
    "payload_event p \<in> alert_events (ps_events st)" "alert_of e p = Some (Usable a)"
    "find_pending now (pl_event a) (pl_target_host a) (pl_service a) (pl_target_version a) t = None"
proof -
  obtain raw payload p where r: "\<not> ps_read_only st" "read_capped (pq_body rq) (ps_max_body st) = Some raw"
    "signature_matches (pe_hmac e) (or_empty (pq_signature rq)) raw (pr_key rt)"
    "pe_loads e raw = Loaded payload" "parse_payload e payload = Some p" "decide_payload e st now p t = Ask a"
    using assms by (auto simp: patchmon_decide_def split: if_splits option.splits loads_answer.splits)
  have "raw = concat (pq_body rq)" "length raw \<le> ps_max_body st"
    using read_chunks_eq [of 0 "[]" "ps_max_body st" "pq_body rq"] r(2)
    by (auto simp: read_capped_def split: if_splits)
  moreover have "payload_event p \<in> alert_events (ps_events st)" "alert_of e p = Some (Usable a)"
    "find_pending now (pl_event a) (pl_target_host a) (pl_service a) (pl_target_version a) t = None"
    using r(6) by (auto simp: decide_payload_def split: if_splits option.splits intake_alert.splits)
  ultimately show thesis using that r by simp
qed

text \<open>A row that came from an alert.\<close>

definition row_of_alert :: "patch_alert \<Rightarrow> patch_approval \<Rightarrow> bool" where
  "row_of_alert a row \<longleftrightarrow>
     ap_event row = pl_event a \<and> ap_target_host row = pl_target_host a \<and> ap_service row = pl_service a \<and>
     ap_current_version row = pl_current_version a \<and> ap_target_version row = pl_target_version a \<and>
     ap_severity row = pl_severity a \<and> ap_patchmon_host_id row = pl_host_id a \<and> ap_summary row = pl_summary a"

lemma put_row_last: "k \<notin> key ` set t \<Longrightarrow> key r = k \<Longrightarrow> put_row key k f (t @ [r]) = t @ [f r]"
  by (auto simp: put_row_def image_iff intro!: map_idI)

lemma approval_create_Some:
  assumes "approval_create hash now ta tc a ttl t = Some (t', i)"
  shows "t' = t @ [is_approval i] \<and> ap_id a \<notin> ap_id ` set t \<and> is_approve_token i = ta \<and> is_cancel_token i = tc \<and>
    is_approval i = a\<lparr>ap_approve_token_hash := hash ta, ap_cancel_token_hash := hash tc,
      ap_status := Patch_pending, ap_expires_at := Naive (now + minutes ttl)\<rparr>"
  using assms
  by (auto simp: approval_create_def insert_row_def get_row_None_iff Let_def split: if_splits option.splits)

definition approval_mail ::
  "patchmon_env \<Rightarrow> patchmon_settings \<Rightarrow> patchmon_route \<Rightarrow> executor \<Rightarrow> patch_alert \<Rightarrow> issued_approval \<Rightarrow> mail" where
  "approval_mail e st rt ex a i =
     build_actionable (''Approve patch: '' @ subject (is_approval i) @ '' on '' @ ap_target_host (is_approval i))
       (join [CHR 0x0A] (approval_lines ex (alert_details e a) (is_approval i)))
       (approval_actions rt i) (Some (approval_footer e st (is_approval i)))"

lemma issue_cases:
  assumes "patchmon_issue e st rt ex dr a t = (t', mails, r)"
  shows "t' = t \<and> mails = [] \<or>
    (\<exists>row i. t' = t @ [row] \<and> row_of_alert a row \<and> ap_id row = dr_id dr \<and> dr_id dr \<notin> ap_id ` set t \<and>
       ap_status row \<in> {Patch_pending, Patch_undelivered} \<and>
       row_of_alert a (is_approval i) \<and> is_approve_token i = dr_approve dr \<and> is_cancel_token i = dr_cancel dr \<and>
       mails = [approval_mail e st rt ex a i])"
proof (cases "approval_create (pe_hash e) (dr_now dr) (dr_approve dr) (dr_cancel dr) (approval_row dr a) (ps_ttl st) t")
  case None
  then show ?thesis using assms by (simp add: patchmon_issue_def)
next
  case (Some x)
  then obtain t1 i where i: "x = (t1, i)"
    "approval_create (pe_hash e) (dr_now dr) (dr_approve dr) (dr_cancel dr) (approval_row dr a) (ps_ttl st) t = Some (t1, i)"
    by (cases x) auto
  note c = approval_create_Some [OF i(2)]
  have row: "row_of_alert a (is_approval i)" "ap_id (is_approval i) = dr_id dr" "ap_status (is_approval i) = Patch_pending"
    "dr_id dr \<notin> ap_id ` set t"
    using c by (auto simp: row_of_alert_def approval_row_def)
  have put: "record_outcome n (dr_id dr) s v d (t @ [is_approval i]) =
      t @ [(is_approval i)\<lparr>ap_status := s, ap_executed_via := v, ap_detail := d,
              ap_resolved_at := or_value (ap_resolved_at (is_approval i)) (Some (Naive n))\<rparr>]" for n s v d
    using row by (simp add: record_outcome_def put_row_last)
  have keep: "row_of_alert a (x\<lparr>ap_status := s, ap_executed_via := v, ap_detail := d, ap_resolved_at := w\<rparr>)
      = row_of_alert a x" for x s v d w
    by (simp add: row_of_alert_def)
  let ?m = "approval_mail e st rt ex a i"
  have t1: "t1 = t @ [is_approval i]" using c by simp
  have "mails = [?m] \<and> (\<exists>row. t' = t @ [row] \<and> row_of_alert a row \<and> ap_id row = dr_id dr \<and>
      ap_status row \<in> {Patch_pending, Patch_undelivered})"
  proof (cases "pe_deliver e ?m")
    case Delivered
    then have "mails = [?m] \<and> t' = t1"
      using assms by (simp add: patchmon_issue_def i(2) approval_mail_def send_actionable_def Let_def)
    then show ?thesis using row t1 by auto
  next
    case (Not_delivered cls why)
    then have "mails = [?m] \<and> t' = record_outcome (dr_now dr) (dr_id dr) Patch_undelivered None (Some (cls @ '': '' @ why)) t1"
      using assms row(2) by (simp add: patchmon_issue_def i(2) approval_mail_def send_actionable_def Let_def)
    then show ?thesis using row t1 put keep by auto
  qed
  then show ?thesis using row c by blast
qed

section \<open>The lines of the email\<close>

definition not_link :: "pystr \<Rightarrow> bool" where
  "not_link l \<longleftrightarrow> \<not> starts_with l ''Approve:'' \<and> \<not> starts_with l ''Cancel:''"

definition plain_line :: "pystr \<Rightarrow> bool" where
  "plain_line l \<longleftrightarrow> flat_text l \<and> not_link l"

definition read_named :: "'a api_read \<Rightarrow> bool" where
  "read_named r \<longleftrightarrow> (\<forall>n. r = Read_raised n \<longrightarrow> flat_text n)"

text \<open>The names of exception classes are identifiers.\<close>

definition reads_named :: "host_reads \<Rightarrow> bool" where
  "reads_named r \<longleftrightarrow>
     (case r of None \<Rightarrow> True | Some (a, b, c) \<Rightarrow> read_named a \<and> read_named b \<and> read_named c)"

lemma plain_lineI: "flat_text l \<Longrightarrow> not_link l \<Longrightarrow> plain_line l"
  by (simp add: plain_line_def)

lemma flat_show_nat [simp]: "flat_text (show_nat n)"
proof (induction n rule: show_nat.induct)
  case (1 n)
  have "\<not> is_unsafe_text (char_of (48 + k) :: char)" if "k < 10" for k :: nat
    using that by (simp add: not_unsafe_iff code_point_def)
  then show ?case using 1 by (subst show_nat.simps) simp
qed

lemma flat_show_int [simp]: "flat_text (show_int i)"
  by (simp add: show_int_def not_unsafe_iff code_point_def)

lemmas line_simps = not_link_def starts_with_def not_unsafe_iff code_point_def

lemma failure_flat: "ellipsis_ok ell \<Longrightarrow> read_named r \<Longrightarrow> flat_text (failure_text ell r)"
  by (simp add: failure_text_def read_named_def MAX_VALUE_CHARS_def split: api_read.split)

lemma member_flat [simp]: "ellipsis_ok ell \<Longrightarrow> 0 < n \<Longrightarrow> flat_text (member_line ell str item key n)"
  by (simp add: member_line_def)

lemma value_limit [simp]: "0 < MAX_VALUE_CHARS"
  by (simp add: MAX_VALUE_CHARS_def)

lemma report_plain: "ellipsis_ok ell \<Longrightarrow> read_named r \<Longrightarrow> plain_line (report_line ell str r)"
  by (rule plain_lineI)
     (auto simp: report_line_def Let_def line_simps failure_flat split: api_read.split list.split)

lemma system_plain: "ellipsis_ok ell \<Longrightarrow> read_named r \<Longrightarrow> list_all plain_line (system_lines ell str r)"
  by (auto simp: system_lines_def kernel_lines_def Let_def line_simps plain_line_def failure_flat split: api_read.split)

lemma package_plain: "ellipsis_ok ell \<Longrightarrow> plain_line (package_line ell str item)"
  by (rule plain_lineI) (simp_all add: package_line_def Let_def line_simps)

lemma package_counts_plain:
  "plain_line (''Pending updates: '' @ show_nat m @ '' ('' @ show_nat n @ '' security)'')"
  "plain_line (''  - ...and '' @ show_nat m @ '' more'')"
  "plain_line ''Pending updates: none''"
  by (rule plain_lineI; simp add: line_simps)+

lemma failed_plain:
  assumes "ellipsis_ok ell" "read_named r"
  shows "plain_line (''Pending updates: unavailable ('' @ failure_text ell r @ '')'')"
  by (rule plain_lineI) (simp_all add: line_simps failure_flat assms)

lemma packages_plain:
  assumes "ellipsis_ok ell" "read_named r"
  shows "list_all plain_line (package_lines ell str r)"
proof (cases r)
  case (Read_ok items)
  have "list_all plain_line (map (package_line ell str) xs)" for xs
    using package_plain [OF assms(1)] by (simp add: list_all_iff)
  then show ?thesis
    using package_counts_plain by (simp add: package_lines_def Read_ok Let_def del: append.simps)
qed (use failed_plain [OF assms] in \<open>simp_all add: package_lines_def del: append.simps\<close>)

lemma frame_plain:
  "plain_line ''What PatchMon last saw on this host:''"
  "plain_line (''Unavailable: PatchMon didn'' @ [CHR 0x27] @ ''t answer in time.'')"
  "plain_line (''This is PatchMon'' @ [CHR 0x27] @ ''s list as of that report; the playbook decides what it installs.'')"
  "plain_line ''PatchMon details: unavailable (the alert carried no host id)''"
  "plain_line ''PatchMon reported a patch that is waiting for your decision.''"
  "plain_line []"
  by (rule plain_lineI; simp add: line_simps)+

lemma details_plain:
  assumes "ellipsis_ok ell" "reads_named r"
  shows "list_all plain_line (host_details ell str r)"
proof (cases r)
  case None
  then show ?thesis using frame_plain by (simp add: host_details_def del: append.simps)
next
  case (Some x)
  obtain a b c where x: "x = (a, b, c)" by (cases x)
  then have "read_named a" "read_named b" "read_named c" using assms(2) Some by (simp_all add: reads_named_def)
  then show ?thesis
    using frame_plain report_plain [OF assms(1)] system_plain [OF assms(1)] packages_plain [OF assms(1)]
    by (simp add: host_details_def Some x del: append.simps)
qed

section \<open>Splitting the email again\<close>

lemma split_no_sep: "c \<notin> set x \<Longrightarrow> split_at_char c x = [x]"
  by (induction x) auto

lemma split_at_sep: "c \<notin> set x \<Longrightarrow> split_at_char c (x @ c # s) = x # split_at_char c s"
  by (induction x) auto

lemma split_join:
  "xs \<noteq> [] \<Longrightarrow> \<forall>x \<in> set xs. c \<notin> set x \<Longrightarrow> split_at_char c (join [c] xs) = xs"
  by (induction "[c]" xs rule: join.induct) (auto simp: split_no_sep split_at_sep)

lemma set_split: "set s \<subseteq> {c} \<union> (\<Union>x \<in> set (split_at_char c s). set x)"
proof (induction s)
  case (Cons d s)
  then show ?case by (cases "split_at_char c s"; cases "d = c"; simp; blast)
qed simp

lemma split_hd: "split_at_char c s = x # ps \<Longrightarrow> x \<noteq> [] \<Longrightarrow> hd s = hd x"
  by (cases s) (auto split: list.splits if_splits)

lemma join_join: "xs \<noteq> [] \<Longrightarrow> join sep (join sep xs # ys) = join sep (xs @ ys)"
proof (induction sep xs rule: join.induct)
  case (3 sep x y xs)
  then show ?case by (cases ys) auto
qed auto

lemma flat_no_newline: "flat_text l \<Longrightarrow> CHR 0x0A \<notin> set l"
  by (auto simp: flat_text_def is_unsafe_text_def code_point_def)

lemma describe_plain:
  assumes "alert_ok a" "alert_flat a" "row_of_alert a row"
  shows "list_all plain_line (map (\<lambda>(l, v). l @ '': '' @ v) (describe row))"
proof -
  have f: "flat_text (ap_target_host row)" "flat_text (or_empty (ap_service row))"
    "flat_text (or_empty (ap_current_version row))" "flat_text (or_empty (ap_target_version row))"
    "flat_text (ap_event row)" "flat_text (or_empty (ap_severity row))" "flat_text (or_empty (ap_summary row))"
    using assms by (auto simp: alert_ok_def alert_flat_def row_of_alert_def opt_ok_def or_empty_def ok_flat split: option.splits)
  have labels: "plain_line (''Host: '' @ v)" "plain_line (''Service: '' @ v)" "plain_line (''Current version: '' @ v)"
    "plain_line (''Target version: '' @ v)" "plain_line (''Event: '' @ v)" "plain_line (''Severity: '' @ v)"
    "plain_line (''Summary: '' @ v)" if "flat_text v" for v
    using that by (auto intro!: plain_lineI simp: line_simps)
  show ?thesis using labels f by (simp add: describe_def or_empty_def)
qed

definition env_ok_text :: "patchmon_env \<Rightarrow> patchmon_route \<Rightarrow> executor \<Rightarrow> bool" where
  "env_ok_text e rt ex \<longleftrightarrow>
     ellipsis_ok (pe_ell e) \<and> (\<forall>d. flat_text (pe_fmt e d)) \<and> flat_text (pr_base rt) \<and>
     flat_text (path_name (or_empty (ex_playbook ex)))"

definition reader_named :: "patchmon_env \<Rightarrow> bool" where
  "reader_named e \<longleftrightarrow> (\<forall>rd i. pe_reader e = Some rd \<longrightarrow> reads_named (rd_details rd i))"

lemma alert_details_plain:
  assumes "env_ok_text e rt ex" "reader_named e"
  shows "list_all plain_line (alert_details e a)"
  using assms frame_plain(4) details_plain
  by (simp add: alert_details_def env_ok_text_def reader_named_def split: option.split)

lemma approval_lines_plain:
  assumes "env_ok_text e rt ex" "reader_named e" "alert_ok a" "alert_flat a" "row_of_alert a row"
  shows "list_all plain_line (approval_lines ex (alert_details e a) row)"
proof -
  have "flat_text (plan_text (plan ex row))"
    using assms(1,3,5)
    by (auto simp: plan_text_def plan_def env_ok_text_def row_of_alert_def alert_ok_def ok_flat line_simps)
  then have "plain_line (''If approved, runs: '' @ plan_text (plan ex row))"
    by (intro plain_lineI) (simp_all add: line_simps)
  then show ?thesis
    using describe_plain [OF assms(3-5)] alert_details_plain [OF assms(1,2)] frame_plain(5,6)
    by (simp add: approval_lines_def del: append.simps)
qed

lemma percent_flat: "n < 256 \<Longrightarrow> flat_text (percent n)"
proof -
  have h: "\<not> is_unsafe_text (hex_upper k)" if "k < 16" for k
    using that by (auto simp: hex_upper_def not_unsafe_iff code_point_def)
  assume "n < 256"
  then show ?thesis by (simp add: percent_def h not_unsafe_iff code_point_def)
qed

lemma quote_char_flat: "flat_text (quote_char c)"
proof -
  have n: "code_point c < 256" by (simp add: code_point_def)
  have "\<not> is_unsafe_text c" if "is_alnum c"
    using ascii_classes(1) [OF that] by (simp add: not_unsafe_iff)
  moreover have "\<not> is_unsafe_text c" if "c \<in> {CHR ''_'', CHR ''.'', CHR ''-'', CHR ''~'', CHR ''+''}" for c
    using that by (auto simp: not_unsafe_iff code_point_def)
  moreover have "192 + code_point c div 64 < 256" "128 + code_point c mod 64 < 256" using n by auto
  ultimately show ?thesis
    using n by (simp add: quote_char_def Let_def percent_flat)
qed

lemma approval_link_flat: "env_ok_text e rt ex \<Longrightarrow> flat_text (approval_link rt act token)"
proof -
  assume "env_ok_text e rt ex"
  moreover have "flat_text (concat (map quote_char s))" for s
    by (induction s) (simp_all add: quote_char_flat)
  ultimately show ?thesis
    by (cases act) (simp_all add: approval_link_def env_ok_text_def not_unsafe_iff code_point_def)
qed

lemma approval_footer_flat:
  "env_ok_text e rt ex \<Longrightarrow> flat_text (approval_footer e st a) \<and> truthy (Some (approval_footer e st a)) \<and>
     not_link (approval_footer e st a)"
  by (simp add: approval_footer_def env_ok_text_def line_simps)

lemma filter_plain:
  "list_all plain_line ls \<Longrightarrow> filter (\<lambda>l. starts_with l ''Approve:'') ls = []"
  "list_all plain_line ls \<Longrightarrow> filter (\<lambda>l. starts_with l ''Cancel:'') ls = []"
  by (auto simp: list_all_iff plain_line_def not_link_def filter_empty_conv)

lemma approval_mail_lines:
  assumes "env_ok_text e rt ex" "reader_named e" "alert_ok a" "alert_flat a" "row_of_alert a (is_approval i)"
  shows "split_at_char (CHR 0x0A) (ml_plain (approval_mail e st rt ex a i)) =
    approval_lines ex (alert_details e a) (is_approval i) @
    [[], ''Approve: '' @ approval_link rt Action_approve (is_approve_token i),
     ''Cancel: '' @ approval_link rt Action_cancel (is_cancel_token i), [], approval_footer e st (is_approval i)]"
    (is "_ = ?ls @ ?rest")
proof -
  have "list_all plain_line ?ls" by (rule approval_lines_plain [OF assms])
  moreover have "list_all flat_text ?rest"
    using approval_link_flat [OF assms(1)] approval_footer_flat [OF assms(1)]
    by (simp add: not_unsafe_iff code_point_def)
  ultimately have "\<forall>l \<in> set (?ls @ ?rest). flat_text l"
    unfolding list_all_iff plain_line_def set_append by blast
  then have "\<forall>l \<in> set (?ls @ ?rest). CHR 0x0A \<notin> set l" using flat_no_newline by blast
  moreover have ne: "?ls \<noteq> []" by (simp add: approval_lines_def)
  ultimately have "split_at_char (CHR 0x0A) (join [CHR 0x0A] (?ls @ ?rest)) = ?ls @ ?rest"
    by (intro split_join) auto
  moreover have "approval_footer e st (is_approval i) \<noteq> []"
    by (simp add: approval_footer_def)
  then have "ml_plain (approval_mail e st rt ex a i) = join [CHR 0x0A] (join [CHR 0x0A] ?ls # ?rest)"
    by (simp add: approval_mail_def build_actionable_def plain_lines_def approval_actions_def del: join.simps)
  ultimately show ?thesis using join_join [OF ne, of "[CHR 0x0A]" ?rest] by simp
qed

lemma value_chars:
  "name_ok s \<Longrightarrow> s \<noteq> [] \<and> is_alnum (hd s) \<and> (\<forall>c \<in> set s. name_char c \<and> version_char c)"
  "version_ok s \<Longrightarrow> is_alnum (hd s) \<and> (\<forall>c \<in> set s. version_char c)"
  "event_ok s \<Longrightarrow> is_alnum (hd s) \<and> (\<forall>c \<in> set s. version_char c)"
  "uuid_ok s \<Longrightarrow> is_alnum (hd s) \<and> (\<forall>c \<in> set s. version_char c)"
proof -
  have start: "is_alnum c \<Longrightarrow> name_char c" for c by (simp add: name_char_def)
  show "name_ok s \<Longrightarrow> s \<noteq> [] \<and> is_alnum (hd s) \<and> (\<forall>c \<in> set s. name_char c \<and> version_char c)"
    using plain_text_set [of is_alnum name_char 252 s] start alnum_chars(2) unfolding name_ok_def by blast
  show "version_ok s \<Longrightarrow> is_alnum (hd s) \<and> (\<forall>c \<in> set s. version_char c)"
    using plain_text_set [of is_alnum version_char 127 s] start_chars(1) unfolding version_ok_def by blast
  show "event_ok s \<Longrightarrow> is_alnum (hd s) \<and> (\<forall>c \<in> set s. version_char c)"
    using plain_text_set [of event_start event_char 63 s] start_chars(2) alnum_chars(3) ascii_classes(2)
    unfolding event_ok_def by blast
  show "uuid_ok s \<Longrightarrow> is_alnum (hd s) \<and> (\<forall>c \<in> set s. version_char c)"
  proof -
    assume u: "uuid_ok s"
    obtain x ps where x: "split_at_char (CHR ''-'') s = x # ps" by (cases "split_at_char (CHR ''-'') s") (use u in \<open>auto simp: uuid_ok_def\<close>)
    have hex: "is_alnum c" if "is_hex c" for c
      using that by (auto simp: is_hex_def is_alnum_def is_ascii_alpha_def is_ascii_lower_def is_ascii_upper_def)
    have "x \<noteq> []" "list_all is_hex x" using u x by (auto simp: uuid_ok_def Let_def)
    then have "is_alnum (hd s)" using split_hd [OF x] hex by (cases x) auto
    moreover have "version_char c" if "c \<in> set s" for c
    proof -
      from that have "c = CHR ''-'' \<or> (\<exists>y \<in> set (split_at_char (CHR ''-'') s). c \<in> set y)"
        using set_split [of s "CHR ''-''"] by auto
      then show ?thesis
        using u hex start_chars(1) by (auto simp: uuid_ok_def Let_def list_all_iff version_char_def)
    qed
    ultimately show ?thesis by blast
  qed
qed

section \<open>Properties\<close>

text \<open>
  C37: Nobody but the holder of the key asks for an approval: a request that changes the
  approval table or sends an email was accepted while the server may write, within the size limit,
  with the HMAC of its exact bytes, and decodes to a valid alert of a listed event with no live
  pending approval of its own; it adds exactly one row, the alert's, pending or (when
  the email failed) undelivered, leaves every other row alone, and sends one email.
\<close>
theorem patchmon_request_gated:
  assumes "patchmon_webhook e st rt ex now dr rq t = (t', mails, r)"
  shows "t' = t \<and> mails = [] \<or>
    \<not> ps_read_only st \<and> length (concat (pq_body rq)) \<le> ps_max_body st \<and>
    signature_matches (pe_hmac e) (or_empty (pq_signature rq)) (concat (pq_body rq)) (pr_key rt) \<and>
    (\<exists>payload p a row m. pe_loads e (concat (pq_body rq)) = Loaded payload \<and>
       parse_payload e payload = Some p \<and> payload_event p \<in> alert_events (ps_events st) \<and>
       alert_of e p = Some (Usable a) \<and>
       find_pending now (pl_event a) (pl_target_host a) (pl_service a) (pl_target_version a) t = None \<and>
       t' = t @ [row] \<and> row_of_alert a row \<and> ap_id row = dr_id dr \<and> dr_id dr \<notin> ap_id ` set t \<and>
       ap_status row \<in> {Patch_pending, Patch_undelivered} \<and> mails = [m])"
proof (cases "patchmon_decide e st rt now rq t")
  case (Respond x)
  then show ?thesis using assms by (simp add: patchmon_webhook_def)
next
  case (Ask a)
  then have i: "patchmon_issue e st rt ex dr a t = (t', mails, r)"
    using assms by (simp add: patchmon_webhook_def)
  show ?thesis
    by (rule decide_Ask [OF Ask]) (use issue_cases [OF i] in blast)
qed

text \<open>
  What an alert can put into the playbook is inert: of the values the playbook gets for an
  approval this receiver created, the target host is a plain name that does not start like an option, and every
  other value taken from the alert holds only letters, digits and \<open>. _ + : ~ -\<close>, starting with a letter or a digit
  when it is not empty: no white space, no braces, no host pattern.
\<close>
theorem playbook_values_inert:
  assumes "patchmon_webhook e st rt ex now dr rq t = (t', mails, r)" "row \<in> set t'" "row \<notin> set t"
    and "(k, v) \<in> set (extra_vars row)" "k \<noteq> ''patchmon_approval_id''"
  shows "\<exists>s. v = JStr s \<and> (s = [] \<or> is_alnum (hd s)) \<and> (\<forall>c \<in> set s. version_char c) \<and>
    (k = ''patchmon_target_host'' \<longrightarrow> s = ap_target_host row \<and> s \<noteq> [] \<and> (\<forall>c \<in> set s. name_char c))"
proof (cases "patchmon_decide e st rt now rq t")
  case (Respond x)
  then show ?thesis using assms by (simp add: patchmon_webhook_def)
next
  case (Ask a)
  then have i: "patchmon_issue e st rt ex dr a t = (t', mails, r)"
    using assms(1) by (simp add: patchmon_webhook_def)
  have a: "alert_ok a"
    using alert_of_ok(1) parse_payload_ok by (rule_tac decide_Ask [OF Ask]) blast
  have row: "row_of_alert a row"
    using issue_cases [OF i] assms(2,3) by auto
  define inert where "inert s \<longleftrightarrow> (s = [] \<or> is_alnum (hd s)) \<and> (\<forall>c \<in> set s. version_char c)" for s
  have v: "name_ok s \<Longrightarrow> inert s" "version_ok s \<Longrightarrow> inert s" "event_ok s \<Longrightarrow> inert s" "uuid_ok s \<Longrightarrow> inert s" for s
    using value_chars [of s] unfolding inert_def by blast+
  have opt: "opt_ok P w \<Longrightarrow> (\<And>s. P s \<Longrightarrow> inert s) \<Longrightarrow> inert (or_empty w)" for P w
    by (cases w) (simp_all add: or_empty_def inert_def)
  have "\<forall>(k, w) \<in> set (extra_vars row). k \<noteq> ''patchmon_approval_id'' \<longrightarrow> (\<exists>s. w = JStr s \<and> inert s)"
  proof -
    have "inert (or_empty (pl_host_id a))" "inert (or_empty (pl_service a))"
      "inert (or_empty (pl_current_version a))" "inert (or_empty (pl_target_version a))"
      using a opt [OF _ v(1)] opt [OF _ v(2)] opt [OF _ v(4)] unfolding alert_ok_def by blast+
    then show ?thesis using a row v by (simp add: extra_vars_def alert_ok_def row_of_alert_def)
  qed
  moreover have "\<forall>(k, w) \<in> set (extra_vars row). k = ''patchmon_target_host'' \<longrightarrow> w = JStr (ap_target_host row)"
    by (simp add: extra_vars_def)
  moreover have "ap_target_host row \<noteq> [] \<and> (\<forall>c \<in> set (ap_target_host row). name_char c)"
    using a row value_chars(1) unfolding alert_ok_def row_of_alert_def by metis
  ultimately show ?thesis
    using assms(4,5) unfolding inert_def by fastforce
qed

text \<open>
  C38: No text from an alert or from PatchMon's database can forge a link: read line by line, the
  plain text of an approval email has exactly one line that starts with \<open>Approve:\<close> and one that
  starts with \<open>Cancel:\<close>, and they are the two links of this approval.
\<close>
theorem approval_email_unforgeable:
  assumes "patchmon_webhook e st rt ex now dr rq t = (t', [m], r)"
    and "env_ok_text e rt ex" "reader_named e"
  shows "filter (\<lambda>l. starts_with l ''Approve:'') (split_at_char (CHR 0x0A) (ml_plain m)) =
      [''Approve: '' @ approval_link rt Action_approve (dr_approve dr)] \<and>
    filter (\<lambda>l. starts_with l ''Cancel:'') (split_at_char (CHR 0x0A) (ml_plain m)) =
      [''Cancel: '' @ approval_link rt Action_cancel (dr_cancel dr)]"
proof (cases "patchmon_decide e st rt now rq t")
  case (Respond x)
  then show ?thesis using assms by (simp add: patchmon_webhook_def)
next
  case (Ask a)
  then have i: "patchmon_issue e st rt ex dr a t = (t', [m], r)"
    using assms(1) by (simp add: patchmon_webhook_def)
  have a: "alert_ok a" "alert_flat a"
    using alert_of_ok parse_payload_ok assms(2) unfolding env_ok_text_def
    by (rule_tac decide_Ask [OF Ask], blast)+
  obtain iss where iss: "row_of_alert a (is_approval iss)" "is_approve_token iss = dr_approve dr"
    "is_cancel_token iss = dr_cancel dr" "m = approval_mail e st rt ex a iss"
    using issue_cases [OF i] by auto
  note lines = approval_lines_plain [OF assms(2,3) a iss(1)]
  show ?thesis
    using approval_footer_flat [OF assms(2), of st "is_approval iss"]
    by (simp add: iss(4) approval_mail_lines [OF assms(2,3) a iss(1)] filter_plain [OF lines] iss(2,3) not_link_def
        del: append.simps(2))
       (simp add: starts_with_def)
qed

section \<open>A concrete receiver\<close>

definition example_pm_env :: patchmon_env where
  "example_pm_env =
     \<lparr>pe_hmac = (\<lambda>k b. ''ab''),
      pe_loads = (\<lambda>b. Loaded (JObj [(''event'', JStr ''patch''), (''target_host'', JStr ''pi''), (''service'', JStr ''web'')])),
      pe_str = (\<lambda>j. []), pe_ell = ''.'', pe_lower_first = True, pe_reader = None, pe_hash = (\<lambda>s. s),
      pe_fmt = (\<lambda>d. ''soon''), pe_deliver = (\<lambda>m. Delivered)\<rparr>"

definition example_pm_settings :: patchmon_settings where
  "example_pm_settings =
     \<lparr>ps_enabled = True, ps_secret = Some ''k'', ps_base_url = Some ''https://h'', ps_max_body = 100, ps_ttl = 5,
      ps_events = ''patch'', ps_read_only = False\<rparr>"

definition example_pm_route :: patchmon_route where
  "example_pm_route = \<lparr>pr_key = ''k'', pr_base = ''https://h''\<rparr>"

definition example_pm_request :: patchmon_request where
  "example_pm_request =
     \<lparr>pq_signature = Some ''sha256=AB'', pq_content_length = None, pq_content_type = Some ''application/json'',
      pq_body = [''x'']\<rparr>"

definition example_draw :: "pystr \<Rightarrow> patchmon_draw" where
  "example_draw s = \<lparr>dr_id = s, dr_approve = s @ ''a'', dr_cancel = s @ ''c'', dr_created = 0, dr_now = 0\<rparr>"

definition example_pm_run :: "approval_table \<times> mail list \<times> patchmon_response" where
  "example_pm_run =
     patchmon_webhook example_pm_env example_pm_settings example_pm_route
       \<lparr>ex_playbook = Some ''/p.yml'', ex_ansible_cfg_path = None, ex_ssh_key_path = None, ex_ssh_user = ''u''\<rparr>
       0 (example_draw ''1'') example_pm_request []"

abbreviation example_pm_executor :: executor where
  "example_pm_executor \<equiv>
     \<lparr>ex_playbook = Some ''/p.yml'', ex_ansible_cfg_path = None, ex_ssh_key_path = None, ex_ssh_user = ''u''\<rparr>"

lemma example_pm_eq:
  "patchmon_webhook example_pm_env example_pm_settings example_pm_route example_pm_executor 0 (example_draw ''1'')
     example_pm_request [] = (fst example_pm_run, fst (snd example_pm_run), snd (snd example_pm_run))"
  by (simp add: example_pm_run_def)

lemma example_pm_row: "map ap_target_host (fst example_pm_run) = [''pi'']"
  by code_simp

text \<open>With the API configured, the handler suspends for the email's details between the look-up
  of a pending approval and the insert: two deliveries of one alert that interleave there both
  create a live approval.\<close>

lemma concurrent_alerts_two_approvals:
  assumes "patchmon_decide e st rt now rq t = Ask a" "patchmon_decide e st rt now' rq t = Ask a"
    "\<And>m. pe_deliver e m = Delivered" "dr_id dr \<noteq> dr_id dr'"
    "approval_create (pe_hash e) (dr_now dr) (dr_approve dr) (dr_cancel dr) (approval_row dr a) (ps_ttl st) t = Some (t1, i)"
    "approval_create (pe_hash e) (dr_now dr') (dr_approve dr') (dr_cancel dr') (approval_row dr' a) (ps_ttl st) t1 = Some (t2, i')"
  shows "fst (patchmon_issue e st rt ex dr' a (fst (patchmon_issue e st rt ex dr a t))) =
      t @ [is_approval i, is_approval i'] \<and>
    ap_status (is_approval i) = Patch_pending \<and> ap_status (is_approval i') = Patch_pending \<and>
    row_of_alert a (is_approval i) \<and> row_of_alert a (is_approval i')"
  using assms approval_create_Some [OF assms(5)] approval_create_Some [OF assms(6)]
  by (simp add: patchmon_issue_def send_actionable_def Let_def row_of_alert_def approval_row_def)

theorem patchmon_request_gated_witness:
  "length (concat (pq_body example_pm_request)) \<le> ps_max_body example_pm_settings \<and>
   (\<exists>row. fst example_pm_run = [row])"
  using patchmon_request_gated [OF example_pm_eq] example_pm_row by auto

theorem playbook_values_inert_witness:
  "\<exists>row s. fst example_pm_run = [row] \<and> s = ap_target_host row \<and> s \<noteq> [] \<and> (\<forall>c \<in> set s. name_char c)"
proof -
  obtain row where row: "fst example_pm_run = [row]"
    using example_pm_row by (cases "fst example_pm_run") auto
  have "(''patchmon_target_host'', JStr (ap_target_host row)) \<in> set (extra_vars row)"
    by (simp add: extra_vars_def)
  from playbook_values_inert [OF example_pm_eq _ _ this] row show ?thesis by auto
qed

theorem approval_email_unforgeable_witness:
  "\<exists>m. fst (snd example_pm_run) = [m] \<and>
     filter (\<lambda>l. starts_with l ''Approve:'') (split_at_char (CHR 0x0A) (ml_plain m)) =
       [''Approve: '' @ approval_link example_pm_route Action_approve ''1a'']"
proof -
  have "length (fst (snd example_pm_run)) = 1" by code_simp
  then obtain m where m: "fst (snd example_pm_run) = [m]" by (cases "fst (snd example_pm_run)") auto
  have "path_name ''/p.yml'' = ''p.yml''" by code_simp
  then have "env_ok_text example_pm_env example_pm_route example_pm_executor"
    by (simp add: env_ok_text_def ellipsis_ok_def example_pm_env_def example_pm_route_def or_empty_def
        not_unsafe_iff code_point_def)
  moreover have "reader_named example_pm_env" by (simp add: reader_named_def example_pm_env_def)
  ultimately show ?thesis
    using approval_email_unforgeable [OF example_pm_eq [unfolded m]] m by (simp add: example_draw_def)
qed

end
