(* ===== verification/RegistryTools.thy ===== *)
theory RegistryTools
  imports RegistryExamples DeletionGate Hardware IntakeFetch
begin

text \<open>
  The registry, hardware, linking and event tools (\<open>tools/registry.py\<close>,
  \<open>tools/hardware.py\<close>, \<open>tools/linking.py\<close>, \<open>tools/events.py\<close>). The state is the two
  registries and the table of delete challenges. Replies are the data of the JSON the tools return, prompts and instructions left
  out; what a request draws at random is an argument.
\<close>

section \<open>State and replies\<close>

record tool_world =
  tw_registry :: registry
  tw_hardware :: hardware
  tw_challenges :: deletion_table

datatype tool_reply =
    Tool_service service
  | Tool_services "service list"
  | Tool_node hardware_node
  | Tool_nodes "hardware_node list"
  | Tool_duplicate pystr
  | Tool_not_found pystr
  | Tool_invalid pystr
  | Tool_challenge pending_deletion
  | Tool_gate_error deletion_error
  | Tool_gone pystr
  | Tool_deleted pystr pystr
  | Tool_linked pystr pystr

text \<open>What one request draws: the clock, the row id, the two summands.\<close>

record tool_draw =
  td_now :: instant
  td_id :: pystr
  td_x :: int
  td_y :: int

section \<open>Service tools\<close>

record service_form =
  sf_name :: pystr
  sf_display_name :: pystr
  sf_category :: category
  sf_host :: "pystr option"
  sf_urls :: "pystr list option"
  sf_traefik_router :: "pystr option"
  sf_authentik_app_slug :: "pystr option"
  sf_auth_mode :: auth_mode
  sf_tags :: "pystr list option"
  sf_notes :: pystr

definition or_nil :: "'a list option \<Rightarrow> 'a list" where
  "or_nil v = (case v of None \<Rightarrow> [] | Some xs \<Rightarrow> xs)"

definition form_service :: "service_form \<Rightarrow> service" where
  "form_service f =
     (new_service [] (sf_name f) (sf_display_name f) 0)
       \<lparr>svc_category := sf_category f, svc_host := sf_host f, svc_urls := or_nil (sf_urls f),
        svc_traefik_router := sf_traefik_router f, svc_authentik_app_slug := sf_authentik_app_slug f,
        svc_auth_mode := sf_auth_mode f, svc_tags := or_nil (sf_tags f), svc_notes := sf_notes f,
        svc_manual := True\<rparr>"

definition registry_add_service :: "env \<Rightarrow> service_form \<Rightarrow> tool_world \<Rightarrow> tool_world \<times> tool_reply" where
  "registry_add_service e f w =
     (case create_service e (form_service f) ''manual:registry_add_service'' (tw_registry w) of
        (rg, Inl (Duplicate_service n)) \<Rightarrow> (w\<lparr>tw_registry := rg\<rparr>, Tool_duplicate n)
      | (rg, Inr s) \<Rightarrow> (w\<lparr>tw_registry := rg\<rparr>, Tool_service s))"

definition registry_get_service :: "pystr \<Rightarrow> tool_world \<Rightarrow> tool_reply" where
  "registry_get_service id_or_name w =
     (case get_service id_or_name (tw_registry w) of
        None \<Rightarrow> Tool_not_found id_or_name | Some s \<Rightarrow> Tool_service s)"

definition registry_list_services ::
  "category option \<Rightarrow> pystr option \<Rightarrow> pystr option \<Rightarrow> tool_world \<Rightarrow> tool_reply" where
  "registry_list_services cat host tag w = Tool_services (list_services cat host tag (tw_registry w))"

record service_patch =
  sp_display_name :: "pystr option"
  sp_category :: "category option"
  sp_host :: "pystr option"
  sp_urls :: "pystr list option"
  sp_traefik_router :: "pystr option"
  sp_authentik_app_slug :: "pystr option"
  sp_auth_mode :: "auth_mode option"
  sp_tags :: "pystr list option"
  sp_notes :: "pystr option"

definition patch_field :: "('a \<Rightarrow> field_update) \<Rightarrow> pystr \<Rightarrow> 'a option \<Rightarrow> field_update" where
  "patch_field f name v = (case v of None \<Rightarrow> Upd_none name | Some x \<Rightarrow> f x)"

definition patch_updates :: "service_patch \<Rightarrow> field_update list" where
  "patch_updates p =
     [patch_field Upd_display_name ''display_name'' (sp_display_name p),
      patch_field Upd_category ''category'' (sp_category p),
      patch_field Upd_host ''host'' (sp_host p),
      patch_field Upd_urls ''urls'' (sp_urls p),
      patch_field Upd_traefik_router ''traefik_router'' (sp_traefik_router p),
      patch_field Upd_authentik_app_slug ''authentik_app_slug'' (sp_authentik_app_slug p),
      patch_field Upd_auth_mode ''auth_mode'' (sp_auth_mode p),
      patch_field Upd_tags ''tags'' (sp_tags p),
      patch_field Upd_notes ''notes'' (sp_notes p)]"

definition update_reply :: "pystr \<Rightarrow> registry \<times> service option \<Rightarrow> tool_world \<Rightarrow> tool_world \<times> tool_reply" where
  "update_reply i r w =
     (w\<lparr>tw_registry := fst r\<rparr>, case snd r of None \<Rightarrow> Tool_not_found i | Some s \<Rightarrow> Tool_service s)"

definition registry_update_service ::
  "env \<Rightarrow> pystr \<Rightarrow> service_patch \<Rightarrow> tool_world \<Rightarrow> tool_world \<times> tool_reply" where
  "registry_update_service e i p w =
     update_reply i (update_service e i (patch_updates p) ''manual:registry_update_service'' (tw_registry w)) w"

text \<open>\<open>deletion_gate.request\<close> in front of a delete; a duplicate row id raises.\<close>

definition ask_delete ::
  "tool_draw \<Rightarrow> int \<Rightarrow> deletion_entity_type \<Rightarrow> pystr \<Rightarrow> pystr \<Rightarrow> pystr \<Rightarrow> tool_world
     \<Rightarrow> tool_world \<times> tool_reply" where
  "ask_delete d ttl ty i label actor w =
     (case deletion_request (td_now d) (td_id d) (td_x d) (td_y d) ty i label actor ttl (tw_challenges w) of
        (t, Inl err) \<Rightarrow> (w\<lparr>tw_challenges := t\<rparr>, Tool_gate_error err)
      | (t, Inr c) \<Rightarrow> (w\<lparr>tw_challenges := t\<rparr>, Tool_challenge c))"

definition registry_delete_service ::
  "tool_draw \<Rightarrow> int \<Rightarrow> pystr \<Rightarrow> tool_world \<Rightarrow> tool_world \<times> tool_reply" where
  "registry_delete_service d ttl i w =
     (case get_service i (tw_registry w) of
        None \<Rightarrow> (w, Tool_not_found i)
      | Some s \<Rightarrow>
          ask_delete d ttl Entity_service (svc_id s) (svc_name s) ''manual:registry_delete_service'' w)"

definition registry_delete_service_confirm ::
  "env \<Rightarrow> instant \<Rightarrow> pystr \<Rightarrow> int \<Rightarrow> tool_world \<Rightarrow> tool_world \<times> tool_reply" where
  "registry_delete_service_confirm e now request_id answer w =
     (case deletion_confirm now request_id Entity_service answer (tw_challenges w) of
        (t, Inl err) \<Rightarrow> (w\<lparr>tw_challenges := t\<rparr>, Tool_gate_error err)
      | (t, Inr c) \<Rightarrow>
          (let (rg, deleted) = delete_service e (pd_entity_id c) ''manual:registry_delete_service_confirm''
                 (tw_registry w)
           in (w\<lparr>tw_challenges := t, tw_registry := rg\<rparr>,
               if deleted then Tool_deleted (pd_entity_id c) (pd_entity_label c)
               else Tool_gone (pd_entity_id c))))"

text \<open>The index resource: one summary per service.\<close>

definition services_index :: "tool_world \<Rightarrow> (pystr \<times> pystr \<times> pystr \<times> pystr \<times> pystr option) list" where
  "services_index w =
     map (\<lambda>s. (svc_id s, svc_name s, svc_display_name s, category_value (svc_category s), svc_host s))
       (rg_services (tw_registry w))"

section \<open>Hardware tools\<close>

definition hardware_add_node ::
  "env \<Rightarrow> pystr \<Rightarrow> pystr \<Rightarrow> pystr \<Rightarrow> pystr option \<Rightarrow> pystr \<Rightarrow> pystr list option \<Rightarrow> tool_world
     \<Rightarrow> tool_world \<times> tool_reply" where
  "hardware_add_node e hostname display_name role ip notes tags w =
     (case node_role_of role of
        None \<Rightarrow> (w, Tool_invalid role)
      | Some r \<Rightarrow>
          (case create_node e ((new_node hostname display_name)\<lparr>hn_role := r, hn_ip_address := ip,
                  hn_notes := notes, hn_tags := or_nil tags\<rparr>) ''manual'' (tw_hardware w) of
             (hw, Inl (Duplicate_node n)) \<Rightarrow> (w\<lparr>tw_hardware := hw\<rparr>, Tool_duplicate n)
           | (hw, Inl (Invalid_value f)) \<Rightarrow> (w\<lparr>tw_hardware := hw\<rparr>, Tool_invalid f)
           | (hw, Inr n) \<Rightarrow> (w\<lparr>tw_hardware := hw\<rparr>, Tool_node n)))"

definition hardware_get_node :: "pystr \<Rightarrow> tool_world \<Rightarrow> tool_reply" where
  "hardware_get_node i w =
     (case get_node i (tw_hardware w) of None \<Rightarrow> Tool_not_found i | Some n \<Rightarrow> Tool_node n)"

definition hardware_list_nodes ::
  "pystr option \<Rightarrow> pystr option \<Rightarrow> pystr option \<Rightarrow> tool_world \<Rightarrow> tool_reply" where
  "hardware_list_nodes role st tag w = Tool_nodes (list_nodes role st tag (tw_hardware w))"

definition hardware_update_node ::
  "env \<Rightarrow> printer \<Rightarrow> pystr \<Rightarrow> node_update list \<Rightarrow> tool_world \<Rightarrow> tool_world \<times> tool_reply" where
  "hardware_update_node e pn i us w =
     (case update_node e pn i us ''manual'' (tw_hardware w) of
        (hw, Inl (Duplicate_node n)) \<Rightarrow> (w\<lparr>tw_hardware := hw\<rparr>, Tool_duplicate n)
      | (hw, Inl (Invalid_value f)) \<Rightarrow> (w\<lparr>tw_hardware := hw\<rparr>, Tool_invalid f)
      | (hw, Inr None) \<Rightarrow> (w\<lparr>tw_hardware := hw\<rparr>, Tool_not_found i)
      | (hw, Inr (Some n)) \<Rightarrow> (w\<lparr>tw_hardware := hw\<rparr>, Tool_node n))"

definition hardware_delete_node ::
  "tool_draw \<Rightarrow> int \<Rightarrow> pystr \<Rightarrow> tool_world \<Rightarrow> tool_world \<times> tool_reply" where
  "hardware_delete_node d ttl i w =
     (case get_node i (tw_hardware w) of
        None \<Rightarrow> (w, Tool_not_found i)
      | Some n \<Rightarrow>
          ask_delete d ttl Entity_hardware_node (hn_id n) (hn_hostname n) ''manual:hardware-delete-node'' w)"

definition hardware_delete_node_confirm ::
  "env \<Rightarrow> instant \<Rightarrow> pystr \<Rightarrow> int \<Rightarrow> tool_world \<Rightarrow> tool_world \<times> tool_reply" where
  "hardware_delete_node_confirm e now request_id answer w =
     (case deletion_confirm now request_id Entity_hardware_node answer (tw_challenges w) of
        (t, Inl err) \<Rightarrow> (w\<lparr>tw_challenges := t\<rparr>, Tool_gate_error err)
      | (t, Inr c) \<Rightarrow>
          (let (hw, deleted) = delete_node e (pd_entity_id c) ''manual:hardware-delete-node-confirm''
                 (tw_hardware w)
           in (w\<lparr>tw_challenges := t, tw_hardware := hw\<rparr>,
               if deleted then Tool_deleted (pd_entity_id c) (pd_entity_label c)
               else Tool_gone (pd_entity_id c))))"

definition hardware_link_service :: "pystr \<Rightarrow> pystr \<Rightarrow> tool_world \<Rightarrow> tool_world \<times> tool_reply" where
  "hardware_link_service service_id node_id w =
     (let (rg, ok) = link_service service_id node_id True (tw_hardware w) (tw_registry w)
      in (w\<lparr>tw_registry := rg\<rparr>, if ok then Tool_linked service_id node_id else Tool_not_found service_id))"

text \<open>\<open>summarize_discovery_status\<close>; \<open>>\<close> between a naive and an aware datetime raises (\<open>None\<close>).\<close>

definition later :: "datetime option \<Rightarrow> datetime option \<Rightarrow> datetime option option" where
  "later v best =
     (case v of
        None \<Rightarrow> Some best
      | Some d \<Rightarrow>
          (case best of
             None \<Rightarrow> Some (Some d)
           | Some b \<Rightarrow> map_option (\<lambda>less. if less then Some d else best) (dt_less b d)))"

fun latest :: "datetime option list \<Rightarrow> datetime option \<Rightarrow> datetime option option" where
  "latest [] best = Some best"
| "latest (v # vs) best = (case later v best of None \<Rightarrow> None | Some b \<Rightarrow> latest vs b)"

record discovery_summary =
  ds_total :: nat
  ds_by_status :: "(pystr \<times> nat) list"
  ds_last_confirmed :: "datetime option"
  ds_last_seen :: "datetime option"

definition count_status :: "hardware_node list \<Rightarrow> (pystr \<times> nat) list" where
  "count_status nodes =
     map (\<lambda>k. (k, length (filter (\<lambda>n. node_status_value (hn_status n) = k) nodes)))
       (from_keys (map (\<lambda>n. node_status_value (hn_status n)) nodes))"

definition summarize_discovery_status :: "hardware_node list \<Rightarrow> discovery_summary option" where
  "summarize_discovery_status nodes =
     (case (latest (map hn_last_confirmed_at nodes) None, latest (map hn_last_seen_at nodes) None) of
        (Some c, Some s) \<Rightarrow>
          Some \<lparr>ds_total = length nodes, ds_by_status = count_status nodes,
                ds_last_confirmed = c, ds_last_seen = s\<rparr>
      | _ \<Rightarrow> None)"

section \<open>Linking and events\<close>

definition service_link_authentik :: "env \<Rightarrow> pystr \<Rightarrow> pystr \<Rightarrow> tool_world \<Rightarrow> tool_world \<times> tool_reply" where
  "service_link_authentik e i slug w =
     update_reply i
       (update_service e i [Upd_authentik_app_slug slug, Upd_authentik_link_manual True]
          ''manual:service_link_authentik'' (tw_registry w)) w"

text \<open>What the two clients answer; \<open>None\<close> stands for a source that is not configured.\<close>

datatype source_answer = Source_json json | Source_error pystr | Source_unconfigured

record full_context =
  fc_service :: service
  fc_router :: "source_answer option"
  fc_application :: "source_answer option"
  fc_node :: "hardware_node option"
  fc_events :: "change_event list"

definition service_get_full_context ::
  "(pystr \<Rightarrow> source_answer) \<Rightarrow> (pystr \<Rightarrow> source_answer) \<Rightarrow> bool \<Rightarrow> pystr \<Rightarrow> tool_world
     \<Rightarrow> full_context option" where
  "service_get_full_context router app has_hardware i w =
     (case get_service i (tw_registry w) of
        None \<Rightarrow> None
      | Some s \<Rightarrow>
          Some \<lparr>fc_service = s,
            fc_router = (if truthy (svc_traefik_router s) then Some (router (the (svc_traefik_router s))) else None),
            fc_application =
              (if truthy (svc_authentik_app_slug s) then Some (app (the (svc_authentik_app_slug s))) else None),
            fc_node = (if has_hardware \<and> truthy (svc_hardware_node_id s)
                       then get_node (the (svc_hardware_node_id s)) (tw_hardware w) else None),
            fc_events = list_change_events (Some (svc_id s)) 20 (tw_registry w)\<rparr>)"

text \<open>The event queries; pydantic rejects a limit outside 1 to 1000 (\<open>None\<close>).\<close>

definition event_limit_ok :: "int \<Rightarrow> bool" where
  "event_limit_ok n \<longleftrightarrow> 1 \<le> n \<and> n \<le> 1000"

definition events_list_changes :: "pystr option \<Rightarrow> int \<Rightarrow> tool_world \<Rightarrow> change_event list option" where
  "events_list_changes i limit w =
     (if event_limit_ok limit then Some (list_change_events i limit (tw_registry w)) else None)"

definition events_list_discoveries ::
  "source_type option \<Rightarrow> int \<Rightarrow> tool_world \<Rightarrow> discovery_event list option" where
  "events_list_discoveries source limit w =
     (if event_limit_ok limit then Some (list_discovery_events source limit (tw_registry w)) else None)"

end
