(* ===== verification/RegistryToolProps.thy ===== *)
theory RegistryToolProps
  imports RegistryTools RegistryProps
begin

text \<open>
  What holds of the registry tools: nothing is deleted without the right answer to a challenge
  asked for it, and a link set by hand survives every discovery pass.
\<close>

section \<open>The tools as a machine\<close>

datatype tool_op =
    T_add service_form
  | T_update pystr service_patch
  | T_link_authentik pystr pystr
  | T_delete tool_draw pystr
  | T_delete_confirm instant pystr int
  | T_add_node pystr pystr pystr "pystr option" pystr "pystr list option"
  | T_update_node pystr "node_update list"
  | T_link_node pystr pystr
  | T_delete_node tool_draw pystr
  | T_delete_node_confirm instant pystr int
  | T_purge instant

fun tool_step :: "env \<Rightarrow> printer \<Rightarrow> int \<Rightarrow> tool_op \<Rightarrow> tool_world \<Rightarrow> tool_world \<times> tool_reply option" where
  "tool_step e pn ttl (T_add f) w = map_prod id Some (registry_add_service e f w)"
| "tool_step e pn ttl (T_update i p) w = map_prod id Some (registry_update_service e i p w)"
| "tool_step e pn ttl (T_link_authentik i slug) w = map_prod id Some (service_link_authentik e i slug w)"
| "tool_step e pn ttl (T_delete d i) w = map_prod id Some (registry_delete_service d ttl i w)"
| "tool_step e pn ttl (T_delete_confirm now r a) w =
     map_prod id Some (registry_delete_service_confirm e now r a w)"
| "tool_step e pn ttl (T_add_node h n r ip remarks tags) w =
     map_prod id Some (hardware_add_node e h n r ip remarks tags w)"
| "tool_step e pn ttl (T_update_node i us) w = map_prod id Some (hardware_update_node e pn i us w)"
| "tool_step e pn ttl (T_link_node i n) w = map_prod id Some (hardware_link_service i n w)"
| "tool_step e pn ttl (T_delete_node d i) w = map_prod id Some (hardware_delete_node d ttl i w)"
| "tool_step e pn ttl (T_delete_node_confirm now r a) w =
     map_prod id Some (hardware_delete_node_confirm e now r a w)"
| "tool_step e pn ttl (T_purge now) w =
     (w\<lparr>tw_challenges := fst (deletion_purge_expired now (tw_challenges w))\<rparr>, None)"

text \<open>The call that deleted the entity challenge \<open>k\<close> was asked for.\<close>

fun tool_wins :: "tool_op \<Rightarrow> tool_reply option \<Rightarrow> pystr \<Rightarrow> bool" where
  "tool_wins (T_delete_confirm now r a) (Some (Tool_deleted i l)) k = (r = k)"
| "tool_wins (T_delete_node_confirm now r a) (Some (Tool_deleted i l)) k = (r = k)"
| "tool_wins op r k = False"

section \<open>Lemmas\<close>

lemma ids_put_service: "(\<And>s. svc_id (f s) = svc_id s) \<Longrightarrow>
    svc_id ` set (rg_services (put_service i f rg)) = svc_id ` set (rg_services rg)"
  by (simp add: put_row_ids)

lemma ids_update_step: "svc_id ` set (rg_services (update_step e i a u rg)) = svc_id ` set (rg_services rg)"
  by (simp add: update_step_def put_row_ids split: option.split)

lemma ids_update_fold:
  "svc_id ` set (rg_services (fold (update_step e i a) us rg)) = svc_id ` set (rg_services rg)"
  by (induction us arbitrary: rg) (simp_all add: ids_update_step)

lemma ids_update_service:
  "svc_id ` set (rg_services (fst (update_service e i us a rg))) = svc_id ` set (rg_services rg)"
  by (simp add: update_service_def Let_def put_row_ids ids_update_fold split: option.split)

lemma services_create:
  "set (rg_services rg) \<subseteq> set (rg_services (fst (create_service e s a rg)))"
  by (auto simp: create_service_def Let_def add_service_def)

lemma ids_link:
  "svc_id ` set (rg_services (fst (link_service s n m hw rg))) = svc_id ` set (rg_services rg)"
  by (simp add: link_service_def put_row_ids)

lemma ids_delete_service:
  "svc_id ` set (rg_services (fst (delete_service e i a rg))) = svc_id ` set (rg_services rg) - {i}"
  by (auto simp: delete_service_def Let_def drop_rows_def get_row_None_iff split: option.split)

lemma nodes_create: "set (hw_nodes hw) \<subseteq> set (hw_nodes (fst (create_node e n a hw)))"
  by (auto simp: create_node_def Let_def)

lemma nodes_created: "create_node e n a hw = (hw', r) \<Longrightarrow> set (hw_nodes hw) \<subseteq> set (hw_nodes hw')"
  using nodes_create [of hw e n a] by simp

lemma ids_put_node:
  assumes "hn_id m = k"
  shows "hn_id ` set (put_row hn_id k (\<lambda>_. m) ns) = hn_id ` set ns"
proof -
  have "map hn_id (put_row hn_id k (\<lambda>_. m) ns) = map hn_id ns"
    using assms by (induction ns) (auto simp: put_row_def)
  then show ?thesis by (metis list.set_map)
qed

lemma ids_update_node:
  "hn_id ` set (hw_nodes (fst (update_node e pn i us a hw))) = hn_id ` set (hw_nodes hw)"
  by (simp add: update_node_def Let_def case_prod_beta ids_put_node split: option.split)

lemma ids_updated:
  "update_node e pn i us a hw = (hw', r) \<Longrightarrow> hn_id ` set (hw_nodes hw') = hn_id ` set (hw_nodes hw)"
  using ids_update_node [of e pn i us a hw] by simp

lemma ids_delete_node:
  "k \<in> hn_id ` set (hw_nodes hw) \<Longrightarrow> k \<notin> hn_id ` set (hw_nodes (fst (delete_node e i a hw))) \<Longrightarrow>
     \<exists>n. get_node i hw = Some n \<and> hn_id n = k"
  by (fastforce simp: delete_node_def Let_def drop_rows_def split: option.splits)

text \<open>What a tool does to the two registries, when it is not a confirmed delete.\<close>

lemma ask_delete_keeps:
  "tw_registry (fst (ask_delete d ttl ty i l a w)) = tw_registry w"
  "tw_hardware (fst (ask_delete d ttl ty i l a w)) = tw_hardware w"
  by (simp_all add: ask_delete_def split: prod.split sum.split)

lemma get_node_key: "get_node i hw = Some n \<Longrightarrow> i \<in> {hn_id n, hn_hostname n}"
  by (auto simp: get_node_def find_Some_iff dest: get_row_SomeD split: option.splits)

text \<open>A confirmed challenge: it was pending, of this kind, not expired, and the answer was right.\<close>

definition answered :: "instant \<Rightarrow> pystr \<Rightarrow> deletion_entity_type \<Rightarrow> int \<Rightarrow> deletion_table \<Rightarrow> pending_deletion \<Rightarrow> bool" where
  "answered now r ty ans t c \<longleftrightarrow>
     get_row pd_id t r = Some c \<and> pd_entity_type c = ty \<and> pd_status c = Deletion_pending \<and>
     now \<le> instant_of (pd_expires_at c) \<and> ans = pd_x c + pd_y c"

lemma confirm_service_cases:
  obtains (refused) t err where "registry_delete_service_confirm e now r ans w = (w\<lparr>tw_challenges := t\<rparr>, Tool_gate_error err)"
    | (confirmed) c rg deleted where "answered now r Entity_service ans (tw_challenges w) c"
      "delete_service e (pd_entity_id c) ''manual:registry_delete_service_confirm'' (tw_registry w) = (rg, deleted)"
      "registry_delete_service_confirm e now r ans w =
         (w\<lparr>tw_challenges := deletion_set_status r Deletion_confirmed (tw_challenges w), tw_registry := rg\<rparr>,
          if deleted then Tool_deleted (pd_entity_id c) (pd_entity_label c) else Tool_gone (pd_entity_id c))"
proof -
  obtain t res where d: "deletion_confirm now r Entity_service ans (tw_challenges w) = (t, res)" by fastforce
  show thesis
  proof (cases res)
    case (Inl err)
    then show ?thesis using refused d by (simp add: registry_delete_service_confirm_def)
  next
    case (Inr c)
    then obtain c0 where c0: "answered now r Entity_service ans (tw_challenges w) c0"
      "c = c0\<lparr>pd_status := Deletion_confirmed\<rparr>" "t = deletion_set_status r Deletion_confirmed (tw_challenges w)"
      using d by (auto simp: deletion_confirm_Inr answered_def)
    obtain rg deleted where "delete_service e (pd_entity_id c0) ''manual:registry_delete_service_confirm'' (tw_registry w) = (rg, deleted)"
      by fastforce
    then show ?thesis
      using confirmed [OF c0(1)] d Inr c0 by (simp add: registry_delete_service_confirm_def)
  qed
qed

lemma confirm_node_cases:
  obtains (refused) t err where "hardware_delete_node_confirm e now r ans w = (w\<lparr>tw_challenges := t\<rparr>, Tool_gate_error err)"
    | (confirmed) c hw deleted where "answered now r Entity_hardware_node ans (tw_challenges w) c"
      "delete_node e (pd_entity_id c) ''manual:hardware-delete-node-confirm'' (tw_hardware w) = (hw, deleted)"
      "hardware_delete_node_confirm e now r ans w =
         (w\<lparr>tw_challenges := deletion_set_status r Deletion_confirmed (tw_challenges w), tw_hardware := hw\<rparr>,
          if deleted then Tool_deleted (pd_entity_id c) (pd_entity_label c) else Tool_gone (pd_entity_id c))"
proof -
  obtain t res where d: "deletion_confirm now r Entity_hardware_node ans (tw_challenges w) = (t, res)" by fastforce
  show thesis
  proof (cases res)
    case (Inl err)
    then show ?thesis using refused d by (simp add: hardware_delete_node_confirm_def)
  next
    case (Inr c)
    then obtain c0 where c0: "answered now r Entity_hardware_node ans (tw_challenges w) c0"
      "c = c0\<lparr>pd_status := Deletion_confirmed\<rparr>" "t = deletion_set_status r Deletion_confirmed (tw_challenges w)"
      using d by (auto simp: deletion_confirm_Inr answered_def)
    obtain hw deleted where "delete_node e (pd_entity_id c0) ''manual:hardware-delete-node-confirm'' (tw_hardware w) = (hw, deleted)"
      by fastforce
    then show ?thesis
      using confirmed [OF c0(1)] d Inr c0 by (simp add: hardware_delete_node_confirm_def)
  qed
qed

lemma other_tools_keep:
  assumes "\<And>now r a. op \<noteq> T_delete_confirm now r a" "\<And>now r a. op \<noteq> T_delete_node_confirm now r a"
  shows "svc_id ` set (rg_services (tw_registry w)) \<subseteq>
      svc_id ` set (rg_services (tw_registry (fst (tool_step e pn ttl op w)))) \<and>
    hn_id ` set (hw_nodes (tw_hardware w)) \<subseteq>
      hn_id ` set (hw_nodes (tw_hardware (fst (tool_step e pn ttl op w))))"
proof (cases op)
  case (T_add f)
  then show ?thesis
    using services_create [of "tw_registry w" e "form_service f" "''manual:registry_add_service''"]
    by (auto simp: registry_add_service_def split: prod.split sum.split create_error.split)
next
  case (T_update i p)
  then show ?thesis
    using ids_update_service [of e i _ _ "tw_registry w"]
    by (simp add: registry_update_service_def update_reply_def)
next
  case (T_link_authentik i slug)
  then show ?thesis
    using ids_update_service [of e i _ _ "tw_registry w"]
    by (simp add: service_link_authentik_def update_reply_def)
next
  case (T_add_node h n r ip remarks tags)
  have "set (hw_nodes (tw_hardware w)) \<subseteq>
      set (hw_nodes (tw_hardware (fst (hardware_add_node e h n r ip remarks tags w))))"
    by (simp add: hardware_add_node_def split: option.split prod.split sum.split hardware_error.split)
       (blast dest: nodes_created)
  then show ?thesis using T_add_node
    by (auto simp: hardware_add_node_def split: option.split prod.split sum.split hardware_error.split)
next
  case (T_update_node i us)
  then show ?thesis
    by (cases "update_node e pn i us ''manual'' (tw_hardware w)")
       (auto simp: hardware_update_node_def dest!: ids_updated split: option.split sum.split hardware_error.split)
next
  case (T_link_node i n)
  then show ?thesis
    using ids_link [of i n True "tw_hardware w" "tw_registry w"]
    by (simp add: hardware_link_service_def case_prod_beta Let_def)
next
  case (T_delete d i)
  then show ?thesis by (simp add: registry_delete_service_def ask_delete_keeps split: option.split)
next
  case (T_delete_node d i)
  then show ?thesis by (simp add: hardware_delete_node_def ask_delete_keeps split: option.split)
qed (use assms in simp_all)

section \<open>Properties\<close>

text \<open>
  C36: Nothing leaves the registries without an answer: whatever tool is called, when a service
  or a hardware node is gone afterwards, the call was the confirm tool of that kind, with the
  right answer to a challenge that was pending and not expired and that was asked for that service (for a
  node: for its id or its host name), and the challenge is used up.
\<close>
theorem deletion_needs_answer:
  assumes "tool_step e pn ttl op w = (w', reply)"
  shows "(\<forall>s \<in> set (rg_services (tw_registry w)). svc_id s \<notin> svc_id ` set (rg_services (tw_registry w')) \<longrightarrow>
      (\<exists>now r ans c. op = T_delete_confirm now r ans \<and> answered now r Entity_service ans (tw_challenges w) c \<and>
         pd_entity_id c = svc_id s \<and>
         get_row pd_id (tw_challenges w') r = Some (c\<lparr>pd_status := Deletion_confirmed\<rparr>))) \<and>
    (\<forall>k \<in> hn_id ` set (hw_nodes (tw_hardware w)). k \<notin> hn_id ` set (hw_nodes (tw_hardware w')) \<longrightarrow>
      (\<exists>now r ans c n. op = T_delete_node_confirm now r ans \<and> answered now r Entity_hardware_node ans (tw_challenges w) c \<and>
         n \<in> set (hw_nodes (tw_hardware w)) \<and> hn_id n = k \<and> pd_entity_id c \<in> {hn_id n, hn_hostname n} \<and>
         get_row pd_id (tw_challenges w') r = Some (c\<lparr>pd_status := Deletion_confirmed\<rparr>)))"
proof (cases "\<exists>now r ans. op = T_delete_confirm now r ans \<or> op = T_delete_node_confirm now r ans")
  case False
  then have "svc_id ` set (rg_services (tw_registry w)) \<subseteq> svc_id ` set (rg_services (tw_registry w')) \<and>
      hn_id ` set (hw_nodes (tw_hardware w)) \<subseteq> hn_id ` set (hw_nodes (tw_hardware w'))"
    using other_tools_keep [of op w e pn ttl] assms by fastforce
  then show ?thesis by blast
next
  case True
  then obtain now r ans where "op = T_delete_confirm now r ans \<or> op = T_delete_node_confirm now r ans" by blast
  then show ?thesis
  proof
    assume op: "op = T_delete_confirm now r ans"
    show ?thesis
    proof (cases rule: confirm_service_cases [of e now r ans w])
      case (refused t err)
      then show ?thesis using assms op by auto
    next
      case (confirmed c rg deleted)
      have "get_row pd_id (tw_challenges w') r = Some (c\<lparr>pd_status := Deletion_confirmed\<rparr>)"
        using confirmed(1,3) assms op by (auto simp: answered_def)
      moreover have "tw_registry w' = rg" using confirmed(3) assms op by auto
      then have "svc_id ` set (rg_services (tw_registry w')) = svc_id ` set (rg_services (tw_registry w)) - {pd_entity_id c}"
        using ids_delete_service [of e "pd_entity_id c" "''manual:registry_delete_service_confirm''" "tw_registry w"]
        by (simp add: confirmed(2))
      moreover have "tw_hardware w' = tw_hardware w" using confirmed(3) assms op by auto
      ultimately show ?thesis using confirmed(1) op by auto
    qed
  next
    assume op: "op = T_delete_node_confirm now r ans"
    show ?thesis
    proof (cases rule: confirm_node_cases [of e now r ans w])
      case (refused t err)
      then show ?thesis using assms op by auto
    next
      case (confirmed c hw deleted)
      have row: "get_row pd_id (tw_challenges w') r = Some (c\<lparr>pd_status := Deletion_confirmed\<rparr>)"
        using confirmed(1,3) assms op by (auto simp: answered_def)
      have hw: "tw_hardware w' = hw" "tw_registry w' = tw_registry w" using confirmed(3) assms op by auto
      have "\<exists>n. n \<in> set (hw_nodes (tw_hardware w)) \<and> hn_id n = k \<and> pd_entity_id c \<in> {hn_id n, hn_hostname n}"
        if k: "k \<in> hn_id ` set (hw_nodes (tw_hardware w))" "k \<notin> hn_id ` set (hw_nodes hw)" for k
      proof -
        obtain n where n: "get_node (pd_entity_id c) (tw_hardware w) = Some n" "hn_id n = k"
          using ids_delete_node [OF k(1), of e "pd_entity_id c"] k(2) confirmed(2) by (metis fst_conv)
        then show ?thesis using get_node_in [OF n(1)] get_node_key [OF n(1)] by blast
      qed
      then show ?thesis using row hw confirmed(1) op by simp blast
    qed
  qed
qed

section \<open>Links set by hand\<close>

text \<open>A discovery pass: its reasoning, source, items, threshold and time. A pass that raises changes nothing.\<close>

type_synonym discovery_input = "reasoning \<times> source_type \<times> discovered list \<times> int \<times> instant"

fun pass_once :: "env \<Rightarrow> (pystr \<Rightarrow> bool) \<Rightarrow> discovery_input \<Rightarrow> registry \<Rightarrow> registry" where
  "pass_once e bok (rs, source, ds, th, now) rg =
     (case reconcile e bok rs source ds th now rg of None \<Rightarrow> rg | Some (rg', c) \<Rightarrow> rg')"

definition linked :: "pystr \<Rightarrow> pystr \<Rightarrow> registry \<Rightarrow> bool" where
  "linked i slug rg \<longleftrightarrow>
     (\<exists>s \<in> set (rg_services rg). svc_id s = i \<and> svc_authentik_app_slug s = Some slug \<and> svc_authentik_link_manual s)"

lemma linked_follows: "follows a rg rg' \<Longrightarrow> linked i slug rg \<Longrightarrow> linked i slug rg'"
  unfolding linked_def follows_def service_follows_def curated_def
  by (force dest: list_all2_memD)

lemma pass_once_keeps:
  assumes "env_ok e" "resolver_ok (fst p)" "reg_ok e rg" "linked i slug rg"
  shows "reg_ok e (pass_once e bok p rg) \<and> linked i slug (pass_once e bok p rg)"
proof (cases p)
  case (fields rs source ds th now)
  show ?thesis
  proof (cases "reconcile e bok rs source ds th now rg")
    case (Some x)
    then obtain rg' c where r: "reconcile e bok rs source ds th now rg = Some (rg', c)" by (cases x) auto
    show ?thesis
      using reconcile_ok [OF r assms(1) _ assms(3)] assms(2,4) linked_follows by (auto simp: fields r)
  qed (use assms in \<open>simp add: fields\<close>)
qed

lemma passes_keep:
  "env_ok e \<Longrightarrow> list_all (resolver_ok \<circ> fst) ps \<Longrightarrow> reg_ok e rg \<Longrightarrow> linked i slug rg \<Longrightarrow>
     linked i slug (fold (pass_once e bok) ps rg)"
proof (induction ps arbitrary: rg)
  case (Cons p ps)
  then show ?case using pass_once_keeps [of e p rg i slug bok] by simp
qed simp

text \<open>
  A link set by hand stays: after \<open>service_link_authentik\<close> set a service's slug, no
  sequence of discovery passes, of any source and with any items, replaces it.
\<close>
theorem manual_link_pinned:
  assumes "inj (env_uuid e)" "reg_ok e (tw_registry w)" "list_all (resolver_ok \<circ> fst) passes"
    and "service_link_authentik e i slug w = (w', Tool_service s)"
  shows "linked i slug (fold (pass_once e bok) passes (tw_registry w'))"
proof -
  let ?us = "[Upd_authentik_app_slug slug, Upd_authentik_link_manual True]"
  obtain rg' r where ur: "update_service e i ?us ''manual:service_link_authentik'' (tw_registry w) = (rg', r)"
    by fastforce
  then have u: "update_service e i ?us ''manual:service_link_authentik'' (tw_registry w) = (rg', Some s)"
    and rg': "tw_registry w' = rg'"
    using assms(4) by (auto simp: service_link_authentik_def update_reply_def split: option.splits)
  obtain s0 where s0: "get_row svc_id (rg_services (tw_registry w)) i = Some s0"
    using u by (auto simp: update_service_def split: option.splits)
  have "get_row svc_id (rg_services rg') i = Some s" "\<exists>t. s = (apply_updates ?us s0)\<lparr>svc_updated_at := t\<rparr>"
    using update_service_exact [OF reg_okD(1) [OF assms(2)] s0 u] by auto
  then have "linked i slug rg'"
    using get_row_SomeD [of svc_id "rg_services rg'" i s] by (auto simp: linked_def apply_updates_def)
  moreover have "reg_ok e rg'"
    using reg_ok_update_service [OF _ assms(2), of i ?us "''manual:service_link_authentik''"] assms(1) u
    by (simp add: env_ok_def)
  ultimately show ?thesis
    using passes_keep [of e passes] assms(1,3) rg' by (simp add: env_ok_def)
qed

section \<open>Witnesses\<close>

definition example_tools :: tool_world where
  "example_tools =
     \<lparr>tw_registry = example_registry, tw_hardware = no_hardware,
      tw_challenges = [\<lparr>pd_id = ''q'', pd_entity_type = Entity_service,
        pd_entity_id = svc_id (hd (rg_services example_registry)), pd_entity_label = ''web'', pd_x = 2, pd_y = 3,
        pd_status = Deletion_pending, pd_actor = [], pd_created_at = Naive 0, pd_expires_at = Naive 9\<rparr>]\<rparr>"

theorem deletion_needs_answer_witness:
  "\<exists>c. answered 1 ''q'' Entity_service 5 (tw_challenges example_tools) c \<and>
     pd_entity_id c = svc_id (hd (rg_services example_registry))"
proof -
  let ?op = "T_delete_confirm 1 ''q'' 5"
  let ?w = "fst (tool_step example_env plain_printer 5 ?op example_tools)"
  let ?s = "hd (rg_services (tw_registry example_tools))"
  have "?s \<in> set (rg_services (tw_registry example_tools))"
    by (rule hd_in_set) code_simp
  moreover have "svc_id ?s \<notin> svc_id ` set (rg_services (tw_registry ?w))" by code_simp
  moreover note bspec [OF conjunct1 [OF deletion_needs_answer [of example_env plain_printer 5 "?op" example_tools,
    OF prod.collapse [symmetric]]], of ?s]
  ultimately show ?thesis by (auto simp: example_tools_def)
qed

theorem manual_link_pinned_witness:
  "linked (svc_id (hd (rg_services example_registry))) ''app''
     (fold (pass_once example_env (\<lambda>_. True)) [(no_reasoning, Source_traefik, [example_item], 1, 7)]
       (tw_registry (fst (service_link_authentik example_env (svc_id (hd (rg_services example_registry))) ''app'' example_tools))))"
proof -
  let ?r = "service_link_authentik example_env (svc_id (hd (rg_services example_registry))) ''app'' example_tools"
  have "case snd ?r of Tool_service s \<Rightarrow> True | _ \<Rightarrow> False" by code_simp
  then obtain s where "?r = (fst ?r, Tool_service s)" by (cases "snd ?r") (auto simp: prod_eq_iff)
  then show ?thesis
    using example_inj example_reg_ok by (intro manual_link_pinned) (auto simp: example_tools_def)
qed

end
