(* ===== verification/NormRules.thy ===== *)
theory NormRules
  imports PatchGenerator IntakeParse
begin

text \<open>
  \<open>normalization/rules.py\<close>: the equivalence guarantee of the compose normal form and the
  findings a scan reports. A \<open>yaml_lib\<close> holds what PyYAML and Python do with the values: the
  parser (\<open>None\<close>: it raised a \<open>YAMLError\<close>), \<open>str\<close> of a list or mapping, \<open>repr\<close>, and \<open>==\<close>
  where a scalar of \<open>Y_other\<close> takes part. \<open>None\<close> for a projection means that it raised a
  \<open>TypeError\<close>, iterating a value that is not iterable.
\<close>

record yaml_lib =
  yl_loads :: "pystr \<Rightarrow> yaml option"
  yl_show :: "yaml \<Rightarrow> pystr"
  yl_repr :: "yaml \<Rightarrow> pystr"
  yl_eq :: "yaml \<Rightarrow> yaml \<Rightarrow> bool"

section \<open>Equality of parsed values\<close>

fun whole_number :: "yaml \<Rightarrow> int option" where
  "whole_number (Y_bool b) = Some (if b then 1 else 0)"
| "whole_number (Y_int n) = Some n"
| "whole_number _ = None"

fun is_other :: "yaml \<Rightarrow> bool" where
  "is_other (Y_other b s) = True"
| "is_other _ = False"

text \<open>\<open>a == b\<close> on scalars: \<open>True == 1\<close>.\<close>

definition scalar_eq :: "yaml_lib \<Rightarrow> yaml \<Rightarrow> yaml \<Rightarrow> bool" where
  "scalar_eq L a b =
     (if is_other a \<or> is_other b then yl_eq L a b
      else if whole_number a \<noteq> None \<and> whole_number b \<noteq> None then whole_number a = whole_number b
      else a = b)"

text \<open>
  \<open>a == b\<close>: lists by position, dicts by key whatever their order. Keys are scalars, since
  \<open>safe_load\<close> refuses an unhashable key.
\<close>

definition dict_find :: "yaml_lib \<Rightarrow> yaml \<Rightarrow> (yaml \<times> yaml) list \<Rightarrow> yaml option" where
  "dict_find L k d = map_option snd (find (\<lambda>kv. scalar_eq L (fst kv) k) d)"

function py_eq :: "yaml_lib \<Rightarrow> yaml \<Rightarrow> yaml \<Rightarrow> bool" where
  "py_eq L (Y_list xs) b =
     (case b of
        Y_list ys \<Rightarrow> length xs = length ys \<and> (\<forall>p \<in> set (zip xs ys). py_eq L (fst p) (snd p))
      | _ \<Rightarrow> False)"
| "py_eq L (Y_map m) b =
     (case b of
        Y_map n \<Rightarrow> length m = length n \<and>
          (\<forall>kv \<in> set m. case dict_find L (fst kv) n of None \<Rightarrow> False | Some w \<Rightarrow> py_eq L (snd kv) w)
      | _ \<Rightarrow> False)"
| "py_eq L Y_null b = scalar_eq L Y_null b"
| "py_eq L (Y_bool t) b = scalar_eq L (Y_bool t) b"
| "py_eq L (Y_int i) b = scalar_eq L (Y_int i) b"
| "py_eq L (Y_str s) b = scalar_eq L (Y_str s) b"
| "py_eq L (Y_other t s) b = (case b of Y_list ys \<Rightarrow> False | Y_map n \<Rightarrow> False | _ \<Rightarrow> scalar_eq L (Y_other t s) b)"
  by pat_completeness auto
termination
proof (relation "measure (\<lambda>(L, a, b). size a)", simp, goal_cases)
  case (1 L xs b ys p)
  then have "fst p \<in> set xs" by (cases p) (auto dest: set_zip_leftD)
  then have "size (fst p) \<le> size_list size xs" by (rule size_list_estimation') simp
  then show ?case by (cases p) simp
next
  case (2 L m b n kv w)
  then have "size (snd kv) \<le> size_prod size size kv" by (cases kv) simp
  also have "\<dots> \<le> size_list (size_prod size size) m" using 2 by (auto intro: size_list_estimation')
  finally show ?case by simp
qed

section \<open>The projection\<close>

definition compose_string :: "yaml_lib \<Rightarrow> yaml \<Rightarrow> pystr" where
  "compose_string L v =
     (case v of
        Y_bool b \<Rightarrow> (if b then ''true'' else ''false'')
      | Y_null \<Rightarrow> []
      | _ \<Rightarrow> yaml_text (yl_show L) v)"

text \<open>\<open>for item in v\<close>.\<close>

definition yaml_iter :: "yaml \<Rightarrow> yaml list option" where
  "yaml_iter v =
     (case v of
        Y_list xs \<Rightarrow> Some xs
      | Y_map kvs \<Rightarrow> Some (map fst kvs)
      | Y_str s \<Rightarrow> Some (map (\<lambda>c. Y_str [c]) s)
      | _ \<Rightarrow> None)"

definition text_dict :: "(pystr \<times> yaml) list \<Rightarrow> yaml" where
  "text_dict kvs = Y_map (map (\<lambda>(k, v). (Y_str k, v)) (dict_update kvs []))"

definition labels_as_mapping :: "yaml_lib \<Rightarrow> yaml \<Rightarrow> yaml option" where
  "labels_as_mapping L v =
     (case v of
        Y_null \<Rightarrow> Some (text_dict [])
      | Y_map kvs \<Rightarrow>
          Some (text_dict (map (\<lambda>(k, w). (yaml_text (yl_show L) k, Y_str (compose_string L w))) kvs))
      | _ \<Rightarrow>
          map_option
            (\<lambda>xs. text_dict (map (\<lambda>x. case partition_at (CHR ''='') (yaml_text (yl_show L) x) of
                                     (k, sep, w) \<Rightarrow> (k, Y_str w)) xs))
            (yaml_iter v))"

definition ports_as_strings :: "yaml_lib \<Rightarrow> yaml \<Rightarrow> yaml option" where
  "ports_as_strings L v =
     (if v = Y_null then Some (Y_list [])
      else map_option
        (\<lambda>xs. Y_list (map (\<lambda>p. case p of Y_map m \<Rightarrow> p | _ \<Rightarrow> Y_str (yaml_text (yl_show L) p)) xs))
        (yaml_iter v))"

definition environment_as_mapping :: "yaml_lib \<Rightarrow> yaml \<Rightarrow> yaml option" where
  "environment_as_mapping L v =
     (case v of
        Y_null \<Rightarrow> Some (text_dict [])
      | Y_map kvs \<Rightarrow>
          Some (text_dict (map (\<lambda>(k, w). (yaml_text (yl_show L) k,
            if w = Y_null then Y_null else Y_str (compose_string L w))) kvs))
      | _ \<Rightarrow>
          map_option
            (\<lambda>xs. text_dict (map (\<lambda>x. case partition_at (CHR ''='') (yaml_text (yl_show L) x) of
                                     (k, sep, w) \<Rightarrow> (k, if sep then Y_str w else Y_null)) xs))
            (yaml_iter v))"

text \<open>\<open>if key in canon: canon[key] = f(canon[key])\<close>.\<close>

definition convert_key ::
  "pystr \<Rightarrow> (yaml \<Rightarrow> yaml option) \<Rightarrow> (yaml \<times> yaml) list \<Rightarrow> (yaml \<times> yaml) list option" where
  "convert_key key f kvs =
     (case yaml_get kvs key of
        None \<Rightarrow> Some kvs
      | Some v \<Rightarrow> map_option (\<lambda>w. dict_set (Y_str key) w kvs) (f v))"

definition canonical_service :: "yaml_lib \<Rightarrow> (yaml \<times> yaml) list \<Rightarrow> (yaml \<times> yaml) list option" where
  "canonical_service L svc =
     Option.bind (convert_key ''labels'' (labels_as_mapping L) svc)
       (\<lambda>s1. Option.bind (convert_key ''ports'' (ports_as_strings L) s1)
          (convert_key ''environment'' (environment_as_mapping L)))"

fun canonical_services ::
  "yaml_lib \<Rightarrow> (yaml \<times> yaml) list \<Rightarrow> (yaml \<times> yaml) list option" where
  "canonical_services L [] = Some []"
| "canonical_services L ((name, svc) # rest) =
     Option.bind (case svc of Y_map m \<Rightarrow> map_option Y_map (canonical_service L m) | _ \<Rightarrow> Some svc)
       (\<lambda>c. map_option (\<lambda>cs. (name, c) # cs) (canonical_services L rest))"

text \<open>The services of a compose document, or \<open>None\<close> for any other document.\<close>

definition compose_services_of :: "yaml \<Rightarrow> (yaml \<times> yaml) list option" where
  "compose_services_of doc =
     (case doc of
        Y_map kvs \<Rightarrow> (case yaml_get kvs ''services'' of Some (Y_map svcs) \<Rightarrow> Some svcs | _ \<Rightarrow> None)
      | _ \<Rightarrow> None)"

definition canonical_projection :: "yaml_lib \<Rightarrow> yaml \<Rightarrow> yaml option" where
  "canonical_projection L doc =
     (case compose_services_of doc of
        None \<Rightarrow> Some doc
      | Some svcs \<Rightarrow>
          (case doc of
             Y_map kvs \<Rightarrow>
               map_option
                 (\<lambda>cs. Y_map (dict_set (Y_str ''services'') (Y_map cs)
                    (filter (\<lambda>kv. fst kv \<noteq> Y_str ''version'') kvs)))
                 (canonical_services L svcs)
           | _ \<Rightarrow> Some doc))"

text \<open>\<open>is_equivalent\<close>; \<open>None\<close>: it raised.\<close>

definition is_equivalent :: "yaml_lib \<Rightarrow> pystr \<Rightarrow> pystr \<Rightarrow> bool option" where
  "is_equivalent L before after =
     (case (yl_loads L before, yl_loads L after) of
        (Some a, Some b) \<Rightarrow>
          (case (canonical_projection L a, canonical_projection L b) of
             (Some x, Some y) \<Rightarrow> Some (py_eq L x y)
           | _ \<Rightarrow> None)
      | _ \<Rightarrow> Some False)"

section \<open>Findings\<close>

record norm_finding =
  fi_rule :: pystr
  fi_path :: pystr
  fi_service :: "yaml option"
  fi_detail :: pystr

definition norm_finding :: "pystr \<Rightarrow> pystr \<Rightarrow> yaml option \<Rightarrow> pystr \<Rightarrow> norm_finding" where
  "norm_finding rule path service detail =
     \<lparr>fi_rule = rule, fi_path = path, fi_service = service, fi_detail = detail\<rparr>"

definition not_compose :: "pystr \<Rightarrow> pystr \<Rightarrow> norm_finding" where
  "not_compose path why = norm_finding ''R-008'' path None (''not a compose file: '' @ why)"

definition network_names :: "pystr \<Rightarrow> pystr list" where
  "network_names setting = filter (\<lambda>n. n \<noteq> []) (map strip (split_at_char (CHR '','') setting))"

definition has_pinned_tag :: "pystr \<Rightarrow> bool" where
  "has_pinned_tag img =
     (if CHR '':'' \<notin> set img then False
      else (let tag = snd (snd (rpartition_at (CHR '':'') img))
            in CHR ''/'' \<notin> set tag \<and> tag \<noteq> ''latest''))"

text \<open>\<open>_PORTS_LINE_RE.match\<close>: the length of the indent, and whether a comment follows.\<close>

definition is_blank_char :: "char \<Rightarrow> bool" where
  "is_blank_char c \<longleftrightarrow> c = CHR '' '' \<or> c = CHR 0x09"

definition ports_line :: "pystr \<Rightarrow> (nat \<times> bool) option" where
  "ports_line line =
     (let indent = takeWhile is_blank_char line;
          body = dropWhile is_blank_char line;
          after = dropWhile is_blank_char (drop 6 body)
      in if \<not> starts_with body ''ports:'' then None
         else if after = [] then Some (length indent, False)
         else if hd after = CHR ''#'' then Some (length indent, True)
         else None)"

definition line_depth :: "pystr \<Rightarrow> nat" where
  "line_depth line = length line - length (lstrip_by is_blank_char line)"

text \<open>The loop over the lines after \<open>ports:\<close>.\<close>

fun ports_explained :: "nat \<Rightarrow> bool \<Rightarrow> pystr list \<Rightarrow> bool" where
  "ports_explained indent explained [] = explained"
| "ports_explained indent explained (line # rest) =
     (if strip line = [] then ports_explained indent explained rest
      else if line_depth line < indent \<or>
              line_depth line = indent \<and> \<not> starts_with (lstrip line) ''-'' then explained
      else ports_explained indent (explained \<or> CHR ''#'' \<in> set line) rest)"

fun unexplained_from :: "pystr option \<Rightarrow> pystr list \<Rightarrow> bool" where
  "unexplained_from prev [] = False"
| "unexplained_from prev (line # rest) =
     (case ports_line line of
        None \<Rightarrow> unexplained_from (Some line) rest
      | Some (indent, comment) \<Rightarrow>
          (let above = (case prev of None \<Rightarrow> False | Some l \<Rightarrow> starts_with (lstrip l) ''#'')
           in if \<not> ports_explained indent (comment \<or> above) rest then True
              else unexplained_from (Some line) rest))"

definition ports_without_reason :: "pystr \<Rightarrow> bool" where
  "ports_without_reason raw = unexplained_from None (splitlines raw)"

text \<open>\<open>_INTERPOLATION_RE.match\<close>: the default of an interpolated name.\<close>

definition is_var_char :: "char \<Rightarrow> bool" where
  "is_var_char c \<longleftrightarrow> is_ascii_alpha c \<or> is_ascii_digit c \<or> c = CHR ''_''"

definition interpolation :: "pystr \<Rightarrow> pystr option option" where
  "interpolation name =
     (let r = drop 2 name;
          var = takeWhile is_var_char r;
          after = dropWhile is_var_char r;
          closed = (\<lambda>t. t = ''}'' \<or> t = ''}'' @ [CHR 0x0A]);
          value = (if starts_with after '':-'' then Some (drop 2 after)
                   else if starts_with after ''-'' then Some (drop 1 after) else None)
      in if \<not> starts_with name ''${'' \<or> var = [] \<or> is_ascii_digit (hd var) then None
         else case value of
           None \<Rightarrow> (if closed after then Some None else None)
         | Some v \<Rightarrow>
             (if closed (dropWhile (\<lambda>c. c \<noteq> CHR ''}'') v)
              then Some (Some (takeWhile (\<lambda>c. c \<noteq> CHR ''}'') v)) else None))"

definition network_name :: "yaml_lib \<Rightarrow> yaml \<Rightarrow> yaml \<Rightarrow> pystr option" where
  "network_name L key config =
     (let named = (case config of
                     Y_map m \<Rightarrow> (case yaml_get m ''name'' of None \<Rightarrow> key | Some v \<Rightarrow> v)
                   | _ \<Rightarrow> key);
          name = yaml_text (yl_show L) named
      in case interpolation name of Some d \<Rightarrow> d | None \<Rightarrow> Some name)"

definition is_external :: "yaml \<Rightarrow> bool" where
  "is_external config = (case config of Y_map m \<Rightarrow> yaml_true (yaml_get m ''external'') | _ \<Rightarrow> False)"

definition shared_networks_not_external :: "yaml_lib \<Rightarrow> (yaml \<times> yaml) list \<Rightarrow> pystr list \<Rightarrow> pystr list" where
  "shared_networks_not_external L doc shared =
     (case yaml_get doc ''networks'' of
        Some (Y_map nets) \<Rightarrow>
          map (\<lambda>(key, config). yaml_text (yl_show L) key)
            (filter (\<lambda>(key, config). (case network_name L key config of
                                         None \<Rightarrow> False | Some n \<Rightarrow> n \<in> set shared) \<and>
                                      \<not> is_external config) nets)
      | _ \<Rightarrow> [])"

text \<open>The value of a key, or \<open>None\<close> (for \<open>service.get(key)\<close>, absent and null are the same).\<close>

definition present :: "yaml option \<Rightarrow> yaml option" where
  "present v = (if v = Some Y_null then None else v)"

definition or_null :: "yaml option \<Rightarrow> yaml" where
  "or_null v = (case v of None \<Rightarrow> Y_null | Some x \<Rightarrow> x)"

definition check_service :: "yaml_lib \<Rightarrow> pystr \<Rightarrow> yaml \<Rightarrow> (yaml \<times> yaml) list \<Rightarrow> norm_finding list" where
  "check_service L path name service =
     (let img = present (yaml_get service ''image'');
          container = present (yaml_get service ''container_name'')
      in (if img = None \<or> \<not> has_pinned_tag (yaml_text (yl_show L) (the img))
          then [norm_finding ''R-001'' path (Some name)
                  (''image '' @ yl_repr L (or_null img) @ '' has no pinned version tag'')] else []) @
         (if yaml_get service ''build'' \<noteq> None
          then [norm_finding ''R-002'' path (Some name) ''service defines a build: key''] else []) @
         (if yaml_get service ''restart'' = None
          then [norm_finding ''R-003'' path (Some name) ''service has no restart: policy''] else []) @
         (if container \<noteq> None \<and> Y_str (yaml_text (yl_show L) (the container)) \<noteq> name
          then [norm_finding ''R-007'' path (Some name)
                  (''container_name '' @ yl_repr L (the container) @ '' differs from service key '' @
                   yl_repr L name)] else []))"

definition check_document ::
  "yaml_lib \<Rightarrow> yaml \<Rightarrow> pystr \<Rightarrow> pystr \<Rightarrow> pystr list \<Rightarrow> norm_finding list" where
  "check_document L doc raw path shared =
     (case compose_services_of doc of
        None \<Rightarrow> [not_compose path ''no top-level services: mapping'']
      | Some svcs \<Rightarrow>
          concat (map (\<lambda>(name, s). case s of Y_map m \<Rightarrow> check_service L path name m | _ \<Rightarrow> []) svcs) @
          (if ports_without_reason raw
           then [norm_finding ''R-004'' path None (''ports: mapping has no comment saying why it'' @ [CHR 0x27] @ ''s published'')]
           else []) @
          map (\<lambda>n. norm_finding ''R-005'' path None
                 (''shared network '' @ py_repr n @ '' is not declared external: true''))
            (case doc of Y_map kvs \<Rightarrow> shared_networks_not_external L kvs shared | _ \<Rightarrow> []) @
          (if snd (scrub_credentials raw)
           then [norm_finding ''R-006'' path None ''value looks like a hardcoded credential''] else []))"

section \<open>The equivalence is one\<close>

text \<open>Python's \<open>==\<close> on the scalars YAML can hold is symmetric and transitive.\<close>

definition eq_ok :: "yaml_lib \<Rightarrow> bool" where
  "eq_ok L \<longleftrightarrow>
     (\<forall>a b. scalar_eq L a b \<longrightarrow> scalar_eq L b a) \<and>
     (\<forall>a b c. scalar_eq L a b \<longrightarrow> scalar_eq L b c \<longrightarrow> scalar_eq L a c)"

lemma eq_okD:
  assumes "eq_ok L"
  shows "scalar_eq L a b \<Longrightarrow> scalar_eq L b a"
    and "scalar_eq L a b \<Longrightarrow> scalar_eq L b c \<Longrightarrow> scalar_eq L a c"
  using assms unfolding eq_ok_def by blast+

lemma dict_find_cong:
  assumes "eq_ok L" "scalar_eq L k l"
  shows "dict_find L k d = dict_find L l d"
proof -
  have "scalar_eq L x k \<longleftrightarrow> scalar_eq L x l" for x
    using assms(2) eq_okD [OF assms(1)] by blast
  then show ?thesis by (simp add: dict_find_def)
qed

lemma dict_find_SomeD:
  assumes "dict_find L k d = Some w"
  shows "\<exists>k'. (k', w) \<in> set d \<and> scalar_eq L k' k"
proof -
  obtain k' where "find (\<lambda>kv. scalar_eq L (fst kv) k) d = Some (k', w)"
    using assms by (auto simp: dict_find_def)
  then show ?thesis by (metis find_Some_iff fst_conv nth_mem)
qed

lemma py_eq_map_iff:
  "py_eq L (Y_map m) (Y_map n) \<longleftrightarrow>
     length m = length n \<and> (\<forall>(k, v) \<in> set m. \<exists>w. dict_find L k n = Some w \<and> py_eq L v w)"
  by (auto split: option.splits)

fun is_container :: "yaml \<Rightarrow> bool" where
  "is_container (Y_list xs) = True"
| "is_container (Y_map m) = True"
| "is_container _ = False"

lemma py_eq_scalar: "\<not> is_container a \<Longrightarrow> py_eq L a b \<longleftrightarrow> \<not> is_container b \<and> scalar_eq L a b"
  by (cases a; cases b) (simp_all add: scalar_eq_def)

lemma py_eq_trans_scalar:
  "eq_ok L \<Longrightarrow> \<not> is_container a \<Longrightarrow> py_eq L a b \<Longrightarrow> py_eq L b c \<Longrightarrow> py_eq L a c"
  using eq_okD(2) by (auto simp: py_eq_scalar)

lemma py_eq_trans:
  "eq_ok L \<Longrightarrow> py_eq L a b \<Longrightarrow> py_eq L b c \<Longrightarrow> py_eq L a c"
proof (induction L a b arbitrary: c rule: py_eq.induct)
  case (1 L xs b)
  then obtain ys zs where "b = Y_list ys" "c = Y_list zs" by (auto split: yaml.splits)
  note [simp] = this
  have l: "length xs = length ys" "length ys = length zs"
    using "1.prems" by (auto simp: split_def)
  have "py_eq L (xs ! i) (zs ! i)" if "i < length xs" for i
  proof -
    have "(xs ! i, ys ! i) \<in> set (zip xs ys)" "(ys ! i, zs ! i) \<in> set (zip ys zs)"
      using that l by (auto simp: in_set_zip)
    moreover have "\<forall>p \<in> set (zip xs ys). py_eq L (fst p) (snd p)" "\<forall>p \<in> set (zip ys zs). py_eq L (fst p) (snd p)"
      using "1.prems" by simp_all
    ultimately have "py_eq L (xs ! i) (ys ! i)" "py_eq L (ys ! i) (zs ! i)" "(xs ! i, ys ! i) \<in> set (zip xs ys)"
      by fastforce+
    then show ?thesis
      using "1.IH" [of ys "(xs ! i, ys ! i)" "zs ! i"] "1.prems"(1) l by simp
  qed
  then show ?case using l by (auto simp: set_zip)
next
  case (2 L m b)
  then obtain n p where bc: "b = Y_map n" "c = Y_map p" by (auto split: yaml.splits)
  have mn: "length m = length n" "\<And>k v. (k, v) \<in> set m \<Longrightarrow> \<exists>w. dict_find L k n = Some w \<and> py_eq L v w"
    using "2.prems"(2) unfolding bc py_eq_map_iff by fastforce+
  have np: "length n = length p" "\<And>k v. (k, v) \<in> set n \<Longrightarrow> \<exists>w. dict_find L k p = Some w \<and> py_eq L v w"
    using "2.prems"(3) unfolding bc py_eq_map_iff by fastforce+
  have "\<exists>x. dict_find L k p = Some x \<and> py_eq L v x" if kv: "(k, v) \<in> set m" for k v
  proof -
    obtain w where w: "dict_find L k n = Some w" "py_eq L v w" using mn(2) kv by blast
    obtain k' where k': "(k', w) \<in> set n" "scalar_eq L k' k" using dict_find_SomeD [OF w(1)] by blast
    obtain x where x: "dict_find L k' p = Some x" "py_eq L w x" using np(2) k'(1) by blast
    have "py_eq L v x" using "2.IH" [of n "(k, v)" w x] "2.prems"(1) bc kv w x(2) by simp
    then show ?thesis using x(1) dict_find_cong [OF "2.prems"(1) k'(2), of p] by simp
  qed
  then show ?case using mn(1) np(1) unfolding bc py_eq_map_iff by auto
qed (rule py_eq_trans_scalar; simp)+

section \<open>The projection is a normal form\<close>

lemma map_of_dict_update: "map_of (dict_update kvs d) = map_of d ++ map_of (rev kvs)"
proof (induction kvs arbitrary: d)
  case (Cons kv kvs)
  then show ?case by (cases kv) (simp add: dict_update_def map_of_dict_set map_add_upd_left fun_upd_def [symmetric])
qed (simp add: dict_update_def)

lemma dict_set_absent: "k \<notin> fst ` set d \<Longrightarrow> dict_set k v d = d @ [(k, v)]"
  by (induction k v d rule: dict_set.induct) auto

lemma dict_set_present: "map_of d k = Some v \<Longrightarrow> dict_set k v d = d"
  by (induction k v d rule: dict_set.induct) (auto split: if_splits)

lemma dict_update_distinct:
  "distinct (map fst (d @ kvs)) \<Longrightarrow> dict_update kvs d = d @ kvs"
proof (induction kvs arbitrary: d)
  case (Cons kv kvs)
  obtain k v where kv: "kv = (k, v)" by (cases kv)
  have "dict_update (kv # kvs) d = dict_update kvs (d @ [(k, v)])"
    using Cons.prems dict_set_absent [of k d v] by (auto simp: kv dict_update_def)
  then show ?case using Cons by (simp add: kv)
qed (simp add: dict_update_def)

lemma dict_update_again: "dict_update (dict_update kvs []) [] = dict_update kvs []"
  by (intro dict_update_distinct [of "[]", simplified] distinct_dict_update) simp

text \<open>Both forms of \<open>labels\<close>, and of \<open>environment\<close>, mean the same.\<close>

lemma labels_forms_agree:
  assumes "\<forall>(k, v) \<in> set kvs. CHR ''='' \<notin> set k"
  shows "labels_as_mapping L (Y_list (map (\<lambda>(k, v). Y_str (k @ ''='' @ v)) kvs)) =
    labels_as_mapping L (Y_map (map (\<lambda>(k, v). (Y_str k, Y_str v)) kvs))"
proof -
  have "map (\<lambda>x. case partition_at (CHR ''='') (yaml_text (yl_show L) x) of (k, sep, w) \<Rightarrow> (k, Y_str w))
      (map (\<lambda>(k, v). Y_str (k @ ''='' @ v)) kvs) =
    map (\<lambda>(k, w). (yaml_text (yl_show L) k, Y_str (compose_string L w)))
      (map (\<lambda>(k, v). (Y_str k, Y_str v)) kvs)"
    using assms by (auto simp: yaml_text_def compose_string_def)
  then show ?thesis by (simp add: labels_as_mapping_def yaml_iter_def del: map_map map_eq_conv)
qed

text \<open>What a conversion makes is a fixed point of it.\<close>

definition text_valued :: "yaml \<Rightarrow> bool" where
  "text_valued v \<longleftrightarrow> v = Y_null \<or> (\<exists>s. v = Y_str s)"

lemma text_dict_again:
  assumes "\<forall>kv \<in> set kvs. f (snd kv) = snd kv"
  shows "text_dict (map (\<lambda>(k, w). (yaml_text sh k, f w)) (map (\<lambda>(k, v). (Y_str k, v)) (dict_update kvs []))) =
    text_dict kvs"
proof -
  have "set (dict_update kvs []) \<subseteq> set kvs"
  proof
    fix kv assume "kv \<in> set (dict_update kvs [])"
    then have "map_of (dict_update kvs []) (fst kv) = Some (snd kv)" by simp
    then have "map_of (rev kvs) (fst kv) = Some (snd kv)" by (simp add: map_of_dict_update)
    then show "kv \<in> set kvs" by (metis map_of_SomeD prod.collapse set_rev)
  qed
  then have "map (\<lambda>(k, w). (yaml_text sh k, f w)) (map (\<lambda>(k, v). (Y_str k, v)) (dict_update kvs [])) = dict_update kvs []"
    using assms unfolding map_map by (intro map_idI) (force simp: yaml_text_def subset_iff)
  then show ?thesis by (simp add: text_dict_def dict_update_again)
qed

lemma labels_again: "labels_as_mapping L v = Some w \<Longrightarrow> labels_as_mapping L w = Some w"
proof -
  have again: "labels_as_mapping L (text_dict kvs) = Some (text_dict kvs)"
    if "\<forall>kv \<in> set kvs. \<exists>s. snd kv = Y_str s" for kvs
  proof -
    have "\<forall>kv \<in> set kvs. Y_str (compose_string L (snd kv)) = snd kv"
      using that by (auto simp: compose_string_def yaml_text_def)
    then show ?thesis
      by (subst (1) text_dict_def) (simp only: labels_as_mapping_def yaml.case text_dict_again)
  qed
  assume "labels_as_mapping L v = Some w"
  then show ?thesis
    by (auto simp: labels_as_mapping_def [of L v] again split: yaml.splits prod.splits)
qed

lemma environment_again: "environment_as_mapping L v = Some w \<Longrightarrow> environment_as_mapping L w = Some w"
proof -
  have again: "environment_as_mapping L (text_dict kvs) = Some (text_dict kvs)"
    if "\<forall>kv \<in> set kvs. text_valued (snd kv)" for kvs
  proof -
    have "\<forall>kv \<in> set kvs. (if snd kv = Y_null then Y_null else Y_str (compose_string L (snd kv))) = snd kv"
      using that by (auto simp: text_valued_def compose_string_def yaml_text_def)
    then show ?thesis
      by (subst (1) text_dict_def) (simp only: environment_as_mapping_def yaml.case text_dict_again)
  qed
  assume "environment_as_mapping L v = Some w"
  then show ?thesis
    by (auto simp: environment_as_mapping_def [of L v] again text_valued_def split: yaml.splits prod.splits)
qed

lemma ports_again: "ports_as_strings L v = Some w \<Longrightarrow> ports_as_strings L w = Some w"
proof -
  let ?f = "\<lambda>p. case p of Y_map m \<Rightarrow> p | _ \<Rightarrow> Y_str (yaml_text (yl_show L) p)"
  have "?f (?f p) = ?f p" for p by (cases p) (simp_all add: yaml_text_def)
  then have again: "ports_as_strings L (Y_list (map ?f xs)) = Some (Y_list (map ?f xs))" for xs
    by (simp add: ports_as_strings_def yaml_iter_def comp_def)
  have "ports_as_strings L (Y_list []) = Some (Y_list [])" by (simp add: ports_as_strings_def yaml_iter_def)
  moreover assume "ports_as_strings L v = Some w"
  ultimately show ?thesis
    using again by (auto simp: ports_as_strings_def [of L v] split: if_splits)
qed

definition settled :: "pystr \<Rightarrow> (yaml \<Rightarrow> yaml option) \<Rightarrow> (yaml \<times> yaml) list \<Rightarrow> bool" where
  "settled key f kvs \<longleftrightarrow> (\<forall>v. yaml_get kvs key = Some v \<longrightarrow> f v = Some v)"

lemma settled_convert: "settled key f kvs \<Longrightarrow> convert_key key f kvs = Some kvs"
  by (auto simp: settled_def convert_key_def yaml_get_def dict_set_present split: option.split)

lemma convert_settles:
  "convert_key key f kvs = Some kvs' \<Longrightarrow> (\<And>v w. f v = Some w \<Longrightarrow> f w = Some w) \<Longrightarrow> settled key f kvs'"
  by (auto simp: settled_def convert_key_def yaml_get_def map_of_dict_set split: option.splits)

lemma convert_keeps:
  "convert_key key f kvs = Some kvs' \<Longrightarrow> key \<noteq> key' \<Longrightarrow> settled key' g kvs \<Longrightarrow> settled key' g kvs'"
  by (auto simp: settled_def convert_key_def yaml_get_def map_of_dict_set split: option.splits)

lemma canonical_service_again: "canonical_service L s = Some c \<Longrightarrow> canonical_service L c = Some c"
proof -
  assume "canonical_service L s = Some c"
  then obtain s1 s2 where s: "convert_key ''labels'' (labels_as_mapping L) s = Some s1"
    "convert_key ''ports'' (ports_as_strings L) s1 = Some s2"
    "convert_key ''environment'' (environment_as_mapping L) s2 = Some c"
    by (auto simp: canonical_service_def bind_eq_Some_conv)
  have "settled ''labels'' (labels_as_mapping L) c"
    by (rule convert_keeps [OF s(3) _ convert_keeps [OF s(2) _ convert_settles [OF s(1) labels_again]]]) simp_all
  moreover have "settled ''ports'' (ports_as_strings L) c"
    by (rule convert_keeps [OF s(3) _ convert_settles [OF s(2) ports_again]]) simp_all
  moreover have "settled ''environment'' (environment_as_mapping L) c"
    by (rule convert_settles [OF s(3) environment_again])
  ultimately show ?thesis by (simp add: canonical_service_def settled_convert)
qed

lemma canonical_services_again: "canonical_services L ss = Some cs \<Longrightarrow> canonical_services L cs = Some cs"
  by (induction L ss arbitrary: cs rule: canonical_services.induct)
     (auto simp: bind_eq_Some_conv canonical_service_again split: yaml.splits)

lemma yaml_get_filter:
  "key \<noteq> ''version'' \<Longrightarrow> yaml_get (filter (\<lambda>kv. fst kv \<noteq> Y_str ''version'') kvs) key = yaml_get kvs key"
  by (induction kvs) (auto simp: yaml_get_def)

lemma projection_again:
  assumes "canonical_projection L d = Some p"
  shows "canonical_projection L p = Some p"
proof (cases "compose_services_of d")
  case None
  then show ?thesis using assms by (simp add: canonical_projection_def)
next
  case (Some svcs)
  then obtain kvs where d: "d = Y_map kvs" "yaml_get kvs ''services'' = Some (Y_map svcs)"
    by (auto simp: compose_services_of_def split: yaml.splits option.splits)
  obtain cs where cs: "canonical_services L svcs = Some cs"
    "p = Y_map (dict_set (Y_str ''services'') (Y_map cs) (filter (\<lambda>kv. fst kv \<noteq> Y_str ''version'') kvs))"
    using assms Some d by (auto simp: canonical_projection_def)
  define ks where "ks = dict_set (Y_str ''services'') (Y_map cs) (filter (\<lambda>kv. fst kv \<noteq> Y_str ''version'') kvs)"
  have p: "p = Y_map ks" by (simp only: cs(2) ks_def)
  have get: "map_of ks (Y_str ''services'') = Some (Y_map cs)" unfolding ks_def by (simp add: map_of_dict_set)
  have "fst kv \<noteq> Y_str ''version''" if "kv \<in> set ks" for kv
  proof -
    have "fst kv \<in> fst ` set ks" using that by (rule imageI)
    then show ?thesis unfolding ks_def fst_dict_set by auto
  qed
  then have "filter (\<lambda>kv. fst kv \<noteq> Y_str ''version'') ks = ks" by (intro filter_True) blast
  then show ?thesis
    using p get canonical_services_again [OF cs(1)] dict_set_present [OF get]
    by (simp add: canonical_projection_def compose_services_of_def yaml_get_def)
qed

lemma is_equivalent_True:
  "is_equivalent L a b = Some True \<longleftrightarrow>
     (\<exists>x y p q. yl_loads L a = Some x \<and> yl_loads L b = Some y \<and>
        canonical_projection L x = Some p \<and> canonical_projection L y = Some q \<and> py_eq L p q)"
  by (auto simp: is_equivalent_def split: option.splits)

lemma is_equivalent_trans:
  assumes "eq_ok L" "is_equivalent L a b = Some True" "is_equivalent L b c = Some True"
  shows "is_equivalent L a c = Some True"
  using assms py_eq_trans [of L] unfolding is_equivalent_True by fastforce

text \<open>Only a document that is not a compose file gets the finding that stops its rewriting.\<close>

lemma compose_not_rejected:
  assumes "compose_services_of doc = Some svcs" "f \<in> set (check_document L doc raw path shared)"
  shows "fi_rule f \<noteq> ''R-008''"
  using assms by (auto simp: check_document_def check_service_def norm_finding_def Let_def split: yaml.splits if_splits)

end
