(* ===== verification/NormFormatter.thy ===== *)
theory NormFormatter
  imports NormRules "HOL-Library.Multiset" "HOL-Library.List_Lexorder" "HOL-Library.Char_ord"
    "HOL-Library.Product_Lexorder"
begin

text \<open>
  \<open>normalization/formatter.py\<close>: the deterministic formatter. The round-trip YAML library and
  the linter are a \<open>round_trip\<close>: what a load builds (\<open>None\<close>: it raised), what a dump writes,
  \<open>str\<close> of a loaded list or mapping, and whether the linter reports no error. A loaded node
  shows what the formatter uses of it: per entry the comment slots and, in a mapping, the
  key's position; the rest (style, anchors, its own comment) is opaque text.
\<close>

section \<open>Comments\<close>

text \<open>The quote open after a character, and whether the next one is escaped.\<close>

definition next_quote :: "char option \<Rightarrow> bool \<Rightarrow> bool \<Rightarrow> char \<Rightarrow> char option \<times> bool" where
  "next_quote quote escaped opens c =
     (if quote = Some (CHR 0x22) then
        (if escaped then (quote, False)
         else if c = CHR 0x5C then (quote, True)
         else if c = CHR 0x22 then (None, escaped)
         else (quote, escaped))
      else if quote = Some (CHR 0x27) then (if c = CHR 0x27 then None else quote, escaped)
      else if opens then (Some c, escaped)
      else (quote, escaped))"

text \<open>
  The comment of one line: \<open>quote\<close> is the open quote, \<open>prev\<close> the last non-space character
  outside a quoted scalar, \<open>before\<close> the character just read.
\<close>

fun comment_of ::
  "char option \<Rightarrow> bool \<Rightarrow> char option \<Rightarrow> char option \<Rightarrow> pystr \<Rightarrow> pystr option" where
  "comment_of quote escaped prev before [] = None"
| "comment_of quote escaped prev before (c # s) =
     (let spaced = (case before of None \<Rightarrow> False | Some b \<Rightarrow> is_blank_char b);
          opens = c \<in> {CHR 0x22, CHR 0x27} \<and>
            (case prev of None \<Rightarrow> True
             | Some p \<Rightarrow> p \<in> set ''[{,'' \<or> p \<in> set '':-?'' \<and> spaced)
      in if quote = None \<and> \<not> opens \<and> c = CHR ''#'' \<and> (before = None \<or> spaced)
         then Some (strip (c # s))
         else (case next_quote quote escaped opens c of
                 (q, e) \<Rightarrow>
                   comment_of q e (if \<not> is_space c \<and> q = None then Some c else prev) (Some c) s))"

definition comments :: "pystr \<Rightarrow> pystr multiset" where
  "comments text = mset (List.map_filter (comment_of None False None None) (splitlines text))"

text \<open>\<open>_same_meaning\<close>; \<open>None\<close>: the comparison raised.\<close>

definition same_meaning :: "yaml_lib \<Rightarrow> pystr \<Rightarrow> pystr \<Rightarrow> bool option" where
  "same_meaning L before after =
     (case is_equivalent L before after of
        None \<Rightarrow> None
      | Some eq \<Rightarrow> Some (eq \<and> comments before = comments after))"

section \<open>Loaded documents\<close>

text \<open>A list of comment slots is its first slot and the others.\<close>

type_synonym slots = "pystr option \<times> pystr option list"

datatype rnode =
    R_scalar pystr yaml
  | R_seq pystr "(slots option \<times> rnode) list"
  | R_map pystr bool "(yaml \<times> slots option \<times> (nat \<times> nat) option \<times> rnode) list"

type_synonym rentries = "(yaml \<times> slots option \<times> (nat \<times> nat) option \<times> rnode) list"

record round_trip =
  rt_load :: "pystr \<Rightarrow> rnode option"
  rt_dump :: "rnode \<Rightarrow> pystr option"
  rt_str :: "rnode \<Rightarrow> pystr"
  rt_lint :: "pystr \<Rightarrow> bool"

fun r_get :: "rentries \<Rightarrow> yaml \<Rightarrow> rnode option" where
  "r_get [] key = None"
| "r_get ((k, c, p, n) # es) key = (if k = key then Some n else r_get es key)"

definition r_set :: "yaml \<Rightarrow> rnode \<Rightarrow> rentries \<Rightarrow> rentries" where
  "r_set key node es = map (\<lambda>(k, c, p, n). if k = key then (k, c, p, node) else (k, c, p, n)) es"

definition double_quoted :: "pystr \<Rightarrow> rnode" where
  "double_quoted s = R_scalar [CHR 0x22] (Y_str s)"

definition r_text :: "round_trip \<Rightarrow> yaml_lib \<Rightarrow> rnode \<Rightarrow> pystr" where
  "r_text R L n = (case n of R_scalar st v \<Rightarrow> yaml_text (yl_show L) v | _ \<Rightarrow> rt_str R n)"

definition r_compose_string :: "round_trip \<Rightarrow> yaml_lib \<Rightarrow> rnode \<Rightarrow> pystr" where
  "r_compose_string R L n = (case n of R_scalar st v \<Rightarrow> compose_string L v | _ \<Rightarrow> rt_str R n)"

section \<open>Stage 1: values\<close>

definition has_comment :: "slots option \<Rightarrow> bool" where
  "has_comment c = (case c of None \<Rightarrow> False | Some (a, bs) \<Rightarrow> \<exists>t \<in> set (a # bs). t \<noteq> None)"

definition remove_version :: "rentries \<Rightarrow> rentries \<times> pystr list" where
  "remove_version doc =
     (case find (\<lambda>e. fst e = Y_str ''version'') doc of
        None \<Rightarrow> (doc, [])
      | Some (k, c, p, n) \<Rightarrow>
          if has_comment c then (doc, [''N-004'']) else (filter (\<lambda>e. fst e \<noteq> Y_str ''version'') doc, []))"

text \<open>\<open>_seq_to_map\<close>: the comment after an entry moves to the entry that replaces it.\<close>

definition carried :: "slots option \<Rightarrow> slots option" where
  "carried c =
     (case c of Some (Some t, bs) \<Rightarrow> Some (None, [None, Some t, None]) | _ \<Rightarrow> None)"

definition seq_to_map :: "(slots option \<times> rnode) list \<Rightarrow> (pystr \<times> rnode) list \<Rightarrow> rnode option" where
  "seq_to_map seq pairs =
     (if \<not> distinct (map fst pairs) then None
      else if list_ex (\<lambda>e. case fst e of None \<Rightarrow> False | Some (a, bs) \<Rightarrow> list_ex (\<lambda>t. t \<noteq> None) bs) seq then None
      else Some (R_map [] False
             (map (\<lambda>((c, n), (k, v)). (Y_str k, carried c, None, v)) (zip seq pairs))))"

definition quote_labels :: "round_trip \<Rightarrow> yaml_lib \<Rightarrow> rnode \<Rightarrow> rnode" where
  "quote_labels R L labels =
     (case labels of
        R_map x m es \<Rightarrow>
          R_map x m (map (\<lambda>(k, c, p, n). (k, c, p, double_quoted (r_compose_string R L n))) es)
      | _ \<Rightarrow> labels)"

definition apply_labels :: "round_trip \<Rightarrow> yaml_lib \<Rightarrow> rentries \<Rightarrow> rentries \<times> pystr list" where
  "apply_labels R L service =
     (case r_get service (Y_str ''labels'') of
        None \<Rightarrow> (service, [])
      | Some (R_seq x es) \<Rightarrow>
          (case seq_to_map es
                  (map (\<lambda>(c, n). case partition_at (CHR ''='') (r_text R L n) of
                                   (key, sep, v) \<Rightarrow> (key, R_scalar [] (Y_str v))) es) of
             None \<Rightarrow> (service, [''N-007''])
           | Some m \<Rightarrow> (r_set (Y_str ''labels'') (quote_labels R L m) service, []))
      | Some labels \<Rightarrow> (r_set (Y_str ''labels'') (quote_labels R L labels) service, []))"

definition quote_port :: "yaml_lib \<Rightarrow> rnode \<Rightarrow> rnode" where
  "quote_port L n =
     (case n of
        R_scalar st (Y_int i) \<Rightarrow> double_quoted (show_int i)
      | R_scalar st (Y_str s) \<Rightarrow> double_quoted s
      | _ \<Rightarrow> n)"

definition apply_ports :: "yaml_lib \<Rightarrow> rentries \<Rightarrow> rentries" where
  "apply_ports L service =
     (case r_get service (Y_str ''ports'') of
        Some (R_seq x es) \<Rightarrow>
          r_set (Y_str ''ports'') (R_seq x (map (\<lambda>(c, n). (c, quote_port L n)) es)) service
      | _ \<Rightarrow> service)"

definition env_value :: "yaml_lib \<Rightarrow> pystr \<Rightarrow> rnode" where
  "env_value L value =
     (if yl_loads L value = Some (Y_str value) then R_scalar [] (Y_str value) else double_quoted value)"

definition apply_environment :: "round_trip \<Rightarrow> yaml_lib \<Rightarrow> rentries \<Rightarrow> rentries \<times> pystr list" where
  "apply_environment R L service =
     (case r_get service (Y_str ''environment'') of
        Some (R_seq x es) \<Rightarrow>
          (case seq_to_map es
                  (map (\<lambda>(c, n). case partition_at (CHR ''='') (r_text R L n) of
                          (key, sep, v) \<Rightarrow> (key, if sep then env_value L v else R_scalar [] Y_null)) es) of
             None \<Rightarrow> (service, [''N-011''])
           | Some m \<Rightarrow> (r_set (Y_str ''environment'') m service, []))
      | _ \<Rightarrow> (service, []))"

definition apply_service :: "round_trip \<Rightarrow> yaml_lib \<Rightarrow> rnode \<Rightarrow> rnode \<times> pystr list" where
  "apply_service R L service =
     (case service of
        R_map x m es \<Rightarrow>
          (let (es1, sk1) = apply_labels R L es;
               (es2, sk2) = apply_environment R L (apply_ports L es1)
           in (R_map x m es2, sk1 @ sk2))
      | _ \<Rightarrow> (service, []))"

fun apply_services :: "round_trip \<Rightarrow> yaml_lib \<Rightarrow> rentries \<Rightarrow> rentries \<times> pystr list" where
  "apply_services R L [] = ([], [])"
| "apply_services R L ((k, c, p, n) # es) =
     (let (n1, sk1) = apply_service R L n; (es1, sk2) = apply_services R L es
      in ((k, c, p, n1) # es1, sk1 @ sk2))"

text \<open>The services of a loaded compose document.\<close>

definition loaded_services :: "rnode \<Rightarrow> (rentries \<times> rentries) option" where
  "loaded_services doc =
     (case doc of
        R_map x m es \<Rightarrow>
          (case r_get es (Y_str ''services'') of Some (R_map y k svcs) \<Rightarrow> Some (es, svcs) | _ \<Rightarrow> None)
      | _ \<Rightarrow> None)"

definition apply_values :: "round_trip \<Rightarrow> yaml_lib \<Rightarrow> rnode \<Rightarrow> rnode \<times> pystr list" where
  "apply_values R L doc =
     (case doc of
        R_map x m es \<Rightarrow>
          (let (es1, sk1) = remove_version es
           in case r_get es1 (Y_str ''services'') of
                Some (R_map y k svcs) \<Rightarrow>
                  (let (svcs1, sk2) = apply_services R L svcs
                   in (R_map x m (r_set (Y_str ''services'') (R_map y k svcs1) es1), sk1 @ sk2))
              | _ \<Rightarrow> (doc, sk1))
      | _ \<Rightarrow> (doc, []))"

definition dump_text :: "round_trip \<Rightarrow> rnode \<Rightarrow> pystr option" where
  "dump_text R doc =
     map_option (\<lambda>t. strip_by (\<lambda>c. c = CHR 0x0A) t @ [CHR 0x0A]) (rt_dump R doc)"

section \<open>Stage 2: key order\<close>

type_synonym key_rank = "nat \<times> nat \<times> pystr"

definition TOP_LEVEL_KEY_ORDER :: "pystr list" where
  "TOP_LEVEL_KEY_ORDER = [''services'', ''volumes'', ''networks'', ''configs'', ''secrets'']"

definition SERVICE_KEY_ORDER :: "pystr list" where
  "SERVICE_KEY_ORDER =
     [''image'', ''container_name'', ''restart'', ''depends_on'', ''env_file'', ''environment'',
      ''command'', ''entrypoint'', ''ports'', ''volumes'', ''networks'', ''labels'',
      ''healthcheck'', ''deploy'']"

fun index_of :: "'a \<Rightarrow> 'a list \<Rightarrow> nat option" where
  "index_of x [] = None"
| "index_of x (y # ys) = (if y = x then Some 0 else map_option Suc (index_of x ys))"

definition key_rank_of :: "(yaml \<Rightarrow> pystr) \<Rightarrow> pystr list \<Rightarrow> yaml \<Rightarrow> key_rank" where
  "key_rank_of show order name =
     (case index_of name (map Y_str order) of
        Some i \<Rightarrow> (i, 0, [])
      | None \<Rightarrow> (length order, 0, yaml_text show name))"

definition top_level_rank :: "(yaml \<Rightarrow> pystr) \<Rightarrow> yaml \<Rightarrow> key_rank" where
  "top_level_rank show key =
     (let name = yaml_text show key in
      if name = ''name'' then (0, 0, [])
      else if starts_with name ''x-'' then (1, 0, [])
      else case index_of name TOP_LEVEL_KEY_ORDER of
        Some i \<Rightarrow> (2, i, [])
      | None \<Rightarrow> (3, 0, name))"

definition is_blank_line :: "pystr \<Rightarrow> bool" where
  "is_blank_line line \<longleftrightarrow> strip line = []"

definition is_comment_line :: "pystr \<Rightarrow> bool" where
  "is_comment_line line \<longleftrightarrow> starts_with (lstrip line) ''#''"

definition space_indent :: "pystr \<Rightarrow> nat" where
  "space_indent line = length line - length (lstrip_by (\<lambda>c. c = CHR '' '') line)"

fun mapping_at :: "rnode \<Rightarrow> yaml list \<Rightarrow> (bool \<times> rentries) option" where
  "mapping_at (R_map x m es) [] = Some (m, es)"
| "mapping_at node [] = None"
| "mapping_at (R_map x m es) (k # ks) =
     (case r_get es k of None \<Rightarrow> None | Some n \<Rightarrow> mapping_at n ks)"
| "mapping_at node (k # ks) = None"

definition loose_line :: "nat \<Rightarrow> pystr \<Rightarrow> bool" where
  "loose_line indent line \<longleftrightarrow>
     is_blank_line line \<or> is_comment_line line \<and> space_indent line \<le> indent"

text \<open>
  \<open>while k > lo and P(lines[k - 1]): k -= 1\<close>; \<open>None\<close>: the index is out of range.
\<close>

fun back_while :: "(pystr \<Rightarrow> bool) \<Rightarrow> pystr list \<Rightarrow> nat \<Rightarrow> nat \<Rightarrow> nat option" where
  "back_while P lines lo k =
     (if lo < k then
        (if length lines < k then None
         else if P (lines ! (k - 1)) then back_while P lines lo (k - 1) else Some k)
      else Some k)"

declare back_while.simps [simp del]

definition block_end :: "pystr list \<Rightarrow> bool \<Rightarrow> nat \<Rightarrow> nat \<Rightarrow> nat" where
  "block_end lines nested indent final =
     (if \<not> nested then length lines
      else case find (\<lambda>i. \<not> is_blank_line (lines ! i) \<and> \<not> is_comment_line (lines ! i) \<and>
                         space_indent (lines ! i) < indent) [Suc final..<length lines] of
        Some i \<Rightarrow> i
      | None \<Rightarrow> length lines)"

text \<open>Where each key's block starts.\<close>

fun later_starts :: "pystr list \<Rightarrow> nat \<Rightarrow> nat \<Rightarrow> nat list \<Rightarrow> nat list option" where
  "later_starts lines indent prev [] = Some []"
| "later_starts lines indent prev (row # rows) =
     Option.bind (back_while (loose_line indent) lines (Suc prev) row)
       (\<lambda>start. map_option (\<lambda>ss. start # ss) (later_starts lines indent row rows))"

definition block_starts :: "pystr list \<Rightarrow> bool \<Rightarrow> nat \<Rightarrow> nat list \<Rightarrow> nat list option" where
  "block_starts lines nested indent rows =
     (case rows of
        [] \<Rightarrow> Some []
      | row # rest \<Rightarrow>
          Option.bind (if nested then back_while is_comment_line lines 0 row else Some row)
            (\<lambda>start. map_option (\<lambda>ss. start # ss) (later_starts lines indent row rest)))"

definition slice :: "nat \<Rightarrow> nat \<Rightarrow> 'a list \<Rightarrow> 'a list" where
  "slice i j xs = drop i (take j xs)"

text \<open>A block: the blank lines above it, the comment lines, the key with its value.\<close>

type_synonym key_block = "pystr list \<times> pystr list \<times> pystr list"

fun make_blocks :: "pystr list \<Rightarrow> nat \<Rightarrow> bool \<Rightarrow> (nat \<times> nat) list \<Rightarrow> key_block list" where
  "make_blocks lines tail later [] = []"
| "make_blocks lines tail later ((start, row) # rest) =
     (let lead = slice start row lines;
          split = (if later then length (takeWhile is_blank_line lead) else 0);
          body_end = (case rest of [] \<Rightarrow> tail | (s, r) # _ \<Rightarrow> s)
      in (take split lead, drop split lead, slice row body_end lines)
           # make_blocks lines tail True rest)"

definition place_blocks :: "key_block list \<Rightarrow> nat list \<Rightarrow> pystr list" where
  "place_blocks blocks order =
     concat (map (\<lambda>(slot, i). fst (blocks ! slot) @ fst (snd (blocks ! i)) @ snd (snd (blocks ! i)))
       (zip [0..<length order] order))"

definition reorder_lines ::
  "pystr list \<Rightarrow> bool \<Rightarrow> nat \<Rightarrow> nat list \<Rightarrow> nat list \<Rightarrow> pystr list option" where
  "reorder_lines lines nested indent rows order =
     Option.bind (back_while (loose_line indent) lines (Suc (last rows))
         (block_end lines nested indent (last rows)))
       (\<lambda>tail. Option.bind (block_starts lines nested indent rows)
          (\<lambda>starts.
             (let out = take (hd starts) lines @
                    place_blocks (make_blocks lines tail False (zip starts rows)) order @ drop tail lines
              in if length out \<noteq> length lines then None else Some out)))"

text \<open>\<open>reorder_mapping\<close>; \<open>None\<close>: it returned \<open>None\<close> or raised, which its caller treats alike.\<close>

definition reorder_mapping ::
  "round_trip \<Rightarrow> pystr \<Rightarrow> yaml list \<Rightarrow> (yaml \<Rightarrow> key_rank) \<Rightarrow> pystr option" where
  "reorder_mapping R text path rank =
     (case rt_load R text of
        None \<Rightarrow> None
      | Some doc \<Rightarrow>
          (case mapping_at doc path of
             None \<Rightarrow> Some text
           | Some (merge, es) \<Rightarrow>
               (let keys = map fst es;
                    order = sort_key (\<lambda>i. rank (keys ! i)) [0..<length keys];
                    positions = map (\<lambda>(k, c, p, n). p) es
                in if length es < 2 \<or> merge \<or> order = [0..<length keys] then Some text
                   else if None \<in> set positions then None
                   else
                     (let rows = map (fst \<circ> the) positions;
                          columns = map (snd \<circ> the) positions
                      in if \<not> list_all (\<lambda>c. c = hd columns) columns \<or> \<not> sorted_wrt (<) rows then None
                         else map_option concat
                           (reorder_lines (splitlines_keep text) (path \<noteq> []) (hd columns) rows order)))))"

definition reorder_steps ::
  "yaml_lib \<Rightarrow> rentries \<Rightarrow> (yaml list \<times> (yaml \<Rightarrow> key_rank) \<times> pystr) list" where
  "reorder_steps L svcs =
     ([], top_level_rank (yl_show L), ''N-005'') #
     concat (map (\<lambda>(name, c, p, n).
         case n of
           R_map x m es \<Rightarrow>
             ([Y_str ''services'', name], key_rank_of (yl_show L) SERVICE_KEY_ORDER, ''N-006'') #
             (case r_get es (Y_str ''labels'') of
                Some (R_map y k ls) \<Rightarrow>
                  [([Y_str ''services'', name, Y_str ''labels''], key_rank_of (yl_show L) [], ''N-009'')]
              | _ \<Rightarrow> [])
         | _ \<Rightarrow> []) svcs)"

text \<open>\<open>_apply_order\<close>, each reorder checked; \<open>None\<close>: it raised.\<close>

fun order_loop ::
  "round_trip \<Rightarrow> yaml_lib \<Rightarrow> (yaml list \<times> (yaml \<Rightarrow> key_rank) \<times> pystr) list \<Rightarrow> pystr \<Rightarrow> pystr list
     \<Rightarrow> (pystr \<times> pystr list) option" where
  "order_loop R L [] text skipped = Some (text, skipped)"
| "order_loop R L ((path, rank, rule) # steps) text skipped =
     (case reorder_mapping R text path rank of
        None \<Rightarrow> order_loop R L steps text (skipped @ [rule])
      | Some out \<Rightarrow>
          (case same_meaning L text out of
             None \<Rightarrow> None
           | Some same \<Rightarrow>
               if same then order_loop R L steps out skipped
               else order_loop R L steps text (skipped @ [rule])))"

definition apply_order :: "round_trip \<Rightarrow> yaml_lib \<Rightarrow> pystr \<Rightarrow> (pystr \<times> pystr list) option" where
  "apply_order R L text =
     Option.bind (rt_load R text)
       (\<lambda>doc. Option.bind (loaded_services doc)
          (\<lambda>(es, svcs). order_loop R L (reorder_steps L svcs) text []))"

section \<open>The formatter\<close>

record normalized_file =
  nf_content :: pystr
  nf_changed :: bool
  nf_skipped :: "pystr list"

text \<open>What \<open>normalize\<close> does: it returns a file, returns \<open>None\<close>, or raises.\<close>

datatype formatted = Formatted normalized_file | Not_formatted | Format_raised

definition finish_format ::
  "round_trip \<Rightarrow> yaml_lib \<Rightarrow> pystr \<Rightarrow> pystr list \<Rightarrow> pystr \<Rightarrow> formatted" where
  "finish_format R L text skipped reshaped =
     (case apply_order R L reshaped of
        None \<Rightarrow> Not_formatted
      | Some (out, order_skipped) \<Rightarrow>
          if \<not> rt_lint R out then Not_formatted
          else Formatted \<lparr>nf_content = out, nf_changed = (out \<noteq> text),
                 nf_skipped = skipped @ order_skipped\<rparr>)"

definition normalize :: "round_trip \<Rightarrow> yaml_lib \<Rightarrow> pystr \<Rightarrow> formatted" where
  "normalize R L text =
     (case rt_load R text of
        None \<Rightarrow> Not_formatted
      | Some doc \<Rightarrow>
          if loaded_services doc = None then Not_formatted
          else
            (let (doc1, skipped) = apply_values R L doc in
             case dump_text R doc1 of
               None \<Rightarrow> Not_formatted
             | Some reshaped \<Rightarrow>
                 (case same_meaning L text reshaped of
                    None \<Rightarrow> Format_raised
                  | Some same \<Rightarrow>
                      if same then finish_format R L text skipped reshaped else Not_formatted)))"

section \<open>Lemmas\<close>

lemma back_while_step:
  "back_while P lines lo k = Some j \<Longrightarrow>
     j = k \<or> lo < k \<and> k \<le> length lines \<and> back_while P lines lo (k - 1) = Some j"
  by (subst (asm) back_while.simps) (auto split: if_splits)

lemma back_while_le: "back_while P lines lo k = Some j \<Longrightarrow> j \<le> k"
proof (induction k arbitrary: j)
  case (Suc k)
  then show ?case using back_while_step [of P lines lo "Suc k" j] by fastforce
qed (auto dest: back_while_step)

lemma back_while_ge: "back_while P lines lo k = Some j \<Longrightarrow> lo \<le> k \<Longrightarrow> lo \<le> j"
proof (induction k arbitrary: j)
  case (Suc k)
  then show ?case using back_while_step [of P lines lo "Suc k" j] by fastforce
qed (auto dest: back_while_step)

lemma back_while_beyond: "k \<le> lo \<Longrightarrow> back_while P lines lo k = Some k"
  by (simp add: back_while.simps)

text \<open>Blocks that follow each other: start, key line, next start.\<close>

fun laid_out :: "nat \<Rightarrow> nat \<Rightarrow> (nat \<times> nat) list \<Rightarrow> bool" where
  "laid_out len tail [] \<longleftrightarrow> True"
| "laid_out len tail ((start, row) # rest) \<longleftrightarrow>
     start \<le> row \<and> (case rest of [] \<Rightarrow> row \<le> tail \<or> len \<le> tail | (s, r) # others \<Rightarrow> row \<le> s) \<and>
     laid_out len tail rest"

lemma later_starts_laid_out:
  assumes "later_starts lines indent prev rows = Some ss" "sorted_wrt (<) (prev # rows)"
    "rows \<noteq> [] \<Longrightarrow> last rows \<le> tail \<or> len \<le> tail"
  shows "length ss = length rows \<and> (\<forall>s ss'. ss = s # ss' \<longrightarrow> prev < s) \<and> laid_out len tail (zip ss rows)"
  using assms
proof (induction lines indent prev rows arbitrary: ss rule: later_starts.induct)
  case (2 lines indent prev row rows)
  obtain s ss' where s: "back_while (loose_line indent) lines (Suc prev) row = Some s"
    "later_starts lines indent row rows = Some ss'" "ss = s # ss'"
    using "2.prems"(1) by (auto simp: bind_eq_Some_conv)
  have "rows \<noteq> [] \<Longrightarrow> last rows \<le> tail \<or> len \<le> tail" using "2.prems"(3) by simp
  then have ih: "length ss' = length rows" "\<And>t ts. ss' = t # ts \<Longrightarrow> row < t" "laid_out len tail (zip ss' rows)"
    using "2.IH" [OF s(1,2)] "2.prems"(2) by simp_all
  have "prev < s" "s \<le> row" using back_while_le [OF s(1)] back_while_ge [OF s(1)] "2.prems"(2) by auto
  then show ?case using ih "2.prems"(3) s(3) by (cases rows; cases ss') auto
qed simp

lemma slice_append:
  assumes "i \<le> j" "j \<le> k \<or> length xs \<le> k"
  shows "slice i j xs @ slice j k xs = slice i k xs"
proof -
  define ys where "ys = take k xs"
  have "take j ys = take j xs"
    using assms(2) by (auto simp: ys_def min_def)
  moreover have "drop i ys = drop i (take j ys) @ drop j ys"
    using assms(1) append_take_drop_id [of "j - i" "drop i ys"] by (simp add: take_drop)
  ultimately show ?thesis by (simp add: slice_def ys_def [symmetric])
qed

definition block_lines :: "key_block \<Rightarrow> pystr list" where
  "block_lines b = fst b @ fst (snd b) @ snd (snd b)"

lemma make_blocks_Cons:
  "concat (map block_lines (make_blocks lines tail later ((start, row) # rest))) =
     slice start row lines @ slice row (case rest of [] \<Rightarrow> tail | (s, r) # _ \<Rightarrow> s) lines @
     concat (map block_lines (make_blocks lines tail True rest))"
  by (simp add: Let_def block_lines_def)

lemma laid_out_start: "laid_out len tail ((s, r) # rest) \<Longrightarrow> s \<le> tail \<or> len \<le> tail"
proof (induction rest arbitrary: s r)
  case (Cons sr rest)
  then show ?case by (cases sr) fastforce
qed auto

lemma make_blocks_lines:
  assumes "laid_out (length lines) tail ((start, row) # rest)"
  shows "concat (map block_lines (make_blocks lines tail later ((start, row) # rest))) = slice start tail lines"
  using assms
proof (induction rest arbitrary: start row later)
  case Nil
  then show ?case unfolding make_blocks_Cons by (simp add: slice_append)
next
  case (Cons sr rest)
  obtain s r where sr: "sr = (s, r)" by (cases sr)
  have le: "start \<le> row" "row \<le> s" "laid_out (length lines) tail ((s, r) # rest)"
    using Cons.prems by (auto simp: sr)
  have "concat (map block_lines (make_blocks lines tail later ((start, row) # (s, r) # rest))) =
      (slice start row lines @ slice row s lines) @ slice s tail lines"
    unfolding make_blocks_Cons [of _ _ later] Cons.IH [OF le(3)] by simp
  also have "\<dots> = slice start tail lines"
    using slice_append [of start row s lines] slice_append [of start s tail lines] le(1,2)
      laid_out_start [OF le(3)] by simp
  finally show ?case unfolding sr .
qed

lemma make_blocks_length: "length (make_blocks lines tail later prs) = length prs"
  by (induction prs arbitrary: later) (auto simp: Let_def)

lemma map_zip_fst: "length xs = length ys \<Longrightarrow> map (\<lambda>p. f (fst p)) (zip xs ys) = map f xs"
  by (induction rule: list_induct2) auto

lemma map_zip_snd: "length xs = length ys \<Longrightarrow> map (\<lambda>p. f (snd p)) (zip xs ys) = map f ys"
  by (induction rule: list_induct2) auto

lemma sum_list_mset_eq:
  fixes g :: "'a \<Rightarrow> 'b::comm_monoid_add"
  shows "mset xs = mset ys \<Longrightarrow> sum_list (map g xs) = sum_list (map g ys)"
  by (metis mset_map sum_mset_sum_list)

lemma place_blocks_perm:
  assumes "mset order = mset [0..<length blocks]"
  shows "mset (place_blocks blocks order) = mset (concat (map block_lines blocks))"
proof -
  let ?n = "length blocks"
  let ?sep = "\<lambda>i. mset (fst (blocks ! i))"
  let ?rest = "\<lambda>i. mset (fst (snd (blocks ! i)) @ snd (snd (blocks ! i)))"
  have len: "length order = ?n" using assms by (metis length_upt minus_nat.diff_0 size_mset)
  have "mset (place_blocks blocks order) =
      sum_list (map (\<lambda>p. ?sep (fst p) + ?rest (snd p)) (zip [0..<?n] order))"
    by (simp add: place_blocks_def mset_concat len comp_def split_def)
  also have "\<dots> = sum_list (map ?sep [0..<?n]) + sum_list (map ?rest order)"
    unfolding sum_list_addf using map_zip_fst [of "[0..<?n]" order ?sep] map_zip_snd [of "[0..<?n]" order ?rest] len
    by simp
  also have "sum_list (map ?rest order) = sum_list (map ?rest [0..<?n])"
    by (rule sum_list_mset_eq [OF assms])
  also have "sum_list (map ?sep [0..<?n]) + \<dots> = sum_list (map (\<lambda>i. mset (block_lines (blocks ! i))) [0..<?n])"
    by (simp add: sum_list_addf block_lines_def flip: sum_list_addf)
  also have "\<dots> = mset (concat (map block_lines blocks))"
  proof -
    have "map (\<lambda>i. mset (block_lines (blocks ! i))) [0..<?n] = map (\<lambda>b. mset (block_lines b)) blocks"
      by (rule nth_equalityI) simp_all
    then show ?thesis by (simp add: mset_concat comp_def)
  qed
  finally show ?thesis .
qed

lemma reorder_lines_perm:
  assumes "reorder_lines lines nested indent rows order = Some out"
    and "sorted_wrt (<) rows" "rows \<noteq> []" "mset order = mset [0..<length rows]"
  shows "mset out = mset lines"
proof -
  obtain row rest where rows: "rows = row # rest" using assms(3) by (cases rows) auto
  obtain tail start ss where t: "back_while (loose_line indent) lines (Suc (last rows))
      (block_end lines nested indent (last rows)) = Some tail"
    and first: "(if nested then back_while is_comment_line lines 0 row else Some row) = Some start"
    and ss: "later_starts lines indent row rest = Some ss"
    and out: "out = take start lines @
        place_blocks (make_blocks lines tail False (zip (start # ss) rows)) order @ drop tail lines"
    using assms(1)
    by (auto simp: reorder_lines_def block_starts_def rows bind_eq_Some_conv Let_def simp del: back_while.simps split: if_splits)
  have "block_end lines nested indent (last rows) = length lines \<or> last rows < block_end lines nested indent (last rows)"
    by (auto simp: block_end_def find_Some_iff split: option.split)
  then have tail: "last rows \<le> tail \<or> length lines \<le> tail"
    using back_while_ge [OF t] back_while_beyond [of "length lines" "Suc (last rows)"] t by fastforce
  have le: "start \<le> row" using first back_while_le by (auto split: if_splits)
  have later: "length ss = length rest" "\<And>s ss'. ss = s # ss' \<Longrightarrow> row < s" "laid_out (length lines) tail (zip ss rest)"
    using later_starts_laid_out [OF ss, of tail "length lines"] assms(2) tail by (auto simp: rows split: if_splits)
  have laid: "laid_out (length lines) tail ((start, row) # zip ss rest)"
    using le later tail by (cases ss; cases rest) (auto simp: rows)
  have "mset out = mset (take start lines) +
      mset (concat (map block_lines (make_blocks lines tail False ((start, row) # zip ss rest)))) +
      mset (drop tail lines)"
    using place_blocks_perm [of order "make_blocks lines tail False ((start, row) # zip ss rest)"] assms(4) later(1)
    by (simp add: out rows make_blocks_length del: make_blocks.simps)
  also have "\<dots> = mset (slice 0 start lines @ slice start tail lines @ slice tail (length lines) lines)"
    unfolding make_blocks_lines [OF laid] by (simp add: slice_def)
  also have "slice 0 start lines @ slice start tail lines @ slice tail (length lines) lines = lines"
    using laid_out_start [OF laid] slice_append [of 0 start tail lines] slice_append [of 0 tail "length lines" lines]
    by (simp add: slice_def flip: append_assoc)
  finally show ?thesis .
qed

lemma sorted_order_perm: "mset (sort_key f xs) = mset xs"
  by (rule mset_sort)

lemma same_meaning_True:
  "same_meaning L a b = Some True \<longleftrightarrow> is_equivalent L a b = Some True \<and> comments a = comments b"
  by (auto simp: same_meaning_def split: option.split)

lemma same_meaning_trans:
  "eq_ok L \<Longrightarrow> same_meaning L a b = Some True \<Longrightarrow> same_meaning L b c = Some True \<Longrightarrow>
     same_meaning L a c = Some True"
  using is_equivalent_trans by (auto simp: same_meaning_True)

lemma order_loop_safe:
  "eq_ok L \<Longrightarrow> order_loop R L steps text skipped = Some (out, sk) \<Longrightarrow>
     same_meaning L text0 text = Some True \<Longrightarrow> same_meaning L text0 out = Some True"
proof (induction R L steps "text" skipped rule: order_loop.induct)
  case (2 R L path rank rule steps "text" skipped)
  show ?case
  proof (cases "reorder_mapping R text path rank")
    case (Some new)
    then show ?thesis
      using "2.prems" "2.IH" same_meaning_trans [OF "2.prems"(1,3), of new]
      by (cases "same_meaning L text new") (simp_all split: if_splits)
  qed (use 2 in simp)
qed simp

lemma normalize_cases:
  assumes "normalize R L text = Formatted f"
  obtains reshaped skipped order_skipped where "same_meaning L text reshaped = Some True"
    "apply_order R L reshaped = Some (nf_content f, order_skipped)"
    "rt_lint R (nf_content f)" "nf_changed f \<longleftrightarrow> nf_content f \<noteq> text" "nf_skipped f = skipped @ order_skipped"
  using assms
  by (auto simp: normalize_def finish_format_def split: option.splits if_splits prod.splits)

text \<open>One service the projection cannot read makes the comparison raise.\<close>

lemma canonical_services_None:
  "(name, Y_map m) \<in> set svcs \<Longrightarrow> canonical_service L m = None \<Longrightarrow> canonical_services L svcs = None"
proof (induction svcs)
  case (Cons s svcs)
  then show ?case by (cases s) (auto split: option.split yaml.split)
qed simp

lemma scalar_labels_unreadable:
  "yaml_get m ''labels'' = Some (Y_int n) \<Longrightarrow> canonical_service L m = None"
  by (simp add: canonical_service_def convert_key_def labels_as_mapping_def yaml_iter_def)

text \<open>
  A compose file one of whose services has a number as its \<open>labels\<close> is not turned away:
  whatever the round trip writes for it, the comparison raises, outside every handler.
\<close>

lemma scalar_labels_raise:
  assumes "yl_loads L text = Some doc" "compose_services_of doc = Some svcs"
    "(name, Y_map m) \<in> set svcs" "yaml_get m ''labels'' = Some (Y_int n)"
    and "rt_load R text = Some rdoc" "loaded_services rdoc \<noteq> None"
    and "dump_text R (fst (apply_values R L rdoc)) = Some out" "yl_loads L out \<noteq> None"
  shows "normalize R L text = Format_raised"
proof -
  have "canonical_services L svcs = None"
    using canonical_services_None [OF assms(3) scalar_labels_unreadable [OF assms(4)]] .
  then have "canonical_projection L doc = None"
    using assms(2) by (auto simp: canonical_projection_def compose_services_of_def split: yaml.splits option.splits)
  then have "same_meaning L text out = None"
    using assms(1,8) by (auto simp: same_meaning_def is_equivalent_def split: option.split)
  then show ?thesis using assms(5-7) by (auto simp: normalize_def split: prod.splits)
qed

lemma normalize_sound:
  assumes "eq_ok L" "normalize R L text = Formatted f"
  shows "is_equivalent L text (nf_content f) = Some True \<and> comments text = comments (nf_content f) \<and>
    rt_lint R (nf_content f) \<and> (nf_changed f \<longleftrightarrow> nf_content f \<noteq> text)"
proof (rule normalize_cases [OF assms(2)])
  fix reshaped skipped order_skipped
  assume n: "same_meaning L text reshaped = Some True"
    "apply_order R L reshaped = Some (nf_content f, order_skipped)"
    "rt_lint R (nf_content f)" "nf_changed f \<longleftrightarrow> nf_content f \<noteq> text"
  then obtain steps where "order_loop R L steps reshaped [] = Some (nf_content f, order_skipped)"
    by (auto simp: apply_order_def bind_eq_Some_conv)
  then have "same_meaning L text (nf_content f) = Some True"
    by (rule order_loop_safe [OF assms(1) _ n(1)])
  then show ?thesis using n(3,4) by (simp add: same_meaning_True)
qed

section \<open>Properties\<close>

text \<open>
  C23: The formatter changes nothing but representation: a text it returns means to Docker what
  the text it was given means (labels and environment as mappings, ports as strings, no
  \<open>version\<close>), holds the same comments, each as often, and passed the linter; \<open>changed\<close> tells
  whether it differs.
\<close>
theorem normalize_safe:
  assumes "eq_ok L" "normalize R L text = Formatted f"
  shows "is_equivalent L text (nf_content f) = Some True \<and> comments text = comments (nf_content f) \<and>
    rt_lint R (nf_content f) \<and> (nf_changed f \<longleftrightarrow> nf_content f \<noteq> text)"
  by (rule normalize_sound [OF assms])

text \<open>
  Reordering keys only moves lines: what a reorder returns is made of the lines of the text,
  each once with its line break, none lost and none added, whatever the positions the
  parser reported.
\<close>
theorem reorder_moves_lines:
  assumes "reorder_mapping R text path rank = Some out"
  shows "\<exists>ls. out = concat ls \<and> mset ls = mset (splitlines_keep text)"
proof -
  have "out = text" if "rt_load R text = None \<or> (\<exists>doc. rt_load R text = Some doc \<and> mapping_at doc path = None)"
    using that assms by (auto simp: reorder_mapping_def)
  moreover have ?thesis if l: "rt_load R text = Some doc" "mapping_at doc path = Some (merge, es)" for doc merge es
  proof -
    define keys where "keys = map fst es"
    define order where "order = sort_key (\<lambda>i. rank (keys ! i)) [0..<length keys]"
    define rows where "rows = map (fst \<circ> the) (map (\<lambda>(k, c, p, n). p) es)"
    have "out = text \<or> 2 \<le> length es \<and> sorted_wrt (<) rows \<and>
        (\<exists>indent ls. reorder_lines (splitlines_keep text) (path \<noteq> []) indent rows order = Some ls \<and> out = concat ls)"
      using assms l by (auto simp: reorder_mapping_def Let_def keys_def order_def rows_def split: if_splits)
    moreover have "mset order = mset [0..<length rows]"
      by (simp add: order_def rows_def keys_def)
    moreover have "2 \<le> length es \<Longrightarrow> rows \<noteq> []" by (auto simp: rows_def)
    ultimately show ?thesis using reorder_lines_perm concat_splitlines_keep by metis
  qed
  ultimately show ?thesis using concat_splitlines_keep by (metis not_Some_eq surj_pair)
qed

section \<open>Witnesses\<close>

definition example_lines :: "pystr list" where
  "example_lines =
     [''services:'' @ [CHR 0x0A], ''  web:'' @ [CHR 0x0A], ''    restart: always'' @ [CHR 0x0A],
      ''    # pinned'' @ [CHR 0x0A], ''    image: a:1'' @ [CHR 0x0A]]"

definition sorted_lines :: "pystr list" where
  "sorted_lines =
     [''services:'' @ [CHR 0x0A], ''  web:'' @ [CHR 0x0A], ''    # pinned'' @ [CHR 0x0A],
      ''    image: a:1'' @ [CHR 0x0A], ''    restart: always'' @ [CHR 0x0A]]"

definition example_service :: "(nat \<times> nat) \<Rightarrow> (nat \<times> nat) \<Rightarrow> bool \<Rightarrow> rnode" where
  "example_service p q restart_first =
     (let restart = (Y_str ''restart'', None, Some p, R_scalar [] (Y_str ''always''));
          img = (Y_str ''image'', None, Some q, R_scalar [] (Y_str ''a:1''))
      in R_map [] False
           [(Y_str ''services'', None, Some (0, 0),
             R_map [] False [(Y_str ''web'', None, Some (1, 2),
               R_map [] False (if restart_first then [restart, img] else [img, restart]))])])"

definition example_round_trip :: round_trip where
  "example_round_trip =
     \<lparr>rt_load = (\<lambda>t. if t = concat example_lines then Some (example_service (2, 4) (4, 4) True)
                 else if t = concat sorted_lines then Some (example_service (4, 4) (3, 4) False)
                 else None),
      rt_dump = (\<lambda>n. Some (concat example_lines)), rt_str = (\<lambda>n. []), rt_lint = (\<lambda>t. True)\<rparr>"

definition example_yaml :: yaml_lib where
  "example_yaml =
     \<lparr>yl_loads = (\<lambda>t. if t \<in> {concat example_lines, concat sorted_lines}
        then Some (Y_map [(Y_str ''services'', Y_map [(Y_str ''web'',
          Y_map [(Y_str ''restart'', Y_str ''always''), (Y_str ''image'', Y_str ''a:1'')])])])
        else None),
      yl_show = (\<lambda>v. []), yl_repr = (\<lambda>v. []), yl_eq = (=)\<rparr>"

lemma example_eq_ok: "eq_ok example_yaml"
proof -
  have eq: "yl_eq example_yaml = (=)" by (simp add: example_yaml_def)
  have "scalar_eq example_yaml a b \<longleftrightarrow>
      whole_number a = whole_number b \<and> (whole_number a = None \<longrightarrow> a = b)" for a b
    by (cases a; cases b) (simp_all add: scalar_eq_def eq)
  then show ?thesis unfolding eq_ok_def by metis
qed

lemma example_steps:
  "reorder_mapping example_round_trip (concat example_lines) [] (top_level_rank (yl_show example_yaml)) =
     Some (concat example_lines)"
  "reorder_mapping example_round_trip (concat example_lines) [Y_str ''services'', Y_str ''web'']
     (key_rank_of (yl_show example_yaml) SERVICE_KEY_ORDER) = Some (concat sorted_lines)"
  by code_simp+

lemma example_comments:
  "comments (concat example_lines) = {#''# pinned''#}" "comments (concat sorted_lines) = {#''# pinned''#}"
proof -
  have "List.map_filter (comment_of None False None None) (splitlines (concat example_lines)) = [''# pinned'']"
    "List.map_filter (comment_of None False None None) (splitlines (concat sorted_lines)) = [''# pinned'']"
    by code_simp+
  then show "comments (concat example_lines) = {#''# pinned''#}" "comments (concat sorted_lines) = {#''# pinned''#}"
    by (simp_all only: comments_def mset.simps)
qed

lemma example_same:
  "same_meaning example_yaml (concat example_lines) (concat example_lines) = Some True"
  "same_meaning example_yaml (concat example_lines) (concat sorted_lines) = Some True"
proof -
  have "is_equivalent example_yaml (concat example_lines) (concat example_lines) = Some True"
    "is_equivalent example_yaml (concat example_lines) (concat sorted_lines) = Some True"
    by code_simp+
  then show "same_meaning example_yaml (concat example_lines) (concat example_lines) = Some True"
    "same_meaning example_yaml (concat example_lines) (concat sorted_lines) = Some True"
    unfolding same_meaning_True example_comments by simp_all
qed

lemma example_loads:
  "rt_load example_round_trip (concat example_lines) = Some (example_service (2, 4) (4, 4) True)"
  "loaded_services (example_service (2, 4) (4, 4) True) \<noteq> None"
  "dump_text example_round_trip n = Some (concat example_lines)"
  "rt_lint example_round_trip t" "concat sorted_lines \<noteq> concat example_lines"
  "snd (apply_values example_round_trip example_yaml (example_service (2, 4) (4, 4) True)) = []"
  by code_simp+

lemma example_normalizes:
  "normalize example_round_trip example_yaml (concat example_lines) =
     Formatted \<lparr>nf_content = concat sorted_lines, nf_changed = True, nf_skipped = []\<rparr>"
proof -
  obtain es svcs where ld: "loaded_services (example_service (2, 4) (4, 4) True) = Some (es, svcs)"
    using example_loads(2) by fastforce
  have "reorder_steps example_yaml svcs =
      [([], top_level_rank (yl_show example_yaml), ''N-005''),
       ([Y_str ''services'', Y_str ''web''], key_rank_of (yl_show example_yaml) SERVICE_KEY_ORDER, ''N-006'')]"
    using ld by (auto simp: loaded_services_def example_service_def Let_def reorder_steps_def)
  then have "apply_order example_round_trip example_yaml (concat example_lines) = Some (concat sorted_lines, [])"
    by (simp add: apply_order_def example_loads(1) ld example_steps example_same)
  then show ?thesis
    by (simp add: normalize_def finish_format_def example_loads example_same ld split_beta)
qed

theorem normalize_safe_witness:
  "is_equivalent example_yaml (concat example_lines) (concat sorted_lines) = Some True"
  using normalize_safe [OF example_eq_ok example_normalizes] by simp

theorem reorder_moves_lines_witness:
  "\<exists>ls. concat sorted_lines = concat ls \<and> mset ls = mset (splitlines_keep (concat example_lines))"
  by (rule reorder_moves_lines [of example_round_trip _ "[Y_str ''services'', Y_str ''web'']"
        "key_rank_of (\<lambda>v. []) SERVICE_KEY_ORDER"]) code_simp

end
