(* ===== verification/NormEngine.thy ===== *)
theory NormEngine
  imports NormFormatter ProposalEngine SecretsTools
begin

text \<open>
  \<open>normalization/scanner.py\<close>, \<open>normalization/generator.py\<close> and \<open>normalization/engine.py\<close>: the
  scan of a repository for compose files, the reasoning layer's rewrite with its gates, and
  the sweep that opens one pull request per node. Git calls, answers and rows are those of
  the proposal engine's world, with listing and deleting. \<open>None\<close> for a sweep means that it
  raised. Two marks of a pull request's text lie outside the 8-bit characters and are
  parameters; files are read one after the other, not eight at a time.
\<close>

record norm_settings =
  ns_repo :: "pystr option"
  ns_base :: pystr
  ns_has_git :: bool
  ns_glob :: pystr
  ns_shared :: pystr
  ns_max_files :: int
  ns_dry_run :: bool
  ns_rename :: bool
  ns_label :: pystr
  ns_threshold :: rat

record norm_answer =
  na_file :: pystr
  na_confidence :: rat
  na_commit_message :: pystr
  na_reasoning :: pystr

record norm_oracles =
  no_base :: oracles
  no_list :: "git_event list \<Rightarrow> git_error + pystr list"
  no_delete :: "git_event list \<Rightarrow> git_error option"
  no_answer :: "git_event list \<Rightarrow> norm_answer option"
  no_where :: "pystr \<Rightarrow> pystr"
  no_dash :: pystr
  no_arrow :: pystr

section \<open>The schedule\<close>

text \<open>\<open>int(s)\<close> of a text in 8-bit characters: a sign, digits, single underscores between them.\<close>

fun digits_from :: "nat \<Rightarrow> bool \<Rightarrow> pystr \<Rightarrow> nat option" where
  "digits_from n digit [] = (if digit then Some n else None)"
| "digits_from n digit (c # s) =
     (if is_ascii_digit c then digits_from (10 * n + (code_point c - 48)) True s
      else if c = CHR ''_'' \<and> digit then digits_from n False s
      else None)"

definition py_int :: "pystr \<Rightarrow> int option" where
  "py_int s =
     (let t = strip s in
      if starts_with t ''-'' then map_option (\<lambda>n. - int n) (digits_from 0 False (tl t))
      else map_option int (digits_from 0 False (if starts_with t ''+'' then tl t else t)))"

datatype sweep_trigger = Cron pystr | Interval int

definition DEFAULT_SCHEDULE :: pystr where
  "DEFAULT_SCHEDULE = ''0 7 * * wed,sat''"

definition PRESETS :: "(pystr \<times> pystr) list" where
  "PRESETS = [(''daily'', ''0 7 * * *''), (''weekly'', ''0 7 * * sat''), (''monthly'', ''0 7 1 * *'')]"

text \<open>\<open>cron_ok\<close> is the scheduler's own reading of a crontab.\<close>

definition schedule_trigger :: "(pystr \<Rightarrow> bool) \<Rightarrow> pystr \<Rightarrow> sweep_trigger" where
  "schedule_trigger cron_ok schedule =
     (let value = strip schedule;
          crontab = (case map_of PRESETS (lower value) of None \<Rightarrow> value | Some c \<Rightarrow> c)
      in if length (words crontab) = 5 then
           (if cron_ok crontab then Cron crontab else Cron DEFAULT_SCHEDULE)
         else (case py_int value of
                 Some n \<Rightarrow> if 0 < n then Interval n else Cron DEFAULT_SCHEDULE
               | None \<Rightarrow> Cron DEFAULT_SCHEDULE))"

text \<open>Whatever the setting, the sweep gets a trigger that can fire.\<close>

lemma schedule_fires:
  assumes "cron_ok DEFAULT_SCHEDULE"
  shows "case schedule_trigger cron_ok s of Cron c \<Rightarrow> cron_ok c | Interval n \<Rightarrow> 0 < n"
  using assms by (simp add: schedule_trigger_def Let_def split: option.split)

section \<open>The scan\<close>

definition MISNAMED_FILENAMES :: "pystr list" where
  "MISNAMED_FILENAMES = [''docker-compose.yml'', ''docker-compose.yaml'', ''compose.yml'']"

record file_report =
  fr_path :: pystr
  fr_node :: pystr
  fr_stack :: pystr
  fr_content :: pystr
  fr_findings :: "norm_finding list"
  fr_misnamed :: bool

definition node_and_stack :: "pystr \<Rightarrow> (pystr \<times> pystr) option" where
  "node_and_stack path =
     (case split_at_char (CHR ''/'') path of
        [first, node, stack, file] \<Rightarrow> if first = ''nodes'' then Some (node, stack) else None
      | _ \<Rightarrow> None)"

definition file_name :: "pystr \<Rightarrow> pystr" where
  "file_name path = snd (snd (rpartition_at (CHR ''/'') path))"

text \<open>The paths a scan reads: path, node, stack, whether it is misnamed.\<close>

definition scan_match ::
  "pystr \<Rightarrow> pystr option \<Rightarrow> pystr \<Rightarrow> (pystr \<times> pystr \<times> pystr \<times> bool) option" where
  "scan_match glob only path =
     (case node_and_stack path of
        None \<Rightarrow> None
      | Some (node, stack) \<Rightarrow>
          (let misnamed = file_name path \<in> set MISNAMED_FILENAMES in
           if only \<noteq> None \<and> only \<noteq> Some node then None
           else if glob_match glob path \<or> misnamed then Some (path, node, stack, misnamed)
           else None))"

definition report_of ::
  "yaml_lib \<Rightarrow> norm_oracles \<Rightarrow> pystr list \<Rightarrow> pystr \<times> pystr \<times> pystr \<times> bool \<Rightarrow> pystr \<Rightarrow> file_report" where
  "report_of L g shared m content =
     (case m of (path, node, stack, misnamed) \<Rightarrow>
        \<lparr>fr_path = path, fr_node = node, fr_stack = stack, fr_content = content,
         fr_findings =
           (case yl_loads L content of
              None \<Rightarrow> [not_compose path (''doesn'' @ [CHR 0x27] @ ''t parse as YAML'' @ no_where g content)]
            | Some doc \<Rightarrow> check_document L doc content path shared),
         fr_misnamed = misnamed\<rparr>)"

text \<open>Reads in turn; a file that cannot be read is left out.\<close>

fun read_matches ::
  "yaml_lib \<Rightarrow> norm_oracles \<Rightarrow> pystr \<Rightarrow> pystr \<Rightarrow> pystr list
     \<Rightarrow> (pystr \<times> pystr \<times> pystr \<times> bool) list \<Rightarrow> pworld \<Rightarrow> pworld \<times> file_report list" where
  "read_matches L g repo ref shared [] w = (w, [])"
| "read_matches L g repo ref shared (m # ms) w =
     (let w1 = emit (G_read repo (fst m) ref) w;
          (w2, rs) = read_matches L g repo ref shared ms w1
      in case go_read (no_base g) (pw_trace w1) of
           Inl err \<Rightarrow> (w2, rs)
         | Inr content \<Rightarrow> (w2, report_of L g shared m content # rs))"

text \<open>\<open>reports.setdefault(node, []).append(report)\<close>.\<close>

fun group_reports :: "file_report list \<Rightarrow> (pystr \<times> file_report list) list \<Rightarrow> (pystr \<times> file_report list) list" where
  "group_reports [] acc = acc"
| "group_reports (r # rs) acc =
     group_reports rs
       (dict_set (fr_node r) ((case map_of acc (fr_node r) of None \<Rightarrow> [] | Some l \<Rightarrow> l) @ [r]) acc)"

definition scan ::
  "yaml_lib \<Rightarrow> norm_oracles \<Rightarrow> norm_settings \<Rightarrow> pystr option \<Rightarrow> pworld
     \<Rightarrow> pworld \<times> (git_error + (pystr \<times> file_report list) list)" where
  "scan L g st only w =
     (let repo = (case ns_repo st of None \<Rightarrow> [] | Some r \<Rightarrow> r);
          w1 = emit (G_list repo (ns_base st)) w
      in case no_list g (pw_trace w1) of
           Inl err \<Rightarrow> (w1, Inl err)
         | Inr paths \<Rightarrow>
             (let (w2, rs) = read_matches L g repo (ns_base st) (network_names (ns_shared st))
                    (List.map_filter (scan_match (ns_glob st) only) paths) w1
              in (w2, Inr (group_reports rs []))))"

section \<open>The rewrite of the reasoning layer\<close>

datatype norm_rejection =
    Norm_unavailable
  | Norm_confidence_below rat rat
  | Norm_empty
  | Norm_not_yaml
  | Norm_not_equivalent

record norm_result =
  nr_ok :: bool
  nr_confidence :: rat
  nr_rejection :: "norm_rejection option"
  nr_content :: pystr
  nr_commit_message :: pystr
  nr_reasoning :: pystr

definition norm_rejected :: "rat \<Rightarrow> norm_rejection \<Rightarrow> norm_result" where
  "norm_rejected confidence why =
     \<lparr>nr_ok = False, nr_confidence = confidence, nr_rejection = Some why, nr_content = [],
      nr_commit_message = [], nr_reasoning = []\<rparr>"

text \<open>\<open>escalate\<close>; \<open>None\<close>: the comparison raised.\<close>

definition escalate ::
  "yaml_lib \<Rightarrow> rat \<Rightarrow> pystr \<Rightarrow> pystr \<Rightarrow> norm_answer option \<Rightarrow> norm_result option" where
  "escalate L threshold path current raw =
     (case raw of
        None \<Rightarrow> Some (norm_rejected 0 Norm_unavailable)
      | Some a \<Rightarrow>
          (let scrubbed = fst (scrub_credentials (na_file a));
               content = untab scrubbed;
               reject = (\<lambda>why. Some (norm_rejected (na_confidence a) why))
           in if na_confidence a < threshold then reject (Norm_confidence_below (na_confidence a) threshold)
              else if strip scrubbed = [] then reject Norm_empty
              else if yl_loads L content = None then reject Norm_not_yaml
              else case is_equivalent L current content of
                None \<Rightarrow> None
              | Some False \<Rightarrow> reject Norm_not_equivalent
              | Some True \<Rightarrow>
                  Some \<lparr>nr_ok = True, nr_confidence = na_confidence a, nr_rejection = None,
                    nr_content = content,
                    nr_commit_message = or_message (na_commit_message a) (''style: normalize '' @ path),
                    nr_reasoning = fst (scrub_credentials (na_reasoning a))\<rparr>))"

section \<open>One file\<close>

record file_change =
  fc_old_path :: pystr
  fc_new_path :: pystr
  fc_content :: pystr
  fc_rename :: bool
  fc_confidence :: rat

text \<open>\<open>path.rsplit("/", 1)[0] + "/compose.yaml"\<close>.\<close>

definition renamed_path :: "pystr \<Rightarrow> pystr" where
  "renamed_path path =
     (case rpartition_at (CHR ''/'') path of
        (dir, found, name) \<Rightarrow> (if found then dir else name) @ ''/compose.yaml'')"

definition target_path :: "norm_settings \<Rightarrow> file_report \<Rightarrow> pystr" where
  "target_path st r = (if fr_misnamed r \<and> ns_rename st then renamed_path (fr_path r) else fr_path r)"

definition ask_escalation ::
  "yaml_lib \<Rightarrow> norm_oracles \<Rightarrow> norm_settings \<Rightarrow> file_report \<Rightarrow> pystr \<Rightarrow> pworld
     \<Rightarrow> pworld \<times> norm_result option" where
  "ask_escalation L g st r current w =
     (let w1 = emit (Ask_normal_form (fr_path r)) w
      in (w1, escalate L (ns_threshold st) (fr_path r) current (no_answer g (pw_trace w1))))"

text \<open>The text a file gets and its confidence: \<open>Some None\<close> for a file left alone.\<close>

definition normal_text ::
  "round_trip \<Rightarrow> yaml_lib \<Rightarrow> norm_oracles \<Rightarrow> norm_settings \<Rightarrow> file_report \<Rightarrow> pworld
     \<Rightarrow> pworld \<times> (pystr \<times> rat) option option" where
  "normal_text R L g st r w =
     (case normalize R L (fr_content r) of
        Format_raised \<Rightarrow> (w, None)
      | Not_formatted \<Rightarrow>
          (case ask_escalation L g st r (fr_content r) w of
             (w1, None) \<Rightarrow> (w1, None)
           | (w1, Some e) \<Rightarrow> (w1, Some (if nr_ok e then Some (nr_content e, nr_confidence e) else None)))
      | Formatted f \<Rightarrow>
          if nf_skipped f = [] then (w, Some (Some (nf_content f, 1)))
          else (case ask_escalation L g st r (nf_content f) w of
                  (w1, None) \<Rightarrow> (w1, None)
                | (w1, Some e) \<Rightarrow>
                    (w1, Some (Some (if nr_ok e then (nr_content e, nr_confidence e)
                                     else (nf_content f, 1))))))"

definition process_file ::
  "round_trip \<Rightarrow> yaml_lib \<Rightarrow> norm_oracles \<Rightarrow> norm_settings \<Rightarrow> file_report \<Rightarrow> pworld
     \<Rightarrow> pworld \<times> file_change option option" where
  "process_file R L g st r w =
     (if list_ex (\<lambda>f. fi_rule f = ''R-008'') (fr_findings r) then (w, Some None)
      else case normal_text R L g st r w of
        (w1, None) \<Rightarrow> (w1, None)
      | (w1, Some None) \<Rightarrow> (w1, Some None)
      | (w1, Some (Some (content, confidence))) \<Rightarrow>
          (let new_path = target_path st r;
               renamed = (new_path \<noteq> fr_path r)
           in (w1, Some (if content = fr_content r \<and> \<not> renamed then None
                         else Some \<lparr>fc_old_path = fr_path r, fc_new_path = new_path, fc_content = content,
                                fc_rename = renamed, fc_confidence = confidence\<rparr>))))"

fun process_files ::
  "round_trip \<Rightarrow> yaml_lib \<Rightarrow> norm_oracles \<Rightarrow> norm_settings \<Rightarrow> file_report list \<Rightarrow> pworld
     \<Rightarrow> pworld \<times> file_change list option" where
  "process_files R L g st [] w = (w, Some [])"
| "process_files R L g st (r # rs) w =
     (case process_file R L g st r w of
        (w1, None) \<Rightarrow> (w1, None)
      | (w1, Some c) \<Rightarrow>
          (case process_files R L g st rs w1 of
             (w2, None) \<Rightarrow> (w2, None)
           | (w2, Some cs) \<Rightarrow> (w2, Some (case c of None \<Rightarrow> cs | Some x \<Rightarrow> x # cs))))"

section \<open>One node\<close>

definition new_line :: pystr where "new_line = [CHR 0x0A]"

definition pr_body :: "norm_oracles \<Rightarrow> norm_settings \<Rightarrow> (yaml \<Rightarrow> pystr) \<Rightarrow> pystr \<Rightarrow> file_change list
    \<Rightarrow> norm_finding list \<Rightarrow> int \<Rightarrow> pystr" where
  "pr_body g st show node changes findings truncated =
     join new_line
       ([''Normalization pass for `'' @ node @ ''` '' @ no_dash g @ '' formatting only, no behavior change.''] @
        (let renamed = filter fc_rename changes in
         if renamed = [] then []
         else [[], ''**Note:** this PR renames the following stacks'' @ [CHR 0x27] @ '' compose file to '' @
                ''`compose.yaml` '' @ no_dash g @ '' the deploy pipeline could not see them under '' @
                ''their previous filename, so they become deploy-visible for the '' @
                ''first time on merge:''] @
              map (\<lambda>c. ''- `'' @ fc_old_path c @ ''` '' @ no_arrow g @ '' `'' @ fc_new_path c @ ''`'') renamed) @
        [[], ''**Files changed:**''] @
        map (\<lambda>c. ''- `'' @ fc_new_path c @ ''`'') changes @
        (if truncated \<noteq> 0
         then [[], ''_'' @ show_int truncated @ '' additional file(s) on this node were left for a future pass '' @
                ''(NORMALIZATION_MAX_FILES_PER_PR='' @ show_int (ns_max_files st) @ '')._'']
         else []) @
        (if findings = [] then []
         else [[], ''**Reported, not auto-fixed** (needs a human decision):''] @
              map (\<lambda>f. ''- `'' @ fi_path f @ ''`'' @
                  (if yaml_true (fi_service f) then '' ('' @ yaml_text show (the (fi_service f)) @ '')'' else []) @
                  '': '' @ fi_rule f @ '' '' @ no_dash g @ '' '' @ fi_detail f) findings))"

text \<open>\<open>xs[:n]\<close>, a negative bound counting from the end.\<close>

definition prefix_of :: "int \<Rightarrow> 'a list \<Rightarrow> 'a list" where
  "prefix_of n xs = (if 0 \<le> n then take (nat n) xs else take (length xs - nat (- n)) xs)"

datatype node_reply =
    Node_open pystr proposal
  | Node_unchanged pystr "norm_finding list"
  | Node_dry_run pystr "file_change list" pystr "norm_finding list"
  | Node_git_failed pystr
  | Node_opened pystr proposal "norm_finding list"

definition node_key :: "pystr \<Rightarrow> pystr" where
  "node_key node = ''nodes/'' @ node"

text \<open>The open proposal of the node, retired if its pull request has finished.\<close>

definition node_check ::
  "norm_oracles \<Rightarrow> norm_settings \<Rightarrow> pystr \<Rightarrow> pworld \<Rightarrow> pworld \<times> proposal option" where
  "node_check g st node w =
     (case find_open_by_path (node_key node) Finding_normalization (pw_rows w) of
        None \<Rightarrow> (w, None)
      | Some p \<Rightarrow>
          (let (w1, finished) = retire_if_finished (no_base g) (ns_has_git st) (ns_repo st) p w
           in (w1, if finished then None else Some p)))"

definition node_findings :: "norm_settings \<Rightarrow> file_report list \<Rightarrow> norm_finding list" where
  "node_findings st reports =
     concat (map fr_findings reports) @
     (if ns_rename st then []
      else map (\<lambda>r. norm_finding ''N-100'' (fr_path r) None
             ''misnamed compose file; not renamed (NORMALIZATION_RENAME_MISNAMED=false)'')
             (filter fr_misnamed reports))"

definition norm_commit_message :: "pystr \<Rightarrow> pystr" where
  "norm_commit_message node = ''style: normalize compose files on '' @ node"

text \<open>The commits of the changes; \<open>False\<close>: a git call failed. A new path is written before the old one goes.\<close>

fun commit_changes ::
  "norm_oracles \<Rightarrow> pystr \<Rightarrow> pystr \<Rightarrow> pystr \<Rightarrow> file_change list \<Rightarrow> pworld \<Rightarrow> pworld \<times> bool" where
  "commit_changes g repo branch msg [] w = (w, True)"
| "commit_changes g repo branch msg (c # cs) w =
     (let w1 = emit (G_commit repo (fc_new_path c) (fc_content c) branch msg) w in
      if go_commit (no_base g) (pw_trace w1) \<noteq> None then (w1, False)
      else if \<not> fc_rename c then commit_changes g repo branch msg cs w1
      else
        (let w2 = emit (G_delete repo (fc_old_path c) branch msg) w1 in
         if no_delete g (pw_trace w2) \<noteq> None then (w2, False)
         else commit_changes g repo branch msg cs w2))"

definition norm_open ::
  "norm_oracles \<Rightarrow> norm_settings \<Rightarrow> pystr \<Rightarrow> pystr \<Rightarrow> file_change list \<Rightarrow> pystr \<Rightarrow> pworld
     \<Rightarrow> pworld \<times> (pystr \<times> int) option" where
  "norm_open g st node branch changes body w =
     (let repo = (case ns_repo st of None \<Rightarrow> [] | Some r \<Rightarrow> r); base = ns_base st in
      if \<not> feature_branch branch base then (w, None)
      else
        (let w1 = emit (G_branch repo branch base) w in
         if go_branch (no_base g) (pw_trace w1) \<noteq> None then (w1, None)
         else (case commit_changes g repo branch (norm_commit_message node) changes w1 of
                 (w2, False) \<Rightarrow> (w2, None)
               | (w2, True) \<Rightarrow>
                   (let w3 = emit (G_open repo (''Normalize compose files on '' @ node) body branch base
                                     (ns_label st)) w2
                    in case go_open (no_base g) (pw_trace w3) of
                         Inl err \<Rightarrow> (w3, None)
                       | Inr opened \<Rightarrow> (w3, Some opened)))))"

definition node_branch :: "pystr \<Rightarrow> pystr \<Rightarrow> pystr" where
  "node_branch node tag = ''normalize/'' @ node @ ''-'' @ tag"

definition norm_effects ::
  "norm_oracles \<Rightarrow> norm_settings \<Rightarrow> bool \<Rightarrow> pystr \<Rightarrow> pystr \<Rightarrow> norm_finding list \<Rightarrow> pystr
     \<Rightarrow> file_change list \<Rightarrow> pworld \<Rightarrow> pworld \<times> node_reply" where
  "norm_effects g st dry_run actor node findings body changes w =
     (if changes = [] then (w, Node_unchanged node findings)
      else if dry_run then (w, Node_dry_run node changes body findings)
      else
        (let branch = node_branch node (go_suffix (no_base g) (pw_trace w)) in
         case norm_open g st node branch changes body w of
           (w1, None) \<Rightarrow> (w1, Node_git_failed node)
         | (w1, Some (url, number)) \<Rightarrow>
             (let (w2, row) = add_proposal (no_base g) Finding_normalization
                (\<lambda>p. p\<lparr>pr_service_id := None, pr_pr_url := url, pr_pr_number := Some number,
                       pr_branch := branch, pr_file_path := node_key node,
                       pr_diff := join new_line (map fc_new_path changes),
                       pr_status := Proposal_open,
                       pr_confidence := Some (Min (set (map fc_confidence changes))),
                       pr_actor := actor\<rparr>) w1
              in (emit (Notified (Some url)) w2, Node_opened node row findings))))"

definition normalize_node ::
  "round_trip \<Rightarrow> yaml_lib \<Rightarrow> norm_oracles \<Rightarrow> norm_settings \<Rightarrow> bool \<Rightarrow> pystr \<Rightarrow> pystr \<times> file_report list
     \<Rightarrow> pworld \<Rightarrow> pworld \<times> node_reply option" where
  "normalize_node R L g st dry_run actor nr w =
     (case nr of (node, reports) \<Rightarrow>
        (case node_check g st node w of
           (w1, Some p) \<Rightarrow> (w1, Some (Node_open node p))
         | (w1, None) \<Rightarrow>
             (let findings = node_findings st reports in
              case process_files R L g st reports w1 of
                (w2, None) \<Rightarrow> (w2, None)
              | (w2, Some all_changes) \<Rightarrow>
                  (let truncated = max 0 (int (length all_changes) - ns_max_files st);
                       changes = prefix_of (ns_max_files st) all_changes;
                       body = pr_body g st (yl_show L) node changes findings truncated;
                       (w3, reply) = norm_effects g st dry_run actor node findings body changes w2
                   in (w3, Some reply)))))"

section \<open>The sweep\<close>

datatype sweep_reply =
    Sweep_not_configured
  | Sweep_busy
  | Sweep_scan_failed
  | Sweep_raised
  | Swept "node_reply list" nat

fun sweep_nodes ::
  "round_trip \<Rightarrow> yaml_lib \<Rightarrow> norm_oracles \<Rightarrow> norm_settings \<Rightarrow> bool \<Rightarrow> pystr
     \<Rightarrow> (pystr \<times> file_report list) list \<Rightarrow> pworld \<Rightarrow> pworld \<times> node_reply list option" where
  "sweep_nodes R L g st dry_run actor [] w = (w, Some [])"
| "sweep_nodes R L g st dry_run actor (nr # nrs) w =
     (case normalize_node R L g st dry_run actor nr w of
        (w1, None) \<Rightarrow> (w1, None)
      | (w1, Some reply) \<Rightarrow>
          (case sweep_nodes R L g st dry_run actor nrs w1 of
             (w2, None) \<Rightarrow> (w2, None)
           | (w2, Some replies) \<Rightarrow> (w2, Some (reply # replies))))"

text \<open>\<open>run_sweep\<close>; \<open>busy\<close>: the sweep lock is taken.\<close>

definition run_sweep ::
  "round_trip \<Rightarrow> yaml_lib \<Rightarrow> norm_oracles \<Rightarrow> norm_settings \<Rightarrow> bool \<Rightarrow> pystr option \<Rightarrow> bool option \<Rightarrow> pystr
     \<Rightarrow> pworld \<Rightarrow> pworld \<times> sweep_reply" where
  "run_sweep R L g st busy only dry_run actor w =
     (if \<not> ns_has_git st \<or> \<not> truthy (ns_repo st) then (w, Sweep_not_configured)
      else if busy then (w, Sweep_busy)
      else case scan L g st only w of
        (w1, Inl err) \<Rightarrow> (w1, Sweep_scan_failed)
      | (w1, Inr grouped) \<Rightarrow>
          (case sweep_nodes R L g st (case dry_run of None \<Rightarrow> ns_dry_run st | Some b \<Rightarrow> b) actor grouped w1 of
             (w2, None) \<Rightarrow> (w2, Sweep_raised)
           | (w2, Some replies) \<Rightarrow> (w2, Swept replies (sum_list (map (\<lambda>nr. length (snd nr)) grouped)))))"

end
