(* ===== verification/NormProps.thy ===== *)
theory NormProps
  imports NormEngine
begin

text \<open>
  What a normalization sweep does to the repository: an invariant over the events it adds to
  the trace, proved for every step of the sweep, and the proposals it leaves open.
\<close>

section \<open>Events, with the one before\<close>

fun good_events :: "(git_event option \<Rightarrow> git_event \<Rightarrow> bool) \<Rightarrow> git_event option \<Rightarrow> git_event list \<Rightarrow> bool" where
  "good_events ok prev [] = True"
| "good_events ok prev (ev # evs) = (ok prev ev \<and> good_events ok (Some ev) evs)"

definition weak_ok :: "(git_event option \<Rightarrow> git_event \<Rightarrow> bool) \<Rightarrow> bool" where
  "weak_ok ok \<longleftrightarrow> (\<forall>prev ev. ok None ev \<longrightarrow> ok prev ev)"

lemma good_events_weaken: "weak_ok ok \<Longrightarrow> good_events ok None evs \<Longrightarrow> good_events ok prev evs"
  by (cases evs) (auto simp: weak_ok_def)

lemma good_events_append:
  "weak_ok ok \<Longrightarrow> good_events ok prev a \<Longrightarrow> good_events ok None b \<Longrightarrow> good_events ok prev (a @ b)"
  by (induction a arbitrary: prev) (auto intro: good_events_weaken)

text \<open>The trace of a world extended by good events.\<close>

definition grows :: "(git_event option \<Rightarrow> git_event \<Rightarrow> bool) \<Rightarrow> pworld \<Rightarrow> pworld \<Rightarrow> bool" where
  "grows ok w w' \<longleftrightarrow> (\<exists>evs. pw_trace w' = pw_trace w @ evs \<and> good_events ok None evs)"

lemma grows_refl [simp]: "grows ok w w"
  by (simp add: grows_def)

lemma grows_trans: "weak_ok ok \<Longrightarrow> grows ok a b \<Longrightarrow> grows ok b c \<Longrightarrow> grows ok a c"
  by (auto simp: grows_def intro: good_events_append)

lemma grows_emit: "weak_ok ok \<Longrightarrow> grows ok w w1 \<Longrightarrow> ok None ev \<Longrightarrow> grows ok w (emit ev w1)"
  by (auto simp: grows_def emit_def intro!: good_events_append)

lemma grows_same: "grows ok w w1 \<Longrightarrow> pw_trace w2 = pw_trace w1 \<Longrightarrow> grows ok w w2"
  by (simp add: grows_def)

lemma trace_add_proposal [simp]: "pw_trace (fst (add_proposal g f cols w)) = pw_trace w"
  by (simp add: add_proposal_def case_prod_beta Let_def)

lemma trace_set_status [simp]: "pw_trace (fst (world_set_status g i s r w)) = pw_trace w"
  by (simp add: world_set_status_def case_prod_beta Let_def)

section \<open>What a sweep may do\<close>

text \<open>
  Every commit is a rewrite, equivalent to it, of a file read, at its path or at the
  canonical one beside it, on a feature branch; a delete comes right after the commit that
  replaces the file; a dry run writes nothing.
\<close>

definition rewritten :: "yaml_lib \<Rightarrow> (pystr \<times> pystr) set \<Rightarrow> pystr \<Rightarrow> pystr \<Rightarrow> bool" where
  "rewritten L files old content \<longleftrightarrow>
     (\<exists>original. (old, original) \<in> files \<and> is_equivalent L original content = Some True)"

fun norm_ok ::
  "yaml_lib \<Rightarrow> norm_settings \<Rightarrow> bool \<Rightarrow> (pystr \<times> pystr) set \<Rightarrow> git_event option \<Rightarrow> git_event \<Rightarrow> bool" where
  "norm_ok L st dry files prev (G_commit repo path content branch msg) =
     (\<not> dry \<and> feature_branch branch (ns_base st) \<and>
      (\<exists>old. rewritten L files old content \<and> (path = old \<or> ns_rename st \<and> path = renamed_path old)))"
| "norm_ok L st dry files prev (G_delete repo path branch msg) =
     (\<not> dry \<and> feature_branch branch (ns_base st) \<and> ns_rename st \<and>
      (\<exists>content. rewritten L files path content \<and>
         prev = Some (G_commit repo (renamed_path path) content branch msg)))"
| "norm_ok L st dry files prev (G_branch repo branch base) =
     (\<not> dry \<and> base = ns_base st \<and> feature_branch branch base)"
| "norm_ok L st dry files prev (G_open repo pr_title body branch base label) =
     (\<not> dry \<and> base = ns_base st \<and> feature_branch branch base)"
| "norm_ok L st dry files prev (G_close repo n) = False"
| "norm_ok L st dry files prev _ = True"

lemma norm_ok_weak [simp]: "weak_ok (norm_ok L st dry files)"
proof -
  have "norm_ok L st dry files None ev \<Longrightarrow> norm_ok L st dry files prev ev" for prev ev
    by (cases ev) auto
  then show ?thesis by (simp add: weak_ok_def)
qed

section \<open>One file\<close>

definition change_ok :: "yaml_lib \<Rightarrow> norm_settings \<Rightarrow> (pystr \<times> pystr) set \<Rightarrow> file_change \<Rightarrow> bool" where
  "change_ok L st files c \<longleftrightarrow>
     rewritten L files (fc_old_path c) (fc_content c) \<and>
     (if fc_rename c then ns_rename st \<and> fc_new_path c = renamed_path (fc_old_path c)
      else fc_new_path c = fc_old_path c)"

definition file_of :: "file_report \<Rightarrow> pystr \<times> pystr" where
  "file_of r = (fr_path r, fr_content r)"

lemma escalate_sound:
  "escalate L threshold path current raw = Some e \<Longrightarrow> nr_ok e \<Longrightarrow> is_equivalent L current (nr_content e) = Some True"
  by (auto simp: escalate_def norm_rejected_def Let_def split: option.splits if_splits bool.splits)

lemma ask_escalation_grows:
  "ask_escalation L g st r current w = (w1, x) \<Longrightarrow> grows (norm_ok L st dry files) w w1"
  by (auto simp: ask_escalation_def Let_def grows_emit)

lemma normal_text_sound:
  assumes "eq_ok L" "normal_text R L g st r w = (w1, Some (Some (content, k)))"
  shows "is_equivalent L (fr_content r) content = Some True"
proof (cases "normalize R L (fr_content r)")
  case (Formatted f)
  then have f: "is_equivalent L (fr_content r) (nf_content f) = Some True"
    using normalize_sound [OF assms(1)] by blast
  show ?thesis
    using assms(2) f escalate_sound is_equivalent_trans [OF assms(1) f]
    by (auto simp: normal_text_def ask_escalation_def Formatted Let_def split: if_splits option.splits)
qed (use assms(2) escalate_sound in
      \<open>auto simp: normal_text_def ask_escalation_def Let_def split: if_splits option.splits\<close>)

lemma normal_text_grows:
  "normal_text R L g st r w = (w1, x) \<Longrightarrow> grows (norm_ok L st dry files) w w1"
  by (auto simp: normal_text_def dest: ask_escalation_grows
        split: formatted.splits prod.splits option.splits if_splits)

lemma process_file_sound:
  assumes "eq_ok L" "process_file R L g st r w = (w1, Some (Some c))" "file_of r \<in> files"
  shows "change_ok L st files c"
  using assms normal_text_sound [OF assms(1), of R g st r w]
  by (auto simp: process_file_def change_ok_def rewritten_def file_of_def target_path_def Let_def
        split: if_splits prod.splits option.splits)

lemma process_file_grows:
  "process_file R L g st r w = (w1, x) \<Longrightarrow> grows (norm_ok L st dry files) w w1"
  by (auto simp: process_file_def Let_def dest: normal_text_grows
        split: prod.splits option.splits if_splits)

lemma process_files_sound:
  "eq_ok L \<Longrightarrow> process_files R L g st rs w = (w1, Some cs) \<Longrightarrow> file_of ` set rs \<subseteq> files \<Longrightarrow>
     list_all (change_ok L st files) cs"
proof (induction rs arbitrary: w cs)
  case (Cons r rs)
  then show ?case
    using process_file_sound [of L R g st r w]
    by (auto split: prod.splits option.splits)
qed simp

lemma process_files_grows:
  "process_files R L g st rs w = (w1, x) \<Longrightarrow> grows (norm_ok L st dry files) w w1"
proof (induction rs arbitrary: w w1 x)
  case (Cons r rs)
  obtain w2 c where p: "process_file R L g st r w = (w2, c)" by fastforce
  obtain w3 y where q: "process_files R L g st rs w2 = (w3, y)" by fastforce
  have "w1 = w2 \<or> w1 = w3" using Cons.prems by (auto simp: p q split: option.splits)
  then show ?case
    using process_file_grows [OF p] Cons.IH [OF q] grows_trans [OF norm_ok_weak] by metis
qed simp

section \<open>One node\<close>

lemma commit_changes_grows:
  assumes "feature_branch branch (ns_base st)"
  shows "list_all (change_ok L st files) cs \<Longrightarrow> commit_changes g repo branch msg cs w = (w1, b) \<Longrightarrow>
    grows (norm_ok L st False files) w w1"
proof (induction cs arbitrary: w)
  case (Cons c cs)
  let ?commit = "G_commit repo (fc_new_path c) (fc_content c) branch msg"
  let ?delete = "G_delete repo (fc_old_path c) branch msg"
  have c: "change_ok L st files c" "list_all (change_ok L st files) cs" using Cons.prems(1) by simp_all
  have one: "grows (norm_ok L st False files) w (emit ?commit w)"
    using c(1) assms by (intro grows_emit) (auto simp: change_ok_def split: if_splits)
  have two: "grows (norm_ok L st False files) w (emit ?delete (emit ?commit w))" if "fc_rename c"
  proof -
    have "good_events (norm_ok L st False files) None [?commit, ?delete]"
      using c(1) assms that by (auto simp: change_ok_def)
    then show ?thesis by (auto simp: grows_def emit_def simp del: good_events.simps)
  qed
  show ?case
    using Cons.prems(2) one two Cons.IH [OF c(2)] grows_trans [OF norm_ok_weak]
    by (auto simp: Let_def split: if_splits)
qed simp

lemma norm_open_grows:
  assumes "list_all (change_ok L st files) cs" "norm_open g st node branch cs body w = (w1, x)"
  shows "grows (norm_ok L st False files) w w1"
proof (cases "feature_branch branch (ns_base st)")
  case True
  let ?repo = "case ns_repo st of None \<Rightarrow> [] | Some r \<Rightarrow> r"
  have b: "grows (norm_ok L st False files) w (emit (G_branch ?repo branch (ns_base st)) w)"
    using True by (intro grows_emit) auto
  obtain w2 y where c: "commit_changes g ?repo branch (norm_commit_message node) cs
      (emit (G_branch ?repo branch (ns_base st)) w) = (w2, y)" by fastforce
  have w2: "grows (norm_ok L st False files) w w2"
    using grows_trans [OF norm_ok_weak b commit_changes_grows [OF True assms(1) c]] .
  have "grows (norm_ok L st False files) w (emit (G_open ?repo pr_title body branch (ns_base st) (ns_label st)) w2)" for pr_title
    using True by (intro grows_emit w2) auto
  then show ?thesis
    using assms(2) True b w2 c by (auto simp: norm_open_def Let_def split: if_splits prod.splits bool.splits sum.splits)
qed (use assms(2) in \<open>simp add: norm_open_def\<close>)

lemma norm_effects_grows:
  assumes "list_all (change_ok L st files) cs" "norm_effects g st dry actor node fs body cs w = (w1, x)"
  shows "grows (norm_ok L st dry files) w w1"
proof (cases "cs = [] \<or> dry")
  case False
  let ?branch = "node_branch node (go_suffix (no_base g) (pw_trace w))"
  obtain w2 y where o: "norm_open g st node ?branch cs body w = (w2, y)" by fastforce
  have w2: "grows (norm_ok L st dry files) w w2" using norm_open_grows [OF assms(1) o] False by simp
  show ?thesis
  proof (cases y)
    case None
    then show ?thesis using assms(2) o False w2 by (simp add: norm_effects_def Let_def)
  next
    case (Some u)
    then obtain w3 row cols where w3: "add_proposal (no_base g) Finding_normalization cols w2 = (w3, row)"
      "w1 = emit (Notified (Some (fst u))) w3"
      using assms(2) o False by (auto simp: norm_effects_def Let_def split: prod.splits)
    have "pw_trace w3 = pw_trace w2" using w3(1) trace_add_proposal [of "no_base g" Finding_normalization cols w2] by simp
    then show ?thesis unfolding w3(2) by (intro grows_emit) (auto intro: grows_same [OF w2])
  qed
qed (use assms(2) in \<open>auto simp: norm_effects_def split: if_splits\<close>)

lemma node_check_grows:
  "node_check g st node w = (w1, x) \<Longrightarrow> grows (norm_ok L st dry files) w w1"
proof -
  have "grows (norm_ok L st dry files) w (fst (retire_if_finished (no_base g) hg rp p w))" for hg rp p
    by (auto simp: retire_if_finished_def Let_def intro!: grows_emit
          grows_same [OF grows_emit [OF norm_ok_weak grows_refl]] split: sum.split option.split)
  then show "node_check g st node w = (w1, x) \<Longrightarrow> grows (norm_ok L st dry files) w w1"
    by (auto simp: node_check_def case_prod_beta Let_def split: option.splits)
qed

lemma prefix_of_subset: "set (prefix_of n xs) \<subseteq> set xs"
  by (auto simp: prefix_of_def dest: in_set_takeD)

lemma normalize_node_grows:
  assumes "eq_ok L" "file_of ` set (snd nr) \<subseteq> files" "normalize_node R L g st dry actor nr w = (w1, x)"
  shows "grows (norm_ok L st dry files) w w1"
proof -
  obtain node reports where nr: "nr = (node, reports)" by (cases nr)
  obtain w2 y where c: "node_check g st node w = (w2, y)" by fastforce
  obtain w3 z where p: "process_files R L g st reports w2 = (w3, z)" by fastforce
  have g: "grows (norm_ok L st dry files) w w2" "grows (norm_ok L st dry files) w w3"
    using node_check_grows [OF c] process_files_grows [OF p] grows_trans [OF norm_ok_weak] by metis+
  show ?thesis
  proof (cases "y = None \<and> z \<noteq> None")
    case True
    then obtain cs where cs: "z = Some cs" "y = None" by blast
    have "list_all (change_ok L st files) (prefix_of (ns_max_files st) cs)"
      using process_files_sound [OF assms(1)] p assms(2) prefix_of_subset [of "ns_max_files st" cs]
      by (auto simp: cs nr list_all_iff)
    then have "grows (norm_ok L st dry files) w3 w1"
      using assms(3) c p by (auto simp: nr cs normalize_node_def Let_def dest: norm_effects_grows split: prod.splits)
    then show ?thesis using g(2) grows_trans [OF norm_ok_weak] by metis
  next
    case False
    then have "w1 = w2 \<or> w1 = w3"
      using assms(3) c p by (auto simp: nr normalize_node_def split: option.splits)
    then show ?thesis using g by blast
  qed
qed

lemma sweep_nodes_grows:
  "eq_ok L \<Longrightarrow> \<forall>nr \<in> set nrs. file_of ` set (snd nr) \<subseteq> files \<Longrightarrow>
     sweep_nodes R L g st dry actor nrs w = (w1, x) \<Longrightarrow> grows (norm_ok L st dry files) w w1"
proof (induction nrs arbitrary: w w1 x)
  case (Cons nr nrs)
  obtain w2 y where n: "normalize_node R L g st dry actor nr w = (w2, y)" by fastforce
  obtain w3 z where q: "sweep_nodes R L g st dry actor nrs w2 = (w3, z)" by fastforce
  have "w1 = w2 \<or> w1 = w3" using Cons.prems(3) by (auto simp: n q split: option.splits)
  moreover have "grows (norm_ok L st dry files) w w2"
    using normalize_node_grows [OF Cons.prems(1) _ n] Cons.prems(2) by simp
  moreover have "grows (norm_ok L st dry files) w2 w3" using Cons.IH [OF Cons.prems(1) _ q] Cons.prems(2) by simp
  ultimately show ?case using grows_trans [OF norm_ok_weak] by metis
qed simp

section \<open>The scan\<close>

text \<open>A file the run from \<open>w\<close> to \<open>w'\<close> read at the base branch, with the text it got.\<close>

definition read_since ::
  "norm_oracles \<Rightarrow> norm_settings \<Rightarrow> pworld \<Rightarrow> pworld \<Rightarrow> pystr \<times> pystr \<Rightarrow> bool" where
  "read_since g st w w' f \<longleftrightarrow>
     (\<exists>a b. pw_trace w' = a @ b \<and> length (pw_trace w) < length a \<and>
        (\<exists>repo. last a = G_read repo (fst f) (ns_base st)) \<and> go_read (no_base g) a = Inr (snd f))"

lemma read_since_later:
  "read_since g st w w1 f \<Longrightarrow> pw_trace w2 = pw_trace w1 @ evs \<Longrightarrow> read_since g st w w2 f"
  unfolding read_since_def by (metis append.assoc)

lemma file_of_report [simp]: "file_of (report_of L g shared m content) = (fst m, content)"
  by (cases m) (simp add: file_of_def report_of_def)

lemma read_matches_trace:
  "read_matches L g repo ref shared ms w = (w1, rs) \<Longrightarrow>
     pw_trace w1 = pw_trace w @ map (\<lambda>m. G_read repo (fst m) ref) ms"
proof (induction ms arbitrary: w w1 rs)
  case (Cons m ms)
  then show ?case by (fastforce simp: Let_def emit_def split: prod.splits sum.splits)
qed simp

lemma read_matches_read:
  "read_matches L g repo (ns_base st) shared ms w = (w1, rs) \<Longrightarrow> length (pw_trace w0) \<le> length (pw_trace w) \<Longrightarrow>
     \<forall>r \<in> set rs. read_since g st w0 w1 (file_of r)"
proof (induction ms arbitrary: w w1 rs)
  case (Cons m ms)
  let ?w = "emit (G_read repo (fst m) (ns_base st)) w"
  obtain w2 rs' where r: "read_matches L g repo (ns_base st) shared ms ?w = (w2, rs')" by fastforce
  have w1: "w1 = w2" "rs = rs' \<or> (\<exists>c. go_read (no_base g) (pw_trace ?w) = Inr c \<and> rs = report_of L g shared m c # rs')"
    using Cons.prems(1) r by (auto simp: Let_def split: sum.splits)
  have ih: "\<forall>r \<in> set rs'. read_since g st w0 w2 (file_of r)"
    using Cons.IH [OF r] Cons.prems(2) by (simp add: emit_def)
  have "read_since g st w0 w2 (fst m, c)" if "go_read (no_base g) (pw_trace ?w) = Inr c" for c
    unfolding read_since_def
    using that Cons.prems(2) read_matches_trace [OF r]
    by (intro exI [of _ "pw_trace ?w"] exI [of _ "map (\<lambda>m. G_read repo (fst m) (ns_base st)) ms"] conjI exI [of _ repo])
       (simp_all add: emit_def)
  then show ?case using w1 ih by auto
qed simp

lemma in_dict_set: "(k', l) \<in> set (dict_set k v d) \<Longrightarrow> (k', l) = (k, v) \<or> (k', l) \<in> set d"
  by (induction k v d rule: dict_set.induct) (auto split: if_splits)

lemma group_reports_files:
  "(node, rs') \<in> set (group_reports rs acc) \<Longrightarrow> \<forall>(k, l) \<in> set acc. set l \<subseteq> S \<Longrightarrow> set rs \<subseteq> S \<Longrightarrow> set rs' \<subseteq> S"
proof (induction rs acc rule: group_reports.induct)
  case (2 r rs acc)
  define l where "l = (case map_of acc (fr_node r) of None \<Rightarrow> [] | Some l \<Rightarrow> l)"
  have "set l \<subseteq> S"
    using "2.prems"(2) by (cases "map_of acc (fr_node r)") (auto simp: l_def dest!: map_of_SomeD)
  then have "\<forall>(k, l') \<in> set (dict_set (fr_node r) (l @ [r]) acc). set l' \<subseteq> S"
    using "2.prems"(2,3) by (auto dest!: in_dict_set)
  then show ?case using "2.IH" "2.prems"(1,3) by (simp add: l_def)
qed auto

lemma scan_sound:
  assumes "scan L g st only w = (w1, Inr grouped)" "nr \<in> set grouped" "r \<in> set (snd nr)"
  shows "read_since g st w w1 (file_of r)"
proof -
  obtain repo shared ms w2 rs where r: "read_matches L g repo (ns_base st) shared ms w2 = (w1, rs)"
    "grouped = group_reports rs []" "length (pw_trace w) \<le> length (pw_trace w2)"
    using assms(1) by (auto simp: scan_def Let_def emit_def split: sum.splits prod.splits)
  have "set (snd nr) \<subseteq> set rs"
    using group_reports_files [of "fst nr" "snd nr" rs "[]" "set rs"] assms(2) r(2) by simp
  then show ?thesis using read_matches_read [OF r(1,3)] assms(3) by blast
qed

lemma reads_good: "good_events (norm_ok L st dry files) prev (map (\<lambda>m. G_read repo (f m) ref) ms)"
  by (induction ms arbitrary: prev) auto

lemma scan_grows: "scan L g st only w = (w1, x) \<Longrightarrow> grows (norm_ok L st dry files) w w1"
  by (auto simp: scan_def Let_def grows_def emit_def reads_good dest!: read_matches_trace
        split: sum.splits prod.splits)

section \<open>The sweep\<close>

lemma run_sweep_cases:
  assumes "run_sweep R L g st busy only dry actor w = (w', reply)"
  obtains "w' = w" "reply \<in> {Sweep_not_configured, Sweep_busy}"
  | err where "scan L g st only w = (w', Inl err)" "reply = Sweep_scan_failed"
  | w1 grouped x where "scan L g st only w = (w1, Inr grouped)" "\<not> busy"
    "sweep_nodes R L g st (case dry of None \<Rightarrow> ns_dry_run st | Some b \<Rightarrow> b) actor grouped w1 = (w', x)"
    "reply = (case x of None \<Rightarrow> Sweep_raised
              | Some replies \<Rightarrow> Swept replies (sum_list (map (\<lambda>nr. length (snd nr)) grouped)))"
  using assms by (auto simp: run_sweep_def split: if_splits sum.splits prod.splits option.splits)

text \<open>A file whose comparison raises ends the whole sweep, the nodes after it unvisited.\<close>

lemma one_file_ends_sweep:
  assumes "ns_has_git st" "truthy (ns_repo st)" "scan L g st only w = (w1, Inr ((node, r # rs) # nrs))"
    and "node_check g st node w1 = (w2, None)" "\<not> list_ex (\<lambda>f. fi_rule f = ''R-008'') (fr_findings r)"
    and "normalize R L (fr_content r) = Format_raised"
  shows "run_sweep R L g st False only dry actor w = (w2, Sweep_raised)"
  using assms by (simp add: run_sweep_def normalize_node_def process_file_def normal_text_def)

section \<open>Open proposals of a node\<close>

definition open_norm :: "pystr \<Rightarrow> proposal \<Rightarrow> bool" where
  "open_norm path p \<longleftrightarrow>
     pr_file_path p = path \<and> pr_finding_type p = Finding_normalization \<and> pr_status p = Proposal_open"

definition one_open_norm :: "proposals \<Rightarrow> bool" where
  "one_open_norm rows \<longleftrightarrow> (\<forall>path. length (filter (open_norm path) rows) \<le> 1)"

lemma find_open_norm: "find_open_by_path path Finding_normalization rows = find (open_norm path) rows"
  by (simp add: find_open_by_path_def open_norm_def [abs_def])

lemma filter_open_put_row:
  assumes "\<And>p. pr_status (f p) \<noteq> Proposal_open"
  shows "filter (open_norm path) (put_row pr_id i f rows) = filter (\<lambda>p. open_norm path p \<and> pr_id p \<noteq> i) rows"
  using assms by (induction rows) (auto simp: put_row_def open_norm_def)

lemma world_status_rows:
  assumes "status \<noteq> Proposal_open"
  shows "\<exists>f. (\<forall>q. pr_status (f q) \<noteq> Proposal_open) \<and>
    pw_rows (fst (world_set_status g i status b w)) = put_row pr_id i f (pw_rows w)"
proof -
  let ?f = "\<lambda>q. q\<lparr>pr_status := status,
      pr_resolved_at := if b then Some (Naive (go_now g (pw_trace w))) else pr_resolved_at q\<rparr>"
  have "pw_rows (fst (world_set_status g i status b w)) = put_row pr_id i ?f (pw_rows w)"
    by (simp add: world_set_status_def case_prod_beta Let_def set_status_rows)
  then show ?thesis using assms by (intro exI [of _ ?f]) simp
qed

lemma retire_rows:
  assumes "retire_if_finished g hg repo p w = (w1, finished)"
  shows "if finished then \<exists>f. (\<forall>q. pr_status (f q) \<noteq> Proposal_open) \<and> pw_rows w1 = put_row pr_id (pr_id p) f (pw_rows w)
    else pw_rows w1 = pw_rows w"
proof -
  let ?w = "emit (G_state (the repo) (the (pr_pr_number p))) w"
  have rows: "pw_rows ?w = pw_rows w" by (simp add: emit_def)
  have "\<not> finished \<and> pw_rows w1 = pw_rows w \<or>
      finished \<and> (\<exists>status. status \<noteq> Proposal_open \<and> w1 = fst (world_set_status g (pr_id p) status True ?w))"
    using assms rows
    by (auto simp: retire_if_finished_def retired_status_def Let_def
        split: if_splits sum.splits option.splits)
  then show ?thesis using world_status_rows rows by metis
qed

lemma node_check_rows:
  assumes "one_open_norm (pw_rows w)" "node_check g st node w = (w1, x)"
  shows "one_open_norm (pw_rows w1) \<and> (x = None \<longrightarrow> filter (open_norm (node_key node)) (pw_rows w1) = [])"
proof (cases "find (open_norm (node_key node)) (pw_rows w)")
  case None
  then have "filter (open_norm (node_key node)) (pw_rows w) = []" by (auto simp: find_None_iff filter_empty_conv)
  then show ?thesis using assms None by (simp add: node_check_def find_open_norm)
next
  case (Some p)
  then have p: "p \<in> set (pw_rows w)" "open_norm (node_key node) p"
    by (auto simp: find_Some_iff in_set_conv_nth)
  obtain finished where r: "retire_if_finished (no_base g) (ns_has_git st) (ns_repo st) p w = (w1, finished)"
    "x = (if finished then None else Some p)"
    using assms(2) Some by (auto simp: node_check_def find_open_norm split: prod.splits)
  show ?thesis
  proof (cases finished)
    case True
    then obtain f where f: "\<And>q. pr_status (f q) \<noteq> Proposal_open" "pw_rows w1 = put_row pr_id (pr_id p) f (pw_rows w)"
      using retire_rows [OF r(1)] by auto
    have le: "length (filter (\<lambda>q. open_norm path q \<and> pr_id q \<noteq> pr_id p) rows) \<le> length (filter (open_norm path) rows)"
      for path rows by (induction rows) auto
    have "length (filter (open_norm (node_key node)) (pw_rows w)) \<le> 1"
      using assms(1) by (simp add: one_open_norm_def)
    moreover have "p \<in> set (filter (open_norm (node_key node)) (pw_rows w))" using p by simp
    ultimately have only: "filter (open_norm (node_key node)) (pw_rows w) = [p]"
      by (cases "filter (open_norm (node_key node)) (pw_rows w)") (auto simp: le_Suc_eq)
    then have "filter (\<lambda>q. open_norm (node_key node) q \<and> pr_id q \<noteq> pr_id p) (pw_rows w) = []"
    proof -
      have "filter (\<lambda>q. open_norm (node_key node) q \<and> pr_id q \<noteq> pr_id p) (pw_rows w) =
          filter (\<lambda>q. pr_id q \<noteq> pr_id p) (filter (open_norm (node_key node)) (pw_rows w))"
        by (simp add: conj_commute)
      then show ?thesis by (simp add: only)
    qed
    then show ?thesis
      using assms(1) le True r(2)
      by (auto simp: f(2) filter_open_put_row [OF f(1)] one_open_norm_def intro: le_trans [OF le])
  next
    case False
    then show ?thesis using retire_rows [OF r(1)] assms(1) r(2) by simp
  qed
qed


lemma rows_ask [simp]: "pw_rows (fst (ask_escalation L g st r current w)) = pw_rows w"
  by (simp add: ask_escalation_def Let_def emit_def)

lemma rows_normal_text: "normal_text R L g st r w = (w1, x) \<Longrightarrow> pw_rows w1 = pw_rows w"
  using rows_ask by (auto simp: normal_text_def ask_escalation_def Let_def emit_def
        split: formatted.splits option.splits if_splits)

lemma rows_process_file: "process_file R L g st r w = (w1, x) \<Longrightarrow> pw_rows w1 = pw_rows w"
  by (auto simp: process_file_def Let_def dest: rows_normal_text split: if_splits prod.splits option.splits)

lemma rows_process_files: "process_files R L g st rs w = (w1, x) \<Longrightarrow> pw_rows w1 = pw_rows w"
proof (induction rs arbitrary: w w1 x)
  case (Cons r rs)
  obtain w2 c where p: "process_file R L g st r w = (w2, c)" by fastforce
  obtain w3 y where q: "process_files R L g st rs w2 = (w3, y)" by fastforce
  have "w1 = w2 \<or> w1 = w3" using Cons.prems by (auto simp: p q split: option.splits)
  then show ?case using rows_process_file [OF p] Cons.IH [OF q] by auto
qed simp

lemma rows_commit_changes: "pw_rows (fst (commit_changes g repo branch msg cs w)) = pw_rows w"
  by (induction cs arbitrary: w) (simp_all add: Let_def emit_def)

lemma rows_norm_open: "norm_open g st node branch cs body w = (w1, x) \<Longrightarrow> pw_rows w1 = pw_rows w"
  using rows_commit_changes
  by (auto simp: norm_open_def Let_def emit_def split: if_splits prod.splits bool.splits sum.splits)
     (metis fst_conv pworld.select_convs(1) pworld.surjective pworld.update_convs(3))+

lemma norm_effects_rows:
  assumes "one_open_norm (pw_rows w)" "filter (open_norm (node_key node)) (pw_rows w) = []"
    and "norm_effects g st dry actor node fs body cs w = (w1, x)"
  shows "one_open_norm (pw_rows w1)"
proof -
  let ?branch = "node_branch node (go_suffix (no_base g) (pw_trace w))"
  obtain w2 y where o: "norm_open g st node ?branch cs body w = (w2, y)" by fastforce
  have w2: "pw_rows w2 = pw_rows w" by (rule rows_norm_open [OF o])
  have "pw_rows w1 = pw_rows w \<or> (\<exists>p. pr_file_path p = node_key node \<and> pw_rows w1 = pw_rows w @ [p])"
    using assms(3) o w2
    by (auto simp: norm_effects_def Let_def add_proposal_def proposal_create_def emit_def
          split: if_splits option.splits prod.splits)
  then show ?thesis
    using assms(1,2) by (auto simp: one_open_norm_def open_norm_def)
qed

lemma normalize_node_rows:
  assumes "one_open_norm (pw_rows w)" "normalize_node R L g st dry actor nr w = (w1, x)"
  shows "one_open_norm (pw_rows w1)"
proof -
  obtain node reports where nr: "nr = (node, reports)" by (cases nr)
  obtain w2 y where c: "node_check g st node w = (w2, y)" by fastforce
  obtain w3 z where p: "process_files R L g st reports w2 = (w3, z)" by fastforce
  have w2: "one_open_norm (pw_rows w2)" "y = None \<Longrightarrow> filter (open_norm (node_key node)) (pw_rows w2) = []"
    using node_check_rows [OF assms(1) c] by auto
  have w3: "pw_rows w3 = pw_rows w2" by (rule rows_process_files [OF p])
  show ?thesis
    using assms(2) c p w2 w3 norm_effects_rows [of w3 node]
    by (auto simp: nr normalize_node_def Let_def split: option.splits prod.splits)
qed

lemma sweep_nodes_rows:
  "one_open_norm (pw_rows w) \<Longrightarrow> sweep_nodes R L g st dry actor nrs w = (w1, x) \<Longrightarrow> one_open_norm (pw_rows w1)"
proof (induction nrs arbitrary: w w1 x)
  case (Cons nr nrs)
  obtain w2 y where n: "normalize_node R L g st dry actor nr w = (w2, y)" by fastforce
  obtain w3 z where q: "sweep_nodes R L g st dry actor nrs w2 = (w3, z)" by fastforce
  have "w1 = w2 \<or> w1 = w3" using Cons.prems(2) by (auto simp: n q split: option.splits)
  then show ?case using normalize_node_rows [OF Cons.prems(1) n] Cons.IH [OF _ q] by auto
qed simp

lemma rows_read_matches: "read_matches L g repo ref shared ms w = (w1, rs) \<Longrightarrow> pw_rows w1 = pw_rows w"
proof (induction ms arbitrary: w w1 rs)
  case (Cons m ms)
  then show ?case by (fastforce simp: Let_def emit_def split: prod.splits sum.splits)
qed simp

lemma rows_scan: "scan L g st only w = (w1, x) \<Longrightarrow> pw_rows w1 = pw_rows w"
  by (auto simp: scan_def Let_def emit_def dest!: rows_read_matches split: sum.splits prod.splits)

text \<open>
  C11: No node ever has two open normalization proposals: a sweep, whatever the git calls, the
  formatter and the reasoning layer answer, leaves at most one open row per node when it
  found at most one.
\<close>
theorem one_open_normalization:
  assumes "one_open_norm (pw_rows w)" "run_sweep R L g st busy only dry actor w = (w', reply)"
  shows "one_open_norm (pw_rows w')"
proof (cases rule: run_sweep_cases [OF assms(2)])
  case 1
  then show ?thesis using assms(1) by simp
next
  case (2 err)
  then show ?thesis using rows_scan [OF 2(1)] assms(1) by simp
next
  case (3 w1 grouped x)
  then show ?thesis using sweep_nodes_rows [OF _ 3(3)] rows_scan [OF 3(1)] assms(1) by simp
qed

section \<open>Witnesses\<close>

definition example_norm_settings :: norm_settings where
  "example_norm_settings =
     \<lparr>ns_repo = Some ''o/r'', ns_base = ''main'', ns_has_git = True, ns_glob = ''nodes/*/*/compose.yaml'',
      ns_shared = [], ns_max_files = 25, ns_dry_run = False, ns_rename = False, ns_label = ''n'',
      ns_threshold = 4/5\<rparr>"

definition example_norm_oracles :: norm_oracles where
  "example_norm_oracles =
     \<lparr>no_base = \<lparr>go_read = (\<lambda>t. Inr (concat example_lines)), go_branch = (\<lambda>t. None), go_commit = (\<lambda>t. None),
        go_open = (\<lambda>t. Inr (''u'', 7)), go_state = (\<lambda>t. Inr PR_open), go_comments = (\<lambda>t. Inr []),
        go_patch = (\<lambda>t. None), go_yaml = (\<lambda>t. True), go_suffix = (\<lambda>t. ''x''), go_now = (\<lambda>t. 0),
        go_uuid = show_nat\<rparr>,
      no_list = (\<lambda>t. Inr [''nodes/a/web/compose.yaml'', ''README.md'']), no_delete = (\<lambda>t. None),
      no_answer = (\<lambda>t. None), no_where = (\<lambda>t. []), no_dash = ''-'', no_arrow = ''>''\<rparr>"

definition empty_pworld :: pworld where
  "empty_pworld = \<lparr>pw_rows = [], pw_drawn = 0, pw_trace = []\<rparr>"

definition example_sweep :: "pworld \<times> sweep_reply" where
  "example_sweep =
     run_sweep example_round_trip example_yaml example_norm_oracles example_norm_settings False None None ''a''
       empty_pworld"

lemma example_match:
  "List.map_filter (scan_match ''nodes/*/*/compose.yaml'' None) [''nodes/a/web/compose.yaml'', ''README.md''] =
     [(''nodes/a/web/compose.yaml'', ''a'', ''web'', False)]"
  by code_simp

lemma example_report:
  "\<not> list_ex (\<lambda>f. fi_rule f = ''R-008'') (fr_findings (report_of example_yaml g shared m (concat example_lines)))"
proof -
  obtain doc svcs where "yl_loads example_yaml (concat example_lines) = Some doc" "compose_services_of doc = Some svcs"
    by (simp add: example_yaml_def compose_services_of_def yaml_get_def)
  then show ?thesis using compose_not_rejected by (cases m) (auto simp: report_of_def list_ex_iff)
qed

lemma example_change:
  "process_file example_round_trip example_yaml g example_norm_settings
     (report_of example_yaml g shared (path, node, stack, False) (concat example_lines)) w =
   (w, Some (Some \<lparr>fc_old_path = path, fc_new_path = path, fc_content = concat sorted_lines,
      fc_rename = False, fc_confidence = 1\<rparr>))"
  using example_report [of g shared "(path, node, stack, False)"] example_loads(5)
  by (simp add: process_file_def normal_text_def report_of_def example_normalizes target_path_def)

lemma example_sweep_commits:
  "\<exists>branch msg. G_commit ''o/r'' ''nodes/a/web/compose.yaml'' (concat sorted_lines) branch msg
     \<in> set (pw_trace (fst example_sweep))"
proof -
  let ?st = example_norm_settings
  let ?g = example_norm_oracles
  let ?path = "''nodes/a/web/compose.yaml''"
  let ?r = "report_of example_yaml ?g [] (?path, ''a'', ''web'', False) (concat example_lines)"
  let ?c = "\<lparr>fc_old_path = ?path, fc_new_path = ?path, fc_content = concat sorted_lines,
      fc_rename = False, fc_confidence = 1\<rparr>"
  have settings: "ns_repo ?st = Some ''o/r''" "ns_base ?st = ''main''" "ns_has_git ?st" "ns_shared ?st = []"
    "ns_max_files ?st = 25" "\<not> ns_dry_run ?st" "ns_glob ?st = ''nodes/*/*/compose.yaml''"
    by (simp_all add: example_norm_settings_def)
  have shared: "network_names [] = []" by (simp add: network_names_def)
  obtain w1 where scanned: "scan example_yaml ?g ?st None empty_pworld = (w1, Inr [(''a'', [?r])])" "pw_rows w1 = []"
  proof -
    have "no_list ?g t = Inr [''nodes/a/web/compose.yaml'', ''README.md'']" "go_read (no_base ?g) t = Inr (concat example_lines)" for t
      by (simp_all add: example_norm_oracles_def)
    moreover have "fr_node ?r = ''a''" by (simp add: report_of_def)
    ultimately show thesis
      using that
        by (simp add: scan_def settings shared example_match emit_def empty_pworld_def Let_def del: map_filter_simps)
  qed
  have oracles: "go_branch (no_base ?g) t = None" "go_commit (no_base ?g) t = None" "go_open (no_base ?g) t = Inr (''u'', 7)"
    "go_suffix (no_base ?g) t = ''x''" for t by (simp_all add: example_norm_oracles_def)
  have "feature_branch (node_branch ''a'' ''x'') ''main''" by (simp add: feature_branch_def node_branch_def)
  then show ?thesis
    using scanned(2)
    by (simp add: example_sweep_def run_sweep_def scanned(1) settings normalize_node_def node_check_def
          find_open_by_path_def example_change prefix_of_def norm_effects_def oracles norm_open_def Let_def
          case_prod_beta emit_def) blast
qed


theorem one_open_normalization_witness:
  "one_open_norm (pw_rows (fst example_sweep))"
  by (rule one_open_normalization [of empty_pworld example_round_trip example_yaml example_norm_oracles
        example_norm_settings False None None "''a''" _ "snd example_sweep"])
     (simp_all add: one_open_norm_def empty_pworld_def example_sweep_def)

end
