(* ===== verification/ServiceDeploy.thy ===== *)
theory ServiceDeploy
  imports NormEngine IntakeParse
begin

text \<open>
  \<open>tools/intake.py\<close>, \<open>tools/service_deploy.py\<close> and \<open>service_deploy/generator.py\<close>: from a
  repository URL to a drafted compose file. The clone, the parsers and the formatter are the
  models of their own theories; what the reasoning layer and the conventions file answer are
  parameters. \<open>Deploy_raised\<close> stands for an exception that leaves the tool.
\<close>

section \<open>Intake\<close>

record inference =
  in_service_name :: pystr
  in_confidence :: rat
  in_dependencies :: "pystr list"
  in_env_vars :: "pystr list"

datatype infer_answer = Infer_raised | Infer_nothing | Inferred inference

datatype infer_rejection =
    Infer_disabled
  | Infer_failed
  | Infer_no_result
  | Infer_confidence rat rat

record deploy_settings =
  ds_enabled :: bool
  ds_dspy :: bool
  ds_max_mb :: int
  ds_threshold :: rat
  ds_git :: bool
  ds_repo :: "pystr option"
  ds_shared :: "pystr list"

record intake_result =
  ir_repo_url :: pystr
  ir_dockerfile :: bool
  ir_readme :: bool
  ir_compose_path :: "pystr option"
  ir_requirements :: requirements
  ir_skipped :: "skip_reason list"
  ir_inference :: "inference option"
  ir_rejection :: "infer_rejection option"

text \<open>What the outside answers: the URL parser's bracket check, the clone, the file parsers, the reasoning layer.\<close>

record intake_env =
  ie_bracket :: "pystr \<Rightarrow> bool"
  ie_world :: fetch_world
  ie_parsers :: parsers
  ie_infer :: "pystr \<Rightarrow> pystr \<Rightarrow> requirements \<Rightarrow> infer_answer"

datatype intake_reply = Intake_failed intake_error | Intake_raised | Intake_done intake_result

definition infer_gate :: "bool \<Rightarrow> rat \<Rightarrow> infer_answer \<Rightarrow> inference option \<times> infer_rejection option" where
  "infer_gate enabled threshold answer =
     (if \<not> enabled then (None, Some Infer_disabled)
      else case answer of
        Infer_raised \<Rightarrow> (None, Some Infer_failed)
      | Infer_nothing \<Rightarrow> (None, Some Infer_no_result)
      | Inferred i \<Rightarrow>
          if in_confidence i < threshold then (None, Some (Infer_confidence (in_confidence i) threshold))
          else (Some i, None))"

text \<open>An error of the clone that is not an \<open>IntakeError\<close> leaves the call.\<close>

definition run_intake :: "intake_env \<Rightarrow> deploy_settings \<Rightarrow> pystr \<Rightarrow> intake_event list \<times> intake_reply" where
  "run_intake E st url =
     (case fetch_repo (ie_bracket E) (ie_world E) url (ds_max_mb st) of
        (tr, Inl err) \<Rightarrow> (tr, if err \<in> {Url_malformed, Git_missing} then Intake_raised else Intake_failed err)
      | (tr, Inr snap) \<Rightarrow>
          (tr, case parse_snapshot (ie_parsers E) snap of
                 None \<Rightarrow> Intake_raised
               | Some req \<Rightarrow>
                   (case infer_gate (ds_dspy st) (ds_threshold st)
                           (ie_infer E (sn_repo_url snap) (case sn_readme snap of None \<Rightarrow> [] | Some r \<Rightarrow> r) req) of
                      (inferred, why) \<Rightarrow>
                        Intake_done
                          \<lparr>ir_repo_url = sn_repo_url snap, ir_dockerfile = (sn_dockerfile snap \<noteq> None),
                           ir_readme = (sn_readme snap \<noteq> None), ir_compose_path = sn_compose_path snap,
                           ir_requirements = req, ir_skipped = sn_skipped snap,
                           ir_inference = inferred, ir_rejection = why\<rparr>)))"

datatype intake_tool_reply = Intake_off | Intake_answer intake_reply

definition service_intake_repo ::
  "intake_env \<Rightarrow> deploy_settings \<Rightarrow> pystr \<Rightarrow> intake_event list \<times> intake_tool_reply" where
  "service_intake_repo E st url =
     (if \<not> ds_enabled st then ([], Intake_off)
      else map_prod id Intake_answer (run_intake E st url))"

section \<open>The service name\<close>

definition is_lower_digit :: "char \<Rightarrow> bool" where
  "is_lower_digit c \<longleftrightarrow> is_ascii_lower c \<or> is_ascii_digit c"

definition is_name_char :: "char \<Rightarrow> bool" where
  "is_name_char c \<longleftrightarrow> is_lower_digit c \<or> c \<in> set ''._-''"

text \<open>\<open>_SERVICE_NAME_RE.match\<close>; \<open>$\<close> also matches before a final line feed.\<close>

definition service_name_ok :: "pystr \<Rightarrow> bool" where
  "service_name_ok name =
     (let body = (if name \<noteq> [] \<and> last name = CHR 0x0A then butlast name else name)
      in body \<noteq> [] \<and> is_lower_digit (hd body) \<and> list_all is_name_char body \<and> length body \<le> 63)"

definition remove_suffix :: "pystr \<Rightarrow> pystr \<Rightarrow> pystr" where
  "remove_suffix s suf = (if ends_with s suf then take (length s - length suf) s else s)"

definition resolve_service_name :: "pystr \<Rightarrow> intake_result \<Rightarrow> pystr" where
  "resolve_service_name requested intake =
     (let inferred = (case ir_inference intake of None \<Rightarrow> [] | Some i \<Rightarrow> in_service_name i);
          url = rstrip_by (\<lambda>c. c = CHR ''/'') (ir_repo_url intake)
      in if strip requested \<noteq> [] then strip requested
         else if strip inferred \<noteq> [] then strip inferred
         else lower (remove_suffix (snd (snd (rpartition_at (CHR ''/'') url))) ''.git''))"

section \<open>The draft\<close>

record compose_answer =
  ca_compose :: pystr
  ca_confidence :: rat
  ca_reasoning :: pystr

datatype draft_rejection =
    Draft_unavailable
  | Draft_confidence rat rat
  | Draft_empty
  | Draft_not_yaml
  | Draft_no_services
  | Draft_no_service pystr
  | Draft_not_formatted

record compose_draft =
  cd_ok :: bool
  cd_confidence :: rat
  cd_rejection :: "draft_rejection option"
  cd_compose :: pystr
  cd_skipped :: "pystr list"
  cd_findings :: "norm_finding list"
  cd_reasoning :: pystr

definition reject_draft :: "rat \<Rightarrow> draft_rejection \<Rightarrow> compose_draft" where
  "reject_draft confidence why =
     \<lparr>cd_ok = False, cd_confidence = confidence, cd_rejection = Some why, cd_compose = [], cd_skipped = [],
      cd_findings = [], cd_reasoning = []\<rparr>"

text \<open>The conventions: the baseline, and the homelab's copy when it can be read.\<close>

definition conventions :: "pystr \<Rightarrow> (pystr \<Rightarrow> pystr) \<Rightarrow> deploy_settings \<Rightarrow> (pystr \<Rightarrow> git_error + pystr) \<Rightarrow> pystr" where
  "conventions baseline supplement st read =
     (if \<not> ds_git st \<or> \<not> truthy (ds_repo st) then baseline
      else case read (the (ds_repo st)) of Inl err \<Rightarrow> baseline | Inr spec \<Rightarrow> baseline @ supplement spec)"

text \<open>\<open>generate\<close> after the answer; \<open>None\<close>: the formatter raised.\<close>

definition generate_draft ::
  "round_trip \<Rightarrow> yaml_lib \<Rightarrow> rat \<Rightarrow> pystr list \<Rightarrow> pystr \<Rightarrow> compose_answer option \<Rightarrow> compose_draft option" where
  "generate_draft R L threshold shared name raw =
     (case raw of
        None \<Rightarrow> Some (reject_draft 0 Draft_unavailable)
      | Some a \<Rightarrow>
          (let scrubbed = fst (scrub_credentials (ca_compose a));
               compose = untab scrubbed;
               reject = (\<lambda>why. Some (reject_draft (ca_confidence a) why))
           in if ca_confidence a < threshold then reject (Draft_confidence (ca_confidence a) threshold)
              else if strip scrubbed = [] then reject Draft_empty
              else case yl_loads L compose of
                None \<Rightarrow> reject Draft_not_yaml
              | Some doc \<Rightarrow>
                  (case compose_services_of doc of
                     None \<Rightarrow> reject Draft_no_services
                   | Some svcs \<Rightarrow>
                       if svcs = [] then reject Draft_no_services
                       else if Y_str name \<notin> fst ` set svcs then reject (Draft_no_service name)
                       else (case normalize R L compose of
                               Format_raised \<Rightarrow> None
                             | Not_formatted \<Rightarrow> reject Draft_not_formatted
                             | Formatted f \<Rightarrow>
                                 (case yl_loads L (nf_content f) of
                                    None \<Rightarrow> None
                                  | Some out \<Rightarrow>
                                      Some \<lparr>cd_ok = True, cd_confidence = ca_confidence a, cd_rejection = None,
                                        cd_compose = nf_content f, cd_skipped = nf_skipped f,
                                        cd_findings = check_document L out (nf_content f) ''compose.yaml'' shared,
                                        cd_reasoning = fst (scrub_credentials (ca_reasoning a))\<rparr>)))))"

record deploy_env =
  de_intake :: intake_env
  de_round_trip :: round_trip
  de_yaml :: yaml_lib
  de_read :: "pystr \<Rightarrow> git_error + pystr"
  de_baseline :: pystr
  de_supplement :: "pystr \<Rightarrow> pystr"
  de_draft :: "intake_result \<Rightarrow> pystr \<Rightarrow> pystr \<Rightarrow> pystr \<Rightarrow> compose_answer option"

datatype deploy_reply =
    Deploy_off
  | Deploy_needs_dspy
  | Deploy_intake_failed intake_error
  | Deploy_raised
  | Deploy_bad_name pystr intake_result
  | Deploy_draft pystr compose_draft intake_result

text \<open>\<open>service-deploy-generate-compose\<close>, with the processes and reads of its intake.\<close>

definition generate_compose_tool ::
  "deploy_env \<Rightarrow> deploy_settings \<Rightarrow> pystr \<Rightarrow> pystr \<Rightarrow> pystr \<Rightarrow> intake_event list \<times> deploy_reply" where
  "generate_compose_tool E st url requested node =
     (if \<not> ds_enabled st then ([], Deploy_off)
      else if \<not> ds_dspy st then ([], Deploy_needs_dspy)
      else case run_intake (de_intake E) st url of
        (tr, Intake_failed err) \<Rightarrow> (tr, Deploy_intake_failed err)
      | (tr, Intake_raised) \<Rightarrow> (tr, Deploy_raised)
      | (tr, Intake_done intake) \<Rightarrow>
          (let name = resolve_service_name requested intake in
           if \<not> service_name_ok name then (tr, Deploy_bad_name name intake)
           else
             (let conv = conventions (de_baseline E) (de_supplement E) st (de_read E) in
              (tr, case generate_draft (de_round_trip E) (de_yaml E) (ds_threshold st) (ds_shared st) name
                          (de_draft E intake conv name node) of
                     None \<Rightarrow> Deploy_raised
                   | Some d \<Rightarrow> Deploy_draft name d intake))))"

section \<open>Lemmas\<close>

lemma draft_cases:
  assumes "generate_draft R L threshold shared name raw = Some d" "cd_ok d"
  obtains a doc svcs f out where "raw = Some a" "threshold \<le> ca_confidence a"
    "yl_loads L (untab (fst (scrub_credentials (ca_compose a)))) = Some doc"
    "compose_services_of doc = Some svcs" "Y_str name \<in> fst ` set svcs"
    "normalize R L (untab (fst (scrub_credentials (ca_compose a)))) = Formatted f"
    "yl_loads L (nf_content f) = Some out" "cd_compose d = nf_content f"
    "cd_findings d = check_document L out (nf_content f) ''compose.yaml'' shared"
    "cd_confidence d = ca_confidence a"
proof -
  obtain a where a: "raw = Some a"
    using assms by (auto simp: generate_draft_def reject_draft_def split: option.splits)
  define c where "c = untab (fst (scrub_credentials (ca_compose a)))"
  have ge: "threshold \<le> ca_confidence a"
    using assms by (rule_tac ccontr) (auto simp: a generate_draft_def reject_draft_def Let_def split: if_splits)
  then have nl: "\<not> ca_confidence a < threshold" by simp
  obtain doc where doc: "yl_loads L c = Some doc"
    using assms by (auto simp: a nl c_def generate_draft_def reject_draft_def Let_def split: if_splits option.splits)
  obtain svcs where svcs: "compose_services_of doc = Some svcs" "Y_str name \<in> fst ` set svcs"
    using assms doc [unfolded c_def]
    by (simp add: a nl generate_draft_def reject_draft_def Let_def split: if_splits option.splits) auto
  obtain f where f: "normalize R L c = Formatted f"
    using assms doc [unfolded c_def] svcs
    by (auto simp: a nl c_def generate_draft_def reject_draft_def Let_def split: if_splits formatted.splits)
  obtain out where out: "yl_loads L (nf_content f) = Some out"
    using assms doc [unfolded c_def] svcs f [unfolded c_def]
    by (auto simp: a nl generate_draft_def reject_draft_def Let_def split: if_splits option.splits)
  have "cd_compose d = nf_content f \<and> cd_confidence d = ca_confidence a \<and>
      cd_findings d = check_document L out (nf_content f) ''compose.yaml'' shared"
    using assms doc [unfolded c_def] svcs f [unfolded c_def] out
    by (auto simp: a nl generate_draft_def reject_draft_def Let_def split: if_splits)
  then show thesis
    using that [OF a ge doc [unfolded c_def] svcs f [unfolded c_def] out] by blast
qed

text \<open>A file name that stays inside its directory, but for a final line feed.\<close>

lemma service_name_path_safe:
  assumes "service_name_ok name"
  shows "CHR ''/'' \<notin> set name \<and> name \<notin> {[], ''.'', ''..''} \<and> length name \<le> 64"
proof -
  have ok: "\<not> is_name_char (CHR ''/'')" "\<not> is_lower_digit (CHR ''.'')" by code_simp+
  show ?thesis
  proof (cases "name \<noteq> [] \<and> last name = CHR 0x0A")
    case True
    then obtain body where body: "name = body @ [CHR 0x0A]" by (metis append_butlast_last_id)
    then show ?thesis using assms ok by (auto simp: service_name_ok_def list_all_iff)
  next
    case False
    then show ?thesis using assms ok by (auto simp: service_name_ok_def list_all_iff)
  qed
qed

section \<open>Properties\<close>


definition example_deploy :: deploy_env where
  "example_deploy =
     \<lparr>de_intake = \<lparr>ie_bracket = (\<lambda>u. True), ie_world = example_fetch, ie_parsers = example_parsers,
        ie_infer = (\<lambda>u r q. Infer_nothing)\<rparr>,
      de_round_trip = example_round_trip, de_yaml = example_yaml, de_read = (\<lambda>p. Inl (Git_error [])),
      de_baseline = [], de_supplement = id,
      de_draft = (\<lambda>i c n m. Some \<lparr>ca_compose = concat example_lines, ca_confidence = 9 / 10, ca_reasoning = []\<rparr>)\<rparr>"

definition example_deploy_settings :: deploy_settings where
  "example_deploy_settings =
     \<lparr>ds_enabled = True, ds_dspy = True, ds_max_mb = 10, ds_threshold = 1 / 2, ds_git = False, ds_repo = None,
      ds_shared = []\<rparr>"

fun no_credential :: "pystr \<Rightarrow> bool" where
  "no_credential [] = True"
| "no_credential (c # r) = ((lower_char c \<notin> set ''tksp'' \<or> credential_at (c # r) = None) \<and> no_credential r)"

lemma no_credential_scrub: "no_credential s \<Longrightarrow> scrub_from n s = (s, 0)"
proof (induction s arbitrary: n)
  case (Cons c r)
  then have "credential_at (c # r) = None" using credential_key_first by auto
  with Cons show ?case by (cases n) (simp_all del: scrub_from.simps(2) add: scrub_from_skip)
qed simp

lemma example_draft:
  assumes "de_draft example_deploy intake conv ''web'' node = raw"
  shows "\<exists>d. generate_draft example_round_trip example_yaml (1 / 2) [] ''web'' raw = Some d \<and> cd_ok d"
proof -
  have "no_credential (concat example_lines)" by code_simp
  then have scrub: "fst (scrub_credentials (concat example_lines)) = concat example_lines"
    by (simp add: scrub_credentials_def no_credential_scrub del: scrub_from.simps)
  have plain: "untab (concat example_lines) = concat example_lines" "strip (concat example_lines) \<noteq> []" by code_simp+
  obtain doc svcs where doc: "yl_loads example_yaml (concat example_lines) = Some doc"
    "compose_services_of doc = Some svcs" "Y_str ''web'' \<in> fst ` set svcs"
    by (simp add: example_yaml_def compose_services_of_def yaml_get_def)
  have out: "yl_loads example_yaml (concat sorted_lines) \<noteq> None" by (simp add: example_yaml_def)
  have ne: "svcs \<noteq> []" using doc(3) by auto
  show ?thesis
    using assms [symmetric] doc out ne
    by (simp del: image_iff split: option.split add: generate_draft_def example_deploy_def Let_def scrub plain example_normalizes)
qed

lemma example_fetches:
  "\<exists>tr s. fetch_repo (\<lambda>u. True) example_fetch ''https://g.io/r'' 10 = (tr, Inr s)"
proof -
  have url: "check_repo_url (\<lambda>u. True) ''https://g.io/r'' = Inr ''https://g.io/r''" by code_simp
  show ?thesis
    by (simp add: fetch_repo_def url run_clone_def example_fetch_def dir_size_bytes_def collect_from_dir_def
        read_contained_def DOCKERFILE_NAMES_def COMPOSE_NAMES_def README_NAMES_def MAX_FILE_BYTES_def)
qed


end
