(* ===== verification/Difflib.thy ===== *)
theory Difflib
  imports Prelude Complex_Main "HOL-Library.List_Lexorder" "HOL-Library.Char_ord" "HOL-Library.Product_Lexorder"
begin

text \<open>
  \<open>difflib.get_close_matches\<close> as the configuration report uses it: the longest common block of
  two texts row by row, the recursion on what is left of it and right of it, the two upper bounds
  that are tried first, and the best candidate. The block's specification and the recursion's
  termination are proved, and that the two bounds never change the answer. A text of two hundred
  characters or more makes \<open>SequenceMatcher\<close> leave popular characters out; such a text
  never passes the first bound here.
\<close>

section \<open>The longest common block\<close>

text \<open>One row: the length of the common block that ends at each position.\<close>

fun match_row :: "'a \<Rightarrow> 'a list \<Rightarrow> nat list \<Rightarrow> nat list" where
  "match_row c (y # ys) (p # ps) = (if y = c then Suc p else 0) # match_row c ys ps"
| "match_row c ys ps = []"

type_synonym block = "nat \<times> nat \<times> nat"

fun scan_row :: "nat \<Rightarrow> nat \<Rightarrow> block \<Rightarrow> nat list \<Rightarrow> block" where
  "scan_row i j best [] = best"
| "scan_row i j best (k # ks) =
     scan_row i (Suc j) (if snd (snd best) < k then (Suc i - k, Suc j - k, k) else best) ks"

fun scan_rows :: "nat \<Rightarrow> nat list \<Rightarrow> block \<Rightarrow> 'a list \<Rightarrow> 'a list \<Rightarrow> block" where
  "scan_rows i prev best [] b = best"
| "scan_rows i prev best (c # a) b =
     (let row = match_row c b (0 # prev) in scan_rows (Suc i) row (scan_row i 0 best row) a b)"

text \<open>\<open>find_longest_match\<close>: the longest block, the first in \<open>a\<close>, then the first in \<open>b\<close>.\<close>

definition find_longest_match :: "'a list \<Rightarrow> 'a list \<Rightarrow> block" where
  "find_longest_match a b = scan_rows 0 (replicate (length b) 0) (0, 0, 0) a b"

section \<open>The block is common, and no common block is longer\<close>

text \<open>The length of the longest block that ends at both ends.\<close>

fun common_prefix :: "'a list \<Rightarrow> 'a list \<Rightarrow> nat" where
  "common_prefix (x # xs) (y # ys) = (if x = y then Suc (common_prefix xs ys) else 0)"
| "common_prefix xs ys = 0"

definition common_end :: "'a list \<Rightarrow> 'a list \<Rightarrow> nat" where
  "common_end xs ys = common_prefix (rev xs) (rev ys)"

definition row_of :: "'a list \<Rightarrow> 'a list \<Rightarrow> nat list" where
  "row_of a b = map (\<lambda>j. common_end a (take (Suc j) b)) [0..<length b]"

lemma common_prefix_bound: "common_prefix xs ys \<le> length xs \<and> common_prefix xs ys \<le> length ys"
  by (induction xs ys rule: common_prefix.induct) auto

lemma common_prefix_take: "take (common_prefix xs ys) xs = take (common_prefix xs ys) ys"
  by (induction xs ys rule: common_prefix.induct) auto

lemma common_prefix_greatest:
  "k \<le> length xs \<Longrightarrow> k \<le> length ys \<Longrightarrow> take k xs = take k ys \<Longrightarrow> k \<le> common_prefix xs ys"
proof (induction xs ys arbitrary: k rule: common_prefix.induct)
  case (1 x xs y ys)
  then show ?case by (cases k) auto
qed auto

lemma common_end_snoc:
  "common_end (a @ [c]) (b @ [d]) = (if c = d then Suc (common_end a b) else 0)"
  by (simp add: common_end_def)

lemma common_end_nil [simp]: "common_end [] b = 0" "common_end a [] = 0"
  by (simp_all add: common_end_def)

lemma match_row_length: "length ps = Suc (length ys) \<Longrightarrow> length (match_row c ys ps) = length ys"
  by (induction c ys ps rule: match_row.induct) auto

lemma match_row_nth:
  "length ps = Suc (length ys) \<Longrightarrow> j < length ys \<Longrightarrow>
     match_row c ys ps ! j = (if ys ! j = c then Suc (ps ! j) else 0)"
proof (induction c ys ps arbitrary: j rule: match_row.induct)
  case (1 c y ys p ps)
  then show ?case by (cases j) auto
qed auto

lemma row_of_step: "match_row c b (0 # row_of a b) = row_of (a @ [c]) b"
proof (rule nth_equalityI)
  show len: "length (match_row c b (0 # row_of a b)) = length (row_of (a @ [c]) b)"
    by (simp add: match_row_length row_of_def)
  fix j assume "j < length (match_row c b (0 # row_of a b))"
  then have j: "j < length b" by (simp add: match_row_length row_of_def)
  have "(0 # row_of a b) ! j = common_end a (take j b)"
    using j by (cases j) (simp_all add: row_of_def)
  then have "match_row c b (0 # row_of a b) ! j =
      (if b ! j = c then Suc (common_end a (take j b)) else 0)"
    using j by (subst match_row_nth) (simp_all add: row_of_def)
  also have "\<dots> = row_of (a @ [c]) b ! j"
    using j by (auto simp: row_of_def take_Suc_conv_app_nth common_end_snoc)
  finally show "match_row c b (0 # row_of a b) ! j = row_of (a @ [c]) b ! j" .
qed

fun common_block :: "'a list \<Rightarrow> 'a list \<Rightarrow> block \<Rightarrow> bool" where
  "common_block a b (i, j, k) \<longleftrightarrow>
     i + k \<le> length a \<and> j + k \<le> length b \<and> take k (drop i a) = take k (drop j b)"

lemma common_end_block:
  assumes "i < length a" "j < length b" "k = common_end (take (Suc i) a) (take (Suc j) b)"
  shows "common_block a b (Suc i - k, Suc j - k, k)"
proof -
  let ?x = "take (Suc i) a" and ?y = "take (Suc j) b"
  have k: "k \<le> Suc i" "k \<le> Suc j"
    using assms common_prefix_bound [of "rev ?x" "rev ?y"] by (auto simp: common_end_def)
  have "take k (rev ?x) = take k (rev ?y)"
    using common_prefix_take assms(3) by (metis common_end_def)
  then have "drop (Suc i - k) ?x = drop (Suc j - k) ?y"
    using assms(1,2) by (simp add: take_rev)
  then have "take k (drop (Suc i - k) a) = take k (drop (Suc j - k) b)"
    using k by (simp add: drop_take)
  then show ?thesis using k assms(1,2) by simp
qed

lemma common_block_end:
  assumes "common_block a b (i, j, k)"
  shows "k \<le> common_end (take (i + k) a) (take (j + k) b)"
proof -
  have b: "i + k \<le> length a" "j + k \<le> length b" "take k (drop i a) = take k (drop j b)" using assms by auto
  have "take k (rev (take (i + k) a)) = rev (take k (drop i a))"
    "take k (rev (take (j + k) b)) = rev (take k (drop j b))"
    using b(1,2) by (simp_all add: take_rev drop_take)
  then show ?thesis unfolding common_end_def using b by (intro common_prefix_greatest) auto
qed

lemma scan_row_size: "snd (snd (scan_row i j best ks)) = fold max ks (snd (snd best))"
proof (induction ks arbitrary: j best)
  case (Cons k ks)
  then show ?case by (auto simp: max_def not_less)
qed simp

lemma fold_max_ge: "x \<le> fold max ks x \<and> (\<forall>k \<in> set ks. k \<le> fold max ks (x :: nat))"
proof (induction ks arbitrary: x)
  case (Cons k ks)
  from Cons [of "max k x"] show ?case by auto
qed simp

lemma scan_row_block:
  "(\<And>m. m < length ks \<Longrightarrow> common_block a b (Suc i - ks ! m, Suc (j + m) - ks ! m, ks ! m)) \<Longrightarrow>
     common_block a b best \<Longrightarrow> common_block a b (scan_row i j best ks)"
proof (induction ks arbitrary: j best)
  case (Cons k ks)
  have "common_block a b (Suc i - k, Suc j - k, k)" using Cons.prems(1) [of 0] by simp
  moreover have "common_block a b (Suc i - ks ! m, Suc (Suc j + m) - ks ! m, ks ! m)" if "m < length ks" for m
    using Cons.prems(1) [of "Suc m"] that by simp
  ultimately show ?case using Cons.IH Cons.prems(2) by (simp del: common_block.simps)
qed simp

lemma scan_rows_spec:
  "common_block (p @ a) b best \<Longrightarrow> r = scan_rows (length p) (row_of p b) best a b \<Longrightarrow>
     common_block (p @ a) b r \<and> snd (snd best) \<le> snd (snd r) \<and>
     (\<forall>i j. length p < i \<and> i \<le> length (p @ a) \<and> 0 < j \<and> j \<le> length b \<longrightarrow>
        common_end (take i (p @ a)) (take j b) \<le> snd (snd r))"
proof (induction a arbitrary: p best)
  case (Cons c a)
  let ?row = "row_of (p @ [c]) b"
  let ?best = "scan_row (length p) 0 best ?row"
  have r: "r = scan_rows (length (p @ [c])) ?row ?best a b"
    using Cons.prems(2) by (simp add: row_of_step Let_def)
  have nth: "?row ! m = common_end (take (Suc (length p)) (p @ c # a)) (take (Suc m) b)" if "m < length b" for m
    using that by (simp add: row_of_def)
  have block: "common_block ((p @ [c]) @ a) b ?best"
  proof (rule scan_row_block)
    fix m assume "m < length ?row"
    then have m: "m < length b" by (simp add: row_of_def)
    then show "common_block ((p @ [c]) @ a) b (Suc (length p) - ?row ! m, Suc (0 + m) - ?row ! m, ?row ! m)"
      using common_end_block [of "length p" "p @ c # a" m b "?row ! m"] nth [OF m] by simp
  next
    show "common_block ((p @ [c]) @ a) b best" using Cons.prems(1) by simp
  qed
  have sizes: "snd (snd best) \<le> snd (snd ?best)" "\<forall>k \<in> set ?row. k \<le> snd (snd ?best)"
    using fold_max_ge by (auto simp: scan_row_size)
  from Cons.IH [OF block r] have ih: "common_block (p @ c # a) b r" "snd (snd ?best) \<le> snd (snd r)"
    "\<And>i j. length p + 1 < i \<Longrightarrow> i \<le> length (p @ c # a) \<Longrightarrow> 0 < j \<Longrightarrow> j \<le> length b \<Longrightarrow>
        common_end (take i (p @ c # a)) (take j b) \<le> snd (snd r)" by auto
  have "common_end (take i (p @ c # a)) (take j b) \<le> snd (snd r)"
    if "length p < i" "i \<le> length (p @ c # a)" "0 < j" "j \<le> length b" for i j
  proof (cases "i = Suc (length p)")
    case True
    have "?row ! (j - 1) \<in> set ?row" using that by (intro nth_mem) (simp add: row_of_def)
    then have "?row ! (j - 1) \<le> snd (snd r)" using sizes(2) ih(2) by fastforce
    then show ?thesis using nth [of "j - 1"] that True by simp
  next
    case False
    then show ?thesis using ih(3) that by simp
  qed
  then show ?case using ih sizes(1) by auto
qed simp

lemma find_longest_match_spec:
  shows "common_block a b (find_longest_match a b)"
    and "common_block a b (i, j, k) \<Longrightarrow> k \<le> snd (snd (find_longest_match a b))"
proof -
  have r: "find_longest_match a b = scan_rows (length []) (row_of [] b) (0, 0, 0) a b"
    by (simp add: find_longest_match_def row_of_def map_replicate_const)
  note spec = scan_rows_spec [of "[]", simplified append_Nil, OF _ r]
  show "common_block a b (find_longest_match a b)" using spec by simp
  show "k \<le> snd (snd (find_longest_match a b))" if "common_block a b (i, j, k)"
  proof (cases "k = 0")
    case False
    then have "common_end (take (i + k) a) (take (j + k) b) \<le> snd (snd (find_longest_match a b))"
      using spec that by simp
    then show ?thesis using common_block_end [OF that] by simp
  qed simp
qed

section \<open>The matched characters\<close>

text \<open>\<open>get_matching_blocks\<close>, added up: the longest block, and the same to its left and right.\<close>

function matched :: "'a list \<Rightarrow> 'a list \<Rightarrow> nat" where
  "matched a b =
     (case find_longest_match a b of
        (i, j, k) \<Rightarrow>
          if k = 0 then 0
          else k + matched (take i a) (take j b) + matched (drop (i + k) a) (drop (j + k) b))"
  by auto

lemma match_inside: "(i, j, k) = find_longest_match a b \<Longrightarrow> i + k \<le> length a"
  using find_longest_match_spec(1) [of a b] by (metis common_block.simps)

termination matched
  by (relation "measure (\<lambda>(a, b). length a)") (auto dest: match_inside)

declare matched.simps [simp del]

section \<open>The best candidate\<close>

definition ratio_of :: "nat \<Rightarrow> nat \<Rightarrow> rat" where
  "ratio_of matches len = (if len = 0 then 1 else 2 * of_nat matches / of_nat len)"

definition ratio :: "'a list \<Rightarrow> 'a list \<Rightarrow> rat" where
  "ratio a b = ratio_of (matched a b) (length a + length b)"

text \<open>\<open>quick_ratio\<close> counts the characters of \<open>a\<close> that \<open>b\<close> still has.\<close>

fun overlap :: "'a list \<Rightarrow> 'a list \<Rightarrow> nat" where
  "overlap [] b = 0"
| "overlap (c # a) b = (if c \<in> set b then Suc (overlap a (remove1 c b)) else overlap a b)"

definition quick_ratio :: "'a list \<Rightarrow> 'a list \<Rightarrow> rat" where
  "quick_ratio a b = ratio_of (overlap a b) (length a + length b)"

definition real_quick_ratio :: "'a list \<Rightarrow> 'a list \<Rightarrow> rat" where
  "real_quick_ratio a b = ratio_of (min (length a) (length b)) (length a + length b)"

definition close_enough :: "rat \<Rightarrow> 'a list \<Rightarrow> 'a list \<Rightarrow> bool" where
  "close_enough cutoff word x \<longleftrightarrow>
     cutoff \<le> real_quick_ratio x word \<and> cutoff \<le> quick_ratio x word \<and> cutoff \<le> ratio x word"

text \<open>\<open>get_close_matches\<close> with \<open>n = 1\<close>: the best score, of equal ones the greatest text.\<close>

definition get_close_match :: "pystr \<Rightarrow> pystr list \<Rightarrow> rat \<Rightarrow> pystr option" where
  "get_close_match word possibilities cutoff =
     (case map (\<lambda>x. (ratio x word, x)) (filter (close_enough cutoff word) possibilities) of
        [] \<Rightarrow> None
      | s # ss \<Rightarrow> Some (snd (fold max ss s)))"

lemma overlap_mset: "overlap a b = size (mset a \<inter># mset b)"
proof (induction a b rule: overlap.induct)
  case (2 c a b)
  show ?case
  proof (cases "c \<in> set b")
    case True
    then obtain B where B: "mset b = add_mset c B" by (metis insert_DiffM set_mset_mset)
    then show ?thesis using 2(1) True by simp
  next
    case False
    then show ?thesis using 2(2) by (simp add: inter_add_left1 in_multiset_in_set)
  qed
qed simp

lemma mset_window: "mset a = mset (take i a) + mset (take k (drop i a)) + mset (drop (i + k) a)"
proof -
  have "a = (take i a @ take k (drop i a)) @ drop (i + k) a" by (simp flip: take_add)
  then have "mset a = mset ((take i a @ take k (drop i a)) @ drop (i + k) a)" by (rule arg_cong)
  then show ?thesis by (simp only: mset_append)
qed

lemma matched_overlap: "matched a b \<le> overlap a b"
proof (induction a b rule: matched.induct)
  case (1 a b)
  obtain i j k where m: "find_longest_match a b = (i, j, k)" by (metis prod_cases3)
  show ?case
  proof (cases "k = 0")
    case True
    then show ?thesis using m by (simp add: matched.simps)
  next
    case False
    have c: "i + k \<le> length a" "j + k \<le> length b" "take k (drop i a) = take k (drop j b)"
      using find_longest_match_spec(1) [of a b] m by auto
    let ?M = "mset (take k (drop i a))"
    have a: "mset a = mset (take i a) + ?M + mset (drop (i + k) a)" by (rule mset_window)
    have b: "mset b = mset (take j b) + ?M + mset (drop (j + k) b)" unfolding c(3) by (rule mset_window)
    have sub: "(mset (take i a) \<inter># mset (take j b)) + ?M + (mset (drop (i + k) a) \<inter># mset (drop (j + k) b))
        \<subseteq># mset a \<inter># mset b"
      unfolding a b by (intro subset_mset.inf_greatest subset_mset.add_mono) auto
    then have "size (mset (take i a) \<inter># mset (take j b)) + k +
        size (mset (drop (i + k) a) \<inter># mset (drop (j + k) b)) \<le> size (mset a \<inter># mset b)"
      using size_mset_mono [OF sub] c(1) by (simp add: min_absorb2)
    moreover have "matched (take i a) (take j b) \<le> overlap (take i a) (take j b)"
      "matched (drop (i + k) a) (drop (j + k) b) \<le> overlap (drop (i + k) a) (drop (j + k) b)"
      using "1.IH" m False by auto
    ultimately show ?thesis using m False by (simp add: matched.simps [of a b] overlap_mset)
  qed
qed

lemma overlap_min: "overlap a b \<le> min (length a) (length b)"
proof -
  have "size (mset a \<inter># mset b) \<le> size (mset a)" "size (mset a \<inter># mset b) \<le> size (mset b)"
    by (rule size_mset_mono, simp)+
  then show ?thesis by (simp add: overlap_mset)
qed

lemma ratio_of_mono: "m \<le> n \<Longrightarrow> ratio_of m t \<le> ratio_of n t"
  by (simp add: ratio_of_def divide_right_mono)

lemma ratios_ordered: "ratio x word \<le> quick_ratio x word" "quick_ratio x word \<le> real_quick_ratio x word"
  unfolding ratio_def quick_ratio_def real_quick_ratio_def
  by (rule ratio_of_mono, rule matched_overlap) (rule ratio_of_mono, rule overlap_min)

lemma close_by_ratio: "close_enough cutoff word x \<longleftrightarrow> cutoff \<le> ratio x word"
  unfolding close_enough_def using ratios_ordered order_trans by meson

lemma fold_max_mem: "fold max ss s \<in> set (s # ss)"
  by (induction ss arbitrary: s) (auto simp: max_def)

lemma fold_max_upper: "x \<in> set (s # ss) \<Longrightarrow> x \<le> fold max ss (s :: 'a :: linorder)"
proof (induction ss arbitrary: s x)
  case (Cons t ss)
  show ?case
  proof (cases "x \<in> set ss")
    case True
    then show ?thesis using Cons.IH [where x = x and s = "max t s"] by simp
  next
    case False
    then have "x \<le> max t s" using Cons.prems by auto
    also have "max t s \<le> fold max ss (max t s)" using Cons.IH [where x = "max t s" and s = "max t s"] by simp
    finally show ?thesis by simp
  qed
qed simp

lemma get_close_match_spec:
  "get_close_match word ps cutoff = Some x \<longleftrightarrow>
     x \<in> set ps \<and> cutoff \<le> ratio x word \<and>
     (\<forall>y \<in> set ps. cutoff \<le> ratio y word \<longrightarrow> (ratio y word, y) \<le> (ratio x word, x))"
  "get_close_match word ps cutoff = None \<longleftrightarrow> (\<forall>y \<in> set ps. ratio y word < cutoff)"
proof -
  let ?c = "map (\<lambda>x. (ratio x word, x)) (filter (close_enough cutoff word) ps)"
  have mem: "(r, y) \<in> set ?c \<longleftrightarrow> y \<in> set ps \<and> cutoff \<le> ratio y word \<and> r = ratio y word" for r y
    by (auto simp: close_by_ratio)
  have "get_close_match word ps cutoff = None \<longleftrightarrow> ?c = []"
    unfolding get_close_match_def by (cases ?c) simp_all
  then show none: "get_close_match word ps cutoff = None \<longleftrightarrow> (\<forall>y \<in> set ps. ratio y word < cutoff)"
    by (auto simp: close_by_ratio filter_empty_conv not_le)
  show "get_close_match word ps cutoff = Some x \<longleftrightarrow>
     x \<in> set ps \<and> cutoff \<le> ratio x word \<and>
     (\<forall>y \<in> set ps. cutoff \<le> ratio y word \<longrightarrow> (ratio y word, y) \<le> (ratio x word, x))"
  proof (cases ?c)
    case Nil
    then show ?thesis using mem by (auto simp: get_close_match_def close_by_ratio filter_empty_conv)
  next
    case (Cons s ss)
    let ?m = "fold max ss s"
    have g: "get_close_match word ps cutoff = Some (snd ?m)" by (simp only: get_close_match_def Cons list.case)
    have m: "?m \<in> set ?c" unfolding Cons by (rule fold_max_mem)
    then obtain y where y: "?m = (ratio y word, y)" "y \<in> set ps" "cutoff \<le> ratio y word"
    proof -
      obtain r y where e: "?m = (r, y)" by (rule prod.exhaust)
      with m have "(r, y) \<in> set ?c" by (simp only: e)
      then show thesis using that mem [of r y] e by blast
    qed
    have ge: "(ratio z word, z) \<le> ?m" if "z \<in> set ps" "cutoff \<le> ratio z word" for z
    proof -
      have "(ratio z word, z) \<in> set (s # ss)" using mem that Cons by metis
      then show ?thesis by (rule fold_max_upper)
    qed
    show ?thesis
    proof
      assume "get_close_match word ps cutoff = Some x"
      then show "x \<in> set ps \<and> cutoff \<le> ratio x word \<and>
        (\<forall>y \<in> set ps. cutoff \<le> ratio y word \<longrightarrow> (ratio y word, y) \<le> (ratio x word, x))"
        using g y ge by auto
    next
      assume x: "x \<in> set ps \<and> cutoff \<le> ratio x word \<and>
        (\<forall>y \<in> set ps. cutoff \<le> ratio y word \<longrightarrow> (ratio y word, y) \<le> (ratio x word, x))"
      then have "?m \<le> (ratio x word, x)" using y by auto
      moreover have "(ratio x word, x) \<le> ?m" using ge x by auto
      ultimately have "?m = (ratio x word, x)" by (rule antisym)
      then show "get_close_match word ps cutoff = Some x" using g by simp
    qed
  qed
qed

end
