(* ===== verification/Config.thy ===== *)
theory Config
  imports Difflib
begin

text \<open>
  \<open>config.py\<close>: every setting with its kind, default and bound, the values of a process, and how
  they come from the environment. A credential is a value of its own kind, \<open>S_secret\<close>, so what a
  definition does with one can be seen in its type. The reading of a number or a truth value from
  text is a parameter (pydantic).
\<close>

section \<open>The settings\<close>

datatype setting_value =
    S_none
  | S_text pystr
  | S_secret pystr
  | S_int int
  | S_float rat
  | S_bool bool

datatype setting_kind =
    K_text | K_opt_text | K_secret | K_int | K_positive_int | K_float | K_positive_float | K_bool
  | K_choice "pystr list"

type_synonym setting = "pystr \<times> setting_kind \<times> setting_value"

definition TRANSPORTS :: "pystr list" where
  "TRANSPORTS = [''stdio'', ''sse'', ''streamable-http'']"

definition GIT_PROVIDERS :: "pystr list" where
  "GIT_PROVIDERS = [''gitea'', ''github'', ''gitlab'']"

definition NOTIFICATION_PROVIDERS :: "pystr list" where
  "NOTIFICATION_PROVIDERS = [''ntfy'', ''smtp'', ''none'']"

definition APPLY_MODES :: "pystr list" where
  "APPLY_MODES = [''manual'', ''webhook'', ''ansible'']"

definition SETTINGS_UPSTREAM :: "setting list" where
  "SETTINGS_UPSTREAM =
     [(''registry_db_path'', K_text, S_text ''/data/registry.db''),
      (''registry_log_path'', K_text, S_text ''/data/events.log''),
      (''traefik_api_url'', K_opt_text, S_none),
      (''traefik_timeout_seconds'', K_float, S_float 10),
      (''traefik_retries'', K_int, S_int 3),
      (''authentik_api_url'', K_opt_text, S_none),
      (''authentik_token'', K_secret, S_none),
      (''authentik_timeout_seconds'', K_float, S_float 10),
      (''authentik_retries'', K_int, S_int 3),
      (''dockhand_api_url'', K_opt_text, S_none),
      (''dockhand_token'', K_secret, S_none),
      (''dockhand_timeout_seconds'', K_float, S_float 10),
      (''dockhand_retries'', K_int, S_int 3),
      (''dockhand_allow_write'', K_bool, S_bool False),
      (''dockhand_action_challenge_ttl_minutes'', K_positive_int, S_int 5),
      (''dockhand_action_timeout_seconds'', K_positive_float, S_float 120),
      (''docs_mcp_url'', K_opt_text, S_none),
      (''docs_mcp_token'', K_secret, S_none),
      (''docs_mcp_timeout_seconds'', K_float, S_float 30),
      (''dozzle_mcp_url'', K_opt_text, S_none),
      (''dozzle_mcp_token'', K_secret, S_none),
      (''dozzle_mcp_timeout_seconds'', K_float, S_float 15),
      (''dozzle_mcp_max_log_entries'', K_int, S_int 200),
      (''dozzle_mcp_max_since_minutes'', K_int, S_int 1440),
      (''mcp_transport'', K_choice TRANSPORTS, S_text ''streamable-http''),
      (''mcp_host'', K_text, S_text ''0.0.0.0''),
      (''mcp_port'', K_int, S_int 8765),
      (''mcp_allowed_hosts'', K_text, S_text ''127.0.0.1,127.0.0.1:*,localhost,localhost:*,[::1],[::1]:*''),
      (''mcp_allowed_origins'', K_text, S_text ''''),
      (''mcp_auth_enabled'', K_bool, S_bool False),
      (''mcp_auth_issuer_url'', K_opt_text, S_none),
      (''mcp_auth_audience'', K_opt_text, S_none),
      (''mcp_auth_required_group'', K_opt_text, S_none),
      (''mcp_auth_resource_url'', K_opt_text, S_none),
      (''mcp_auth_jwks_url'', K_opt_text, S_none),
      (''mcp_auth_scopes'', K_text, S_text ''openid profile''),
      (''mcp_auth_jwks_cache_seconds'', K_int, S_int 300),
      (''event_retention_days'', K_int, S_int 90),
      (''docker_base_url'', K_opt_text, S_none),
      (''discovery_traefik_interval_seconds'', K_int, S_int 300),
      (''discovery_docker_interval_seconds'', K_int, S_int 300),
      (''discovery_authentik_interval_seconds'', K_int, S_int 900),
      (''discovery_dockhand_interval_seconds'', K_int, S_int 300),
      (''discovery_stale_after_misses'', K_int, S_int 3)]"

definition SETTINGS_PROPOSALS :: "setting list" where
  "SETTINGS_PROPOSALS =
     [(''dspy_enabled'', K_bool, S_bool False),
      (''dspy_model'', K_text, S_text ''anthropic/claude-haiku-4-5-20251001''),
      (''dspy_api_key'', K_secret, S_none),
      (''dspy_confidence_threshold'', K_float, S_float (7 / 10)),
      (''dspy_max_tokens'', K_int, S_int 1024),
      (''dspy_patch_max_tokens'', K_int, S_int 4096),
      (''dspy_compiled_path'', K_opt_text, S_none),
      (''git_provider'', K_choice GIT_PROVIDERS, S_text ''gitea''),
      (''git_base_url'', K_opt_text, S_none),
      (''git_token'', K_secret, S_none),
      (''git_repo'', K_opt_text, S_none),
      (''git_base_branch'', K_text, S_text ''main''),
      (''notification_provider'', K_choice NOTIFICATION_PROVIDERS, S_text ''none''),
      (''notification_url'', K_opt_text, S_none),
      (''notification_topic'', K_text, S_text ''homelab-registry''),
      (''notification_token'', K_secret, S_none),
      (''notification_smtp_host'', K_opt_text, S_none),
      (''notification_smtp_port'', K_int, S_int 587),
      (''notification_smtp_username'', K_opt_text, S_none),
      (''notification_smtp_password'', K_secret, S_none),
      (''notification_smtp_use_tls'', K_bool, S_bool True),
      (''notification_from_email'', K_opt_text, S_none),
      (''notification_to_email'', K_opt_text, S_none),
      (''apply_mode'', K_choice APPLY_MODES, S_text ''manual''),
      (''proposal_auto_create'', K_bool, S_bool False),
      (''proposal_dry_run'', K_bool, S_bool False),
      (''proposal_stale_days'', K_int, S_int 7),
      (''proposal_confidence_threshold'', K_float, S_float (4 / 5)),
      (''proposal_label'', K_text, S_text ''homelab-registry-mcp''),
      (''proposal_compose_path_template'', K_text, S_text ''nodes/{node}/{service}/compose.yaml''),
      (''proposal_comment_poll_enabled'', K_bool, S_bool False),
      (''proposal_comment_poll_interval_seconds'', K_int, S_int 300),
      (''proposal_comment_allowed_users'', K_text, S_text ''''),
      (''normalization_enabled'', K_bool, S_bool False),
      (''normalization_schedule'', K_text, S_text ''0 7 * * wed,sat''),
      (''normalization_path_glob'', K_text, S_text ''nodes/*/*/compose.yaml''),
      (''normalization_shared_networks'', K_text, S_text ''swarm-net,proxy-net''),
      (''normalization_max_files_per_pr'', K_int, S_int 25),
      (''normalization_dry_run'', K_bool, S_bool False),
      (''normalization_rename_misnamed'', K_bool, S_bool False),
      (''normalization_label'', K_text, S_text ''normalization''),
      (''adoption_enabled'', K_bool, S_bool False),
      (''ssh_default_user'', K_text, S_text ''root'')]"

definition SETTINGS_DEPLOY :: "setting list" where
  "SETTINGS_DEPLOY =
     [(''adoption_draft_ttl_minutes'', K_int, S_int 60),
      (''service_deploy_enabled'', K_bool, S_bool False),
      (''service_deploy_confidence_threshold'', K_float, S_float (4 / 5)),
      (''service_deploy_clone_timeout_seconds'', K_positive_int, S_int 60),
      (''service_deploy_max_repo_mb'', K_positive_int, S_int 100),
      (''service_deploy_conventions_path'', K_text, S_text ''docs/spec/compose.yaml''),
      (''delete_challenge_ttl_minutes'', K_positive_int, S_int 5),
      (''secrets_enabled'', K_bool, S_bool True),
      (''secrets_repo_path'', K_opt_text, S_none),
      (''secrets_key_path'', K_opt_text, S_none),
      (''secrets_git_crypt_key'', K_secret, S_none),
      (''secrets_allow_decrypt'', K_bool, S_bool False),
      (''infisical_enabled'', K_bool, S_bool False),
      (''infisical_base_url'', K_opt_text, S_none),
      (''infisical_client_id'', K_opt_text, S_none),
      (''infisical_client_secret'', K_secret, S_none),
      (''infisical_project_id'', K_opt_text, S_none),
      (''infisical_environment'', K_opt_text, S_none),
      (''infisical_secret_path'', K_text, S_text ''/''),
      (''infisical_recursive_scan'', K_bool, S_bool False),
      (''infisical_max_folders'', K_positive_int, S_int 50),
      (''infisical_allow_write'', K_bool, S_bool False),
      (''ansible_cfg_path'', K_opt_text, S_none),
      (''ssh_key_path'', K_opt_text, S_none),
      (''ansible_inventory_path'', K_opt_text, S_none)]"

definition SETTINGS_WEBHOOKS :: "setting list" where
  "SETTINGS_WEBHOOKS =
     [(''ansible_inventory_write_challenge_ttl_minutes'', K_positive_int, S_int 5),
      (''dockhand_webhook_enabled'', K_bool, S_bool False),
      (''dockhand_webhook_path'', K_text, S_text ''/webhooks/dockhand''),
      (''dockhand_webhook_secret'', K_secret, S_none),
      (''dockhand_webhook_max_body_bytes'', K_positive_int, S_int 65536),
      (''dockhand_webhook_vulnerability_enabled'', K_bool, S_bool True),
      (''dockhand_webhook_vulnerability_min_severity'', K_text, S_text ''high''),
      (''dockhand_webhook_log_raw_payload'', K_bool, S_bool False),
      (''patchmon_webhook_enabled'', K_bool, S_bool False),
      (''patchmon_webhook_path'', K_text, S_text ''/webhooks/patchmon''),
      (''patchmon_webhook_secret'', K_secret, S_none),
      (''patchmon_webhook_max_body_bytes'', K_positive_int, S_int 65536),
      (''patchmon_webhook_events'', K_text, S_text ''patch_available,host_security_updates_exceeded,host_pending_updates_exceeded''),
      (''patchmon_approval_base_url'', K_opt_text, S_none),
      (''patchmon_approval_ttl_minutes'', K_positive_int, S_int 60),
      (''patchmon_ansible_playbook'', K_opt_text, S_none),
      (''patchmon_ansible_timeout_seconds'', K_positive_int, S_int 1800),
      (''patchmon_api_url'', K_opt_text, S_none),
      (''patchmon_api_key'', K_secret, S_none),
      (''patchmon_api_secret'', K_secret, S_none),
      (''patchmon_api_timeout_seconds'', K_positive_float, S_float 5),
      (''log_level'', K_text, S_text ''INFO'')]"

definition MODEL_FIELDS :: "setting list" where
  "MODEL_FIELDS = SETTINGS_UPSTREAM @ SETTINGS_PROPOSALS @ SETTINGS_DEPLOY @ SETTINGS_WEBHOOKS"

definition field_names :: "pystr list" where
  "field_names = map fst MODEL_FIELDS"

definition default_of :: "pystr \<Rightarrow> setting_value option" where
  "default_of name = map_option snd (map_of MODEL_FIELDS name)"

section \<open>The values of a process\<close>

record settings =
  st_value :: "pystr \<Rightarrow> setting_value"
  st_fields_set :: "pystr list"

fun truthy_value :: "setting_value \<Rightarrow> bool" where
  "truthy_value S_none = False"
| "truthy_value (S_text t) = (t \<noteq> [])"
| "truthy_value (S_secret t) = (t \<noteq> [])"
| "truthy_value (S_int i) = (i \<noteq> 0)"
| "truthy_value (S_float r) = (r \<noteq> 0)"
| "truthy_value (S_bool b) = b"

definition on :: "settings \<Rightarrow> pystr \<Rightarrow> bool" where
  "on s name = truthy_value (st_value s name)"

fun text_value :: "setting_value \<Rightarrow> pystr" where
  "text_value (S_text t) = t"
| "text_value v = []"

definition text_of :: "settings \<Rightarrow> pystr \<Rightarrow> pystr" where
  "text_of s name = text_value (st_value s name)"

text \<open>\<open>reveal\<close>.\<close>

fun reveal :: "setting_value \<Rightarrow> pystr option" where
  "reveal (S_secret t) = Some t"
| "reveal v = None"

text \<open>The values a kind allows.\<close>

fun kind_ok :: "setting_kind \<Rightarrow> setting_value \<Rightarrow> bool" where
  "kind_ok K_text (S_text t) = True"
| "kind_ok K_opt_text S_none = True"
| "kind_ok K_opt_text (S_text t) = True"
| "kind_ok K_secret S_none = True"
| "kind_ok K_secret (S_secret t) = True"
| "kind_ok K_int (S_int i) = True"
| "kind_ok K_positive_int (S_int i) = (0 < i)"
| "kind_ok K_float (S_float r) = True"
| "kind_ok K_positive_float (S_float r) = (0 < r)"
| "kind_ok K_bool (S_bool b) = True"
| "kind_ok (K_choice ts) (S_text t) = (t \<in> set ts)"
| "kind_ok k v = False"

text \<open>
  One value from its text: a number or truth value is read by pydantic, and what breaks the
  field's bound or choice is a validation error, \<open>None\<close>.
\<close>

definition validated :: "(setting_kind \<Rightarrow> pystr \<Rightarrow> setting_value option) \<Rightarrow> setting_kind \<Rightarrow> pystr \<Rightarrow> setting_value option" where
  "validated read_value k t =
     (let v = (case k of
                 K_text \<Rightarrow> Some (S_text t)
               | K_opt_text \<Rightarrow> Some (S_text t)
               | K_secret \<Rightarrow> Some (S_secret t)
               | K_choice ts \<Rightarrow> Some (S_text t)
               | _ \<Rightarrow> read_value k t)
      in case v of None \<Rightarrow> None | Some x \<Rightarrow> if kind_ok k x then Some x else None)"

text \<open>\<open>get_settings\<close>: names are read without regard to case; a key that is no setting is ignored,
  and of two spellings of one name the later counts.\<close>

definition get_settings ::
  "(setting_kind \<Rightarrow> pystr \<Rightarrow> setting_value option) \<Rightarrow> (pystr \<times> pystr) list \<Rightarrow> settings option" where
  "get_settings read_value environ =
     (let given = (\<lambda>name. map_of (rev (map (\<lambda>(k, v). (lower k, v)) environ)) name);
          value_of = (\<lambda>(name, k, d). case given name of None \<Rightarrow> Some d | Some t \<Rightarrow> validated read_value k t)
      in if list_all (\<lambda>f. value_of f \<noteq> None) MODEL_FIELDS
         then Some \<lparr>st_value = (\<lambda>name. case map_of MODEL_FIELDS name of
                        None \<Rightarrow> S_none | Some (k, d) \<Rightarrow> (case value_of (name, k, d) of None \<Rightarrow> d | Some v \<Rightarrow> v)),
                    st_fields_set = filter (\<lambda>name. given name \<noteq> None) field_names\<rparr>
         else None)"

definition settings_ok :: "settings \<Rightarrow> bool" where
  "settings_ok s \<longleftrightarrow>
     distinct (st_fields_set s) \<and> set (st_fields_set s) \<subseteq> set field_names \<and>
     (\<forall>(name, k, d) \<in> set MODEL_FIELDS.
        kind_ok k (st_value s name) \<and> (name \<notin> set (st_fields_set s) \<longrightarrow> st_value s name = d))"

lemmas setting_tables =
  MODEL_FIELDS_def SETTINGS_UPSTREAM_def SETTINGS_PROPOSALS_def SETTINGS_DEPLOY_def SETTINGS_WEBHOOKS_def

lemma defaults_valid: "list_all (\<lambda>(name, k, d). kind_ok k d) MODEL_FIELDS"
  by (simp add: setting_tables TRANSPORTS_def GIT_PROVIDERS_def NOTIFICATION_PROVIDERS_def APPLY_MODES_def)

text \<open>A number for each name, so that a list of names is seen to be distinct by its numbers.\<close>

primrec fingerprint :: "pystr \<Rightarrow> nat" where
  "fingerprint [] = 0"
| "fingerprint (c # s) = of_char c + 3 * fingerprint s"

lemma field_names_distinct: "distinct field_names"
proof -
  have "distinct (map fingerprint field_names)" by (simp add: field_names_def setting_tables)
  then show ?thesis by (simp only: distinct_map)
qed

lemma field_lookup: "(name, k, d) \<in> set MODEL_FIELDS \<longleftrightarrow> map_of MODEL_FIELDS name = Some (k, d)"
  using field_names_distinct unfolding field_names_def by (metis map_of_eq_Some_iff)

lemma validated_ok: "validated read_value k t = Some v \<Longrightarrow> kind_ok k v"
  by (auto simp: validated_def Let_def split: option.splits if_splits)

lemma get_settings_ok:
  assumes "get_settings read_value environ = Some s"
  shows "settings_ok s"
proof -
  let ?given = "\<lambda>name. map_of (rev (map (\<lambda>(k, v). (lower k, v)) environ)) name"
  let ?field_val = "\<lambda>(name, k, d). case ?given name of None \<Rightarrow> Some d | Some t \<Rightarrow> validated read_value k t"
  have all: "\<forall>f \<in> set MODEL_FIELDS. ?field_val f \<noteq> None"
    and s: "s = \<lparr>st_value = (\<lambda>name. case map_of MODEL_FIELDS name of
              None \<Rightarrow> S_none | Some (k, d) \<Rightarrow> (case ?field_val (name, k, d) of None \<Rightarrow> d | Some v \<Rightarrow> v)),
            st_fields_set = filter (\<lambda>name. ?given name \<noteq> None) field_names\<rparr>"
    using assms by (auto simp: get_settings_def Let_def list_all_iff split: if_splits)
  have "kind_ok k (st_value s name) \<and> (name \<notin> set (st_fields_set s) \<longrightarrow> st_value s name = d)"
    if f: "(name, k, d) \<in> set MODEL_FIELDS" for name k d
  proof -
    have m: "map_of MODEL_FIELDS name = Some (k, d)" using f field_lookup by blast
    have n: "name \<in> set field_names" using f by (force simp: field_names_def)
    show ?thesis
    proof (cases "?given name")
      case None
      then show ?thesis using defaults_valid f m by (auto simp: s list_all_iff)
    next
      case (Some t)
      then obtain v where v: "validated read_value k t = Some v" using all f by fastforce
      then show ?thesis using validated_ok [OF v] Some m n by (simp add: s)
    qed
  qed
  then show ?thesis using field_names_distinct unfolding settings_ok_def by (auto simp: s)
qed

end
