(* ===== verification/ConfigReport.thy ===== *)
theory ConfigReport
  imports Config
begin

text \<open>
  \<open>config_report.py\<close>: what is set, what a feature that is on still needs, and the environment
  names that look meant for this server. The report is a function of the settings and of the
  names of the environment only, read as ASCII.
\<close>

section \<open>Tables\<close>

definition TYPO_CUTOFF :: rat where
  "TYPO_CUTOFF = 9 / 10"

definition PATCHMON_TRIGGER_RETIRED :: pystr where
  "PATCHMON_TRIGGER_RETIRED =
     ''PatchMon'' @ [CHR 0x27] @ ''s trigger API is no longer called; approved patches run '' @
     ''PATCHMON_ANSIBLE_PLAYBOOK (ADR-020, amended 2026-09-27)''"

definition RETIRED_PREFIXES :: "(pystr \<times> pystr) list" where
  "RETIRED_PREFIXES =
     [(''KOMODO_'', ''the Komodo integration was removed (ADR-011)''),
      (''CHAT_'', ''the /chat interface was removed (ADR-011)''),
      (''WUD_'', ''the WUD webhook was removed (ADR-006)''),
      (''PATCHMON_CALLBACK_'', PATCHMON_TRIGGER_RETIRED),
      (''PATCHMON_API_TOKEN'', PATCHMON_TRIGGER_RETIRED)]"

definition NO_EFFECT :: "(pystr \<times> pystr) list" where
  "NO_EFFECT = [(''infisical_allow_write'', ''reserved for a future write phase'')]"

definition GIT_SETTINGS :: "pystr list" where
  "GIT_SETTINGS = [''git_base_url'', ''git_token'', ''git_repo'']"

definition GIT_CRYPT_KEY :: pystr where
  "GIT_CRYPT_KEY = ''secrets_key_path|secrets_git_crypt_key''"

record feature =
  ft_name :: pystr
  ft_on :: "settings \<Rightarrow> bool"
  ft_needs :: "pystr list"
  ft_uses :: "pystr list"

definition feature :: "pystr \<Rightarrow> (settings \<Rightarrow> bool) \<Rightarrow> pystr list \<Rightarrow> pystr list \<Rightarrow> feature" where
  "feature name is_on needs uses = \<lparr>ft_name = name, ft_on = is_on, ft_needs = needs, ft_uses = uses\<rparr>"

definition INTEGRATION_FEATURES :: "feature list" where
  "INTEGRATION_FEATURES =
     [feature ''Traefik discovery'' (\<lambda>s. on s ''traefik_api_url'')
        []
        [''traefik_timeout_seconds'', ''traefik_retries'', ''discovery_traefik_interval_seconds''],
      feature ''Authentik'' (\<lambda>s. on s ''authentik_api_url'' \<or> on s ''authentik_token'')
        [''authentik_api_url'', ''authentik_token'']
        [''authentik_timeout_seconds'', ''authentik_retries'', ''discovery_authentik_interval_seconds''],
      feature ''Dockhand'' (\<lambda>s. on s ''dockhand_api_url'' \<or> on s ''dockhand_token'')
        [''dockhand_api_url'', ''dockhand_token'']
        [''dockhand_timeout_seconds'', ''dockhand_retries'', ''discovery_dockhand_interval_seconds''],
      feature ''Dockhand actions'' (\<lambda>s. on s ''dockhand_allow_write'')
        [''dockhand_api_url'', ''dockhand_token'']
        [''dockhand_action_challenge_ttl_minutes'', ''dockhand_action_timeout_seconds''],
      feature ''Docker discovery'' (\<lambda>s. on s ''docker_base_url'')
        []
        [''discovery_docker_interval_seconds''],
      feature ''documentation-mcp'' (\<lambda>s. on s ''docs_mcp_url'' \<or> on s ''docs_mcp_token'')
        [''docs_mcp_url'', ''docs_mcp_token'']
        [''docs_mcp_timeout_seconds''],
      feature ''Dozzle'' (\<lambda>s. on s ''dozzle_mcp_url'' \<or> on s ''dozzle_mcp_token'')
        [''dozzle_mcp_url'']
        [''dozzle_mcp_token'', ''dozzle_mcp_timeout_seconds'', ''dozzle_mcp_max_log_entries'',
         ''dozzle_mcp_max_since_minutes''],
      feature ''Reasoning layer (DSPy)'' (\<lambda>s. on s ''dspy_enabled'')
        []
        [''dspy_model'', ''dspy_api_key'', ''dspy_confidence_threshold'', ''dspy_max_tokens'',
         ''dspy_patch_max_tokens'', ''dspy_compiled_path''],
      feature ''Git write path'' (\<lambda>s. list_ex (on s) GIT_SETTINGS)
        GIT_SETTINGS
        [''git_provider'', ''git_base_branch'', ''apply_mode'', ''proposal_dry_run'',
         ''proposal_stale_days'', ''proposal_confidence_threshold'', ''proposal_label'',
         ''proposal_compose_path_template''],
      feature ''ntfy notifications'' (\<lambda>s. text_of s ''notification_provider'' = ''ntfy'')
        [''notification_url'']
        [''notification_topic'', ''notification_token''],
      feature ''SMTP notifications'' (\<lambda>s. text_of s ''notification_provider'' = ''smtp'')
        [''notification_smtp_host'', ''notification_from_email'', ''notification_to_email'']
        [''notification_smtp_port'', ''notification_smtp_username'', ''notification_smtp_password'',
         ''notification_smtp_use_tls''],
      feature ''Proposal auto-create'' (\<lambda>s. on s ''proposal_auto_create'')
        (GIT_SETTINGS @ [''dspy_enabled''])
        [],
      feature ''PR comment polling'' (\<lambda>s. on s ''proposal_comment_poll_enabled'')
        (GIT_SETTINGS @ [''dspy_enabled'', ''proposal_comment_allowed_users''])
        [''proposal_comment_poll_interval_seconds'']]"

definition GATED_FEATURES :: "feature list" where
  "GATED_FEATURES =
     [feature ''Normalization'' (\<lambda>s. on s ''normalization_enabled'')
        GIT_SETTINGS
        [''normalization_schedule'', ''normalization_path_glob'', ''normalization_max_files_per_pr'',
         ''normalization_dry_run'', ''normalization_rename_misnamed'', ''normalization_label'',
         ''normalization_shared_networks''],
      feature ''Brownfield adoption'' (\<lambda>s. on s ''adoption_enabled'')
        (GIT_SETTINGS @ [''secrets_repo_path'', GIT_CRYPT_KEY, ''ssh_key_path'', ''dspy_enabled''])
        [''ssh_default_user'', ''adoption_draft_ttl_minutes''],
      feature ''Repo intake'' (\<lambda>s. on s ''service_deploy_enabled'')
        []
        [''service_deploy_confidence_threshold'', ''service_deploy_clone_timeout_seconds'',
         ''service_deploy_max_repo_mb''],
      feature ''Compose generation'' (\<lambda>s. on s ''service_deploy_enabled'')
        [''dspy_enabled'']
        [''service_deploy_conventions_path'', ''normalization_shared_networks''],
      feature ''git-crypt secrets'' (\<lambda>s. on s ''secrets_enabled'' \<and> on s ''secrets_repo_path'')
        [GIT_CRYPT_KEY]
        [''secrets_allow_decrypt''],
      feature ''Infisical'' (\<lambda>s. on s ''infisical_enabled'')
        [''infisical_base_url'', ''infisical_client_id'', ''infisical_client_secret'',
         ''infisical_project_id'', ''infisical_environment'']
        [''infisical_secret_path'', ''infisical_recursive_scan'', ''infisical_max_folders''],
      feature ''Dockhand webhook'' (\<lambda>s. on s ''dockhand_webhook_enabled'')
        ([''dockhand_webhook_secret''] @ GIT_SETTINGS)
        [''dockhand_webhook_path'', ''dockhand_webhook_max_body_bytes'',
         ''dockhand_webhook_vulnerability_enabled'', ''dockhand_webhook_vulnerability_min_severity'',
         ''dockhand_webhook_log_raw_payload''],
      feature ''Patchmon webhook'' (\<lambda>s. on s ''patchmon_webhook_enabled'')
        [''patchmon_webhook_secret'', ''patchmon_approval_base_url'', ''notification_smtp_host'',
         ''notification_from_email'', ''notification_to_email'', ''patchmon_ansible_playbook'',
         ''ansible_cfg_path'', ''ssh_key_path'']
        [''patchmon_webhook_path'', ''patchmon_webhook_max_body_bytes'', ''patchmon_webhook_events'',
         ''patchmon_approval_ttl_minutes'', ''patchmon_ansible_timeout_seconds'', ''ssh_default_user''],
      feature ''PatchMon API'' (\<lambda>s. on s ''patchmon_api_url'')
        [''patchmon_api_key'', ''patchmon_api_secret'']
        [''patchmon_api_timeout_seconds''],
      feature ''Hardware discovery'' (\<lambda>s. on s ''ansible_cfg_path'' \<or> on s ''ssh_key_path'')
        [''ansible_cfg_path'', ''ssh_key_path'']
        [''ssh_default_user''],
      feature ''MCP OAuth'' (\<lambda>s. on s ''mcp_auth_enabled'')
        [''mcp_auth_issuer_url'', ''mcp_auth_audience'', ''mcp_auth_required_group'',
         ''mcp_auth_resource_url'']
        [''mcp_auth_jwks_url'', ''mcp_auth_scopes'', ''mcp_auth_jwks_cache_seconds''],
      feature ''Ansible inventory sync'' (\<lambda>s. on s ''ansible_inventory_path'')
        []
        [''ansible_inventory_write_challenge_ttl_minutes'']]"

definition FEATURES :: "feature list" where
  "FEATURES = INTEGRATION_FEATURES @ GATED_FEATURES"

definition READ_REGARDLESS :: "pystr list" where
  "READ_REGARDLESS = [''secrets_repo_path'', ''ansible_cfg_path'', ''ssh_key_path'', ''dspy_enabled'']"

definition options_of :: "pystr \<Rightarrow> pystr list" where
  "options_of need = split_at_char (CHR ''|'') need"

definition feature_settings :: "feature \<Rightarrow> pystr list" where
  "feature_settings f = concat (map options_of (ft_needs f)) @ ft_uses f"

section \<open>The parts of the report\<close>

definition env_name :: "pystr \<Rightarrow> pystr" where
  "env_name setting = upper_ascii setting"

definition missing :: "settings \<Rightarrow> pystr list \<Rightarrow> pystr list" where
  "missing s needs =
     map (\<lambda>need. join '' or '' (map env_name (options_of need)))
       (filter (\<lambda>need. \<not> list_ex (on s) (options_of need)) needs)"

text \<open>\<open>sorted\<close> of a set.\<close>

definition sorted_set :: "pystr list \<Rightarrow> pystr list" where
  "sorted_set xs = sort (remdups xs)"

definition warnings :: "settings \<Rightarrow> pystr list \<Rightarrow> pystr list" where
  "warnings s environ =
     (let hosts = text_of s ''mcp_allowed_hosts''; stdio = (text_of s ''mcp_transport'' = ''stdio'') in
      (if stdio then []
       else if Some (S_text hosts) = default_of ''mcp_allowed_hosts'' then
         [''MCP_ALLOWED_HOSTS is the loopback-only default: a client that reaches /mcp '' @
          ''through Traefik or the LAN gets HTTP 421'']
       else if \<not> list_ex (\<lambda>h. strip h \<noteq> []) (split_at_char (CHR '','') hosts) then
         [''MCP_ALLOWED_HOSTS is set but names no host: every client that reaches /mcp '' @ ''gets HTTP 421'']
       else []) @
      (if on s ''dspy_enabled'' \<and> \<not> on s ''dspy_api_key'' \<and>
          starts_with (text_of s ''dspy_model'') ''anthropic/'' \<and> ''ANTHROPIC_API_KEY'' \<notin> set environ
       then [''Reasoning layer (DSPy) is on, but neither DSPY_API_KEY nor ANTHROPIC_API_KEY is set''] else []) @
      (if on s ''mcp_auth_enabled'' \<and> stdio
       then [''MCP_AUTH_ENABLED is on, but MCP_TRANSPORT is stdio: tokens are checked only '' @
             ''on HTTP, so it has no effect''] else []) @
      (if on s ''patchmon_webhook_enabled'' \<and> text_of s ''notification_provider'' \<noteq> ''smtp''
       then [''Patchmon webhook is on, but NOTIFICATION_PROVIDER is not smtp: approval links '' @
             ''are sent by email only, so its routes stay unregistered''] else []) @
      map (\<lambda>(name, why). env_name name @ '' is set but has no effect ('' @ why @ '')'')
        (filter (\<lambda>(name, why). name \<in> set (st_fields_set s)) NO_EFFECT))"

datatype unknown_key = Retired_key pystr pystr | Close_key pystr pystr

fun unknown_name :: "unknown_key \<Rightarrow> pystr" where
  "unknown_name (Retired_key key why) = key"
| "unknown_name (Close_key key name) = key"

definition known_keys :: "pystr list" where
  "known_keys = map env_name field_names"

definition retired :: "pystr \<Rightarrow> pystr option" where
  "retired key = map_option snd (List.find (\<lambda>(prefix, why). starts_with key prefix) RETIRED_PREFIXES)"

definition unknown_key :: "pystr \<Rightarrow> unknown_key option" where
  "unknown_key key =
     (case retired key of
        Some why \<Rightarrow> Some (Retired_key key (''does nothing: '' @ why))
      | None \<Rightarrow> map_option (Close_key key) (get_close_match key known_keys TYPO_CUTOFF))"

definition unknown_keys :: "pystr list \<Rightarrow> unknown_key list" where
  "unknown_keys environ =
     List.map_filter unknown_key
       (sorted_set (filter (\<lambda>k. k \<notin> set known_keys) (map upper_ascii environ)))"

definition is_secret :: "setting_value \<Rightarrow> bool" where
  "is_secret v = (case v of S_secret t \<Rightarrow> True | _ \<Rightarrow> False)"

definition same_as_default :: "settings \<Rightarrow> pystr list" where
  "same_as_default s =
     map env_name (filter (\<lambda>name. default_of name \<noteq> None \<and> \<not> is_secret (st_value s name) \<and>
         Some (st_value s name) = default_of name)
       (sorted_set (st_fields_set s)))"

definition readers :: "pystr \<Rightarrow> pystr list" where
  "readers name =
     (if name \<in> set READ_REGARDLESS then []
      else map ft_name (filter (\<lambda>f. name \<in> set (feature_settings f)) FEATURES))"

definition for_features_off :: "settings \<Rightarrow> pystr list \<Rightarrow> pystr list \<Rightarrow> (pystr \<times> pystr list) list" where
  "for_features_off s features_on skip =
     map (\<lambda>name. (env_name name, readers name))
       (filter (\<lambda>name. readers name \<noteq> [] \<and> env_name name \<notin> set skip \<and>
           set features_on \<inter> set (readers name) = {})
         (sorted_set (st_fields_set s)))"

fun is_empty_value :: "setting_value \<Rightarrow> bool" where
  "is_empty_value (S_secret t) = (strip t = [])"
| "is_empty_value (S_text t) = (strip t = [])"
| "is_empty_value v = False"

definition empty_fields :: "settings \<Rightarrow> pystr list \<Rightarrow> pystr list" where
  "empty_fields s skip =
     filter (\<lambda>name. default_of name \<noteq> None \<and> name \<noteq> ''mcp_allowed_hosts'' \<and> env_name name \<notin> set skip \<and>
         is_empty_value (st_value s name))
       (sorted_set (st_fields_set s))"

definition has_default :: "pystr \<Rightarrow> bool" where
  "has_default name = (case default_of name of None \<Rightarrow> False | Some v \<Rightarrow> truthy_value v)"

text \<open>The settings that read as unset, and the problems.\<close>

definition empty_settings :: "settings \<Rightarrow> pystr list \<Rightarrow> pystr list \<times> pystr list" where
  "empty_settings s skip =
     (map env_name (filter (\<lambda>name. \<not> has_default name) (empty_fields s skip)),
      map (\<lambda>name. env_name name @ '' is set to an empty value, replacing its default'')
        (filter has_default (empty_fields s skip)))"

section \<open>The report\<close>

record config_report =
  rp_ok :: bool
  rp_problems :: "pystr list"
  rp_unknown_keys :: "unknown_key list"
  rp_features_on :: "pystr list"
  rp_set :: "pystr list"
  rp_same_as_default :: "pystr list"
  rp_for_features_off :: "(pystr \<times> pystr list) list"
  rp_empty :: "pystr list"

definition features_on :: "settings \<Rightarrow> feature list" where
  "features_on s = filter (\<lambda>f. ft_on f s) FEATURES"

definition needs_problems :: "settings \<Rightarrow> pystr list" where
  "needs_problems s =
     map (\<lambda>f. ft_name f @ '' is on but missing '' @ join '', '' (missing s (ft_needs f)))
       (filter (\<lambda>f. missing s (ft_needs f) \<noteq> []) (features_on s))"

definition build_report :: "settings \<Rightarrow> pystr list \<Rightarrow> config_report" where
  "build_report s environ =
     (let on_names = map ft_name (features_on s);
          same = same_as_default s;
          unused = for_features_off s on_names same;
          (unset, empty_problems) = empty_settings s (same @ map fst unused);
          problems = needs_problems s @ empty_problems @ warnings s environ;
          unknown = unknown_keys environ
      in \<lparr>rp_ok = (problems = [] \<and> unknown = []), rp_problems = problems, rp_unknown_keys = unknown,
          rp_features_on = on_names, rp_set = sort (map env_name (st_fields_set s)),
          rp_same_as_default = same, rp_for_features_off = unused, rp_empty = unset\<rparr>)"

text \<open>\<open>process_environ\<close>: the names of the environment, and of the dotenv file when there is one.\<close>

definition process_environ :: "pystr list \<Rightarrow> pystr list option \<Rightarrow> pystr list" where
  "process_environ environ dotenv = environ @ (case dotenv of None \<Rightarrow> [] | Some keys \<Rightarrow> filter (\<lambda>k. k \<notin> set environ) keys)"

section \<open>As text\<close>

definition and_list :: "pystr list \<Rightarrow> pystr" where
  "and_list items =
     (if length items = 1 then hd items else join '', '' (butlast items) @ '' and '' @ last items)"

definition report_section :: "pystr \<Rightarrow> pystr list \<Rightarrow> pystr list" where
  "report_section title items =
     [title @ '' ('' @ show_nat (length items) @ ''):''] @
     (if items = [] then [''  none''] else map (\<lambda>i. ''  - '' @ i) items) @ [[]]"

fun unknown_text :: "unknown_key \<Rightarrow> pystr" where
  "unknown_text (Close_key key name) = key @ '': did you mean '' @ name @ ''?''"
| "unknown_text (Retired_key key why) = key @ '': '' @ why"

definition render_text :: "config_report \<Rightarrow> pystr" where
  "render_text r =
     join [CHR 0x0A]
       ([''Configuration report (setting names only, never values)'', []] @
        report_section ''Problems'' (rp_problems r) @
        report_section ''Unrecognized keys'' (map unknown_text (rp_unknown_keys r)) @
        report_section ''Features on'' (rp_features_on r) @
        report_section ''Set explicitly'' (rp_set r) @
        report_section ''Set to the default anyway (safe to remove)'' (rp_same_as_default r) @
        report_section (''Set for a feature that'' @ [CHR 0x27] @ ''s off (unused until it'' @ [CHR 0x27] @ ''s on)'')
          (map (\<lambda>(key, fs). key @ '': '' @ and_list fs @ (if length fs = 1 then '' is off'' else '' are off''))
             (rp_for_features_off r)) @
        report_section ''Set to an empty value, which reads as unset (safe to remove)'' (rp_empty r) @
        [if rp_ok r then ''OK'' else ''Needs attention''])"

text \<open>The command: what it prints, and its exit status.\<close>

definition config_check :: "settings \<Rightarrow> pystr list \<Rightarrow> pystr list option \<Rightarrow> pystr \<times> int" where
  "config_check s environ dotenv =
     (let r = build_report s (process_environ environ dotenv) in (render_text r, if rp_ok r then 0 else 1))"

section \<open>Lemmas\<close>

lemma sorted_set_simps [simp]: "set (sorted_set xs) = set xs" "distinct (sorted_set xs)"
  by (simp_all add: sorted_set_def)

text \<open>The names of the settings are lower case, so their environment names differ.\<close>

definition case_kept :: "char \<Rightarrow> bool" where
  "case_kept c \<longleftrightarrow> map lower_char (upper_ascii [c]) = [c]"

lemma name_chars_kept: "list_all case_kept ''abcdefghijklmnopqrstuvwxyz_''"
  by code_simp

lemmas case_kept_simps = name_chars_kept [simplified]

lemma names_lower: "list_all (list_all case_kept) field_names"
  by (simp add: field_names_def MODEL_FIELDS_def SETTINGS_UPSTREAM_def SETTINGS_PROPOSALS_def
      SETTINGS_DEPLOY_def SETTINGS_WEBHOOKS_def case_kept_simps)

lemma lower_env_name: "list_all case_kept n \<Longrightarrow> lower (env_name n) = n"
  by (induction n) (simp_all add: case_kept_def env_name_def lower_def upper_ascii_def)

lemma env_name_inj: "inj_on env_name (set field_names)"
  using names_lower lower_env_name unfolding list_all_iff [of _ field_names]
  by (intro inj_on_inverseI [where g = lower]) blast

lemma distinct_env_names:
  "distinct xs \<Longrightarrow> set xs \<subseteq> set field_names \<Longrightarrow> distinct (map env_name xs)"
  using env_name_inj by (simp add: distinct_map inj_on_subset)

text \<open>Three lists of names, each without what the ones before it hold.\<close>

lemma staged_distinct:
  assumes "distinct (map f xs)" "a = map f (filter p xs)"
    and "b = map f (filter (\<lambda>n. q n \<and> f n \<notin> set a) xs)"
    and "c = map f (filter (\<lambda>n. e n \<and> f n \<notin> set (a @ b)) xs)"
  shows "distinct (a @ b @ c) \<and> set (a @ b @ c) \<subseteq> f ` set xs"
proof -
  have "distinct a" "distinct b" "distinct c"
    using assms(1) unfolding assms(2,3,4) by (simp_all add: distinct_map inj_on_def)
  moreover have "set b \<inter> set a = {}" by (auto simp only: assms(3) set_map set_filter)
  moreover have "set c \<inter> set (a @ b) = {}" by (auto simp only: assms(4) set_map set_filter)
  moreover have "set a \<union> set b \<union> set c \<subseteq> f ` set xs" unfolding assms(4) by (auto simp: assms(2,3))
  ultimately show ?thesis by auto
qed

lemma env_name_mem:
  assumes "name \<in> set field_names" "set xs \<subseteq> set field_names"
  shows "env_name name \<in> set (map env_name xs) \<longleftrightarrow> name \<in> set xs"
  using assms env_name_inj by (auto dest: inj_onD)

lemma keys_for_features_off:
  "map fst (for_features_off s ons skip) =
     map env_name (filter (\<lambda>name. readers name \<noteq> [] \<and> env_name name \<notin> set skip \<and>
         set ons \<inter> set (readers name) = {}) (sorted_set (st_fields_set s)))"
  by (simp add: for_features_off_def comp_def)

lemma report_parts:
  "rp_same_as_default (build_report s env) = same_as_default s"
  "rp_for_features_off (build_report s env) =
     for_features_off s (map ft_name (features_on s)) (same_as_default s)"
  "rp_empty (build_report s env) =
     fst (empty_settings s (same_as_default s @ map fst (rp_for_features_off (build_report s env))))"
  "rp_unknown_keys (build_report s env) = unknown_keys env"
  "rp_problems (build_report s env) = needs_problems s @
     snd (empty_settings s (same_as_default s @ map fst (rp_for_features_off (build_report s env)))) @ warnings s env"
  "rp_ok (build_report s env) \<longleftrightarrow> rp_problems (build_report s env) = [] \<and> unknown_keys env = []"
  by (simp_all add: build_report_def Let_def case_prod_beta)

lemma map_filter_mem: "u \<in> set (List.map_filter f xs) \<longleftrightarrow> (\<exists>x \<in> set xs. f x = Some u)"
  by (induction xs) (auto simp: List.map_filter_simps split: option.splits)

lemma fields_in_names:
  "settings_ok s \<Longrightarrow> distinct (st_fields_set s) \<and> set (st_fields_set s) \<subseteq> set field_names"
  by (simp add: settings_ok_def)

section \<open>No secret shows\<close>

text \<open>Two processes that differ in nothing but what their credentials are.\<close>

fun same_but_secret :: "setting_value \<Rightarrow> setting_value \<Rightarrow> bool" where
  "same_but_secret (S_secret t) (S_secret u) = ((t = [] \<longleftrightarrow> u = []) \<and> (strip t = [] \<longleftrightarrow> strip u = []))"
| "same_but_secret v w = (v = w)"

definition differ_in_secrets :: "settings \<Rightarrow> settings \<Rightarrow> bool" where
  "differ_in_secrets s t \<longleftrightarrow>
     st_fields_set s = st_fields_set t \<and> (\<forall>name. same_but_secret (st_value s name) (st_value t name))"

lemma same_but_secret_views:
  assumes "same_but_secret v w"
  shows "truthy_value v = truthy_value w" "text_value v = text_value w" "is_empty_value v = is_empty_value w"
    "is_secret v = is_secret w" "\<not> is_secret v \<Longrightarrow> v = w"
  using assms by (cases v; cases w; auto simp: is_secret_def)+

lemma features_by_views:
  assumes "\<And>name. on s name = on t name" "\<And>name. text_of s name = text_of t name"
  shows "features_on s = features_on t"
proof -
  have "on s = on t" "text_of s = text_of t" using assms by auto
  then have "list_all (\<lambda>f. ft_on f s = ft_on f t) FEATURES"
    by (simp add: FEATURES_def INTEGRATION_FEATURES_def GATED_FEATURES_def feature_def)
  then show ?thesis unfolding features_on_def list_all_iff by (intro filter_cong) auto
qed

lemma report_same:
  assumes "differ_in_secrets s t"
  shows "build_report s env = build_report t env"
proof -
  have fs: "st_fields_set s = st_fields_set t" and v: "\<And>name. same_but_secret (st_value s name) (st_value t name)"
    using assms by (auto simp: differ_in_secrets_def)
  note views = same_but_secret_views [OF v]
  have on: "on s = on t" and tx: "text_of s = text_of t"
    using views(1,2) by (auto simp: on_def text_of_def)
  have feats: "features_on s = features_on t" using on tx by (intro features_by_views) simp_all
  have "missing s = missing t" by (simp add: missing_def on fun_eq_iff)
  then have needs: "needs_problems s = needs_problems t" by (simp add: needs_problems_def feats)
  have "same_as_default s = same_as_default t"
    unfolding same_as_default_def fs using views(4,5) by (intro arg_cong [where f = "map env_name"] filter_cong) auto
  moreover have "for_features_off s = for_features_off t" by (simp add: for_features_off_def fs fun_eq_iff)
  moreover have "empty_settings s = empty_settings t"
    by (simp add: empty_settings_def empty_fields_def fs views(3) fun_eq_iff)
  moreover have "warnings s = warnings t" by (simp add: warnings_def on tx fs fun_eq_iff)
  ultimately show ?thesis by (simp add: build_report_def feats needs fs)
qed

section \<open>Properties\<close>

text \<open>
  C13: The report names settings and never shows a credential: two processes whose settings
  differ only in what their credentials are (each still set or unset, blank or not) print the
  same report and leave with the same status, whatever the values in the environment.
\<close>
theorem report_hides_secrets:
  assumes "differ_in_secrets s t" "map fst env_s = map fst env_t"
  shows "config_check s (map fst env_s) dotenv = config_check t (map fst env_t) dotenv"
  using report_same [OF assms(1)] assms(2) by (simp add: config_check_def)

text \<open>
  A setting that does nothing is listed once: the settings equal to their default, those of
  features that are off and those set to nothing are disjoint lists without repetition, each of
  settings that were given; a setting that another of them names is no problem for being empty.
\<close>
theorem idle_settings_listed_once:
  assumes "settings_ok s"
  shows "let r = build_report s env;
             idle = rp_same_as_default r @ map fst (rp_for_features_off r) @ rp_empty r
         in distinct idle \<and> set idle \<subseteq> set (rp_set r) \<and> distinct (rp_set r)"
proof -
  let ?r = "build_report s env"
  let ?fields = "sorted_set (st_fields_set s)"
  have fields: "distinct ?fields" "set ?fields \<subseteq> set field_names" "set ?fields = set (st_fields_set s)"
    using fields_in_names [OF assms] by auto
  obtain P where P: "same_as_default s = map env_name (filter P ?fields)" by (simp add: same_as_default_def)
  obtain Q where Q: "map fst (rp_for_features_off ?r) =
      map env_name (filter (\<lambda>n. Q n \<and> env_name n \<notin> set (same_as_default s)) ?fields)"
    by (rule that [of "\<lambda>n. readers n \<noteq> [] \<and> set (map ft_name (features_on s)) \<inter> set (readers n) = {}"])
      (simp add: report_parts keys_for_features_off conj_ac)
  obtain E where E: "rp_empty ?r = map env_name (filter (\<lambda>n. E n \<and>
      env_name n \<notin> set (same_as_default s @ map fst (rp_for_features_off ?r))) ?fields)"
    by (rule that [of "\<lambda>n. default_of n \<noteq> None \<and> n \<noteq> ''mcp_allowed_hosts'' \<and>
        is_empty_value (st_value s n) \<and> \<not> has_default n"])
      (simp add: report_parts empty_settings_def empty_fields_def conj_ac)
  have "distinct (map env_name ?fields)" using fields by (intro distinct_env_names)
  note idle = staged_distinct [OF this P Q E]
  have "set (rp_set ?r) = env_name ` set ?fields" "rp_set ?r = sort (map env_name (st_fields_set s))"
    by (simp_all add: build_report_def Let_def case_prod_beta)
  moreover have "distinct (map env_name (st_fields_set s))"
    using fields_in_names [OF assms] by (intro distinct_env_names) auto
  ultimately show ?thesis using idle by (simp add: Let_def report_parts(1))
qed

text \<open>
  An environment name is reported exactly when it is no setting and either begins like a
  retired one or is close to a setting, and the name suggested then is a real setting, as close
  as any. Upper and lower case make no difference, and no name is reported twice.
\<close>
theorem unknown_keys_exact:
  "distinct (map unknown_name (unknown_keys env)) \<and>
   (\<forall>key. key \<in> set (map unknown_name (unknown_keys env)) \<longleftrightarrow>
      key \<in> set (map upper_ascii env) \<and> key \<notin> set known_keys \<and>
      (retired key \<noteq> None \<or> (\<exists>name \<in> set known_keys. TYPO_CUTOFF \<le> ratio name key))) \<and>
   (\<forall>key name. Close_key key name \<in> set (unknown_keys env) \<longrightarrow>
      retired key = None \<and> name \<in> set known_keys \<and> TYPO_CUTOFF \<le> ratio name key \<and>
      (\<forall>other \<in> set known_keys. ratio other key \<le> ratio name key))"
proof -
  let ?ks = "sorted_set (filter (\<lambda>k. k \<notin> set known_keys) (map upper_ascii env))"
  have name: "unknown_key k = Some u \<Longrightarrow> unknown_name u = k" for k u
    by (auto simp: unknown_key_def split: option.splits)
  have map: "map unknown_name (unknown_keys env) = filter (\<lambda>k. unknown_key k \<noteq> None) ?ks"
  proof -
    have "map unknown_name (List.map_filter unknown_key ks) = filter (\<lambda>k. unknown_key k \<noteq> None) ks" for ks
      by (induction ks) (auto simp: List.map_filter_simps dest: name split: option.splits)
    then show ?thesis by (simp only: unknown_keys_def)
  qed
  have found: "unknown_key k \<noteq> None \<longleftrightarrow> retired k \<noteq> None \<or> (\<exists>name \<in> set known_keys. TYPO_CUTOFF \<le> ratio name k)" for k
    using get_close_match_spec(2) [of k known_keys TYPO_CUTOFF]
    by (auto simp: unknown_key_def not_less split: option.splits)
  have close: "retired key = None \<and> name \<in> set known_keys \<and> TYPO_CUTOFF \<le> ratio name key \<and>
      (\<forall>other \<in> set known_keys. ratio other key \<le> ratio name key)"
    if u: "Close_key key name \<in> set (unknown_keys env)" for key name
  proof -
    obtain k where "unknown_key k = Some (Close_key key name)"
      using u unfolding unknown_keys_def map_filter_mem by blast
    then have "retired key = None" "get_close_match key known_keys TYPO_CUTOFF = Some name"
      by (auto simp: unknown_key_def split: option.splits)
    then show ?thesis unfolding get_close_match_spec(1) by (fastforce simp: less_eq_prod_def)
  qed
  have "distinct (map unknown_name (unknown_keys env))" unfolding map by simp
  moreover have "key \<in> set (map unknown_name (unknown_keys env)) \<longleftrightarrow>
      key \<in> set (map upper_ascii env) \<and> key \<notin> set known_keys \<and>
      (retired key \<noteq> None \<or> (\<exists>name \<in> set known_keys. TYPO_CUTOFF \<le> ratio name key))" for key
    unfolding map using found by auto
  ultimately show ?thesis using close by blast
qed

section \<open>A slip in a short name\<close>

text \<open>The scores the cutoff was chosen by, and one it does not reach.\<close>

lemma typo_scores:
  "ratio ''MCP_ALLOWED_HOSTS'' ''MCP_ALLOWED_HOST'' = 32 / 33"
  "ratio ''NOTIFICATION_SMTP_PASSWORD'' ''NOTIFICATION_SMTP_PASS'' = 11 / 12"
  "ratio ''GIT_TOKEN'' ''GITHUB_TOKEN'' = 6 / 7"
  "ratio ''GIT_TOKEN'' ''GIT_TOKEM'' = 8 / 9"
  by code_simp+

lemma known_key_lower: "key \<in> set known_keys \<Longrightarrow> lower key \<in> set field_names"
  using names_lower lower_env_name unfolding known_keys_def list_all_iff [of _ field_names] by auto

lemma unknown_keys_exact_witness:
  "\<exists>name. Close_key ''MCP_ALLOWED_HOST'' name \<in> set (unknown_keys [''MCP_ALLOWED_HOST'']) \<and>
     name \<in> set known_keys \<and> TYPO_CUTOFF \<le> ratio name ''MCP_ALLOWED_HOST''"
proof -
  let ?key = "''MCP_ALLOWED_HOST''"
  have "''mcp_allowed_hosts'' \<in> set field_names"
    by (simp add: field_names_def MODEL_FIELDS_def SETTINGS_UPSTREAM_def SETTINGS_PROPOSALS_def
      SETTINGS_DEPLOY_def SETTINGS_WEBHOOKS_def)
  moreover have "env_name ''mcp_allowed_hosts'' = ''MCP_ALLOWED_HOSTS''" by code_simp
  ultimately have real: "''MCP_ALLOWED_HOSTS'' \<in> set known_keys"
    unfolding known_keys_def set_map by (rule rev_image_eqI [OF _ sym])
  have no: "''mcp_allowed_host'' \<notin> set field_names"
    by (simp add: field_names_def MODEL_FIELDS_def SETTINGS_UPSTREAM_def SETTINGS_PROPOSALS_def
      SETTINGS_DEPLOY_def SETTINGS_WEBHOOKS_def)
  have "lower ?key = ''mcp_allowed_host''" by code_simp
  then have "?key \<notin> set known_keys" using no known_key_lower [of ?key] by auto
  moreover have "retired ?key = None" by code_simp
  moreover have "upper_ascii ?key = ?key" by code_simp
  moreover have "TYPO_CUTOFF \<le> ratio ''MCP_ALLOWED_HOSTS'' ?key"
    by (simp add: typo_scores(1) TYPO_CUTOFF_def)
  ultimately have "?key \<in> set (map unknown_name (unknown_keys [?key]))"
    using unknown_keys_exact [of "[?key]"] real by auto
  then obtain u where "u \<in> set (unknown_keys [?key])" "unknown_name u = ?key" by auto
  moreover have "unknown_keys [?key] = List.map_filter unknown_key [?key]"
    using \<open>?key \<notin> set known_keys\<close> \<open>upper_ascii ?key = ?key\<close>
    by (simp add: unknown_keys_def sorted_set_def)
  ultimately obtain name where "Close_key ?key name \<in> set (unknown_keys [?key])"
    using \<open>retired ?key = None\<close> by (auto simp: List.map_filter_simps unknown_key_def split: option.splits)
  then show ?thesis using unknown_keys_exact [of "[?key]"] by blast
qed

lemma far_length:
  assumes "length x < 8 \<or> 11 < length x" "length word = 9"
  shows "ratio x word < TYPO_CUTOFF"
proof -
  have "ratio x word \<le> ratio_of (min (length x) 9) (length x + 9)"
    using ratios_ordered [of x word] assms(2) by (simp add: real_quick_ratio_def)
  also have "\<dots> < TYPO_CUTOFF"
    using assms(1) by (auto simp: ratio_of_def TYPO_CUTOFF_def divide_less_eq min_def)
  finally show ?thesis .
qed

lemma near_lengths:
  "filter (\<lambda>n. 8 \<le> length n \<and> length n \<le> 11) field_names =
     [''mcp_host'', ''mcp_port'', ''dspy_model'', ''git_token'', ''git_repo'', ''apply_mode'', ''log_level'']"
  by code_simp

theorem short_slip_unreported:
  "unknown_keys [''GIT_TOKEM''] = []"
proof -
  have near: "list_all (\<lambda>n. ratio (env_name n) ''GIT_TOKEM'' < TYPO_CUTOFF)
     (filter (\<lambda>n. 8 \<le> length n \<and> length n \<le> 11) field_names)"
    unfolding near_lengths by code_simp
  have "ratio (env_name n) ''GIT_TOKEM'' < TYPO_CUTOFF" if "n \<in> set field_names" for n
  proof (cases "8 \<le> length n \<and> length n \<le> 11")
    case True
    then show ?thesis using near that by (simp add: list_all_iff)
  next
    case False
    then show ?thesis by (intro far_length) (auto simp: env_name_def upper_ascii_def)
  qed
  then have "get_close_match ''GIT_TOKEM'' known_keys TYPO_CUTOFF = None"
    by (auto simp: get_close_match_spec(2) known_keys_def)
  moreover have "retired ''GIT_TOKEM'' = None" "upper_ascii ''GIT_TOKEM'' = ''GIT_TOKEM''" by code_simp+
  ultimately show ?thesis
    by (simp add: unknown_keys_def sorted_set_def unknown_key_def List.map_filter_simps)
qed

section \<open>Witnesses\<close>

definition default_settings :: "pystr list \<Rightarrow> settings" where
  "default_settings given =
     \<lparr>st_value = (\<lambda>name. case default_of name of None \<Rightarrow> S_none | Some v \<Rightarrow> v), st_fields_set = given\<rparr>"

lemma default_settings_ok:
  "distinct given \<Longrightarrow> set given \<subseteq> set field_names \<Longrightarrow> settings_ok (default_settings given)"
  using defaults_valid
  by (auto simp: settings_ok_def default_settings_def default_of_def field_lookup list_all_iff)

definition with_key :: "pystr \<Rightarrow> settings" where
  "with_key key =
     (default_settings [''dspy_api_key''])
       \<lparr>st_value := (st_value (default_settings [])) (''dspy_api_key'' := S_secret key)\<rparr>"

theorem report_hides_secrets_witness:
  "config_check (with_key ''a'') (map fst [(''A'', ''1'')]) None = config_check (with_key ''b'') (map fst [(''A'', ''2'')]) None \<and>
   st_value (with_key ''a'') ''dspy_api_key'' \<noteq> st_value (with_key ''b'') ''dspy_api_key''"
proof -
  have refl: "same_but_secret v v" for v by (cases v) auto
  have "strip ''a'' \<noteq> []" "strip ''b'' \<noteq> []" by code_simp+
  then have "differ_in_secrets (with_key ''a'') (with_key ''b'')"
    using refl by (simp add: differ_in_secrets_def with_key_def default_settings_def)
  from report_hides_secrets [OF this, of "[(''A'', ''1'')]" "[(''A'', ''2'')]" None] show ?thesis
    by (simp add: with_key_def)
qed

theorem idle_settings_listed_once_witness:
  "distinct (rp_same_as_default (build_report (default_settings [''log_level'']) [])) \<and>
   settings_ok (default_settings [''log_level''])"
proof -
  have "list_ex (\<lambda>n. n = ''log_level'') field_names" by code_simp
  then have "settings_ok (default_settings [''log_level''])"
    by (intro default_settings_ok) (auto simp: list_ex_iff)
  with idle_settings_listed_once [OF this, of "[]"] show ?thesis by (simp add: Let_def)
qed

end
