(* ===== verification/Server.thy ===== *)
theory Server
  imports ConfigReport Auth Notifications PatchmonWebhook PatchmonClient Executor NormEngine
begin

text \<open>
  \<open>server.py\<close> with \<open>health.py\<close>, the factories it calls and \<open>auth/setup.py\<close>: what a process
  registers, schedules and serves for its settings. The MCP SDK's application and URL functions,
  the file system and the crontab check are parameters.
\<close>

section \<open>Settings as the components take them\<close>

fun optional_text :: "setting_value \<Rightarrow> pystr option" where
  "optional_text (S_text t) = Some t"
| "optional_text v = None"

fun int_value :: "setting_value \<Rightarrow> int" where
  "int_value (S_int i) = i"
| "int_value v = 0"

definition opt_of :: "settings \<Rightarrow> pystr \<Rightarrow> pystr option" where
  "opt_of s name = optional_text (st_value s name)"

definition secret_of :: "settings \<Rightarrow> pystr \<Rightarrow> pystr option" where
  "secret_of s name = reveal (st_value s name)"

definition int_of :: "settings \<Rightarrow> pystr \<Rightarrow> int" where
  "int_of s name = int_value (st_value s name)"

definition auth_settings_of :: "settings \<Rightarrow> auth_settings" where
  "auth_settings_of s =
     \<lparr>as_enabled = on s ''mcp_auth_enabled'', as_transport = text_of s ''mcp_transport'',
      as_issuer = opt_of s ''mcp_auth_issuer_url'', as_audience = opt_of s ''mcp_auth_audience'',
      as_group = opt_of s ''mcp_auth_required_group'', as_resource = opt_of s ''mcp_auth_resource_url'',
      as_jwks = opt_of s ''mcp_auth_jwks_url'', as_cache = of_int (int_of s ''mcp_auth_jwks_cache_seconds''),
      as_scopes = text_of s ''mcp_auth_scopes''\<rparr>"

definition notification_settings_of :: "settings \<Rightarrow> notification_settings" where
  "notification_settings_of s =
     \<lparr>ns_provider = text_of s ''notification_provider'', ns_url = opt_of s ''notification_url'',
      ns_smtp_host = opt_of s ''notification_smtp_host'', ns_from = opt_of s ''notification_from_email'',
      ns_to = opt_of s ''notification_to_email''\<rparr>"

text \<open>\<open>build_patch_executor\<close>.\<close>

definition build_patch_executor :: "settings \<Rightarrow> executor" where
  "build_patch_executor s =
     \<lparr>ex_playbook = opt_of s ''patchmon_ansible_playbook'', ex_ansible_cfg_path = opt_of s ''ansible_cfg_path'',
      ex_ssh_key_path = opt_of s ''ssh_key_path'', ex_ssh_user = text_of s ''ssh_default_user''\<rparr>"

section \<open>Startup health\<close>

record path_world =
  pw_exists :: "pystr \<Rightarrow> bool"
  pw_is_dir :: "pystr \<Rightarrow> bool"
  pw_is_file :: "pystr \<Rightarrow> bool"
  pw_text :: "pystr \<Rightarrow> pystr"

record health_check =
  hk_name :: pystr
  hk_ok :: bool
  hk_detail :: pystr

definition health_check :: "pystr \<Rightarrow> bool \<Rightarrow> pystr \<Rightarrow> health_check" where
  "health_check name good detail = \<lparr>hk_name = name, hk_ok = good, hk_detail = detail\<rparr>"

definition check_git_repo :: "path_world \<Rightarrow> settings \<Rightarrow> health_check" where
  "check_git_repo w s =
     (case opt_of s ''secrets_repo_path'' of
        Some p \<Rightarrow>
          if p = [] then health_check ''git_repo'' False ''SECRETS_REPO_PATH is not configured''
          else if \<not> pw_exists w p then health_check ''git_repo'' False (pw_text w p @ '' does not exist'')
          else if \<not> pw_is_dir w p then health_check ''git_repo'' False (pw_text w p @ '' is not a directory'')
          else if \<not> pw_exists w (pw_text w p @ ''/.git'')
          then health_check ''git_repo'' False (pw_text w p @ '' is not a git repository'')
          else health_check ''git_repo'' True (pw_text w p)
      | None \<Rightarrow> health_check ''git_repo'' False ''SECRETS_REPO_PATH is not configured'')"

text \<open>\<open>_check_ansible_cfg\<close> and \<open>_check_ssh_key\<close>, which differ in their names only.\<close>

definition check_file :: "path_world \<Rightarrow> settings \<Rightarrow> pystr \<Rightarrow> pystr \<Rightarrow> health_check" where
  "check_file w s name setting =
     (let unset = health_check name False (env_name setting @ '' is not configured'') in
      case opt_of s setting of
        None \<Rightarrow> unset
      | Some p \<Rightarrow>
          if p = [] then unset
          else if \<not> pw_exists w p then health_check name False (pw_text w p @ '' not found'')
          else if \<not> pw_is_file w p then health_check name False (pw_text w p @ '' is not a file'')
          else health_check name True (pw_text w p))"

definition check_ansible_cfg :: "path_world \<Rightarrow> settings \<Rightarrow> health_check" where
  "check_ansible_cfg w s = check_file w s ''ansible_cfg'' ''ansible_cfg_path''"

definition check_ssh_key :: "path_world \<Rightarrow> settings \<Rightarrow> health_check" where
  "check_ssh_key w s = check_file w s ''ssh_key'' ''ssh_key_path''"

definition check_health :: "path_world \<Rightarrow> settings \<Rightarrow> health_check list" where
  "check_health w s = [check_git_repo w s, check_ansible_cfg w s, check_ssh_key w s]"

definition healthy :: "health_check list \<Rightarrow> bool" where
  "healthy checks = list_all hk_ok checks"

section \<open>What the settings enable\<close>

datatype git_choice = Git_gitea pystr pystr | Git_github pystr pystr

definition build_git_provider :: "settings \<Rightarrow> git_choice option" where
  "build_git_provider s =
     (case (opt_of s ''git_base_url'', secret_of s ''git_token'') of
        (Some url, Some token) \<Rightarrow>
          if url = [] \<or> token = [] \<or> \<not> on s ''git_repo'' then None
          else if text_of s ''git_provider'' = ''gitea'' then Some (Git_gitea url token)
          else if text_of s ''git_provider'' = ''github'' then Some (Git_github url token)
          else None
      | _ \<Rightarrow> None)"

text \<open>\<open>configured\<close> of both engines.\<close>

definition writes_configured :: "settings \<Rightarrow> bool" where
  "writes_configured s \<longleftrightarrow> build_git_provider s \<noteq> None \<and> on s ''git_repo''"

text \<open>\<open>build_sources\<close>: the sources that run, in their order.\<close>

definition build_sources :: "settings \<Rightarrow> source_type list" where
  "build_sources s =
     (if on s ''traefik_api_url'' then [Source_traefik] else []) @
     (if on s ''authentik_api_url'' \<and> on s ''authentik_token'' then [Source_authentik] else []) @
     (if on s ''docker_base_url'' then [Source_docker] else []) @
     (if on s ''dockhand_api_url'' \<and> on s ''dockhand_token'' then [Source_dockhand] else [])"

definition infisical_client :: "settings \<Rightarrow> bool" where
  "infisical_client s \<longleftrightarrow>
     on s ''infisical_enabled'' \<and> on s ''infisical_base_url'' \<and> on s ''infisical_client_id'' \<and>
     on s ''infisical_client_secret'' \<and> on s ''infisical_project_id'' \<and> on s ''infisical_environment''"

definition dockhand_actions_registered :: "settings \<Rightarrow> bool" where
  "dockhand_actions_registered s \<longleftrightarrow>
     on s ''dockhand_allow_write'' \<and> on s ''dockhand_api_url'' \<and> on s ''dockhand_token''"

text \<open>The tools that need a client answer with an error while it cannot be built.\<close>

definition authentik_client :: "settings \<Rightarrow> bool" where
  "authentik_client s \<longleftrightarrow> on s ''authentik_api_url'' \<and> on s ''authentik_token''"

definition docs_client :: "settings \<Rightarrow> bool" where
  "docs_client s \<longleftrightarrow> on s ''docs_mcp_url'' \<and> on s ''docs_mcp_token''"

definition dozzle_registered :: "settings \<Rightarrow> bool" where
  "dozzle_registered s \<longleftrightarrow> on s ''dozzle_mcp_url''"

definition blank_secret :: "settings \<Rightarrow> pystr \<Rightarrow> bool" where
  "blank_secret s name \<longleftrightarrow> strip (case secret_of s name of None \<Rightarrow> [] | Some t \<Rightarrow> t) = []"

definition dockhand_route_registered :: "settings \<Rightarrow> bool" where
  "dockhand_route_registered s \<longleftrightarrow>
     on s ''dockhand_webhook_enabled'' \<and> \<not> blank_secret s ''dockhand_webhook_secret''"

datatype patchmon_refusal = Refuse_secret | Refuse_base_url | Refuse_notifier | Refuse_playbook

datatype patchmon_registration = Not_enabled | Refused patchmon_refusal | Registered

text \<open>\<open>None\<close>: the approval URL cannot be split, which stops the server.\<close>

definition register_patchmon_routes :: "(pystr \<Rightarrow> bool) \<Rightarrow> settings \<Rightarrow> patchmon_registration option" where
  "register_patchmon_routes bracket_ok s =
     (if \<not> on s ''patchmon_webhook_enabled'' then Some Not_enabled
      else if blank_secret s ''patchmon_webhook_secret'' then Some (Refused Refuse_secret)
      else case approval_base_url bracket_ok (opt_of s ''patchmon_approval_base_url'') of
        None \<Rightarrow> None
      | Some None \<Rightarrow> Some (Refused Refuse_base_url)
      | Some (Some base) \<Rightarrow>
          if build_notification_provider (notification_settings_of s) \<noteq> Provider_smtp
          then Some (Refused Refuse_notifier)
          else if \<not> can_execute (build_patch_executor s) then Some (Refused Refuse_playbook)
          else Some Registered)"

section \<open>Tool hints and transport security\<close>

definition CLOSED_WORLD_TOOLS :: "pystr list" where
  "CLOSED_WORLD_TOOLS =
     [''registry_add_service'', ''registry_get_service'', ''registry_list_services'', ''registry_update_service'',
      ''registry_delete_service'', ''registry_delete_service_confirm'', ''events_list_discoveries'',
      ''events_list_changes'', ''events_get_for_service'', ''discovery_status'', ''discovery_list_stale'',
      ''service_link_authentik'', ''hardware-add-node'', ''hardware-get-node'', ''hardware-list-nodes'',
      ''hardware-update-node'', ''hardware-delete-node'', ''hardware-delete-node-confirm'',
      ''dockhand_container_action_request'', ''dockhand_stack_action_request'', ''hardware-link-service'',
      ''hardware-node-services'', ''hardware-list-unconfirmed'', ''hardware-list-stale'',
      ''hardware-capacity-summary'', ''hardware-discovery-status'', ''ansible-inventory-sync-node'',
      ''ansible-inventory-sync-node-confirm'', ''proposal_list_open'', ''proposal_get'',
      ''proposal_adopt_service_cancel'', ''proposal_adopt_service_get'', ''secrets_status'', ''secrets_encrypt'',
      ''secrets_decrypt'', ''secrets_add'', ''secrets_rotate'', ''secrets_list_keys'', ''health'',
      ''system_health_check'', ''config_status'']"

record tool_hints =
  th_read_only :: "bool option"
  th_destructive :: "bool option"
  th_idempotent :: "bool option"
  th_open_world :: "bool option"

definition no_hints :: tool_hints where
  "no_hints = \<lparr>th_read_only = None, th_destructive = None, th_idempotent = None, th_open_world = None\<rparr>"

definition apply_open_world_hints :: "(pystr \<times> tool_hints option) list \<Rightarrow> (pystr \<times> tool_hints option) list" where
  "apply_open_world_hints tools =
     map (\<lambda>(name, hints). (name, Some ((case hints of None \<Rightarrow> no_hints | Some h \<Rightarrow> h)
            \<lparr>th_open_world := Some (name \<notin> set CLOSED_WORLD_TOOLS)\<rparr>))) tools"

definition csv :: "pystr \<Rightarrow> pystr list" where
  "csv value = map strip (filter (\<lambda>item. strip item \<noteq> []) (split_at_char (CHR '','') value))"

record transport_security =
  ts_rebinding_protection :: bool
  ts_allowed_hosts :: "pystr list"
  ts_allowed_origins :: "pystr list"

definition build_transport_security :: "settings \<Rightarrow> transport_security" where
  "build_transport_security s =
     \<lparr>ts_rebinding_protection = True, ts_allowed_hosts = csv (text_of s ''mcp_allowed_hosts''),
      ts_allowed_origins = csv (text_of s ''mcp_allowed_origins'')\<rparr>"

section \<open>The process\<close>

datatype startup_step =
    Purge_old_events int
  | Check_health
  | Purge_adoption_drafts
  | Purge_deletions
  | Purge_inventory_writes
  | Purge_dockhand_actions
  | Purge_approvals
  | Build_auth
  | Register_tools
  | Register_dockhand_route
  | Register_patchmon_routes

datatype start_error = Auth_config auth_error | Approval_url_unsplittable | Sdk_without_auth

record runtime =
  rt_read_only :: bool
  rt_sources :: "source_type list"
  rt_pass_hook :: bool
  rt_auth :: "mcp_auth option"
  rt_transport :: transport_security
  rt_dockhand_actions :: bool
  rt_dozzle_tools :: bool
  rt_dockhand_route :: bool
  rt_patchmon_routes :: patchmon_registration

definition build_app ::
  "path_world \<Rightarrow> (pystr \<Rightarrow> bool) \<Rightarrow> settings \<Rightarrow> startup_step list \<times> (start_error + runtime)" where
  "build_app w bracket_ok s =
     (let read_only = \<not> healthy (check_health w s);
          prepared = [Purge_old_events (int_of s ''event_retention_days''), Check_health, Purge_adoption_drafts,
            Purge_deletions, Purge_inventory_writes, Purge_dockhand_actions, Purge_approvals, Build_auth]
      in case build_auth (auth_settings_of s) of
        Inl err \<Rightarrow> (prepared, Inl (Auth_config err))
      | Inr auth \<Rightarrow>
          (let mounted = prepared @ [Register_tools, Register_dockhand_route, Register_patchmon_routes] in
           case register_patchmon_routes bracket_ok s of
             None \<Rightarrow> (mounted, Inl Approval_url_unsplittable)
           | Some routes \<Rightarrow>
               (mounted, Inr \<lparr>rt_read_only = read_only, rt_sources = build_sources s,
                  rt_pass_hook = writes_configured s, rt_auth = auth,
                  rt_transport = build_transport_security s,
                  rt_dockhand_actions = dockhand_actions_registered s, rt_dozzle_tools = dozzle_registered s,
                  rt_dockhand_route = dockhand_route_registered s, rt_patchmon_routes = routes\<rparr>)))"

datatype job =
    Discovery_job source_type int
  | Comment_poll int
  | Normalization_sweep sweep_trigger

fun source_interval :: "settings \<Rightarrow> source_type \<Rightarrow> int" where
  "source_interval s Source_traefik = int_of s ''discovery_traefik_interval_seconds''"
| "source_interval s Source_docker = int_of s ''discovery_docker_interval_seconds''"
| "source_interval s Source_authentik = int_of s ''discovery_authentik_interval_seconds''"
| "source_interval s Source_dockhand = int_of s ''discovery_dockhand_interval_seconds''"
| "source_interval s Source_manual = 0"

text \<open>\<open>build_scheduler\<close>: one job per source.\<close>

definition build_scheduler :: "settings \<Rightarrow> source_type list \<Rightarrow> job list" where
  "build_scheduler s sources = map (\<lambda>src. Discovery_job src (source_interval s src)) sources"

text \<open>\<open>None\<close>: nothing to schedule.\<close>

definition build_runtime_scheduler :: "(pystr \<Rightarrow> bool) \<Rightarrow> settings \<Rightarrow> runtime \<Rightarrow> job list option" where
  "build_runtime_scheduler cron_ok s rt =
     (let discovery = (if rt_sources rt \<noteq> [] then Some (build_scheduler s (rt_sources rt)) else None);
          add = (\<lambda>job sched. Some ((case sched of None \<Rightarrow> [] | Some jobs \<Rightarrow> jobs) @ [job]));
          polled =
            (if on s ''proposal_comment_poll_enabled'' \<and> writes_configured s \<and> \<not> rt_read_only rt
             then add (Comment_poll (int_of s ''proposal_comment_poll_interval_seconds'')) discovery
             else discovery)
      in if on s ''normalization_enabled'' \<and> writes_configured s \<and> \<not> rt_read_only rt
         then add (Normalization_sweep (schedule_trigger cron_ok (text_of s ''normalization_schedule''))) polled
         else polled)"

section \<open>The HTTP application\<close>

definition WELL_KNOWN :: pystr where
  "WELL_KNOWN = ''/.well-known/oauth-protected-resource''"

text \<open>\<open>resource_metadata\<close> is the path and the whole of the SDK's metadata URL.\<close>

definition metadata_paths :: "(pystr \<Rightarrow> pystr option \<times> pystr) \<Rightarrow> pystr \<Rightarrow> pystr list" where
  "metadata_paths resource_metadata url =
     (let suffixed = (if truthy (fst (resource_metadata url)) then the (fst (resource_metadata url)) else WELL_KNOWN)
      in if suffixed = WELL_KNOWN then [WELL_KNOWN] else [WELL_KNOWN, suffixed])"

datatype middleware =
    Auth_context
  | Require_group pystr pystr pystr
  | Other_middleware pystr

record route =
  ro_is_route :: bool
  ro_path :: pystr
  ro_ours :: bool

record asgi_app =
  aa_routes :: "route list"
  aa_middleware :: "middleware list"

definition protected_resource_routes :: "(pystr \<Rightarrow> pystr option \<times> pystr) \<Rightarrow> pystr \<Rightarrow> route list" where
  "protected_resource_routes resource_metadata url =
     map (\<lambda>p. \<lparr>ro_is_route = True, ro_path = p, ro_ours = True\<rparr>) (metadata_paths resource_metadata url)"

definition secure_app ::
  "(pystr \<Rightarrow> pystr option \<times> pystr) \<Rightarrow> asgi_app \<Rightarrow> mcp_auth \<Rightarrow> pystr \<Rightarrow> asgi_app option" where
  "secure_app resource_metadata app auth mcp_path =
     (if Auth_context \<notin> set (aa_middleware app) then None
      else Some
        \<lparr>aa_routes = protected_resource_routes resource_metadata (ma_resource auth) @
           filter (\<lambda>r. \<not> (ro_is_route r \<and> starts_with (ro_path r) WELL_KNOWN)) (aa_routes app),
         aa_middleware = aa_middleware app @
           [Require_group (ma_group auth) mcp_path (snd (resource_metadata (ma_resource auth)))]\<rparr>)"

record sdk =
  sdk_streamable :: "runtime \<Rightarrow> asgi_app"
  sdk_sse :: "runtime \<Rightarrow> asgi_app"
  sdk_mcp_path :: pystr
  sdk_metadata :: "pystr \<Rightarrow> pystr option \<times> pystr"

definition http_app :: "sdk \<Rightarrow> settings \<Rightarrow> runtime \<Rightarrow> asgi_app option" where
  "http_app k s rt =
     (if text_of s ''mcp_transport'' = ''streamable-http'' then
        (case rt_auth rt of
           None \<Rightarrow> Some (sdk_streamable k rt)
         | Some auth \<Rightarrow> secure_app (sdk_metadata k) (sdk_streamable k rt) auth (sdk_mcp_path k))
      else Some (sdk_sse k rt))"

datatype served = Serve_stdio | Serve_http asgi_app

text \<open>\<open>main\<close>: the transport that is served and the jobs that run beside it.\<close>

definition run_server ::
  "path_world \<Rightarrow> (pystr \<Rightarrow> bool) \<Rightarrow> (pystr \<Rightarrow> bool) \<Rightarrow> sdk \<Rightarrow> settings \<Rightarrow>
     start_error + (runtime \<times> served \<times> job list option)" where
  "run_server w bracket_ok cron_ok k s =
     (case snd (build_app w bracket_ok s) of
        Inl err \<Rightarrow> Inl err
      | Inr rt \<Rightarrow>
          (let jobs = build_runtime_scheduler cron_ok s rt in
           if text_of s ''mcp_transport'' = ''stdio'' then Inr (rt, Serve_stdio, jobs)
           else case http_app k s rt of
             None \<Rightarrow> Inl Sdk_without_auth
           | Some app \<Rightarrow> Inr (rt, Serve_http app, jobs)))"

section \<open>Lemmas\<close>

lemma build_auth_enforced:
  assumes "build_auth a = Inr auth" "as_enabled a"
  shows "\<exists>m. auth = Some m \<and> truthy (as_group a) \<and> truthy (as_issuer a) \<and> ma_group m = the (as_group a) \<and>
    truthy (as_resource a) \<and> ma_resource m = the (as_resource a) \<and> starts_with (ma_resource m) ''https://'' \<and>
    vf_issuer (ma_verifier m) = the (as_issuer a) \<and> starts_with (vf_issuer (ma_verifier m)) ''https://'' \<and>
    as_transport a \<noteq> ''sse''"
  using assms
  by (auto simp: build_auth_def missing_settings_def not_https_def filter_empty_conv split: if_splits)

lemma build_app_runtime:
  assumes "build_app w bracket_ok s = (tr, Inr rt)"
  shows "rt_read_only rt = (\<not> healthy (check_health w s))" "build_auth (auth_settings_of s) = Inr (rt_auth rt)"
    "register_patchmon_routes bracket_ok s = Some (rt_patchmon_routes rt)"
    "rt_dockhand_route rt = dockhand_route_registered s" "rt_sources rt = build_sources s"
    "rt_transport rt = build_transport_security s"
  using assms by (auto simp: build_app_def Let_def split: sum.splits option.splits)

lemma metadata_paths_ours:
  "r \<in> set (protected_resource_routes f url) \<Longrightarrow> ro_ours r \<and> ro_path r \<in> set (metadata_paths f url)"
  by (auto simp: protected_resource_routes_def)

section \<open>The settings a feature needs\<close>

text \<open>A feature that the report finds on and complete.\<close>

definition feature_ready :: "settings \<Rightarrow> pystr \<Rightarrow> bool" where
  "feature_ready s name \<longleftrightarrow> list_ex (\<lambda>f. ft_name f = name \<and> ft_on f s \<and> missing s (ft_needs f) = []) FEATURES"

lemma no_bar: "list_all (\<lambda>n. CHR ''|'' \<notin> set n) (GIT_SETTINGS @ field_names)"
  by (simp add: GIT_SETTINGS_def field_names_def MODEL_FIELDS_def SETTINGS_UPSTREAM_def SETTINGS_PROPOSALS_def
      SETTINGS_DEPLOY_def SETTINGS_WEBHOOKS_def)

lemma split_whole: "c \<notin> set s \<Longrightarrow> split_at_char c s = [s]"
  by (induction s) auto

lemma missing_none:
  "missing s needs = [] \<longleftrightarrow> (\<forall>need \<in> set needs. list_ex (on s) (options_of need))"
  by (auto simp: missing_def filter_empty_conv)

lemma option_single: "CHR ''|'' \<notin> set need \<Longrightarrow> list_ex (on s) (options_of need) = on s need"
  by (simp add: options_of_def split_whole)

lemmas feature_tables = FEATURES_def INTEGRATION_FEATURES_def GATED_FEATURES_def feature_def GIT_SETTINGS_def

lemma ready_simps:
  "feature_ready s ''Dockhand actions'' \<longleftrightarrow>
     on s ''dockhand_allow_write'' \<and> on s ''dockhand_api_url'' \<and> on s ''dockhand_token''"
  "feature_ready s ''Authentik'' \<longleftrightarrow> on s ''authentik_api_url'' \<and> on s ''authentik_token''"
  "feature_ready s ''Dockhand'' \<longleftrightarrow> on s ''dockhand_api_url'' \<and> on s ''dockhand_token''"
  "feature_ready s ''documentation-mcp'' \<longleftrightarrow> on s ''docs_mcp_url'' \<and> on s ''docs_mcp_token''"
  "feature_ready s ''Dozzle'' \<longleftrightarrow> on s ''dozzle_mcp_url''"
  "feature_ready s ''Traefik discovery'' \<longleftrightarrow> on s ''traefik_api_url''"
  "feature_ready s ''Docker discovery'' \<longleftrightarrow> on s ''docker_base_url''"
  "feature_ready s ''Git write path'' \<longleftrightarrow> on s ''git_base_url'' \<and> on s ''git_token'' \<and> on s ''git_repo''"
  "feature_ready s ''Infisical'' \<longleftrightarrow> on s ''infisical_enabled'' \<and> on s ''infisical_base_url'' \<and>
     on s ''infisical_client_id'' \<and> on s ''infisical_client_secret'' \<and> on s ''infisical_project_id'' \<and>
     on s ''infisical_environment''"
  "feature_ready s ''ntfy notifications'' \<longleftrightarrow> text_of s ''notification_provider'' = ''ntfy'' \<and> on s ''notification_url''"
  "feature_ready s ''SMTP notifications'' \<longleftrightarrow> text_of s ''notification_provider'' = ''smtp'' \<and>
     on s ''notification_smtp_host'' \<and> on s ''notification_from_email'' \<and> on s ''notification_to_email''"
  "feature_ready s ''MCP OAuth'' \<longleftrightarrow> on s ''mcp_auth_enabled'' \<and> on s ''mcp_auth_issuer_url'' \<and>
     on s ''mcp_auth_audience'' \<and> on s ''mcp_auth_required_group'' \<and> on s ''mcp_auth_resource_url''"
  by (auto simp: feature_ready_def feature_tables missing_none option_single)

lemma optional_kinds:
  "list_all (\<lambda>n. map_of MODEL_FIELDS n = Some (K_opt_text, S_none))
     [''git_base_url'', ''git_repo'', ''notification_url'', ''notification_smtp_host'', ''notification_from_email'',
      ''notification_to_email'', ''mcp_auth_issuer_url'', ''mcp_auth_audience'', ''mcp_auth_required_group'',
      ''mcp_auth_resource_url'', ''patchmon_ansible_playbook'', ''patchmon_approval_base_url'']"
  by code_simp

lemma secret_kinds:
  "list_all (\<lambda>n. map_of MODEL_FIELDS n = Some (K_secret, S_none))
     [''git_token'', ''dockhand_webhook_secret'', ''patchmon_webhook_secret'']"
  by code_simp

lemma transport_kind: "map_of MODEL_FIELDS ''mcp_transport'' = Some (K_choice TRANSPORTS, S_text ''streamable-http'')"
  by code_simp

lemma git_kind: "map_of MODEL_FIELDS ''git_provider'' = Some (K_choice GIT_PROVIDERS, S_text ''gitea'')"
  by code_simp

lemma field_kind:
  "settings_ok s \<Longrightarrow> map_of MODEL_FIELDS name = Some (k, d) \<Longrightarrow> kind_ok k (st_value s name)"
  unfolding settings_ok_def by (metis (no_types, lifting) case_prodD field_lookup)

lemma optional_on:
  assumes "settings_ok s" "map_of MODEL_FIELDS name = Some (K_opt_text, d)"
  shows "truthy (opt_of s name) = on s name"
  using field_kind [OF assms] by (cases "st_value s name") (auto simp: opt_of_def on_def)

lemma secret_on:
  assumes "settings_ok s" "map_of MODEL_FIELDS name = Some (K_secret, d)"
  shows "truthy (secret_of s name) = on s name"
  using field_kind [OF assms] by (cases "st_value s name") (auto simp: secret_of_def on_def)

lemma strip_nil [simp]: "strip [] = []"
  by (simp add: strip_def strip_by_def lstrip_by_def rstrip_by_def)

lemma blank_not_on:
  assumes "settings_ok s" "map_of MODEL_FIELDS name = Some (K_secret, d)" "\<not> blank_secret s name"
  shows "on s name"
  using field_kind [OF assms(1,2)] assms(3)
  by (cases "st_value s name") (auto simp: blank_secret_def secret_of_def on_def)

lemma git_provider_ready:
  assumes "settings_ok s"
  shows "build_git_provider s \<noteq> None \<longleftrightarrow>
    feature_ready s ''Git write path'' \<and> text_of s ''git_provider'' \<in> {''gitea'', ''github''}"
proof -
  have "truthy (opt_of s ''git_base_url'') = on s ''git_base_url''"
    "truthy (secret_of s ''git_token'') = on s ''git_token''"
    using optional_kinds secret_kinds by (simp_all add: optional_on [OF assms] secret_on [OF assms])
  then show ?thesis
    by (auto simp: build_git_provider_def ready_simps split: option.split)
qed

lemma provider_ready:
  assumes "settings_ok s"
  shows "build_notification_provider (notification_settings_of s) = Provider_ntfy \<longleftrightarrow> feature_ready s ''ntfy notifications''"
    "build_notification_provider (notification_settings_of s) = Provider_smtp \<longleftrightarrow> feature_ready s ''SMTP notifications''"
proof -
  have "truthy (opt_of s n) = on s n"
    if "n \<in> {''notification_url'', ''notification_smtp_host'', ''notification_from_email'', ''notification_to_email''}" for n
    using optional_kinds that by (auto simp: optional_on [OF assms])
  then show "build_notification_provider (notification_settings_of s) = Provider_ntfy \<longleftrightarrow> feature_ready s ''ntfy notifications''"
    "build_notification_provider (notification_settings_of s) = Provider_smtp \<longleftrightarrow> feature_ready s ''SMTP notifications''"
    by (auto simp: build_notification_provider_def notification_settings_of_def ready_simps)
qed

lemma auth_ready:
  assumes "settings_ok s" "build_auth (auth_settings_of s) = Inr (Some a)"
  shows "feature_ready s ''MCP OAuth''"
proof -
  have "truthy (opt_of s n) = on s n"
    if "n \<in> {''mcp_auth_issuer_url'', ''mcp_auth_audience'', ''mcp_auth_required_group'', ''mcp_auth_resource_url''}" for n
    using optional_kinds that by (auto simp: optional_on [OF assms(1)])
  then show ?thesis
    using assms(2)
    by (auto simp: ready_simps build_auth_def missing_settings_def filter_empty_conv auth_settings_of_def split: if_splits)
qed

lemma patchmon_registered:
  assumes "settings_ok s" "register_patchmon_routes bracket_ok s = Some Registered"
  shows "on s ''patchmon_webhook_enabled'' \<and> on s ''patchmon_webhook_secret'' \<and> on s ''patchmon_approval_base_url'' \<and>
    feature_ready s ''SMTP notifications'' \<and> on s ''patchmon_ansible_playbook''"
proof -
  have "on s ''patchmon_webhook_secret''"
    using assms secret_kinds by (intro blank_not_on [OF assms(1)]) (auto simp: register_patchmon_routes_def split: if_splits)
  moreover have "truthy (opt_of s ''patchmon_approval_base_url'')"
    using assms(2) by (auto simp: register_patchmon_routes_def approval_base_url_def split: if_splits option.splits)
  moreover have "truthy (opt_of s ''patchmon_ansible_playbook'')"
    using assms(2)
    by (auto simp: register_patchmon_routes_def can_execute_def build_patch_executor_def split: if_splits option.splits)
  moreover have "on s ''patchmon_webhook_enabled''"
    "build_notification_provider (notification_settings_of s) = Provider_smtp"
    using assms(2) by (auto simp: register_patchmon_routes_def split: if_splits option.splits)
  ultimately show ?thesis
    using optional_kinds provider_ready [OF assms(1)] by (simp add: optional_on [OF assms(1)])
qed

section \<open>Properties\<close>

text \<open>
  C12: Authentication switched on is enforced or the server does not start: a process that serves
  HTTP then serves streamable HTTP with the group gate as the last middleware, after the SDK's
  own, for the configured non-empty group; its issuer and resource are https URLs; and every
  answer under the well-known metadata path is the server's own.
\<close>
theorem auth_enforced_or_not_started:
  assumes "settings_ok s" "run_server w bracket_ok cron_ok k s = Inr (rt, Serve_http app, jobs)"
    and "on s ''mcp_auth_enabled''"
  shows "\<exists>before m. rt_auth rt = Some m \<and> text_of s ''mcp_transport'' = ''streamable-http'' \<and>
    aa_middleware app = before @ [Require_group (ma_group m) (sdk_mcp_path k) (snd (sdk_metadata k (ma_resource m)))] \<and>
    Auth_context \<in> set before \<and> opt_of s ''mcp_auth_required_group'' = Some (ma_group m) \<and> ma_group m \<noteq> [] \<and>
    opt_of s ''mcp_auth_issuer_url'' = Some (vf_issuer (ma_verifier m)) \<and>
    starts_with (vf_issuer (ma_verifier m)) ''https://'' \<and> starts_with (ma_resource m) ''https://'' \<and>
    (\<forall>r \<in> set (aa_routes app). ro_is_route r \<and> starts_with (ro_path r) WELL_KNOWN \<longrightarrow> ro_ours r)"
proof -
  obtain tr where b: "build_app w bracket_ok s = (tr, Inr rt)"
    and h: "http_app k s rt = Some app" "text_of s ''mcp_transport'' \<noteq> ''stdio''"
    using assms(2) by (cases "build_app w bracket_ok s") (auto simp: run_server_def Let_def split: sum.splits if_splits option.splits)
  obtain m where m: "rt_auth rt = Some m" "truthy (opt_of s ''mcp_auth_required_group'')"
    "ma_group m = the (opt_of s ''mcp_auth_required_group'')" "starts_with (ma_resource m) ''https://''"
    "vf_issuer (ma_verifier m) = the (opt_of s ''mcp_auth_issuer_url'')"
    "starts_with (vf_issuer (ma_verifier m)) ''https://''" "text_of s ''mcp_transport'' \<noteq> ''sse''"
    "truthy (opt_of s ''mcp_auth_issuer_url'')"
    using build_auth_enforced [OF build_app_runtime(2) [OF b]] assms(3) by (auto simp: auth_settings_of_def)
  have "text_of s ''mcp_transport'' \<in> set TRANSPORTS"
    using field_kind [OF assms(1) transport_kind] by (cases "st_value s ''mcp_transport''") (auto simp: text_of_def)
  then have t: "text_of s ''mcp_transport'' = ''streamable-http''" using h(2) m(7) by (auto simp: TRANSPORTS_def)
  then have sec: "secure_app (sdk_metadata k) (sdk_streamable k rt) m (sdk_mcp_path k) = Some app"
    using h(1) m(1) by (simp add: http_app_def)
  then have "Auth_context \<in> set (aa_middleware (sdk_streamable k rt))"
    and app: "aa_middleware app = aa_middleware (sdk_streamable k rt) @
        [Require_group (ma_group m) (sdk_mcp_path k) (snd (sdk_metadata k (ma_resource m)))]"
    by (auto simp: secure_app_def split: if_splits)
  moreover have "\<forall>r \<in> set (aa_routes app). ro_is_route r \<and> starts_with (ro_path r) WELL_KNOWN \<longrightarrow> ro_ours r"
    using sec by (auto simp: secure_app_def metadata_paths_ours split: if_splits)
  moreover have "opt_of s ''mcp_auth_required_group'' = Some (ma_group m) \<and> ma_group m \<noteq> [] \<and>
      opt_of s ''mcp_auth_issuer_url'' = Some (vf_issuer (ma_verifier m))"
    using m(2,3,5,8) by (cases "opt_of s ''mcp_auth_required_group''"; cases "opt_of s ''mcp_auth_issuer_url''") auto
  ultimately show ?thesis using m(1,4,6) t by blast
qed

text \<open>
  A process whose startup checks failed is read-only where nobody asks: it schedules discovery
  passes and nothing else, while a healthy one schedules the comment poll and the normalization
  sweep exactly when they are enabled and the Git write path is configured.
\<close>
theorem read_only_schedules_discovery:
  assumes "run_server w bracket_ok cron_ok k s = Inr (rt, out, jobs)"
  shows "(rt_read_only rt \<longleftrightarrow> \<not> healthy (check_health w s)) \<and>
    (let all = build_scheduler s (build_sources s) @
           (if rt_read_only rt \<or> \<not> writes_configured s then []
            else (if on s ''proposal_comment_poll_enabled''
                  then [Comment_poll (int_of s ''proposal_comment_poll_interval_seconds'')] else []) @
                 (if on s ''normalization_enabled''
                  then [Normalization_sweep (schedule_trigger cron_ok (text_of s ''normalization_schedule''))] else []))
     in jobs = (if all = [] then None else Some all))"
proof -
  obtain tr where b: "build_app w bracket_ok s = (tr, Inr rt)"
    and j: "jobs = build_runtime_scheduler cron_ok s rt"
    using assms by (cases "build_app w bracket_ok s") (auto simp: run_server_def Let_def split: sum.splits if_splits option.splits)
  show ?thesis
    by (simp add: build_app_runtime [OF b] j build_runtime_scheduler_def build_scheduler_def Let_def)
qed

text \<open>
  C14: The configuration report mirrors the gates in the code: a client, a set of tools, a
  notification provider or authentication is there exactly when, or only when, the report finds
  its feature on with nothing missing. The one exception is the Git write path with the
  provider gitlab, which the report finds ready and the server leaves out.
\<close>
theorem report_mirrors_gates:
  assumes "settings_ok s"
  shows "(dockhand_actions_registered s \<longleftrightarrow> feature_ready s ''Dockhand actions'') \<and>
    (authentik_client s \<longleftrightarrow> feature_ready s ''Authentik'') \<and>
    (docs_client s \<longleftrightarrow> feature_ready s ''documentation-mcp'') \<and>
    (dozzle_registered s \<longleftrightarrow> feature_ready s ''Dozzle'') \<and>
    (infisical_client s \<longleftrightarrow> feature_ready s ''Infisical'') \<and>
    set (build_sources s) =
      {src. feature_ready s (case src of Source_traefik \<Rightarrow> ''Traefik discovery'' | Source_authentik \<Rightarrow> ''Authentik''
        | Source_docker \<Rightarrow> ''Docker discovery'' | Source_dockhand \<Rightarrow> ''Dockhand'' | Source_manual \<Rightarrow> [])} \<and>
    (build_notification_provider (notification_settings_of s) = Provider_ntfy \<longleftrightarrow> feature_ready s ''ntfy notifications'') \<and>
    (build_notification_provider (notification_settings_of s) = Provider_smtp \<longleftrightarrow> feature_ready s ''SMTP notifications'') \<and>
    (build_git_provider s \<noteq> None \<longleftrightarrow> feature_ready s ''Git write path'' \<and> text_of s ''git_provider'' \<noteq> ''gitlab'') \<and>
    (\<forall>a. build_auth (auth_settings_of s) = Inr (Some a) \<longrightarrow> feature_ready s ''MCP OAuth'') \<and>
    (\<forall>b. register_patchmon_routes b s = Some Registered \<longrightarrow>
       feature_ready s ''SMTP notifications'' \<and> on s ''patchmon_webhook_secret'' \<and> on s ''patchmon_ansible_playbook'')"
proof -
  have "text_of s ''git_provider'' \<in> set GIT_PROVIDERS"
    using field_kind [OF assms git_kind] by (cases "st_value s ''git_provider''") (auto simp: text_of_def)
  then have git: "build_git_provider s \<noteq> None \<longleftrightarrow>
      feature_ready s ''Git write path'' \<and> text_of s ''git_provider'' \<noteq> ''gitlab''"
    unfolding git_provider_ready [OF assms] by (auto simp: GIT_PROVIDERS_def)
  have none: "\<not> feature_ready s []" by (simp add: feature_ready_def feature_tables)
  have src: "set (build_sources s) =
      {src. feature_ready s (case src of Source_traefik \<Rightarrow> ''Traefik discovery'' | Source_authentik \<Rightarrow> ''Authentik''
        | Source_docker \<Rightarrow> ''Docker discovery'' | Source_dockhand \<Rightarrow> ''Dockhand'' | Source_manual \<Rightarrow> [])}"
  proof (rule set_eqI)
    fix src
    show "src \<in> set (build_sources s) \<longleftrightarrow> src \<in> {src. feature_ready s (case src of Source_traefik \<Rightarrow> ''Traefik discovery''
        | Source_authentik \<Rightarrow> ''Authentik'' | Source_docker \<Rightarrow> ''Docker discovery''
        | Source_dockhand \<Rightarrow> ''Dockhand'' | Source_manual \<Rightarrow> [])}"
      by (cases src) (simp_all add: build_sources_def ready_simps none)
  qed
  have clients: "dockhand_actions_registered s \<longleftrightarrow> feature_ready s ''Dockhand actions''"
    "authentik_client s \<longleftrightarrow> feature_ready s ''Authentik''" "docs_client s \<longleftrightarrow> feature_ready s ''documentation-mcp''"
    "dozzle_registered s \<longleftrightarrow> feature_ready s ''Dozzle''" "infisical_client s \<longleftrightarrow> feature_ready s ''Infisical''"
    by (simp_all add: dockhand_actions_registered_def authentik_client_def docs_client_def dozzle_registered_def
        infisical_client_def ready_simps)
  have "\<forall>a. build_auth (auth_settings_of s) = Inr (Some a) \<longrightarrow> feature_ready s ''MCP OAuth''"
    using auth_ready [OF assms] by blast
  moreover have "\<forall>b. register_patchmon_routes b s = Some Registered \<longrightarrow>
      feature_ready s ''SMTP notifications'' \<and> on s ''patchmon_webhook_secret'' \<and> on s ''patchmon_ansible_playbook''"
    using patchmon_registered [OF assms] by blast
  ultimately show ?thesis
    using clients src git provider_ready [OF assms] by blast
qed

section \<open>Witnesses\<close>

definition with_values :: "(pystr \<times> setting_value) list \<Rightarrow> settings" where
  "with_values vs =
     \<lparr>st_value = (\<lambda>name. case map_of vs name of Some v \<Rightarrow> v
        | None \<Rightarrow> (case default_of name of None \<Rightarrow> S_none | Some v \<Rightarrow> v)), st_fields_set = map fst vs\<rparr>"

definition fits :: "pystr \<times> setting_value \<Rightarrow> bool" where
  "fits nv = (case map_of MODEL_FIELDS (fst nv) of Some (k, d) \<Rightarrow> kind_ok k (snd nv) | None \<Rightarrow> False)"

lemma with_values_ok:
  assumes "distinct (map fst vs)" "list_all fits vs"
  shows "settings_ok (with_values vs)"
proof -
  have fit: "\<exists>k d. map_of MODEL_FIELDS n = Some (k, d) \<and> kind_ok k v" if "(n, v) \<in> set vs" for n v
    using assms(2) that by (auto simp: list_all_iff fits_def split: option.splits)
  have "n \<in> fst ` set MODEL_FIELDS" if "(n, v) \<in> set vs" for n v
    using fit [OF that] by (metis map_of_eq_None_iff option.distinct(1))
  then have "set (map fst vs) \<subseteq> set field_names" by (auto simp: field_names_def)
  moreover have "kind_ok k (st_value (with_values vs) n) \<and>
      (n \<notin> fst ` set vs \<longrightarrow> st_value (with_values vs) n = d)" if "(n, k, d) \<in> set MODEL_FIELDS" for n k d
  proof (cases "map_of vs n")
    case None
    have "kind_ok k d" using defaults_valid that by (fastforce simp: list_all_iff)
    then show ?thesis using that None by (auto simp: with_values_def default_of_def field_lookup)
  next
    case (Some v)
    then have "(n, v) \<in> set vs" by (rule map_of_SomeD)
    then show ?thesis using fit Some that by (force simp: with_values_def field_lookup)
  qed
  ultimately show ?thesis using assms(1) by (auto simp: settings_ok_def with_values_def)
qed

definition example_sdk :: sdk where
  "example_sdk =
     \<lparr>sdk_streamable = (\<lambda>rt. \<lparr>aa_routes = [], aa_middleware = [Auth_context]\<rparr>),
      sdk_sse = (\<lambda>rt. \<lparr>aa_routes = [], aa_middleware = []\<rparr>), sdk_mcp_path = ''/mcp'',
      sdk_metadata = (\<lambda>u. (Some WELL_KNOWN, u))\<rparr>"

definition no_paths :: path_world where
  "no_paths = \<lparr>pw_exists = (\<lambda>p. False), pw_is_dir = (\<lambda>p. False), pw_is_file = (\<lambda>p. False), pw_text = id\<rparr>"

definition auth_example :: settings where
  "auth_example = with_values
     [(''mcp_auth_enabled'', S_bool True), (''mcp_auth_issuer_url'', S_text ''https://a/''),
      (''mcp_auth_audience'', S_text ''c''), (''mcp_auth_required_group'', S_text ''g''),
      (''mcp_auth_resource_url'', S_text ''https://b/mcp'')]"

lemma auth_example_ok: "settings_ok auth_example"
  unfolding auth_example_def by (rule with_values_ok) code_simp+

lemma auth_example_values:
  "text_of auth_example ''mcp_transport'' = ''streamable-http''" "on auth_example ''mcp_auth_enabled''"
  "\<not> on auth_example ''patchmon_webhook_enabled''"
  "case build_auth (auth_settings_of auth_example) of
     Inr (Some m) \<Rightarrow> ma_group m = ''g'' \<and> ma_resource m = ''https://b/mcp'' | _ \<Rightarrow> False"
  by code_simp+

theorem auth_enforced_or_not_started_witness:
  "\<exists>rt app jobs m. run_server no_paths (\<lambda>u. True) (\<lambda>c. True) example_sdk auth_example = Inr (rt, Serve_http app, jobs) \<and>
     rt_auth rt = Some m \<and> ma_group m = ''g'' \<and>
     Require_group ''g'' ''/mcp'' ''https://b/mcp'' \<in> set (aa_middleware app)"
proof -
  obtain m where m: "build_auth (auth_settings_of auth_example) = Inr (Some m)" "ma_group m = ''g''"
      "ma_resource m = ''https://b/mcp''"
    using auth_example_values(4) by (auto split: sum.splits option.splits)
  have "register_patchmon_routes (\<lambda>u. True) auth_example = Some Not_enabled"
    using auth_example_values(3) by (simp add: register_patchmon_routes_def)
  then obtain rt where rt: "snd (build_app no_paths (\<lambda>u. True) auth_example) = Inr rt" "rt_auth rt = Some m"
    using m(1) by (simp add: build_app_def Let_def)
  then obtain app where "http_app example_sdk auth_example rt = Some app"
    using auth_example_values(1) by (simp add: http_app_def secure_app_def example_sdk_def)
  then obtain jobs where "run_server no_paths (\<lambda>u. True) (\<lambda>c. True) example_sdk auth_example = Inr (rt, Serve_http app, jobs)"
    using rt(1) auth_example_values(1) by (simp add: run_server_def Let_def)
  from auth_enforced_or_not_started [OF auth_example_ok this auth_example_values(2)] this rt(2) m show ?thesis
    by (fastforce simp: example_sdk_def auth_settings_of_def)
qed

definition gitlab_example :: settings where
  "gitlab_example = with_values
     [(''git_provider'', S_text ''gitlab''), (''git_base_url'', S_text ''https://g''), (''git_token'', S_secret ''t''),
      (''git_repo'', S_text ''o/r''), (''mcp_allowed_hosts'', S_text ''h'')]"

lemma gitlab_example_values:
  "text_of gitlab_example ''git_provider'' = ''gitlab''" "on gitlab_example ''git_base_url''"
  "on gitlab_example ''git_token''" "on gitlab_example ''git_repo''"
  by code_simp+

theorem gitlab_reported_ready:
  "feature_ready gitlab_example ''Git write path'' \<and> build_git_provider gitlab_example = None"
  using gitlab_example_values by (simp add: ready_simps build_git_provider_def split: option.splits)

theorem report_mirrors_gates_witness:
  "settings_ok gitlab_example \<and> build_git_provider gitlab_example = None \<and> feature_ready gitlab_example ''Git write path''"
proof -
  have ok: "settings_ok gitlab_example"
    unfolding gitlab_example_def by (rule with_values_ok) code_simp+
  then show ?thesis using report_mirrors_gates [OF ok] gitlab_example_values by (auto simp: ready_simps)
qed

end
