(* ===== verification/Infisical.thy ===== *)
theory Infisical
  imports Server PyJson "HOL-Library.AList"
begin

text \<open>
  \<open>integrations/infisical\<close>: the client with its cached token, the check that every value came
  back masked, the walk over the folders and the status tool. The server answers each request by
  a function of all requests and answers before it, so it may change its mind at any time.
\<close>

section \<open>Requests and results\<close>

datatype infisical_request = Req_login | Req_secrets pystr | Req_folders pystr

datatype http_reply = Http_unreachable | Http_reply int "json option"

type_synonym infisical_log = "(infisical_request \<times> http_reply) list"

record infisical_world =
  iw_reply :: "infisical_log \<Rightarrow> infisical_request \<Rightarrow> http_reply"
  iw_now :: "infisical_log \<Rightarrow> rat"
  iw_str :: "json \<Rightarrow> pystr"

record infisical_state =
  is_log :: infisical_log
  is_token :: "json option"
  is_expires :: rat

datatype infisical_error = Login_failed int | Login_no_token | Secrets_failed int | Folders_failed int

text \<open>\<open>I_raised\<close>: an exception that is no \<open>InfisicalError\<close>.\<close>

datatype 'a infisical_result = I_ok 'a | I_error infisical_error | I_leaked json pystr | I_raised

definition send_request ::
  "infisical_world \<Rightarrow> infisical_state \<Rightarrow> infisical_request \<Rightarrow> infisical_state \<times> http_reply" where
  "send_request w st r =
     (let reply = iw_reply w (is_log st) r in (st\<lparr>is_log := is_log st @ [(r, reply)]\<rparr>, reply))"

section \<open>The token\<close>

definition expires_in :: "json option \<Rightarrow> rat option" where
  "expires_in v =
     (if json_falsy v then Some 300
      else case v of
        Some (JInt n) \<Rightarrow> Some (of_int n)
      | Some (JFloat q) \<Rightarrow> Some q
      | Some (JBool b) \<Rightarrow> Some 1
      | _ \<Rightarrow> None)"

definition login :: "infisical_world \<Rightarrow> infisical_state \<Rightarrow> infisical_state \<times> unit infisical_result" where
  "login w st =
     (case send_request w st Req_login of
        (st1, Http_unreachable) \<Rightarrow> (st1, I_raised)
      | (st1, Http_reply code body) \<Rightarrow>
          if 400 \<le> code then (st1, I_error (Login_failed code))
          else case body of
            Some (JObj kvs) \<Rightarrow>
              if json_falsy (map_of kvs ''accessToken'') then (st1, I_error Login_no_token)
              else (case expires_in (map_of kvs ''expiresIn'') of
                      None \<Rightarrow> (st1, I_raised)
                    | Some e \<Rightarrow>
                        (st1\<lparr>is_token := map_of kvs ''accessToken'',
                             is_expires := iw_now w (is_log st1) + max 30 (e - 30)\<rparr>, I_ok ()))
          | _ \<Rightarrow> (st1, I_raised))"

definition valid_token :: "infisical_world \<Rightarrow> infisical_state \<Rightarrow> bool" where
  "valid_token w st \<longleftrightarrow> is_token st \<noteq> None \<and> iw_now w (is_log st) < is_expires st"

definition access_token :: "infisical_world \<Rightarrow> infisical_state \<Rightarrow> infisical_state \<times> unit infisical_result" where
  "access_token w st = (if valid_token w st then (st, I_ok ()) else login w st)"

section \<open>The keys of one folder\<close>

text \<open>Is the value one of the known placeholders? \<open>None\<close>: it cannot be looked up in a set.\<close>

definition value_masked :: "json option \<Rightarrow> bool option" where
  "value_masked v =
     (case v of
        Some (JList xs) \<Rightarrow> None
      | Some (JObj kvs) \<Rightarrow> None
      | _ \<Rightarrow> Some (v \<in> {None, Some JNull, Some (JStr []), Some (JStr ''<hidden-by-infisical>'')}))"

definition secret_key :: "(pystr \<times> json) list \<Rightarrow> json" where
  "secret_key kvs = (case map_of kvs ''secretKey'' of None \<Rightarrow> JStr [] | Some k \<Rightarrow> k)"

fun masked_keys :: "pystr \<Rightarrow> json list \<Rightarrow> json list infisical_result" where
  "masked_keys path [] = I_ok []"
| "masked_keys path (JObj kvs # xs) =
     (if map_of kvs ''secretValueHidden'' \<noteq> Some (JBool True) then I_leaked (secret_key kvs) path
      else case value_masked (map_of kvs ''secretValue'') of
        None \<Rightarrow> I_raised
      | Some False \<Rightarrow> I_leaked (secret_key kvs) path
      | Some True \<Rightarrow> (case masked_keys path xs of I_ok ks \<Rightarrow> I_ok (secret_key kvs # ks) | r \<Rightarrow> r))"
| "masked_keys path (x # xs) = I_raised"

text \<open>\<open>response.json().get(key, [])\<close> as a loop runs over it; an iteration that only raises is kept.\<close>

definition listed :: "pystr \<Rightarrow> json option \<Rightarrow> json list option" where
  "listed key body =
     (case body of
        Some (JObj kvs) \<Rightarrow>
          (case map_of kvs key of
             None \<Rightarrow> Some []
           | Some (JList xs) \<Rightarrow> Some xs
           | Some (JStr s) \<Rightarrow> Some (map (\<lambda>c. JStr [c]) s)
           | Some (JObj d) \<Rightarrow> Some (map (\<lambda>kv. JStr (fst kv)) d)
           | _ \<Rightarrow> None)
      | _ \<Rightarrow> None)"

definition list_secret_keys ::
  "infisical_world \<Rightarrow> infisical_state \<Rightarrow> pystr \<Rightarrow> infisical_state \<times> json list infisical_result" where
  "list_secret_keys w st path =
     (case access_token w st of
        (st1, I_ok u) \<Rightarrow>
          (case send_request w st1 (Req_secrets path) of
             (st2, Http_unreachable) \<Rightarrow> (st2, I_raised)
           | (st2, Http_reply code body) \<Rightarrow>
               (st2, if 400 \<le> code then I_error (Secrets_failed code)
                     else case listed ''secrets'' body of None \<Rightarrow> I_raised | Some xs \<Rightarrow> masked_keys path xs))
      | (st1, I_error e) \<Rightarrow> (st1, I_error e)
      | (st1, I_leaked k p) \<Rightarrow> (st1, I_leaked k p)
      | (st1, I_raised) \<Rightarrow> (st1, I_raised))"

section \<open>The folders\<close>

fun folder_names :: "(json \<Rightarrow> pystr) \<Rightarrow> json list \<Rightarrow> pystr list option" where
  "folder_names str [] = Some []"
| "folder_names str (JObj kvs # xs) =
     (case folder_names str xs of
        None \<Rightarrow> None
      | Some names \<Rightarrow>
          Some (case map_of kvs ''name'' of
                  Some (JStr s) \<Rightarrow> if s = [] then names else s # names
                | v \<Rightarrow> if json_falsy v then names else str (the v) # names))"
| "folder_names str (x # xs) = None"

definition list_folder_names ::
  "infisical_world \<Rightarrow> infisical_state \<Rightarrow> pystr \<Rightarrow> infisical_state \<times> pystr list infisical_result" where
  "list_folder_names w st path =
     (case access_token w st of
        (st1, I_ok u) \<Rightarrow>
          (case send_request w st1 (Req_folders path) of
             (st2, Http_unreachable) \<Rightarrow> (st2, I_raised)
           | (st2, Http_reply code body) \<Rightarrow>
               (st2, if 400 \<le> code then I_error (Folders_failed code)
                     else case listed ''folders'' body of
                       None \<Rightarrow> I_raised
                     | Some xs \<Rightarrow> (case folder_names (iw_str w) xs of None \<Rightarrow> I_raised | Some ns \<Rightarrow> I_ok ns)))
      | (st1, I_error e) \<Rightarrow> (st1, I_error e)
      | (st1, I_leaked k p) \<Rightarrow> (st1, I_leaked k p)
      | (st1, I_raised) \<Rightarrow> (st1, I_raised))"

definition child_paths :: "pystr \<Rightarrow> pystr list \<Rightarrow> pystr list" where
  "child_paths current names = map (\<lambda>n. rstrip_by (\<lambda>c. c = CHR ''/'') current @ ''/'' @ n) names"

type_synonym tree = "(pystr \<times> json list) list \<times> pystr list"

text \<open>
  One turn of the loop of \<open>list_secret_tree\<close>: the folders found below and what is known after it;
  a folder that cannot be read or listed is no error of the sweep.
\<close>

definition visit ::
  "infisical_world \<Rightarrow> infisical_state \<Rightarrow> pystr \<Rightarrow> tree \<Rightarrow> infisical_state \<times> (pystr list \<times> tree) infisical_result" where
  "visit w st current out =
     (case list_secret_keys w st current of
        (st1, I_leaked k p) \<Rightarrow> (st1, I_leaked k p)
      | (st1, I_raised) \<Rightarrow> (st1, I_raised)
      | (st1, I_error e) \<Rightarrow> (st1, I_ok ([], fst out, snd out @ [current]))
      | (st1, I_ok keys) \<Rightarrow>
          (let out1 = (if keys = [] then fst out else AList.update current keys (fst out), snd out) in
           case list_folder_names w st1 current of
             (st2, I_leaked k p) \<Rightarrow> (st2, I_leaked k p)
           | (st2, I_raised) \<Rightarrow> (st2, I_raised)
           | (st2, I_error e) \<Rightarrow> (st2, I_ok ([], out1))
           | (st2, I_ok names) \<Rightarrow> (st2, I_ok (child_paths current names, out1))))"

text \<open>The loop: every turn visits one folder, and at most \<open>max_folders\<close> are visited.\<close>

function walk ::
  "infisical_world \<Rightarrow> int \<Rightarrow> infisical_state \<Rightarrow> pystr list \<Rightarrow> int \<Rightarrow> tree \<Rightarrow>
     infisical_state \<times> tree infisical_result" where
  "walk w max_folders st queue visited out =
     (case queue of
        [] \<Rightarrow> (st, I_ok out)
      | current # rest \<Rightarrow>
          if \<not> visited < max_folders then (st, I_ok out)
          else (case visit w st current out of
              (st1, I_ok (children, out1)) \<Rightarrow> walk w max_folders st1 (rest @ children) (visited + 1) out1
            | (st1, I_error e) \<Rightarrow> (st1, I_error e)
            | (st1, I_leaked k p) \<Rightarrow> (st1, I_leaked k p)
            | (st1, I_raised) \<Rightarrow> (st1, I_raised)))"
  by auto

termination walk
  by (relation "measure (\<lambda>(w, max_folders, st, queue, visited, out). nat (max_folders - visited))") auto

declare walk.simps [simp del]

definition list_secret_tree ::
  "infisical_world \<Rightarrow> int \<Rightarrow> pystr \<Rightarrow> infisical_state \<Rightarrow> infisical_state \<times> tree infisical_result" where
  "list_secret_tree w max_folders root_path st =
     walk w max_folders st [if root_path = [] then ''/'' else root_path] 0 ([], [])"

section \<open>The tool\<close>

datatype infisical_reply =
    Infisical_not_configured
  | Infisical_tree tree
  | Infisical_keys "json list"
  | Infisical_leak
  | Infisical_error infisical_error
  | Infisical_raised

definition leak_location :: "(json \<Rightarrow> pystr) \<Rightarrow> json \<Rightarrow> pystr \<Rightarrow> pystr" where
  "leak_location str key path =
     (let name = (case key of JStr s \<Rightarrow> s | _ \<Rightarrow> str key) in
      if path = [] then name else rstrip_by (\<lambda>c. c = CHR ''/'') path @ ''/'' @ name)"

text \<open>The alert names the key and the place.\<close>

definition leak_alert :: "settings \<Rightarrow> (json \<Rightarrow> pystr) \<Rightarrow> json \<Rightarrow> pystr \<Rightarrow> pystr \<times> pystr" where
  "leak_alert s str key path =
     (''Rotate an Infisical secret immediately'',
      ''registry-mcp'' @ [CHR 0x27] @ ''s read-only Infisical check requested '' @
      ''viewSecretValue=false, but Infisical returned a live '' @ ''value for '' @
      py_repr (leak_location str key path) @ '' ('' @ text_of s ''infisical_project_id'' @ ''/'' @
      text_of s ''infisical_environment'' @ ''). Its value reached registry-mcp'' @ [CHR 0x27] @ ''s process '' @
      ''unexpectedly -- rotate this specific secret in Infisical '' @ ''now.'')"

text \<open>\<open>infisical_status\<close>, with the alerts it sent; \<open>send\<close> tells whether the notifier returned.\<close>

definition infisical_status ::
  "infisical_world \<Rightarrow> (pystr \<times> pystr \<Rightarrow> bool) \<Rightarrow> settings \<Rightarrow> infisical_state \<Rightarrow>
     infisical_state \<times> infisical_reply \<times> (pystr \<times> pystr) list" where
  "infisical_status w send s st =
     (if \<not> infisical_client s then (st, Infisical_not_configured, [])
      else
        (let given = text_of s ''infisical_secret_path'';
             path = (if given = [] then ''/'' else given);
             leaked = (\<lambda>st1 key p. let alert = leak_alert s (iw_str w) key p in
               (st1, if send alert then Infisical_leak else Infisical_raised, [alert]))
         in if on s ''infisical_recursive_scan'' then
              (case list_secret_tree w (int_of s ''infisical_max_folders'') path st of
                 (st1, I_ok tree) \<Rightarrow> (st1, Infisical_tree tree, [])
               | (st1, I_error e) \<Rightarrow> (st1, Infisical_error e, [])
               | (st1, I_leaked key p) \<Rightarrow> leaked st1 key p
               | (st1, I_raised) \<Rightarrow> (st1, Infisical_raised, []))
            else
              (case list_secret_keys w st path of
                 (st1, I_ok keys) \<Rightarrow> (st1, Infisical_keys keys, [])
               | (st1, I_error e) \<Rightarrow> (st1, Infisical_error e, [])
               | (st1, I_leaked key p) \<Rightarrow> leaked st1 key p
               | (st1, I_raised) \<Rightarrow> (st1, Infisical_raised, []))))"

section \<open>Lemmas\<close>

text \<open>An entry whose value is masked, and its name.\<close>

fun entry_masked :: "json \<Rightarrow> bool" where
  "entry_masked (JObj kvs) =
     (map_of kvs ''secretValueHidden'' = Some (JBool True) \<and> value_masked (map_of kvs ''secretValue'') = Some True)"
| "entry_masked j = False"

fun entry_key :: "json \<Rightarrow> json" where
  "entry_key (JObj kvs) = secret_key kvs"
| "entry_key j = j"

text \<open>The names an answer gives when every value of it is masked.\<close>

definition answer_keys :: "json option \<Rightarrow> json list option" where
  "answer_keys body =
     (case listed ''secrets'' body of
        None \<Rightarrow> None
      | Some xs \<Rightarrow> if list_all entry_masked xs then Some (map entry_key xs) else None)"

text \<open>No answer with a live value is in the log.\<close>

definition clean :: "infisical_log \<Rightarrow> bool" where
  "clean lg \<longleftrightarrow>
     (\<forall>p code body. (Req_secrets p, Http_reply code body) \<in> set lg \<and> code < 400 \<longrightarrow> answer_keys body \<noteq> None)"

text \<open>The names are those an answer for that folder gave.\<close>

definition answered :: "infisical_log \<Rightarrow> pystr \<Rightarrow> json list \<Rightarrow> bool" where
  "answered lg p ks \<longleftrightarrow> (\<exists>code body. (Req_secrets p, Http_reply code body) \<in> set lg \<and> answer_keys body = Some ks)"

lemma masked_keys_ok: "masked_keys p xs = I_ok ks \<longleftrightarrow> list_all entry_masked xs \<and> ks = map entry_key xs"
proof (induction p xs arbitrary: ks rule: masked_keys.induct)
  case (2 p kvs xs)
  show ?case
  proof (cases "map_of kvs ''secretValueHidden'' = Some (JBool True) \<and> value_masked (map_of kvs ''secretValue'') = Some True")
    case True
    then show ?thesis using 2 by (cases "masked_keys p xs") auto
  next
    case False
    then show ?thesis by (auto split: option.splits bool.splits)
  qed
qed auto

lemma clean_append [simp]: "clean (a @ b) \<longleftrightarrow> clean a \<and> clean b"
  by (auto simp: clean_def)

lemma clean_nil [simp]: "clean []"
  by (simp add: clean_def)

lemma clean_other [simp]: "clean [(Req_login, r)]" "clean [(Req_folders p, r)]"
  by (simp_all add: clean_def)

lemma answered_append: "answered a p ks \<Longrightarrow> answered (a @ b) p ks"
  by (auto simp: answered_def)

lemma answered_later: "answered b p ks \<Longrightarrow> answered (a @ b) p ks"
  by (auto simp: answered_def)

lemma access_token_log:
  assumes "access_token w st = (st1, r)"
  shows "\<exists>new. is_log st1 = is_log st @ new \<and> length new \<le> 1 \<and> clean new \<and> (\<forall>k p. r \<noteq> I_leaked k p)"
  using assms
  by (auto simp: access_token_def login_def send_request_def Let_def
      split: if_splits http_reply.splits option.splits json.splits)

text \<open>What one folder's read leaves in the log.\<close>

lemma list_secret_keys_log:
  assumes "list_secret_keys w st path = (st1, r)"
  shows "\<exists>new. is_log st1 = is_log st @ new \<and> length new \<le> 2 \<and>
    (\<forall>e. r = I_error e \<longrightarrow> clean new) \<and> (\<forall>ks. r = I_ok ks \<longrightarrow> clean new \<and> answered new path ks)"
proof -
  obtain st0 a where a: "access_token w st = (st0, a)" by (metis surj_pair)
  obtain new where n: "is_log st0 = is_log st @ new" "length new \<le> 1" "clean new" "\<forall>k p. a \<noteq> I_leaked k p"
    using access_token_log [OF a] by blast
  show ?thesis
  proof (cases "\<exists>u. a = I_ok u")
    case False
    then have "st1 = st0" "\<forall>ks. r \<noteq> I_ok ks" using assms a n(4) by (auto simp: list_secret_keys_def split: infisical_result.splits)
    then show ?thesis using n by (intro exI [of _ new]) auto
  next
    case True
    define reply where "reply = iw_reply w (is_log st0) (Req_secrets path)"
    have log: "is_log st1 = is_log st @ new @ [(Req_secrets path, reply)]"
      using assms a True n(1) by (auto simp: list_secret_keys_def send_request_def reply_def Let_def split: http_reply.splits)
    have r: "r = (case reply of Http_unreachable \<Rightarrow> I_raised
        | Http_reply code body \<Rightarrow> if 400 \<le> code then I_error (Secrets_failed code)
            else case listed ''secrets'' body of None \<Rightarrow> I_raised | Some xs \<Rightarrow> masked_keys path xs)"
      using assms a True by (auto simp: list_secret_keys_def send_request_def reply_def Let_def split: http_reply.splits)
    have err: "masked_keys q xs \<noteq> I_error e" for q xs e
      by (induction q xs rule: masked_keys.induct) (auto split: option.splits bool.splits infisical_result.splits)
    have "clean [(Req_secrets path, reply)]" if "r = I_error e" for e
      using that err unfolding r by (auto simp: clean_def split: http_reply.splits if_splits option.splits)
    moreover have "clean [(Req_secrets path, reply)] \<and> answered [(Req_secrets path, reply)] path ks" if "r = I_ok ks" for ks
      using that unfolding r
      by (auto simp: clean_def answered_def answer_keys_def masked_keys_ok split: http_reply.splits if_splits option.splits)
    ultimately show ?thesis
      using n log by (intro exI [of _ "new @ [(Req_secrets path, reply)]"]) (auto intro: answered_later)
  qed
qed

lemma list_folder_names_log:
  assumes "list_folder_names w st path = (st1, r)"
  shows "\<exists>new. is_log st1 = is_log st @ new \<and> length new \<le> 2 \<and> clean new"
proof -
  obtain st0 a where a: "access_token w st = (st0, a)" by (metis surj_pair)
  obtain new where n: "is_log st0 = is_log st @ new" "length new \<le> 1" "clean new"
    using access_token_log [OF a] by blast
  show ?thesis
  proof (cases "\<exists>u. a = I_ok u")
    case False
    then have "st1 = st0" using assms a by (auto simp: list_folder_names_def split: infisical_result.splits)
    then show ?thesis using n by (intro exI [of _ new]) auto
  next
    case True
    then have "is_log st1 = is_log st @ new @ [(Req_folders path, iw_reply w (is_log st0) (Req_folders path))]"
      using assms a n(1) by (auto simp: list_folder_names_def send_request_def Let_def split: http_reply.splits)
    then show ?thesis
      using n by (intro exI [of _ "new @ [(Req_folders path, iw_reply w (is_log st0) (Req_folders path))]"]) simp
  qed
qed

text \<open>What a turn adds to the log, and where the names it holds come from.\<close>

definition grown :: "infisical_state \<Rightarrow> infisical_state \<Rightarrow> nat \<Rightarrow> (infisical_log \<Rightarrow> bool) \<Rightarrow> bool" where
  "grown st st1 n P \<longleftrightarrow> (\<exists>new. is_log st1 = is_log st @ new \<and> length new \<le> n \<and> P new)"

definition names_from :: "tree \<Rightarrow> tree \<Rightarrow> infisical_log \<Rightarrow> bool" where
  "names_from out out1 new \<longleftrightarrow>
     clean new \<and> (\<forall>p ks. map_of (fst out1) p = Some ks \<longrightarrow> map_of (fst out) p = Some ks \<or> answered new p ks)"

lemma names_from_trans: "names_from a b x \<Longrightarrow> names_from b c y \<Longrightarrow> names_from a c (x @ y)"
  unfolding names_from_def by (metis answered_append answered_later clean_append)

lemma grown_trans:
  assumes "grown st st1 n P" "grown st1 st2 m Q" "\<And>x y. P x \<Longrightarrow> Q y \<Longrightarrow> R (x @ y)" "n + m \<le> k"
  shows "grown st st2 k R"
proof -
  obtain x y where "is_log st1 = is_log st @ x" "length x \<le> n" "P x"
    "is_log st2 = is_log st1 @ y" "length y \<le> m" "Q y" using assms(1,2) by (auto simp: grown_def)
  then show ?thesis unfolding grown_def using assms(3,4) by (intro exI [of _ "x @ y"]) auto
qed

lemma visit_log:
  assumes "visit w st current out = (st1, r)"
  shows "grown st st1 4 (\<lambda>new. \<forall>cs out1. r = I_ok (cs, out1) \<longrightarrow> names_from out out1 new)"
proof -
  obtain sta a where a: "list_secret_keys w st current = (sta, a)" by (metis surj_pair)
  obtain n1 where n1: "is_log sta = is_log st @ n1" "length n1 \<le> 2"
    "\<forall>e. a = I_error e \<longrightarrow> clean n1" "\<forall>ks. a = I_ok ks \<longrightarrow> clean n1 \<and> answered n1 current ks"
    using list_secret_keys_log [OF a] by blast
  show ?thesis
  proof (cases "\<exists>keys. a = I_ok keys")
    case False
    then have "st1 = sta" "\<forall>cs out1. r = I_ok (cs, out1) \<longrightarrow> names_from out out1 n1"
      using assms a n1(3) by (auto simp: visit_def names_from_def split: infisical_result.splits)
    then show ?thesis using n1 by (auto simp: grown_def)
  next
    case True
    then obtain keys where keys: "a = I_ok keys" by blast
    obtain stb b where b: "list_folder_names w sta current = (stb, b)" by (metis surj_pair)
    obtain n2 where n2: "is_log stb = is_log sta @ n2" "length n2 \<le> 2" "clean n2"
      using list_folder_names_log [OF b] by blast
    have "st1 = stb" using assms a b keys by (auto simp: visit_def Let_def split: infisical_result.splits)
    moreover have "names_from out out1 (n1 @ n2)" if "r = I_ok (cs, out1)" for cs out1
    proof -
      have "out1 = (if keys = [] then fst out else AList.update current keys (fst out), snd out)"
        using assms a b keys that by (auto simp: visit_def Let_def split: infisical_result.splits)
      then have "map_of (fst out1) p = Some ks \<Longrightarrow> map_of (fst out) p = Some ks \<or> answered n1 p ks" for p ks
        using n1(4) keys by (auto simp: update_conv' split: if_splits)
      then show ?thesis
        using n1(4) n2(3) keys unfolding names_from_def by (metis answered_append clean_append)
    qed
    ultimately show ?thesis using n1 n2 unfolding grown_def by (intro exI [of _ "n1 @ n2"]) auto
  qed
qed

lemma visit_no_error: "visit w st current out \<noteq> (st1, I_error e)"
  by (auto simp: visit_def Let_def split: prod.splits infisical_result.splits)

text \<open>The walk: the folders it still may visit bound its requests.\<close>

lemma walk_log:
  "walk w m st queue visited out = (st1, r) \<Longrightarrow>
     grown st st1 (4 * nat (m - visited)) (\<lambda>new. \<forall>tree. r = I_ok tree \<longrightarrow> names_from out tree new)"
proof (induction w m st queue visited out arbitrary: st1 r rule: walk.induct)
  case (1 w m st queue visited out)
  show ?case
  proof (cases "queue = [] \<or> \<not> visited < m")
    case True
    then have "st1 = st" "r = I_ok out"
      using "1.prems" by (auto simp: walk.simps [of w m st queue] split: list.splits)
    then show ?thesis by (auto simp: grown_def names_from_def)
  next
    case False
    then obtain current rest where q: "queue = current # rest" and v: "visited < m" by (cases queue) auto
    obtain sta a where a: "visit w st current out = (sta, a)" by (metis surj_pair)
    have less: "4 + 4 * nat (m - (visited + 1)) \<le> 4 * nat (m - visited)" using v by linarith
    show ?thesis
    proof (cases "\<exists>cs out1. a = I_ok (cs, out1)")
      case True
      then obtain cs out1 where ok: "a = I_ok (cs, out1)" by blast
      have w: "walk w m sta (rest @ cs) (visited + 1) out1 = (st1, r)"
        using "1.prems" v a ok unfolding q by (subst (asm) walk.simps) simp
      have step: "grown sta st1 (4 * nat (m - (visited + 1))) (\<lambda>new. \<forall>tree. r = I_ok tree \<longrightarrow> names_from out1 tree new)"
        using "1.IH" [OF q _ a [symmetric] ok refl w] v by simp
      show ?thesis
        by (rule grown_trans [OF visit_log [OF a] step _ less]) (use ok names_from_trans in blast)
    next
      case False
      then have "st1 = sta \<and> (\<forall>tree. r \<noteq> I_ok tree)"
        using "1.prems" v a unfolding q by (cases a) (subst (asm) walk.simps, force)+
      then show ?thesis using visit_log [OF a] less by (auto simp: grown_def)
    qed
  qed
qed

lemma tree_log:
  assumes "list_secret_tree w m root_path st = (st1, r)"
  shows "grown st st1 (4 * nat m) (\<lambda>new. \<forall>tree. r = I_ok tree \<longrightarrow>
    clean new \<and> (\<forall>p ks. map_of (fst tree) p = Some ks \<longrightarrow> answered new p ks))"
  using walk_log [OF assms [unfolded list_secret_tree_def]] by (auto simp: grown_def names_from_def)

section \<open>Properties\<close>



text \<open>An \<open>InfisicalError\<close> is to stand for a server that cannot be reached; the tool raises instead.\<close>

theorem unreachable_infisical_raises:
  assumes "infisical_client s" "iw_reply w = (\<lambda>lg r. Http_unreachable)" "is_token st = None"
    and "\<not> on s ''infisical_recursive_scan''"
  shows "fst (snd (infisical_status w send s st)) = Infisical_raised"
  using assms
  by (simp add: infisical_status_def Let_def list_secret_keys_def access_token_def valid_token_def login_def
      send_request_def split: infisical_result.splits)

section \<open>Witnesses\<close>

definition infisical_example :: settings where
  "infisical_example = with_values
     [(''infisical_enabled'', S_bool True), (''infisical_base_url'', S_text ''u''), (''infisical_client_id'', S_text ''i''),
      (''infisical_client_secret'', S_secret ''s''), (''infisical_project_id'', S_text ''p''),
      (''infisical_environment'', S_text ''e''), (''infisical_recursive_scan'', S_bool True), (''infisical_max_folders'', S_int 2)]"

definition example_infisical :: infisical_world where
  "example_infisical =
     \<lparr>iw_reply = (\<lambda>lg r. Http_reply 200 (Some (case r of
        Req_login \<Rightarrow> JObj [(''accessToken'', JStr ''t'')]
      | Req_secrets p \<Rightarrow> JObj [(''secrets'', JList [JObj [(''secretKey'', JStr ''K''),
          (''secretValueHidden'', JBool True), (''secretValue'', JStr [])]])]
      | Req_folders p \<Rightarrow> JObj [(''folders'', JList [JObj [(''name'', JStr ''a'')]])]))),
      iw_now = (\<lambda>lg. 0), iw_str = (\<lambda>j. [])\<rparr>"


end
