(* ===== verification/Dozzle.thy ===== *)
theory Dozzle
  imports Server PyJson RegistryInv WebhookCommon PatchGenerator
begin

text \<open>
  \<open>integrations/dozzle\<close>: the client's tool allowlist, the strict reader of a log response, the
  scrub and bounds of what is returned, and the match of a service to its container. JSON
  decoding, \<open>str\<close> of a JSON value that is no text and the MCP session are parameters.
\<close>

section \<open>The client\<close>

definition READ_ONLY_TOOLS :: "pystr list" where
  "READ_ONLY_TOOLS =
     [''list_containers'', ''get_container_logs'', ''search_container_logs'', ''list_hosts'', ''get_container_stats'']"

type_synonym tool_args = "(pystr \<times> json) list"

text \<open>A session's answer: the texts of the content parts that have one, and \<open>isError\<close>.\<close>

datatype session_reply = Session_failed | Session_content "pystr list" bool

datatype dozzle_error =
    Dz_not_allowed pystr
  | Dz_request_failed
  | Dz_tool_failed pystr pystr
  | Dz_no_content pystr
  | Dz_not_json pystr
  | Dz_line_not_json pystr
  | Dz_line_not_object pystr
  | Dz_unrecognized
  | Dz_not_a_list
  | Dz_bad_since int
  | Dz_bad_stream
  | Dz_bad_max int
  | Dz_empty_query
  | Dz_no_service

record dozzle_world =
  dz_session :: "pystr \<Rightarrow> tool_args \<Rightarrow> session_reply"
  dz_json :: "pystr \<Rightarrow> json option"
  dz_str :: "json \<Rightarrow> pystr"

type_synonym tool_calls = "(pystr \<times> tool_args) list"

text \<open>The calls that reach Dozzle, and the text or the error.\<close>

definition call_tool :: "dozzle_world \<Rightarrow> pystr \<Rightarrow> tool_args \<Rightarrow> tool_calls \<times> (dozzle_error + pystr)" where
  "call_tool w name args =
     (if name \<notin> set READ_ONLY_TOOLS then ([], Inl (Dz_not_allowed name))
      else ([(name, args)],
        case dz_session w name args of
          Session_failed \<Rightarrow> Inl Dz_request_failed
        | Session_content texts is_error \<Rightarrow>
            (let t = join [CHR 0x0A] texts in
             if is_error then Inl (Dz_tool_failed name t) else if t = [] then Inl (Dz_no_content name) else Inr t)))"

section \<open>Reading a log response\<close>

definition NO_LOGS :: pystr where
  "NO_LOGS = ''(no logs in the specified time range)''"

definition NEAR_UPSTREAM_LIMIT :: nat where
  "NEAR_UPSTREAM_LIMIT = 900000"

definition parse_json :: "dozzle_world \<Rightarrow> pystr \<Rightarrow> pystr \<Rightarrow> dozzle_error + json" where
  "parse_json w t what = (case dz_json w t of None \<Rightarrow> Inl (Dz_not_json what) | Some j \<Rightarrow> Inr j)"

text \<open>A text that is \<open>before\<close>, anything on one line, \<open>middle\<close>, digits and \<open>after\<close>: the number.\<close>

definition quoted_count :: "pystr \<Rightarrow> pystr \<Rightarrow> pystr \<Rightarrow> pystr \<Rightarrow> nat option" where
  "quoted_count before middle after s =
     (let body = drop (length before) s;
          front = take (length body - length after) body;
          digits = rev (takeWhile is_ascii_digit (rev front));
          quoted = take (length front - length digits) front
      in if starts_with s before \<and> ends_with body after \<and> digits \<noteq> [] \<and> ends_with quoted middle \<and>
            CHR 0x0A \<notin> set (take (length quoted - length middle) quoted)
         then Some (decimal_value 0 digits) else None)"

text \<open>\<open>_SEARCH_HEADER\<close> and \<open>_NO_MATCHES\<close> on a text without white space at its ends.\<close>

definition search_header :: "pystr \<Rightarrow> (nat \<times> nat) option" where
  "search_header line =
     (let body = drop 6 line; digits = takeWhile is_ascii_digit body in
      if starts_with line ''Found '' \<and> digits \<noteq> []
      then map_option (\<lambda>n. (decimal_value 0 digits, n))
             (quoted_count ('' matches for '' @ [CHR 0x22]) ([CHR 0x22] @ '' (scanned '') '' entries):'' (drop (length digits) body))
      else None)"

definition no_matches :: "pystr \<Rightarrow> nat option" where
  "no_matches s = quoted_count (''(no matches for '' @ [CHR 0x22]) ([CHR 0x22] @ '' in '') '' log entries scanned)'' s"

record parsed_logs =
  pl_entries :: "(pystr \<times> json) list list"
  pl_matches :: "nat option"
  pl_scanned :: nat
  pl_notes :: "pystr list"

type_synonym log_state = "(pystr \<times> json) list list \<times> (nat \<times> nat) option \<times> pystr list"

fun read_lines :: "dozzle_world \<Rightarrow> log_state \<Rightarrow> pystr list \<Rightarrow> dozzle_error + log_state" where
  "read_lines w st [] = Inr st"
| "read_lines w (entries, header, notes) (raw # lines) =
     (let line = strip raw in
      if line = [] then read_lines w (entries, header, notes) lines
      else case search_header line of
        Some h \<Rightarrow> read_lines w (entries, Some h, notes) lines
      | None \<Rightarrow>
          if starts_with line ''{'' then
            (case dz_json w line of
               None \<Rightarrow> Inl (Dz_line_not_json line)
             | Some (JObj e) \<Rightarrow> read_lines w (entries @ [e], header, notes) lines
             | Some j \<Rightarrow> Inl (Dz_line_not_object line))
          else read_lines w (entries, header, notes @ [line]) lines)"

definition parse_log_text :: "dozzle_world \<Rightarrow> pystr \<Rightarrow> dozzle_error + parsed_logs" where
  "parse_log_text w t =
     (let stripped = strip t in
      if stripped = NO_LOGS then Inr \<lparr>pl_entries = [], pl_matches = None, pl_scanned = 0, pl_notes = []\<rparr>
      else case no_matches stripped of
        Some n \<Rightarrow> Inr \<lparr>pl_entries = [], pl_matches = Some 0, pl_scanned = n, pl_notes = []\<rparr>
      | None \<Rightarrow>
          (case read_lines w ([], None, []) (splitlines stripped) of
             Inl err \<Rightarrow> Inl err
           | Inr (entries, header, notes) \<Rightarrow>
               if entries = [] \<and> header = None then Inl Dz_unrecognized
               else Inr \<lparr>pl_entries = entries, pl_matches = map_option fst header,
                      pl_scanned = (case header of None \<Rightarrow> length entries | Some h \<Rightarrow> snd h), pl_notes = notes\<rparr>))"

section \<open>What is returned of it\<close>

text \<open>\<open>_scrub_value\<close>: every text inside, and whether any was changed.\<close>

fun scrub_value :: "json \<Rightarrow> json \<times> bool"
  and scrub_pairs :: "(pystr \<times> json) list \<Rightarrow> (pystr \<times> json) list \<times> bool"
  and scrub_items :: "json list \<Rightarrow> json list \<times> bool" where
  "scrub_value (JStr s) = (let (t, hit) = scrub_credentials s in (JStr t, hit))"
| "scrub_value (JObj kvs) = (let (out, hit) = scrub_pairs kvs in (JObj out, hit))"
| "scrub_value (JList xs) = (let (out, hit) = scrub_items xs in (JList out, hit))"
| "scrub_value j = (j, False)"
| "scrub_pairs [] = ([], False)"
| "scrub_pairs ((k, v) # kvs) =
     (let (w, h) = scrub_value v; (out, hit) = scrub_pairs kvs in ((k, w) # out, h \<or> hit))"
| "scrub_items [] = ([], False)"
| "scrub_items (v # vs) = (let (w, h) = scrub_value v; (out, hit) = scrub_items vs in (w # out, h \<or> hit))"

definition ENTRY_KEYS :: "pystr list" where
  "ENTRY_KEYS = [''timestamp'', ''level'', ''stream'', ''message'']"

definition field_or_null :: "(pystr \<times> json) list \<Rightarrow> pystr \<Rightarrow> json" where
  "field_or_null kvs k = (case map_of kvs k of None \<Rightarrow> JNull | Some v \<Rightarrow> v)"

definition shaped_entry :: "(pystr \<times> json) list \<Rightarrow> (pystr \<times> json) list" where
  "shaped_entry e =
     map (\<lambda>k. (k, if k = ''message'' then fst (scrub_value (field_or_null e k)) else field_or_null e k)) ENTRY_KEYS"

text \<open>\<open>str\<close> of a value that may be missing.\<close>

definition text_or_none :: "dozzle_world \<Rightarrow> json option \<Rightarrow> pystr" where
  "text_or_none w v =
     (case v of None \<Rightarrow> ''None'' | Some JNull \<Rightarrow> ''None'' | Some (JStr s) \<Rightarrow> s | Some j \<Rightarrow> dz_str w j)"

definition at_level :: "dozzle_world \<Rightarrow> pystr \<Rightarrow> (pystr \<times> json) list \<Rightarrow> bool" where
  "at_level w level e \<longleftrightarrow>
     lower (case map_of e ''level'' of None \<Rightarrow> [] | Some v \<Rightarrow> text_or_none w (Some v)) = lower level"

record log_result =
  lr_host :: pystr
  lr_container :: pystr
  lr_entries :: "(pystr \<times> json) list list"
  lr_returned :: nat
  lr_scanned :: nat
  lr_omitted :: nat
  lr_scrubbed :: nat
  lr_truncated :: bool
  lr_matches :: "nat option"

definition newest :: "nat \<Rightarrow> 'a list \<Rightarrow> 'a list" where
  "newest n xs = drop (length xs - n) xs"

definition shape_logs ::
  "dozzle_world \<Rightarrow> pystr \<Rightarrow> pystr option \<Rightarrow> nat \<Rightarrow> pystr \<Rightarrow> pystr \<Rightarrow> dozzle_error + log_result" where
  "shape_logs w t level max_entries host container_id =
     (case parse_log_text w t of
        Inl err \<Rightarrow> Inl err
      | Inr p \<Rightarrow>
          (let matched = (if truthy level then filter (at_level w (the level)) (pl_entries p) else pl_entries p);
               kept = newest max_entries matched
           in Inr \<lparr>lr_host = host, lr_container = container_id, lr_entries = map shaped_entry kept,
                 lr_returned = length kept, lr_scanned = pl_scanned p, lr_omitted = length matched - length kept,
                 lr_scrubbed = length (filter (\<lambda>e. snd (scrub_value (field_or_null e ''message''))) kept),
                 lr_truncated = (list_ex (\<lambda>n. contains (lower n) ''trunc'') (pl_notes p) \<or> NEAR_UPSTREAM_LIMIT \<le> length t),
                 lr_matches = pl_matches p\<rparr>))"

definition STREAMS :: "pystr list" where
  "STREAMS = [''stdout'', ''stderr'', ''all'']"

definition bounds :: "settings \<Rightarrow> int \<Rightarrow> pystr \<Rightarrow> int option \<Rightarrow> dozzle_error + int \<times> pystr \<times> nat" where
  "bounds s since stream max_entries =
     (let most = int_of s ''dozzle_mcp_max_since_minutes''; cap = int_of s ''dozzle_mcp_max_log_entries'';
          wanted = (case max_entries of None \<Rightarrow> cap | Some m \<Rightarrow> m)
      in if \<not> (1 \<le> since \<and> since \<le> most) then Inl (Dz_bad_since most)
         else if stream \<notin> set STREAMS then Inl Dz_bad_stream
         else if \<not> (1 \<le> wanted \<and> wanted \<le> cap) then Inl (Dz_bad_max cap)
         else Inr (since, stream, nat wanted))"

section \<open>The tools\<close>

datatype dozzle_answer =
    Dz_error dozzle_error
  | Dz_json json
  | Dz_containers "json list"
  | Dz_logs log_result
  | Dz_stats pystr pystr json
  | Dz_service_logs pystr "(pystr \<times> json) list" log_result
  | Dz_candidates pystr "(pystr \<times> json) list list"

definition list_hosts :: "dozzle_world \<Rightarrow> tool_calls \<times> dozzle_answer" where
  "list_hosts w =
     (case call_tool w ''list_hosts'' [] of
        (tr, Inl err) \<Rightarrow> (tr, Dz_error err)
      | (tr, Inr t) \<Rightarrow> (tr, case parse_json w t ''host list'' of Inl err \<Rightarrow> Dz_error err | Inr j \<Rightarrow> Dz_json j))"

definition LABEL_ALLOWLIST :: "pystr list" where
  "LABEL_ALLOWLIST =
     [''com.docker.compose.project'', ''com.docker.compose.service'', ''com.docker.compose.project.working_dir'']"

definition VIEW_KEYS :: "pystr list" where
  "VIEW_KEYS = [''id'', ''name'', ''image'', ''state'', ''health'', ''host'', ''created'', ''group'']"

definition container_view :: "(pystr \<times> json) list \<Rightarrow> json" where
  "container_view raw =
     JObj (map (\<lambda>k. (k, field_or_null raw k)) VIEW_KEYS @
       [(''labels'', JObj (case map_of raw ''labels'' of
          Some (JObj labels) \<Rightarrow>
            List.map_filter (\<lambda>k. map_option (Pair k) (map_of labels k)) LABEL_ALLOWLIST
        | _ \<Rightarrow> []))])"

definition objects :: "json list \<Rightarrow> (pystr \<times> json) list list" where
  "objects xs = List.map_filter (\<lambda>j. case j of JObj kvs \<Rightarrow> Some kvs | _ \<Rightarrow> None) xs"

text \<open>The containers Dozzle lists, which must be a list.\<close>

definition raw_containers ::
  "dozzle_world \<Rightarrow> tool_args \<Rightarrow> tool_calls \<times> (dozzle_error + (pystr \<times> json) list list)" where
  "raw_containers w args =
     (case call_tool w ''list_containers'' args of
        (tr, Inl err) \<Rightarrow> (tr, Inl err)
      | (tr, Inr t) \<Rightarrow>
          (tr, case parse_json w t ''container list'' of
                 Inl err \<Rightarrow> Inl err
               | Inr (JList xs) \<Rightarrow> Inr (objects xs)
               | Inr j \<Rightarrow> Inl Dz_not_a_list))"

definition list_containers :: "dozzle_world \<Rightarrow> pystr option \<Rightarrow> pystr option \<Rightarrow> tool_calls \<times> dozzle_answer" where
  "list_containers w state host =
     (case raw_containers w (if truthy state then [(''state'', JStr (the state))] else []) of
        (tr, Inl err) \<Rightarrow> (tr, Dz_error err)
      | (tr, Inr cs) \<Rightarrow>
          (tr, Dz_containers (map container_view
             (if truthy host then filter (\<lambda>c. field_or_null c ''host'' = JStr (the host)) cs else cs))))"

definition logs ::
  "dozzle_world \<Rightarrow> pystr \<Rightarrow> pystr \<Rightarrow> pystr \<Rightarrow> tool_args \<Rightarrow> pystr option \<Rightarrow> nat \<Rightarrow> tool_calls \<times> (dozzle_error + log_result)" where
  "logs w tool host container_id args level max_entries =
     (case call_tool w tool ([(''host'', JStr host), (''container_id'', JStr container_id)] @ args) of
        (tr, Inl err) \<Rightarrow> (tr, Inl err)
      | (tr, Inr t) \<Rightarrow> (tr, shape_logs w t level max_entries host container_id))"

definition log_answer :: "dozzle_error + log_result \<Rightarrow> dozzle_answer" where
  "log_answer r = (case r of Inl err \<Rightarrow> Dz_error err | Inr l \<Rightarrow> Dz_logs l)"

definition get_container_logs ::
  "dozzle_world \<Rightarrow> settings \<Rightarrow> pystr \<Rightarrow> pystr \<Rightarrow> int \<Rightarrow> pystr \<Rightarrow> pystr option \<Rightarrow> int option \<Rightarrow> tool_calls \<times> dozzle_answer" where
  "get_container_logs w s host container_id since stream level max_entries =
     (case bounds s since stream max_entries of
        Inl err \<Rightarrow> ([], Dz_error err)
      | Inr (m, st, wanted) \<Rightarrow>
          map_prod id log_answer (logs w ''get_container_logs'' host container_id
            [(''since_minutes'', JInt m), (''stream'', JStr st)] level wanted))"

definition search_container_logs ::
  "dozzle_world \<Rightarrow> settings \<Rightarrow> pystr \<Rightarrow> pystr \<Rightarrow> pystr \<Rightarrow> int \<Rightarrow> pystr \<Rightarrow> bool \<Rightarrow> int option \<Rightarrow>
     tool_calls \<times> dozzle_answer" where
  "search_container_logs w s host container_id query since stream case_sensitive max_entries =
     (if strip query = [] then ([], Dz_error Dz_empty_query)
      else case bounds s since stream max_entries of
        Inl err \<Rightarrow> ([], Dz_error err)
      | Inr (m, st, wanted) \<Rightarrow>
          map_prod id log_answer (logs w ''search_container_logs'' host container_id
            [(''query'', JStr query), (''since_minutes'', JInt m), (''stream'', JStr st),
             (''case_sensitive'', JBool case_sensitive)] None wanted))"

definition get_container_stats :: "dozzle_world \<Rightarrow> pystr \<Rightarrow> pystr \<Rightarrow> tool_calls \<times> dozzle_answer" where
  "get_container_stats w host container_id =
     (case call_tool w ''get_container_stats'' [(''host'', JStr host), (''container_id'', JStr container_id)] of
        (tr, Inl err) \<Rightarrow> (tr, Dz_error err)
      | (tr, Inr t) \<Rightarrow>
          (tr, case parse_json w t ''stats'' of Inl err \<Rightarrow> Dz_error err | Inr j \<Rightarrow> Dz_stats host container_id j))"

section \<open>The logs of a service\<close>

definition labels_of :: "(pystr \<times> json) list \<Rightarrow> (pystr \<times> json) list option" where
  "labels_of c = (case map_of c ''labels'' of Some (JObj labels) \<Rightarrow> Some labels | _ \<Rightarrow> None)"

definition by_compose :: "pystr \<Rightarrow> (pystr \<times> json) list \<Rightarrow> bool" where
  "by_compose name c =
     (case labels_of c of None \<Rightarrow> False | Some labels \<Rightarrow> map_of labels ''com.docker.compose.service'' = Some (JStr name))"

definition by_name :: "dozzle_world \<Rightarrow> pystr \<Rightarrow> (pystr \<times> json) list \<Rightarrow> bool" where
  "by_name w name c \<longleftrightarrow>
     lstrip_by (\<lambda>x. x = CHR ''/'') (case map_of c ''name'' of None \<Rightarrow> [] | Some v \<Rightarrow> text_or_none w (Some v)) = name"

definition by_router :: "pystr \<Rightarrow> (pystr \<times> json) list \<Rightarrow> bool" where
  "by_router router c \<longleftrightarrow>
     router \<noteq> [] \<and>
     (case labels_of c of
        None \<Rightarrow> False
      | Some labels \<Rightarrow> list_ex (\<lambda>kv. starts_with (fst kv) (''traefik.http.routers.'' @ router @ ''.'')) labels)"

fun first_matches :: "('a \<Rightarrow> bool) list \<Rightarrow> 'a list \<Rightarrow> 'a list" where
  "first_matches [] xs = []"
| "first_matches (rule # rules) xs =
     (if filter rule xs \<noteq> [] then filter rule xs else first_matches rules xs)"

definition SUMMARY_KEYS :: "pystr list" where
  "SUMMARY_KEYS = [''id'', ''name'', ''host'', ''state'', ''image'']"

definition container_summary :: "(pystr \<times> json) list \<Rightarrow> (pystr \<times> json) list" where
  "container_summary c = map (\<lambda>k. (k, field_or_null c k)) SUMMARY_KEYS"

definition service_matches :: "dozzle_world \<Rightarrow> service \<Rightarrow> (pystr \<times> json) list list \<Rightarrow> (pystr \<times> json) list list" where
  "service_matches w sv cs =
     (let router = hd (split_at_char (CHR ''@'') (case svc_traefik_router sv of None \<Rightarrow> [] | Some r \<Rightarrow> r))
      in first_matches [by_compose (svc_name sv), by_name w (svc_name sv), by_router router] cs)"

definition get_service_logs ::
  "dozzle_world \<Rightarrow> settings \<Rightarrow> registry \<Rightarrow> pystr \<Rightarrow> int \<Rightarrow> pystr option \<Rightarrow> int option \<Rightarrow> tool_calls \<times> dozzle_answer" where
  "get_service_logs w s rg service_id since level max_entries =
     (case get_service service_id rg of
        None \<Rightarrow> ([], Dz_error Dz_no_service)
      | Some sv \<Rightarrow>
          (case bounds s since ''all'' max_entries of
             Inl err \<Rightarrow> ([], Dz_error err)
           | Inr (m, st, wanted) \<Rightarrow>
               (case raw_containers w [] of
                  (tr, Inl err) \<Rightarrow> (tr, Dz_error err)
                | (tr, Inr cs) \<Rightarrow>
                    (case service_matches w sv cs of
                       [c] \<Rightarrow>
                         (case logs w ''get_container_logs'' (text_or_none w (map_of c ''host''))
                                 (text_or_none w (map_of c ''id''))
                                 [(''since_minutes'', JInt m), (''stream'', JStr ''all'')] level wanted of
                            (tr1, Inl err) \<Rightarrow> (tr @ tr1, Dz_error err)
                          | (tr1, Inr l) \<Rightarrow> (tr @ tr1, Dz_service_logs (svc_name sv) (container_summary c) l))
                     | cs1 \<Rightarrow> (tr, Dz_candidates (svc_name sv) (map container_summary cs1))))))"

section \<open>Lemmas\<close>

lemma call_tool_allowed: "(name, args) \<in> set (fst (call_tool w tool a)) \<Longrightarrow> name \<in> set READ_ONLY_TOOLS"
  by (auto simp: call_tool_def split: if_splits)

lemma newest_suffix: "\<exists>old. xs = old @ newest n xs \<and> length (newest n xs) = min n (length xs)"
  by (intro exI [of _ "take (length xs - n) xs"]) (auto simp: newest_def)

lemma bounds_ok:
  "bounds s since stream m = Inr (since1, st, wanted) \<Longrightarrow>
     1 \<le> wanted \<and> int wanted \<le> int_of s ''dozzle_mcp_max_log_entries'' \<and> since1 = since \<and> 1 \<le> since \<and>
     since \<le> int_of s ''dozzle_mcp_max_since_minutes''"
  by (auto simp: bounds_def Let_def split: if_splits option.splits)

text \<open>Every text inside a value, in order: the scrub changes each of them and nothing else.\<close>

fun texts_in :: "json \<Rightarrow> pystr list"
  and texts_in_pairs :: "(pystr \<times> json) list \<Rightarrow> pystr list"
  and texts_in_items :: "json list \<Rightarrow> pystr list" where
  "texts_in (JStr s) = [s]"
| "texts_in (JObj kvs) = texts_in_pairs kvs"
| "texts_in (JList xs) = texts_in_items xs"
| "texts_in j = []"
| "texts_in_pairs [] = []"
| "texts_in_pairs ((k, v) # kvs) = texts_in v @ texts_in_pairs kvs"
| "texts_in_items [] = []"
| "texts_in_items (v # vs) = texts_in v @ texts_in_items vs"

lemma scrub_texts:
  "texts_in (fst (scrub_value j)) = map (fst \<circ> scrub_credentials) (texts_in j) \<and>
     snd (scrub_value j) = list_ex (snd \<circ> scrub_credentials) (texts_in j)"
  "texts_in_pairs (fst (scrub_pairs kvs)) = map (fst \<circ> scrub_credentials) (texts_in_pairs kvs) \<and>
     snd (scrub_pairs kvs) = list_ex (snd \<circ> scrub_credentials) (texts_in_pairs kvs) \<and>
     map fst (fst (scrub_pairs kvs)) = map fst kvs"
  "texts_in_items (fst (scrub_items xs)) = map (fst \<circ> scrub_credentials) (texts_in_items xs) \<and>
     snd (scrub_items xs) = list_ex (snd \<circ> scrub_credentials) (texts_in_items xs)"
  by (induction j and kvs and xs rule: texts_in_texts_in_pairs_texts_in_items.induct)
    (auto simp: case_prod_beta Let_def)

lemma shape_logs_parts:
  assumes "shape_logs w t level n host cid = Inr l"
  shows "\<exists>p matched. parse_log_text w t = Inr p \<and> set matched \<subseteq> set (pl_entries p) \<and>
    lr_entries l = map shaped_entry (newest n matched) \<and> lr_returned l = length (lr_entries l) \<and>
    lr_returned l \<le> n \<and> lr_returned l + lr_omitted l = length matched \<and> lr_host l = host \<and> lr_container l = cid \<and>
    matched = (if truthy level then filter (at_level w (the level)) (pl_entries p) else pl_entries p)"
  using assms by (auto simp: shape_logs_def Let_def newest_def split: sum.splits)

lemma logs_parts:
  assumes "logs w tool host cid args level n = (tr, Inr l)"
  shows "\<exists>t. tr = [(tool, [(''host'', JStr host), (''container_id'', JStr cid)] @ args)] \<and> tool \<in> set READ_ONLY_TOOLS \<and>
    shape_logs w t level n host cid = Inr l \<and>
    (\<exists>texts. dz_session w tool (snd (hd tr)) = Session_content texts False \<and> t = join [CHR 0x0A] texts)"
  using assms by (auto simp: logs_def call_tool_def Let_def split: if_splits prod.splits sum.splits session_reply.splits)

lemma log_answer_logs: "log_answer r = Dz_logs l \<longleftrightarrow> r = Inr l"
  by (auto simp: log_answer_def split: sum.splits)

lemma first_matches_single:
  "first_matches [p, q, r] xs = [c] \<longleftrightarrow>
     filter p xs = [c] \<or> filter p xs = [] \<and> (filter q xs = [c] \<or> filter q xs = [] \<and> filter r xs = [c])"
  by auto

section \<open>Properties\<close>

text \<open>
  A log answer is bounded and scrubbed: it took one read-only call within the limits of the
  settings, it holds at most the wanted number of entries, the newest of those that match, with
  the rest counted, and of each entry only four fields, the message with every text in it, however
  deep, put through the credential scrub.
\<close>
theorem log_answers_bounded:
  assumes "get_container_logs w s host cid since stream level m = (tr, Dz_logs l)"
  shows "\<exists>texts p matched old. tr = [(''get_container_logs'', [(''host'', JStr host), (''container_id'', JStr cid),
        (''since_minutes'', JInt since), (''stream'', JStr stream)])] \<and>
    dz_session w ''get_container_logs'' (snd (hd tr)) = Session_content texts False \<and>
    map_sum id pl_entries (parse_log_text w (join [CHR 0x0A] texts)) = Inr p \<and>
    since \<in> {1..int_of s ''dozzle_mcp_max_since_minutes''} \<and>
    int (lr_returned l) \<le> int_of s ''dozzle_mcp_max_log_entries'' \<and>
    matched = (if truthy level then filter (at_level w (the level)) p else p) \<and>
    (\<exists>kept. matched = old @ kept \<and> length old = lr_omitted l \<and> length kept = lr_returned l \<and>
       lr_entries l = map shaped_entry kept) \<and>
    (\<forall>e \<in> set (lr_entries l). map fst e = ENTRY_KEYS \<and>
       (\<exists>raw \<in> set p. texts_in (field_or_null e ''message'') =
          map (fst \<circ> scrub_credentials) (texts_in (field_or_null raw ''message''))))"
proof -
  obtain m1 st1 wanted where b: "bounds s since stream m = Inr (m1, st1, wanted)"
    and l: "logs w ''get_container_logs'' host cid [(''since_minutes'', JInt m1), (''stream'', JStr st1)] level wanted = (tr, Inr l)"
    using assms by (auto simp: get_container_logs_def log_answer_logs map_prod_def split: sum.splits prod.splits)
  have st: "st1 = stream" using b by (auto simp: bounds_def Let_def split: if_splits)
  note b1 = bounds_ok [OF b]
  obtain t where t: "tr = [(''get_container_logs'', [(''host'', JStr host), (''container_id'', JStr cid)] @
      [(''since_minutes'', JInt m1), (''stream'', JStr st1)])]" "shape_logs w t level wanted host cid = Inr l"
    and "\<exists>texts. dz_session w ''get_container_logs'' (snd (hd tr)) = Session_content texts False \<and> t = join [CHR 0x0A] texts"
    using logs_parts [OF l] by blast
  then obtain texts where texts: "dz_session w ''get_container_logs'' (snd (hd tr)) = Session_content texts False"
    "t = join [CHR 0x0A] texts" by blast
  obtain p matched where all: "parse_log_text w t = Inr p \<and> set matched \<subseteq> set (pl_entries p) \<and>
    lr_entries l = map shaped_entry (newest wanted matched) \<and> lr_returned l = length (lr_entries l) \<and>
    lr_returned l \<le> wanted \<and> lr_returned l + lr_omitted l = length matched \<and> lr_host l = host \<and> lr_container l = cid \<and>
    matched = (if truthy level then filter (at_level w (the level)) (pl_entries p) else pl_entries p)"
    using shape_logs_parts [OF t(2)] by (elim exE)
  then have p0: "parse_log_text w t = Inr p" and p: "lr_entries l = map shaped_entry (newest wanted matched)"
    "lr_returned l = length (lr_entries l)" "lr_returned l \<le> wanted" "lr_returned l + lr_omitted l = length matched"
    "matched = (if truthy level then filter (at_level w (the level)) (pl_entries p) else pl_entries p)"
    "set matched \<subseteq> set (pl_entries p)" by blast+
  obtain old where old: "matched = old @ newest wanted matched" using newest_suffix by blast
  have msg: "map fst (shaped_entry raw) = ENTRY_KEYS \<and> texts_in (field_or_null (shaped_entry raw) ''message'') =
      map (fst \<circ> scrub_credentials) (texts_in (field_or_null raw ''message''))" for raw
    using scrub_texts(1) by (simp add: shaped_entry_def ENTRY_KEYS_def field_or_null_def)
  have len: "length old + length (newest wanted matched) = length matched" using old by (metis length_append)
  have each: "\<forall>e \<in> set (lr_entries l). map fst e = ENTRY_KEYS \<and>
       (\<exists>raw \<in> set (pl_entries p). texts_in (field_or_null e ''message'') =
          map (fst \<circ> scrub_credentials) (texts_in (field_or_null raw ''message'')))"
  proof
    fix e assume "e \<in> set (lr_entries l)"
    then obtain raw where "raw \<in> set (newest wanted matched)" "e = shaped_entry raw" using p(1) by auto
    moreover from this have "raw \<in> set (pl_entries p)" using old p(6) by (metis UnCI set_append subsetD)
    ultimately show "map fst e = ENTRY_KEYS \<and> (\<exists>raw \<in> set (pl_entries p). texts_in (field_or_null e ''message'') =
          map (fst \<circ> scrub_credentials) (texts_in (field_or_null raw ''message'')))" using msg by blast
  qed
  have "int (lr_returned l) \<le> int_of s ''dozzle_mcp_max_log_entries''" using p(3) b1 by linarith
  moreover have "\<exists>kept. matched = old @ kept \<and> length old = lr_omitted l \<and> length kept = lr_returned l \<and>
       lr_entries l = map shaped_entry kept"
    using old p(1,2,4) len by (intro exI [of _ "newest wanted matched"]) simp
  ultimately show ?thesis
    using t(1) st b1 p0 p(5) each texts
    by (intro exI [of _ texts] exI [of _ "pl_entries p"] exI [of _ matched] exI [of _ old]) simp
qed


section \<open>Witnesses\<close>

definition example_dozzle :: dozzle_world where
  "example_dozzle =
     \<lparr>dz_session = (\<lambda>name args. Session_content [if name = ''list_containers'' then ''[]'' else ''{}''] False),
      dz_json = (\<lambda>t. if t = ''[]'' then Some (JList [JObj [(''id'', JStr ''i''), (''host'', JStr ''h''), (''name'', JStr ''/a'')]])
        else Some (JObj [(''message'', JStr ''m'')])),
      dz_str = (\<lambda>j. [])\<rparr>"

lemma example_bounds:
  "bounds (default_settings []) 5 ''all'' None = Inr (5, ''all'', 200)"
  "int_of (default_settings []) ''dozzle_mcp_max_log_entries'' = 200"
proof -
  show n: "int_of (default_settings []) ''dozzle_mcp_max_log_entries'' = 200" by code_simp
  have "int_of (default_settings []) ''dozzle_mcp_max_since_minutes'' = 1440" by code_simp
  with n show "bounds (default_settings []) 5 ''all'' None = Inr (5, ''all'', 200)" by (simp add: bounds_def STREAMS_def)
qed

lemma example_shaped:
  "shape_logs example_dozzle ''{}'' None 200 host cid = Inr
     \<lparr>lr_host = host, lr_container = cid, lr_entries = [shaped_entry [(''message'', JStr ''m'')]], lr_returned = 1,
      lr_scanned = 1, lr_omitted = 0,
      lr_scrubbed = length (filter (\<lambda>e. snd (scrub_value (field_or_null e ''message''))) [[(''message'', JStr ''m'')]]),
      lr_truncated = False, lr_matches = None\<rparr>"
proof -
  have "parse_log_text example_dozzle ''{}'' =
    Inr \<lparr>pl_entries = [[(''message'', JStr ''m'')]], pl_matches = None, pl_scanned = 1, pl_notes = []\<rparr>" by code_simp
  then show ?thesis by (simp add: shape_logs_def newest_def NEAR_UPSTREAM_LIMIT_def)
qed

lemma example_call:
  "call_tool example_dozzle ''get_container_logs'' args = ([(''get_container_logs'', args)], Inr ''{}'')"
  "call_tool example_dozzle ''list_containers'' args = ([(''list_containers'', args)], Inr ''[]'')"
  by (simp_all add: call_tool_def READ_ONLY_TOOLS_def example_dozzle_def Let_def)

theorem log_answers_bounded_witness:
  "\<exists>tr l. get_container_logs example_dozzle (default_settings []) ''h'' ''i'' 5 ''all'' None None = (tr, Dz_logs l) \<and>
     lr_returned l = 1 \<and> int (lr_returned l) \<le> int_of (default_settings []) ''dozzle_mcp_max_log_entries''"
proof -
  obtain tr l where r: "get_container_logs example_dozzle (default_settings []) ''h'' ''i'' 5 ''all'' None None = (tr, Dz_logs l)"
    "lr_returned l = 1"
    by (simp add: get_container_logs_def example_bounds logs_def example_call example_shaped log_answer_def)
  with log_answers_bounded [OF r(1)] show ?thesis by auto
qed

definition dozzle_registry :: registry where
  "dozzle_registry = empty_registry\<lparr>rg_services := [new_service ''x'' ''a'' ''A'' 0]\<rparr>"


end
