(* ===== verification/Reasoner.thy ===== *)
theory Reasoner
  imports Server
begin

text \<open>
  The reasoning layer, \<open>src/src/registry_mcp/dspy/reasoner.py\<close>, with the fields of
  \<open>dspy/signatures.py\<close>. A \<open>Reasoner\<close> is its settings, whether it is set up, and the nine
  modules with the language model each is bound to. DSPy is the parameter \<open>dspy_library\<close>
  (whether it imports, which compiled files exist and what loading one does to a module)
  and an oracle for the answers. An operation returns the exception it lets escape, or its
  value. A float is the rational it denotes, an infinity or \<open>nan\<close>.
\<close>

section \<open>Python values of a prediction\<close>

datatype pyfloat = Finite rat | Infinite bool | NaN

fun float_less :: "pyfloat \<Rightarrow> pyfloat \<Rightarrow> bool" where
  "float_less NaN y = False"
| "float_less x NaN = False"
| "float_less (Finite p) (Finite q) = (p < q)"
| "float_less (Finite p) (Infinite b) = b"
| "float_less (Infinite a) (Finite q) = (\<not> a)"
| "float_less (Infinite a) (Infinite b) = (\<not> a \<and> b)"

datatype pyval =
    V_none
  | V_bool bool
  | V_int int
  | V_float pyfloat
  | V_text pystr
  | V_list "pyval list"
  | V_dict "(pystr \<times> pyval) list"

fun falsy :: "pyval \<Rightarrow> bool" where
  "falsy V_none = True"
| "falsy (V_bool b) = (\<not> b)"
| "falsy (V_int i) = (i = 0)"
| "falsy (V_float x) = (x = Finite 0)"
| "falsy (V_text t) = (t = [])"
| "falsy (V_list vs) = (vs = [])"
| "falsy (V_dict kvs) = (kvs = [])"

datatype raised = Overflow_error | Attribute_error | Type_error

fun and_then :: "'e + 'a \<Rightarrow> ('a \<Rightarrow> 'e + 'b) \<Rightarrow> 'e + 'b" where
  "and_then (Inl e) f = Inl e"
| "and_then (Inr x) f = f x"

section \<open>Numbers\<close>

text \<open>The least magnitude that rounds beyond the largest double.\<close>

definition FLOAT_LIMIT :: rat where
  "FLOAT_LIMIT = 2 ^ 1024 - 2 ^ 970"

text \<open>
  \<open>float\<close> of a text: blanks around it, a sign, a special name, or decimal digits with a
  point and an exponent, single underscores between digits.
\<close>

fun underscores_ok :: "bool \<Rightarrow> pystr \<Rightarrow> bool" where
  "underscores_ok digit [] = True"
| "underscores_ok digit (c # s) =
     (if c = CHR ''_'' then digit \<and> s \<noteq> [] \<and> is_ascii_digit (hd s) \<and> underscores_ok False s
      else underscores_ok (is_ascii_digit c) s)"

definition exponent :: "pystr \<Rightarrow> int option" where
  "exponent s =
     (if s = [] then Some 0
      else if lower_char (hd s) \<noteq> CHR ''e'' then None
      else let t = tl s;
               ds = (if starts_with t ''-'' \<or> starts_with t ''+'' then tl t else t)
           in if ds = [] \<or> \<not> list_all is_ascii_digit ds then None
              else Some ((if starts_with t ''-'' then -1 else 1) * int (digits_value 0 ds)))"

definition decimal :: "pystr \<Rightarrow> rat option" where
  "decimal s =
     (let whole = takeWhile is_ascii_digit s;
          r = dropWhile is_ascii_digit s;
          frac = (if starts_with r ''.'' then takeWhile is_ascii_digit (tl r) else []);
          e = (if starts_with r ''.'' then dropWhile is_ascii_digit (tl r) else r)
      in if whole @ frac = [] then None
         else map_option (\<lambda>x. let m = of_nat (digits_value 0 (whole @ frac)); p = x - int (length frac)
                               in if 0 \<le> p then m * 10 ^ nat p else m / 10 ^ nat (- p))
                (exponent e))"

definition rounded :: "rat \<Rightarrow> pyfloat" where
  "rounded q = (if FLOAT_LIMIT \<le> q then Infinite True else if q \<le> - FLOAT_LIMIT then Infinite False else Finite q)"

definition float_of_text :: "pystr \<Rightarrow> pyfloat option" where
  "float_of_text text =
     (let t = strip text;
          neg = starts_with t ''-'';
          body = (if neg \<or> starts_with t ''+'' then tl t else t)
      in if lower body \<in> {''inf'', ''infinity''} then Some (Infinite (\<not> neg))
         else if lower body = ''nan'' then Some NaN
         else if \<not> underscores_ok False body then None
         else map_option (\<lambda>q. rounded (if neg then - q else q))
                (decimal (filter (\<lambda>c. c \<noteq> CHR ''_'') body)))"

text \<open>\<open>_as_float\<close> and \<open>_as_int\<close>: only \<open>TypeError\<close> and \<open>ValueError\<close> are caught.\<close>

fun as_float :: "pyval \<Rightarrow> raised + pyfloat" where
  "as_float (V_float x) = Inr x"
| "as_float (V_bool b) = Inr (Finite (if b then 1 else 0))"
| "as_float (V_int i) =
     (if FLOAT_LIMIT \<le> \<bar>of_int i\<bar> then Inl Overflow_error else Inr (Finite (of_int i)))"
| "as_float (V_text t) = Inr (case float_of_text t of None \<Rightarrow> Finite 0 | Some x \<Rightarrow> x)"
| "as_float v = Inr (Finite 0)"

fun as_int :: "pyval \<Rightarrow> raised + int" where
  "as_int (V_int i) = Inr i"
| "as_int (V_bool b) = Inr (if b then 1 else 0)"
| "as_int (V_float (Finite q)) = Inr (if 0 \<le> q then \<lfloor>q\<rfloor> else - \<lfloor>- q\<rfloor>)"
| "as_int (V_float (Infinite b)) = Inl Overflow_error"
| "as_int (V_float NaN) = Inr 0"
| "as_int (V_text t) = Inr (case py_int t of None \<Rightarrow> 0 | Some i \<Rightarrow> i)"
| "as_int v = Inr 0"

section \<open>Reading a prediction\<close>

type_synonym prediction = "pystr \<Rightarrow> pyval option"

definition attr :: "prediction \<Rightarrow> pystr \<Rightarrow> pyval \<Rightarrow> pyval" where
  "attr pred name d = (case pred name of None \<Rightarrow> d | Some v \<Rightarrow> v)"

text \<open>\<open>getattr(pred, name, "") or ""\<close>.\<close>

definition attr_or :: "prediction \<Rightarrow> pystr \<Rightarrow> pyval" where
  "attr_or pred name = (let v = attr pred name (V_text []) in if falsy v then V_text [] else v)"

definition stripped :: "prediction \<Rightarrow> pystr \<Rightarrow> raised + pystr" where
  "stripped pred name = (case attr_or pred name of V_text t \<Rightarrow> Inr (strip t) | _ \<Rightarrow> Inl Attribute_error)"

definition conf_of :: "prediction \<Rightarrow> raised + pyfloat" where
  "conf_of pred = as_float (attr pred ''confidence'' (V_float (Finite 0)))"

text \<open>\<open>list(getattr(pred, name, []) or [])\<close>.\<close>

definition listed_attr :: "prediction \<Rightarrow> pystr \<Rightarrow> raised + pyval list" where
  "listed_attr pred name =
     (let v = attr pred name (V_list [])
      in if falsy v then Inr []
         else case v of
           V_list vs \<Rightarrow> Inr vs
         | V_text t \<Rightarrow> Inr (map (\<lambda>c. V_text [c]) t)
         | V_dict kvs \<Rightarrow> Inr (map (\<lambda>kv. V_text (fst kv)) kvs)
         | _ \<Rightarrow> Inl Type_error)"

text \<open>\<open>_coerce_enum\<close>: a value that is no text prints as none of the members.\<close>

definition coerce_enum :: "('c \<Rightarrow> pystr) \<Rightarrow> 'c list \<Rightarrow> pyval \<Rightarrow> 'c option" where
  "coerce_enum value_of members v =
     (case v of V_text t \<Rightarrow> find (\<lambda>c. value_of c = lower (strip t)) members | _ \<Rightarrow> None)"

definition CATEGORIES :: "category list" where
  "CATEGORIES = [Category_infra, Category_app, Category_media, Category_monitoring, Category_security, Category_other]"

definition AUTH_MODES :: "auth_mode list" where
  "AUTH_MODES = [AuthMode_none, AuthMode_forward_auth, AuthMode_oauth2_proxy, AuthMode_oauth2_oidc,
     AuthMode_basic, AuthMode_internal, AuthMode_unknown]"

section \<open>The signatures\<close>

datatype field_type = T_text | T_float | T_int | T_dict | T_list | T_texts

fun is_text :: "pyval \<Rightarrow> bool" where
  "is_text (V_text t) = True"
| "is_text v = False"

fun has_type :: "field_type \<Rightarrow> pyval \<Rightarrow> bool" where
  "has_type T_text v = is_text v"
| "has_type T_float (V_float x) = True"
| "has_type T_int (V_int i) = True"
| "has_type T_dict (V_dict kvs) = True"
| "has_type T_list (V_list vs) = True"
| "has_type T_texts (V_list vs) = list_all is_text vs"
| "has_type ty v = False"

record signature =
  sg_inputs :: "(pystr \<times> field_type) list"
  sg_outputs :: "(pystr \<times> field_type) list"

definition ResolveServiceIdentity :: signature where
  "ResolveServiceIdentity =
     \<lparr>sg_inputs = [(''candidate'', T_dict), (''existing_services'', T_list)],
      sg_outputs = [(''matched_name'', T_text), (''confidence'', T_float), (''reasoning'', T_text)]\<rparr>"

definition InferServiceMetadata :: signature where
  "InferServiceMetadata =
     \<lparr>sg_inputs = [(''router_rule'', T_text), (''middlewares'', T_texts), (''service_name'', T_text)],
      sg_outputs = [(''display_name'', T_text), (''category'', T_text), (''auth_mode'', T_text),
        (''notes'', T_text), (''confidence'', T_float)]\<rparr>"

definition InferServiceRequirements :: signature where
  "InferServiceRequirements =
     \<lparr>sg_inputs = [(''repo_url'', T_text), (''readme'', T_text), (''detected'', T_dict)],
      sg_outputs = [(''service_name'', T_text), (''summary'', T_text), (''category'', T_text),
        (''required_dependencies'', T_texts), (''operator_supplied_env_vars'', T_texts),
        (''confidence'', T_float), (''reasoning'', T_text)]\<rparr>"

definition GenerateServiceCompose :: signature where
  "GenerateServiceCompose =
     \<lparr>sg_inputs = [(''intake'', T_dict), (''homelab_conventions'', T_text), (''service_name'', T_text),
        (''target_node'', T_text)],
      sg_outputs = [(''compose_yaml'', T_text), (''confidence'', T_float), (''reasoning'', T_text)]\<rparr>"

definition GenerateRemediationPatch :: signature where
  "GenerateRemediationPatch =
     \<lparr>sg_inputs = [(''service'', T_dict), (''finding_type'', T_text), (''current_file'', T_text),
        (''file_path'', T_text), (''apply_mode'', T_text), (''existing_middlewares'', T_text),
        (''context'', T_text)],
      sg_outputs = [(''patch'', T_text), (''commit_message'', T_text), (''pr_title'', T_text),
        (''pr_body'', T_text), (''confidence'', T_float), (''reasoning'', T_text)]\<rparr>"

definition NormalizeConfigFile :: signature where
  "NormalizeConfigFile =
     \<lparr>sg_inputs = [(''current_file'', T_text), (''file_path'', T_text), (''violations'', T_text),
        (''canonical_form'', T_text)],
      sg_outputs = [(''normalized_file'', T_text), (''commit_message'', T_text), (''confidence'', T_float),
        (''reasoning'', T_text)]\<rparr>"

definition ApplyReviewFeedback :: signature where
  "ApplyReviewFeedback =
     \<lparr>sg_inputs = [(''file_path'', T_text), (''current_file'', T_text), (''feedback'', T_text)],
      sg_outputs = [(''revised_file'', T_text), (''commit_message'', T_text), (''confidence'', T_float),
        (''reasoning'', T_text)]\<rparr>"

definition DetectHardcodedSecrets :: signature where
  "DetectHardcodedSecrets =
     \<lparr>sg_inputs = [(''compose_content'', T_text), (''container_env'', T_dict), (''container_labels'', T_dict)],
      sg_outputs = [(''sanitized_compose'', T_text), (''detected_secret_keys'', T_texts),
        (''confidence'', T_float), (''reasoning'', T_text)]\<rparr>"

definition SummarizeAccessAudit :: signature where
  "SummarizeAccessAudit =
     \<lparr>sg_inputs = [(''application_slug'', T_text), (''events'', T_list), (''time_window_hours'', T_int)],
      sg_outputs = [(''summary'', T_text), (''anomalies'', T_texts), (''unique_users'', T_int),
        (''failed_auth_count'', T_int), (''risk_level'', T_text)]\<rparr>"

section \<open>Setting up\<close>

datatype module_id =
    M_resolve | M_infer | M_summarize | M_patch | M_revise | M_detect_secrets | M_normalize
  | M_infer_requirements | M_generate_compose

fun signature_of :: "module_id \<Rightarrow> signature" where
  "signature_of M_resolve = ResolveServiceIdentity"
| "signature_of M_infer = InferServiceMetadata"
| "signature_of M_summarize = SummarizeAccessAudit"
| "signature_of M_patch = GenerateRemediationPatch"
| "signature_of M_revise = ApplyReviewFeedback"
| "signature_of M_detect_secrets = DetectHardcodedSecrets"
| "signature_of M_normalize = NormalizeConfigFile"
| "signature_of M_infer_requirements = InferServiceRequirements"
| "signature_of M_generate_compose = GenerateServiceCompose"

record lm =
  lm_model :: pystr
  lm_key :: "pystr option"
  lm_max_tokens :: int

text \<open>A module: the language model it is bound to, and the compiled files loaded into it.\<close>

record chain_of_thought =
  ct_lm :: "lm option"
  ct_loaded :: "pystr list"

text \<open>
  DSPy and the file system: the error of \<open>import dspy\<close>, the files there are, and what
  \<open>module.load\<close> leaves of a module (it may replace the language model, even when it raises).
\<close>

record dspy_library =
  dl_import_error :: "pystr option"
  dl_exists :: "pystr \<Rightarrow> bool"
  dl_load :: "pystr \<Rightarrow> chain_of_thought \<Rightarrow> chain_of_thought"

record reasoning_layer =
  rs_settings :: settings
  rs_enabled :: bool
  rs_configured :: bool
  rs_module :: "module_id \<Rightarrow> chain_of_thought option"
  rs_patch_lm :: "lm option"

definition build_reasoner :: "settings \<Rightarrow> reasoning_layer" where
  "build_reasoner s =
     \<lparr>rs_settings = s, rs_enabled = on s ''dspy_enabled'', rs_configured = False, rs_module = (\<lambda>m. None),
      rs_patch_lm = None\<rparr>"

definition COMPILED_FILES :: "(module_id \<times> pystr) list" where
  "COMPILED_FILES =
     [(M_resolve, ''resolve_identity.json''), (M_infer, ''infer_metadata.json''),
      (M_summarize, ''summarize_access.json''), (M_patch, ''remediation_patch.json''),
      (M_revise, ''reasoner_apply_review_feedback.json''), (M_detect_secrets, ''detect_hardcoded_secrets.json''),
      (M_normalize, ''normalize_config.json''), (M_infer_requirements, ''infer_service_requirements.json''),
      (M_generate_compose, ''generate_service_compose.json'')]"

text \<open>\<open>os.path.join\<close> with a relative second part.\<close>

definition path_join :: "pystr \<Rightarrow> pystr \<Rightarrow> pystr" where
  "path_join path name = (if path = [] \<or> ends_with path ''/'' then path @ name else path @ ''/'' @ name)"

type_synonym modules = "module_id \<Rightarrow> chain_of_thought option"

definition load_one :: "dspy_library \<Rightarrow> pystr \<Rightarrow> module_id \<times> pystr \<Rightarrow> modules \<Rightarrow> modules" where
  "load_one d path mf ms =
     (let full = path_join path (snd mf)
      in if \<not> dl_exists d full then ms else ms (fst mf := map_option (dl_load d full) (ms (fst mf))))"

definition load_compiled :: "dspy_library \<Rightarrow> settings \<Rightarrow> modules \<Rightarrow> modules" where
  "load_compiled d s ms =
     (case opt_of s ''dspy_compiled_path'' of
        None \<Rightarrow> ms
      | Some path \<Rightarrow> if path = [] then ms else fold (load_one d path) COMPILED_FILES ms)"

definition set_lm :: "lm \<Rightarrow> module_id \<Rightarrow> modules \<Rightarrow> modules" where
  "set_lm l m ms = ms (m := map_option (ct_lm_update (\<lambda>_. Some l)) (ms m))"

definition SHORT_OUTPUT :: "module_id list" where
  "SHORT_OUTPUT = [M_resolve, M_infer, M_summarize, M_infer_requirements]"

definition WHOLE_FILE :: "module_id list" where
  "WHOLE_FILE = [M_patch, M_revise, M_detect_secrets, M_normalize, M_generate_compose]"

definition language_model :: "settings \<Rightarrow> pystr \<Rightarrow> lm" where
  "language_model s budget =
     \<lparr>lm_model = text_of s ''dspy_model'', lm_key = secret_of s ''dspy_api_key'', lm_max_tokens = int_of s budget\<rparr>"

text \<open>\<open>_ensure\<close>: the exception of the import, or \<open>None\<close>, with the reasoner after it.\<close>

definition ensure :: "dspy_library \<Rightarrow> reasoning_layer \<Rightarrow> pystr option \<times> reasoning_layer" where
  "ensure d r =
     (if rs_configured r then (None, r)
      else case dl_import_error d of
        Some e \<Rightarrow> (Some e, r)
      | None \<Rightarrow>
          (let s = rs_settings r;
               l = language_model s ''dspy_max_tokens'';
               patch_lm = language_model s ''dspy_patch_max_tokens'';
               ms = load_compiled d s (\<lambda>m. Some \<lparr>ct_lm = None, ct_loaded = []\<rparr>);
               ms1 = fold (set_lm l) SHORT_OUTPUT ms;
               ms2 = fold (set_lm patch_lm) WHOLE_FILE ms1
           in (None, r\<lparr>rs_patch_lm := Some patch_lm, rs_module := ms2, rs_configured := True\<rparr>)))"

text \<open>Calling a module: its exception's text, or a prediction. The answer is an oracle.\<close>

type_synonym lm_answers =
  "module_id \<Rightarrow> chain_of_thought \<Rightarrow> (pystr \<times> pyval) list \<Rightarrow> pystr + prediction"

definition consult ::
  "dspy_library \<Rightarrow> lm_answers \<Rightarrow> module_id \<Rightarrow> (pystr \<times> pyval) list \<Rightarrow> reasoning_layer \<Rightarrow>
     (pystr + prediction) \<times> reasoning_layer" where
  "consult d ask m inputs r =
     (case ensure d r of
        (Some e, r') \<Rightarrow> (Inl e, r')
      | (None, r') \<Rightarrow>
          (case rs_module r' m of
             None \<Rightarrow> (Inl ''TypeError: NoneType object is not callable'', r')
           | Some c \<Rightarrow> (ask m c inputs, r')))"

section \<open>The operations\<close>

definition threshold :: "reasoning_layer \<Rightarrow> pyfloat" where
  "threshold r = (case st_value (rs_settings r) ''dspy_confidence_threshold'' of S_float q \<Rightarrow> Finite q | _ \<Rightarrow> NaN)"

text \<open>\<open>e.get("name")\<close> of an entry, and what a set of such values may hold.\<close>

definition entry_name :: "(pystr \<times> pyval) list \<Rightarrow> pyval" where
  "entry_name e = (case map_of e ''name'' of None \<Rightarrow> V_none | Some v \<Rightarrow> v)"

fun hashable :: "pyval \<Rightarrow> bool" where
  "hashable (V_list vs) = False"
| "hashable (V_dict kvs) = False"
| "hashable v = True"

definition resolved :: "(pystr \<times> pyval) list list \<Rightarrow> pyfloat \<Rightarrow> prediction \<Rightarrow> raised + pystr option" where
  "resolved existing limit pred =
     and_then (stripped pred ''matched_name'') (\<lambda>name.
     and_then (conf_of pred) (\<lambda>conf.
       let valid = map entry_name existing in
       if \<not> list_all hashable valid then Inl Type_error
       else if name = [] \<or> V_text name \<notin> set valid \<or> float_less conf limit then Inr None
       else Inr (Some name)))"

definition resolve_identity ::
  "dspy_library \<Rightarrow> lm_answers \<Rightarrow> (pystr \<times> pyval) list \<Rightarrow> (pystr \<times> pyval) list list \<Rightarrow> reasoning_layer \<Rightarrow>
     (raised + pystr option) \<times> reasoning_layer" where
  "resolve_identity d ask candidate existing r =
     (if \<not> rs_enabled r \<or> existing = [] then (Inr None, r)
      else case consult d ask M_resolve
             [(''candidate'', V_dict candidate), (''existing_services'', V_list (map V_dict existing))] r of
        (Inl e, r') \<Rightarrow> (Inr None, r')
      | (Inr pred, r') \<Rightarrow> (resolved existing (threshold r') pred, r'))"

definition metadata_of :: "pyfloat \<Rightarrow> prediction \<Rightarrow> raised + enrichment option" where
  "metadata_of limit pred =
     and_then (conf_of pred) (\<lambda>conf.
       if float_less conf limit then Inr None
       else and_then (stripped pred ''display_name'') (\<lambda>display.
            and_then (stripped pred ''notes'') (\<lambda>notes.
              let out = \<lparr>en_display_name = (if display = [] then None else Some display),
                         en_category = coerce_enum category_value CATEGORIES (attr pred ''category'' V_none),
                         en_auth_mode = coerce_enum auth_mode_value AUTH_MODES (attr pred ''auth_mode'' V_none),
                         en_notes = notes\<rparr>
              in Inr (if out = no_enrichment then None else Some out))))"

definition infer_metadata ::
  "dspy_library \<Rightarrow> lm_answers \<Rightarrow> pystr \<Rightarrow> pystr list \<Rightarrow> pystr \<Rightarrow> reasoning_layer \<Rightarrow>
     (raised + enrichment option) \<times> reasoning_layer" where
  "infer_metadata d ask router_rule middlewares service_name r =
     (if \<not> rs_enabled r then (Inr None, r)
      else case consult d ask M_infer
             [(''router_rule'', V_text router_rule), (''middlewares'', V_list (map V_text middlewares)),
              (''service_name'', V_text service_name)] r of
        (Inl e, r') \<Rightarrow> (Inr None, r')
      | (Inr pred, r') \<Rightarrow> (metadata_of (threshold r') pred, r'))"

text \<open>The values of a report or of a module's answer, in the order they are read.\<close>

type_synonym reader = "prediction \<Rightarrow> raised + pyval"

definition kept_text :: "pystr \<Rightarrow> reader" where
  "kept_text name pred = Inr (attr_or pred name)"

definition stripped_text :: "pystr \<Rightarrow> reader" where
  "stripped_text name pred = and_then (stripped pred name) (\<lambda>t. Inr (V_text t))"

definition lowered_text :: "pystr \<Rightarrow> reader" where
  "lowered_text name pred = and_then (stripped pred name) (\<lambda>t. Inr (V_text (lower t)))"

definition listed_values :: "pystr \<Rightarrow> reader" where
  "listed_values name pred = and_then (listed_attr pred name) (\<lambda>vs. Inr (V_list vs))"

definition counted :: "pystr \<Rightarrow> reader" where
  "counted name pred = and_then (as_int (attr pred name (V_int 0))) (\<lambda>i. Inr (V_int i))"

definition confidence_value :: reader where
  "confidence_value pred = and_then (conf_of pred) (\<lambda>x. Inr (V_float x))"

fun answer_dict :: "(pystr \<times> reader) list \<Rightarrow> prediction \<Rightarrow> raised + (pystr \<times> pyval) list" where
  "answer_dict [] pred = Inr []"
| "answer_dict ((key, rd) # rest) pred =
     and_then (rd pred) (\<lambda>v. and_then (answer_dict rest pred) (\<lambda>kvs. Inr ((key, v) # kvs)))"

definition ACCESS_REPORT :: "(pystr \<times> reader) list" where
  "ACCESS_REPORT =
     [(''summary'', \<lambda>pred. Inr (attr pred ''summary'' (V_text []))), (''anomalies'', listed_values ''anomalies''),
      (''unique_users'', counted ''unique_users''), (''failed_auth_count'', counted ''failed_auth_count''),
      (''risk_level'', \<lambda>pred. Inr (attr pred ''risk_level'' (V_text ''unknown'')))]"

definition summarize_access ::
  "dspy_library \<Rightarrow> lm_answers \<Rightarrow> pystr \<Rightarrow> pyval list \<Rightarrow> int \<Rightarrow> reasoning_layer \<Rightarrow>
     (raised + (pystr \<times> pyval) list) \<times> reasoning_layer" where
  "summarize_access d ask slug events hours r =
     (if \<not> rs_enabled r
      then (Inr [(''error'', V_text ''reasoning layer disabled; set DSPY_ENABLED=true to enable summaries'')], r)
      else case consult d ask M_summarize
             [(''application_slug'', V_text slug), (''events'', V_list events), (''time_window_hours'', V_int hours)] r of
        (Inl e, r') \<Rightarrow> (Inr [(''error'', V_text (''reasoning failed: '' @ e))], r')
      | (Inr pred, r') \<Rightarrow>
          (and_then (answer_dict ACCESS_REPORT pred) (\<lambda>kvs.
             Inr ([(''application_slug'', V_text slug), (''time_window_hours'', V_int hours),
                   (''event_count'', V_int (int (length events)))] @ kvs)), r'))"

text \<open>The modules whose caller has the gate: \<open>None\<close> when the layer is off or the call fails.\<close>

definition raw_answer ::
  "dspy_library \<Rightarrow> lm_answers \<Rightarrow> module_id \<Rightarrow> (pystr \<times> reader) list \<Rightarrow> (pystr \<times> pyval) list \<Rightarrow>
     reasoning_layer \<Rightarrow> (raised + (pystr \<times> pyval) list option) \<times> reasoning_layer" where
  "raw_answer d ask m keys inputs r =
     (if \<not> rs_enabled r then (Inr None, r)
      else case consult d ask m inputs r of
        (Inl e, r') \<Rightarrow> (Inr None, r')
      | (Inr pred, r') \<Rightarrow> (and_then (answer_dict keys pred) (\<lambda>kvs. Inr (Some kvs)), r'))"

definition generate_remediation_patch ::
  "dspy_library \<Rightarrow> lm_answers \<Rightarrow> (pystr \<times> pyval) list \<Rightarrow> pystr \<Rightarrow> pystr \<Rightarrow> pystr \<Rightarrow> pystr \<Rightarrow> pystr \<Rightarrow> pystr \<Rightarrow> reasoning_layer \<Rightarrow>
     (raised + (pystr \<times> pyval) list option) \<times> reasoning_layer" where
  "generate_remediation_patch d ask service finding_type current_file file_path apply_mode existing_middlewares context r =
     raw_answer d ask M_patch
         [(''patch'', kept_text ''patch''), (''commit_message'', kept_text ''commit_message''),
          (''pr_title'', kept_text ''pr_title''), (''pr_body'', kept_text ''pr_body''),
          (''confidence'', confidence_value), (''reasoning'', kept_text ''reasoning'')]
         [(''service'', V_dict service), (''finding_type'', V_text finding_type),
          (''current_file'', V_text current_file), (''file_path'', V_text file_path),
          (''apply_mode'', V_text apply_mode), (''existing_middlewares'', V_text existing_middlewares),
          (''context'', V_text context)] r"

definition reasoner_apply_review_feedback ::
  "dspy_library \<Rightarrow> lm_answers \<Rightarrow> pystr \<Rightarrow> pystr \<Rightarrow> pystr \<Rightarrow> reasoning_layer \<Rightarrow>
     (raised + (pystr \<times> pyval) list option) \<times> reasoning_layer" where
  "reasoner_apply_review_feedback d ask file_path current_file feedback r =
     raw_answer d ask M_revise
         [(''revised_file'', kept_text ''revised_file''),
          (''commit_message'', kept_text ''commit_message''), (''confidence'', confidence_value),
          (''reasoning'', kept_text ''reasoning'')]
         [(''file_path'', V_text file_path), (''current_file'', V_text current_file),
          (''feedback'', V_text feedback)] r"

definition detect_hardcoded_secrets ::
  "dspy_library \<Rightarrow> lm_answers \<Rightarrow> pystr \<Rightarrow> (pystr \<times> pyval) list \<Rightarrow> (pystr \<times> pyval) list \<Rightarrow> reasoning_layer \<Rightarrow>
     (raised + (pystr \<times> pyval) list option) \<times> reasoning_layer" where
  "detect_hardcoded_secrets d ask compose_content container_env container_labels r =
     raw_answer d ask M_detect_secrets
         [(''sanitized_compose'', kept_text ''sanitized_compose''),
          (''detected_secret_keys'', listed_values ''detected_secret_keys''),
          (''confidence'', confidence_value), (''reasoning'', kept_text ''reasoning'')]
         [(''compose_content'', V_text compose_content), (''container_env'', V_dict container_env),
          (''container_labels'', V_dict container_labels)] r"

definition normalize_config ::
  "dspy_library \<Rightarrow> lm_answers \<Rightarrow> pystr \<Rightarrow> pystr \<Rightarrow> pystr \<Rightarrow> pystr \<Rightarrow> reasoning_layer \<Rightarrow>
     (raised + (pystr \<times> pyval) list option) \<times> reasoning_layer" where
  "normalize_config d ask current_file file_path violations canonical_form r =
     raw_answer d ask M_normalize
         [(''normalized_file'', kept_text ''normalized_file''),
          (''commit_message'', kept_text ''commit_message''), (''confidence'', confidence_value),
          (''reasoning'', kept_text ''reasoning'')]
         [(''current_file'', V_text current_file), (''file_path'', V_text file_path),
          (''violations'', V_text violations), (''canonical_form'', V_text canonical_form)] r"

definition infer_service_requirements ::
  "dspy_library \<Rightarrow> lm_answers \<Rightarrow> pystr \<Rightarrow> pystr \<Rightarrow> (pystr \<times> pyval) list \<Rightarrow> reasoning_layer \<Rightarrow>
     (raised + (pystr \<times> pyval) list option) \<times> reasoning_layer" where
  "infer_service_requirements d ask repo_url readme detected r =
     raw_answer d ask M_infer_requirements
         [(''service_name'', stripped_text ''service_name''), (''summary'', stripped_text ''summary''),
          (''category'', lowered_text ''category''),
          (''required_dependencies'', listed_values ''required_dependencies''),
          (''operator_supplied_env_vars'', listed_values ''operator_supplied_env_vars''),
          (''confidence'', confidence_value), (''reasoning'', kept_text ''reasoning'')]
         [(''repo_url'', V_text repo_url), (''readme'', V_text readme), (''detected'', V_dict detected)] r"

definition generate_service_compose ::
  "dspy_library \<Rightarrow> lm_answers \<Rightarrow> (pystr \<times> pyval) list \<Rightarrow> pystr \<Rightarrow> pystr \<Rightarrow> pystr \<Rightarrow> reasoning_layer \<Rightarrow>
     (raised + (pystr \<times> pyval) list option) \<times> reasoning_layer" where
  "generate_service_compose d ask intake homelab_conventions service_name target_node r =
     raw_answer d ask M_generate_compose
         [(''compose_yaml'', kept_text ''compose_yaml''), (''confidence'', confidence_value),
          (''reasoning'', kept_text ''reasoning'')]
         [(''intake'', V_dict intake), (''homelab_conventions'', V_text homelab_conventions),
          (''service_name'', V_text service_name), (''target_node'', V_text target_node)] r"

section \<open>A server's requests\<close>

datatype request =
    Resolve "(pystr \<times> pyval) list" "(pystr \<times> pyval) list list"
  | Infer pystr "pystr list" pystr
  | Summarize pystr "pyval list" int
  | Remediate "(pystr \<times> pyval) list" pystr pystr pystr pystr pystr pystr
  | Revise pystr pystr pystr
  | Detect pystr "(pystr \<times> pyval) list" "(pystr \<times> pyval) list"
  | Normalize pystr pystr pystr pystr
  | Requirements pystr pystr "(pystr \<times> pyval) list"
  | Draft_compose "(pystr \<times> pyval) list" pystr pystr pystr

datatype reply =
    Name_reply "pystr option"
  | Metadata_reply "enrichment option"
  | Report_reply "(pystr \<times> pyval) list"
  | Raw_reply "(pystr \<times> pyval) list option"

definition reply_with :: "('a \<Rightarrow> reply) \<Rightarrow> (raised + 'a) \<times> reasoning_layer \<Rightarrow> (raised + reply) \<times> reasoning_layer" where
  "reply_with f x = (and_then (fst x) (\<lambda>v. Inr (f v)), snd x)"

fun serve :: "dspy_library \<Rightarrow> lm_answers \<Rightarrow> request \<Rightarrow> reasoning_layer \<Rightarrow> (raised + reply) \<times> reasoning_layer" where
  "serve d ask (Resolve c es) r = reply_with Name_reply (resolve_identity d ask c es r)"
| "serve d ask (Infer rule ms n) r = reply_with Metadata_reply (infer_metadata d ask rule ms n r)"
| "serve d ask (Summarize slug es h) r = reply_with Report_reply (summarize_access d ask slug es h r)"
| "serve d ask (Remediate s ft cur path mode ms ctx) r =
     reply_with Raw_reply (generate_remediation_patch d ask s ft cur path mode ms ctx r)"
| "serve d ask (Revise path cur fb) r = reply_with Raw_reply (reasoner_apply_review_feedback d ask path cur fb r)"
| "serve d ask (Detect text env ls) r = reply_with Raw_reply (detect_hardcoded_secrets d ask text env ls r)"
| "serve d ask (Normalize cur path vs canon) r = reply_with Raw_reply (normalize_config d ask cur path vs canon r)"
| "serve d ask (Requirements url readme det) r =
     reply_with Raw_reply (infer_service_requirements d ask url readme det r)"
| "serve d ask (Draft_compose i conv n node) r =
     reply_with Raw_reply (generate_service_compose d ask i conv n node r)"

fun serve_all ::
  "dspy_library \<Rightarrow> (lm_answers \<times> request) list \<Rightarrow> reasoning_layer \<Rightarrow> (raised + reply) list \<times> reasoning_layer" where
  "serve_all d [] r = ([], r)"
| "serve_all d ((ask, q) # rest) r =
     (case serve d ask q r of (x, r1) \<Rightarrow> (case serve_all d rest r1 of (xs, r2) \<Rightarrow> (x # xs, r2)))"

lemmas operations =
  resolve_identity_def infer_metadata_def summarize_access_def raw_answer_def generate_remediation_patch_def
  reasoner_apply_review_feedback_def detect_hardcoded_secrets_def normalize_config_def infer_service_requirements_def
  generate_service_compose_def

section \<open>Set up once, each module on its own language model\<close>

definition model_for :: "settings \<Rightarrow> module_id \<Rightarrow> lm" where
  "model_for s m =
     language_model s (if m \<in> set WHOLE_FILE then ''dspy_patch_max_tokens'' else ''dspy_max_tokens'')"

definition set_up :: "reasoning_layer \<Rightarrow> bool" where
  "set_up r \<longleftrightarrow> (rs_configured r \<longrightarrow>
     (\<forall>m. \<exists>c. rs_module r m = Some c \<and> ct_lm c = Some (model_for (rs_settings r) m)))"

lemma load_one_some: "ms m \<noteq> None \<Longrightarrow> load_one d path mf ms m \<noteq> None"
  by (cases "ms (fst mf)") (auto simp: load_one_def Let_def)

lemma load_files_some:
  "\<forall>m. ms m \<noteq> None \<Longrightarrow> fold (load_one d path) files ms m \<noteq> None"
proof (induction files arbitrary: ms)
  case (Cons mf files)
  then have "\<forall>m. load_one d path mf ms m \<noteq> None" by (intro allI load_one_some) blast
  then show ?case using Cons.IH by simp
qed (simp del: not_None_eq)

lemma load_compiled_some: "\<forall>m. ms m \<noteq> None \<Longrightarrow> load_compiled d s ms m \<noteq> None"
  using load_files_some by (auto simp: load_compiled_def simp del: not_None_eq split: option.splits)

lemma set_lm_fold:
  "fold (set_lm l) names ms m = (if m \<in> set names then map_option (ct_lm_update (\<lambda>_. Some l)) (ms m) else ms m)"
  by (induction names arbitrary: ms) (auto simp: set_lm_def option.map_comp o_def)

lemma module_lists: "m \<in> set SHORT_OUTPUT \<longleftrightarrow> m \<notin> set WHOLE_FILE"
  by (cases m) (simp_all add: SHORT_OUTPUT_def WHOLE_FILE_def)

lemma ensure_set_up:
  assumes "set_up r" "ensure d r = (e, r')"
  shows "set_up r'" "rs_settings r' = rs_settings r" "rs_enabled r' = rs_enabled r"
    and "e = None \<Longrightarrow> rs_configured r'"
proof -
  have some: "\<exists>c. load_compiled d s (\<lambda>m. Some \<lparr>ct_lm = None, ct_loaded = []\<rparr>) m = Some c" for s m
    using load_compiled_some [of "\<lambda>m. Some \<lparr>ct_lm = None, ct_loaded = []\<rparr>" d s m] by auto
  have "set_up r'" if "\<not> rs_configured r" "dl_import_error d = None"
    unfolding set_up_def
  proof (intro impI allI)
    fix m
    obtain c where "load_compiled d (rs_settings r) (\<lambda>m. Some \<lparr>ct_lm = None, ct_loaded = []\<rparr>) m = Some c"
      using some by blast
    then show "\<exists>c. rs_module r' m = Some c \<and> ct_lm c = Some (model_for (rs_settings r') m)"
      using that assms(2) by (auto simp: ensure_def Let_def set_lm_fold model_for_def module_lists)
  qed
  then show "set_up r'" using assms by (auto simp: ensure_def split: if_splits option.splits)
  show "rs_settings r' = rs_settings r" "rs_enabled r' = rs_enabled r" "e = None \<Longrightarrow> rs_configured r'"
    using assms(2) by (auto simp: ensure_def Let_def split: if_splits option.splits)
qed

section \<open>Calls as the signatures declare them\<close>

definition fits :: "(pystr \<times> field_type) list \<Rightarrow> (pystr \<times> pyval) list \<Rightarrow> bool" where
  "fits tys kvs \<longleftrightarrow> list_all2 (\<lambda>(name, ty) (key, v). key = name \<and> has_type ty v) tys kvs"

definition declared :: "settings \<Rightarrow> module_id \<Rightarrow> chain_of_thought \<Rightarrow> (pystr \<times> pyval) list \<Rightarrow> bool" where
  "declared s m c inputs \<longleftrightarrow> ct_lm c = Some (model_for s m) \<and> fits (sg_inputs (signature_of m)) inputs"

text \<open>An oracle that refuses every call outside the signatures or on another model.\<close>

definition only_declared :: "settings \<Rightarrow> lm_answers \<Rightarrow> lm_answers" where
  "only_declared s ask m c inputs = (if declared s m c inputs then ask m c inputs else Inl ''refused'')"

lemma consult_state:
  assumes "set_up r" "consult d ask m inputs r = (x, r')"
  shows "set_up r'" "rs_settings r' = rs_settings r" "rs_enabled r' = rs_enabled r"
proof -
  obtain e r1 where ens: "ensure d r = (e, r1)" by fastforce
  then have "r' = r1" using assms(2) by (auto simp: consult_def split: option.splits)
  then show "set_up r'" "rs_settings r' = rs_settings r" "rs_enabled r' = rs_enabled r"
    using ensure_set_up [OF assms(1) ens] by simp_all
qed

lemma consult_declared:
  assumes "set_up r" "fits (sg_inputs (signature_of m)) inputs"
  shows "consult d (only_declared (rs_settings r) ask) m inputs r = consult d ask m inputs r"
proof -
  obtain e r1 where ens: "ensure d r = (e, r1)" by fastforce
  note r1 = ensure_set_up [OF assms(1) ens]
  show ?thesis
  proof (cases e)
    case None
    then obtain c where "rs_module r1 m = Some c" "ct_lm c = Some (model_for (rs_settings r) m)"
      using r1 unfolding set_up_def by metis
    then show ?thesis using assms(2) ens None by (simp add: consult_def only_declared_def declared_def)
  qed (simp add: consult_def ens)
qed

lemmas signatures =
  ResolveServiceIdentity_def InferServiceMetadata_def SummarizeAccessAudit_def GenerateRemediationPatch_def
  ApplyReviewFeedback_def DetectHardcodedSecrets_def NormalizeConfigFile_def InferServiceRequirements_def
  GenerateServiceCompose_def

lemma serve_declared:
  "set_up r \<Longrightarrow> serve d (only_declared (rs_settings r) ask) q r = serve d ask q r"
  by (cases q) (simp_all add: operations consult_declared signatures fits_def list_all_iff)

lemma snd_answer_cases:
  "snd (case p of (Inl e, r') \<Rightarrow> (f e r', r') | (Inr y, r') \<Rightarrow> (g y r', r')) = snd p"
  by (cases p; cases "fst p") auto

definition asks_once :: "dspy_library \<Rightarrow> lm_answers \<Rightarrow> reasoning_layer \<Rightarrow> 'a \<times> reasoning_layer \<Rightarrow> bool" where
  "asks_once d ask r x \<longleftrightarrow> (\<exists>m inputs. snd x \<in> {r, snd (consult d ask m inputs r)})"

lemma asks_once_intros [intro!]:
  "asks_once d ask r (v, r)"
  "asks_once d ask r (case consult d ask m inputs r of (Inl e, r') \<Rightarrow> (f e r', r') | (Inr y, r') \<Rightarrow> (g y r', r'))"
  "asks_once d ask r x \<Longrightarrow> asks_once d ask r (reply_with h x)"
  "asks_once d ask r x \<Longrightarrow> asks_once d ask r y \<Longrightarrow> asks_once d ask r (if b then x else y)"
  unfolding asks_once_def snd_answer_cases by (auto simp: reply_with_def)

lemma serve_asks: "asks_once d ask r (serve d ask q r)"
  by (cases q) (simp_all only: serve.simps operations asks_once_intros)

lemma serve_state:
  assumes "set_up r" "serve d ask q r = (x, r')"
  shows "set_up r'" "rs_settings r' = rs_settings r" "rs_enabled r' = rs_enabled r"
proof -
  obtain m inputs where "r' \<in> {r, snd (consult d ask m inputs r)}" using serve_asks assms(2) by (metis asks_once_def snd_conv)
  moreover obtain y r1 where "consult d ask m inputs r = (y, r1)" by fastforce
  ultimately show "set_up r'" "rs_settings r' = rs_settings r" "rs_enabled r' = rs_enabled r"
    using consult_state [OF assms(1)] assms(1) by auto
qed

lemma new_reasoner_set_up: "set_up (build_reasoner s)"
  by (simp add: set_up_def build_reasoner_def)

lemma serve_all_declared:
  "set_up r \<Longrightarrow>
   serve_all d (map (\<lambda>(ask, q). (only_declared (rs_settings r) ask, q)) calls) r = serve_all d calls r"
proof (induction calls arbitrary: r)
  case (Cons c calls)
  obtain ask q where c: "c = (ask, q)" by fastforce
  obtain x r1 where one: "serve d ask q r = (x, r1)" by fastforce
  note r1 = serve_state [OF Cons.prems one]
  show ?case using Cons.IH [OF r1(1)] one r1(2) by (simp add: c serve_declared [OF Cons.prems])
qed simp


section \<open>What an answer can do\<close>

definition typed_prediction :: "module_id \<Rightarrow> prediction \<Rightarrow> bool" where
  "typed_prediction m pred \<longleftrightarrow>
     list_all (\<lambda>(name, ty). case pred name of None \<Rightarrow> False | Some v \<Rightarrow> has_type ty v) (sg_outputs (signature_of m))"

text \<open>What DSPy's adapters promise of a parsed answer: every output field, of its declared type.\<close>

definition answers_typed :: "lm_answers \<Rightarrow> bool" where
  "answers_typed ask \<longleftrightarrow>
     (\<forall>m c inputs pred. ask m c inputs = Inr pred \<longrightarrow> typed_prediction m pred)"

lemma is_text_iff: "is_text v \<longleftrightarrow> (\<exists>t. v = V_text t)"
  by (cases v) auto

lemma has_type_elims:
  "has_type T_text v \<Longrightarrow> \<exists>t. v = V_text t"
  "has_type T_float v \<Longrightarrow> \<exists>x. v = V_float x"
  "has_type T_int v \<Longrightarrow> \<exists>i. v = V_int i"
  "has_type T_texts v \<Longrightarrow> \<exists>vs. v = V_list vs"
  by (cases v; simp add: is_text_iff)+

lemma readers_typed:
  "pred name = Some (V_text t) \<Longrightarrow> stripped pred name = Inr (strip t)"
  "pred name = Some (V_list vs) \<Longrightarrow> listed_attr pred name = Inr vs"
  "pred ''confidence'' = Some (V_float x) \<Longrightarrow> conf_of pred = Inr x"
  by (auto simp: stripped_def attr_or_def attr_def listed_attr_def conf_of_def)

lemma answer_dict_ok:
  "list_all (\<lambda>(key, rd). \<not> isl (rd pred)) keys \<Longrightarrow> \<not> isl (answer_dict keys pred)"
proof (induction keys)
  case (Cons k keys)
  then show ?case by (cases k; cases "snd k pred"; cases "answer_dict keys pred") auto
qed simp

lemma isl_and_then: "isl (and_then x f) \<longleftrightarrow> isl x \<or> (\<not> isl x \<and> isl (f (projr x)))"
  by (cases x) auto

lemma consult_answer: "consult d ask m inputs r = (Inr pred, r') \<Longrightarrow> \<exists>c. ask m c inputs = Inr pred"
  by (auto simp: consult_def split: option.splits prod.splits)

lemma answered_ok:
  assumes "\<And>pred r'. consult d ask m inputs r = (Inr pred, r') \<Longrightarrow> \<not> isl (g pred r')" "\<And>e r'. \<not> isl (f e r')"
  shows "\<not> isl (fst (case consult d ask m inputs r of (Inl e, r') \<Rightarrow> (f e r', r') | (Inr pred, r') \<Rightarrow> (g pred r', r')))"
  using assms by (auto split: prod.splits sum.splits)

lemma raw_answer_ok:
  assumes "answers_typed ask" "\<And>pred. typed_prediction m pred \<Longrightarrow> list_all (\<lambda>(key, rd). \<not> isl (rd pred)) keys"
  shows "\<not> isl (fst (raw_answer d ask m keys inputs r))"
proof -
  have "\<not> isl (answer_dict keys pred)" if "consult d ask m inputs r = (Inr pred, r')" for pred r'
    using consult_answer [OF that] assms(1) unfolding answers_typed_def
    by (intro answer_dict_ok assms(2)) blast
  then show ?thesis unfolding raw_answer_def by (auto simp: isl_and_then split: prod.splits sum.splits)
qed

lemma has_type_iff:
  "has_type T_text v \<longleftrightarrow> (\<exists>t. v = V_text t)"
  "has_type T_float v \<longleftrightarrow> (\<exists>x. v = V_float x)"
  "has_type T_int v \<longleftrightarrow> (\<exists>i. v = V_int i)"
  by (cases v; simp)+

lemma typed_texts: "has_type T_texts v \<Longrightarrow> \<exists>vs. v = V_list vs"
  by (cases v) simp_all

lemma typed_field:
  "(case pred name of None \<Rightarrow> False | Some v \<Rightarrow> has_type ty v) \<longleftrightarrow> (\<exists>v. pred name = Some v \<and> has_type ty v)"
  by (auto split: option.splits)

lemmas typed_simps = typed_prediction_def typed_field has_type_iff is_text_iff signatures isl_and_then

lemmas readers =
  stripped_def attr_or_def attr_def listed_attr_def conf_of_def stripped_text_def lowered_text_def
  listed_values_def counted_def confidence_value_def kept_text_def Let_def

lemma answers_ok:
  "typed_prediction M_resolve pred \<Longrightarrow> list_all (hashable \<circ> entry_name) es \<Longrightarrow> \<not> isl (resolved es limit pred)"
  "typed_prediction M_infer pred \<Longrightarrow> \<not> isl (metadata_of limit pred)"
  "typed_prediction M_summarize pred \<Longrightarrow> \<not> isl (answer_dict ACCESS_REPORT pred)"
    apply (auto simp: typed_simps resolved_def readers list_all_iff)[1]
   apply (auto simp: typed_simps metadata_of_def readers)[1]
  apply (rule answer_dict_ok)
  apply (auto simp: typed_simps ACCESS_REPORT_def readers dest!: typed_texts)
  done

definition names_hashable :: "request \<Rightarrow> bool" where
  "names_hashable q = (case q of Resolve c es \<Rightarrow> list_all (hashable \<circ> entry_name) es | _ \<Rightarrow> True)"

lemma serve_typed:
  assumes "answers_typed ask" "names_hashable q"
  shows "\<not> isl (fst (serve d ask q r))"
proof -
  have typed: "typed_prediction m pred" if "consult d ask m inputs r = (Inr pred, r')" for m inputs pred r'
    using consult_answer [OF that] assms(1) unfolding answers_typed_def by blast
  note shape = reply_with_def isl_and_then operations
  show ?thesis
  proof (cases q)
    case (Resolve c es)
    then have "list_all (hashable \<circ> entry_name) es" using assms(2) by (simp add: names_hashable_def)
    then show ?thesis using Resolve answers_ok(1) typed by (auto simp: shape split: prod.splits sum.splits)
  next
    case (Infer rule ms n)
    then show ?thesis using answers_ok(2) typed by (auto simp: shape split: prod.splits sum.splits)
  next
    case (Summarize slug es h)
    then show ?thesis using answers_ok(3) typed by (auto simp: shape split: prod.splits sum.splits)
  next
    case (Requirements url readme det)
    then show ?thesis
      by (auto simp: reply_with_def isl_and_then infer_service_requirements_def typed_simps readers
          intro!: raw_answer_ok [OF assms(1)] dest!: typed_texts)
  next
    case (Detect compose env ls)
    then show ?thesis
      by (auto simp: reply_with_def isl_and_then detect_hardcoded_secrets_def typed_simps readers
          intro!: raw_answer_ok [OF assms(1)] dest!: typed_texts)
  qed (auto simp: reply_with_def isl_and_then generate_remediation_patch_def reasoner_apply_review_feedback_def
      normalize_config_def generate_service_compose_def typed_simps readers intro!: raw_answer_ok [OF assms(1)])
qed

text \<open>
  C20: With the answers DSPy promises (every output field of the signature, of its declared
  type), no request of the reasoning layer lets an exception escape, whatever the state of the
  layer, the import of DSPy or the compiled files: each ends with a value, \<open>None\<close> or a
  structured error. The names of the services to match against are texts, as callers pass them.
\<close>
theorem typed_answers_never_raise:
  assumes "answers_typed ask" "names_hashable q"
  shows "\<exists>v. fst (serve d ask q r) = Inr v"
  using serve_typed [OF assms, of d r] by (cases "fst (serve d ask q r)") auto

definition example_library :: dspy_library where
  "example_library =
     \<lparr>dl_import_error = None, dl_exists = (\<lambda>f. False), dl_load = (\<lambda>f c. c)\<rparr>"

definition example_value :: "field_type \<Rightarrow> pyval" where
  "example_value ty = (case ty of T_text \<Rightarrow> V_text ''plex'' | T_float \<Rightarrow> V_float (Finite (9 / 10)) | T_int \<Rightarrow> V_int 2
     | T_dict \<Rightarrow> V_dict [] | T_list \<Rightarrow> V_list [] | T_texts \<Rightarrow> V_list [])"

definition example_answers :: lm_answers where
  "example_answers m c inputs = Inr (\<lambda>name. map_option example_value (map_of (sg_outputs (signature_of m)) name))"

definition example_reasoner :: "rat \<Rightarrow> reasoning_layer" where
  "example_reasoner limit =
     build_reasoner \<lparr>st_value = (\<lambda>name. S_none) (''dspy_enabled'' := S_bool True,
       ''dspy_confidence_threshold'' := S_float limit), st_fields_set = []\<rparr>"

lemma example_answers_typed: "answers_typed example_answers"
proof -
  have "typed_prediction m (\<lambda>name. map_option example_value (map_of (sg_outputs (signature_of m)) name))" for m
    by (cases m) (simp_all add: typed_prediction_def signatures example_value_def)
  then show ?thesis by (auto simp: answers_typed_def example_answers_def)
qed

lemma typed_answers_never_raise_witness:
  "\<exists>v. fst (serve example_library example_answers (Resolve [] [[(''name'', V_text ''plex'')]]) (example_reasoner (7 / 10))) = Inr v"
  using typed_answers_never_raise [OF example_answers_typed, of "Resolve [] [[(''name'', V_text ''plex'')]]"]
  by (simp add: names_hashable_def entry_name_def)

section \<open>The confidence gates\<close>

lemma ensure_settings: "ensure d r = (e, r') \<Longrightarrow> rs_settings r' = rs_settings r"
  by (auto simp: ensure_def Let_def split: if_splits option.splits)

lemma consult_threshold: "consult d ask m inputs r = (x, r') \<Longrightarrow> threshold r' = threshold r"
  by (auto simp: consult_def threshold_def dest: ensure_settings split: prod.splits option.splits)

lemma and_then_Inr: "and_then x f = Inr y \<longleftrightarrow> (\<exists>v. x = Inr v \<and> f v = Inr y)"
  by (cases x) auto

text \<open>
  C21: A discovered service is only ever identified with an existing entry: the answered name is
  the name of one of the entries offered, it comes from the model's answer to exactly this
  candidate and these entries, and the answer's confidence is not below the threshold.
\<close>
theorem identity_offered_and_confident:
  assumes "fst (resolve_identity d ask candidate existing r) = Inr (Some name)"
  shows "rs_enabled r \<and> name \<noteq> [] \<and> (\<exists>e \<in> set existing. entry_name e = V_text name) \<and>
    (\<exists>c pred conf.
       ask M_resolve c [(''candidate'', V_dict candidate), (''existing_services'', V_list (map V_dict existing))] = Inr pred \<and>
       stripped pred ''matched_name'' = Inr name \<and> conf_of pred = Inr conf \<and> \<not> float_less conf (threshold r))"
proof -
  let ?inputs = "[(''candidate'', V_dict candidate), (''existing_services'', V_list (map V_dict existing))]"
  obtain x r' where asked: "consult d ask M_resolve ?inputs r = (x, r')" by fastforce
  have on: "rs_enabled r" "existing \<noteq> []" using assms by (auto simp: resolve_identity_def split: if_splits)
  then obtain pred where x: "x = Inr pred" and res: "resolved existing (threshold r) pred = Inr (Some name)"
    using assms asked consult_threshold [OF asked] by (cases x) (auto simp: resolve_identity_def)
  obtain c where "ask M_resolve c ?inputs = Inr pred" using consult_answer asked x by blast
  then show ?thesis using on(1) res
    by (auto simp: resolved_def and_then_Inr Let_def eq_commute [of _ "entry_name e" for e] split: if_splits)
qed

lemma identity_offered_and_confident_witness:
  "fst (resolve_identity example_library example_answers [] [[(''name'', V_text ''plex'')]] (example_reasoner (7 / 10))) =
     Inr (Some ''plex'') \<and>
   rs_enabled (example_reasoner (7 / 10))"
proof -
  have "fst (resolve_identity example_library example_answers [] [[(''name'', V_text ''plex'')]] (example_reasoner (7 / 10))) =
     Inr (Some ''plex'')"
    by code_simp
  then show ?thesis using identity_offered_and_confident by blast
qed

text \<open>
  \<open>nan\<close> is below no threshold, so an answer whose confidence is \<open>nan\<close> passes the gate that a
  confidence of one would be needed for.
\<close>
theorem nan_confidence_passes:
  "fst (resolve_identity example_library
      (\<lambda>m c inputs. Inr [''matched_name'' \<mapsto> V_text ''plex'', ''confidence'' \<mapsto> V_float NaN]) []
      [[(''name'', V_text ''plex'')]] (example_reasoner 1)) = Inr (Some ''plex'')"
  by code_simp

text \<open>A switched-off layer is inert: the fixed replies, no call, no change of state.\<close>

fun fallback :: "request \<Rightarrow> reply" where
  "fallback (Resolve c es) = Name_reply None"
| "fallback (Infer rule ms n) = Metadata_reply None"
| "fallback (Summarize slug es h) =
     Report_reply [(''error'', V_text ''reasoning layer disabled; set DSPY_ENABLED=true to enable summaries'')]"
| "fallback q = Raw_reply None"

theorem disabled_layer_inert:
  "\<not> rs_enabled r \<Longrightarrow> serve d ask q r = (Inr (fallback q), r)"
  by (cases q) (simp_all add: reply_with_def operations)

end
