(* ===== verification/Base64.thy ===== *)
theory Base64
  imports Models
begin

text \<open>
  \<open>base64.b64encode\<close>, \<open>base64.b64decode\<close> and UTF-8 as the Git providers use them for the content
  of a file. A byte is a number below 256. A text of the model has code points below 256, so
  decoding gives \<open>None\<close> for bytes that are no UTF-8 and for characters beyond.
\<close>

section \<open>UTF-8\<close>

fun utf8_encode :: "pystr \<Rightarrow> nat list" where
  "utf8_encode [] = []"
| "utf8_encode (c # s) =
     (let n = code_point c
      in (if n < 128 then [n] else [192 + n div 64, 128 + n mod 64]) @ utf8_encode s)"

fun utf8_decode :: "nat list \<Rightarrow> pystr option" where
  "utf8_decode [] = Some []"
| "utf8_decode (a # s) =
     (if a < 128 then map_option ((#) (char_of a)) (utf8_decode s)
      else if a = 194 \<or> a = 195 then
        (case s of
           [] \<Rightarrow> None
         | b # t \<Rightarrow> if 128 \<le> b \<and> b < 192 then map_option ((#) (char_of ((a - 192) * 64 + (b - 128)))) (utf8_decode t)
                    else None)
      else None)"

lemma code_point_below: "code_point c < 256"
  by (simp add: code_point_def)

lemma utf8_bytes: "\<forall>b \<in> set (utf8_encode s). b < 256"
proof (induction s)
  case (Cons c s)
  have "code_point c div 64 < 4" using code_point_below [of c] by (simp add: div_less_iff_less_mult)
  then show ?case using Cons by (auto simp: Let_def)
qed simp

lemma utf8_round_trip: "utf8_decode (utf8_encode s) = Some s"
proof (induction s)
  case (Cons c s)
  let ?n = "code_point c"
  have self: "char_of ?n = c" by (simp add: code_point_def)
  show ?case
  proof (cases "?n < 128")
    case False
    have "?n div 64 < 4" using code_point_below [of c] by (simp add: div_less_iff_less_mult)
    moreover have "2 \<le> ?n div 64" using False by (simp add: less_eq_div_iff_mult_less_eq)
    ultimately have "?n div 64 = 2 \<or> ?n div 64 = 3" by linarith
    moreover have "?n div 64 = 2 \<Longrightarrow> 128 + ?n mod 64 = ?n" "?n div 64 = 3 \<Longrightarrow> 192 + ?n mod 64 = ?n"
      using div_mult_mod_eq [of ?n 64] by simp_all
    moreover have "128 + ?n mod 64 < 192" by simp
    ultimately show ?thesis using Cons False self by auto
  qed (simp add: Cons self)
qed simp

section \<open>Base64\<close>

definition B64_ALPHABET :: pystr where
  "B64_ALPHABET = ''ABCDEFGHIJKLMNOPQRSTUVWXYZabcdefghijklmnopqrstuvwxyz0123456789+/''"

definition sextet :: "nat \<Rightarrow> char" where
  "sextet n = B64_ALPHABET ! n"

fun b64_encode :: "nat list \<Rightarrow> pystr" where
  "b64_encode [] = []"
| "b64_encode [a] = [sextet (a div 4), sextet (a mod 4 * 16), CHR ''='', CHR ''='']"
| "b64_encode [a, b] =
     [sextet (a div 4), sextet (a mod 4 * 16 + b div 16), sextet (b mod 16 * 4), CHR ''='']"
| "b64_encode (a # b # c # s) =
     [sextet (a div 4), sextet (a mod 4 * 16 + b div 16), sextet (b mod 16 * 4 + c div 64), sextet (c mod 64)]
       @ b64_encode s"

text \<open>The value of a character, \<open>None\<close> outside the alphabet.\<close>

definition sextet_value :: "char \<Rightarrow> nat option" where
  "sextet_value c =
     (let n = code_point c in
      if is_ascii_upper c then Some (n - 65)
      else if is_ascii_lower c then Some (n - 71)
      else if is_ascii_digit c then Some (n + 4)
      else if c = CHR ''+'' then Some 62
      else if c = CHR ''/'' then Some 63
      else None)"

text \<open>
  The decoder: the position in a group of four, the bits left over, and the padding signs in a
  row. Characters outside the alphabet are skipped, a complete padding ends the input, and an
  incomplete group at the end is an error.
\<close>

fun b64_from :: "nat \<Rightarrow> nat \<Rightarrow> nat \<Rightarrow> pystr \<Rightarrow> nat list option" where
  "b64_from quad left pads [] = (if quad = 0 then Some [] else None)"
| "b64_from quad left pads (c # s) =
     (if c = CHR ''='' then
        (if 2 \<le> quad \<and> 4 \<le> quad + pads + 1 then Some []
         else b64_from quad left (if 2 \<le> quad then pads + 1 else pads) s)
      else case sextet_value c of
        None \<Rightarrow> b64_from quad left pads s
      | Some v \<Rightarrow>
          (if quad = 0 then b64_from 1 v 0 s
           else if quad = 1 then map_option ((#) (left * 4 + v div 16)) (b64_from 2 (v mod 16) 0 s)
           else if quad = 2 then map_option ((#) (left * 16 + v div 4)) (b64_from 3 (v mod 4) 0 s)
           else map_option ((#) (left * 64 + v)) (b64_from 0 0 0 s)))"

definition b64_decode :: "pystr \<Rightarrow> nat list option" where
  "b64_decode s = (if \<exists>c \<in> set s. 128 \<le> code_point c then None else b64_from 0 0 0 s)"

text \<open>The alphabet is the sixty-four plain characters, in the order of their values.\<close>

lemma alphabet_values: "map sextet_value B64_ALPHABET = map Some [0..<64]"
  by (simp add: B64_ALPHABET_def sextet_value_def code_point_def is_ascii_upper_def is_ascii_lower_def
      is_ascii_digit_def upt_rec)

lemma sextet_value_sextet: "n < 64 \<Longrightarrow> sextet_value (sextet n) = Some n"
proof -
  assume n: "n < 64"
  moreover have "length B64_ALPHABET = 64" by (simp add: B64_ALPHABET_def)
  ultimately show ?thesis using arg_cong [OF alphabet_values, of "\<lambda>xs. xs ! n"] by (simp add: sextet_def)
qed

lemma pad_outside: "sextet_value (CHR ''='') = None"
  by (simp add: sextet_value_def code_point_def is_ascii_upper_def is_ascii_lower_def is_ascii_digit_def)

lemma sextet_not_pad: "n < 64 \<Longrightarrow> sextet n \<noteq> CHR ''=''"
  using sextet_value_sextet [of n] pad_outside by auto

lemma sextet_value_ascii: "sextet_value c = Some n \<Longrightarrow> code_point c < 128"
  by (auto simp: sextet_value_def Let_def is_ascii_upper_def is_ascii_lower_def is_ascii_digit_def code_point_def
      split: if_splits)

lemma sextets_of_bytes:
  fixes a b c :: nat
  assumes "a < 256" "b < 256" "c < 256"
  shows "a div 4 < 64" "a mod 4 * 16 < 64" "a mod 4 * 16 + b div 16 < 64" "b mod 16 * 4 < 64"
    "b mod 16 * 4 + c div 64 < 64" "c mod 64 < 64"
proof -
  have "a div 4 < 64" "b div 16 < 16" "c div 64 < 4" using assms by (simp_all add: div_less_iff_less_mult)
  moreover have "a mod 4 < 4" "b mod 16 < 16" "c mod 64 < 64" by simp_all
  ultimately show "a div 4 < 64" "a mod 4 * 16 < 64" "a mod 4 * 16 + b div 16 < 64" "b mod 16 * 4 < 64"
    "b mod 16 * 4 + c div 64 < 64" "c mod 64 < 64" by linarith+
qed

lemma sextet_split:
  fixes m k r :: nat
  assumes "r < k"
  shows "(m * k + r) div k = m" "(m * k + r) mod k = r"
  using assms by simp_all

lemma b64_from_encode: "\<forall>b \<in> set bs. b < 256 \<Longrightarrow> b64_from 0 left pads (b64_encode bs) = Some bs"
proof (induction bs arbitrary: left pads rule: b64_encode.induct)
  case (2 a)
  then have "a < 256" by simp
  note s = sextets_of_bytes [OF this this this]
  have "a div 4 * 4 + a mod 4 = a" by simp
  then show ?case by (simp add: s sextet_value_sextet sextet_not_pad)
next
  case (3 a b)
  then have "a < 256" "b < 256" by simp_all
  note s = sextets_of_bytes [OF this this(2)]
  have "(a mod 4 * 16 + b div 16) div 16 = a mod 4" "(a mod 4 * 16 + b div 16) mod 16 = b div 16"
    using \<open>b < 256\<close> by (simp_all add: sextet_split div_less_iff_less_mult)
  then show ?case by (simp add: s sextet_value_sextet sextet_not_pad)
next
  case (4 a b c rest)
  then have "a < 256" "b < 256" "c < 256" by simp_all
  note s = sextets_of_bytes [OF this]
  have "(a mod 4 * 16 + b div 16) div 16 = a mod 4" "(a mod 4 * 16 + b div 16) mod 16 = b div 16"
    "(b mod 16 * 4 + c div 64) div 4 = b mod 16" "(b mod 16 * 4 + c div 64) mod 4 = c div 64"
    using \<open>b < 256\<close> \<open>c < 256\<close> by (simp_all add: sextet_split div_less_iff_less_mult)
  then show ?case using 4 by (simp add: s sextet_value_sextet sextet_not_pad)
qed simp

definition in_b64 :: "char \<Rightarrow> bool" where
  "in_b64 c \<longleftrightarrow> c = CHR ''='' \<or> sextet_value c \<noteq> None"

lemma b64_from_filter: "b64_from quad left pads (filter in_b64 s) = b64_from quad left pads s"
proof (induction s arbitrary: quad left pads)
  case (Cons c s)
  then show ?case by (cases "sextet_value c") (simp_all add: in_b64_def)
qed simp

lemma newline_outside: "\<not> in_b64 (CHR 0x0A)"
  and newline_ascii: "code_point (CHR 0x0A) < 128"
  by (simp_all add: in_b64_def sextet_value_def code_point_def is_ascii_upper_def is_ascii_lower_def
      is_ascii_digit_def)

lemma sextet_char: "n < 64 \<Longrightarrow> in_b64 (sextet n) \<and> code_point (sextet n) < 128"
  using sextet_value_sextet [of n] sextet_value_ascii [of "sextet n" n] by (auto simp: in_b64_def)

lemma pad_char: "in_b64 (CHR ''='') \<and> code_point (CHR ''='') < 128"
  by (simp add: in_b64_def code_point_def)

lemma b64_encode_chars: "\<forall>b \<in> set bs. b < 256 \<Longrightarrow> \<forall>x \<in> set (b64_encode bs). in_b64 x \<and> code_point x < 128"
proof (induction bs rule: b64_encode.induct)
  case (2 a)
  then show ?case using sextets_of_bytes [of a a a] pad_char by (simp add: sextet_char)
next
  case (3 a b)
  then show ?case using sextets_of_bytes [of a b b] pad_char by (simp add: sextet_char)
next
  case (4 a b c rest)
  then show ?case using sextets_of_bytes [of a b c] by (simp add: sextet_char)
qed simp

text \<open>Whatever line breaks are put into an encoded text, it decodes to the same bytes.\<close>

lemma b64_round_trip:
  assumes "\<forall>b \<in> set bs. b < 256" "filter in_b64 s = b64_encode bs" "\<forall>c \<in> set s. code_point c < 128"
  shows "b64_decode s = Some bs"
proof -
  have "b64_from 0 0 0 s = b64_from 0 0 0 (filter in_b64 s)" by (simp only: b64_from_filter)
  also have "\<dots> = Some bs" unfolding assms(2) by (rule b64_from_encode [OF assms(1)])
  finally show ?thesis using assms(3) by (auto simp: b64_decode_def not_le)
qed

end
