(* ===== verification/GitProviders.thy ===== *)
theory GitProviders
  imports Base64 NormEngine PyJson
begin

text \<open>
  \<open>providers/git\<close>: the requests the Gitea and GitHub providers send and what they make of the
  answers. A provider is its name, root, headers and the page-size parameter; the hosting
  service answers each request by a function of everything asked and answered before. A
  \<open>GitError\<close> is \<open>Git_raised\<close>; any other exception (an answer that is no JSON, a missing key, an
  undecodable file) is \<open>Other_raised\<close>.
\<close>

section \<open>Requests and answers\<close>

record git_request =
  gr_method :: pystr
  gr_url :: pystr
  gr_json :: "(pystr \<times> json) list option"
  gr_params :: "(pystr \<times> json) list"

datatype git_answer = Transport_failed pystr | Answered nat pystr "json option"

type_synonym git_log = "(git_request \<times> git_answer) list"

record git_client =
  gc_name :: pystr
  gc_root :: pystr
  gc_headers :: "(pystr \<times> pystr) list"
  gc_page_size :: pystr
  gc_http :: "git_log \<Rightarrow> git_request \<Rightarrow> git_answer"
  gc_str :: "json \<Rightarrow> pystr"

datatype git_exception = Git_raised pystr | Other_raised

type_synonym 'a git = "git_log \<Rightarrow> git_log \<times> (git_exception + 'a)"

definition git_return :: "'a \<Rightarrow> 'a git" where
  "git_return x tr = (tr, Inr x)"

definition git_raise :: "git_exception \<Rightarrow> 'a git" where
  "git_raise e tr = (tr, Inl e)"

definition git_bind :: "'a git \<Rightarrow> ('a \<Rightarrow> 'b git) \<Rightarrow> 'b git" where
  "git_bind m f tr = (case m tr of (tr', Inl e) \<Rightarrow> (tr', Inl e) | (tr', Inr x) \<Rightarrow> f x tr')"

definition git_lift :: "'a option \<Rightarrow> 'a git" where
  "git_lift v = (case v of None \<Rightarrow> git_raise Other_raised | Some x \<Rightarrow> git_return x)"

text \<open>\<open>except GitError\<close>.\<close>

definition git_catch :: "'a git \<Rightarrow> 'a \<Rightarrow> 'a git" where
  "git_catch m x tr = (case m tr of (tr', Inl (Git_raised t)) \<Rightarrow> (tr', Inr x) | r \<Rightarrow> r)"

definition slash :: "char \<Rightarrow> bool" where
  "slash c \<longleftrightarrow> c = CHR ''/''"

definition git_send ::
  "git_client \<Rightarrow> pystr \<Rightarrow> pystr \<Rightarrow> (pystr \<times> json) list option \<Rightarrow> (pystr \<times> json) list \<Rightarrow>
     (nat \<times> pystr \<times> json option) git" where
  "git_send c meth path body params tr =
     (let rq = \<lparr>gr_method = meth, gr_url = gc_root c @ ''/'' @ lstrip_by slash path, gr_json = body,
                gr_params = params\<rparr>;
          answer = gc_http c tr rq; tr' = tr @ [(rq, answer)]
      in case answer of
           Transport_failed e \<Rightarrow>
             (tr', Inl (Git_raised (gc_name c @ '' request '' @ meth @ '' '' @ path @ '' failed: '' @ e)))
         | Answered status shown content \<Rightarrow> (tr', Inr (status, shown, content)))"

definition raise_for :: "git_client \<Rightarrow> pystr \<Rightarrow> nat \<times> pystr \<times> json option \<Rightarrow> unit git" where
  "raise_for c action r =
     (case r of (status, shown, content) \<Rightarrow>
        if 400 \<le> status
        then git_raise (Git_raised (gc_name c @ '' '' @ action @ '' returned '' @ show_nat status @ '': '' @
               take 300 shown))
        else git_return ())"

text \<open>A request, \<open>_raise_for\<close>, and \<open>response.json()\<close>.\<close>

definition send_checked ::
  "git_client \<Rightarrow> pystr \<Rightarrow> pystr \<Rightarrow> pystr \<Rightarrow> (pystr \<times> json) list option \<Rightarrow> (pystr \<times> json) list \<Rightarrow>
     json option git" where
  "send_checked c action meth path body params =
     git_bind (git_send c meth path body params) (\<lambda>r.
     git_bind (raise_for c action r) (\<lambda>u. git_return (snd (snd r))))"

definition as_dict :: "json option \<Rightarrow> (pystr \<times> json) list git" where
  "as_dict v = (case v of Some (JObj kvs) \<Rightarrow> git_return kvs | _ \<Rightarrow> git_raise Other_raised)"

text \<open>What a loop over a decoded value runs through.\<close>

definition iterated :: "json option \<Rightarrow> json list option" where
  "iterated v =
     (case v of
        Some (JList xs) \<Rightarrow> Some xs
      | Some (JStr s) \<Rightarrow> Some (map (\<lambda>c. JStr [c]) s)
      | Some (JObj d) \<Rightarrow> Some (map (\<lambda>kv. JStr (fst kv)) d)
      | _ \<Rightarrow> None)"

definition in_repo :: "pystr \<Rightarrow> pystr \<Rightarrow> pystr" where
  "in_repo repo path = ''repos/'' @ repo @ ''/'' @ path"

section \<open>The two clients\<close>

definition DEFAULT_API_ROOT :: pystr where
  "DEFAULT_API_ROOT = ''https://api.github.com''"

definition gitea_client ::
  "pystr \<Rightarrow> pystr \<Rightarrow> (git_log \<Rightarrow> git_request \<Rightarrow> git_answer) \<Rightarrow> (json \<Rightarrow> pystr) \<Rightarrow> git_client" where
  "gitea_client base_url token http str =
     \<lparr>gc_name = ''Gitea'', gc_root = rstrip_by slash base_url @ ''/api/v1'',
      gc_headers = [(''Authorization'', ''token '' @ token), (''Accept'', ''application/json'')],
      gc_page_size = ''limit'', gc_http = http, gc_str = str\<rparr>"

definition github_client ::
  "pystr option \<Rightarrow> pystr \<Rightarrow> (git_log \<Rightarrow> git_request \<Rightarrow> git_answer) \<Rightarrow> (json \<Rightarrow> pystr) \<Rightarrow> git_client" where
  "github_client base_url token http str =
     \<lparr>gc_name = ''GitHub'',
      gc_root = rstrip_by slash (if truthy base_url then the base_url else DEFAULT_API_ROOT),
      gc_headers = [(''Authorization'', ''Bearer '' @ token), (''Accept'', ''application/vnd.github+json''),
        (''X-GitHub-Api-Version'', ''2022-11-28'')],
      gc_page_size = ''per_page'', gc_http = http, gc_str = str\<rparr>"

section \<open>Files\<close>

definition file_path :: "pystr \<Rightarrow> pystr \<Rightarrow> pystr" where
  "file_path repo path = in_repo repo (''contents/'' @ path)"

text \<open>\<open>base64.b64decode(content).decode("utf-8")\<close>.\<close>

definition decode_content :: "json \<Rightarrow> pystr option" where
  "decode_content v =
     (case v of JStr s \<Rightarrow> (case b64_decode s of None \<Rightarrow> None | Some bs \<Rightarrow> utf8_decode bs) | _ \<Rightarrow> None)"

definition encode_content :: "pystr \<Rightarrow> pystr" where
  "encode_content content = b64_encode (utf8_encode content)"

definition read_file :: "git_client \<Rightarrow> pystr \<Rightarrow> pystr \<Rightarrow> pystr \<Rightarrow> json git" where
  "read_file c repo path ref =
     git_bind (send_checked c ''read_file'' ''GET'' (file_path repo path) None [(''ref'', JStr ref)]) (\<lambda>v.
     git_bind (as_dict v) (\<lambda>payload.
       let content = (if json_falsy (map_of payload ''content'') then JStr [] else the (map_of payload ''content''))
       in if map_of payload ''encoding'' = Some (JStr ''base64'')
          then git_bind (git_lift (decode_content content)) (\<lambda>t. git_return (JStr t))
          else git_return content))"

definition file_sha :: "git_client \<Rightarrow> pystr \<Rightarrow> pystr \<Rightarrow> pystr \<Rightarrow> json option git" where
  "file_sha c repo path branch =
     git_bind (git_send c ''GET'' (file_path repo path) None [(''ref'', JStr branch)]) (\<lambda>r.
       if fst r = 404 then git_return None
       else git_bind (raise_for c ''stat_file'' r) (\<lambda>u.
            git_bind (as_dict (snd (snd r))) (\<lambda>payload.
              git_return (case map_of payload ''sha'' of Some JNull \<Rightarrow> None | v \<Rightarrow> v))))"

definition commit_body :: "pystr \<Rightarrow> pystr \<Rightarrow> pystr \<Rightarrow> json option \<Rightarrow> (pystr \<times> json) list" where
  "commit_body content branch message sha =
     [(''content'', JStr (encode_content content)), (''message'', JStr message), (''branch'', JStr branch)] @
     (case sha of None \<Rightarrow> [] | Some v \<Rightarrow> [(''sha'', v)])"

definition commit_file :: "git_client \<Rightarrow> pystr \<Rightarrow> pystr \<Rightarrow> pystr \<Rightarrow> pystr \<Rightarrow> pystr \<Rightarrow> unit git" where
  "commit_file c repo path content branch message =
     git_bind (file_sha c repo path branch) (\<lambda>sha.
     git_bind (git_send c ''PUT'' (file_path repo path) (Some (commit_body content branch message sha)) []) (\<lambda>r.
       raise_for c ''commit_file'' r))"

definition delete_file :: "git_client \<Rightarrow> pystr \<Rightarrow> pystr \<Rightarrow> pystr \<Rightarrow> pystr \<Rightarrow> unit git" where
  "delete_file c repo path branch message =
     git_bind (file_sha c repo path branch) (\<lambda>sha.
       case sha of
         None \<Rightarrow> git_return ()
       | Some v \<Rightarrow>
           git_bind (git_send c ''DELETE'' (file_path repo path)
             (Some [(''message'', JStr message), (''sha'', v), (''branch'', JStr branch)]) []) (\<lambda>r.
             raise_for c ''delete_file'' r))"

section \<open>Branches and trees\<close>

definition gitea_create_branch :: "git_client \<Rightarrow> pystr \<Rightarrow> pystr \<Rightarrow> pystr \<Rightarrow> unit git" where
  "gitea_create_branch c repo branch base =
     git_bind (git_send c ''POST'' (in_repo repo ''branches'')
       (Some [(''new_branch_name'', JStr branch), (''old_branch_name'', JStr base)]) []) (\<lambda>r.
       raise_for c ''create_branch'' r)"

definition branch_sha :: "git_client \<Rightarrow> pystr \<Rightarrow> pystr \<Rightarrow> json git" where
  "branch_sha c repo branch =
     git_bind (send_checked c ''resolve_branch'' ''GET'' (in_repo repo (''git/ref/heads/'' @ branch)) None []) (\<lambda>v.
     git_bind (as_dict v) (\<lambda>payload.
     git_bind (as_dict (map_of payload ''object'')) (\<lambda>obj. git_lift (map_of obj ''sha''))))"

definition github_create_branch :: "git_client \<Rightarrow> pystr \<Rightarrow> pystr \<Rightarrow> pystr \<Rightarrow> unit git" where
  "github_create_branch c repo branch base =
     git_bind (branch_sha c repo base) (\<lambda>sha.
     git_bind (git_send c ''POST'' (in_repo repo ''git/refs'')
       (Some [(''ref'', JStr (''refs/heads/'' @ branch)), (''sha'', sha)]) []) (\<lambda>r.
       raise_for c ''create_branch'' r))"

text \<open>The paths of the blobs: an item that is no dictionary or a blob without a path raises.\<close>

fun blob_paths :: "json list \<Rightarrow> json list option" where
  "blob_paths [] = Some []"
| "blob_paths (JObj kvs # xs) =
     (if map_of kvs ''type'' = Some (JStr ''blob'')
      then (case map_of kvs ''path'' of None \<Rightarrow> None | Some p \<Rightarrow> map_option ((#) p) (blob_paths xs))
      else blob_paths xs)"
| "blob_paths (x # xs) = None"

definition tree_files :: "git_client \<Rightarrow> pystr \<Rightarrow> pystr \<Rightarrow> pystr \<Rightarrow> json \<Rightarrow> json list git" where
  "tree_files c repo ref sha_text flag =
     git_bind (send_checked c ''list_files'' ''GET'' (in_repo repo (''git/trees/'' @ sha_text)) None
       [(''recursive'', flag)]) (\<lambda>v.
     git_bind (as_dict v) (\<lambda>payload.
       if \<not> json_falsy (map_of payload ''truncated'')
       then git_raise (Git_raised (''list_files: tree for '' @ repo @ ''@'' @ ref @ '' was truncated by the API''))
       else git_lift (case map_of payload ''tree'' of
              None \<Rightarrow> Some []
            | t \<Rightarrow> (case iterated t of None \<Rightarrow> None | Some xs \<Rightarrow> blob_paths xs))))"

definition gitea_list_files :: "git_client \<Rightarrow> pystr \<Rightarrow> pystr \<Rightarrow> json list git" where
  "gitea_list_files c repo ref = tree_files c repo ref ref (JStr ''true'')"

definition github_list_files :: "git_client \<Rightarrow> pystr \<Rightarrow> pystr \<Rightarrow> json list git" where
  "github_list_files c repo ref =
     git_bind (branch_sha c repo ref) (\<lambda>sha.
       tree_files c repo ref (case sha of JStr s \<Rightarrow> s | v \<Rightarrow> gc_str c v) (JStr ''1''))"

section \<open>Pull requests\<close>

record opened_pr =
  op_url :: pystr
  op_number :: int

text \<open>\<open>int(value)\<close> of a decoded value.\<close>

definition json_int :: "json \<Rightarrow> int option" where
  "json_int v =
     (case v of
        JInt n \<Rightarrow> Some n
      | JBool b \<Rightarrow> Some (if b then 1 else 0)
      | JFloat q \<Rightarrow> Some (if 0 \<le> q then \<lfloor>q\<rfloor> else - \<lfloor>- q\<rfloor>)
      | JStr s \<Rightarrow> py_int s
      | _ \<Rightarrow> None)"

definition opened_number :: "(pystr \<times> json) list \<Rightarrow> int option" where
  "opened_number data = json_int (case map_of data ''number'' of None \<Rightarrow> JInt 0 | Some v \<Rightarrow> v)"

definition opened_of :: "(pystr \<times> json) list \<Rightarrow> int \<Rightarrow> opened_pr option" where
  "opened_of data number =
     (case (case map_of data ''html_url'' of None \<Rightarrow> JStr [] | Some v \<Rightarrow> v) of
        JStr url \<Rightarrow> Some \<lparr>op_url = url, op_number = number\<rparr>
      | _ \<Rightarrow> None)"

definition pull_body :: "pystr \<Rightarrow> pystr \<Rightarrow> pystr \<Rightarrow> pystr \<Rightarrow> (pystr \<times> json) list" where
  "pull_body heading body branch base =
     [(''title'', JStr heading), (''body'', JStr body), (''head'', JStr branch), (''base'', JStr base)]"

text \<open>The id of the label with the name: \<open>None\<close> is a \<open>KeyError\<close> or \<open>AttributeError\<close>.\<close>

fun label_id :: "pystr \<Rightarrow> json list \<Rightarrow> json option option" where
  "label_id label [] = Some None"
| "label_id label (JObj kvs # xs) =
     (if map_of kvs ''name'' = Some (JStr label) then map_option Some (map_of kvs ''id'') else label_id label xs)"
| "label_id label (x # xs) = None"

definition resolve_label_ids :: "git_client \<Rightarrow> pystr \<Rightarrow> pystr \<Rightarrow> json list git" where
  "resolve_label_ids c repo label =
     git_catch
       (git_bind (send_checked c ''list_labels'' ''GET'' (in_repo repo ''labels'') None []) (\<lambda>v.
        git_bind (git_lift (case iterated v of None \<Rightarrow> None | Some xs \<Rightarrow> label_id label xs)) (\<lambda>found.
          case found of
            Some i \<Rightarrow> git_return [i]
          | None \<Rightarrow>
              git_bind (send_checked c ''create_label'' ''POST'' (in_repo repo ''labels'')
                (Some [(''name'', JStr label), (''color'', JStr ''#0366d6'')]) []) (\<lambda>w.
              git_bind (as_dict w) (\<lambda>created.
              git_bind (git_lift (map_of created ''id'')) (\<lambda>i. git_return [i]))))))
       []"

definition gitea_open_pr ::
  "git_client \<Rightarrow> pystr \<Rightarrow> pystr \<Rightarrow> pystr \<Rightarrow> pystr \<Rightarrow> pystr \<Rightarrow> pystr option \<Rightarrow> opened_pr git" where
  "gitea_open_pr c repo heading body branch base label =
     git_bind (if truthy label then resolve_label_ids c repo (the label) else git_return []) (\<lambda>ids.
     git_bind (send_checked c ''open_pr'' ''POST'' (in_repo repo ''pulls'')
       (Some (pull_body heading body branch base @ (if ids = [] then [] else [(''labels'', JList ids)]))) []) (\<lambda>v.
     git_bind (as_dict v) (\<lambda>data.
     git_bind (git_lift (opened_number data)) (\<lambda>n. git_lift (opened_of data n)))))"

definition add_label :: "git_client \<Rightarrow> pystr \<Rightarrow> int \<Rightarrow> pystr \<Rightarrow> unit git" where
  "add_label c repo number label =
     git_catch
       (git_bind (git_send c ''POST'' (in_repo repo (''issues/'' @ show_int number @ ''/labels''))
          (Some [(''labels'', JList [JStr label])]) []) (\<lambda>r. raise_for c ''add_label'' r))
       ()"

definition github_open_pr ::
  "git_client \<Rightarrow> pystr \<Rightarrow> pystr \<Rightarrow> pystr \<Rightarrow> pystr \<Rightarrow> pystr \<Rightarrow> pystr option \<Rightarrow> opened_pr git" where
  "github_open_pr c repo heading body branch base label =
     git_bind (send_checked c ''open_pr'' ''POST'' (in_repo repo ''pulls'')
       (Some (pull_body heading body branch base)) []) (\<lambda>v.
     git_bind (as_dict v) (\<lambda>data.
     git_bind (git_lift (opened_number data)) (\<lambda>n.
     git_bind (if truthy label then add_label c repo n (the label) else git_return ()) (\<lambda>u.
       git_lift (opened_of data n)))))"

text \<open>\<open>any(lbl.get("name") == label ...)\<close>: labels behind the first match are not looked at.\<close>

fun has_label :: "pystr \<Rightarrow> json list \<Rightarrow> bool option" where
  "has_label label [] = Some False"
| "has_label label (JObj kvs # xs) =
     (if map_of kvs ''name'' = Some (JStr label) then Some True else has_label label xs)"
| "has_label label (x # xs) = None"

fun labelled :: "pystr \<Rightarrow> json list \<Rightarrow> json list option" where
  "labelled label [] = Some []"
| "labelled label (JObj kvs # xs) =
     (case (if json_falsy (map_of kvs ''labels'') then Some [] else iterated (map_of kvs ''labels'')) of
        None \<Rightarrow> None
      | Some ls \<Rightarrow>
          (case has_label label ls of
             None \<Rightarrow> None
           | Some b \<Rightarrow> map_option (\<lambda>rest. if b then JObj kvs # rest else rest) (labelled label xs)))"
| "labelled label (x # xs) = None"

definition list_open_prs :: "git_client \<Rightarrow> pystr \<Rightarrow> pystr option \<Rightarrow> json git" where
  "list_open_prs c repo label =
     git_bind (send_checked c ''list_open_prs'' ''GET'' (in_repo repo ''pulls'') None [(''state'', JStr ''open'')]) (\<lambda>v.
       case (label, v) of
         (None, Some prs) \<Rightarrow> git_return prs
       | (Some l, Some prs) \<Rightarrow>
           git_lift (case iterated (Some prs) of None \<Rightarrow> None | Some xs \<Rightarrow> map_option JList (labelled l xs))
       | (_, None) \<Rightarrow> git_raise Other_raised)"

definition close_pr :: "git_client \<Rightarrow> pystr \<Rightarrow> int \<Rightarrow> unit git" where
  "close_pr c repo number =
     git_bind (git_send c ''PATCH'' (in_repo repo (''pulls/'' @ show_int number))
       (Some [(''state'', JStr ''closed'')]) []) (\<lambda>r. raise_for c ''close_pr'' r)"

definition get_pr_state :: "git_client \<Rightarrow> pystr \<Rightarrow> int \<Rightarrow> pr_state git" where
  "get_pr_state c repo number =
     git_bind (send_checked c ''get_pr'' ''GET'' (in_repo repo (''pulls/'' @ show_int number)) None []) (\<lambda>v.
     git_bind (as_dict v) (\<lambda>data.
       git_return (if \<not> json_falsy (map_of data ''merged'') then PR_merged
                   else if map_of data ''state'' = Some (JStr ''open'') then PR_open else PR_closed)))"

text \<open>The comments page by page; no result when the fuel is used up.\<close>

definition COMMENT_PAGE :: nat where
  "COMMENT_PAGE = 100"

definition comment_page :: "git_client \<Rightarrow> pystr \<Rightarrow> int \<Rightarrow> nat \<Rightarrow> json list git" where
  "comment_page c repo number page =
     git_bind (send_checked c ''list_pr_comments'' ''GET''
       (in_repo repo (''issues/'' @ show_int number @ ''/comments'')) None
       [(gc_page_size c, JInt (int COMMENT_PAGE)), (''page'', JInt (int page))]) (\<lambda>v.
     case v of
       None \<Rightarrow> git_raise Other_raised
     | Some b \<Rightarrow> if json_falsy v then git_return [] else git_lift (iterated v))"

fun comment_pages ::
  "nat \<Rightarrow> git_client \<Rightarrow> pystr \<Rightarrow> int \<Rightarrow> nat \<Rightarrow> json list \<Rightarrow> git_log \<Rightarrow>
     git_log \<times> (git_exception + json list) option" where
  "comment_pages 0 c repo number page acc tr = (tr, None)"
| "comment_pages (Suc n) c repo number page acc tr =
     (case comment_page c repo number page tr of
        (tr', Inl e) \<Rightarrow> (tr', Some (Inl e))
      | (tr', Inr batch) \<Rightarrow>
          if batch = [] then (tr', Some (Inr acc))
          else if length batch < COMMENT_PAGE then (tr', Some (Inr (acc @ batch)))
          else comment_pages n c repo number (Suc page) (acc @ batch) tr')"

definition list_pr_comments ::
  "nat \<Rightarrow> git_client \<Rightarrow> pystr \<Rightarrow> int \<Rightarrow> git_log \<Rightarrow> git_log \<times> (git_exception + json list) option" where
  "list_pr_comments fuel c repo number = comment_pages fuel c repo number 1 []"

section \<open>What an operation may send\<close>

definition sends :: "(git_request \<Rightarrow> bool) \<Rightarrow> 'a git \<Rightarrow> bool" where
  "sends P m \<longleftrightarrow> (\<forall>tr. \<exists>new. fst (m tr) = tr @ new \<and> list_all (P \<circ> fst) new)"

lemma sendsD: "sends P m \<Longrightarrow> m tr = (tr', x) \<Longrightarrow> \<exists>new. tr' = tr @ new \<and> list_all (P \<circ> fst) new"
  unfolding sends_def by (metis fst_conv)

lemma sends_pure: "sends P (git_return x)" "sends P (git_raise e)" "sends P (git_lift v)" "sends P (as_dict w)"
  by (auto simp: sends_def git_return_def git_raise_def git_lift_def as_dict_def split: option.splits json.splits)

lemma sends_raise_for: "sends P (raise_for c action r)"
  by (cases r) (auto simp: sends_def raise_for_def git_raise_def git_return_def)

lemma sends_bind:
  assumes "sends P m" "\<And>x. sends P (f x)"
  shows "sends P (git_bind m f)"
  unfolding sends_def
proof
  fix tr
  obtain tr1 x where m: "m tr = (tr1, x)" by fastforce
  obtain new where new: "tr1 = tr @ new" "list_all (P \<circ> fst) new" using sendsD [OF assms(1) m] by blast
  show "\<exists>new. fst (git_bind m f tr) = tr @ new \<and> list_all (P \<circ> fst) new"
  proof (cases x)
    case (Inr y)
    obtain tr2 z where f: "f y tr1 = (tr2, z)" by fastforce
    obtain more where "tr2 = tr1 @ more" "list_all (P \<circ> fst) more" using sendsD [OF assms(2) f] by blast
    then show ?thesis using m Inr f new by (intro exI [of _ "new @ more"]) (simp add: git_bind_def)
  qed (use m new in \<open>simp add: git_bind_def\<close>)
qed

lemma sends_catch: "sends P m \<Longrightarrow> sends P (git_catch m x)"
  unfolding sends_def
proof
  fix tr
  assume "\<forall>tr. \<exists>new. fst (m tr) = tr @ new \<and> list_all (P \<circ> fst) new"
  moreover have "fst (git_catch m x tr) = fst (m tr)"
    by (auto simp: git_catch_def split: prod.splits sum.splits git_exception.splits)
  ultimately show "\<exists>new. fst (git_catch m x tr) = tr @ new \<and> list_all (P \<circ> fst) new" by simp
qed

definition the_request ::
  "git_client \<Rightarrow> pystr \<Rightarrow> pystr \<Rightarrow> (pystr \<times> json) list option \<Rightarrow> (pystr \<times> json) list \<Rightarrow> git_request" where
  "the_request c meth path body params =
     \<lparr>gr_method = meth, gr_url = gc_root c @ ''/'' @ lstrip_by slash path, gr_json = body, gr_params = params\<rparr>"

lemma sends_send: "P (the_request c meth path body params) \<Longrightarrow> sends P (git_send c meth path body params)"
  by (auto simp: sends_def git_send_def the_request_def Let_def split: git_answer.splits)

lemma sends_checked: "P (the_request c meth path body params) \<Longrightarrow> sends P (send_checked c action meth path body params)"
  unfolding send_checked_def by (intro sends_bind sends_send sends_raise_for sends_pure)

section \<open>The provider interface\<close>

datatype git_kind = Gitea | GitHub

datatype git_call =
    Create_branch pystr pystr pystr
  | Read_file pystr pystr pystr
  | List_files pystr pystr
  | Commit_file pystr pystr pystr pystr pystr
  | Delete_file pystr pystr pystr pystr
  | Open_pr pystr pystr pystr pystr pystr "pystr option"
  | List_open_prs pystr "pystr option"
  | Close_pr pystr int
  | Get_pr_state pystr int
  | List_pr_comments pystr int

text \<open>The trace a call leaves, whatever it returns or raises.\<close>

fun perform :: "git_kind \<Rightarrow> git_client \<Rightarrow> nat \<Rightarrow> git_call \<Rightarrow> git_log \<Rightarrow> git_log" where
  "perform k c n (Create_branch r b base) tr =
     (fst ((case k of Gitea \<Rightarrow> gitea_create_branch c r b base | GitHub \<Rightarrow> github_create_branch c r b base) tr))"
| "perform k c n (Read_file r p ref) tr = (fst (read_file c r p ref tr))"
| "perform k c n (List_files r ref) tr =
     (fst ((case k of Gitea \<Rightarrow> gitea_list_files c r ref | GitHub \<Rightarrow> github_list_files c r ref) tr))"
| "perform k c n (Commit_file r p x b m) tr = (fst (commit_file c r p x b m tr))"
| "perform k c n (Delete_file r p b m) tr = (fst (delete_file c r p b m tr))"
| "perform k c n (Open_pr r h x b base l) tr =
     (fst ((case k of Gitea \<Rightarrow> gitea_open_pr c r h x b base l | GitHub \<Rightarrow> github_open_pr c r h x b base l) tr))"
| "perform k c n (List_open_prs r l) tr = (fst (list_open_prs c r l tr))"
| "perform k c n (Close_pr r i) tr = (fst (close_pr c r i tr))"
| "perform k c n (Get_pr_state r i) tr = (fst (get_pr_state c r i tr))"
| "perform k c n (List_pr_comments r i) tr = fst (list_pr_comments n c r i tr)"

text \<open>The requests other than reads that a call stands for.\<close>

definition is_read :: "git_request \<Rightarrow> bool" where
  "is_read rq \<longleftrightarrow> gr_method rq = ''GET'' \<and> gr_json rq = None"

fun asked_write :: "git_client \<Rightarrow> git_call \<Rightarrow> git_request \<Rightarrow> bool" where
  "asked_write c (Create_branch r b base) rq \<longleftrightarrow>
     (\<exists>sha. rq \<in> {the_request c ''POST'' (in_repo r ''branches'')
                (Some [(''new_branch_name'', JStr b), (''old_branch_name'', JStr base)]) [],
              the_request c ''POST'' (in_repo r ''git/refs'')
                (Some [(''ref'', JStr (''refs/heads/'' @ b)), (''sha'', sha)]) []})"
| "asked_write c (Commit_file r p x b m) rq \<longleftrightarrow>
     (\<exists>sha. rq = the_request c ''PUT'' (file_path r p) (Some (commit_body x b m sha)) [])"
| "asked_write c (Delete_file r p b m) rq \<longleftrightarrow>
     (\<exists>sha. rq = the_request c ''DELETE'' (file_path r p)
        (Some [(''message'', JStr m), (''sha'', sha), (''branch'', JStr b)]) [])"
| "asked_write c (Open_pr r h x b base l) rq \<longleftrightarrow>
     (\<exists>labels. rq = the_request c ''POST'' (in_repo r ''pulls'') (Some (pull_body h x b base @ labels)) []) \<or>
     truthy l \<and>
       (\<exists>number. rq \<in> {the_request c ''POST'' (in_repo r ''labels'')
                   (Some [(''name'', JStr (the l)), (''color'', JStr ''#0366d6'')]) [],
                 the_request c ''POST'' (in_repo r (''issues/'' @ show_int number @ ''/labels''))
                   (Some [(''labels'', JList [JStr (the l)])]) []})"
| "asked_write c (Close_pr r i) rq \<longleftrightarrow>
     rq = the_request c ''PATCH'' (in_repo r (''pulls/'' @ show_int i)) (Some [(''state'', JStr ''closed'')]) []"
| "asked_write c q rq \<longleftrightarrow> False"

definition may_send :: "git_client \<Rightarrow> git_call \<Rightarrow> git_request \<Rightarrow> bool" where
  "may_send c q rq \<longleftrightarrow> is_read rq \<or> asked_write c q rq"

lemma sends_if: "(b \<Longrightarrow> sends P m) \<Longrightarrow> (\<not> b \<Longrightarrow> sends P n) \<Longrightarrow> sends P (if b then m else n)"
  by simp

lemma sends_option:
  "sends P m \<Longrightarrow> (\<And>x. sends P (f x)) \<Longrightarrow> sends P (case v of None \<Rightarrow> m | Some x \<Rightarrow> f x)"
  by (cases v) simp_all

lemmas sends_intros =
  sends_bind sends_catch sends_pure sends_raise_for sends_checked sends_send sends_if sends_option

lemma may_send_read: "may_send c q (the_request c ''GET'' path None params)"
  by (simp add: may_send_def is_read_def the_request_def)

lemma may_send_write:
  "may_send c (Create_branch r b base) (the_request c ''POST'' (in_repo r ''branches'')
     (Some [(''new_branch_name'', JStr b), (''old_branch_name'', JStr base)]) [])"
  "may_send c (Create_branch r b base) (the_request c ''POST'' (in_repo r ''git/refs'')
     (Some [(''ref'', JStr (''refs/heads/'' @ b)), (''sha'', sha)]) [])"
  "may_send c (Commit_file r p x b m) (the_request c ''PUT'' (file_path r p) (Some (commit_body x b m v)) [])"
  "may_send c (Delete_file r p b m) (the_request c ''DELETE'' (file_path r p)
     (Some [(''message'', JStr m), (''sha'', sha), (''branch'', JStr b)]) [])"
  "may_send c (Open_pr r h x b base l) (the_request c ''POST'' (in_repo r ''pulls'')
     (Some (pull_body h x b base @ labels)) [])"
  "truthy l \<Longrightarrow> may_send c (Open_pr r h x b base l) (the_request c ''POST'' (in_repo r ''labels'')
     (Some [(''name'', JStr (the l)), (''color'', JStr ''#0366d6'')]) [])"
  "truthy l \<Longrightarrow> may_send c (Open_pr r h x b base l)
     (the_request c ''POST'' (in_repo r (''issues/'' @ show_int number @ ''/labels''))
       (Some [(''labels'', JList [JStr (the l)])]) [])"
  "may_send c (Close_pr r i) (the_request c ''PATCH'' (in_repo r (''pulls/'' @ show_int i))
     (Some [(''state'', JStr ''closed'')]) [])"
  unfolding may_send_def by auto

lemma may_send_plain_pull:
  "may_send c (Open_pr r h x b base l) (the_request c ''POST'' (in_repo r ''pulls'')
     (Some (pull_body h x b base)) [])"
  using may_send_write(5) [where labels = "[]"] by simp

lemmas may_send_intros = may_send_read may_send_write may_send_plain_pull

lemma file_calls_send:
  "sends (may_send c (Create_branch r b base)) (gitea_create_branch c r b base)"
  "sends (may_send c (Create_branch r b base)) (github_create_branch c r b base)"
  "sends (may_send c (Read_file r p ref)) (read_file c r p ref)"
  "sends (may_send c (List_files r ref)) (gitea_list_files c r ref)"
  "sends (may_send c (List_files r ref)) (github_list_files c r ref)"
  "sends (may_send c (Commit_file r p x b m)) (commit_file c r p x b m)"
  "sends (may_send c (Delete_file r p b m)) (delete_file c r p b m)"
  unfolding gitea_create_branch_def github_create_branch_def branch_sha_def read_file_def gitea_list_files_def
    github_list_files_def tree_files_def file_sha_def commit_file_def delete_file_def Let_def
  by (intro sends_intros may_send_intros)+

lemma sends_list_open: "sends (may_send c (List_open_prs r l)) (list_open_prs c r l)"
  unfolding list_open_prs_def
  by (intro sends_intros may_send_intros) (auto intro: sends_intros split: option.splits)

lemma pull_calls_send:
  "sends (may_send c (Open_pr r h x b base l)) (gitea_open_pr c r h x b base l)"
  "sends (may_send c (Open_pr r h x b base l)) (github_open_pr c r h x b base l)"
  "sends (may_send c (Close_pr r i)) (close_pr c r i)"
  "sends (may_send c (Get_pr_state r i)) (get_pr_state c r i)"
  unfolding gitea_open_pr_def github_open_pr_def resolve_label_ids_def add_label_def close_pr_def get_pr_state_def
  by (intro sends_intros may_send_intros; assumption?)+

lemma comment_pages_send:
  "\<exists>new. fst (comment_pages n c r i page acc tr) = tr @ new \<and> list_all (may_send c (List_pr_comments r i) \<circ> fst) new"
proof (induction n arbitrary: page acc tr)
  case (Suc n)
  have "sends (may_send c (List_pr_comments r i)) (comment_page c r i page)"
    unfolding comment_page_def by (intro sends_intros may_send_intros)
  moreover obtain tr1 y where one: "comment_page c r i page tr = (tr1, y)" by fastforce
  ultimately obtain new where new: "tr1 = tr @ new" "list_all (may_send c (List_pr_comments r i) \<circ> fst) new"
    using sendsD by blast
  have "fst (comment_pages (Suc n) c r i page acc tr) \<in>
      {tr1} \<union> range (\<lambda>batch. fst (comment_pages n c r i (Suc page) (acc @ batch) tr1))"
    using one by (cases y) auto
  moreover have "\<exists>rest. fst (comment_pages n c r i (Suc page) (acc @ batch) tr1) = tr @ (new @ rest) \<and>
      list_all (may_send c (List_pr_comments r i) \<circ> fst) (new @ rest)" for batch
    using Suc.IH [of "Suc page" "acc @ batch" tr1] new by (auto simp: o_def)
  ultimately show ?case using new by (elim UnE imageE singletonE) (metis, metis)
qed simp

text \<open>A hosting interface: a call only adds requests it stands for to the log.\<close>

locale hosting =
  fixes call :: "git_call \<Rightarrow> git_log \<Rightarrow> git_log"
    and may :: "git_call \<Rightarrow> git_request \<Rightarrow> bool"
  assumes call_extends: "\<exists>new. call q tr = tr @ new \<and> list_all (may q \<circ> fst) new"
begin

lemma run_extends:
  "\<exists>new. fold call qs tr = tr @ new \<and> list_all (\<lambda>e. \<exists>q \<in> set qs. may q (fst e)) new"
proof (induction qs arbitrary: tr)
  case (Cons q qs)
  obtain new where new: "call q tr = tr @ new" "list_all (may q \<circ> fst) new" using call_extends by blast
  obtain rest where "fold call qs (tr @ new) = tr @ new @ rest" "list_all (\<lambda>e. \<exists>q \<in> set qs. may q (fst e)) rest"
    using Cons.IH [of "tr @ new"] by auto
  then show ?case using new by (intro exI [of _ "new @ rest"]) (auto simp: list_all_iff)
qed simp

end

lemmas calls_extend =
  file_calls_send [unfolded sends_def, rule_format] pull_calls_send [unfolded sends_def, rule_format]
  sends_list_open [unfolded sends_def, rule_format] comment_pages_send

lemma perform_extends: "\<exists>new. perform k c n q tr = tr @ new \<and> list_all (may_send c q \<circ> fst) new"
  by (cases q; cases k; simp only: perform.simps git_kind.case list_pr_comments_def; rule calls_extend)

interpretation provider: hosting "perform k c n" "may_send c" for k c n
  by unfold_locales (rule perform_extends)


section \<open>A committed file reads back\<close>

text \<open>
  C31: A file reads back as it was committed: when the service serves the content of the commit
  request, with whatever line breaks it wraps it in, reading the file returns the text that was
  handed to the commit.
\<close>
theorem committed_file_reads_back:
  assumes "map_of (commit_body content branch message sha) ''content'' = Some (JStr sent)"
    and "gc_http c tr (the_request c ''GET'' (file_path repo path) None [(''ref'', JStr ref)]) =
      Answered 200 shown (Some (JObj payload))"
    and "map_of payload ''encoding'' = Some (JStr ''base64'')" "map_of payload ''content'' = Some (JStr wrapped)"
    and "filter (\<lambda>x. x \<noteq> CHR 0x0A) wrapped = sent"
  shows "snd (read_file c repo path ref tr) = Inr (JStr content)"
proof -
  have sent: "sent = b64_encode (utf8_encode content)" using assms(1) by (simp add: commit_body_def encode_content_def)
  have "\<forall>x \<in> set sent. in_b64 x \<and> code_point x < 128"
    unfolding sent by (rule b64_encode_chars [OF utf8_bytes])
  then have chars: "\<forall>x \<in> set wrapped. x \<noteq> CHR 0x0A \<longrightarrow> in_b64 x \<and> code_point x < 128" using assms(5) by auto
  have each: "in_b64 x \<longleftrightarrow> x \<noteq> CHR 0x0A" "code_point x < 128" if "x \<in> set wrapped" for x
    using chars [rule_format, OF that] newline_outside newline_ascii by (cases "x = CHR 0x0A"; simp)+
  have "filter in_b64 wrapped = filter (\<lambda>x. x \<noteq> CHR 0x0A) wrapped" by (rule filter_cong [OF refl each(1)])
  moreover have "\<forall>x \<in> set wrapped. code_point x < 128" by (rule ballI) (rule each(2))
  ultimately have "b64_decode wrapped = Some (utf8_encode content)"
    using assms(5) sent by (intro b64_round_trip [OF utf8_bytes]) simp_all
  then have decoded: "decode_content (JStr wrapped) = Some content" by (simp add: decode_content_def utf8_round_trip)
  have "snd (send_checked c ''read_file'' ''GET'' (file_path repo path) None [(''ref'', JStr ref)] tr) =
      Inr (Some (JObj payload))"
    using assms(2)
    by (simp add: send_checked_def git_bind_def git_send_def the_request_def Let_def raise_for_def git_return_def)
  moreover have "(if json_falsy (Some (JStr wrapped)) then JStr [] else JStr wrapped) = JStr wrapped"
    by (simp add: json_falsy_def)
  ultimately show ?thesis
    using assms(3,4) decoded
    by (auto simp: read_file_def git_bind_def as_dict_def git_lift_def git_return_def Let_def split: prod.splits)
qed

section \<open>All comments of a pull request\<close>

definition comments_request :: "git_client \<Rightarrow> pystr \<Rightarrow> int \<Rightarrow> nat \<Rightarrow> git_request" where
  "comments_request c repo number page =
     the_request c ''GET'' (in_repo repo (''issues/'' @ show_int number @ ''/comments'')) None
       [(gc_page_size c, JInt 100), (''page'', JInt (int page))]"

lemma comment_page_answered:
  assumes "gc_http c tr (comments_request c repo number page) = Answered 200 shown (Some (JList batch))"
  shows "snd (comment_page c repo number page tr) = Inr batch"
  using assms
  by (auto simp: comment_page_def comments_request_def COMMENT_PAGE_def send_checked_def git_bind_def git_send_def
      the_request_def Let_def raise_for_def git_return_def git_lift_def json_falsy_def iterated_def)

lemma comment_pages_complete:
  assumes served: "\<And>tr page. gc_http c tr (comments_request c repo number (Suc page)) =
      Answered 200 [] (Some (JList (take 100 (drop (100 * page) cs))))"
  shows "100 * k \<le> length cs \<Longrightarrow> length cs < 100 * (k + n) \<Longrightarrow>
    snd (comment_pages n c repo number (Suc k) (take (100 * k) cs) tr) = Some (Inr cs)"
proof (induction n arbitrary: k tr)
  case (Suc n)
  let ?batch = "take 100 (drop (100 * k) cs)"
  obtain tr1 where one: "comment_page c repo number (Suc k) tr = (tr1, Inr ?batch)"
    using comment_page_answered [OF served] by (metis prod.collapse)
  show ?case
  proof (cases "length ?batch < 100")
    case True
    then have "take (100 * k) cs @ ?batch = cs" by (simp add: min_def split: if_splits)
    then show ?thesis using one True by (auto simp: COMMENT_PAGE_def)
  next
    case False
    then have "100 * Suc k \<le> length cs" by simp
    moreover have "take (100 * k) cs @ ?batch = take (100 * Suc k) cs" by (simp add: take_add [symmetric] add.commute)
    ultimately show ?thesis using one False Suc.IH [of "Suc k" tr1] Suc.prems by (simp add: COMMENT_PAGE_def)
  qed
qed simp

text \<open>
  Every comment of a pull request is read, in order: against a service that serves the
  comments in pages of a hundred, the loop over the pages ends after one request for each full
  page and one more, and returns all of them.
\<close>
theorem all_comments_read:
  assumes "\<And>tr page. gc_http c tr (comments_request c repo number (Suc page)) =
      Answered 200 [] (Some (JList (take 100 (drop (100 * page) cs))))"
    and "length cs div 100 < n"
  shows "snd (list_pr_comments n c repo number tr) = Some (Inr cs)"
  using comment_pages_complete [OF assms(1), where k = 0 and n = n] assms(2)
  by (simp add: list_pr_comments_def div_less_iff_less_mult mult.commute)

text \<open>
  A service that takes no page number for comments answers every page with all of them; with a
  hundred comments or more the loop then never ends.
\<close>
theorem unpaged_comments_never_end:
  assumes "\<And>tr page. gc_http c tr (comments_request c repo number page) = Answered 200 [] (Some (JList cs))"
    and "100 \<le> length cs"
  shows "snd (list_pr_comments n c repo number tr) = None"
proof -
  have "snd (comment_pages n c repo number page acc tr) = None" for page acc
  proof (induction n arbitrary: page acc tr)
    case (Suc n)
    obtain tr1 where "comment_page c repo number page tr = (tr1, Inr cs)"
      using comment_page_answered [OF assms(1)] by (metis prod.collapse)
    then show ?case using Suc assms(2) by (auto simp: COMMENT_PAGE_def)
  qed simp
  then show ?thesis by (simp add: list_pr_comments_def)
qed

section \<open>Witnesses\<close>

definition file_host :: git_client where
  "file_host =
     gitea_client ''https://git.lan/'' ''t''
       (\<lambda>tr rq. Answered 200 [] (Some (JObj [(''encoding'', JStr ''base64''), (''content'', JStr (''YWI='' @ [CHR 0x0A]))])))
       (\<lambda>v. [])"

lemma committed_file_reads_back_witness:
  "map_of (commit_body ''ab'' ''fix'' ''m'' None) ''content'' = Some (JStr ''YWI='') \<and>
   snd (read_file file_host ''o/r'' ''f'' ''main'' []) = Inr (JStr ''ab'')"
proof
  show sent: "map_of (commit_body ''ab'' ''fix'' ''m'' None) ''content'' = Some (JStr ''YWI='')" by code_simp
  show "snd (read_file file_host ''o/r'' ''f'' ''main'' []) = Inr (JStr ''ab'')"
    by (rule committed_file_reads_back [OF sent, where wrapped = "''YWI='' @ [CHR 0x0A]" and shown = "[]"
          and payload = "[(''encoding'', JStr ''base64''), (''content'', JStr (''YWI='' @ [CHR 0x0A]))]"])
      (simp_all add: file_host_def gitea_client_def)
qed

definition page_asked :: "git_request \<Rightarrow> nat" where
  "page_asked rq = (case map_of (gr_params rq) ''page'' of Some (JInt n) \<Rightarrow> nat n | _ \<Rightarrow> 0)"

definition comment_host :: "json list \<Rightarrow> git_client" where
  "comment_host cs =
     github_client None ''t''
       (\<lambda>tr rq. Answered 200 [] (Some (JList (take 100 (drop (100 * (page_asked rq - 1)) cs))))) (\<lambda>v. [])"

lemma all_comments_read_witness:
  "snd (list_pr_comments 2 (comment_host [JInt 1, JInt 2]) ''o/r'' 7 []) = Some (Inr [JInt 1, JInt 2])"
proof (rule all_comments_read)
  show "gc_http (comment_host [JInt 1, JInt 2]) tr (comments_request (comment_host [JInt 1, JInt 2]) ''o/r'' 7 (Suc page)) =
      Answered 200 [] (Some (JList (take 100 (drop (100 * page) [JInt 1, JInt 2]))))" for tr page
    by (simp add: comment_host_def github_client_def comments_request_def the_request_def page_asked_def nat_add_distrib)
qed simp

end
