(* ===== verification/ApprovalPages.thy ===== *)
theory ApprovalPages
  imports ApprovalRoutes
begin

text \<open>
  \<open>webhooks/approval.py\<close>: the HTML of the pages, which people open from an email. The texts on
  them come from alerts. \<open>fmt\<close> is \<open>strftime\<close> with the format of \<open>format_time\<close>.
\<close>

section \<open>Escaping\<close>

definition QUOTE :: pystr where
  "QUOTE = [CHR 0x27]"

text \<open>\<open>html.escape\<close>, which escapes both quote characters unless told otherwise.\<close>

definition escape_char :: "char \<Rightarrow> pystr" where
  "escape_char c =
     (if c = CHR ''&'' then ''&amp;''
      else if c = CHR ''<'' then ''&lt;''
      else if c = CHR ''>'' then ''&gt;''
      else if c = CHR 0x22 then ''&quot;''
      else if c = CHR 0x27 then ''&#x27;''
      else [c])"

definition html_escape :: "pystr \<Rightarrow> pystr" where
  "html_escape s = concat (map escape_char s)"

section \<open>The document\<close>

definition STYLE :: pystr where
  "STYLE =
     ''body{font-family:system-ui,sans-serif;background:#f6f8fa;color:#1f2328;margin:0;'' @
     ''padding:16px}main{max-width:560px;margin:10vh auto;background:#fff;border:1px solid '' @
     ''#d0d7de;border-radius:8px;padding:24px}h1{font-size:1.3em;margin-top:0}dl{display:grid;'' @
     ''grid-template-columns:max-content 1fr;gap:4px 12px}dt{color:#57606a}dd{margin:0;'' @
     ''overflow-wrap:anywhere}button{font-size:1em;padding:.6em 1.2em;border:0;border-radius:6px;'' @
     ''color:#fff;cursor:pointer}.approve{background:#2da44e}.cancel{background:#cf222e}'' @
     ''.note{color:#57606a;font-size:.9em}''"

definition SECURITY_HEADERS :: "(pystr \<times> pystr) list" where
  "SECURITY_HEADERS =
     [(''Cache-Control'', ''no-store''), (''Referrer-Policy'', ''no-referrer''),
      (''X-Content-Type-Options'', ''nosniff''), (''X-Frame-Options'', ''DENY''),
      (''Content-Security-Policy'',
       ''default-src '' @ QUOTE @ ''none'' @ QUOTE @ ''; style-src '' @ QUOTE @ ''unsafe-inline'' @ QUOTE @
       ''; form-action '' @ QUOTE @ ''self'' @ QUOTE @ ''; frame-ancestors '' @ QUOTE @ ''none'' @ QUOTE @
       ''; base-uri '' @ QUOTE @ ''none'' @ QUOTE)]"

definition tagged :: "pystr \<Rightarrow> pystr \<Rightarrow> pystr" where
  "tagged tag s = ''<'' @ tag @ ''>'' @ html_escape s @ ''</'' @ tag @ ''>''"

definition page_html :: "pystr \<Rightarrow> pystr list \<Rightarrow> (pystr \<times> pystr) list \<Rightarrow> pystr \<Rightarrow> pystr" where
  "page_html heading paragraphs details form =
     ''<!doctype html><html lang='' @ QUOTE @ ''en'' @ QUOTE @ ''><head><meta charset='' @ QUOTE @ ''utf-8'' @ QUOTE @
     ''><meta name='' @ QUOTE @ ''viewport'' @ QUOTE @ '' content='' @ QUOTE @
     ''width=device-width, initial-scale=1'' @ QUOTE @ ''><meta name='' @ QUOTE @ ''robots'' @ QUOTE @
     '' content='' @ QUOTE @ ''noindex'' @ QUOTE @ ''>'' @ tagged ''title'' heading @ ''<style>'' @ STYLE @
     ''</style></head><body><main>'' @
     tagged ''h1'' heading @ concat (map (tagged ''p'') paragraphs) @
     (if details = [] then []
      else ''<dl>'' @ concat (map (\<lambda>(l, v). tagged ''dt'' l @ tagged ''dd'' v) details) @ ''</dl>'') @
     form @ ''</main></body></html>''"

fun resolved_words :: "patch_approval_status \<Rightarrow> pystr" where
  "resolved_words Patch_approved = ''approved, and the patch is running''"
| "resolved_words Patch_executed = ''approved, and the patch ran''"
| "resolved_words Patch_failed = ''approved, but the patch did not succeed''"
| "resolved_words Patch_cancelled = ''cancelled''"
| "resolved_words Patch_undelivered = ''closed''"
| "resolved_words Patch_pending = ''pending''"
| "resolved_words Patch_expired = ''expired''"

definition format_time :: "(datetime \<Rightarrow> pystr) \<Rightarrow> datetime option \<Rightarrow> pystr" where
  "format_time fmt v = (case v of None \<Rightarrow> ''unknown'' | Some d \<Rightarrow> fmt d)"

fun plan_text :: "run_plan \<Rightarrow> pystr" where
  "plan_text Plan_nothing = ''nothing (PATCHMON_ANSIBLE_PLAYBOOK is not set)''"
| "plan_text (Plan_playbook name host) = ''the Ansible playbook '' @ name @ '' against '' @ host"

definition confirm_form :: "approval_action \<Rightarrow> pystr \<Rightarrow> pystr" where
  "confirm_form action token =
     ''<form method='' @ QUOTE @ ''post'' @ QUOTE @ ''><input type='' @ QUOTE @ ''hidden'' @ QUOTE @
     '' name='' @ QUOTE @ ''token'' @ QUOTE @ '' value='' @ QUOTE @ html_escape token @ QUOTE @
     ''><button type='' @ QUOTE @ ''submit'' @ QUOTE @ '' class='' @ QUOTE @
     (case action of Action_approve \<Rightarrow> ''approve'' | Action_cancel \<Rightarrow> ''cancel'') @ QUOTE @ ''>'' @
     (case action of Action_approve \<Rightarrow> ''Approve patch'' | Action_cancel \<Rightarrow> ''Cancel request'') @ ''</button></form>''"

definition on_host :: "patch_approval \<Rightarrow> pystr" where
  "on_host a = subject a @ '' on '' @ ap_target_host a"

fun render_page :: "(datetime \<Rightarrow> pystr) \<Rightarrow> page \<Rightarrow> pystr" where
  "render_page fmt (Page_expired a) =
     page_html ''This link has expired''
       [''The request to patch '' @ on_host a @ '' expired at '' @ format_time fmt (Some (ap_expires_at a)) @
        '' without an answer.'', ''No action was taken.''] [] []"
| "render_page fmt (Page_used a) =
     page_html ''This link was already used''
       [''The request to patch '' @ on_host a @ '' was already '' @ resolved_words (ap_status a) @ '' ('' @
        format_time fmt (ap_resolved_at a) @ '').'', ''Each link works once. No further action was taken.''] [] []"
| "render_page fmt Page_invalid =
     page_html ''This link isn't valid''
       [''It may have been cut off or changed by your email client.'', ''No action was taken.''] [] []"
| "render_page fmt Page_read_only =
     page_html ''The server is in read-only mode''
       [''Its startup health check failed, so it will not run patches. No action was taken.'',
        ''The link still works until it expires, once the server restarts healthy.''] [] []"
| "render_page fmt (Page_confirm a action token p) =
     page_html
       ((case action of Action_approve \<Rightarrow> ''Approve'' | Action_cancel \<Rightarrow> ''Cancel'') @ '' patch for '' @ on_host a @ ''?'')
       [(case action of
           Action_approve \<Rightarrow> ''Confirming runs the patch now, using '' @ plan_text p @ ''.''
         | Action_cancel \<Rightarrow> ''Confirming closes this request without running anything.''),
        ''This request expires at '' @ format_time fmt (Some (ap_expires_at a)) @ ''.'']
       (describe a) (confirm_form action token)"
| "render_page fmt (Page_cancelled a) =
     page_html ''Request cancelled''
       [''The patch for '' @ on_host a @ '' will not run. No action was taken.''] (describe a) []"
| "render_page fmt (Page_approved a p) =
     page_html ''Patch approved''
       [''The patch for '' @ on_host a @ '' has started, using '' @ plan_text p @ ''.'',
        ''You'll get an email with the result when it finishes.''] (describe a) []"
| "render_page fmt Page_failed =
     page_html ''Something went wrong''
       [''The server hit an error handling this link. No action was taken.''] [] []"

section \<open>What a text can do to a page\<close>

text \<open>The characters that make markup: brackets and quotes.\<close>

definition is_markup :: "char \<Rightarrow> bool" where
  "is_markup c \<longleftrightarrow> c = CHR ''<'' \<or> c = CHR ''>'' \<or> c = CHR 0x22 \<or> c = CHR 0x27"

definition markup :: "pystr \<Rightarrow> pystr" where
  "markup s = filter is_markup s"

lemma markup_Nil [simp]: "markup [] = []"
  by (simp add: markup_def)

lemma markup_append [simp]: "markup (a @ b) = markup a @ markup b"
  by (simp add: markup_def)

lemma markup_escape_char: "markup (escape_char c) = []"
  by (auto simp: markup_def escape_char_def is_markup_def)

lemma markup_escape [simp]: "markup (html_escape s) = []"
  by (induction s) (simp_all add: html_escape_def markup_escape_char)

text \<open>Reading the entities back.\<close>

fun html_unescape :: "pystr \<Rightarrow> pystr" where
  "html_unescape [] = []"
| "html_unescape (c # s) =
     (if starts_with (c # s) ''&amp;'' then CHR ''&'' # html_unescape (drop 4 s)
      else if starts_with (c # s) ''&lt;'' then CHR ''<'' # html_unescape (drop 3 s)
      else if starts_with (c # s) ''&gt;'' then CHR ''>'' # html_unescape (drop 3 s)
      else if starts_with (c # s) ''&quot;'' then CHR 0x22 # html_unescape (drop 5 s)
      else if starts_with (c # s) ''&#x27;'' then CHR 0x27 # html_unescape (drop 5 s)
      else c # html_unescape s)"

lemma unescape_escape: "html_unescape (html_escape s) = s"
proof (induction s)
  case (Cons c s)
  have step: "html_escape (c # s) = escape_char c @ html_escape s" by (simp add: html_escape_def)
  show ?case unfolding step using Cons
    by (auto simp: escape_char_def starts_with_def)
qed (simp add: html_escape_def)

text \<open>A page with the same template whose texts are a plain letter where they were not empty.\<close>

definition plain_text :: "pystr \<Rightarrow> pystr" where
  "plain_text t = (if t = [] then [] else ''x'')"

definition plain_approval :: "patch_approval \<Rightarrow> patch_approval" where
  "plain_approval a =
     a\<lparr>ap_event := plain_text (ap_event a), ap_target_host := plain_text (ap_target_host a),
       ap_service := map_option plain_text (ap_service a),
       ap_current_version := map_option plain_text (ap_current_version a),
       ap_target_version := map_option plain_text (ap_target_version a),
       ap_severity := map_option plain_text (ap_severity a), ap_summary := map_option plain_text (ap_summary a)\<rparr>"

fun plain_page :: "page \<Rightarrow> page" where
  "plain_page (Page_expired a) = Page_expired (plain_approval a)"
| "plain_page (Page_used a) = Page_used (plain_approval a)"
| "plain_page (Page_confirm a action token p) = Page_confirm (plain_approval a) action ''x'' Plan_nothing"
| "plain_page (Page_cancelled a) = Page_cancelled (plain_approval a)"
| "plain_page (Page_approved a p) = Page_approved (plain_approval a) Plan_nothing"
| "plain_page p = p"

text \<open>The markup an element has whatever its text is.\<close>

definition tag_markup :: "pystr \<Rightarrow> pystr" where
  "tag_markup tag = markup (tagged tag [])"

lemma tagged_markup: "markup (tagged tag s) = tag_markup tag"
  by (simp only: tag_markup_def tagged_def markup_append markup_escape)

lemma concat_tagged: "markup (concat (map (tagged tag) ps)) = concat (map (\<lambda>p. tag_markup tag) ps)"
  by (induction ps) (simp_all add: tagged_markup)

lemma concat_rows:
  "markup (concat (map (\<lambda>(l, v). tagged ''dt'' l @ tagged ''dd'' v) ds)) =
     concat (map (\<lambda>p. tag_markup ''dt'' @ tag_markup ''dd'') ds)"
  by (induction ds) (auto simp: tagged_markup)

lemma concat_const: "length xs = length ys \<Longrightarrow> concat (map (\<lambda>x. c) xs) = concat (map (\<lambda>y. c) ys)"
  by (induction xs ys rule: list_induct2) simp_all

text \<open>The markup of a page depends on its shape and its form only.\<close>

lemma page_markup:
  assumes "length ps = length ps'" "length ds = length ds'" "markup form = markup form'"
  shows "markup (page_html h ps ds form) = markup (page_html h' ps' ds' form')"
proof -
  have rows: "concat (map (\<lambda>p. tag_markup ''dt'' @ tag_markup ''dd'') ds) =
      concat (map (\<lambda>p. tag_markup ''dt'' @ tag_markup ''dd'') ds')" by (rule concat_const [OF assms(2)])
  have paras: "concat (map (\<lambda>p. tag_markup ''p'') ps) = concat (map (\<lambda>p. tag_markup ''p'') ps')"
    by (rule concat_const [OF assms(1)])
  have empty: "(ds = []) = (ds' = [])" using assms(2) by auto
  have list: "markup (if ds = [] then [] else ''<dl>'' @ concat (map (\<lambda>(l, v). tagged ''dt'' l @ tagged ''dd'' v) ds) @ ''</dl>'') =
      markup (if ds' = [] then [] else ''<dl>'' @ concat (map (\<lambda>(l, v). tagged ''dt'' l @ tagged ''dd'' v) ds') @ ''</dl>'')"
    by (cases "ds' = []") (simp_all only: empty if_True if_False simp_thms markup_append concat_rows rows)
  show ?thesis
    by (simp only: page_html_def markup_append tagged_markup concat_tagged paras list assms(3))
qed

lemma form_markup: "markup (confirm_form action token) = markup (confirm_form action token')"
  by (simp only: confirm_form_def markup_append markup_escape)

lemma truthy_plain:
  "truthy (Some (plain_text t)) = truthy (Some t)" "truthy (map_option plain_text v) = truthy v"
  by (simp_all add: plain_text_def) (cases v; simp add: plain_text_def)

lemma describe_plain_length: "length (describe (plain_approval a)) = length (describe a)"
  by (simp add: describe_def plain_approval_def truthy_plain del: truthy.simps)

text \<open>
  However an alert's fields are chosen, the brackets and quotes of every page are those of the
  same page for an approval whose fields are single letters: no text adds, closes or changes an
  element or an attribute. And the browser reads each escaped text back as it was.
\<close>

theorem pages_not_injectable:
  "markup (render_page fmt p) = markup (render_page fmt' (plain_page p)) \<and> html_unescape (html_escape s) = s"
proof
  show "markup (render_page fmt p) = markup (render_page fmt' (plain_page p))"
    by (cases p) (auto intro!: page_markup form_markup simp: describe_plain_length)
qed (rule unescape_escape)

end
