(* ===== verification/EventLog.thy ===== *)
theory EventLog
  imports PyJson
begin

text \<open>
  \<open>logging/events.py\<close>, \<open>logging/tool_calls.py\<close> and \<open>errors.py\<close>: the redaction of a log event, the
  record of every tool call, and a reported failure as a protocol error. An event or result is
  the JSON value it is written as. The handlers of the logging library are left out.
\<close>

section \<open>Redaction\<close>

definition REDACT_SUBSTRINGS :: "pystr list" where
  "REDACT_SUBSTRINGS = [''token'', ''password'', ''secret'', ''authorization'', ''api_key'', ''apikey'']"

definition REDACTED :: pystr where
  "REDACTED = ''***redacted***''"

definition secret_named :: "pystr \<Rightarrow> bool" where
  "secret_named name \<longleftrightarrow>
     (let lowered = lower name
      in lowered = ''key'' \<or> ends_with lowered ''_key'' \<or> list_ex (contains lowered) REDACT_SUBSTRINGS)"

fun scrub :: "json \<Rightarrow> json" where
  "scrub (JObj kvs) = JObj (map (\<lambda>(k, v). (k, if secret_named k then JStr REDACTED else scrub v)) kvs)"
| "scrub (JList vs) = JList (map scrub vs)"
| "scrub v = v"

definition redact :: "(pystr \<times> json) list \<Rightarrow> (pystr \<times> json) list" where
  "redact event = map (\<lambda>(k, v). (k, if secret_named k then JStr REDACTED else scrub v)) event"

text \<open>The same value with other contents under the secret-named keys, at any depth.\<close>

fun other_secrets :: "(pystr \<Rightarrow> json \<Rightarrow> json) \<Rightarrow> json \<Rightarrow> json" where
  "other_secrets f (JObj kvs) = JObj (map (\<lambda>(k, v). (k, if secret_named k then f k v else other_secrets f v)) kvs)"
| "other_secrets f (JList vs) = JList (map (other_secrets f) vs)"
| "other_secrets f v = v"

lemma scrub_other_secrets: "scrub (other_secrets f v) = scrub v"
  by (induction f v rule: other_secrets.induct) (auto split: if_splits)

text \<open>The values found at the places a reader can reach without passing a secret-named key.\<close>

fun in_the_clear :: "json \<Rightarrow> json list" where
  "in_the_clear (JObj kvs) =
     JObj kvs # concat (map (\<lambda>(k, v). if secret_named k then [] else in_the_clear v) kvs)"
| "in_the_clear (JList vs) = JList vs # concat (map in_the_clear vs)"
| "in_the_clear v = [v]"

lemma scrub_id: "\<forall>x \<in> set (in_the_clear v). (\<forall>kvs. x = JObj kvs \<longrightarrow> (\<forall>(k, w) \<in> set kvs. \<not> secret_named k)) \<Longrightarrow> scrub v = v"
proof (induction v rule: scrub.induct)
  case (1 kvs)
  have plain: "\<not> secret_named k" if "(k, w) \<in> set kvs" for k w using 1(2) that by fastforce
  have "scrub w = w" if "(k, w) \<in> set kvs" for k w
  proof (rule 1(1) [OF that])
    show "\<not> secret_named k" by (rule plain [OF that])
    have "set (in_the_clear w) \<subseteq> set (in_the_clear (JObj kvs))" using that plain by fastforce
    then show "\<forall>x \<in> set (in_the_clear w). (\<forall>kvs. x = JObj kvs \<longrightarrow> (\<forall>(k, w) \<in> set kvs. \<not> secret_named k))"
      using 1(2) by blast
  qed simp
  then show ?case using plain by (auto intro!: map_idI)
next
  case (2 vs)
  have "scrub w = w" if "w \<in> set vs" for w
    using 2(1) [OF that] 2(2) that by fastforce
  then show ?case by (simp add: map_idI)
qed auto

text \<open>
  No secret reaches the log: whatever is under a secret-named key of an event, at any depth
  of nested objects and lists, the written event is the same; the keys themselves, their order
  and everything under other names are written as they are.
\<close>
theorem log_hides_secrets:
  "redact (map (\<lambda>(k, v). (k, if secret_named k then f k v else other_secrets f v)) event) = redact event \<and>
   map fst (redact event) = map fst event"
  by (auto simp: redact_def scrub_other_secrets)

section \<open>Reported failures\<close>

definition reports_error :: "json \<Rightarrow> bool" where
  "reports_error v = (case v of JObj kvs \<Rightarrow> \<not> json_falsy (map_of kvs ''error'') | _ \<Rightarrow> False)"

text \<open>\<open>resource_or_raise\<close>: \<open>Inl\<close> is the error raised with the reported text.\<close>

definition resource_or_raise :: "json \<Rightarrow> json + json" where
  "resource_or_raise v =
     (if reports_error v then Inl (the (json_get v ''error'')) else Inr v)"

section \<open>One record per tool call\<close>

record call_record =
  cl_tool :: pystr
  cl_session :: "pystr option"
  cl_success :: bool

text \<open>The context of a call: none, one without a live request, or one of a session.\<close>

datatype call_context = No_context | No_request | In_session nat

datatype tool_outcome = Tool_raised | Tool_result json

datatype client_result = Call_raised | Call_raw json | Call_error json | Call_converted json

record call_log =
  lg_sessions :: "(nat \<times> pystr) list"
  lg_records :: "call_record list"

definition session_id :: "pystr \<Rightarrow> call_context \<Rightarrow> call_log \<Rightarrow> call_log \<times> pystr option" where
  "session_id fresh ctx lg =
     (case ctx of
        No_context \<Rightarrow> (lg, None)
      | No_request \<Rightarrow> (lg, None)
      | In_session s \<Rightarrow>
          (case map_of (lg_sessions lg) s of
             Some i \<Rightarrow> (lg, Some i)
           | None \<Rightarrow> (lg\<lparr>lg_sessions := (s, fresh) # lg_sessions lg\<rparr>, Some fresh)))"

definition log_call :: "pystr \<Rightarrow> pystr option \<Rightarrow> bool \<Rightarrow> call_log \<Rightarrow> call_log" where
  "log_call name sid ok lg =
     lg\<lparr>lg_records := lg_records lg @ [\<lparr>cl_tool = name, cl_session = sid, cl_success = ok\<rparr>]\<rparr>"

definition call_tool_with_logging ::
  "pystr \<Rightarrow> pystr \<Rightarrow> call_context \<Rightarrow> bool \<Rightarrow> tool_outcome \<Rightarrow> call_log \<Rightarrow> call_log \<times> client_result" where
  "call_tool_with_logging fresh name ctx convert outcome lg =
     (case session_id fresh ctx lg of
        (lg1, sid) \<Rightarrow>
          (case outcome of
             Tool_raised \<Rightarrow> (log_call name sid False lg1, Call_raised)
           | Tool_result v \<Rightarrow>
               (log_call name sid (\<not> reports_error v) lg1,
                if \<not> convert then Call_raw v else if reports_error v then Call_error v else Call_converted v)))"

record tool_call =
  tc_fresh :: pystr
  tc_name :: pystr
  tc_context :: call_context
  tc_convert :: bool
  tc_outcome :: tool_outcome

fun serve_calls :: "tool_call list \<Rightarrow> call_log \<Rightarrow> call_log" where
  "serve_calls [] lg = lg"
| "serve_calls (c # cs) lg =
     serve_calls cs (fst (call_tool_with_logging (tc_fresh c) (tc_name c) (tc_context c) (tc_convert c)
       (tc_outcome c) lg))"

definition succeeded :: "tool_outcome \<Rightarrow> bool" where
  "succeeded r = (case r of Tool_raised \<Rightarrow> False | Tool_result v \<Rightarrow> \<not> reports_error v)"

text \<open>The id a session has: the one drawn at its first call.\<close>

fun drawn_id :: "tool_call list \<Rightarrow> nat \<Rightarrow> pystr option" where
  "drawn_id [] s = None"
| "drawn_id (c # cs) s = (if tc_context c = In_session s then Some (tc_fresh c) else drawn_id cs s)"

definition known_or_drawn :: "call_log \<Rightarrow> tool_call list \<Rightarrow> nat \<Rightarrow> pystr option" where
  "known_or_drawn lg cs s = (case map_of (lg_sessions lg) s of Some i \<Rightarrow> Some i | None \<Rightarrow> drawn_id cs s)"

definition context_id :: "(nat \<Rightarrow> pystr option) \<Rightarrow> call_context \<Rightarrow> pystr option" where
  "context_id ids ctx = (case ctx of In_session s \<Rightarrow> ids s | _ \<Rightarrow> None)"

lemma one_call:
  "lg_records (fst (call_tool_with_logging fresh name ctx convert r lg)) =
     lg_records lg @ [\<lparr>cl_tool = name, cl_session = snd (session_id fresh ctx lg), cl_success = succeeded r\<rparr>] \<and>
   lg_sessions (fst (call_tool_with_logging fresh name ctx convert r lg)) =
     lg_sessions (fst (session_id fresh ctx lg))"
  by (auto simp: call_tool_with_logging_def log_call_def succeeded_def session_id_def
      split: tool_outcome.splits call_context.splits option.splits)

lemma serve_calls_records:
  "lg_records (serve_calls cs lg) =
     lg_records lg @ map (\<lambda>c. \<lparr>cl_tool = tc_name c,
       cl_session = context_id (known_or_drawn lg cs) (tc_context c),
       cl_success = succeeded (tc_outcome c)\<rparr>) cs"
proof (induction cs arbitrary: lg)
  case (Cons c cs)
  let ?lg = "fst (call_tool_with_logging (tc_fresh c) (tc_name c) (tc_context c) (tc_convert c) (tc_outcome c) lg)"
  have known: "known_or_drawn ?lg cs = known_or_drawn lg (c # cs)"
    using one_call [of "tc_fresh c" "tc_name c" "tc_context c" "tc_convert c" "tc_outcome c" lg]
    by (auto simp: fun_eq_iff known_or_drawn_def session_id_def split: call_context.splits option.splits)
  have "snd (session_id (tc_fresh c) (tc_context c) lg) =
      context_id (known_or_drawn lg (c # cs)) (tc_context c)"
    by (auto simp: session_id_def known_or_drawn_def context_id_def split: call_context.splits option.splits)
  then show ?case
    using Cons.IH [of ?lg] one_call [of "tc_fresh c" "tc_name c" "tc_context c" "tc_convert c" "tc_outcome c" lg]
    by (simp add: known)
qed simp

text \<open>
  Every tool call leaves exactly one record, in order, and nothing of its arguments or its
  result: the record is the tool's name, the id drawn at the first call of its session, and
  whether it succeeded, which is neither raising nor reporting an error; a reported error reaches
  the client flagged as one, and no success does.
\<close>
theorem one_record_per_call:
  "lg_records (serve_calls cs \<lparr>lg_sessions = [], lg_records = []\<rparr>) =
     map (\<lambda>c. \<lparr>cl_tool = tc_name c,
       cl_session = context_id (drawn_id cs) (tc_context c),
       cl_success = succeeded (tc_outcome c)\<rparr>) cs \<and>
   (snd (call_tool_with_logging fresh name ctx True (Tool_result v) lg) = Call_error v \<longleftrightarrow>
     reports_error v)"
  using serve_calls_records [of cs "\<lparr>lg_sessions = [], lg_records = []\<rparr>"]
  by (auto simp: known_or_drawn_def [abs_def] call_tool_with_logging_def split: prod.splits)

text \<open>A reported failure of a resource is raised and nothing else is.\<close>

lemma resource_raises: "isl (resource_or_raise v) \<longleftrightarrow> reports_error v"
  by (simp add: resource_or_raise_def)

end
