(* ===== verification/ReadClients.thy ===== *)
theory ReadClients
  imports Reasoner IntakeFetch EventLog "HOL-Library.AList"
begin

text \<open>
  The read-only clients of Traefik and Authentik (and the GET of Dockhand's, which is the same
  loop) with their retries, their tools (\<open>integrations/traefik\<close>, \<open>integrations/authentik\<close>), and the tools that connect a new source
  (\<open>tools/discovery.py\<close>). The remote answers each attempt by a function of everything sent
  before. Reading an ISO time, printing a number and the text of an odd JSON value are
  parameters.
\<close>

section \<open>Requests with retries\<close>

record read_request =
  rr_url :: pystr
  rr_params :: "(pystr \<times> json) list"

text \<open>\<open>No_answer\<close> is a transport error, \<open>Got\<close> a status, the text of its error and the decoded body.\<close>

datatype read_answer = No_answer pystr | Got nat pystr "json option"

datatype read_event = Sent read_request read_answer | Waited rat

type_synonym read_log = "read_event list"

datatype client_kind = Traefik | Authentik | Dockhand

record read_client =
  rc_kind :: client_kind
  rc_base :: pystr
  rc_retries :: nat
  rc_http :: "read_log \<Rightarrow> read_request \<Rightarrow> read_answer"

text \<open>\<open>Read_raised\<close> is an exception that is no error of the client.\<close>

datatype read_result = Read_ok json | Read_error pystr | Read_raised

definition new_client ::
  "client_kind \<Rightarrow> pystr \<Rightarrow> int \<Rightarrow> (read_log \<Rightarrow> read_request \<Rightarrow> read_answer) \<Rightarrow> read_client" where
  "new_client k base_url retries http =
     \<lparr>rc_kind = k, rc_base = rstrip_by (\<lambda>c. c = CHR ''/'') base_url, rc_retries = nat (max 1 retries), rc_http = http\<rparr>"

definition kind_name :: "client_kind \<Rightarrow> pystr" where
  "kind_name k = (case k of Traefik \<Rightarrow> ''Traefik'' | Authentik \<Rightarrow> ''Authentik'' | Dockhand \<Rightarrow> ''Dockhand'')"

definition BACKOFF :: rat where
  "BACKOFF = 1 / 2"

definition request_url :: "read_client \<Rightarrow> pystr \<Rightarrow> pystr" where
  "request_url c path =
     rc_base c @ (case rc_kind c of Authentik \<Rightarrow> ''/'' | _ \<Rightarrow> ''/api/'') @ lstrip_by (\<lambda>x. x = CHR ''/'') path"

definition api_failed :: "read_client \<Rightarrow> pystr \<Rightarrow> pystr \<Rightarrow> read_result" where
  "api_failed c path last_exc =
     Read_error (kind_name (rc_kind c) @ '' API request to '' @ path @ '' failed: '' @ last_exc)"

definition decoded :: "read_client \<Rightarrow> pystr \<Rightarrow> json option \<Rightarrow> read_result" where
  "decoded c path content =
     (case content of
        Some v \<Rightarrow> Read_ok v
      | None \<Rightarrow>
          (case rc_kind c of
             Traefik \<Rightarrow> Read_error (''Traefik API returned a non-JSON body for '' @ path)
           | _ \<Rightarrow> Read_raised))"

text \<open>The attempts left, the number of the next one, and the error of the last.\<close>

fun read_tries ::
  "nat \<Rightarrow> nat \<Rightarrow> read_client \<Rightarrow> pystr \<Rightarrow> (pystr \<times> json) list \<Rightarrow> pystr \<Rightarrow> read_log \<Rightarrow> read_log \<times> read_result" where
  "read_tries 0 attempt c path params last_exc tr = (tr, api_failed c path last_exc)"
| "read_tries (Suc n) attempt c path params last_exc tr =
     (let rq = \<lparr>rr_url = request_url c path, rr_params = params\<rparr>;
          answer = rc_http c tr rq;
          tr1 = tr @ [Sent rq answer];
          again = (\<lambda>e. read_tries n (Suc attempt) c path params e
                     (if n = 0 then tr1 else tr1 @ [Waited (BACKOFF * 2 ^ attempt)]))
      in case answer of
           No_answer e \<Rightarrow> again e
         | Got status shown content \<Rightarrow>
             if 200 \<le> status \<and> status < 300 then (tr1, decoded c path content)
             else if status < 500 then
               (tr1, Read_error (kind_name (rc_kind c) @ '' API returned '' @ show_nat status @ '' for '' @ path))
             else again shown)"

definition read_get ::
  "read_client \<Rightarrow> pystr \<Rightarrow> (pystr \<times> json) list \<Rightarrow> read_log \<Rightarrow> read_log \<times> read_result" where
  "read_get c path params tr =
     read_tries (rc_retries c) 0 c path (filter (\<lambda>(k, v). v \<noteq> JNull) params) ''None'' tr"

section \<open>The Traefik client and tools\<close>

datatype protocol = Proto_http | Proto_tcp | Proto_udp

fun protocol_text :: "protocol \<Rightarrow> pystr" where
  "protocol_text Proto_http = ''http''"
| "protocol_text Proto_tcp = ''tcp''"
| "protocol_text Proto_udp = ''udp''"

datatype traefik_call =
    Overview | Entrypoints | Routers protocol | Router pystr protocol | Traefik_services protocol
  | Middlewares protocol | Rawdata

fun traefik_path :: "traefik_call \<Rightarrow> pystr" where
  "traefik_path Overview = ''overview''"
| "traefik_path Entrypoints = ''entrypoints''"
| "traefik_path (Routers p) = protocol_text p @ ''/routers''"
| "traefik_path (Router name p) = protocol_text p @ ''/routers/'' @ name"
| "traefik_path (Traefik_services p) = protocol_text p @ ''/services''"
| "traefik_path (Middlewares p) = protocol_text p @ ''/middlewares''"
| "traefik_path Rawdata = ''rawdata''"

type_synonym read_http = "read_log \<Rightarrow> read_request \<Rightarrow> read_answer"

definition tool_error :: "pystr \<Rightarrow> json" where
  "tool_error t = JObj [(''error'', JStr t)]"

text \<open>A tool's result: \<open>None\<close> is an exception it lets escape.\<close>

definition error_or :: "read_result \<Rightarrow> json option" where
  "error_or r = (case r of Read_ok v \<Rightarrow> Some v | Read_error t \<Rightarrow> Some (tool_error t) | Read_raised \<Rightarrow> None)"

text \<open>\<open>isinstance(data, dict) and "error" in data\<close>.\<close>

definition has_error :: "json \<Rightarrow> bool" where
  "has_error v = (case v of JObj kvs \<Rightarrow> map_of kvs ''error'' \<noteq> None | _ \<Rightarrow> False)"

definition under_items :: "json \<Rightarrow> json" where
  "under_items v = (if has_error v then v else JObj [(''items'', v)])"

definition traefik_ask :: "settings \<Rightarrow> read_http \<Rightarrow> traefik_call \<Rightarrow> read_log \<Rightarrow> read_log \<times> json option" where
  "traefik_ask s http q tr =
     (if \<not> on s ''traefik_api_url'' then (tr, Some (tool_error ''TRAEFIK_API_URL is not configured''))
      else case read_get (new_client Traefik (text_of s ''traefik_api_url'') (int_of s ''traefik_retries'') http)
                  (traefik_path q) [] tr of
             (tr', r) \<Rightarrow> (tr', error_or r))"

definition traefik_list :: "settings \<Rightarrow> read_http \<Rightarrow> traefik_call \<Rightarrow> read_log \<Rightarrow> read_log \<times> json option" where
  "traefik_list s http q tr =
     (case traefik_ask s http q tr of (tr', v) \<Rightarrow> (tr', map_option under_items v))"

definition tls_section :: "json \<Rightarrow> json" where
  "tls_section v =
     (if has_error v then v
      else JObj [(''tls'', (case v of
                    JObj kvs \<Rightarrow> (case map_of kvs ''tls'' of None \<Rightarrow> JObj [] | Some t \<Rightarrow> t)
                  | _ \<Rightarrow> JObj []))])"

datatype traefik_request =
    Get_overview | Get_entrypoints | List_routers protocol | Get_router pystr protocol
  | List_services protocol | List_middlewares protocol | List_certificates

fun traefik_tool :: "settings \<Rightarrow> read_http \<Rightarrow> traefik_request \<Rightarrow> read_log \<Rightarrow> read_log \<times> json option" where
  "traefik_tool s http Get_overview tr = traefik_ask s http Overview tr"
| "traefik_tool s http Get_entrypoints tr = traefik_list s http Entrypoints tr"
| "traefik_tool s http (List_routers p) tr = traefik_list s http (Routers p) tr"
| "traefik_tool s http (Get_router name p) tr = traefik_ask s http (Router name p) tr"
| "traefik_tool s http (List_services p) tr = traefik_list s http (Traefik_services p) tr"
| "traefik_tool s http (List_middlewares p) tr = traefik_list s http (Middlewares p) tr"
| "traefik_tool s http List_certificates tr =
     (case traefik_ask s http Rawdata tr of (tr', v) \<Rightarrow> (tr', map_option tls_section v))"

text \<open>The resource: an error is raised.\<close>

definition traefik_router_resource ::
  "settings \<Rightarrow> read_http \<Rightarrow> pystr \<Rightarrow> read_log \<Rightarrow> read_log \<times> (json + json) option" where
  "traefik_router_resource s http name tr =
     (case traefik_ask s http (Router name Proto_http) tr of (tr', v) \<Rightarrow> (tr', map_option resource_or_raise v))"

section \<open>The Authentik client\<close>

text \<open>\<open>_results\<close>: an endpoint's page or plain list.\<close>

definition results :: "json \<Rightarrow> json" where
  "results payload =
     (case payload of
        JObj kvs \<Rightarrow> (case map_of kvs ''results'' of Some v \<Rightarrow> v | None \<Rightarrow> JList [])
      | JList vs \<Rightarrow> JList vs
      | _ \<Rightarrow> JList [])"

datatype authentik_call =
    Applications | Application pystr | Auth_providers | Outposts | Outpost_health pystr | Policies
  | Events "(pystr \<times> json) list" | Users "pystr option" | Groups "pystr option"

definition optional_json :: "pystr option \<Rightarrow> json" where
  "optional_json v = (case v of None \<Rightarrow> JNull | Some t \<Rightarrow> JStr t)"

text \<open>Path, parameters, and whether the answer is a page of results.\<close>

fun authentik_request :: "authentik_call \<Rightarrow> pystr \<times> (pystr \<times> json) list \<times> bool" where
  "authentik_request Applications = (''core/applications/'', [(''superuser_full_list'', JStr ''true'')], True)"
| "authentik_request (Application slug) = (''core/applications/'' @ slug @ ''/'', [], False)"
| "authentik_request Auth_providers = (''providers/all/'', [], True)"
| "authentik_request Outposts = (''outposts/instances/'', [], True)"
| "authentik_request (Outpost_health pk) = (''outposts/instances/'' @ pk @ ''/health/'', [], False)"
| "authentik_request Policies = (''policies/all/'', [], True)"
| "authentik_request (Events params) =
     (''events/events/'', fold (\<lambda>(k, v). AList.update k v) params [(''ordering'', JStr ''-created'')], True)"
| "authentik_request (Users search) = (''core/users/'', [(''search'', optional_json search)], True)"
| "authentik_request (Groups search) = (''core/groups/'', [(''search'', optional_json search)], True)"

definition authentik_get :: "read_client \<Rightarrow> authentik_call \<Rightarrow> read_log \<Rightarrow> read_log \<times> read_result" where
  "authentik_get c q tr =
     (case authentik_request q of (path, params, paged) \<Rightarrow>
        (case read_get c path params tr of
           (tr', Read_ok v) \<Rightarrow> (tr', Read_ok (if paged then results v else v))
         | (tr', r) \<Rightarrow> (tr', r)))"

definition authentik_ask :: "settings \<Rightarrow> read_http \<Rightarrow> authentik_call \<Rightarrow> read_log \<Rightarrow> read_log \<times> json option" where
  "authentik_ask s http q tr =
     (if \<not> on s ''authentik_api_url'' \<or> \<not> on s ''authentik_token''
      then (tr, Some (tool_error ''AUTHENTIK_API_URL and AUTHENTIK_TOKEN must be configured''))
      else case authentik_get (new_client Authentik (text_of s ''authentik_api_url'')
                  (int_of s ''authentik_retries'') http) q tr of
             (tr', r) \<Rightarrow> (tr', error_or r))"

definition authentik_list :: "settings \<Rightarrow> read_http \<Rightarrow> authentik_call \<Rightarrow> read_log \<Rightarrow> read_log \<times> json option" where
  "authentik_list s http q tr =
     (case authentik_ask s http q tr of (tr', v) \<Rightarrow> (tr', map_option under_items v))"

datatype authentik_tool_request =
    List_applications | Get_application pystr | List_providers | List_outposts | List_policies
  | List_users "pystr option" | List_groups "pystr option"

fun authentik_tool :: "settings \<Rightarrow> read_http \<Rightarrow> authentik_tool_request \<Rightarrow> read_log \<Rightarrow> read_log \<times> json option" where
  "authentik_tool s http List_applications tr = authentik_list s http Applications tr"
| "authentik_tool s http (Get_application slug) tr = authentik_ask s http (Application slug) tr"
| "authentik_tool s http List_providers tr = authentik_list s http Auth_providers tr"
| "authentik_tool s http List_outposts tr = authentik_list s http Outposts tr"
| "authentik_tool s http List_policies tr = authentik_list s http Policies tr"
| "authentik_tool s http (List_users search) tr = authentik_list s http (Users search) tr"
| "authentik_tool s http (List_groups search) tr = authentik_list s http (Groups search) tr"

definition authentik_application_resource ::
  "settings \<Rightarrow> read_http \<Rightarrow> pystr \<Rightarrow> read_log \<Rightarrow> read_log \<times> (json + json) option" where
  "authentik_application_resource s http slug tr =
     (case authentik_ask s http (Application slug) tr of (tr', v) \<Rightarrow> (tr', map_option resource_or_raise v))"

section \<open>The Authentik tools\<close>

text \<open>\<open>_within_hours\<close>: \<open>read_iso\<close> is \<open>datetime.fromisoformat\<close>; an event that is no object raises.\<close>

definition is_recent :: "(pystr \<Rightarrow> datetime option) \<Rightarrow> instant \<Rightarrow> (pystr \<times> json) list \<Rightarrow> bool" where
  "is_recent read_iso cutoff event =
     (case map_of event ''created'' of
        Some (JStr t) \<Rightarrow> (t \<noteq> [] \<and> (case read_iso t of None \<Rightarrow> False | Some d \<Rightarrow> cutoff \<le> instant_of d))
      | _ \<Rightarrow> False)"

fun recent_events :: "(pystr \<Rightarrow> datetime option) \<Rightarrow> instant \<Rightarrow> json list \<Rightarrow> json list option" where
  "recent_events read_iso cutoff [] = Some []"
| "recent_events read_iso cutoff (JObj e # es) =
     map_option (\<lambda>rest. if is_recent read_iso cutoff e then JObj e # rest else rest) (recent_events read_iso cutoff es)"
| "recent_events read_iso cutoff (x # es) = None"

definition within_hours :: "(pystr \<Rightarrow> datetime option) \<Rightarrow> instant \<Rightarrow> int \<Rightarrow> json list \<Rightarrow> json list option" where
  "within_hours read_iso now hours events = recent_events read_iso (now - minutes (60 * hours)) events"

definition search_params :: "pystr option \<Rightarrow> pystr option \<Rightarrow> int \<Rightarrow> (pystr \<times> json) list" where
  "search_params action search limit =
     [(''action'', optional_json action), (''search'', optional_json search), (''page_size'', JInt limit)]"

definition authentik_search_events ::
  "settings \<Rightarrow> read_http \<Rightarrow> (pystr \<Rightarrow> datetime option) \<Rightarrow> instant \<Rightarrow> pystr option \<Rightarrow> pystr option \<Rightarrow>
     int option \<Rightarrow> int \<Rightarrow> read_log \<Rightarrow> read_log \<times> json option" where
  "authentik_search_events s http read_iso now action search hours limit tr =
     (case authentik_ask s http (Events (search_params action search limit)) tr of
        (tr', None) \<Rightarrow> (tr', None)
      | (tr', Some v) \<Rightarrow>
          if has_error v then (tr', Some v)
          else case (hours, v) of
            (Some h, JList es) \<Rightarrow>
              (tr', map_option (\<lambda>es. JObj [(''items'', JList es)]) (within_hours read_iso now h es))
          | _ \<Rightarrow> (tr', Some (JObj [(''items'', v)])))"

text \<open>The first outpost with the name: \<open>None\<close> raises.\<close>

fun outpost_named :: "pystr \<Rightarrow> json list \<Rightarrow> (pystr \<times> json) list option option" where
  "outpost_named name [] = Some None"
| "outpost_named name (JObj o1 # os) =
     (if map_of o1 ''name'' = Some (JStr name) then Some (Some o1) else outpost_named name os)"
| "outpost_named name (x # os) = None"

definition json_text :: "(json \<Rightarrow> pystr) \<Rightarrow> json \<Rightarrow> pystr" where
  "json_text str v = (case v of JStr t \<Rightarrow> t | _ \<Rightarrow> str v)"

definition json_loop :: "json \<Rightarrow> json list option" where
  "json_loop v =
     (case v of
        JList xs \<Rightarrow> Some xs
      | JStr s \<Rightarrow> Some (map (\<lambda>c. JStr [c]) s)
      | JObj d \<Rightarrow> Some (map (\<lambda>kv. JStr (fst kv)) d)
      | _ \<Rightarrow> None)"

definition authentik_outpost_status ::
  "settings \<Rightarrow> read_http \<Rightarrow> (json \<Rightarrow> pystr) \<Rightarrow> pystr \<Rightarrow> read_log \<Rightarrow> read_log \<times> json option" where
  "authentik_outpost_status s http str name tr =
     (case authentik_ask s http Outposts tr of
        (tr1, None) \<Rightarrow> (tr1, None)
      | (tr1, Some v) \<Rightarrow>
          if has_error v then (tr1, Some v)
          else case (case json_loop v of None \<Rightarrow> None | Some os \<Rightarrow> outpost_named name os) of
            None \<Rightarrow> (tr1, None)
          | Some None \<Rightarrow> (tr1, Some (tool_error (''no outpost named '' @ py_repr name)))
          | Some (Some o1) \<Rightarrow>
              (case map_of o1 ''pk'' of
                 None \<Rightarrow> (tr1, None)
               | Some pk \<Rightarrow>
                   (case authentik_ask s http (Outpost_health (json_text str pk)) tr1 of
                      (tr2, None) \<Rightarrow> (tr2, None)
                    | (tr2, Some h) \<Rightarrow>
                        (tr2, Some (if has_error h
                           then tool_error (''failed to get health for outpost '' @ py_repr name @ '': '' @
                                  json_text str (the (json_get h ''error'')))
                           else JObj [(''outpost'', JObj o1), (''health'', h)])))))"

text \<open>The values the summary hands to the reasoning layer.\<close>

fun pyval_of :: "json \<Rightarrow> pyval" where
  "pyval_of JNull = V_none"
| "pyval_of (JBool b) = V_bool b"
| "pyval_of (JInt i) = V_int i"
| "pyval_of (JFloat q) = V_float (Finite q)"
| "pyval_of (JStr t) = V_text t"
| "pyval_of (JList vs) = V_list (map pyval_of vs)"
| "pyval_of (JObj kvs) = V_dict (map (\<lambda>(k, v). (k, pyval_of v)) kvs)"

text \<open>\<open>authentik_summarize_events\<close>: the outer \<open>None\<close> is an exception of the client or the filter.\<close>

definition authentik_summarize_events ::
  "settings \<Rightarrow> read_http \<Rightarrow> (pystr \<Rightarrow> datetime option) \<Rightarrow> instant \<Rightarrow> dspy_library \<Rightarrow> lm_answers \<Rightarrow>
     reasoning_layer option \<Rightarrow> pystr \<Rightarrow> int \<Rightarrow> int \<Rightarrow> read_log \<Rightarrow>
     read_log \<times> reasoning_layer option \<times> (raised + (pystr \<times> pyval) list) option" where
  "authentik_summarize_events s http read_iso now d ask re slug hours limit tr =
     (if (case re of None \<Rightarrow> True | Some r \<Rightarrow> \<not> rs_enabled r)
      then (tr, re, Some (Inr [(''error'',
              V_text ''reasoning layer disabled; set DSPY_ENABLED=true to enable summaries'')]))
      else case authentik_ask s http (Events [(''search'', JStr slug), (''page_size'', JInt limit)]) tr of
        (tr', None) \<Rightarrow> (tr', re, None)
      | (tr', Some v) \<Rightarrow>
          if has_error v
          then (tr', re, Some (Inr (case v of JObj kvs \<Rightarrow> map (\<lambda>(k, x). (k, pyval_of x)) kvs | _ \<Rightarrow> [])))
          else case (case v of JList es \<Rightarrow> within_hours read_iso now hours es | _ \<Rightarrow> Some []) of
            None \<Rightarrow> (tr', re, None)
          | Some es \<Rightarrow>
              (case summarize_access d ask slug (map pyval_of es) hours (the re) of
                 (r, re') \<Rightarrow> (tr', Some re', Some r)))"

section \<open>Connecting a new source\<close>

definition invalid_connection_params :: "(rat \<Rightarrow> pystr) \<Rightarrow> rat \<Rightarrow> int \<Rightarrow> pystr option" where
  "invalid_connection_params show_rat timeout retries =
     (if timeout \<le> 0 then Some (''timeout_seconds must be positive, got '' @ show_rat timeout)
      else if retries < 1 then Some (''retries must be at least 1, got '' @ show_int retries)
      else None)"

text \<open>\<open>_invalid_base_url\<close>: \<open>None\<close> is a \<open>ValueError\<close> of \<open>urlparse\<close>, \<open>Some None\<close> a valid URL.\<close>

definition invalid_base_url :: "(pystr \<Rightarrow> bool) \<Rightarrow> pystr \<Rightarrow> pystr option option" where
  "invalid_base_url bracket_ok url =
     (case url_hostname bracket_ok url of
        None \<Rightarrow> None
      | Some host \<Rightarrow>
          Some (if url_scheme url \<notin> {''http'', ''https''} \<or> \<not> truthy host
                then Some (''url must be an http(s) URL with a host, got '' @ py_repr url)
                else if contains url ''?'' \<or> contains url ''#''
                then Some ''url must be a base URL, without a query string or fragment''
                else None))"

definition OVERVIEW_SECTIONS :: "pystr list" where
  "OVERVIEW_SECTIONS = [''http'', ''tcp'', ''udp'']"

definition OVERVIEW_KINDS :: "pystr list" where
  "OVERVIEW_KINDS = [''routers'', ''services'', ''middlewares'']"

fun is_int :: "json \<Rightarrow> bool" where
  "is_int (JInt i) = True"
| "is_int (JBool b) = True"
| "is_int v = False"

definition kind_counts :: "(pystr \<times> json) list \<Rightarrow> pystr \<Rightarrow> (pystr \<times> json) option" where
  "kind_counts block kind =
     (case map_of block kind of
        Some (JObj kvs) \<Rightarrow> Some (kind, JObj (filter (\<lambda>(k, v). is_int v) kvs))
      | _ \<Rightarrow> None)"

definition section_counts :: "(pystr \<times> json) list \<Rightarrow> pystr \<Rightarrow> (pystr \<times> json) option" where
  "section_counts overview name =
     (case map_of overview name of
        Some (JObj block) \<Rightarrow>
          (let kept = List.map_filter (kind_counts block) OVERVIEW_KINDS
           in if kept = [] then None else Some (name, JObj kept))
      | _ \<Rightarrow> None)"

definition overview_summary :: "json \<Rightarrow> json option" where
  "overview_summary v =
     (case v of
        JObj overview \<Rightarrow>
          (case map_of overview ''http'' of
             Some (JObj block) \<Rightarrow> Some (JObj (List.map_filter (section_counts overview) OVERVIEW_SECTIONS))
           | _ \<Rightarrow> None)
      | _ \<Rightarrow> None)"

definition RESTART_HINT :: pystr where
  "RESTART_HINT =
     ''Add these to .env on the control-plane node, then `docker compose up -d` '' @
     ''to restart the server and enable this source -- Settings and the '' @
     ''discovery scheduler are only read at startup, so nothing here takes '' @
     ''effect until the restart.''"

definition not_connected :: "pystr \<Rightarrow> json" where
  "not_connected why = JObj [(''ok'', JBool False), (''error'', JStr why)]"

definition connected_reply :: "pystr \<times> json \<Rightarrow> pystr list \<Rightarrow> json" where
  "connected_reply found env_lines =
     JObj [(''ok'', JBool True), found, (''env_lines'', JList (map JStr env_lines)),
       (''next_step'', JStr RESTART_HINT)]"

definition input_error :: "(pystr \<Rightarrow> bool) \<Rightarrow> (rat \<Rightarrow> pystr) \<Rightarrow> pystr \<Rightarrow> rat \<Rightarrow> int \<Rightarrow> pystr option option" where
  "input_error bracket_ok show_rat url timeout retries =
     (case invalid_base_url bracket_ok url of
        None \<Rightarrow> None
      | Some (Some e) \<Rightarrow> Some (Some e)
      | Some None \<Rightarrow> Some (invalid_connection_params show_rat timeout retries))"

definition discovery_connect_traefik ::
  "(pystr \<Rightarrow> bool) \<Rightarrow> (rat \<Rightarrow> pystr) \<Rightarrow> read_http \<Rightarrow> pystr \<Rightarrow> rat \<Rightarrow> int \<Rightarrow> read_log \<Rightarrow> read_log \<times> json option" where
  "discovery_connect_traefik bracket_ok show_rat http url timeout retries tr =
     (case input_error bracket_ok show_rat url timeout retries of
        None \<Rightarrow> (tr, None)
      | Some (Some e) \<Rightarrow> (tr, Some (not_connected e))
      | Some None \<Rightarrow>
          (case read_get (new_client Traefik url retries http) (traefik_path Overview) [] tr of
             (tr', Read_raised) \<Rightarrow> (tr', None)
           | (tr', Read_error e) \<Rightarrow> (tr', Some (not_connected e))
           | (tr', Read_ok v) \<Rightarrow>
               (case overview_summary v of
                  None \<Rightarrow> (tr', Some (not_connected (url @ '' answered, but not like the Traefik API '' @
                            ''(its /api/overview has no `http` section)'')))
                | Some counts \<Rightarrow>
                    (tr', Some (connected_reply (''overview'', counts)
                       [''TRAEFIK_API_URL='' @ url, ''TRAEFIK_TIMEOUT_SECONDS='' @ show_rat timeout,
                        ''TRAEFIK_RETRIES='' @ show_int retries])))))"

text \<open>The length of the list of applications: \<open>None\<close> is a \<open>TypeError\<close>.\<close>

definition json_length :: "json \<Rightarrow> nat option" where
  "json_length v =
     (case v of JList vs \<Rightarrow> Some (length vs) | JObj kvs \<Rightarrow> Some (length kvs) | JStr t \<Rightarrow> Some (length t) | _ \<Rightarrow> None)"

text \<open>The token goes into the header of the requests, so the remote may depend on it.\<close>

definition discovery_connect_authentik ::
  "(pystr \<Rightarrow> bool) \<Rightarrow> (rat \<Rightarrow> pystr) \<Rightarrow> (pystr \<Rightarrow> read_http) \<Rightarrow> pystr \<Rightarrow> pystr \<Rightarrow> rat \<Rightarrow> int \<Rightarrow> read_log \<Rightarrow>
     read_log \<times> json option" where
  "discovery_connect_authentik bracket_ok show_rat http url token timeout retries tr =
     (case input_error bracket_ok show_rat url timeout retries of
        None \<Rightarrow> (tr, None)
      | Some (Some e) \<Rightarrow> (tr, Some (not_connected e))
      | Some None \<Rightarrow>
          (case authentik_get (new_client Authentik url retries (http token)) Applications tr of
             (tr', Read_raised) \<Rightarrow> (tr', None)
           | (tr', Read_error e) \<Rightarrow> (tr', Some (not_connected e))
           | (tr', Read_ok v) \<Rightarrow>
               (tr', map_option (\<lambda>n.
                  connected_reply (''application_count'', JInt (int n))
                    [''AUTHENTIK_API_URL='' @ url, ''AUTHENTIK_TOKEN=<the token you just validated with>'',
                     ''AUTHENTIK_TIMEOUT_SECONDS='' @ show_rat timeout, ''AUTHENTIK_RETRIES='' @ show_int retries])
                  (json_length v))))"

section \<open>What the retries do\<close>

definition attempts :: "read_log \<Rightarrow> (read_request \<times> read_answer) list" where
  "attempts tr = List.map_filter (\<lambda>e. case e of Sent rq a \<Rightarrow> Some (rq, a) | Waited w \<Rightarrow> None) tr"

fun transient :: "read_answer \<Rightarrow> bool" where
  "transient (No_answer e) = True"
| "transient (Got status shown v) = (500 \<le> status)"

lemma attempts_simps [simp]:
  "attempts [] = []"
  "attempts (Sent rq a # tr) = (rq, a) # attempts tr"
  "attempts (Waited w # tr) = attempts tr"
  "attempts (tr1 @ tr2) = attempts tr1 @ attempts tr2"
  by (simp_all add: attempts_def List.map_filter_def)

lemma read_tries_attempts:
  assumes "read_tries n attempt c path params e tr = (tr', r)"
  shows "\<exists>new. tr' = tr @ new \<and> length (attempts new) \<le> n \<and>
    (\<forall>(rq, a) \<in> set (attempts new). rq = \<lparr>rr_url = request_url c path, rr_params = params\<rparr>) \<and>
    (\<forall>(rq, a) \<in> set (butlast (attempts new)). transient a) \<and>
    (\<forall>v. r = Read_ok v \<longrightarrow> attempts new \<noteq> [] \<and>
       (\<exists>status shown. snd (last (attempts new)) = Got status shown (Some v) \<and> 200 \<le> status \<and> status < 300))"
  using assms
proof (induction n arbitrary: attempt e tr)
  case (Suc n)
  let ?rq = "\<lparr>rr_url = request_url c path, rr_params = params\<rparr>"
  let ?a = "rc_http c tr ?rq"
  show ?case
  proof (cases "transient ?a")
    case True
    let ?pause = "if n = 0 then [] else [Waited (BACKOFF * 2 ^ attempt)]"
    obtain e1 where "read_tries n (Suc attempt) c path params e1 (tr @ Sent ?rq ?a # ?pause) = (tr', r)"
      using Suc.prems True by (cases ?a; cases "n = 0"; fastforce simp: Let_def)
    from Suc.IH [OF this] obtain new where new: "tr' = tr @ (Sent ?rq ?a # ?pause) @ new"
      "length (attempts new) \<le> n" "\<forall>(rq, a) \<in> set (attempts new). rq = ?rq"
      "\<forall>(rq, a) \<in> set (butlast (attempts new)). transient a"
      "\<forall>v. r = Read_ok v \<longrightarrow> attempts new \<noteq> [] \<and>
       (\<exists>status shown. snd (last (attempts new)) = Got status shown (Some v) \<and> 200 \<le> status \<and> status < 300)"
      by auto
    have "attempts ((Sent ?rq ?a # ?pause) @ new) = (?rq, ?a) # attempts new" by simp
    then show ?thesis using new True by (intro exI [of _ "(Sent ?rq ?a # ?pause) @ new"]) auto
  next
    case False
    then have "tr' = tr @ [Sent ?rq ?a]" and
      "\<forall>v. r = Read_ok v \<longrightarrow> (\<exists>status shown. ?a = Got status shown (Some v) \<and> 200 \<le> status \<and> status < 300)"
      using Suc.prems by (cases ?a; auto simp: Let_def decoded_def split: if_splits option.splits client_kind.splits)+
    then show ?thesis by (intro exI [of _ "[Sent ?rq ?a]"]) auto
  qed
qed (auto simp: api_failed_def)

text \<open>
  A read client asks politely and answers honestly: one call makes at most the configured
  number of attempts (at least one), all of the same request; each attempt after the first
  follows a transient failure (no answer, or a server error), a client error ends the call at
  once; and a value is only returned when it is the decoded body of a last, successful answer.
\<close>
theorem read_client_retries:
  assumes "read_get (new_client k base_url retries http) path params tr = (tr', r)"
  shows "\<exists>new. tr' = tr @ new \<and> int (length (attempts new)) \<le> max 1 retries \<and>
    (\<forall>(rq, a) \<in> set (attempts new). rr_url rq = request_url (new_client k base_url retries http) path) \<and>
    (\<forall>(rq, a) \<in> set (butlast (attempts new)). transient a) \<and>
    (\<forall>v. r = Read_ok v \<longrightarrow>
       (\<exists>status shown. snd (last (attempts new)) = Got status shown (Some v) \<and> 200 \<le> status \<and> status < 300))"
proof -
  obtain new where new: "tr' = tr @ new" "length (attempts new) \<le> nat (max 1 retries)"
    "\<forall>(rq, a) \<in> set (attempts new). rr_url rq = request_url (new_client k base_url retries http) path"
    "\<forall>(rq, a) \<in> set (butlast (attempts new)). transient a"
    "\<forall>v. r = Read_ok v \<longrightarrow>
       (\<exists>status shown. snd (last (attempts new)) = Got status shown (Some v) \<and> 200 \<le> status \<and> status < 300)"
    using read_tries_attempts [OF assms [unfolded read_get_def]] by (fastforce simp: new_client_def)
  then have "int (length (attempts new)) \<le> max 1 retries" by linarith
  then show ?thesis using new by blast
qed

section \<open>What the tools give away\<close>

text \<open>A summary of counts: the fixed section and kind names, and whole numbers only.\<close>

fun counts_only :: "json \<Rightarrow> bool" where
  "counts_only (JObj secs) \<longleftrightarrow>
     (\<forall>(name, sec) \<in> set secs. name \<in> set OVERVIEW_SECTIONS \<and>
        (case sec of
           JObj kinds \<Rightarrow> (\<forall>(kind, counts) \<in> set kinds. kind \<in> set OVERVIEW_KINDS \<and>
             (case counts of JObj kvs \<Rightarrow> (\<forall>(k, v) \<in> set kvs. is_int v) | _ \<Rightarrow> False))
         | _ \<Rightarrow> False))"
| "counts_only v = False"

lemma map_filter_memD: "y \<in> set (List.map_filter f xs) \<Longrightarrow> \<exists>x \<in> set xs. f x = Some y"
  by (auto simp: List.map_filter_def)

lemma summary_counts_only: "overview_summary v = Some s \<Longrightarrow> counts_only s"
  by (auto simp: overview_summary_def section_counts_def kind_counts_def Let_def dest!: map_filter_memD
      split: json.splits option.splits if_splits)

text \<open>
  The tools that try out a new source leave nothing behind and give nothing away: a URL that
  is no plain http(s) base URL and bad connection parameters end the call before any request, of
  a Traefik overview only whole numbers under the fixed names come back, and of an Authentik
  token nothing does: as long as the remote answers the same, the result is the same for every
  token.
\<close>
theorem connect_gives_nothing_away:
  "(\<forall>e. input_error bok show_rat url timeout retries = Some (Some e) \<longrightarrow>
      discovery_connect_traefik bok show_rat http url timeout retries tr = (tr, Some (not_connected e)) \<and>
      discovery_connect_authentik bok show_rat ahttp url token timeout retries tr = (tr, Some (not_connected e))) \<and>
   (\<forall>found lines. snd (discovery_connect_traefik bok show_rat http url timeout retries tr) =
        Some (connected_reply found lines) \<longrightarrow> counts_only (snd found)) \<and>
   (ahttp token = ahttp other \<longrightarrow>
      discovery_connect_authentik bok show_rat ahttp url token timeout retries tr =
      discovery_connect_authentik bok show_rat ahttp url other timeout retries tr)"
proof (intro conjI allI impI)
  fix found lines
  assume "snd (discovery_connect_traefik bok show_rat http url timeout retries tr) = Some (connected_reply found lines)"
  then obtain v where "overview_summary v = Some (snd found)"
    by (auto simp: discovery_connect_traefik_def connected_reply_def not_connected_def
        split: option.splits prod.splits read_result.splits)
  then show "counts_only (snd found)" by (rule summary_counts_only)
next
  assume "ahttp token = ahttp other"
  then show "discovery_connect_authentik bok show_rat ahttp url token timeout retries tr =
      discovery_connect_authentik bok show_rat ahttp url other timeout retries tr"
    by (simp only: discovery_connect_authentik_def)
qed (simp_all add: discovery_connect_traefik_def discovery_connect_authentik_def)

section \<open>Recent events\<close>

text \<open>The filter keeps exactly the events not older than the cutoff, in their order.\<close>

lemma recent_events_exact:
  "recent_events read_iso cutoff events =
     (if list_all (\<lambda>v. case v of JObj e \<Rightarrow> True | _ \<Rightarrow> False) events
      then Some (filter (\<lambda>v. case v of JObj e \<Rightarrow> is_recent read_iso cutoff e | _ \<Rightarrow> False) events) else None)"
  by (induction read_iso cutoff events rule: recent_events.induct) auto

text \<open>An application page that is no JSON makes the tool raise, where Traefik's answers an error.\<close>

definition html_host :: read_http where
  "html_host tr rq = Got 200 [] None"

theorem authentik_html_raises:
  "input_error bok show_rat url timeout retries = Some None \<Longrightarrow>
     snd (discovery_connect_authentik bok show_rat (\<lambda>token. html_host) url token timeout retries tr) = None \<and>
     snd (discovery_connect_traefik bok show_rat html_host url timeout retries tr) =
       Some (not_connected ''Traefik API returned a non-JSON body for overview'')"
proof -
  have "\<exists>n. nat (max 1 retries) = Suc n" by (rule not0_implies_Suc) simp
  then show "input_error bok show_rat url timeout retries = Some None \<Longrightarrow>
     snd (discovery_connect_authentik bok show_rat (\<lambda>token. html_host) url token timeout retries tr) = None \<and>
     snd (discovery_connect_traefik bok show_rat html_host url timeout retries tr) =
       Some (not_connected ''Traefik API returned a non-JSON body for overview'')"
    by (auto simp: discovery_connect_authentik_def discovery_connect_traefik_def authentik_get_def read_get_def
        new_client_def html_host_def decoded_def Let_def)
qed

end
