(* ===== verification/DockhandReads.thy ===== *)
theory DockhandReads
  imports ReadClients DockhandActions "HOL-Library.Char_ord" "HOL-Library.List_Lexorder"
begin

text \<open>
  The read half of \<open>integrations/dockhand/client.py\<close> and \<open>integrations/dockhand/tools.py\<close>: one
  environment asked after another, stacks found by name, containers by their Compose project,
  and the read-only tools. \<open>str\<close> is Python's text of a JSON value that is no string.
\<close>

section \<open>The client\<close>

definition dockhand_client :: "settings \<Rightarrow> read_http \<Rightarrow> read_client" where
  "dockhand_client s http = new_client Dockhand (text_of s ''dockhand_api_url'') (int_of s ''dockhand_retries'') http"

text \<open>\<open>_list(await _get(...))\<close>: the items, or how the request ended.\<close>

definition read_list ::
  "read_client \<Rightarrow> pystr \<Rightarrow> (pystr \<times> json) list \<Rightarrow> read_log \<Rightarrow> read_log \<times> (read_result + json list)" where
  "read_list c path params tr =
     (case read_get c path params tr of
        (tr', Read_ok v) \<Rightarrow> (tr', Inr (dockhand_list v))
      | (tr', r) \<Rightarrow> (tr', Inl r))"

definition BAD_ENVIRONMENT :: pystr where
  "BAD_ENVIRONMENT = ''environment_id must be a Dockhand environment id (digits only)''"

text \<open>\<open>[str(e["id"]) for e in ... if "id" in e]\<close>: \<open>None\<close> is a \<open>TypeError\<close>.\<close>

fun environment_ids :: "(json \<Rightarrow> pystr) \<Rightarrow> json list \<Rightarrow> pystr list option" where
  "environment_ids str [] = Some []"
| "environment_ids str (e # es) =
     (case e of
        JObj kvs \<Rightarrow>
          (case map_of kvs ''id'' of
             None \<Rightarrow> environment_ids str es
           | Some v \<Rightarrow> map_option (Cons (json_text str v)) (environment_ids str es))
      | JList xs \<Rightarrow> if JStr ''id'' \<in> set xs then None else environment_ids str es
      | JStr t \<Rightarrow> if contains t ''id'' then None else environment_ids str es
      | _ \<Rightarrow> None)"

text \<open>\<open>{**item, "environment_id": env_id}\<close>, for the items that are objects.\<close>

fun tag_item :: "pystr \<Rightarrow> json \<Rightarrow> json list" where
  "tag_item env_id (JObj kvs) = [JObj (AList.update ''environment_id'' (JStr env_id) kvs)]"
| "tag_item env_id v = []"

fun ask_each ::
  "read_client \<Rightarrow> pystr \<Rightarrow> pystr list \<Rightarrow> json list \<Rightarrow> read_log \<Rightarrow> read_log \<times> (read_result + json list)" where
  "ask_each c path [] items tr = (tr, Inr items)"
| "ask_each c path (env_id # env_ids) items tr =
     (case read_list c path [(''env'', JStr env_id)] tr of
        (tr', Inl r) \<Rightarrow> (tr', Inl r)
      | (tr', Inr xs) \<Rightarrow> ask_each c path env_ids (items @ concat (map (tag_item env_id) xs)) tr')"

definition per_environment ::
  "(json \<Rightarrow> pystr) \<Rightarrow> read_client \<Rightarrow> pystr \<Rightarrow> pystr option \<Rightarrow> read_log \<Rightarrow> read_log \<times> (read_result + json list)" where
  "per_environment str c path environment_id tr =
     (case environment_id of
        Some e \<Rightarrow>
          (case check_environment e of
             Some err \<Rightarrow> (tr, Inl (Read_error BAD_ENVIRONMENT))
           | None \<Rightarrow> ask_each c path [e] [] tr)
      | None \<Rightarrow>
          (case read_list c ''environments'' [] tr of
             (tr', Inl r) \<Rightarrow> (tr', Inl r)
           | (tr', Inr es) \<Rightarrow>
               (case environment_ids str es of
                  None \<Rightarrow> (tr', Inl Read_raised)
                | Some env_ids \<Rightarrow> ask_each c path env_ids [] tr')))"

definition environment_of :: "json \<Rightarrow> pystr" where
  "environment_of item = (case json_get item ''environment_id'' of Some (JStr e) \<Rightarrow> e | _ \<Rightarrow> [])"

definition named :: "pystr \<Rightarrow> json \<Rightarrow> bool" where
  "named name item \<longleftrightarrow> json_get item ''name'' = Some (JStr name)"

definition pick_stack :: "pystr \<Rightarrow> json list \<Rightarrow> read_result" where
  "pick_stack name stacks =
     (case filter (named name) stacks of
        [] \<Rightarrow> Read_error (''no Dockhand stack named '' @ py_repr name)
      | [s] \<Rightarrow> Read_ok s
      | found \<Rightarrow> Read_error (''stack '' @ py_repr name @ '' exists in environments '' @
                   join '', '' (sort (map environment_of found)) @ '': pass environment_id''))"

datatype dockhand_read =
    Environments | Environment_detail pystr | Stacks "pystr option" | Stack_detail pystr "pystr option"
  | Containers "pystr option" "pystr option" | Pending_updates "pystr option" | Vulnerabilities "pystr option"

definition listed :: "read_log \<times> (read_result + json list) \<Rightarrow> read_log \<times> read_result" where
  "listed x = (case x of (tr, Inl r) \<Rightarrow> (tr, r) | (tr, Inr items) \<Rightarrow> (tr, Read_ok (JList items)))"

definition dockhand_containers ::
  "(json \<Rightarrow> pystr) \<Rightarrow> read_client \<Rightarrow> pystr option \<Rightarrow> pystr option \<Rightarrow> read_log \<Rightarrow> read_log \<times> (read_result + json list)" where
  "dockhand_containers str c environment_id stack_id tr =
     (case per_environment str c ''containers'' environment_id tr of
        (tr', Inr items) \<Rightarrow>
          (tr', Inr (case stack_id of None \<Rightarrow> items | Some st \<Rightarrow> filter (\<lambda>i. compose_project i = Some st) items))
      | (tr', Inl r) \<Rightarrow> (tr', Inl r))"

fun dockhand_read_call ::
  "(json \<Rightarrow> pystr) \<Rightarrow> read_client \<Rightarrow> dockhand_read \<Rightarrow> read_log \<Rightarrow> read_log \<times> read_result" where
  "dockhand_read_call str c Environments tr = listed (read_list c ''environments'' [] tr)"
| "dockhand_read_call str c (Environment_detail e) tr = read_get c (''environments/'' @ e) [] tr"
| "dockhand_read_call str c (Stacks e) tr = listed (per_environment str c ''stacks'' e tr)"
| "dockhand_read_call str c (Stack_detail name e) tr =
     (case per_environment str c ''stacks'' e tr of
        (tr', Inl r) \<Rightarrow> (tr', r)
      | (tr', Inr stacks) \<Rightarrow> (tr', pick_stack name stacks))"
| "dockhand_read_call str c (Containers e st) tr = listed (dockhand_containers str c e st tr)"
| "dockhand_read_call str c (Pending_updates e) tr = listed (per_environment str c ''containers/check-updates'' e tr)"
| "dockhand_read_call str c (Vulnerabilities container_id) tr =
     listed (read_list c ''vulnerabilities'' [(''container_id'', optional_json container_id)] tr)"

section \<open>The tools\<close>

definition dockhand_ask ::
  "(json \<Rightarrow> pystr) \<Rightarrow> settings \<Rightarrow> read_http \<Rightarrow> dockhand_read \<Rightarrow> read_log \<Rightarrow> read_log \<times> json option" where
  "dockhand_ask str s http q tr =
     (if \<not> on s ''dockhand_api_url'' \<or> \<not> on s ''dockhand_token''
      then (tr, Some (tool_error ''DOCKHAND_API_URL and DOCKHAND_TOKEN must be configured''))
      else case dockhand_read_call str (dockhand_client s http) q tr of (tr', r) \<Rightarrow> (tr', error_or r))"

definition is_detail :: "dockhand_read \<Rightarrow> bool" where
  "is_detail q = (case q of Environment_detail e \<Rightarrow> True | Stack_detail n e \<Rightarrow> True | _ \<Rightarrow> False)"

text \<open>The seven read tools: lists go under \<open>items\<close>.\<close>

definition dockhand_read_tool ::
  "(json \<Rightarrow> pystr) \<Rightarrow> settings \<Rightarrow> read_http \<Rightarrow> dockhand_read \<Rightarrow> read_log \<Rightarrow> read_log \<times> json option" where
  "dockhand_read_tool str s http q tr =
     (case dockhand_ask str s http q tr of
        (tr', v) \<Rightarrow> (tr', if is_detail q then v else map_option under_items v))"

definition dockhand_stack_resource ::
  "(json \<Rightarrow> pystr) \<Rightarrow> settings \<Rightarrow> read_http \<Rightarrow> pystr \<Rightarrow> read_log \<Rightarrow> read_log \<times> (json + json) option" where
  "dockhand_stack_resource str s http name tr =
     (case dockhand_ask str s http (Stack_detail name None) tr of
        (tr', v) \<Rightarrow> (tr', map_option resource_or_raise v))"

section \<open>What a listing says\<close>

lemma tag_item_environment: "i \<in> set (tag_item e v) \<Longrightarrow> json_get i ''environment_id'' = Some (JStr e)"
  by (cases v) (auto simp: update_conv)

text \<open>The parameters of the requests a piece of a log holds.\<close>

definition asked :: "read_log \<Rightarrow> (pystr \<times> json) list list" where
  "asked tr = map (\<lambda>(rq, a). rr_params rq) (attempts tr)"

lemma asked_append [simp]: "asked (a @ b) = asked a @ asked b"
  by (simp add: asked_def)

lemma read_get_params:
  assumes "read_get c path params tr = (tr', r)"
  shows "\<exists>new. tr' = tr @ new \<and> set (asked new) \<subseteq> {filter (\<lambda>(k, v). v \<noteq> JNull) params}"
proof -
  obtain new where "tr' = tr @ new"
    "\<forall>(rq, a) \<in> set (attempts new). rq =
       \<lparr>rr_url = request_url c path, rr_params = filter (\<lambda>(k, v). v \<noteq> JNull) params\<rparr>"
    using read_tries_attempts [OF assms [unfolded read_get_def]] by blast
  then show ?thesis by (intro exI [of _ new]) (auto simp: asked_def)
qed

lemma ask_each_params:
  assumes "ask_each c path es items tr = (tr', r)"
  shows "\<exists>new. tr' = tr @ new \<and> set (asked new) \<subseteq> (\<lambda>e. [(''env'', JStr e)]) ` set es"
  using assms
proof (induction es arbitrary: items tr)
  case (Cons e es)
  obtain tr1 a where first: "read_get c path [(''env'', JStr e)] tr = (tr1, a)" by fastforce
  obtain new where new: "tr1 = tr @ new" "set (asked new) \<subseteq> {[(''env'', JStr e)]}"
    using read_get_params [OF first] by auto
  show ?case
  proof (cases a)
    case (Read_ok v)
    then have "ask_each c path es (items @ concat (map (tag_item e) (dockhand_list v))) tr1 = (tr', r)"
      using Cons.prems first by (simp add: read_list_def)
    from Cons.IH [OF this] obtain later where "tr' = tr1 @ later"
      "set (asked later) \<subseteq> (\<lambda>e. [(''env'', JStr e)]) ` set es" by blast
    then show ?thesis using new by (intro exI [of _ "new @ later"]) auto
  qed (use Cons.prems first new in \<open>auto simp: read_list_def intro!: exI [of _ new]\<close>)
qed (simp add: asked_def)

lemma ask_each_tags:
  assumes "ask_each c path es items tr = (tr', Inr out)"
  shows "set out \<subseteq> set items \<union> {i. \<exists>e \<in> set es. json_get i ''environment_id'' = Some (JStr e)}"
  using assms
proof (induction es arbitrary: items tr)
  case (Cons e es)
  obtain tr1 xs where "ask_each c path es (items @ concat (map (tag_item e) xs)) tr1 = (tr', Inr out)"
    using Cons.prems by (auto split: prod.splits sum.splits)
  from Cons.IH [OF this] show ?case by (auto dest: tag_item_environment)
qed simp

text \<open>
  Dockhand answers a list of another environment, or an empty one, when the environment is left
  out. A listing for one environment sends requests that all name it, an id that is not one to
  nine digits sends none, and every item that comes back says the environment it was read from.
\<close>
theorem listing_names_environment:
  "(\<not> environment_id_ok e \<longrightarrow> per_environment str c path (Some e) tr = (tr, Inl (Read_error BAD_ENVIRONMENT))) \<and>
   (\<forall>tr' r. per_environment str c path (Some e) tr = (tr', r) \<longrightarrow>
      (\<exists>new. tr' = tr @ new \<and> set (asked new) \<subseteq> {[(''env'', JStr e)]}) \<and>
      (\<forall>items i. r = Inr items \<and> i \<in> set items \<longrightarrow> json_get i ''environment_id'' = Some (JStr e))) \<and>
   (\<forall>tr' items i. per_environment str c path None tr = (tr', Inr items) \<and> i \<in> set items \<longrightarrow>
      (\<exists>found ids e. snd (read_list c ''environments'' [] tr) = Inr found \<and>
         environment_ids str found = Some ids \<and> e \<in> set ids \<and>
         json_get i ''environment_id'' = Some (JStr e)))"
proof (intro conjI allI impI)
  fix tr' r
  assume run: "per_environment str c path (Some e) tr = (tr', r)"
  show "\<exists>new. tr' = tr @ new \<and> set (asked new) \<subseteq> {[(''env'', JStr e)]}"
  proof (cases "check_environment e")
    case None
    then have "ask_each c path [e] [] tr = (tr', r)" using run by (simp add: per_environment_def)
    from ask_each_params [OF this] show ?thesis by simp
  qed (use run in \<open>simp add: per_environment_def asked_def\<close>)
  fix items i
  assume "r = Inr items \<and> i \<in> set items"
  moreover from this have "ask_each c path [e] [] tr = (tr', Inr items)"
    using run by (simp add: per_environment_def split: option.splits)
  ultimately show "json_get i ''environment_id'' = Some (JStr e)" using ask_each_tags by fastforce
next
  fix tr' items i
  assume run: "per_environment str c path None tr = (tr', Inr items) \<and> i \<in> set items"
  then obtain tr1 found ids where "read_list c ''environments'' [] tr = (tr1, Inr found)"
    "environment_ids str found = Some ids" "ask_each c path ids [] tr1 = (tr', Inr items)"
    by (auto simp: per_environment_def split: prod.splits sum.splits option.splits)
  then show "\<exists>found ids e. snd (read_list c ''environments'' [] tr) = Inr found \<and>
      environment_ids str found = Some ids \<and> e \<in> set ids \<and> json_get i ''environment_id'' = Some (JStr e)"
    using run ask_each_tags by fastforce
qed (simp add: per_environment_def check_environment_def)

text \<open>A stack is only returned when it is the one of that name in the listing.\<close>

theorem stack_unambiguous:
  "pick_stack name stacks = Read_ok s \<longleftrightarrow> filter (named name) stacks = [s]"
  by (auto simp: pick_stack_def split: list.splits)

text \<open>
  The ids of the two writes are checked before they go into a path; the id of
  \<open>get_environment\<close> is not, so a tool that reads one environment can be made to read any other path.
\<close>

theorem environment_path_unchecked:
  "\<not> environment_id_ok ''1/../../settings'' \<and>
   fst (dockhand_read_call str (new_client Dockhand ''http://dockhand'' 1 (\<lambda>tr rq. Got 200 [] (Some JNull)))
     (Environment_detail ''1/../../settings'') []) =
   [Sent \<lparr>rr_url = ''http://dockhand/api/environments/1/../../settings'', rr_params = []\<rparr> (Got 200 [] (Some JNull))]"
  by (simp add: environment_id_ok_def is_ascii_digit_def read_get_def new_client_def request_url_def rstrip_by_def lstrip_by_def
      Let_def)

end
