(* ===== verification/ProposalTools.thy ===== *)
theory ProposalTools
  imports Server DiscoveryEngine ProposalProps
begin

text \<open>
  \<open>tools/proposal.py\<close>, the relay to the documentation server (\<open>integrations/docs\<close>) and
  \<open>seed.py\<close>: the proposal tools on the engines of the other theories, what the relay makes of
  an answer, and the registry after a seed file. The session with the documentation server
  and the YAML reader are parameters.
\<close>

section \<open>The proposal tools\<close>

text \<open>\<open>Tool_refused\<close> is the error of a server in read-only mode.\<close>

datatype 'r tool_outcome = Tool_refused | Tool_ran 'r

definition tool_proposal_create ::
  "bool \<Rightarrow> proposal_settings \<Rightarrow> oracles \<Rightarrow> registry \<Rightarrow> pystr \<Rightarrow> pworld \<Rightarrow> pworld \<times> create_reply tool_outcome" where
  "tool_proposal_create read_only st g rg sid w =
     (if read_only then (w, Tool_refused)
      else case create_for_service st g rg sid ''manual:proposal_create'' w of (w', r) \<Rightarrow> (w', Tool_ran r))"

definition tool_proposal_list_open :: "pworld \<Rightarrow> proposal list" where
  "tool_proposal_list_open w = list_open False (pw_rows w)"

definition tool_proposal_get :: "pystr \<Rightarrow> pworld \<Rightarrow> proposal option" where
  "tool_proposal_get i w = proposal_get i (pw_rows w)"

definition tool_proposal_cancel ::
  "bool \<Rightarrow> proposal_settings \<Rightarrow> oracles \<Rightarrow> pystr \<Rightarrow> pworld \<Rightarrow> pworld \<times> proposal option tool_outcome" where
  "tool_proposal_cancel read_only st g i w =
     (if read_only then (w, Tool_refused)
      else case cancel_proposal st g i w of (w', r) \<Rightarrow> (w', Tool_ran r))"

text \<open>
  \<open>DiscoveryEngine.run_all\<close>: every source in turn. Other tasks may change the registry while a
  source and the reasoning are awaited (\<open>sa_between\<close>).
\<close>

record source_attempt =
  sa_source :: source_type
  sa_run :: source_run
  sa_raised :: pystr
  sa_started :: instant
  sa_now :: instant
  sa_finished :: instant
  sa_between :: "registry \<Rightarrow> registry"

record discovery_setup =
  ds_env :: env
  ds_bracket_ok :: "pystr \<Rightarrow> bool"
  ds_reasoner :: "reasoner option"
  ds_threshold :: int

definition run_attempt :: "discovery_setup \<Rightarrow> source_attempt \<Rightarrow> registry \<Rightarrow> registry" where
  "run_attempt d a rg =
     fst (discover_pass (ds_env d) (ds_bracket_ok d) (ds_reasoner d) (sa_source a) (ds_threshold d) (sa_run a)
            (sa_raised a) (sa_started a) (sa_now a) (sa_finished a) rg (sa_between a rg))"

definition run_all :: "discovery_setup \<Rightarrow> source_attempt list \<Rightarrow> registry \<Rightarrow> registry" where
  "run_all d attempts rg = fold (run_attempt d) attempts rg"

text \<open>
  \<open>proposal_verify\<close>; \<open>hook_runs\<close>: the hook after a pass is set and no other pass holds its lock.
\<close>

record verdict =
  vd_service :: pystr
  vd_conflict :: bool
  vd_verified :: bool

definition tool_proposal_verify ::
  "discovery_setup \<Rightarrow> source_attempt list \<Rightarrow> bool \<Rightarrow> proposal_settings \<Rightarrow> oracles \<Rightarrow> pystr \<Rightarrow>
     registry \<Rightarrow> pworld \<Rightarrow> registry \<times> pworld \<times> verdict option" where
  "tool_proposal_verify d attempts hook_runs st g sid rg w =
     (let rg' = run_all d attempts rg;
          w1 = (if hook_runs then after_discovery st g rg' w else w);
          w2 = fst (sweep_verifications g rg' w1)
      in (rg', w2,
          map_option (\<lambda>s. \<lparr>vd_service = svc_name s, vd_conflict = svc_auth_mode_conflict s,
                           vd_verified = (\<not> svc_auth_mode_conflict s)\<rparr>) (get_service sid rg')))"

definition tool_proposal_normalize ::
  "bool \<Rightarrow> round_trip \<Rightarrow> yaml_lib \<Rightarrow> norm_oracles \<Rightarrow> norm_settings \<Rightarrow> bool \<Rightarrow> pystr option \<Rightarrow> bool option
     \<Rightarrow> pworld \<Rightarrow> pworld \<times> sweep_reply tool_outcome" where
  "tool_proposal_normalize read_only R L g st busy only dry_run w =
     (if read_only then (w, Tool_refused)
      else case run_sweep R L g st busy only dry_run ''manual:proposal_normalize'' w of (w', r) \<Rightarrow> (w', Tool_ran r))"

section \<open>The documentation relay\<close>

text \<open>An exception: its type, its text and its \<open>repr\<close>; or a group of them.\<close>

datatype exception = Leaf pystr pystr pystr | Group "exception list"

fun describe_failure :: "exception \<Rightarrow> pystr" where
  "describe_failure (Group es) = join ''; '' (map describe_failure es)"
| "describe_failure (Leaf kind shown r) = kind @ '': '' @ (if shown = [] then r else shown)"

text \<open>A result of the server's tool: its error mark and the texts of its content items.\<close>

datatype docs_answer = Docs_raised exception | Docs_result bool "pystr option list"

record docs_request =
  dq_service :: pystr
  dq_version :: pystr
  dq_topic :: "pystr option"

definition docs_arguments :: "docs_request \<Rightarrow> (pystr \<times> pystr) list" where
  "docs_arguments q =
     [(''service_name'', dq_service q), (''version'', dq_version q)] @
     (case dq_topic q of None \<Rightarrow> [] | Some t \<Rightarrow> [(''topic'', t)])"

definition get_homelab_docs :: "((pystr \<times> pystr) list \<Rightarrow> docs_answer) \<Rightarrow> docs_request \<Rightarrow> pystr + pystr" where
  "get_homelab_docs call q =
     (case call (docs_arguments q) of
        Docs_raised e \<Rightarrow> Inl (''documentation-mcp request failed: '' @ describe_failure e)
      | Docs_result failed content \<Rightarrow>
          if failed then Inl ''documentation-mcp returned an error or empty result''
          else case content of
            [] \<Rightarrow> Inl ''documentation-mcp returned an error or empty result''
          | None # _ \<Rightarrow> Inl ''documentation-mcp returned a non-text content item''
          | Some t # _ \<Rightarrow> Inr t)"

definition ERROR_PREFIXES :: "pystr list" where
  "ERROR_PREFIXES =
     [''CRITICAL:'', ''ERROR: Missing required parameters'', ''ERROR: Official documentation not found locally'']"

text \<open>The reply: \<open>Inl\<close> is under \<open>error\<close>, \<open>Inr\<close> under \<open>content\<close>.\<close>

definition get_service_documentation ::
  "settings \<Rightarrow> ((pystr \<times> pystr) list \<Rightarrow> docs_answer) \<Rightarrow> docs_request \<Rightarrow> pystr + pystr" where
  "get_service_documentation s call q =
     (if \<not> docs_client s then Inl ''DOCS_MCP_URL and DOCS_MCP_TOKEN must be configured''
      else case get_homelab_docs call q of
        Inl e \<Rightarrow> Inl e
      | Inr t \<Rightarrow> if list_ex (starts_with t) ERROR_PREFIXES then Inl t else Inr t)"

section \<open>The seed\<close>

definition load_services :: "json \<Rightarrow> json list option" where
  "load_services data =
     (let found = (case data of JObj kvs \<Rightarrow> (case map_of kvs ''services'' of None \<Rightarrow> JList [] | Some v \<Rightarrow> v) | v \<Rightarrow> v)
      in case found of JList xs \<Rightarrow> Some xs | _ \<Rightarrow> None)"

text \<open>
  An entry of the list: its name (empty when it has none), the service it constructs (entries
  that set no \<open>id\<close>) and the updates it makes to one that exists.
\<close>

record seed_entry =
  sd_name :: pystr
  sd_service :: service
  sd_updates :: "field_update list"

datatype seed_error = Seed_unnamed | Seed_duplicate

fun seed_from ::
  "env \<Rightarrow> seed_entry list \<Rightarrow> nat \<Rightarrow> nat \<Rightarrow> registry \<Rightarrow> registry \<times> (seed_error + nat \<times> nat)" where
  "seed_from e [] made changed rg = (rg, Inr (made, changed))"
| "seed_from e (x # xs) made changed rg =
     (if sd_name x = [] then (rg, Inl Seed_unnamed)
      else case get_service (sd_name x) rg of
        None \<Rightarrow>
          (case create_service e ((sd_service x)\<lparr>svc_name := sd_name x\<rparr>) ''manual:seed'' rg of
             (rg', Inl err) \<Rightarrow> (rg', Inl Seed_duplicate)
           | (rg', Inr s) \<Rightarrow> seed_from e xs (Suc made) changed rg')
      | Some s \<Rightarrow>
          seed_from e xs made (Suc changed) (fst (update_service e (svc_id s) (sd_updates x) ''manual:seed'' rg)))"

definition seed :: "env \<Rightarrow> seed_entry list \<Rightarrow> registry \<Rightarrow> registry \<times> (seed_error + nat \<times> nat)" where
  "seed e xs rg = seed_from e xs 0 0 rg"

section \<open>What holds of the tools\<close>

text \<open>
  A server in read-only mode changes no row and makes no call to Git through a proposal tool,
  and otherwise the tools keep what holds of the engine: every branch, commit and pull request
  is in the configured repository and off its base, and no service gets a second open
  proposal for a finding.
\<close>
theorem proposal_tools_keep_engine:
  "tool_proposal_create True st g rg sid w = (w, Tool_refused)"
  "tool_proposal_cancel True st g sid w = (w, Tool_refused)"
  "tool_proposal_normalize True R L ng nst busy only dry w = (w, Tool_refused)"
  "trace_safe st w \<Longrightarrow> trace_safe st (fst (tool_proposal_create b st g rg sid w)) \<and>
     trace_safe st (fst (tool_proposal_cancel b st g sid w)) \<and>
     trace_safe st (fst (snd (tool_proposal_verify d attempts hooked st g sid rg w)))"
  "rows_ok g w \<Longrightarrow> inj (go_uuid g) \<Longrightarrow> rows_ok g (fst (tool_proposal_create b st g rg sid w)) \<and>
     rows_ok g (fst (tool_proposal_cancel b st g sid w)) \<and>
     rows_ok g (fst (snd (tool_proposal_verify d attempts hooked st g sid rg w)))"
  using engine_step_safe [of st w g "Create_service rg sid ''manual:proposal_create''"]
    engine_step_ok [of g w st "Create_service rg sid ''manual:proposal_create''"]
    after_discovery_safe [of st w g "run_all d attempts rg"] after_discovery_ok [of g w st "run_all d attempts rg"]
    cancel_safe [of st w g sid] cancel_ok [of g w st sid] sweep_safe sweep_ok
  by (auto simp: tool_proposal_create_def tool_proposal_cancel_def tool_proposal_normalize_def
      tool_proposal_verify_def Let_def split: prod.splits)

text \<open>
  \<open>proposal_verify\<close> runs a discovery pass for its verdict but does not look at how it went: when
  every source fails, it answers from the flag as it was before, \<open>verified\<close> included.
\<close>

lemma services_discovery_event: "rg_services (record_discovery_event e src t0 t1 st n err rg) = rg_services rg"
  by (simp add: record_discovery_event_def)

lemma failed_attempt:
  "sa_run a = Source_raised why \<Longrightarrow> sa_between a = id \<Longrightarrow> rg_services (run_attempt d a rg) = rg_services rg"
  by (simp add: run_attempt_def discover_pass_def services_discovery_event)

lemma failed_attempts:
  "\<forall>a \<in> set attempts. sa_between a = id \<and> (\<exists>why. sa_run a = Source_raised why) \<Longrightarrow>
     rg_services (run_all d attempts rg) = rg_services rg"
  unfolding run_all_def by (induction attempts arbitrary: rg) (auto simp: failed_attempt)

theorem verify_without_discovery:
  assumes "\<forall>a \<in> set attempts. sa_between a = id \<and> (\<exists>why. sa_run a = Source_raised why)"
    and "get_service sid rg = Some s"
  shows "snd (snd (tool_proposal_verify d attempts hooked st g sid rg w)) =
    Some \<lparr>vd_service = svc_name s, vd_conflict = svc_auth_mode_conflict s, vd_verified = (\<not> svc_auth_mode_conflict s)\<rparr>"
proof -
  have "get_service sid (run_all d attempts rg) = Some s"
    using assms(2) unfolding get_service_def failed_attempts [OF assms(1), of d rg] .
  then show ?thesis by (simp add: tool_proposal_verify_def Let_def)
qed

section \<open>What holds of the relay\<close>

text \<open>
  Content is only what the server's tool returned as its first text without an error, exactly as it
  was, and never one of the server's own failure texts.
\<close>
theorem documentation_relayed_verbatim:
  "get_service_documentation s call q = Inr t \<longleftrightarrow>
     docs_client s \<and> (\<exists>rest. call (docs_arguments q) = Docs_result False (Some t # rest)) \<and>
     \<not> list_ex (starts_with t) ERROR_PREFIXES"
  by (auto simp: get_service_documentation_def get_homelab_docs_def
      split: sum.splits docs_answer.splits if_splits list.splits option.splits)

text \<open>The causes of a failure are all named: those of a group inside a group too.\<close>

fun leaves :: "exception \<Rightarrow> pystr list" where
  "leaves (Group es) = concat (map leaves es)"
| "leaves (Leaf kind shown r) = [kind @ '': '' @ (if shown = [] then r else shown)]"

lemma contains_join: "t \<in> set ts \<Longrightarrow> \<exists>a b. join sep ts = a @ t @ b"
proof (induction sep ts rule: join.induct)
  case (3 sep x y ys)
  show ?case
  proof (cases "t = x")
    case True
    then show ?thesis by (intro exI [of _ "[]"] exI [of _ "sep @ join sep (y # ys)"]) simp
  next
    case False
    then obtain a b where "join sep (y # ys) = a @ t @ b" using 3 by auto
    then have "join sep (x # y # ys) = (x @ sep @ a) @ t @ b" by simp
    then show ?thesis by blast
  qed
qed (auto intro: exI [of _ "[]"])

theorem every_cause_named: "t \<in> set (leaves e) \<Longrightarrow> \<exists>a b. describe_failure e = a @ t @ b"
proof (induction e)
  case (Group es)
  then obtain x where x: "x \<in> set es" "t \<in> set (leaves x)" by auto
  obtain a b where "describe_failure x = a @ t @ b" using Group.IH [OF x] by auto
  moreover obtain c d where "join ''; '' (map describe_failure es) = c @ describe_failure x @ d"
    using contains_join [of "describe_failure x" "map describe_failure es"] x(1) by fastforce
  ultimately show ?case by (intro exI [of _ "c @ a"] exI [of _ "b @ d"]) simp
qed (intro exI [of _ "[]"], simp)

section \<open>What holds of the seed\<close>

text \<open>What \<open>get_service\<close> finds: the ids and the names.\<close>

definition known :: "registry \<Rightarrow> pystr set" where
  "known rg = svc_id ` set (rg_services rg) \<union> svc_name ` set (rg_services rg)"

lemma get_service_known: "get_service n rg = None \<longleftrightarrow> n \<notin> known rg"
  by (auto simp: known_def get_service_def find_None_iff get_row_None_iff dest: get_row_SomeD split: option.splits)

lemma known_put_service:
  assumes "\<And>s. svc_name (f s) = svc_name s" "\<And>s. svc_id (f s) = svc_id s"
  shows "known (put_service i f rg) = known rg"
proof -
  have "map svc_name (put_row svc_id i f t) = map svc_name t" "map svc_id (put_row svc_id i f t) = map svc_id t" for t
    using assms by (simp_all add: put_row_def)
  from this [of "rg_services rg", THEN arg_cong [where f = set]] show ?thesis by (simp add: known_def)
qed

lemma known_update_step: "known (update_step e i actor u rg) = known rg"
proof -
  have "known (record_change e i a b c d rg') = known rg'" for a b c d rg'
    by (simp add: record_change_def known_def)
  then show ?thesis by (auto simp: update_step_def known_put_service split: option.splits)
qed

lemma known_update: "known (fst (update_service e i us actor rg)) = known rg"
proof -
  have "known (fold (update_step e i actor) us rg) = known rg"
    by (induction us arbitrary: rg) (simp_all add: known_update_step)
  then show ?thesis by (simp add: update_service_def Let_def known_put_service split: option.splits)
qed

lemma known_create:
  assumes "svc_name s \<notin> known rg"
  shows "\<exists>rg' s'. create_service e s actor rg = (rg', Inr s') \<and> insert (svc_name s) (known rg) \<subseteq> known rg'"
  using assms
  by (auto simp: create_service_def known_def Let_def record_change_def add_source_def add_service_def)

text \<open>One named entry: it is known afterwards, and nothing known is lost.\<close>

lemma seed_step:
  assumes "sd_name x \<noteq> []"
  obtains rg1 n where "\<forall>xs. seed_from e (x # xs) made changed rg = seed_from e xs (made + n) (changed + (1 - n)) rg1"
    "n \<le> 1" "insert (sd_name x) (known rg) \<subseteq> known rg1"
    "sd_name x \<in> known rg \<longrightarrow> n = 0 \<and> known rg1 = known rg"
proof (cases "sd_name x \<in> known rg")
  case False
  then obtain rg1 s where new: "create_service e ((sd_service x)\<lparr>svc_name := sd_name x\<rparr>) ''manual:seed'' rg = (rg1, Inr s)"
    "insert (sd_name x) (known rg) \<subseteq> known rg1"
    using known_create [of "(sd_service x)\<lparr>svc_name := sd_name x\<rparr>" rg e "''manual:seed''"] by auto
  have "get_service (sd_name x) rg = None" using False by (simp add: get_service_known)
  then show ?thesis using assms False new by (intro that [of 1 rg1]) simp_all
next
  case True
  then obtain s where "get_service (sd_name x) rg = Some s" using get_service_known by fastforce
  then show ?thesis using assms True
    by (intro that [of 0 "fst (update_service e (svc_id s) (sd_updates x) ''manual:seed'' rg)"])
      (simp_all add: known_update)
qed

lemma seed_result:
  assumes "seed_from e xs made changed rg = (rg', Inr (c, u))"
  shows "c + u = made + changed + length xs \<and> sd_name ` set xs \<subseteq> known rg' - {[]} \<and> known rg \<subseteq> known rg'"
  using assms
proof (induction xs arbitrary: made changed rg)
  case (Cons x xs)
  have "sd_name x \<noteq> []" using Cons.prems by auto
  then obtain rg1 n where step: "\<forall>xs. seed_from e (x # xs) made changed rg = seed_from e xs (made + n) (changed + (1 - n)) rg1"
    "n \<le> 1" "insert (sd_name x) (known rg) \<subseteq> known rg1" by (rule seed_step)
  have "seed_from e xs (made + n) (changed + (1 - n)) rg1 = (rg', Inr (c, u))" using Cons.prems step(1) by simp
  from Cons.IH [OF this] show ?case using step \<open>sd_name x \<noteq> []\<close> by auto
qed simp

lemma seed_known:
  assumes "sd_name ` set xs \<subseteq> known rg - {[]}"
  shows "\<exists>rg'. seed_from e xs made changed rg = (rg', Inr (made, changed + length xs)) \<and> known rg' = known rg"
  using assms
proof (induction xs arbitrary: changed rg)
  case (Cons x xs)
  then have "sd_name x \<noteq> []" by auto
  then obtain rg1 n where step: "\<forall>xs. seed_from e (x # xs) made changed rg = seed_from e xs (made + n) (changed + (1 - n)) rg1"
    "sd_name x \<in> known rg \<longrightarrow> n = 0 \<and> known rg1 = known rg" by (rule seed_step)
  then have "known rg1 = known rg" "n = 0" using Cons.prems by auto
  then show ?case using Cons.IH [of rg1 "Suc changed"] Cons.prems step(1) by auto
qed simp

text \<open>
  A seed file can be applied again: after a seed that went through, every entry is in the registry
  and nothing that was there is gone, and the same file (or any with the same names) then creates
  nothing and updates each of its entries. A seed stops only at an entry without a name, with the
  entries before it already stored.
\<close>
theorem seed_idempotent:
  "seed e xs rg = (rg', Inr (c, u)) \<Longrightarrow> c + u = length xs \<and> known rg \<subseteq> known rg' \<and>
     (\<exists>rg''. seed e2 xs rg' = (rg'', Inr (0, length xs)) \<and> known rg'' = known rg')"
  "seed e xs rg = (rg', Inl err) \<Longrightarrow> err = Seed_unnamed \<and>
     (\<exists>ys z zs r. xs = ys @ z # zs \<and> sd_name z = [] \<and> seed e ys rg = (rg', Inr r))"
proof -
  assume "seed e xs rg = (rg', Inr (c, u))"
  then have "c + u = 0 + 0 + length xs \<and> sd_name ` set xs \<subseteq> known rg' - {[]} \<and> known rg \<subseteq> known rg'"
    unfolding seed_def by (rule seed_result)
  then show "c + u = length xs \<and> known rg \<subseteq> known rg' \<and>
     (\<exists>rg''. seed e2 xs rg' = (rg'', Inr (0, length xs)) \<and> known rg'' = known rg')"
    using seed_known [of xs rg' e2 0 0] by (simp add: seed_def)
next
  have stops: "err = Seed_unnamed \<and> (\<exists>ys z zs r. xs = ys @ z # zs \<and> sd_name z = [] \<and>
      seed_from e ys made changed rg = (rg', Inr r))" if "seed_from e xs made changed rg = (rg', Inl err)" for made changed
    using that
  proof (induction xs arbitrary: made changed rg)
    case (Cons x xs)
    show ?case
    proof (cases "sd_name x = []")
      case True
      then show ?thesis using Cons.prems by (intro conjI exI [of _ "[]"] exI [of _ x] exI [of _ xs]) auto
    next
      case False
      then obtain rg1 n where step:
        "\<forall>xs. seed_from e (x # xs) made changed rg = seed_from e xs (made + n) (changed + (1 - n)) rg1"
        by (rule seed_step)
      have "seed_from e xs (made + n) (changed + (1 - n)) rg1 = (rg', Inl err)" using Cons.prems step by simp
      from Cons.IH [OF this] obtain ys z zs r where "err = Seed_unnamed" "xs = ys @ z # zs" "sd_name z = []"
        "seed_from e ys (made + n) (changed + (1 - n)) rg1 = (rg', Inr r)" by auto
      then show ?thesis using step [rule_format, of ys] by (intro conjI exI [of _ "x # ys"] exI [of _ z] exI [of _ zs]) auto
    qed
  qed simp
  assume "seed e xs rg = (rg', Inl err)"
  then show "err = Seed_unnamed \<and> (\<exists>ys z zs r. xs = ys @ z # zs \<and> sd_name z = [] \<and> seed e ys rg = (rg', Inr r))"
    unfolding seed_def by (rule stops)
qed

end
